(* ===== verification/Go_Prelude.thy ===== *)
theory Go_Prelude
  imports Main "HOL-Library.Finite_Map"
begin

text \<open>
  Shared vocabulary of the development: Go strings, Go maps (with \<open>nil\<close>), error values,
  and the shape of a handler that talks to an API server.
  \<^item> A Go \<open>string\<close> is a list of bytes (\<open>char\<close>), so \<open>length\<close> is Go's \<open>len\<close>.
  \<^item> A Go \<open>map\<close> is a finite map or \<open>nil\<close>: reading \<open>nil\<close> finds nothing, writing it panics,
    and \<open>reflect.DeepEqual\<close> tells \<open>nil\<close> from the empty map, so equality of the model's type is
    \<open>DeepEqual\<close>.
  \<^item> An error is known by the three observations the code makes of it.
  \<^item> A handler runs against a history of API calls.  The server is a parameter: a function from
    the history of the calls made so far to the answer, so a theorem about every such function is
    a theorem about every behaviour of the server.
\<close>

named_theorems io_simps \<open>unfolding of the handler combinators on a history\<close>
named_theorems emits_intros \<open>compositional rules for the calls a handler can make\<close>
named_theorems key_simps \<open>definitions of the label and annotation keys\<close>


section \<open>Strings (package strings)\<close>

definition HasPrefix :: "string \<Rightarrow> string \<Rightarrow> bool" where
  "HasPrefix s p \<longleftrightarrow> take (length p) s = p"

fun Contains :: "string \<Rightarrow> string \<Rightarrow> bool" where
  "Contains [] sub \<longleftrightarrow> sub = []"
| "Contains (c # s) sub \<longleftrightarrow> HasPrefix (c # s) sub \<or> Contains s sub"

text \<open>\<open>strings.Split\<close> for a separator of one byte, and \<open>strings.Join\<close>.\<close>

fun Split :: "char \<Rightarrow> string \<Rightarrow> string list" where
  "Split c [] = [[]]"
| "Split c (x # xs) =
     (if x = c then [] # Split c xs
      else case Split c xs of [] \<Rightarrow> [[x]] | y # ys \<Rightarrow> (x # y) # ys)"

fun Join :: "string \<Rightarrow> string list \<Rightarrow> string" where
  "Join sep [] = []"
| "Join sep [x] = x"
| "Join sep (x # y # ys) = x @ sep @ Join sep (y # ys)"


section \<open>Maps\<close>

type_synonym ('k, 'v) gomap = "('k, 'v) fmap option"
type_synonym stringmap = "(string, string) gomap"

text \<open>\<open>v, ok := m[k]\<close>, and \<open>m[k]\<close> for string values (the zero value is the empty string).\<close>

definition mlookup :: "('k, 'v) gomap \<Rightarrow> 'k \<Rightarrow> 'v option" where
  "mlookup m k = (case m of None \<Rightarrow> None | Some f \<Rightarrow> fmlookup f k)"

definition mget :: "('k, string) gomap \<Rightarrow> 'k \<Rightarrow> string" where
  "mget m k = (case mlookup m k of None \<Rightarrow> [] | Some v \<Rightarrow> v)"

text \<open>\<open>if m == nil { m = map[...]... {} }\<close>, and the entries of a map.\<close>

definition nonnil :: "('k, 'v) gomap \<Rightarrow> ('k, 'v) fmap" where
  "nonnil m = (case m of None \<Rightarrow> fmempty | Some f \<Rightarrow> f)"

text \<open>
  \<open>for k, v := range src { dst[k] = v }\<close>.  A range visits every entry once in an order the
  language leaves open; as each iteration writes its own key, the result is the same for every
  order (\<open>range_copy\<close> below), so the loop is written as its result.
\<close>

definition copyInto :: "('k, 'v) fmap \<Rightarrow> ('k, 'v) gomap \<Rightarrow> ('k, 'v) fmap" where
  "copyInto dst src = dst ++\<^sub>f nonnil src"

text \<open>A list of entries is a possible order of a range over a map.\<close>

definition is_range :: "('k \<times> 'v) list \<Rightarrow> ('k, 'v) fmap \<Rightarrow> bool" where
  "is_range xs m \<longleftrightarrow> distinct (map fst xs) \<and> fmap_of_list xs = m"


section \<open>Errors and handlers\<close>

record error =
  Error :: string
  IsNotFound :: bool
  IsAlreadyExists :: bool

text \<open>\<open>fmt.Errorf\<close> with \<open>%v\<close> keeps the text of an error and drops what it wraps.\<close>

definition Errorf :: "string \<Rightarrow> error" where
  "Errorf s = \<lparr>Error = s, IsNotFound = False, IsAlreadyExists = False\<rparr>"

text \<open>A call returns a value, returns an error, or panics.\<close>

datatype 'a outcome = Ret 'a | Fail error | Panic

type_synonym ('e, 'a) io = "'e list \<Rightarrow> 'a outcome \<times> 'e list"

definition ret :: "'a \<Rightarrow> ('e, 'a) io" where
  "ret x = (\<lambda>h. (Ret x, h))"

definition fail :: "error \<Rightarrow> ('e, 'a) io" where
  "fail e = (\<lambda>h. (Fail e, h))"

definition panic :: "('e, 'a) io" where
  "panic = (\<lambda>h. (Panic, h))"

definition bindM :: "('e, 'a) io \<Rightarrow> ('a \<Rightarrow> ('e, 'b) io) \<Rightarrow> ('e, 'b) io" where
  "bindM m f = (\<lambda>h. case m h of
      (Ret x, h') \<Rightarrow> f x h'
    | (Fail e, h') \<Rightarrow> (Fail e, h')
    | (Panic, h') \<Rightarrow> (Panic, h'))"

text \<open>An API call: the server answers from the history, and the call is appended to it.\<close>

definition call :: "('e list \<Rightarrow> 'a) \<Rightarrow> 'e \<Rightarrow> ('e, 'a) io" where
  "call answer e = (\<lambda>h. (Ret (answer h), h @ [e]))"

text \<open>\<open>x, err := ...; if err != nil { return nil, err }\<close>\<close>

definition tryM :: "error + 'a \<Rightarrow> ('e, 'a) io" where
  "tryM r = (case r of Inl e \<Rightarrow> fail e | Inr x \<Rightarrow> ret x)"

text \<open>\<open>utilruntime.Must(err)\<close> after a function that may fail.\<close>

definition must :: "'a option \<Rightarrow> ('e, 'a) io" where
  "must r = (case r of None \<Rightarrow> panic | Some x \<Rightarrow> ret x)"

text \<open>\<open>m[k] = v\<close>: a write to \<open>nil\<close> panics.\<close>

definition mwrite :: "('k, 'v) gomap \<Rightarrow> 'k \<Rightarrow> 'v \<Rightarrow> ('e, ('k, 'v) gomap) io" where
  "mwrite m k v = (case m of None \<Rightarrow> panic | Some f \<Rightarrow> ret (Some (fmupd k v f)))"

text \<open>The error of a computation as a value, for \<open>if err := ...; err != nil\<close> around a whole loop.\<close>

definition attempt :: "('e, 'a) io \<Rightarrow> ('e, error + 'a) io" where
  "attempt m = (\<lambda>h. case m h of
     (Ret x, h') \<Rightarrow> (Ret (Inr x), h') | (Fail e, h') \<Rightarrow> (Ret (Inl e), h') | (Panic, h') \<Rightarrow> (Panic, h'))"

text \<open>\<open>defer\<close>: the calls of a deferred function are made on every way out, a panic included.\<close>

definition deferM :: "'e list \<Rightarrow> ('e, 'a) io \<Rightarrow> ('e, 'a) io" where
  "deferM calls m = (\<lambda>h. case m h of (r, h') \<Rightarrow> (r, h' @ calls))"

text \<open>Every call the handler makes, whatever the server answers, satisfies \<open>P\<close>.\<close>

definition emits :: "('e \<Rightarrow> bool) \<Rightarrow> ('e, 'a) io \<Rightarrow> bool" where
  "emits P m \<longleftrightarrow> (\<forall>h. \<exists>es. snd (m h) = h @ es \<and> list_all P es)"


section \<open>Lemmas on strings\<close>

lemma HasPrefix_append [simp]: "HasPrefix (p @ s) p"
  by (simp add: HasPrefix_def)

lemma HasPrefix_iff: "HasPrefix s p \<longleftrightarrow> (\<exists>t. s = p @ t)"
  by (metis HasPrefix_def HasPrefix_append append_take_drop_id)

lemma Split_nonempty [simp]: "Split c s \<noteq> []"
  by (induction s) (auto split: list.splits)

lemma Split_no_sep: "c \<notin> set s \<Longrightarrow> Split c s = [s]"
  by (induction s) auto

lemma Split_append: "c \<notin> set s \<Longrightarrow> Split c (s @ c # t) = s # Split c t"
  by (induction s) auto

lemma Split_parts_no_sep: "p \<in> set (Split c s) \<Longrightarrow> c \<notin> set p"
  by (induction s arbitrary: p) (fastforce split: if_splits list.splits)+

lemma Split_Join:
  "\<lbrakk>ps \<noteq> []; \<forall>p\<in>set ps. c \<notin> set p\<rbrakk> \<Longrightarrow> Split c (Join [c] ps) = ps"
  by (induction "[c]" ps rule: Join.induct) (auto simp: Split_no_sep Split_append)

text \<open>A join over a byte that no part contains determines the parts.\<close>

lemma Join_inject:
  assumes "\<forall>p\<in>set ps. c \<notin> set p" "\<forall>p\<in>set qs. c \<notin> set p" "ps \<noteq> []" "qs \<noteq> []"
    and "Join [c] ps = Join [c] qs"
  shows "ps = qs"
  using assms by (metis Split_Join)


section \<open>Lemmas on maps\<close>

text \<open>The library's congruence for \<open>fmfilter\<close> keeps the simplifier out of the filtered map.\<close>

declare fmfilter_cong [cong del]

lemma mlookup_simps [simp]:
  "mlookup None k = None"
  "mlookup (Some f) k = fmlookup f k"
  by (simp_all add: mlookup_def)

lemma nonnil_simps [simp]: "nonnil None = fmempty" "nonnil (Some f) = f"
  by (simp_all add: nonnil_def)

lemma fmlookup_nonnil [simp]: "fmlookup (nonnil m) k = mlookup m k"
  by (cases m) simp_all

lemma mget_Some [simp]: "mget (Some (fmupd k v f)) k' = (if k' = k then v else mget (Some f) k')"
  by (simp add: mget_def)

lemma mget_None [simp]: "mget None k = []"
  by (simp add: mget_def)

lemma fmlookup_copyInto [simp]:
  "fmlookup (copyInto dst src) k =
     (case mlookup src k of None \<Rightarrow> fmlookup dst k | Some v \<Rightarrow> Some v)"
  by (cases src) (auto simp: copyInto_def fmlookup_dom_iff split: option.splits)

text \<open>A range loop by induction on the entries visited: the last one adds a new key.\<close>

lemma fmap_of_list_snoc:
  assumes "k \<notin> fst ` set xs"
  shows "fmap_of_list (xs @ [(k, v)]) = fmupd k v (fmap_of_list xs)"
proof (rule fmap_ext)
  fix k'
  have "map_of xs k = None" using assms by (simp add: map_of_eq_None_iff)
  then show "fmlookup (fmap_of_list (xs @ [(k, v)])) k' = fmlookup (fmupd k v (fmap_of_list xs)) k'"
    unfolding fmlookup_of_list
    by (cases "k' = k") (simp_all add: map_add_def fmlookup_of_list split: option.splits)
qed

lemma fmlookup_of_list_None: "k \<notin> fst ` set xs \<Longrightarrow> fmlookup (fmap_of_list xs) k = None"
  unfolding fmlookup_of_list by (simp add: map_of_eq_None_iff)

lemma fmfilter_fmupd:
  "fmlookup m k = None \<Longrightarrow>
     fmfilter P (fmupd k v m) = (if P k then fmupd k v (fmfilter P m) else fmfilter P m)"
  by (auto intro!: fmap_ext)

text \<open>A copying range loop gives the same map whatever order the range takes.\<close>

lemma foldl_fmupd:
  "distinct (map fst xs) \<Longrightarrow> foldl (\<lambda>d (k, v). fmupd k v d) dst xs = dst ++\<^sub>f fmap_of_list xs"
proof (induction xs rule: rev_induct)
  case (snoc x xs)
  obtain k v where x: "x = (k, v)" by (cases x)
  with snoc have "foldl (\<lambda>d (k, v). fmupd k v d) dst (xs @ [x]) =
      fmupd k v (dst ++\<^sub>f fmap_of_list xs)" by simp
  also have "\<dots> = dst ++\<^sub>f fmupd k v (fmap_of_list xs)"
    by (rule fmap_ext) (simp del: fmdom_of_list)
  also have "fmupd k v (fmap_of_list xs) = fmap_of_list (xs @ [x])"
    using snoc.prems x by (simp only: x) (rule fmap_of_list_snoc [symmetric], simp)
  finally show ?case .
qed simp

lemma range_copy:
  "is_range xs m \<Longrightarrow> foldl (\<lambda>d (k, v). fmupd k v d) dst xs = copyInto dst (Some m)"
  by (auto simp: is_range_def copyInto_def foldl_fmupd)


section \<open>Lemmas on handlers\<close>

lemma io_apply [io_simps]:
  "ret x h = (Ret x, h)"
  "fail e h = (Fail e, h)"
  "panic h = (Panic, h)"
  "call answer c h = (Ret (answer h), h @ [c])"
  by (simp_all add: ret_def fail_def panic_def call_def)

lemma io_values [io_simps]:
  "tryM (Inl e) = fail e"
  "tryM (Inr x) = ret x"
  "must None = panic"
  "must (Some x) = ret x"
  "mwrite None k v = panic"
  "mwrite (Some f) k v = ret (Some (fmupd k v f))"
  by (simp_all add: tryM_def must_def mwrite_def)

lemma bindM_apply [io_simps]:
  "bindM m f h = (case m h of
      (Ret x, h') \<Rightarrow> f x h' | (Fail e, h') \<Rightarrow> (Fail e, h') | (Panic, h') \<Rightarrow> (Panic, h'))"
  by (simp add: bindM_def)

lemma bindM_laws [simp]:
  "bindM (ret x) f = f x"
  "bindM (fail e) f = fail e"
  "bindM panic f = panic"
  "bindM m ret = m"
  by (auto simp: fun_eq_iff bindM_apply io_apply split: prod.splits outcome.splits)

lemma bindM_assoc: "bindM (bindM m f) g = bindM m (\<lambda>x. bindM (f x) g)"
  by (auto simp: fun_eq_iff bindM_apply split: prod.splits outcome.splits)

lemma emits_ret [emits_intros]: "emits P (ret x)"
  by (simp add: emits_def io_simps)

lemma emits_fail [emits_intros]: "emits P (fail e)"
  by (simp add: emits_def io_simps)

lemma emits_panic [emits_intros]: "emits P panic"
  by (simp add: emits_def io_simps)

lemma emits_call [emits_intros]: "P c \<Longrightarrow> emits P (call answer c)"
  by (simp add: emits_def io_simps)

lemma emits_tryM [emits_intros]: "emits P (tryM r)"
  by (cases r) (simp_all add: io_simps emits_intros)

lemma emits_must [emits_intros]: "emits P (must r)"
  by (cases r) (simp_all add: io_simps emits_intros)

lemma emits_mwrite [emits_intros]: "emits P (mwrite m k v)"
  by (cases m) (simp_all add: io_simps emits_intros)

lemma emits_attempt [emits_intros]: "emits P m \<Longrightarrow> emits P (attempt m)"
  unfolding emits_def attempt_def by (auto split: prod.split outcome.split) (metis snd_conv)+

lemma attempt_Inr: "attempt m h = (Ret (Inr x), h') \<longleftrightarrow> m h = (Ret x, h')"
  by (auto simp: attempt_def split: prod.splits outcome.splits)

lemma bindM_Ret:
  "bindM m f h = (Ret y, h'') \<longleftrightarrow> (\<exists>x h'. m h = (Ret x, h') \<and> f x h' = (Ret y, h''))"
  by (auto simp: bindM_apply split: prod.splits outcome.splits)

lemma emits_bindM_ret:
  assumes "emits P m" and "\<And>x h h'. m h = (Ret x, h') \<Longrightarrow> emits P (f x)"
  shows "emits P (bindM m f)"
  unfolding emits_def
proof
  fix h
  obtain es where es: "snd (m h) = h @ es" "list_all P es"
    using assms(1) by (auto simp: emits_def)
  show "\<exists>es. snd (bindM m f h) = h @ es \<and> list_all P es"
  proof (cases "m h")
    case (Pair r h')
    show ?thesis
    proof (cases r)
      case (Ret x)
      obtain es' where "snd (f x h') = h' @ es'" "list_all P es'"
        using assms(2) [of h x h'] Pair Ret by (auto simp: emits_def)
      then have "snd (bindM m f h) = h @ (es @ es') \<and> list_all P (es @ es')"
        using es Pair Ret by (simp add: bindM_apply)
      then show ?thesis by blast
    qed (use es Pair in \<open>auto simp: bindM_apply\<close>)
  qed
qed

lemma emits_bindM [emits_intros]:
  "\<lbrakk>emits P m; \<And>x. emits P (f x)\<rbrakk> \<Longrightarrow> emits P (bindM m f)"
  by (rule emits_bindM_ret)

lemma emits_if [emits_intros]:
  "\<lbrakk>b \<Longrightarrow> emits P m; \<not> b \<Longrightarrow> emits P n\<rbrakk> \<Longrightarrow> emits P (if b then m else n)"
  by simp

lemma emits_option [emits_intros]:
  "\<lbrakk>x = None \<Longrightarrow> emits P m; \<And>y. x = Some y \<Longrightarrow> emits P (n y)\<rbrakk>
     \<Longrightarrow> emits P (case x of None \<Rightarrow> m | Some y \<Rightarrow> n y)"
  by (cases x) auto

lemma emits_sum [emits_intros]:
  "\<lbrakk>\<And>e. x = Inl e \<Longrightarrow> emits P (m e); \<And>y. x = Inr y \<Longrightarrow> emits P (n y)\<rbrakk>
     \<Longrightarrow> emits P (case x of Inl e \<Rightarrow> m e | Inr y \<Rightarrow> n y)"
  by (cases x) auto

lemma emits_prod [emits_intros]:
  "(\<And>a b. x = (a, b) \<Longrightarrow> emits P (m a b)) \<Longrightarrow> emits P (case x of (a, b) \<Rightarrow> m a b)"
  by (cases x) auto

lemma emits_mono: "emits P m \<Longrightarrow> (\<And>e. P e \<Longrightarrow> Q e) \<Longrightarrow> emits Q m"
  unfolding emits_def by (metis list.pred_mono_strong)

lemma emits_conj: "emits P m \<Longrightarrow> emits Q m \<Longrightarrow> emits (\<lambda>e. P e \<and> Q e) m"
  unfolding emits_def list_all_iff by (metis same_append_eq)

text \<open>A computation without calls leaves the history as it was.\<close>

lemma emits_none: "emits (\<lambda>_. False) m \<Longrightarrow> snd (m h) = h"
  unfolding emits_def by (metis append_Nil2 list_all_iff list.set_intros(1) neq_Nil_conv)

lemma emits_none_any: "emits (\<lambda>_. False) m \<Longrightarrow> emits P m"
  by (rule emits_mono [where P = "\<lambda>_. False"]) auto

text \<open>A computation only adds to the history.\<close>

lemma emits_extends: "emits P m \<Longrightarrow> \<exists>es. snd (m h) = h @ es"
  unfolding emits_def by blast

text \<open>The calls that a run adds.\<close>

lemma emits_calls: "emits P m \<Longrightarrow> snd (m h) = h @ es \<Longrightarrow> list_all P es"
  unfolding emits_def by (metis same_append_eq)

text \<open>The calls of one run from the empty history.\<close>

lemma emitsD: "emits P m \<Longrightarrow> m [] = (r, es) \<Longrightarrow> e \<in> set es \<Longrightarrow> P e"
  unfolding emits_def by (metis append_Nil list_all_iff snd_conv)

lemma deferM_calls: "\<exists>r h'. m h = (r, h') \<and> deferM cs m h = (r, h' @ cs)"
  by (cases "m h") (simp add: deferM_def)

lemma emits_deferM: "emits P m \<Longrightarrow> list_all P cs \<Longrightarrow> emits P (deferM cs m)"
  unfolding emits_def deferM_def by (auto split: prod.split) (metis append_assoc list_all_append snd_conv)

end
