(* ===== verification/K8s_Objects.thy ===== *)
theory K8s_Objects
  imports Go_Prelude
begin

text \<open>
  The Kubernetes objects the program works on.  Their Go types belong to \<open>k8s.io/api\<close>; a record
  here has the fields the program reads or writes, and one \<open>_Other\<close> field that stands for all
  the fields the program only copies and compares.  \<open>objmeta\<close> is \<open>metav1.ObjectMeta\<close>; every
  object extends it, so a function over \<open>'a objmeta_scheme\<close> is a function over
  \<open>metav1.Object\<close>.  \<open>podChaperon\<close> and the target and source types are the program's own
  (\<open>pkg/apis/multicluster/v1alpha1\<close>).
\<close>

section \<open>Metadata\<close>

record ownerReference =
  or_Kind :: string
  or_Name :: string
  or_UID :: string
  or_Controller :: "bool option"

record objmeta =
  Name :: string
  GenerateName :: string
  Namespace :: string
  UID :: string
  Labels :: stringmap
  Annotations :: stringmap
  Finalizers :: "string list"
  OwnerReferences :: "ownerReference list"
  DeletionTimestamp :: "nat option"


section \<open>Pods\<close>

record envVarSource =
  ConfigMapKeyRef :: "string option"
  SecretKeyRef :: "string option"

record envVar =
  env_Name :: string
  ValueFrom :: "envVarSource option"

record envFromSource =
  ConfigMapRef :: "string option"
  SecretRef :: "string option"

record volumeMount =
  vm_Name :: string
  MountPath :: string

record container =
  c_Name :: string
  Env :: "envVar list"
  EnvFrom :: "envFromSource list"
  VolumeMounts :: "volumeMount list"
  c_Other :: string

record ephemeralContainer =
  ec_Name :: string
  ec_Other :: string

record volumeProjection =
  proj_ConfigMap :: "string option"
  proj_Secret :: "string option"

record volume =
  vol_Name :: string
  vol_ConfigMap :: "string option"
  vol_Secret :: "string option"
  vol_Projected :: "volumeProjection list option"
  vol_Other :: string

record toleration =
  tol_Key :: string
  tol_Operator :: string
  tol_Value :: string
  tol_Effect :: string

record podSpec =
  NodeName :: string
  SchedulerName :: string
  RestartPolicy :: string
  Containers :: "container list"
  InitContainers :: "container list"
  EphemeralContainers :: "ephemeralContainer list"
  Volumes :: "volume list"
  ImagePullSecrets :: "string list"
  NodeSelector :: stringmap
  Tolerations :: "toleration list"
  Affinity :: "string option"
  TopologySpreadConstraints :: "string list"
  Priority :: "int option"
  TerminationGracePeriodSeconds :: "int option"
  ps_Other :: string

record podCondition =
  cond_Type :: string
  cond_Status :: string
  cond_Reason :: string

record containerStatus =
  cs_Name :: string
  cs_Other :: string

record podStatus =
  Phase :: string
  Conditions :: "podCondition list"
  ContainerStatuses :: "containerStatus list"
  InitContainerStatuses :: "containerStatus list"
  EphemeralContainerStatuses :: "containerStatus list"
  pst_Other :: string

record pod = objmeta +
  pod_Spec :: podSpec
  pod_Status :: podStatus

record podChaperon = objmeta +
  pc_Spec :: podSpec
  pc_Status :: podStatus


section \<open>Nodes\<close>

text \<open>A quantity is opaque: its representation, as \<open>reflect.DeepEqual\<close> compares it.\<close>

type_synonym quantity = string
type_synonym resourceList = "(string, quantity) gomap"

record node = objmeta +
  Capacity :: resourceList
  Allocatable :: resourceList
  node_Other :: string


section \<open>Objects that follow pods\<close>

text \<open>Byte slices are strings, as both are lists of bytes.\<close>

record configMap = objmeta +
  cm_Data :: stringmap
  cm_BinaryData :: stringmap

record secret = objmeta +
  secret_Type :: string
  secret_Data :: stringmap

record serviceSpec =
  Selector :: stringmap
  svc_Type :: string
  ClusterIP :: string
  ClusterIPs :: "string list"
  ss_Other :: string

record service = objmeta +
  svc_Spec :: serviceSpec

text \<open>
  \<open>HTTP\<close> of an ingress rule is a pointer, \<open>nil\<close> for a rule that only names a host; a path's
  backend is a service or another resource.
\<close>

record ingressRule =
  Host :: string
  HTTP :: "string option list option"

record ingressSpec =
  Rules :: "ingressRule list"
  is_Other :: string

record ingress = objmeta +
  ing_Spec :: ingressSpec


section \<open>Empty values\<close>

text \<open>Go's zero values, as \<open>&corev1.ConfigMap{}\<close> and the like make them.\<close>

definition zero_meta :: objmeta where
  "zero_meta = \<lparr>Name = [], GenerateName = [], Namespace = [], UID = [], Labels = None,
     Annotations = None, Finalizers = [], OwnerReferences = [], DeletionTimestamp = None\<rparr>"

definition zero_podSpec :: podSpec where
  "zero_podSpec = \<lparr>NodeName = [], SchedulerName = [], RestartPolicy = [], Containers = [],
     InitContainers = [], EphemeralContainers = [], Volumes = [], ImagePullSecrets = [],
     NodeSelector = None, Tolerations = [], Affinity = None, TopologySpreadConstraints = [],
     Priority = None, TerminationGracePeriodSeconds = None, ps_Other = []\<rparr>"

definition zero_podStatus :: podStatus where
  "zero_podStatus = \<lparr>Phase = [], Conditions = [], ContainerStatuses = [],
     InitContainerStatuses = [], EphemeralContainerStatuses = [], pst_Other = []\<rparr>"

definition zero_pod :: pod where
  "zero_pod = objmeta.extend zero_meta
     \<lparr>pod_Spec = zero_podSpec, pod_Status = zero_podStatus\<rparr>"

definition zero_podChaperon :: podChaperon where
  "zero_podChaperon = objmeta.extend zero_meta
     \<lparr>pc_Spec = zero_podSpec, pc_Status = zero_podStatus\<rparr>"

definition zero_node :: node where
  "zero_node = objmeta.extend zero_meta \<lparr>Capacity = None, Allocatable = None, node_Other = []\<rparr>"

definition zero_configMap :: configMap where
  "zero_configMap = objmeta.extend zero_meta \<lparr>cm_Data = None, cm_BinaryData = None\<rparr>"

definition zero_secret :: secret where
  "zero_secret = objmeta.extend zero_meta \<lparr>secret_Type = [], secret_Data = None\<rparr>"

definition zero_serviceSpec :: serviceSpec where
  "zero_serviceSpec =
     \<lparr>Selector = None, svc_Type = [], ClusterIP = [], ClusterIPs = [], ss_Other = []\<rparr>"

definition zero_service :: service where
  "zero_service = objmeta.extend zero_meta \<lparr>svc_Spec = zero_serviceSpec\<rparr>"

definition zero_ingress :: ingress where
  "zero_ingress = objmeta.extend zero_meta \<lparr>ing_Spec = \<lparr>Rules = [], is_Other = []\<rparr>\<rparr>"

end
