(* ===== verification/Common_Keys.thy ===== *)
theory Common_Keys
  imports K8s_Objects
begin

text \<open>
  Package \<open>pkg/common\<close>: the label and annotation keys through which the controllers, the
  schedulers and the webhook talk to each other, and the split of a key-value map into the
  program's own keys and the user's.
\<close>

section \<open>Constants (constants.go)\<close>

definition ProxySchedulerName :: string where
  "ProxySchedulerName = ''admiralty-proxy''"

definition CandidateSchedulerName :: string where
  "CandidateSchedulerName = ''admiralty-candidate''"

definition LabelAndTaintKeyVirtualKubeletProvider :: string where
  "LabelAndTaintKeyVirtualKubeletProvider = ''virtual-kubelet.io/provider''"

definition VirtualKubeletProviderName :: string where
  "VirtualKubeletProviderName = ''admiralty''"

definition KeyPrefix :: string where
  "KeyPrefix = ''multicluster.admiralty.io/''"

definition AnnotationKeyElect :: string where
  "AnnotationKeyElect = KeyPrefix @ ''elect''"

definition AnnotationKeyNoReservation :: string where
  "AnnotationKeyNoReservation = KeyPrefix @ ''no-reservation''"

definition AnnotationKeyProxyPodSchedulingConstraints :: string where
  "AnnotationKeyProxyPodSchedulingConstraints = KeyPrefix @ ''proxy-pod-scheduling-constraints''"

definition AnnotationKeyUseConstraintsFromSpecForProxyPodScheduling :: string where
  "AnnotationKeyUseConstraintsFromSpecForProxyPodScheduling =
     KeyPrefix @ ''use-constraints-from-spec-for-proxy-pod-scheduling''"

definition AnnotationNoPrefixLabelRegexp :: string where
  "AnnotationNoPrefixLabelRegexp = KeyPrefix @ ''no-prefix-label-regexp''"

definition KeyPrefixSourcePod :: string where
  "KeyPrefixSourcePod = KeyPrefix @ ''sourcepod-''"

definition AnnotationKeySourcePodManifest :: string where
  "AnnotationKeySourcePodManifest = KeyPrefixSourcePod @ ''manifest''"

definition AnnotationKeyIsReserved :: string where
  "AnnotationKeyIsReserved = KeyPrefix @ ''is-reserved''"

definition AnnotationKeyIsAllowed :: string where
  "AnnotationKeyIsAllowed = KeyPrefix @ ''is-allowed''"

definition AnnotationKeyPodMissingSince :: string where
  "AnnotationKeyPodMissingSince = KeyPrefix @ ''pod-missing-since''"

definition AnnotationKeyGlobal :: string where
  "AnnotationKeyGlobal = KeyPrefix @ ''global''"

definition AnnotationKeyIsDelegate :: string where
  "AnnotationKeyIsDelegate = KeyPrefix @ ''is-delegate''"

definition LabelKeyHasFinalizer :: string where
  "LabelKeyHasFinalizer = KeyPrefix @ ''has-finalizer''"

definition LabelKeyParentClusterName :: string where
  "LabelKeyParentClusterName = KeyPrefix @ ''parent-cluster-name''"

definition LabelKeyParentUID :: string where
  "LabelKeyParentUID = KeyPrefix @ ''parent-uid''"

definition AnnotationKeyParentName :: string where
  "AnnotationKeyParentName = KeyPrefix @ ''parent-name''"

definition AnnotationKeyParentNamespace :: string where
  "AnnotationKeyParentNamespace = KeyPrefix @ ''parent-namespace''"

definition AnnotationKeyCiliumGlobalService :: string where
  "AnnotationKeyCiliumGlobalService = ''io.cilium/global-service''"

definition AnnotationKeyOriginalSelector :: string where
  "AnnotationKeyOriginalSelector = KeyPrefix @ ''original-selector''"

definition AnnotationKeyRestartedAt :: string where
  "AnnotationKeyRestartedAt = KeyPrefix @ ''restartedAt''"

definition LabelKeyTargetNamespace :: string where
  "LabelKeyTargetNamespace = KeyPrefix @ ''target-namespace''"

definition LabelKeyTargetName :: string where
  "LabelKeyTargetName = KeyPrefix @ ''target-name''"

definition LabelKeyClusterTargetName :: string where
  "LabelKeyClusterTargetName = KeyPrefix @ ''cluster-target-name''"

lemmas key_defs [key_simps] =
  AnnotationKeyElect_def AnnotationKeyNoReservation_def
  AnnotationKeyProxyPodSchedulingConstraints_def
  AnnotationKeyUseConstraintsFromSpecForProxyPodScheduling_def
  AnnotationNoPrefixLabelRegexp_def KeyPrefixSourcePod_def AnnotationKeySourcePodManifest_def
  AnnotationKeyIsReserved_def AnnotationKeyIsAllowed_def AnnotationKeyPodMissingSince_def
  AnnotationKeyGlobal_def AnnotationKeyIsDelegate_def LabelKeyHasFinalizer_def
  LabelKeyParentClusterName_def LabelKeyParentUID_def AnnotationKeyParentName_def
  AnnotationKeyParentNamespace_def AnnotationKeyOriginalSelector_def AnnotationKeyRestartedAt_def
  LabelKeyTargetNamespace_def LabelKeyTargetName_def LabelKeyClusterTargetName_def

lemma cilium_not_prefixed [simp]: "\<not> HasPrefix AnnotationKeyCiliumGlobalService KeyPrefix"
  by (simp add: AnnotationKeyCiliumGlobalService_def KeyPrefix_def HasPrefix_def)

lemma provider_not_prefixed [simp]:
  "\<not> HasPrefix LabelAndTaintKeyVirtualKubeletProvider KeyPrefix"
  by (simp add: LabelAndTaintKeyVirtualKubeletProvider_def KeyPrefix_def HasPrefix_def)


section \<open>SplitLabelsOrAnnotations (util.go)\<close>

text \<open>The loop body, one iteration per entry, and the function: both maps are made non-nil.\<close>

definition splitStep ::
  "(string, string) fmap \<times> (string, string) fmap \<Rightarrow> string \<times> string
     \<Rightarrow> (string, string) fmap \<times> (string, string) fmap" where
  "splitStep acc e = (case acc of (mc, other) \<Rightarrow> case e of (k, v) \<Rightarrow>
     if HasPrefix k KeyPrefix then (fmupd k v mc, other) else (mc, fmupd k v other))"

definition SplitLabelsOrAnnotations ::
  "stringmap \<Rightarrow> (string, string) fmap \<times> (string, string) fmap" where
  "SplitLabelsOrAnnotations m =
     (fmfilter (\<lambda>k. HasPrefix k KeyPrefix) (nonnil m),
      fmfilter (\<lambda>k. \<not> HasPrefix k KeyPrefix) (nonnil m))"

text \<open>The loop computes the split for every order in which the range may visit the entries.\<close>

lemma splitStep_range:
  assumes "is_range xs m"
  shows "foldl splitStep (fmempty, fmempty) xs = SplitLabelsOrAnnotations (Some m)"
proof -
  have "foldl splitStep (fmempty, fmempty) xs =
      (fmfilter (\<lambda>k. HasPrefix k KeyPrefix) (fmap_of_list xs),
       fmfilter (\<lambda>k. \<not> HasPrefix k KeyPrefix) (fmap_of_list xs))"
    if "distinct (map fst xs)" for xs
    using that
  proof (induction xs rule: rev_induct)
    case (snoc x xs)
    obtain k v where x: "x = (k, v)" by (cases x)
    with snoc have k: "k \<notin> fst ` set xs" by simp
    from snoc show ?case unfolding x fmap_of_list_snoc [OF k]
      by (simp add: splitStep_def [of "(a, b)" for a b]
          fmfilter_fmupd [OF fmlookup_of_list_None [OF k]])
  qed simp
  with assms show ?thesis by (auto simp: is_range_def SplitLabelsOrAnnotations_def)
qed

text \<open>The two halves put together are the map, and they share no key.\<close>

lemma SplitLabelsOrAnnotations_union:
  "SplitLabelsOrAnnotations m = (mc, other) \<Longrightarrow> mc ++\<^sub>f other = nonnil m"
  by (auto intro!: fmap_ext simp: SplitLabelsOrAnnotations_def fmlookup_dom_iff)

lemma fmlookup_split [simp]:
  "fmlookup (fst (SplitLabelsOrAnnotations m)) k = (if HasPrefix k KeyPrefix then mlookup m k else None)"
  "fmlookup (snd (SplitLabelsOrAnnotations m)) k = (if HasPrefix k KeyPrefix then None else mlookup m k)"
  by (simp_all add: SplitLabelsOrAnnotations_def)


text \<open>The program's half of one map with the user's half of another splits into just these.\<close>

lemma mirrored_annotations:
  assumes "SplitLabelsOrAnnotations m = (mc, other)" "SplitLabelsOrAnnotations m' = (mc', other')"
  shows "SplitLabelsOrAnnotations (Some (copyInto mc (Some other'))) = (mc, other')"
proof -
  have l: "fmlookup mc k = (if HasPrefix k KeyPrefix then mlookup m k else None)"
    "fmlookup other' k = (if HasPrefix k KeyPrefix then None else mlookup m' k)" for k
    using fmlookup_split [of m k] fmlookup_split [of m' k] assms by simp_all
  show ?thesis
    unfolding SplitLabelsOrAnnotations_def
    by (auto intro!: fmap_ext simp: l split: option.splits)
qed

end
