(* ===== verification/Name_Parts.thy ===== *)
theory Name_Parts
  imports Sha256
begin

text \<open>
  Package \<open>pkg/name\<close>: object names, label values and finalizers are built from parts, joined by
  hyphens when that is unambiguous and short enough, and completed by a hash of the parts
  otherwise.  A slice expression out of range panics; \<open>None\<close> is that panic.
\<close>

definition Short :: int where "Short = 63"
definition Long :: int where "Long = 253"

abbreviation hyphen :: char where "hyphen \<equiv> CHR ''-''"
abbreviation slash :: char where "slash \<equiv> CHR ''/''"

text \<open>\<open>for s[len(s)-1:] == "-" { s = s[:len(s)-1] }\<close>: on the empty string the index is -1.\<close>

function trimHyphens :: "string \<Rightarrow> string option" where
  "trimHyphens s =
     (if s = [] then None
      else if last s = hyphen then trimHyphens (butlast s) else Some s)"
  by pat_completeness auto
termination
  by (relation "measure length") auto

declare trimHyphens.simps [simp del]

definition truncateName :: "int \<Rightarrow> string \<Rightarrow> string option" where
  "truncateName lengthLimit s =
     (let tooLongBy = int (length s) - lengthLimit
      in if tooLongBy > 0
         then if int (length s) - tooLongBy < 0 then None
              else trimHyphens (take (nat (int (length s) - tooLongBy)) s)
         else Some s)"

definition hashLength :: nat where "hashLength = 10"

definition appendHash :: "int \<Rightarrow> string \<Rightarrow> string \<Rightarrow> string option" where
  "appendHash lengthLimit key s =
     (case truncateName (lengthLimit - int hashLength - 1) s of
        None \<Rightarrow> None
      | Some prefix \<Rightarrow> Some (prefix @ ''-'' @ take hashLength (sha256_hex key)))"

text \<open>
  The loop over the parts from index \<open>i\<close>: \<open>nconst\<close> and \<open>nopt\<close> are the lengths of the index
  slices, \<open>n\<close> the number of parts.
\<close>

fun partsLoop ::
  "nat list \<Rightarrow> nat list \<Rightarrow> nat \<Rightarrow> nat \<Rightarrow> string list \<Rightarrow> bool \<times> string list \<Rightarrow> bool \<times> string list"
where
  "partsLoop cs os n i [] acc = acc"
| "partsLoop cs os n i (p # ps) (hashRequired, nonEmptyParts) =
     partsLoop cs os n (Suc i) ps
       (if p \<noteq> [] then
          (hashRequired \<or>
             (Contains p ''-'' \<and> i \<notin> set cs \<and> int n - int (length cs) > 1),
           nonEmptyParts @ [p])
        else (hashRequired \<or> length os > 1, nonEmptyParts))"

definition FromParts :: "int \<Rightarrow> nat list \<Rightarrow> nat list \<Rightarrow> string list \<Rightarrow> string option" where
  "FromParts lengthLimit constantIndices optionalIndices parts =
     (case partsLoop constantIndices optionalIndices (length parts) 0 parts (False, []) of
        (hashRequired, nonEmptyParts) \<Rightarrow>
          let s = Join ''-'' nonEmptyParts
          in if \<not> hashRequired \<and> int (length s) \<le> lengthLimit then Some s
             else appendHash lengthLimit (Join ''/'' parts) s)"


section \<open>Truncation\<close>

lemma trimHyphens_prefix:
  "trimHyphens s = Some r \<Longrightarrow> \<exists>n. s = r @ replicate n hyphen \<and> r \<noteq> [] \<and> last r \<noteq> hyphen"
proof (induction s rule: trimHyphens.induct)
  case (1 s)
  show ?case
  proof (cases "last s = hyphen")
    case True
    with "1" obtain n where n: "butlast s = r @ replicate n hyphen" "r \<noteq> []" "last r \<noteq> hyphen"
      by (auto simp: trimHyphens.simps [of s] split: if_splits)
    moreover from "1.prems" have "s \<noteq> []" by (auto simp: trimHyphens.simps [of s])
    ultimately have "s = r @ replicate (Suc n) hyphen"
      using True by (metis append_assoc append_butlast_last_id replicate_append_same replicate_Suc)
    with n show ?thesis by blast
  next
    case False
    with "1.prems" have "s = r" "s \<noteq> []" by (auto simp: trimHyphens.simps [of s] split: if_splits)
    with False show ?thesis by (intro exI [of _ 0]) simp
  qed
qed

text \<open>The loop runs off the string exactly when every byte is a hyphen.\<close>

lemma trimHyphens_None: "trimHyphens s = None \<longleftrightarrow> set s \<subseteq> {hyphen}"
proof (induction s rule: trimHyphens.induct)
  case (1 s)
  show ?case
  proof (cases "s = []")
    case False
    then have "set s = insert (last s) (set (butlast s))"
      by (metis append_butlast_last_id insert_is_Un set_append sup_commute list.simps(15) empty_set)
    with "1" False show ?thesis by (auto simp: trimHyphens.simps [of s])
  qed (simp add: trimHyphens.simps)
qed

lemma trimHyphens_length: "trimHyphens s = Some r \<Longrightarrow> length r \<le> length s"
  by (auto dest: trimHyphens_prefix)

lemma truncateName_length: "truncateName lim s = Some r \<Longrightarrow> int (length r) \<le> lim"
  by (auto simp: truncateName_def Let_def split: if_splits dest!: trimHyphens_length)

lemma truncateName_short [simp]: "int (length s) \<le> lim \<Longrightarrow> truncateName lim s = Some s"
  by (simp add: truncateName_def)

lemma truncateName_prefix: "truncateName lim s = Some r \<Longrightarrow> \<exists>t. s = r @ t"
proof -
  assume r: "truncateName lim s = Some r"
  show ?thesis
  proof (cases "int (length s) \<le> lim")
    case False
    with r obtain n where "take (nat lim) s = r @ replicate n hyphen"
      by (auto simp: truncateName_def Let_def split: if_splits dest: trimHyphens_prefix)
    then show ?thesis by (metis append_assoc append_take_drop_id)
  qed (use r in auto)
qed

lemma truncateName_Some:
  "\<lbrakk>s \<noteq> []; hd s \<noteq> hyphen; 0 < lim\<rbrakk> \<Longrightarrow> \<exists>r. truncateName lim s = Some r"
proof -
  assume a: "s \<noteq> []" "hd s \<noteq> hyphen" "0 < lim"
  then have "hd s \<in> set (take (nat lim) s)"
    by (metis hd_in_set hd_take take_eq_Nil zero_less_nat_eq less_nat_zero_code)
  with a have "trimHyphens (take (nat lim) s) \<noteq> None"
    unfolding trimHyphens_None by auto
  with a show ?thesis by (auto simp: truncateName_def Let_def)
qed

lemma appendHash_last:
  "appendHash lim key s = Some r \<Longrightarrow>
     \<exists>p. truncateName (lim - 11) s = Some p \<and> r = p @ ''-'' @ take 10 (sha256_hex key)"
  by (auto simp: appendHash_def hashLength_def split: option.splits)



section \<open>The parts loop\<close>

definition hashNeeded :: "nat list \<Rightarrow> nat list \<Rightarrow> nat \<Rightarrow> nat \<Rightarrow> string list \<Rightarrow> bool" where
  "hashNeeded cs os n i ps \<longleftrightarrow>
     (\<exists>j<length ps.
        ps ! j \<noteq> [] \<and> hyphen \<in> set (ps ! j) \<and> i + j \<notin> set cs \<and> int n - int (length cs) > 1
        \<or> ps ! j = [] \<and> length os > 1)"

lemma Contains_hyphen: "Contains p ''-'' \<longleftrightarrow> hyphen \<in> set p"
  by (induction p) (auto simp: HasPrefix_def)

lemma partsLoop_eq:
  "partsLoop cs os n i ps (b, acc) =
     (b \<or> hashNeeded cs os n i ps, acc @ filter (\<lambda>p. p \<noteq> []) ps)"
proof (induction ps arbitrary: i b acc)
  case Nil
  then show ?case by (simp add: hashNeeded_def)
next
  case (Cons p ps)
  show ?case
    by (simp add: Cons.IH hashNeeded_def Contains_hyphen Ex_less_Suc2)
qed

lemma FromParts_eq:
  "FromParts lim cs os ps =
     (let s = Join ''-'' (filter (\<lambda>p. p \<noteq> []) ps)
      in if \<not> hashNeeded cs os (length ps) 0 ps \<and> int (length s) \<le> lim then Some s
         else appendHash lim (Join ''/'' ps) s)"
  by (simp add: FromParts_def partsLoop_eq)



section \<open>Names of two variable parts\<close>

text \<open>
  The names of targets and sources have constant parts followed by a namespace, which is empty
  for a cluster-scoped object, and a name.
\<close>

definition scopedName :: "int \<Rightarrow> string list \<Rightarrow> string \<Rightarrow> string \<Rightarrow> string option" where
  "scopedName lim pre ns name =
     FromParts lim [0..<length pre] [length pre] (pre @ [ns, name])"

definition plainParts :: "string list \<Rightarrow> string \<Rightarrow> string \<Rightarrow> string list" where
  "plainParts pre ns name = pre @ (if ns = [] then [name] else [ns, name])"

lemma count_Join_hyphen:
  "ps \<noteq> [] \<Longrightarrow> count_list (Join ''-'' ps) hyphen + 1 =
     sum_list (map (\<lambda>p. count_list p hyphen) ps) + length ps"
  by (induction "''-''" ps rule: Join.induct) auto

lemma hashNeeded_scoped:
  "hashNeeded [0..<length pre] [length pre] (length (pre @ [ns, name])) 0 (pre @ [ns, name])
     \<longleftrightarrow> hyphen \<in> set ns \<or> hyphen \<in> set name"
proof -
  have "(\<exists>j<length (pre @ [ns, name]). Q j)
      \<longleftrightarrow> (\<exists>j<length pre. Q j) \<or> Q (length pre) \<or> Q (Suc (length pre))" for Q
    by (auto simp: less_Suc_eq)
  then show ?thesis unfolding hashNeeded_def by (auto simp: nth_append)
qed

lemma scopedName_eq:
  assumes "\<forall>p\<in>set pre. p \<noteq> []" and "name \<noteq> []"
  shows "scopedName lim pre ns name =
    (let s = Join ''-'' (plainParts pre ns name)
     in if hyphen \<notin> set ns \<and> hyphen \<notin> set name \<and> int (length s) \<le> lim then Some s
        else appendHash lim (Join ''/'' (pre @ [ns, name])) s)"
proof -
  have "filter (\<lambda>p. p \<noteq> []) (pre @ [ns, name]) = plainParts pre ns name"
    using assms by (auto simp: plainParts_def filter_empty_conv)
  then show ?thesis
    unfolding scopedName_def FromParts_eq hashNeeded_scoped by (simp add: Let_def)
qed

text \<open>A hashed name has more hyphens than any name that needs no hash.\<close>

lemma scopedName_hashed_hyphens:
  assumes pre: "\<forall>p\<in>set pre. hyphen \<notin> set p" and "name \<noteq> []"
    and hashed: "hyphen \<in> set ns \<or> hyphen \<in> set name"
    and r: "r = Join ''-'' (plainParts pre ns name) @ ''-'' @ t"
    and plain: "hyphen \<notin> set ns'" "hyphen \<notin> set name'"
  shows "r \<noteq> Join ''-'' (plainParts pre ns' name')"
proof -
  have cnt: "count_list (Join ''-'' (plainParts pre a b)) hyphen + 1 =
      length pre + count_list a hyphen + count_list b hyphen + (if a = [] then 1 else 2)" for a b
  proof -
    have "sum_list (map (\<lambda>p. count_list p hyphen) pre) = 0"
      using pre by (simp add: count_list_0_iff)
    then show ?thesis
      using count_Join_hyphen [of "plainParts pre a b"] by (simp add: plainParts_def)
  qed
  have "count_list ns hyphen + count_list name hyphen > 0"
    using hashed by (auto simp: count_list_0_iff simp flip: neq0_conv)
  then have "count_list r hyphen > count_list (Join ''-'' (plainParts pre ns' name')) hyphen"
    using cnt [of ns name] cnt [of ns' name'] plain r
    by (auto simp: count_list_0_iff split: if_splits)
  then show ?thesis by auto
qed

lemma scopedName_untruncated:
  assumes "\<forall>p\<in>set pre. p \<noteq> []" "name \<noteq> []"
    and "int (length (Join ''-'' (plainParts pre ns name))) \<le> lim - 11"
  shows "scopedName lim pre ns name = Some (Join ''-'' (plainParts pre ns name)
     @ (if hyphen \<in> set ns \<or> hyphen \<in> set name
        then ''-'' @ take 10 (sha256_hex (Join ''/'' (pre @ [ns, name]))) else []))"
  using assms by (auto simp: scopedName_eq Let_def appendHash_def hashLength_def)

lemma append_same_length_inject:
  "length y1 = length y2 \<Longrightarrow> x1 @ y1 = x2 @ y2 \<Longrightarrow> y1 = y2"
  by simp

lemma plainParts_inject:
  assumes "\<forall>p\<in>set (pre @ [ns1, name1, ns2, name2]). hyphen \<notin> set p"
    and "Join ''-'' (plainParts pre ns1 name1) = Join ''-'' (plainParts pre ns2 name2)"
  shows "ns1 = ns2 \<and> name1 = name2"
proof -
  have "plainParts pre ns1 name1 = plainParts pre ns2 name2"
    by (rule Join_inject [where c = hyphen]) (use assms in \<open>auto simp: plainParts_def\<close>)
  then show ?thesis by (auto simp: plainParts_def split: if_splits)
qed


text \<open>
  Two names that are not cut determine their parts, provided that the hashes of two hyphenated
  names differ.
\<close>

lemma scopedName_distinct:
  assumes pre: "\<forall>p\<in>set pre. p \<noteq> [] \<and> hyphen \<notin> set p"
    and names: "name1 \<noteq> []" "name2 \<noteq> []"
    and fits: "int (length (Join ''-'' (plainParts pre ns1 name1))) \<le> lim - 11"
      "int (length (Join ''-'' (plainParts pre ns2 name2))) \<le> lim - 11"
    and hash: "\<lbrakk>hyphen \<in> set ns1 \<or> hyphen \<in> set name1; hyphen \<in> set ns2 \<or> hyphen \<in> set name2\<rbrakk> \<Longrightarrow>
      take 10 (sha256_hex (Join ''/'' (pre @ [ns1, name1])))
        \<noteq> take 10 (sha256_hex (Join ''/'' (pre @ [ns2, name2])))"
    and neq: "(ns1, name1) \<noteq> (ns2, name2)"
  shows "scopedName lim pre ns1 name1 \<noteq> scopedName lim pre ns2 name2"
proof -
  let ?h1 = "hyphen \<in> set ns1 \<or> hyphen \<in> set name1" and ?h2 = "hyphen \<in> set ns2 \<or> hyphen \<in> set name2"
  note eqs = scopedName_untruncated [OF _ names(1) fits(1)] scopedName_untruncated [OF _ names(2) fits(2)]
  consider "?h1" "?h2" | "?h1" "\<not> ?h2" | "\<not> ?h1" "?h2" | "\<not> ?h1" "\<not> ?h2" by blast
  then show ?thesis
  proof cases
    case 1
    then show ?thesis using pre hash [OF 1] by (auto simp: eqs dest!: append_same_length_inject)
  next
    case 2
    then show ?thesis
      using pre scopedName_hashed_hyphens [OF _ names(1) 2(1) refl, of pre ns2 name2]
      by (auto simp: eqs)
  next
    case 3
    then show ?thesis
      using pre scopedName_hashed_hyphens [OF _ names(2) 3(2) refl, of pre ns1 name1]
      by (auto simp: eqs dest: sym)
  next
    case 4
    then show ?thesis
      using pre neq plainParts_inject [of pre ns1 name1 ns2 name2] by (auto simp: eqs)
  qed
qed

lemma length_plainParts_short:
  "length (Join ''-'' (plainParts [] ns name)) \<le> length ns + length name + 1"
  "length (Join ''-'' (plainParts [p] ns name)) \<le> length p + length ns + length name + 2"
  by (simp_all add: plainParts_def)


section \<open>Bounds and totality\<close>

lemma FromParts_bounded: "FromParts lim cs os ps = Some r \<Longrightarrow> int (length r) \<le> lim"
  by (auto simp: FromParts_eq Let_def split: if_splits dest!: appendHash_last truncateName_length)

lemma FromParts_Some:
  assumes "filter (\<lambda>p. p \<noteq> []) ps = q # qs" and "hd q \<noteq> hyphen" and "12 \<le> lim"
  shows "\<exists>r. FromParts lim cs os ps = Some r"
proof -
  have "q \<noteq> []"
    using assms(1) by (auto simp: filter_eq_Cons_iff)
  moreover obtain t where "Join ''-'' (q # qs) = q @ t"
    by (cases qs) auto
  ultimately have "Join ''-'' (q # qs) \<noteq> []" "hd (Join ''-'' (q # qs)) \<noteq> hyphen"
    using assms(2) by auto
  then obtain p where "truncateName (lim - 11) (Join ''-'' (q # qs)) = Some p"
    using truncateName_Some [of "Join ''-'' (q # qs)" "lim - 11"] assms(3) by auto
  then show ?thesis
    by (auto simp: FromParts_eq assms(1) Let_def appendHash_def hashLength_def)
qed


section \<open>Names\<close>

text \<open>The reference: what the API server calls a name, over an alphabet.\<close>

definition alphanumerics :: "char set" where
  "alphanumerics = set ''abcdefghijklmnopqrstuvwxyzABCDEFGHIJKLMNOPQRSTUVWXYZ0123456789''"

definition dnsLabelChars :: "char set" where
  "dnsLabelChars = set ''abcdefghijklmnopqrstuvwxyz0123456789-''"

definition nameOver :: "char set \<Rightarrow> string \<Rightarrow> bool" where
  "nameOver A s \<longleftrightarrow> s \<noteq> [] \<and> set s \<subseteq> A \<and> hd s \<in> alphanumerics \<and> last s \<in> alphanumerics"

lemma hyphen_not_alphanumeric: "hyphen \<notin> alphanumerics"
  by (simp add: alphanumerics_def)

lemma nameOver_hd: "nameOver A s \<Longrightarrow> hd s \<noteq> hyphen"
  using hyphen_not_alphanumeric by (auto simp: nameOver_def)

lemma nameOver_append: "\<lbrakk>nameOver A s; nameOver A t; set u \<subseteq> A\<rbrakk> \<Longrightarrow> nameOver A (s @ u @ t)"
  by (auto simp: nameOver_def)

lemma nameOver_Join: "\<lbrakk>ps \<noteq> []; \<forall>p\<in>set ps. nameOver A p; hyphen \<in> A\<rbrakk> \<Longrightarrow> nameOver A (Join ''-'' ps)"
proof (induction "''-''" ps rule: Join.induct)
  case (3 x y ys)
  then show ?case using nameOver_append [of A x "Join ''-'' (y # ys)" "''-''"] by simp
qed simp_all

text \<open>A hash is a name, and so is a name that is cut before one, as the cut keeps the beginning.\<close>

lemma nameOver_hash:
  assumes "set ''0123456789abcdef'' \<subseteq> A"
  shows "nameOver A (take 10 (sha256_hex key))"
proof -
  let ?h = "take 10 (sha256_hex key)"
  have "length ?h = 10" by simp
  then have ne: "?h \<noteq> []" by (metis list.size(3) zero_neq_numeral)
  have h: "set ?h \<subseteq> set ''0123456789abcdef''" using set_take_subset [of 10 "sha256_hex key"] set_sha256_hex [of key] by blast
  moreover have "set ''0123456789abcdef'' \<subseteq> alphanumerics" by (simp add: alphanumerics_def)
  ultimately show ?thesis unfolding nameOver_def using ne assms hd_in_set [OF ne] last_in_set [OF ne] by blast
qed

lemma nameOver_appendHash:
  assumes "appendHash lim key s = Some r" "nameOver A s" "insert hyphen (set ''0123456789abcdef'') \<subseteq> A"
  shows "nameOver A r"
proof -
  obtain p where p: "truncateName (lim - 11) s = Some p" "r = p @ ''-'' @ take 10 (sha256_hex key)"
    using appendHash_last [OF assms(1)] by blast
  obtain t where t: "s = p @ t" using truncateName_prefix [OF p(1)] by blast
  have h: "nameOver A (take 10 (sha256_hex key))" using assms(3) by (intro nameOver_hash) simp
  show ?thesis
  proof (cases "p = []")
    case True
    then have "truncateName (lim - 11) s \<noteq> Some []" if "s \<noteq> []"
      using that by (auto simp: truncateName_def Let_def split: if_splits dest!: trimHyphens_prefix)
    with p(1) True assms(2) show ?thesis by (simp add: nameOver_def)
  next
    case False
    then have "hd p \<in> alphanumerics" "set p \<subseteq> A" using assms(2) t by (auto simp: nameOver_def)
    with False h assms(3) show ?thesis by (auto simp: p(2) nameOver_def)
  qed
qed


section \<open>Properties\<close>

text \<open>
  Whenever \<open>FromParts\<close> returns a name, the name is no longer than the limit the
  caller gave, hash and hyphen included, whatever the parts and the indices.
\<close>

theorem FromParts_length:
  assumes "FromParts lim cs os ps = Some r"
  shows "int (length r) \<le> lim"
  using assms by (rule FromParts_bounded)

text \<open>The input is one of the program's own tests, hash included.\<close>

theorem FromParts_length_witness:
  "FromParts 63 [] [] [''default'', ''foo-bar''] = Some ''default-foo-bar-b1f5f88a38''
     \<and> int (length ''default-foo-bar-b1f5f88a38'') \<le> 63"
proof -
  have "take 10 (sha256_hex ''default/foo-bar'') = ''b1f5f88a38''"
    by code_simp
  then have "FromParts 63 [] [] [''default'', ''foo-bar''] = Some ''default-foo-bar-b1f5f88a38''"
    by (simp add: FromParts_def HasPrefix_def appendHash_def hashLength_def)
  from FromParts_length [OF this] this show ?thesis by simp
qed

text \<open>
  \<open>FromParts\<close> never panics on names Kubernetes admits: if some part is non-empty,
  the first such part does not start with a hyphen, and the limit leaves room for the hash, then
  a name is returned.
\<close>

theorem FromParts_returns:
  assumes "filter (\<lambda>p. p \<noteq> []) ps = q # qs" and "hd q \<noteq> hyphen" and "12 \<le> lim"
  shows "\<exists>r. FromParts lim cs os ps = Some r"
  using assms by (rule FromParts_Some)

theorem FromParts_returns_witness:
  "\<exists>r. FromParts Short [] [0] [[], ''foo-bar''] = Some r"
  by (rule FromParts_returns [of _ "''foo-bar''" "[]"]) (simp_all add: Short_def)

text \<open>
  Property C27.  \<open>FromParts\<close> makes names out of names: if every part is empty or a name over some
  alphabet, that is, it begins and ends with an alphanumeric character, and not all are empty, then a
  name over the same alphabet is returned, within the limit, wherever the cut falls and whatever the
  indices.  For the alphabet of lower-case letters, digits and hyphen these are DNS labels; with dots,
  underscores and upper-case letters they are label values and names of finalizers.
\<close>

theorem FromParts_names:
  assumes "\<forall>p\<in>set parts. p = [] \<or> nameOver A p" "\<exists>p\<in>set parts. p \<noteq> []"
    and "insert hyphen (set ''0123456789abcdef'') \<subseteq> A" "12 \<le> lengthLimit"
  shows "\<exists>r. FromParts lengthLimit constantIndices optionalIndices parts = Some r \<and> nameOver A r
    \<and> int (length r) \<le> lengthLimit"
proof -
  obtain q qs where q: "filter (\<lambda>p. p \<noteq> []) parts = q # qs" "\<forall>p\<in>set (q # qs). nameOver A p"
  proof (cases "filter (\<lambda>p. p \<noteq> []) parts")
    case (Cons q qs)
    moreover have "\<forall>p\<in>set (filter (\<lambda>p. p \<noteq> []) parts). nameOver A p" using assms(1) by auto
    ultimately show ?thesis using that by simp
  qed (use assms(2) in \<open>auto simp: filter_empty_conv\<close>)
  have "hd q \<noteq> hyphen" using q(2) nameOver_hd [of A q] by simp
  then obtain r where r: "FromParts lengthLimit constantIndices optionalIndices parts = Some r"
    using FromParts_Some [OF q(1) _ assms(4)] by blast
  have "nameOver A (Join ''-'' (q # qs))" using q(2) assms(3) by (intro nameOver_Join) auto
  then have "nameOver A r"
    using r assms(3) by (auto simp: FromParts_eq q(1) Let_def split: if_splits intro: nameOver_appendHash)
  with r FromParts_bounded [OF r] show ?thesis by blast
qed

theorem FromParts_names_witness:
  "\<exists>r. FromParts Short [] [0] [''verylongnamespaceverylongnamespace'', ''verylongnamevery-longnameverylongname''] = Some r
     \<and> nameOver dnsLabelChars r \<and> length r \<le> 63"
  using FromParts_names [of "[''verylongnamespaceverylongnamespace'', ''verylongnamevery-longnameverylongname'']" dnsLabelChars Short "[]" "[0]"]
  by (simp add: nameOver_def alphanumerics_def dnsLabelChars_def Short_def)

text \<open>
  With dots, which names of most objects may have, the result need not be a subdomain: the cut removes
  hyphens only, so that a dot may stand before the hyphen of the hash.
\<close>

theorem appendHash_after_dot:
  assumes "lengthLimit - 11 < int (length s)" "0 < lengthLimit - 11" "last (take (nat (lengthLimit - 11)) s) = CHR ''.''"
  shows "appendHash lengthLimit key s = Some (take (nat (lengthLimit - 11)) s @ ''-'' @ take 10 (sha256_hex key))"
proof -
  have "take (nat (lengthLimit - 11)) s \<noteq> []" using assms(1,2) by auto
  then have "trimHyphens (take (nat (lengthLimit - 11)) s) = Some (take (nat (lengthLimit - 11)) s)"
    using assms(3) by (simp add: trimHyphens.simps)
  then show ?thesis using assms(1,2) by (simp add: appendHash_def hashLength_def truncateName_def Let_def)
qed

text \<open>
  On parts of hyphens only the trimming loop of \<open>truncate\<close> indexes the empty string:
  the function panics exactly when the cut leaves no other byte (or the limit is negative).
\<close>

theorem truncateName_panics_iff:
  "truncateName lim s = None \<longleftrightarrow>
     lim < int (length s) \<and> (lim < 0 \<or> set (take (nat lim) s) \<subseteq> {hyphen})"
  by (auto simp: truncateName_def Let_def trimHyphens_None)

end
