(* ===== verification/Controller_Lib.thy ===== *)
theory Controller_Lib
  imports Common_Keys Name_Parts
begin

text \<open>
  Package \<open>pkg/controller\<close>: the work loop every controller runs, the references from a remote
  object to its local parent, and the handling of finalizers.  The rate-limited work queue, the
  informers and \<open>metav1.GetControllerOf\<close> are parameters.
\<close>

section \<open>Errors and event handlers (errors.go, handlers.go)\<close>

definition optimisticLockErrorMsg :: string where
  "optimisticLockErrorMsg =
     ''the object has been modified; please apply your changes to the latest version and try again''"

definition IsOptimisticLockError :: "error \<Rightarrow> bool" where
  "IsOptimisticLockError err \<longleftrightarrow> Contains (Error err) optimisticLockErrorMsg"

text \<open>An informer's notifications; a deletion may carry a tombstone with the last known object.\<close>

datatype 'o notification = Added 'o | Updated 'o 'o | Deleted 'o | DeletedFinalStateUnknown 'o

fun HandleAddUpdateWith :: "('o \<Rightarrow> ('e, unit) io) \<Rightarrow> 'o notification \<Rightarrow> ('e, unit) io" where
  "HandleAddUpdateWith f (Added obj) = f obj"
| "HandleAddUpdateWith f (Updated old new) = f new"
| "HandleAddUpdateWith f (Deleted obj) = ret ()"
| "HandleAddUpdateWith f (DeletedFinalStateUnknown obj) = ret ()"

fun HandleAllWith :: "('o \<Rightarrow> ('e, unit) io) \<Rightarrow> 'o notification \<Rightarrow> ('e, unit) io" where
  "HandleAllWith f (Added obj) = f obj"
| "HandleAllWith f (Updated old new) = f new"
| "HandleAllWith f (Deleted obj) = f obj"
| "HandleAllWith f (DeletedFinalStateUnknown tombstoneObj) = f tombstoneObj"


section \<open>The work loop (controller.go)\<close>

text \<open>
  What a controller does to its queue, the reconciler it runs, and the errors it reports.  The
  queue's answer to \<open>Get\<close> and the reconciler are functions of the history, so nothing is assumed
  about them.
\<close>

datatype 'k wq_call =
    WQ_Get
  | WQ_Handle 'k
  | WQ_AddRateLimited 'k
  | WQ_AddAfter 'k nat
  | WQ_Forget 'k
  | WQ_Done 'k
  | WQ_Add 'k
  | WQ_HandleError error

definition emit :: "'e \<Rightarrow> ('e, unit) io" where
  "emit e = call (\<lambda>_. ()) e"

text \<open>\<open>defer c.workqueue.Done(key)\<close> runs on every way out, a panic included.\<close>

definition afterHandle :: "'k \<Rightarrow> nat option outcome \<Rightarrow> ('k wq_call, bool) io" where
  "afterHandle key r =
     (case r of
        Fail err \<Rightarrow>
          bindM (emit (WQ_AddRateLimited key)) (\<lambda>_.
          bindM (if IsOptimisticLockError err then ret () else emit (WQ_HandleError err)) (\<lambda>_.
          bindM (emit (WQ_Done key)) (\<lambda>_. ret True)))
      | Ret (Some requeueAfter) \<Rightarrow>
          bindM (emit (WQ_AddAfter key requeueAfter)) (\<lambda>_.
          bindM (emit (WQ_Done key)) (\<lambda>_. ret True))
      | Ret None \<Rightarrow>
          bindM (emit (WQ_Forget key)) (\<lambda>_.
          bindM (emit (WQ_Done key)) (\<lambda>_. ret True))
      | Panic \<Rightarrow> bindM (emit (WQ_Done key)) (\<lambda>_. panic))"

definition processNextWorkItem ::
  "('k wq_call list \<Rightarrow> 'k \<times> bool) \<Rightarrow> ('k wq_call list \<Rightarrow> 'k \<Rightarrow> nat option outcome)
     \<Rightarrow> ('k wq_call, bool) io" where
  "processNextWorkItem get handle =
     bindM (call get WQ_Get) (\<lambda>(key, shutdown).
       if shutdown then ret False
       else bindM (call (\<lambda>h. handle h key) (WQ_Handle key)) (afterHandle key))"

text \<open>
  \<open>for c.processNextWorkItem() {}\<close> need not end; \<open>runWorker n\<close> makes at most \<open>n\<close> iterations and
  returns whether the loop ended.
\<close>

fun runWorker ::
  "nat \<Rightarrow> ('k wq_call list \<Rightarrow> 'k \<times> bool) \<Rightarrow> ('k wq_call list \<Rightarrow> 'k \<Rightarrow> nat option outcome)
     \<Rightarrow> ('k wq_call, bool) io" where
  "runWorker 0 get handle = ret False"
| "runWorker (Suc n) get handle =
     bindM (processNextWorkItem get handle) (\<lambda>again.
       if again then runWorker n get handle else ret True)"

text \<open>
  \<open>Run\<close>: with the answer of \<open>cache.WaitForCacheSync\<close>, it starts the workers, each a loop of \<open>runWorker\<close> in
  a goroutine, waits for the end of the context and shuts the queue down on every way out.
\<close>

datatype run_event = RunWaitForCacheSync | RunStartWorker | RunAwaitDone | RunShutDown

fun startWorkers :: "nat \<Rightarrow> (run_event, unit) io" where
  "startWorkers 0 = ret ()"
| "startWorkers (Suc n) = bindM (emit RunStartWorker) (\<lambda>_. startWorkers n)"

definition Run_controller :: "bool \<Rightarrow> nat \<Rightarrow> (run_event, unit) io" where
  "Run_controller synced threadiness =
     deferM [RunShutDown]
       (bindM (call (\<lambda>_. synced) RunWaitForCacheSync) (\<lambda>ok.
        if \<not> ok then fail (Errorf ''failed to wait for caches to sync'')
        else bindM (startWorkers threadiness) (\<lambda>_. emit RunAwaitDone)))"

definition EnqueueKey :: "'k \<Rightarrow> ('k wq_call, unit) io" where
  "EnqueueKey key = emit (WQ_Add key)"

text \<open>\<open>keyFunc\<close> is \<open>cache.MetaNamespaceKeyFunc\<close>.\<close>

definition EnqueueObject :: "('o \<Rightarrow> error + string) \<Rightarrow> 'o \<Rightarrow> (string wq_call, unit) io" where
  "EnqueueObject keyFunc obj =
     (case keyFunc obj of
        Inl err \<Rightarrow> emit (WQ_HandleError err)
      | Inr key \<Rightarrow> emit (WQ_Add key))"

definition EnqueueController ::
  "(ownerReference list \<Rightarrow> ownerReference option) \<Rightarrow> ('o \<Rightarrow> error + string) \<Rightarrow> string
     \<Rightarrow> (string \<Rightarrow> string \<Rightarrow> error + 'o) \<Rightarrow> 'a objmeta_scheme \<Rightarrow> (string wq_call, unit) io" where
  "EnqueueController getControllerOf keyFunc ownerKind getOwner object =
     (case getControllerOf (OwnerReferences object) of
        None \<Rightarrow> ret ()
      | Some ownerRef \<Rightarrow>
          if or_Kind ownerRef \<noteq> ownerKind then ret ()
          else (case getOwner (Namespace object) (or_Name ownerRef) of
                  Inl err \<Rightarrow> ret ()
                | Inr owner \<Rightarrow> EnqueueObject keyFunc owner))"


section \<open>Parents across clusters (controller.go)\<close>

definition IsRemoteControlled :: "'a objmeta_scheme \<Rightarrow> string \<Rightarrow> bool" where
  "IsRemoteControlled object parentClusterName \<longleftrightarrow>
     (case mlookup (Labels object) LabelKeyParentClusterName of
        None \<Rightarrow> False
      | Some v \<Rightarrow> v = parentClusterName)"

definition ParentKey :: "'a objmeta_scheme \<Rightarrow> string" where
  "ParentKey child =
     (let a = Annotations child;
          ns = mget a AnnotationKeyParentNamespace;
          parentNamespace = (if ns = [] then Namespace child else ns);
          nm = mget a AnnotationKeyParentName;
          parentName = (if nm = [] then Name child else nm)
      in if parentNamespace \<noteq> [] then parentNamespace @ ''/'' @ parentName else parentName)"

definition EnqueueRemoteController ::
  "string \<Rightarrow> 'a objmeta_scheme \<Rightarrow> (string wq_call, unit) io" where
  "EnqueueRemoteController parentClusterName object =
     (if IsRemoteControlled object parentClusterName then emit (WQ_Add (ParentKey object))
      else ret ())"

definition IndexByRemoteController :: "string \<Rightarrow> 'a objmeta_scheme \<Rightarrow> string list" where
  "IndexByRemoteController parentClusterName meta =
     (if \<not> IsRemoteControlled meta parentClusterName then [] else [ParentKey meta])"

definition AddRemoteControllerReference ::
  "'a objmeta_scheme \<Rightarrow> 'b objmeta_scheme \<Rightarrow> string \<Rightarrow> 'a objmeta_scheme" where
  "AddRemoteControllerReference child parent parentClusterName =
     child\<lparr>Labels := Some (fmupd LabelKeyParentClusterName parentClusterName
             (fmupd LabelKeyParentUID (UID parent) (nonnil (Labels child)))),
           Annotations := Some (fmupd AnnotationKeyParentName (Name parent)
             (fmupd AnnotationKeyParentNamespace (Namespace parent) (nonnil (Annotations child))))\<rparr>"

definition ParentControlsChild :: "'a objmeta_scheme \<Rightarrow> 'b objmeta_scheme \<Rightarrow> bool" where
  "ParentControlsChild child parent \<longleftrightarrow>
     mget (Annotations child) LabelKeyParentUID = UID parent
     \<or> mget (Labels child) LabelKeyParentUID = UID parent"

fun hasFinalizerFrom :: "int \<Rightarrow> string list \<Rightarrow> string \<Rightarrow> bool \<times> int" where
  "hasFinalizerFrom i [] finalizer = (False, -1)"
| "hasFinalizerFrom i (f # fs) finalizer =
     (if f = finalizer then (True, i) else hasFinalizerFrom (i + 1) fs finalizer)"

definition HasFinalizer :: "string list \<Rightarrow> string \<Rightarrow> bool \<times> int" where
  "HasFinalizer finalizers finalizer = hasFinalizerFrom 0 finalizers finalizer"

text \<open>\<open>append(xs[:j], xs[j+1:]...)\<close>, which the controllers apply to a copied slice; an index out of
  range panics.\<close>

definition removeAt :: "int \<Rightarrow> 'a list \<Rightarrow> 'a list option" where
  "removeAt j xs =
     (if 0 \<le> j \<and> j < int (length xs) then Some (take (nat j) xs @ drop (nat j + 1) xs) else None)"



section \<open>Lemmas on finalizers\<close>

lemma hasFinalizerFrom_fst: "fst (hasFinalizerFrom i fs f) \<longleftrightarrow> f \<in> set fs"
  by (induction fs arbitrary: i) auto

lemma hasFinalizerFrom_index:
  "hasFinalizerFrom i fs f = (True, j) \<Longrightarrow>
     i \<le> j \<and> nat (j - i) < length fs
     \<and> take (nat (j - i)) fs @ drop (nat (j - i) + 1) fs = remove1 f fs"
proof (induction fs arbitrary: i)
  case (Cons g fs)
  show ?case
  proof (cases "g = f")
    case False
    with Cons have IH: "i + 1 \<le> j" "nat (j - (i + 1)) < length fs"
      "take (nat (j - (i + 1))) fs @ drop (nat (j - (i + 1)) + 1) fs = remove1 f fs" by auto
    then have "nat (j - i) = Suc (nat (j - (i + 1)))" by simp
    with IH False show ?thesis by simp
  qed (use Cons.prems in auto)
qed simp

lemma HasFinalizer_iff [simp]: "fst (HasFinalizer fs f) \<longleftrightarrow> f \<in> set fs"
  by (simp add: HasFinalizer_def hasFinalizerFrom_fst)

lemma removeAt_HasFinalizer:
  "f \<in> set fs \<Longrightarrow> removeAt (snd (HasFinalizer fs f)) fs = Some (remove1 f fs)"
proof -
  assume "f \<in> set fs"
  then obtain j where j: "hasFinalizerFrom 0 fs f = (True, j)"
    using hasFinalizerFrom_fst [of 0 fs f] by (metis prod.collapse)
  from hasFinalizerFrom_index [OF this] show ?thesis
    by (auto simp: HasFinalizer_def removeAt_def j nat_less_iff)
qed

lemma HasFinalizer_cases:
  obtains (has) j where "HasFinalizer fs f = (True, j)" "f \<in> set fs" "removeAt j fs = Some (remove1 f fs)"
  | (hasnt) j where "HasFinalizer fs f = (False, j)" "f \<notin> set fs"
  using removeAt_HasFinalizer [of f fs] HasFinalizer_iff [of fs f]
  by (cases "HasFinalizer fs f") auto


section \<open>Lemmas on parents\<close>

lemma AddRemoteControllerReference_simps [simp]:
  "Labels (AddRemoteControllerReference c p n) =
     Some (fmupd LabelKeyParentClusterName n (fmupd LabelKeyParentUID (UID p) (nonnil (Labels c))))"
  "Annotations (AddRemoteControllerReference c p n) =
     Some (fmupd AnnotationKeyParentName (Name p)
       (fmupd AnnotationKeyParentNamespace (Namespace p) (nonnil (Annotations c))))"
  "Name (AddRemoteControllerReference c p n) = Name c"
  "GenerateName (AddRemoteControllerReference c p n) = GenerateName c"
  "Namespace (AddRemoteControllerReference c p n) = Namespace c"
  "UID (AddRemoteControllerReference c p n) = UID c"
  "Finalizers (AddRemoteControllerReference c p n) = Finalizers c"
  "OwnerReferences (AddRemoteControllerReference c p n) = OwnerReferences c"
  "DeletionTimestamp (AddRemoteControllerReference c p n) = DeletionTimestamp c"
  "objmeta.more (AddRemoteControllerReference c p n) = objmeta.more c"
  by (simp_all add: AddRemoteControllerReference_def)

lemma reference_controlled [simp]:
  "IsRemoteControlled (AddRemoteControllerReference c p n) n"
  "ParentControlsChild (AddRemoteControllerReference c p n) p"
  by (simp_all add: IsRemoteControlled_def ParentControlsChild_def key_simps)

lemma reference_ParentKey:
  "\<lbrakk>Namespace p \<noteq> []; Name p \<noteq> []\<rbrakk> \<Longrightarrow>
     ParentKey (AddRemoteControllerReference c p n) = Namespace p @ ''/'' @ Name p"
  by (simp add: ParentKey_def key_simps)


section \<open>Lemmas on the work loop\<close>

lemma io_emit [io_simps]: "emit e h = (Ret (), h @ [e])"
  by (simp add: emit_def io_simps)

lemma emits_emit [emits_intros]: "P e \<Longrightarrow> emits P (emit e)"
  by (simp add: emit_def emits_intros)

text \<open>The calls of one iteration on \<open>key\<close>, given what the reconciler returned.\<close>

definition verdictCalls :: "'k \<Rightarrow> nat option outcome \<Rightarrow> 'k wq_call list" where
  "verdictCalls key r =
     (case r of
        Fail err \<Rightarrow> WQ_AddRateLimited key # (if IsOptimisticLockError err then [] else [WQ_HandleError err])
      | Ret (Some d) \<Rightarrow> [WQ_AddAfter key d]
      | Ret None \<Rightarrow> [WQ_Forget key]
      | Panic \<Rightarrow> [])"

lemma processNextWorkItem_run:
  "processNextWorkItem get handle h =
     (case get h of (key, shutdown) \<Rightarrow>
        if shutdown then (Ret False, h @ [WQ_Get])
        else let r = handle (h @ [WQ_Get]) key
             in (case r of Panic \<Rightarrow> Panic | _ \<Rightarrow> Ret True,
                 h @ [WQ_Get, WQ_Handle key] @ verdictCalls key r @ [WQ_Done key]))"
  by (auto simp: processNextWorkItem_def afterHandle_def verdictCalls_def io_simps
      split: prod.splits outcome.splits option.splits)

fun isVerdict :: "'k \<Rightarrow> 'k wq_call \<Rightarrow> bool" where
  "isVerdict k (WQ_AddRateLimited k') \<longleftrightarrow> k' = k"
| "isVerdict k (WQ_AddAfter k' d) \<longleftrightarrow> k' = k"
| "isVerdict k (WQ_Forget k') \<longleftrightarrow> k' = k"
| "isVerdict k _ \<longleftrightarrow> False"

lemma verdictCalls_counts:
  "length (filter (isVerdict k) (verdictCalls k' r)) = (if k' = k \<and> r \<noteq> Panic then 1 else 0)"
  "count_list (verdictCalls k' r) (WQ_Handle k) = 0"
  "count_list (verdictCalls k' r) (WQ_Done k) = 0"
  "WQ_Get \<notin> set (verdictCalls k' r)"
  by (auto simp: verdictCalls_def split: outcome.splits option.splits)

text \<open>What a stretch of the history of a worker satisfies: every item taken is done, and given one
  verdict unless the reconciler panicked on it.\<close>

definition balanced :: "bool \<Rightarrow> 'k wq_call list \<Rightarrow> bool" where
  "balanced panicked h \<longleftrightarrow> (\<forall>k. count_list h (WQ_Handle k) = count_list h (WQ_Done k)
     \<and> (\<not> panicked \<longrightarrow> length (filter (isVerdict k) h) = count_list h (WQ_Handle k)))"

lemma processNextWorkItem_balanced:
  assumes "processNextWorkItem get handle h = (r, h')" and "balanced False h"
  shows "balanced (r = Panic) h'"
  using assms
  by (auto simp: processNextWorkItem_run balanced_def Let_def verdictCalls_counts
      split: prod.splits if_splits outcome.splits)

lemma runWorker_balanced_from:
  "runWorker n get handle h = (r, h') \<Longrightarrow> balanced False h \<Longrightarrow> balanced (r = Panic) h'"
proof (induction n arbitrary: h)
  case 0
  then show ?case by (auto simp: io_simps)
next
  case (Suc n)
  obtain r1 h1 where 1: "processNextWorkItem get handle h = (r1, h1)" by fastforce
  from processNextWorkItem_balanced [OF this Suc.prems(2)] have b: "balanced (r1 = Panic) h1" .
  show ?case
  proof (cases r1)
    case (Ret again)
    with b Suc 1 show ?thesis by (cases again) (auto simp: io_simps)
  next
    case (Fail e)
    with 1 show ?thesis
      by (auto simp: processNextWorkItem_run Let_def split: prod.splits if_splits outcome.splits)
  next
    case Panic
    with b Suc.prems 1 show ?thesis by (auto simp: io_simps)
  qed
qed


text \<open>A stretch of the history where an item is forgotten only right after the reconciler has
  succeeded on it with nothing left to requeue.\<close>

definition forgetsOK :: "('k wq_call list \<Rightarrow> 'k \<Rightarrow> nat option outcome) \<Rightarrow> 'k wq_call list \<Rightarrow> bool" where
  "forgetsOK handle h \<longleftrightarrow>
     (\<forall>a k b. h = a @ WQ_Forget k # b \<longrightarrow> (\<exists>a'. a = a' @ [WQ_Handle k] \<and> handle a' k = Ret None))"

lemma forgetsOK_snoc:
  "forgetsOK handle (h @ [e]) \<longleftrightarrow> forgetsOK handle h \<and>
     (case e of WQ_Forget k \<Rightarrow> \<exists>a'. h = a' @ [WQ_Handle k] \<and> handle a' k = Ret None | _ \<Rightarrow> True)"
proof -
  have "h @ [e] = a @ x # b \<longleftrightarrow> (b = [] \<and> a = h \<and> x = e) \<or> (\<exists>c. b = c @ [e] \<and> h = a @ x # c)"
    for a x b by (cases b rule: rev_cases) auto
  then show ?thesis unfolding forgetsOK_def by (auto split: wq_call.splits)
qed

lemma forgetsOK_Nil [simp]: "forgetsOK handle []"
  by (simp add: forgetsOK_def)

lemma forgetsOK_append:
  "\<lbrakk>forgetsOK handle h; \<forall>k. WQ_Forget k \<notin> set es\<rbrakk> \<Longrightarrow> forgetsOK handle (h @ es)"
proof (induction es rule: rev_induct)
  case (snoc e es)
  then have "forgetsOK handle ((h @ es) @ [e])"
    unfolding forgetsOK_snoc by (auto split: wq_call.splits)
  then show ?case by simp
qed simp

lemma processNextWorkItem_forgetsOK:
  assumes "processNextWorkItem get handle h = (r, h')" and "forgetsOK handle h"
  shows "forgetsOK handle h'"
proof -
  obtain key sd where g: "get h = (key, sd)" by fastforce
  show ?thesis
  proof (cases sd)
    case True
    with assms g show ?thesis by (auto simp: processNextWorkItem_run intro: forgetsOK_append)
  next
    case False
    define v where "v = handle (h @ [WQ_Get]) key"
    have h': "h' = h @ [WQ_Get, WQ_Handle key] @ verdictCalls key v @ [WQ_Done key]"
      using False assms(1) g by (auto simp: processNextWorkItem_run v_def Let_def)
    show ?thesis
    proof (cases "v = Ret None")
      case True
      have "forgetsOK handle ((h @ [WQ_Get]) @ [WQ_Handle key])"
        by (simp add: assms(2) forgetsOK_append)
      then have "forgetsOK handle (((h @ [WQ_Get]) @ [WQ_Handle key]) @ [WQ_Forget key])"
        using True by (subst forgetsOK_snoc) (auto simp: v_def)
      then have "forgetsOK handle ((((h @ [WQ_Get]) @ [WQ_Handle key]) @ [WQ_Forget key]) @ [WQ_Done key])"
        by (rule forgetsOK_append) simp
      with True show ?thesis by (simp add: h' verdictCalls_def)
    next
      case False
      then show ?thesis unfolding h'
        by (intro forgetsOK_append assms(2))
          (auto simp: verdictCalls_def split: outcome.splits option.splits)
    qed
  qed
qed

lemma runWorker_forgetsOK_from:
  "runWorker n get handle h = (r, h') \<Longrightarrow> forgetsOK handle h \<Longrightarrow> forgetsOK handle h'"
proof (induction n arbitrary: h)
  case (Suc n)
  obtain r1 h1 where 1: "processNextWorkItem get handle h = (r1, h1)" by fastforce
  from processNextWorkItem_forgetsOK [OF this Suc.prems(2)] have "forgetsOK handle h1" .
  with Suc 1 show ?case by (auto simp: io_simps split: outcome.splits if_splits)
qed (auto simp: io_simps)

text \<open>With a queue that reports its shutdown at the \<open>Suc m\<close>-th \<open>Get\<close>, the loop ends.\<close>

lemma runWorker_shutdown_from:
  assumes "\<forall>h. count_list h WQ_Get = m \<longrightarrow> snd (get h)" and "\<forall>h k. handle h k \<noteq> Panic"
  shows "count_list h WQ_Get \<le> m \<Longrightarrow> n = m - count_list h WQ_Get \<Longrightarrow>
    fst (runWorker (Suc n) get handle h) = Ret True"
proof (induction n arbitrary: h)
  case 0
  then have "snd (get h)" using assms(1) by simp
  then show ?case by (auto simp: processNextWorkItem_run io_simps split: prod.splits)
next
  case (Suc n)
  obtain key sd where g: "get h = (key, sd)" by fastforce
  show ?case
  proof (cases sd)
    case False
    define v where "v = handle (h @ [WQ_Get]) key"
    define h1 where "h1 = h @ [WQ_Get, WQ_Handle key] @ verdictCalls key v @ [WQ_Done key]"
    have "v \<noteq> Panic" using assms(2) by (simp add: v_def)
    then have "processNextWorkItem get handle h = (Ret True, h1)"
      using False g by (auto simp: processNextWorkItem_run v_def h1_def Let_def split: outcome.splits)
    moreover have "count_list h1 WQ_Get = Suc (count_list h WQ_Get)"
      using verdictCalls_counts(4) [of key v] by (simp add: h1_def count_list_0_iff)
    moreover have "fst (runWorker (Suc n) get handle h1) = Ret True"
      using calculation(2) Suc.prems by (intro Suc.IH) simp_all
    ultimately show ?thesis
      by (subst runWorker.simps) (simp add: bindM_apply del: runWorker.simps)
  qed (use g in \<open>simp add: processNextWorkItem_run io_simps\<close>)
qed


section \<open>Properties\<close>

text \<open>
  A worker balances its queue whatever the queue hands out and the reconciler does:
  every item taken is marked done, a panicking one included, and every item handled without
  a panic gets one verdict, requeued with a limit, requeued later or forgotten.
\<close>

theorem runWorker_balanced:
  "case runWorker n get handle [] of (r, h) \<Rightarrow> balanced (r = Panic) h"
proof -
  obtain r h where rh: "runWorker n get handle [] = (r, h)" by fastforce
  have "balanced False []" by (simp add: balanced_def)
  from runWorker_balanced_from [OF rh this] rh show ?thesis by simp
qed

text \<open>
  The rate limiter forgets an item only right after the reconciler succeeded on it
  and asked for no requeue, so the back-off of a failing item is never reset.
\<close>

theorem runWorker_forgets:
  "forgetsOK handle (snd (runWorker n get handle []))"
  using runWorker_forgetsOK_from [of n get handle "[]"]
  by (cases "runWorker n get handle []") simp

text \<open>
  Property C26.  The worker loop ends at shutdown: if the queue reports its shutdown at the
  \<open>m + 1\<close>-st \<open>Get\<close> and the reconciler does not panic, the loop returns after at most \<open>m + 1\<close> iterations.
\<close>

theorem runWorker_shutdown:
  assumes "\<forall>h. count_list h WQ_Get = m \<longrightarrow> snd (get h)" and "\<forall>h k. handle h k \<noteq> Panic"
  shows "fst (runWorker (Suc m) get handle []) = Ret True"
  by (rule runWorker_shutdown_from [OF assms]) simp_all

theorem runWorker_shutdown_witness:
  "fst (runWorker 3 (\<lambda>h. (''ns/pod'', count_list h WQ_Get = 2)) (\<lambda>h k. Fail (Errorf ''boom'')) []) = Ret True"
  using runWorker_shutdown [of 2 "\<lambda>h. (''ns/pod'', count_list h WQ_Get = 2)" "\<lambda>h k. Fail (Errorf ''boom'')"]
  by (simp add: numeral_3_eq_3 numeral_2_eq_2)

text \<open>
  References to a parent survive the round trip: an object given a reference to its
  parent is controlled by that parent and by its cluster, and is indexed under the parent's
  namespaced key, under which the controller of the parent's cluster enqueues it.
\<close>

theorem reference_roundtrip:
  assumes "Namespace parent \<noteq> []" and "Name parent \<noteq> []"
  shows "ParentControlsChild (AddRemoteControllerReference child parent cluster) parent
    \<and> IndexByRemoteController cluster (AddRemoteControllerReference child parent cluster)
        = [Namespace parent @ ''/'' @ Name parent]
    \<and> EnqueueRemoteController cluster (AddRemoteControllerReference child parent cluster)
        = EnqueueKey (Namespace parent @ ''/'' @ Name parent)"
  using reference_ParentKey [OF assms, of child cluster]
  by (simp add: IndexByRemoteController_def EnqueueRemoteController_def EnqueueKey_def)

theorem reference_roundtrip_witness:
  "\<exists>c :: pod. ParentControlsChild (AddRemoteControllerReference c
        (zero_pod\<lparr>Name := ''web'', Namespace := ''team'', UID := ''u1''\<rparr>) ''c1'')
      (zero_pod\<lparr>Name := ''web'', Namespace := ''team'', UID := ''u1''\<rparr>)
    \<and> IndexByRemoteController ''c1'' (AddRemoteControllerReference c
        (zero_pod\<lparr>Name := ''web'', Namespace := ''team'', UID := ''u1''\<rparr>) ''c1'') = [''team/web'']"
  using reference_roundtrip [of "zero_pod\<lparr>Name := ''web'', Namespace := ''team'', UID := ''u1''\<rparr>" zero_pod "''c1''"]
  by (intro exI [of _ zero_pod]) simp

text \<open>
  Removing a finalizer at the index \<open>HasFinalizer\<close> reports never panics and removes
  the first occurrence of that finalizer and nothing else; when it reports none, there is none.
\<close>

theorem HasFinalizer_removes:
  "case HasFinalizer fs f of (has, j) \<Rightarrow>
     if has then f \<in> set fs \<and> removeAt j fs = Some (remove1 f fs) else f \<notin> set fs \<and> j = -1"
proof -
  have "hasFinalizerFrom i fs f = (False, j) \<Longrightarrow> j = -1" for i j
    by (induction fs arbitrary: i) (auto split: if_splits)
  then show ?thesis
    by (cases rule: HasFinalizer_cases [of fs f]) (auto simp: HasFinalizer_def)
qed

text \<open>
  A controller starts its workers only after the caches are filled, as many as it was told to, and shuts
  its queue down last; when the caches are not filled it starts none and returns an error.
\<close>

lemma startWorkers_run: "startWorkers n h = (Ret (), h @ replicate n RunStartWorker)"
  by (induction n arbitrary: h) (simp_all add: io_simps emit_def)

theorem Run_controller_run:
  "Run_controller synced n h =
     (if synced
      then (Ret (), h @ RunWaitForCacheSync # replicate n RunStartWorker @ [RunAwaitDone, RunShutDown])
      else (Fail (Errorf ''failed to wait for caches to sync''), h @ [RunWaitForCacheSync, RunShutDown]))"
  by (simp add: Run_controller_def deferM_def io_simps startWorkers_run emit_def)

end
