(* ===== verification/Pod_Models.thy ===== *)
theory Pod_Models
  imports Controller_Lib
begin

text \<open>
  Packages \<open>pkg/model/proxypod\<close>, \<open>pkg/model/delegatepod\<close> and \<open>pkg/model/virtualnode\<close>: what a
  proxy pod and a delegate pod are, how a delegate pod is made from the source pod that a proxy
  pod carries, and the labels of a virtual node.  The YAML codec and the regular expressions are
  parameters.  A loop whose result depends on the order of a range takes that order as a
  parameter \<open>rng\<close>.
\<close>

section \<open>Proxy pods (proxypod/model.go)\<close>

record yamlCodec =
  Marshal :: "pod \<Rightarrow> error + string"
  Unmarshal :: "string \<Rightarrow> error + pod"
  UnmarshalStrict :: "string \<Rightarrow> error + pod"
  UnmarshalStrictPodSpec :: "string \<Rightarrow> error + podSpec"

definition IsProxy :: "pod \<Rightarrow> bool" where
  "IsProxy p \<longleftrightarrow> SchedulerName (pod_Spec p) = ProxySchedulerName"

definition GetSourcePod :: "yamlCodec \<Rightarrow> pod \<Rightarrow> error + pod" where
  "GetSourcePod yaml proxyPod =
     (case mlookup (Annotations proxyPod) AnnotationKeySourcePodManifest of
        None \<Rightarrow> Inl (Errorf ''no source pod manifest on proxy pod'')
      | Some srcPodManifest \<Rightarrow>
          (case Unmarshal yaml srcPodManifest of
             Inl err \<Rightarrow> Inl (Errorf (''cannot unmarshal source pod manifest: '' @ Error err))
           | Inr srcPod \<Rightarrow> Inr srcPod))"

definition GetScheduledClusterName :: "pod \<Rightarrow> string" where
  "GetScheduledClusterName proxyPod = NodeName (pod_Spec proxyPod)"


section \<open>Delegate pods (delegatepod/model.go)\<close>

definition IsDelegate :: "pod \<Rightarrow> bool" where
  "IsDelegate p \<longleftrightarrow> SchedulerName (pod_Spec p) = CandidateSchedulerName"

text \<open>\<open>compile\<close> is \<open>regexp.Compile\<close>, an expression being known by the strings it matches.\<close>

definition changeLabelsStep ::
  "string \<Rightarrow> (string \<Rightarrow> bool) \<Rightarrow> (string, string) fmap \<times> bool \<Rightarrow> string \<times> string
     \<Rightarrow> (string, string) fmap \<times> bool" where
  "changeLabelsStep noPrefixLabelRegex re acc e =
     (case acc of (newLabels, changed) \<Rightarrow> case e of (k, v) \<Rightarrow>
        let keySplit = Split slash k in
        if length noPrefixLabelRegex > 0 \<and> re (k @ ''='' @ v) then (fmupd k v newLabels, changed)
        else if length keySplit = 1 \<or> keySplit ! 0 \<noteq> KeyPrefix
             then (fmupd (KeyPrefix @ keySplit ! (length keySplit - 1)) v newLabels, True)
             else (fmupd k v newLabels, changed))"

definition ChangeLabels ::
  "(string \<Rightarrow> error + (string \<Rightarrow> bool)) \<Rightarrow> ((string, string) fmap \<Rightarrow> (string \<times> string) list)
     \<Rightarrow> stringmap \<Rightarrow> string \<Rightarrow> error + ((string, string) fmap \<times> bool)" where
  "ChangeLabels compile rng labels noPrefixLabelRegex =
     (case compile noPrefixLabelRegex of
        Inl err \<Rightarrow> Inl (Errorf (''failed to complie regexp '' @ noPrefixLabelRegex @ '': '' @ Error err))
      | Inr re \<Rightarrow>
          Inr (foldl (changeLabelsStep noPrefixLabelRegex re) (fmempty, False) (rng (nonnil labels))))"

definition serviceAccountPath :: string where
  "serviceAccountPath = ''/var/run/secrets/kubernetes.io/serviceaccount''"

text \<open>The search for the mount: its index and the name of the volume.\<close>

fun findMount :: "nat \<Rightarrow> volumeMount list \<Rightarrow> (nat \<times> string) option" where
  "findMount i [] = None"
| "findMount i (m # ms) =
     (if MountPath m = serviceAccountPath then Some (i, vm_Name m) else findMount (i + 1) ms)"

text \<open>The loop over a slice of containers, which carries \<open>saSecretName\<close>.\<close>

fun stripContainers :: "string \<Rightarrow> container list \<Rightarrow> string \<times> container list" where
  "stripContainers saSecretName [] = (saSecretName, [])"
| "stripContainers saSecretName (c # cs) =
     (case findMount 0 (VolumeMounts c) of
        None \<Rightarrow> (case stripContainers saSecretName cs of (sa, cs') \<Rightarrow> (sa, c # cs'))
      | Some (j, n) \<Rightarrow>
          (case stripContainers n cs of (sa, cs') \<Rightarrow>
             (sa, c\<lparr>VolumeMounts := take j (VolumeMounts c) @ drop (j + 1) (VolumeMounts c)\<rparr> # cs')))"

fun findVolume :: "nat \<Rightarrow> string \<Rightarrow> volume list \<Rightarrow> nat option" where
  "findVolume i n [] = None"
| "findVolume i n (v # vs) = (if vol_Name v = n then Some i else findVolume (i + 1) n vs)"

definition removeServiceAccount :: "podSpec \<Rightarrow> podSpec" where
  "removeServiceAccount spec =
     (case stripContainers [] (Containers spec) of (sa1, cs) \<Rightarrow>
      case stripContainers sa1 (InitContainers spec) of (sa2, ics) \<Rightarrow>
      let spec' = spec\<lparr>Containers := cs, InitContainers := ics\<rparr>
      in case findVolume 0 sa2 (Volumes spec) of
           None \<Rightarrow> spec'
         | Some j \<Rightarrow> spec'\<lparr>Volumes := take j (Volumes spec) @ drop (j + 1) (Volumes spec)\<rparr>)"

definition MakeDelegatePod ::
  "yamlCodec \<Rightarrow> (string \<Rightarrow> error + (string \<Rightarrow> bool)) \<Rightarrow> ((string, string) fmap \<Rightarrow> (string \<times> string) list)
     \<Rightarrow> pod \<Rightarrow> string \<Rightarrow> error + podChaperon" where
  "MakeDelegatePod yaml compile rng proxyPod clusterName =
     (case GetSourcePod yaml proxyPod of
        Inl err \<Rightarrow> Inl err
      | Inr srcPod \<Rightarrow>
          let annotations = fmfilter (\<lambda>k. \<not> HasPrefix k KeyPrefix) (nonnil (Annotations srcPod)) in
          case ChangeLabels compile rng (Labels srcPod) (mget (Annotations srcPod) AnnotationNoPrefixLabelRegexp) of
            Inl err \<Rightarrow> Inl (Errorf (''failed to change labels for proxy pod '' @ Name proxyPod @ '': '' @ Error err))
          | Inr (labels, _) \<Rightarrow>
              let delegatePod = objmeta.extend
                    (zero_meta\<lparr>Namespace := Namespace proxyPod, GenerateName := Name proxyPod @ ''-'',
                       Labels := Some labels, Annotations := Some annotations\<rparr>)
                    \<lparr>pc_Spec = pod_Spec srcPod, pc_Status = zero_podStatus\<rparr>;
                  delegatePod = AddRemoteControllerReference delegatePod proxyPod clusterName;
                  delegatePod =
                    (case mlookup (Annotations srcPod) AnnotationKeyUseConstraintsFromSpecForProxyPodScheduling of
                       Some _ \<Rightarrow> delegatePod\<lparr>pc_Spec := (pc_Spec delegatePod)
                         \<lparr>NodeSelector := None, Tolerations := [], Affinity := None,
                          TopologySpreadConstraints := []\<rparr>\<rparr>
                     | None \<Rightarrow> delegatePod);
                  delegatePod = delegatePod\<lparr>pc_Spec := removeServiceAccount (pc_Spec delegatePod)\<rparr>;
                  delegatePod =
                    (case mlookup (Annotations srcPod) AnnotationKeyNoReservation of
                       None \<Rightarrow> delegatePod\<lparr>pc_Spec := (pc_Spec delegatePod)\<lparr>SchedulerName := CandidateSchedulerName\<rparr>\<rparr>
                     | Some _ \<Rightarrow> delegatePod)
              in Inr (delegatePod\<lparr>pc_Spec := (pc_Spec delegatePod)\<lparr>Priority := None\<rparr>\<rparr>))"


section \<open>Virtual nodes (virtualnode/model.go)\<close>

definition BaseLabels :: "string \<Rightarrow> string \<Rightarrow> (string, string) fmap" where
  "BaseLabels targetNamespace targetName =
     (let l = fmap_of_list
        [(''type'', ''virtual-kubelet''),
         (LabelAndTaintKeyVirtualKubeletProvider, VirtualKubeletProviderName),
         (''kubernetes.io/role'', ''cluster''),
         (''alpha.service-controller.kubernetes.io/exclude-balancer'', ''true''),
         (''node.kubernetes.io/exclude-from-external-load-balancers'', ''true'')]
      in if targetNamespace = [] then fmupd LabelKeyClusterTargetName targetName l
         else fmupd LabelKeyTargetName targetName (fmupd LabelKeyTargetNamespace targetNamespace l))"


section \<open>Lemmas on labels\<close>

text \<open>The key under which an entry lands.\<close>

definition newLabelKey :: "string \<Rightarrow> string" where
  "newLabelKey k = KeyPrefix @ last (Split slash k)"

definition keepsLabel :: "string \<Rightarrow> (string \<Rightarrow> bool) \<Rightarrow> string \<times> string \<Rightarrow> bool" where
  "keepsLabel r re e \<longleftrightarrow> r \<noteq> [] \<and> re (fst e @ ''='' @ snd e)"

definition movedEntry :: "string \<Rightarrow> (string \<Rightarrow> bool) \<Rightarrow> string \<times> string \<Rightarrow> string \<times> string" where
  "movedEntry r re e = (if keepsLabel r re e then e else (newLabelKey (fst e), snd e))"

text \<open>A segment holds no slash and the prefix does, so the comparison in the code never succeeds.\<close>

lemma first_segment_not_prefix: "Split slash k ! 0 \<noteq> KeyPrefix"
proof
  assume eq: "Split slash k ! 0 = KeyPrefix"
  have "Split slash k ! 0 \<in> set (Split slash k)" by (simp add: hd_conv_nth [symmetric])
  then have "slash \<notin> set (Split slash k ! 0)" by (rule Split_parts_no_sep)
  moreover have "slash \<in> set KeyPrefix" by (simp add: KeyPrefix_def)
  ultimately show False using eq by simp
qed

lemma changeLabelsStep_eq:
  "changeLabelsStep r re (m, ch) e =
     (fmupd (fst (movedEntry r re e)) (snd (movedEntry r re e)) m, ch \<or> \<not> keepsLabel r re e)"
  using first_segment_not_prefix
  by (cases e)
    (simp add: changeLabelsStep_def keepsLabel_def movedEntry_def newLabelKey_def last_conv_nth Let_def)

lemma foldl_changeLabelsStep:
  "foldl (changeLabelsStep r re) (m, ch) xs =
     (foldl (\<lambda>d (k, v). fmupd k v d) m (map (movedEntry r re) xs), ch \<or> (\<exists>e\<in>set xs. \<not> keepsLabel r re e))"
  by (induction xs arbitrary: m ch) (auto simp: changeLabelsStep_eq case_prod_unfold)

lemma foldl_fmupd_mem:
  "fmlookup (foldl (\<lambda>d (k, v). fmupd k v d) m xs) k = Some v \<Longrightarrow>
     fmlookup m k = Some v \<or> (k, v) \<in> set xs"
  by (induction xs arbitrary: m) (fastforce split: if_splits)+

lemma is_rangeD: "is_range xs m \<Longrightarrow> (k, v) \<in> set xs \<longleftrightarrow> fmlookup m k = Some v"
  unfolding is_range_def by (auto simp: fmlookup_of_list)

lemma is_range_card: "is_range xs m \<Longrightarrow> card (fset (fmdom m)) = length xs"
  using distinct_card [of "map fst xs"] by (auto simp: is_range_def fset_of_list.rep_eq)

lemma ChangeLabels_eq:
  "ChangeLabels compile rng labels r =
     (case compile r of
        Inl err \<Rightarrow> Inl (Errorf (''failed to complie regexp '' @ r @ '': '' @ Error err))
      | Inr re \<Rightarrow>
          let xs = rng (nonnil labels)
          in Inr (foldl (\<lambda>d (k, v). fmupd k v d) fmempty (map (movedEntry r re) xs),
                  \<exists>e\<in>set xs. \<not> keepsLabel r re e))"
  by (simp add: ChangeLabels_def foldl_changeLabelsStep Let_def split: sum.splits)

lemma ChangeLabels_entry:
  assumes "ChangeLabels compile rng labels r = Inr (m, ch)" "compile r = Inr re"
    and "is_range (rng (nonnil labels)) (nonnil labels)" and "fmlookup m k = Some v"
  shows "\<exists>k0. mlookup labels k0 = Some v \<and> (k, v) = movedEntry r re (k0, v)"
proof -
  have "m = foldl (\<lambda>d (k, v). fmupd k v d) fmempty (map (movedEntry r re) (rng (nonnil labels)))"
    using assms(1,2) by (simp add: ChangeLabels_eq Let_def)
  with assms(4) have "(k, v) \<in> set (map (movedEntry r re) (rng (nonnil labels)))"
    using foldl_fmupd_mem by fastforce
  then obtain e where "e \<in> set (rng (nonnil labels))" "(k, v) = movedEntry r re e" by auto
  moreover from this have "e = (fst e, v)" by (auto simp: movedEntry_def split: if_splits)
  ultimately show ?thesis using is_rangeD [OF assms(3)] by (metis fmlookup_nonnil)
qed


section \<open>Lemmas on the service account\<close>

lemma findMount_filter:
  assumes "length (filter (\<lambda>m. MountPath m = serviceAccountPath) ms) \<le> 1"
  shows "case findMount i ms of
      None \<Rightarrow> filter (\<lambda>m. MountPath m \<noteq> serviceAccountPath) ms = ms
    | Some (j, n) \<Rightarrow> i \<le> j
        \<and> take (j - i) ms @ drop (j - i + 1) ms = filter (\<lambda>m. MountPath m \<noteq> serviceAccountPath) ms
        \<and> (\<exists>m\<in>set ms. MountPath m = serviceAccountPath \<and> vm_Name m = n)"
  using assms
proof (induction ms arbitrary: i)
  case (Cons m ms)
  show ?case
  proof (cases "MountPath m = serviceAccountPath")
    case True
    with Cons.prems have "filter (\<lambda>m. MountPath m = serviceAccountPath) ms = []" by simp
    then have "filter (\<lambda>m. MountPath m \<noteq> serviceAccountPath) ms = ms"
      by (auto simp: filter_empty_conv filter_id_conv)
    with True show ?thesis by auto
  next
    case False
    with Cons.prems have "length (filter (\<lambda>m. MountPath m = serviceAccountPath) ms) \<le> 1" by simp
    from Cons.IH [OF this, of "Suc i"] False show ?thesis
      by (auto simp: Suc_diff_le Suc_le_eq split: option.splits prod.splits)
        (metis Suc_diff_Suc append_Cons drop_Suc_Cons take_Suc_Cons)+
  qed
qed simp

text \<open>The mounts of the service account in a list of containers.\<close>

definition saMounts :: "container list \<Rightarrow> volumeMount list" where
  "saMounts cs = filter (\<lambda>m. MountPath m = serviceAccountPath) (concat (map VolumeMounts cs))"

definition withoutSA :: "container \<Rightarrow> container" where
  "withoutSA c = c\<lparr>VolumeMounts := filter (\<lambda>m. MountPath m \<noteq> serviceAccountPath) (VolumeMounts c)\<rparr>"

definition oneSAMount :: "container \<Rightarrow> bool" where
  "oneSAMount c \<longleftrightarrow> length (filter (\<lambda>m. MountPath m = serviceAccountPath) (VolumeMounts c)) \<le> 1"

lemma stripContainers_eq:
  assumes "list_all oneSAMount cs" and "\<forall>m\<in>set (saMounts cs). vm_Name m = n"
  shows "stripContainers sa cs = (if saMounts cs = [] then sa else n, map withoutSA cs)"
  using assms
proof (induction cs arbitrary: sa)
  case (Cons c cs)
  have one: "length (filter (\<lambda>m. MountPath m = serviceAccountPath) (VolumeMounts c)) \<le> 1"
    using Cons.prems(1) by (simp add: oneSAMount_def)
  have rest: "list_all oneSAMount cs" "\<forall>m\<in>set (saMounts cs). vm_Name m = n"
    using Cons.prems by (simp_all add: saMounts_def)
  show ?case
  proof (cases "findMount 0 (VolumeMounts c)")
    case None
    with findMount_filter [OF one, of 0]
    have f: "filter (\<lambda>m. MountPath m \<noteq> serviceAccountPath) (VolumeMounts c) = VolumeMounts c" by simp
    then have "filter (\<lambda>m. MountPath m = serviceAccountPath) (VolumeMounts c) = []"
      by (auto simp: filter_id_conv filter_empty_conv)
    with None f Cons.IH [OF rest] show ?thesis
      by (simp add: withoutSA_def saMounts_def)
  next
    case (Some jn)
    obtain j v where jn: "jn = (j, v)" by (cases jn)
    from findMount_filter [OF one, of 0] Some jn
    have f: "take j (VolumeMounts c) @ drop (Suc j) (VolumeMounts c)
        = filter (\<lambda>m. MountPath m \<noteq> serviceAccountPath) (VolumeMounts c)"
      and v: "\<exists>m\<in>set (VolumeMounts c). MountPath m = serviceAccountPath \<and> vm_Name m = v" by auto
    from v Cons.prems(2) have "v = n" "saMounts (c # cs) \<noteq> []"
      by (auto simp: saMounts_def filter_empty_conv)
    with Some jn f Cons.IH [OF rest] show ?thesis
      by (simp add: withoutSA_def)
  qed
qed (simp add: saMounts_def)

lemma findVolume_filter:
  assumes "distinct (map vol_Name vs)"
  shows "(case findVolume i n vs of None \<Rightarrow> vs | Some j \<Rightarrow> take (j - i) vs @ drop (j - i + 1) vs)
      = filter (\<lambda>v. vol_Name v \<noteq> n) vs
    \<and> (\<forall>j. findVolume i n vs = Some j \<longrightarrow> i \<le> j)"
  using assms
proof (induction vs arbitrary: i)
  case (Cons v vs)
  show ?case
  proof (cases "vol_Name v = n")
    case True
    with Cons.prems have "filter (\<lambda>v. vol_Name v \<noteq> n) vs = vs"
      by (simp add: filter_id_conv) (metis image_eqI)
    with True show ?thesis by simp
  next
    case False
    have IH: "(case findVolume (Suc i) n vs of None \<Rightarrow> vs
        | Some j \<Rightarrow> take (j - Suc i) vs @ drop (j - Suc i + 1) vs) = filter (\<lambda>v. vol_Name v \<noteq> n) vs"
      "\<forall>j. findVolume (Suc i) n vs = Some j \<longrightarrow> Suc i \<le> j"
      using Cons.IH [of "Suc i"] Cons.prems by auto
    show ?thesis
    proof (cases "findVolume (Suc i) n vs")
      case (Some j)
      with IH(2) have "j - i = Suc (j - Suc i)" "i \<le> j" by auto
      with Some IH(1) False show ?thesis by simp
    qed (use IH False in simp)
  qed
qed simp


lemma removeServiceAccount_eq:
  assumes "list_all oneSAMount (Containers spec @ InitContainers spec)"
    and "\<forall>m\<in>set (saMounts (Containers spec @ InitContainers spec)). vm_Name m = n"
    and "distinct (map vol_Name (Volumes spec))" and "[] \<notin> vol_Name ` set (Volumes spec)"
  shows "removeServiceAccount spec = spec
    \<lparr>Containers := map withoutSA (Containers spec),
     InitContainers := map withoutSA (InitContainers spec),
     Volumes := if saMounts (Containers spec @ InitContainers spec) = [] then Volumes spec
                else filter (\<lambda>v. vol_Name v \<noteq> n) (Volumes spec)\<rparr>"
proof -
  let ?sa = "if saMounts (Containers spec @ InitContainers spec) = [] then [] else n"
  have app: "saMounts (xs @ ys) = saMounts xs @ saMounts ys" for xs ys by (simp add: saMounts_def)
  have c: "stripContainers [] (Containers spec) =
      (if saMounts (Containers spec) = [] then [] else n, map withoutSA (Containers spec))"
    and i: "\<And>sa. stripContainers sa (InitContainers spec) =
      (if saMounts (InitContainers spec) = [] then sa else n, map withoutSA (InitContainers spec))"
    using assms(1,2) by (simp_all add: app stripContainers_eq [where n = n])
  have "filter (\<lambda>v. vol_Name v \<noteq> []) (Volumes spec) = Volumes spec"
    using assms(4) by (force simp: filter_id_conv)
  with findVolume_filter [OF assms(3), of 0 ?sa]
  have "(case findVolume 0 ?sa (Volumes spec) of None \<Rightarrow> Volumes spec
      | Some j \<Rightarrow> take j (Volumes spec) @ drop (j + 1) (Volumes spec)) =
      (if saMounts (Containers spec @ InitContainers spec) = [] then Volumes spec
       else filter (\<lambda>v. vol_Name v \<noteq> n) (Volumes spec))"
    by (auto split: option.splits)
  then show ?thesis
    by (auto simp: removeServiceAccount_def c i app Let_def split: option.splits)
qed

lemma removeServiceAccount_keeps [simp]:
  "SchedulerName (removeServiceAccount s) = SchedulerName s"
  "NodeSelector (removeServiceAccount s) = NodeSelector s"
  "Tolerations (removeServiceAccount s) = Tolerations s"
  "Affinity (removeServiceAccount s) = Affinity s"
  "TopologySpreadConstraints (removeServiceAccount s) = TopologySpreadConstraints s"
  "NodeName (removeServiceAccount s) = NodeName s"
  by (simp_all add: removeServiceAccount_def Let_def split: prod.splits option.splits)


section \<open>Properties\<close>

text \<open>
  The labels of a delegate pod cannot be mistaken for the source pod's: in whatever
  order the range visits them, a label of the result either is in the program's own domain or is
  a label of the source, with its value, that the user's regular expression matches.
\<close>

theorem ChangeLabels_protects:
  assumes "ChangeLabels compile rng labels r = Inr (new, changed)" and "compile r = Inr re"
    and "is_range (rng (nonnil labels)) (nonnil labels)" and "fmlookup new k = Some v"
  shows "HasPrefix k KeyPrefix \<or> (mlookup labels k = Some v \<and> r \<noteq> [] \<and> re (k @ ''='' @ v))"
proof -
  obtain k0 where "mlookup labels k0 = Some v" "(k, v) = movedEntry r re (k0, v)"
    using ChangeLabels_entry [OF assms] by blast
  then show ?thesis
    by (cases "keepsLabel r re (k0, v)") (auto simp: movedEntry_def keepsLabel_def newLabelKey_def)
qed

theorem ChangeLabels_protects_witness:
  "HasPrefix (KeyPrefix @ ''name'') KeyPrefix
    \<and> ChangeLabels (\<lambda>_. Inr (\<lambda>_. False)) (\<lambda>_. [(''app.kubernetes.io/name'', ''web'')])
        (Some (fmap_of_list [(''app.kubernetes.io/name'', ''web'')])) []
      = Inr (fmupd (KeyPrefix @ ''name'') ''web'' fmempty, True)"
proof -
  have c: "ChangeLabels (\<lambda>_. Inr (\<lambda>_. False)) (\<lambda>_. [(''app.kubernetes.io/name'', ''web'')])
        (Some (fmap_of_list [(''app.kubernetes.io/name'', ''web'')])) []
      = Inr (fmupd (KeyPrefix @ ''name'') ''web'' fmempty, True)"
    by (simp add: ChangeLabels_def changeLabelsStep_def KeyPrefix_def)
  from ChangeLabels_protects [OF c, of "\<lambda>_. False" "KeyPrefix @ ''name''" "''web''"]
  have "HasPrefix (KeyPrefix @ ''name'') KeyPrefix" by (simp add: is_range_def)
  with c show ?thesis by blast
qed

text \<open>
  Property C23.  No label is lost and the order of the range does not matter, as long as no two
  labels land on one key: every label's value is found under its new key, and the result has as
  many labels as the source.
\<close>

theorem ChangeLabels_renames:
  assumes "ChangeLabels compile rng labels r = Inr (new, changed)" and "compile r = Inr re"
    and "is_range (rng (nonnil labels)) (nonnil labels)"
    and "distinct (map (\<lambda>e. fst (movedEntry r re e)) (rng (nonnil labels)))"
  shows "(\<forall>k v. mlookup labels k = Some v \<longrightarrow>
      fmlookup new (if r \<noteq> [] \<and> re (k @ ''='' @ v) then k else KeyPrefix @ last (Split slash k)) = Some v)
    \<and> card (fset (fmdom new)) = card (fset (fmdom (nonnil labels)))"
proof -
  let ?xs = "rng (nonnil labels)" and ?ys = "map (movedEntry r re) (rng (nonnil labels))"
  have d: "distinct (map fst ?ys)" using assms(4) by (simp add: comp_def)
  have new: "new = fmap_of_list ?ys"
    using assms(1,2) foldl_fmupd [OF d, of fmempty] by (simp add: ChangeLabels_eq Let_def)
  have "fmlookup new (fst (movedEntry r re (k, v))) = Some v" if "mlookup labels k = Some v" for k v
  proof -
    have "(k, v) \<in> set ?xs" using that is_rangeD [OF assms(3)] by simp
    then have "movedEntry r re (k, v) \<in> set ?ys" by force
    then show ?thesis using d unfolding new fmlookup_of_list
      by (auto simp: movedEntry_def split: if_splits)
  qed
  moreover have "card (fset (fmdom new)) = length ?xs"
    using distinct_card [OF d] by (simp add: new fset_of_list.rep_eq)
  moreover have "card (fset (fmdom (nonnil labels))) = length ?xs"
    by (rule is_range_card [OF assms(3)])
  ultimately show ?thesis
    by (simp add: movedEntry_def keepsLabel_def newLabelKey_def if_distrib cong: if_cong)
qed

theorem ChangeLabels_renames_witness:
  "\<exists>new. fmlookup new (KeyPrefix @ ''name'') = Some ''web'' \<and> fmlookup new ''tier'' = Some ''front''
    \<and> card (fset (fmdom new)) = 2"
proof -
  define l where "l = [(''x.io/name'', ''web''), (''tier'', ''front'')]"
  define re where "re = (\<lambda>s. s = ''tier=front'')"
  define new where "new = fmupd ''tier'' ''front'' (fmupd (KeyPrefix @ ''name'') ''web'' fmempty)"
  have c: "ChangeLabels (\<lambda>_. Inr re) (\<lambda>_. l) (Some (fmap_of_list l)) ''tier'' = Inr (new, True)"
    by (simp add: ChangeLabels_def changeLabelsStep_def l_def re_def new_def KeyPrefix_def)
  have r: "is_range l (nonnil (Some (fmap_of_list l)))" by (simp add: is_range_def l_def)
  have d: "distinct (map (\<lambda>e. fst (movedEntry ''tier'' re e)) l)"
    by (simp add: l_def movedEntry_def keepsLabel_def re_def newLabelKey_def KeyPrefix_def)
  from ChangeLabels_renames [OF c refl r d]
  have "\<forall>k v. fmlookup (fmap_of_list l) k = Some v \<longrightarrow>
      fmlookup new (if re (k @ ''='' @ v) then k else KeyPrefix @ last (Split slash k)) = Some v"
    and "card (fset (fmdom new)) = card (fset (fmdom (fmap_of_list l)))" by simp_all
  then show ?thesis
    by (intro exI [of _ new]) (simp add: l_def new_def KeyPrefix_def)
qed

text \<open>
  \<open>ChangeLabels\<close> reports a change exactly when some label is not matched by the
  regular expression, even one that already has the program's prefix: the comparison of the
  first segment of the key with the prefix, which ends in a slash, never succeeds.
\<close>

theorem ChangeLabels_changed:
  assumes "compile r = Inr re" and "is_range (rng (nonnil labels)) (nonnil labels)"
  shows "\<exists>new. ChangeLabels compile rng labels r =
    Inr (new, \<exists>k v. mlookup labels k = Some v \<and> \<not> (r \<noteq> [] \<and> re (k @ ''='' @ v)))"
proof -
  have "(\<exists>e\<in>set (rng (nonnil labels)). \<not> keepsLabel r re e) \<longleftrightarrow>
      (\<exists>k v. mlookup labels k = Some v \<and> \<not> (r \<noteq> [] \<and> re (k @ ''='' @ v)))"
    using is_rangeD [OF assms(2)] by (force simp: keepsLabel_def)
  with assms(1) show ?thesis by (simp add: ChangeLabels_eq Let_def)
qed

theorem ChangeLabels_changed_witness:
  "\<exists>new. ChangeLabels (\<lambda>_. Inr (\<lambda>_. False)) (\<lambda>_. [(KeyPrefix @ ''a'', ''1'')])
      (Some (fmap_of_list [(KeyPrefix @ ''a'', ''1'')])) [] = Inr (new, True)"
proof -
  have r: "is_range [(KeyPrefix @ ''a'', ''1'')] (nonnil (Some (fmap_of_list [(KeyPrefix @ ''a'', ''1'')])))"
    by (simp add: is_range_def)
  have "\<exists>k v. mlookup (Some (fmap_of_list [(KeyPrefix @ ''a'', ''1'')])) k = Some v"
    by (rule exI [of _ "KeyPrefix @ ''a''"]) simp
  with ChangeLabels_changed [of "\<lambda>_. Inr (\<lambda>_. False)" "[]" "\<lambda>_. False" "\<lambda>_. [(KeyPrefix @ ''a'', ''1'')]",
      OF _ r]
  show ?thesis by simp
qed


text \<open>
  Removing the service account leaves no container and no init container that mounts
  it, keeps every other mount in its order, removes the volume they mounted it from and no other,
  and touches nothing else of the spec, for a pod as Kubernetes admits it: a mount path is used
  once per container, volume names are distinct and not empty, and the service account is one
  volume.
\<close>

theorem removeServiceAccount_removes:
  assumes "list_all oneSAMount (Containers spec @ InitContainers spec)"
    and "\<forall>m\<in>set (saMounts (Containers spec @ InitContainers spec)). vm_Name m = n"
    and "distinct (map vol_Name (Volumes spec))" and "[] \<notin> vol_Name ` set (Volumes spec)"
  shows "saMounts (Containers (removeServiceAccount spec) @ InitContainers (removeServiceAccount spec)) = []
    \<and> removeServiceAccount spec = spec
      \<lparr>Containers := map withoutSA (Containers spec),
       InitContainers := map withoutSA (InitContainers spec),
       Volumes := if saMounts (Containers spec @ InitContainers spec) = [] then Volumes spec
                  else filter (\<lambda>v. vol_Name v \<noteq> n) (Volumes spec)\<rparr>"
proof -
  have "saMounts (map withoutSA cs) = []" for cs
    by (induction cs) (simp_all add: saMounts_def withoutSA_def)
  then show ?thesis
    by (simp add: removeServiceAccount_eq [OF assms] saMounts_def)
qed

theorem removeServiceAccount_removes_witness:
  "\<exists>spec. length (saMounts (Containers spec)) = 1 \<and> length (Volumes spec) = 2
    \<and> saMounts (Containers (removeServiceAccount spec)) = []
    \<and> map vol_Name (Volumes (removeServiceAccount spec)) = [''data'']"
proof -
  define m where "m = \<lparr>vm_Name = ''tok'', MountPath = serviceAccountPath\<rparr>"
  define c where "c = \<lparr>c_Name = ''c'', Env = [], EnvFrom = [], VolumeMounts = [m], c_Other = []\<rparr>"
  define v where "v n = \<lparr>vol_Name = n, vol_ConfigMap = None, vol_Secret = None, vol_Projected = None,
    vol_Other = []\<rparr>" for n
  define spec where "spec = zero_podSpec\<lparr>Containers := [c], Volumes := [v ''data'', v ''tok'']\<rparr>"
  note defs = spec_def c_def m_def v_def zero_podSpec_def saMounts_def oneSAMount_def
  have r: "saMounts (Containers (removeServiceAccount spec) @ InitContainers (removeServiceAccount spec)) = []
    \<and> removeServiceAccount spec = spec
      \<lparr>Containers := map withoutSA (Containers spec),
       InitContainers := map withoutSA (InitContainers spec),
       Volumes := if saMounts (Containers spec @ InitContainers spec) = [] then Volumes spec
                  else filter (\<lambda>v. vol_Name v \<noteq> ''tok'') (Volumes spec)\<rparr>"
    by (rule removeServiceAccount_removes) (simp_all add: defs)
  have c: "length (saMounts (Containers spec)) = 1" "length (Volumes spec) = 2"
    "saMounts (Containers spec @ InitContainers spec) \<noteq> []"
    "map vol_Name (filter (\<lambda>v. vol_Name v \<noteq> ''tok'') (Volumes spec)) = [''data'']"
    by (simp_all add: defs)
  have v: "map vol_Name (Volumes (removeServiceAccount spec)) = [''data'']"
    using r c(3,4) by simp
  have "saMounts (Containers (removeServiceAccount spec)) = []"
    using r [THEN conjunct1] by (simp add: saMounts_def)
  then show ?thesis by (intro exI [of _ spec] conjI c(1,2) v)
qed

text \<open>The shape of a delegate pod: its metadata with the reference to the parent, and a spec.\<close>

definition delegateMeta :: "pod \<Rightarrow> string \<Rightarrow> pod \<Rightarrow> (string, string) fmap \<Rightarrow> podChaperon" where
  "delegateMeta proxyPod cluster src labels = AddRemoteControllerReference (objmeta.extend
      (zero_meta\<lparr>Namespace := Namespace proxyPod, GenerateName := Name proxyPod @ ''-'', Labels := Some labels,
         Annotations := Some (fmfilter (\<lambda>k. \<not> HasPrefix k KeyPrefix) (nonnil (Annotations src)))\<rparr>)
      \<lparr>pc_Spec = pod_Spec src, pc_Status = zero_podStatus\<rparr>) proxyPod cluster"

lemma removeServiceAccount_constraints:
  "removeServiceAccount (s\<lparr>NodeSelector := a, Tolerations := b, Affinity := f, TopologySpreadConstraints := g\<rparr>) =
     (removeServiceAccount s)\<lparr>NodeSelector := a, Tolerations := b, Affinity := f, TopologySpreadConstraints := g\<rparr>"
  by (simp add: removeServiceAccount_def Let_def split: prod.split option.split)

text \<open>The parts of a spec that say what runs.\<close>

definition workload :: "podSpec \<Rightarrow> container list \<times> container list \<times> volume list \<times> string" where
  "workload s = (Containers s, InitContainers s, Volumes s, RestartPolicy s)"

lemma MakeDelegatePod_cases:
  assumes "MakeDelegatePod yaml compile rng proxyPod cluster = Inr d"
  obtains src labels spec where "GetSourcePod yaml proxyPod = Inr src"
    "d = (delegateMeta proxyPod cluster src labels)\<lparr>pc_Spec := spec\<rparr>" "Priority spec = None"
    "mlookup (Annotations src) AnnotationKeyNoReservation = None \<longrightarrow> SchedulerName spec = CandidateSchedulerName"
    "workload spec = workload (removeServiceAccount (pod_Spec src))"
proof -
  obtain src where src: "GetSourcePod yaml proxyPod = Inr src"
    using assms by (auto simp: MakeDelegatePod_def split: sum.splits)
  obtain labels ch where l: "ChangeLabels compile rng (Labels src)
      (mget (Annotations src) AnnotationNoPrefixLabelRegexp) = Inr (labels, ch)"
    using assms by (auto simp: MakeDelegatePod_def src split: sum.splits)
  have base: "pc_Spec (AddRemoteControllerReference (x :: podChaperon) p cl) = pc_Spec x" for x and p :: pod and cl
    by (simp add: AddRemoteControllerReference_def Let_def split: option.split)
  from assms obtain spec where "d = (delegateMeta proxyPod cluster src labels)\<lparr>pc_Spec := spec\<rparr>" "Priority spec = None"
    "mlookup (Annotations src) AnnotationKeyNoReservation = None \<longrightarrow> SchedulerName spec = CandidateSchedulerName"
    "workload spec = workload (removeServiceAccount (pod_Spec src))"
    by (auto simp: MakeDelegatePod_def src l Let_def delegateMeta_def workload_def removeServiceAccount_constraints
        base objmeta.defs split: option.splits)
  then show thesis by (rule that [OF src])
qed

lemma delegateMeta_annotation:
  "mlookup (Annotations (delegateMeta proxyPod cluster src labels)) k =
     (if k = AnnotationKeyParentName then Some (Name proxyPod)
      else if k = AnnotationKeyParentNamespace then Some (Namespace proxyPod)
      else if HasPrefix k KeyPrefix then None else mlookup (Annotations src) k)"
  by (simp add: delegateMeta_def objmeta.defs)

text \<open>
  Property C22.  The delegate pod made from a proxy pod is controlled by that proxy pod, carries no
  instruction to the program, so it is not scheduled across clusters again, keeps the user's
  annotations, and goes to the candidate scheduler unless the user asked for no reservation.
\<close>

theorem MakeDelegatePod_controlled:
  assumes "MakeDelegatePod yaml compile rng proxyPod cluster = Inr d"
  shows "\<exists>src. GetSourcePod yaml proxyPod = Inr src
    \<and> ParentControlsChild d proxyPod \<and> IsRemoteControlled d cluster
    \<and> Namespace d = Namespace proxyPod \<and> Finalizers d = []
    \<and> (\<forall>k. HasPrefix k KeyPrefix \<longrightarrow>
         mlookup (Annotations d) k = (if k = AnnotationKeyParentName then Some (Name proxyPod)
           else if k = AnnotationKeyParentNamespace then Some (Namespace proxyPod) else None))
    \<and> (\<forall>k. \<not> HasPrefix k KeyPrefix \<longrightarrow> mlookup (Annotations d) k = mlookup (Annotations src) k)
    \<and> (mlookup (Annotations src) AnnotationKeyNoReservation = None \<longrightarrow>
         SchedulerName (pc_Spec d) = CandidateSchedulerName)
    \<and> Priority (pc_Spec d) = None"
proof -
  obtain src labels spec where src: "GetSourcePod yaml proxyPod = Inr src"
    and d: "d = (delegateMeta proxyPod cluster src labels)\<lparr>pc_Spec := spec\<rparr>"
    and spec: "Priority spec = None"
      "mlookup (Annotations src) AnnotationKeyNoReservation = None \<longrightarrow> SchedulerName spec = CandidateSchedulerName"
      "workload spec = workload (removeServiceAccount (pod_Spec src))"
    using assms by (rule MakeDelegatePod_cases)
  have "IsRemoteControlled (delegateMeta proxyPod cluster src labels) cluster"
    "ParentControlsChild (delegateMeta proxyPod cluster src labels) proxyPod"
    unfolding delegateMeta_def by (rule reference_controlled)+
  then have "IsRemoteControlled d cluster" "ParentControlsChild d proxyPod"
    by (simp_all add: d IsRemoteControlled_def ParentControlsChild_def)
  moreover have "mlookup (Annotations d) k = (if k = AnnotationKeyParentName then Some (Name proxyPod)
      else if k = AnnotationKeyParentNamespace then Some (Namespace proxyPod)
      else if HasPrefix k KeyPrefix then None else mlookup (Annotations src) k)" for k
    by (simp add: d delegateMeta_annotation)
  moreover have "HasPrefix AnnotationKeyParentName KeyPrefix" "HasPrefix AnnotationKeyParentNamespace KeyPrefix"
    by (simp_all add: key_simps)
  moreover have "Namespace d = Namespace proxyPod" "Finalizers d = []" "pc_Spec d = spec"
    by (simp_all add: d delegateMeta_def objmeta.defs zero_meta_def)
  ultimately show ?thesis using spec src by (intro exI [of _ src]) auto
qed


theorem MakeDelegatePod_controlled_witness:
  "\<exists>yaml p d. MakeDelegatePod yaml (\<lambda>_. Inr (\<lambda>_. False)) (\<lambda>_. []) p ''c1'' = Inr d
    \<and> ParentControlsChild d p \<and> SchedulerName (pc_Spec d) = CandidateSchedulerName"
proof -
  define yaml where "yaml = \<lparr>Marshal = (\<lambda>_. Inr []), Unmarshal = (\<lambda>_. Inr zero_pod),
    UnmarshalStrict = (\<lambda>_. Inr zero_pod), UnmarshalStrictPodSpec = (\<lambda>_. Inr zero_podSpec)\<rparr>"
  define p where "p = zero_pod\<lparr>Name := ''web'', Namespace := ''team'', UID := ''u1'',
    Annotations := Some (fmupd AnnotationKeySourcePodManifest [] fmempty)\<rparr>"
  have src: "GetSourcePod yaml p = Inr zero_pod" by (simp add: GetSourcePod_def yaml_def p_def)
  have "Annotations zero_pod = None" by (simp add: zero_pod_def zero_meta_def objmeta.defs)
  then have no: "mlookup (Annotations zero_pod) k = None" for k by simp
  have "\<exists>d. MakeDelegatePod yaml (\<lambda>_. Inr (\<lambda>_. False)) (\<lambda>_. []) p ''c1'' = Inr d"
    by (simp add: MakeDelegatePod_def src no ChangeLabels_def Let_def)
  then obtain d where d: "MakeDelegatePod yaml (\<lambda>_. Inr (\<lambda>_. False)) (\<lambda>_. []) p ''c1'' = Inr d" ..
  from MakeDelegatePod_controlled [OF d] src no d show ?thesis by auto
qed

end
