(* ===== verification/Agent_Config.thy ===== *)
theory Agent_Config
  imports Common_Keys Name_Parts
begin

text \<open>
  Package \<open>pkg/config/agent\<close>: the targets of an agent, read from \<open>ClusterTarget\<close> and
  \<open>Target\<close> objects at startup, with the names of their virtual nodes and finalizers.  The
  Kubernetes client and \<open>clientcmd\<close> are parameters (\<open>configEnv\<close>); a rest configuration is
  opaque.
\<close>

section \<open>Target objects (clustertarget_types.go, target_types.go)\<close>

record clusterKubeconfigSecret =
  cks_Namespace :: string
  cks_Name :: string
  cks_Key :: string
  cks_Context :: string

record clusterTargetSpec =
  ct_Self :: bool
  ct_KubeconfigSecret :: "clusterKubeconfigSecret option"
  ct_ExcludedLabelsRegexp :: "string option"

record clusterTarget = objmeta +
  ct_Spec :: clusterTargetSpec

record kubeconfigSecret =
  ks_Name :: string
  ks_Key :: string
  ks_Context :: string

record targetSpec =
  tg_Self :: bool
  tg_KubeconfigSecret :: "kubeconfigSecret option"
  tg_ExcludedLabelsRegexp :: "string option"

record targetObject = objmeta +
  tg_Spec :: targetSpec


section \<open>Configuration (agent.go)\<close>

record agentTarget =
  t_Name :: string
  ClientConfig :: string
  Self :: bool
  t_Namespace :: string
  ExcludedLabelsRegexp :: "string option"
  VirtualNodeName :: string
  Finalizer :: string

type_synonym agentConfig = "agentTarget list"

fun GetKnownFinalizers :: "agentConfig \<Rightarrow> string list" where
  "GetKnownFinalizers [] = []"
| "GetKnownFinalizers (t # ts) = Finalizer t # GetKnownFinalizers ts"

definition knownFinalizersStep ::
  "(string, string list) fmap \<Rightarrow> agentTarget \<Rightarrow> (string, string list) fmap" where
  "knownFinalizersStep m t =
     fmupd (t_Namespace t)
       ((case fmlookup m (t_Namespace t) of None \<Rightarrow> [] | Some fs \<Rightarrow> fs) @ [Finalizer t]) m"

definition GetKnownFinalizersByNamespace :: "agentConfig \<Rightarrow> (string, string list) fmap" where
  "GetKnownFinalizersByNamespace c = foldl knownFinalizersStep fmempty c"

definition complete :: "agentTarget \<Rightarrow> agentTarget option" where
  "complete t =
     (case FromParts Long [0] [1] [''admiralty'', t_Namespace t, t_Name t] of
        None \<Rightarrow> None
      | Some vn \<Rightarrow>
          (case FromParts Short [] [0] [t_Namespace t, t_Name t] of
             None \<Rightarrow> None
           | Some f \<Rightarrow> Some (t\<lparr>VirtualNodeName := vn, Finalizer := KeyPrefix @ f\<rparr>)))"

record configEnv =
  Secrets_Get :: "string \<Rightarrow> string \<Rightarrow> error + secret"
  clientcmd_Load :: "string \<Rightarrow> error + string"
  clientcmd_ClientConfig :: "string \<Rightarrow> string \<Rightarrow> error + string"
  GetConfigOrDie :: string

definition getConfigFromKubeconfigSecretOrDie ::
  "configEnv \<Rightarrow> string \<Rightarrow> string \<Rightarrow> string \<Rightarrow> string \<Rightarrow> error + string" where
  "getConfigFromKubeconfigSecretOrDie k namespace name key ctx =
     (let key = (if key = [] then ''config'' else key) in
      case Secrets_Get k namespace name of
        Inl err \<Rightarrow> Inl err
      | Inr s \<Rightarrow>
          (case clientcmd_Load k (mget (secret_Data s) key) of
             Inl err \<Rightarrow> Inl err
           | Inr cfg0 \<Rightarrow>
               (case clientcmd_ClientConfig k cfg0 ctx of
                  Inl err \<Rightarrow> Inl err
                | Inr cfg2 \<Rightarrow> Inr cfg2)))"

text \<open>Adding a target returns the grown configuration, the same one when the object is invalid,
  or \<open>None\<close> for a panic in \<open>complete\<close>.\<close>

definition addClusterTarget :: "configEnv \<Rightarrow> agentConfig \<Rightarrow> clusterTarget \<Rightarrow> agentConfig option" where
  "addClusterTarget k agentCfg t =
     (let spec = ct_Spec t in
      if ct_Self spec = (ct_KubeconfigSecret spec \<noteq> None) then Some agentCfg
      else
        case (case ct_KubeconfigSecret spec of
                Some kcfg \<Rightarrow> getConfigFromKubeconfigSecretOrDie k (cks_Namespace kcfg)
                  (cks_Name kcfg) (cks_Key kcfg) (cks_Context kcfg)
              | None \<Rightarrow> Inr (GetConfigOrDie k)) of
          Inl err \<Rightarrow> Some agentCfg
        | Inr cfg \<Rightarrow>
            map_option (\<lambda>c. agentCfg @ [c])
              (complete \<lparr>t_Name = Name t, ClientConfig = cfg, Self = ct_Self spec,
                 t_Namespace = [], ExcludedLabelsRegexp = ct_ExcludedLabelsRegexp spec,
                 VirtualNodeName = [], Finalizer = []\<rparr>))"

definition addTarget :: "configEnv \<Rightarrow> agentConfig \<Rightarrow> targetObject \<Rightarrow> agentConfig option" where
  "addTarget k agentCfg t =
     (let spec = tg_Spec t in
      if tg_Self spec = (tg_KubeconfigSecret spec \<noteq> None) then Some agentCfg
      else
        case (case tg_KubeconfigSecret spec of
                Some kcfg \<Rightarrow> getConfigFromKubeconfigSecretOrDie k (Namespace t)
                  (ks_Name kcfg) (ks_Key kcfg) (ks_Context kcfg)
              | None \<Rightarrow> Inr (GetConfigOrDie k)) of
          Inl err \<Rightarrow> Some agentCfg
        | Inr cfg \<Rightarrow>
            map_option (\<lambda>c. agentCfg @ [c])
              (complete \<lparr>t_Name = Name t, ClientConfig = cfg, Self = tg_Self spec,
                 t_Namespace = Namespace t, ExcludedLabelsRegexp = tg_ExcludedLabelsRegexp spec,
                 VirtualNodeName = [], Finalizer = []\<rparr>))"

fun addAll :: "(agentConfig \<Rightarrow> 'a \<Rightarrow> agentConfig option) \<Rightarrow> agentConfig \<Rightarrow> 'a list \<Rightarrow> agentConfig option"
where
  "addAll add cfg [] = Some cfg"
| "addAll add cfg (t # ts) = (case add cfg t of None \<Rightarrow> None | Some cfg' \<Rightarrow> addAll add cfg' ts)"

text \<open>The two lists are what the API server returns for all cluster targets and all targets.\<close>

definition NewFromCRD ::
  "configEnv \<Rightarrow> clusterTarget list \<Rightarrow> targetObject list \<Rightarrow> agentConfig option" where
  "NewFromCRD k cl l =
     (case addAll (addClusterTarget k) [] cl of
        None \<Rightarrow> None
      | Some agentCfg \<Rightarrow> addAll (addTarget k) agentCfg l)"



section \<open>Lemmas\<close>

lemma complete_scoped:
  "complete t =
     (case scopedName Long [''admiralty''] (t_Namespace t) (t_Name t) of
        None \<Rightarrow> None
      | Some vn \<Rightarrow> map_option (\<lambda>f. t\<lparr>VirtualNodeName := vn, Finalizer := KeyPrefix @ f\<rparr>)
          (scopedName Short [] (t_Namespace t) (t_Name t)))"
  by (simp add: complete_def scopedName_def split: option.splits)

lemma completeD:
  assumes "complete t = Some t'"
  shows "scopedName Long [''admiralty''] (t_Namespace t) (t_Name t) = Some (VirtualNodeName t')"
    and "map_option (\<lambda>f. KeyPrefix @ f) (scopedName Short [] (t_Namespace t) (t_Name t)) = Some (Finalizer t')"
    and "t_Namespace t' = t_Namespace t" and "t_Name t' = t_Name t"
  using assms by (auto simp: complete_scoped split: option.splits)

lemma knownFinalizersStep_fold:
  "fmlookup (foldl knownFinalizersStep m c) ns =
     (let fs = map Finalizer (filter (\<lambda>t. t_Namespace t = ns) c)
      in if fs = [] then fmlookup m ns
         else Some ((case fmlookup m ns of None \<Rightarrow> [] | Some gs \<Rightarrow> gs) @ fs))"
  by (induction c arbitrary: m) (auto simp: knownFinalizersStep_def Let_def)

lemma addAll_invariant:
  assumes "addAll add cfg ts = Some cfg'" and "\<forall>t\<in>set cfg. P t"
    and "\<And>c t c'. add c t = Some c' \<Longrightarrow> \<forall>t\<in>set c. P t \<Longrightarrow> \<forall>t\<in>set c'. P t"
  shows "\<forall>t\<in>set cfg'. P t"
  using assms(1,2) by (induction ts arbitrary: cfg) (auto split: option.splits dest: assms(3))

definition wf_target :: "agentTarget \<Rightarrow> bool" where
  "wf_target t \<longleftrightarrow> HasPrefix (Finalizer t) KeyPrefix
     \<and> length (Finalizer t) \<le> length KeyPrefix + 63 \<and> length (VirtualNodeName t) \<le> 253"

lemma complete_wf: "complete t = Some t' \<Longrightarrow> wf_target t'"
  by (auto simp: complete_def wf_target_def Short_def Long_def split: option.splits
      dest!: FromParts_bounded)


lemma NewFromCRD_targets:
  assumes "NewFromCRD k cl l = Some cfg"
  shows "\<forall>t\<in>set cfg. wf_target t"
proof -
  obtain c0 where c0: "addAll (addClusterTarget k) [] cl = Some c0" "addAll (addTarget k) c0 l = Some cfg"
    using assms by (auto simp: NewFromCRD_def split: option.splits)
  have "\<forall>t\<in>set c0. wf_target t"
    by (rule addAll_invariant [OF c0(1)])
      (auto simp: addClusterTarget_def Let_def split: if_splits sum.splits dest: complete_wf)
  then show ?thesis
    by (rule addAll_invariant [OF c0(2)])
      (auto simp: addTarget_def Let_def split: if_splits sum.splits dest: complete_wf)
qed


section \<open>Properties\<close>

text \<open>
  Every target of a configuration loaded from the API carries a finalizer in the
  program's own domain whose name part fits the 63 characters Kubernetes allows, and a virtual
  node name of at most 253 characters.
\<close>

theorem NewFromCRD_wf:
  assumes "NewFromCRD k cl l = Some cfg"
  shows "\<forall>t\<in>set cfg. wf_target t"
  using assms by (rule NewFromCRD_targets)

theorem NewFromCRD_wf_witness:
  "\<exists>t cfg. NewFromCRD \<lparr>Secrets_Get = (\<lambda>_ _. Inl (Errorf [])), clientcmd_Load = Inr,
        clientcmd_ClientConfig = (\<lambda>c _. Inr c), GetConfigOrDie = []\<rparr> [] [t] = Some cfg
     \<and> length cfg = 1 \<and> (\<forall>u\<in>set cfg. wf_target u)"
proof -
  define k where "k = \<lparr>Secrets_Get = (\<lambda>_ _. Inl (Errorf [])), clientcmd_Load = Inr,
        clientcmd_ClientConfig = (\<lambda>c _. Inr c), GetConfigOrDie = []\<rparr>"
  define t where "t = objmeta.extend (zero_meta\<lparr>Name := ''prod'', Namespace := ''team''\<rparr>)
     \<lparr>tg_Spec = \<lparr>tg_Self = True, tg_KubeconfigSecret = None, tg_ExcludedLabelsRegexp = None\<rparr>\<rparr>"
  have "\<exists>cfg. NewFromCRD k [] [t] = Some cfg \<and> length cfg = 1"
    by (simp add: NewFromCRD_def addTarget_def complete_def FromParts_def HasPrefix_def Short_def
        Long_def t_def k_def objmeta.defs zero_meta_def)
  with NewFromCRD_wf show ?thesis unfolding k_def by blast
qed

text \<open>
  The finalizers by namespace group the targets' finalizers under the namespace of
  each target, in the order of the configuration, and a namespace with no target has no entry.
\<close>

theorem GetKnownFinalizersByNamespace_groups:
  "mlookup (Some (GetKnownFinalizersByNamespace c)) ns =
     (let fs = map Finalizer (filter (\<lambda>t. t_Namespace t = ns) c)
      in if fs = [] then None else Some fs)"
  by (simp add: GetKnownFinalizersByNamespace_def knownFinalizersStep_fold Let_def)

text \<open>
  Two targets that differ in namespace or name get different finalizers and different
  virtual node names, as long as their names are short enough not to be cut and the hashes of
  two hyphenated names differ.
\<close>

theorem complete_distinct:
  assumes "complete t1 = Some u1" "complete t2 = Some u2"
    and "t_Name t1 \<noteq> []" "t_Name t2 \<noteq> []"
    and "length (t_Namespace t1) + length (t_Name t1) \<le> 51"
      "length (t_Namespace t2) + length (t_Name t2) \<le> 51"
    and "\<And>pre. \<lbrakk>pre \<in> {[], [''admiralty'']}; hyphen \<in> set (t_Namespace t1 @ t_Name t1);
        hyphen \<in> set (t_Namespace t2 @ t_Name t2)\<rbrakk> \<Longrightarrow>
      take 10 (sha256_hex (Join ''/'' (pre @ [t_Namespace t1, t_Name t1])))
        \<noteq> take 10 (sha256_hex (Join ''/'' (pre @ [t_Namespace t2, t_Name t2])))"
    and "(t_Namespace t1, t_Name t1) \<noteq> (t_Namespace t2, t_Name t2)"
  shows "Finalizer u1 \<noteq> Finalizer u2 \<and> VirtualNodeName u1 \<noteq> VirtualNodeName u2"
proof -
  have fits: "int (length (Join ''-'' (plainParts [] (t_Namespace t) (t_Name t)))) \<le> Short - 11"
      "int (length (Join ''-'' (plainParts [''admiralty''] (t_Namespace t) (t_Name t)))) \<le> Long - 11"
    if "length (t_Namespace t) + length (t_Name t) \<le> 51" for t :: agentTarget
    using that length_plainParts_short(1) [of "t_Namespace t" "t_Name t"]
      length_plainParts_short(2) [of "''admiralty''" "t_Namespace t" "t_Name t"]
    by (simp_all add: Short_def Long_def)
  have "scopedName Short [] (t_Namespace t1) (t_Name t1) \<noteq> scopedName Short [] (t_Namespace t2) (t_Name t2)"
    using assms(7) [of "[]"]
    by (intro scopedName_distinct fits assms(3-6,8)) auto
  moreover have "scopedName Long [''admiralty''] (t_Namespace t1) (t_Name t1) \<noteq>
      scopedName Long [''admiralty''] (t_Namespace t2) (t_Name t2)"
    using assms(7) [of "[''admiralty'']"]
    by (intro scopedName_distinct fits assms(3-6,8)) auto
  ultimately show ?thesis
    using completeD [OF assms(1)] completeD [OF assms(2)] by auto (metis same_append_eq)
qed

theorem complete_distinct_witness:
  "\<exists>t1 t2 u1 u2. complete t1 = Some u1 \<and> complete t2 = Some u2
     \<and> t_Name t1 = ''prod'' \<and> t_Name t2 = ''prod'' \<and> t_Namespace t1 = [] \<and> t_Namespace t2 = ''team''
     \<and> Finalizer u1 \<noteq> Finalizer u2 \<and> VirtualNodeName u1 \<noteq> VirtualNodeName u2"
proof -
  define t where "t ns = \<lparr>t_Name = ''prod'', ClientConfig = [], Self = True, t_Namespace = ns,
     ExcludedLabelsRegexp = None, VirtualNodeName = [], Finalizer = []\<rparr>" for ns
  have c: "complete (t []) = Some (t []\<lparr>VirtualNodeName := ''admiralty-prod'', Finalizer := KeyPrefix @ ''prod''\<rparr>)"
    "complete (t ''team'') = Some (t ''team''
       \<lparr>VirtualNodeName := ''admiralty-team-prod'', Finalizer := KeyPrefix @ ''team-prod''\<rparr>)"
    by (simp_all add: complete_def FromParts_def HasPrefix_def Short_def Long_def t_def)
  show ?thesis
    by (intro exI conjI; (rule c)?; (rule complete_distinct [OF c, THEN conjunct1])?;
        (rule complete_distinct [OF c, THEN conjunct2])?) (simp_all add: t_def)
qed

text \<open>
  When a name is cut, uniqueness fails: a cluster target with a name of 64 bytes and
  a target in another namespace, named after the hash of the first, get the same finalizer.
\<close>

theorem complete_truncation_collision:
  "\<exists>t1 t2 u1 u2. complete t1 = Some u1 \<and> complete t2 = Some u2
     \<and> t_Namespace t1 = [] \<and> t_Namespace t2 = replicate 52 (CHR ''x'')
     \<and> length (t_Name t1) = 64 \<and> length (t_Name t2) = 10 \<and> Finalizer u1 = Finalizer u2"
proof -
  define n where "n = replicate 64 (CHR ''x'')"
  define h where "h = take 10 (sha256_hex (Join ''/'' [[], n]))"
  define t where "t ns nm = \<lparr>t_Name = nm, ClientConfig = [], Self = True, t_Namespace = ns,
     ExcludedLabelsRegexp = None, VirtualNodeName = [], Finalizer = []\<rparr>" for ns nm
  have h: "length h = 10" "hyphen \<notin> set h" "h \<noteq> []"
    by (auto simp: h_def dest: in_set_takeD) (metis length_sha256_hex list.size(3) zero_neq_numeral)
  have ns: "hyphen \<notin> set (replicate 52 (CHR ''x''))" by simp
  have trim: "trimHyphens (replicate 52 (CHR ''x'')) = Some (replicate 52 (CHR ''x''))"
    by (simp add: trimHyphens.simps)
  have f1: "scopedName Short [] [] n = Some (replicate 52 (CHR ''x'') @ ''-'' @ h)"
    by (simp add: scopedName_eq plainParts_def n_def h_def Short_def appendHash_def hashLength_def
        truncateName_def take_replicate trim)
  have f2: "scopedName Short [] (replicate 52 (CHR ''x'')) h = Some (replicate 52 (CHR ''x'') @ ''-'' @ h)"
    using h by (simp add: scopedName_eq plainParts_def Short_def)
  have v: "\<exists>vn. scopedName Long [''admiralty''] (t_Namespace (t ns nm)) (t_Name (t ns nm)) = Some vn" for ns nm
    unfolding scopedName_def by (rule FromParts_Some) (auto simp: Long_def)
  obtain v1 v2 where "scopedName Long [''admiralty''] [] n = Some v1"
    "scopedName Long [''admiralty''] (replicate 52 (CHR ''x'')) h = Some v2"
    using v [of "[]" n] v [of "replicate 52 (CHR ''x'')" h] by (auto simp: t_def)
  with f1 f2 h show ?thesis
    by - (rule exI [of _ "t [] n"], rule exI [of _ "t (replicate 52 (CHR ''x'')) h"],
        simp add: complete_scoped t_def n_def)
qed

end
