(* ===== verification/Proxypod_Webhook.thy ===== *)
theory Proxypod_Webhook
  imports Pod_Models Agent_Config
begin

text \<open>
  Package \<open>pkg/webhooks/proxypod\<close>: the mutating admission webhook that turns an elected pod into a
  proxy pod.  The object is mutated in place; the model returns the mutated pod, or the error,
  with which the request is refused.
\<close>

section \<open>The webhook (proxypod.go)\<close>

datatype runtimeObject = PodObject pod | OtherObject string

record mutator =
  KnownFinalizers :: "(string, string list) gomap"

definition proxyTolerations :: "toleration list" where
  "proxyTolerations =
     [\<lparr>tol_Key = LabelAndTaintKeyVirtualKubeletProvider, tol_Operator = [],
       tol_Value = VirtualKubeletProviderName, tol_Effect = []\<rparr>,
      \<lparr>tol_Key = ''node.kubernetes.io/network-unavailable'', tol_Operator = ''Exists'',
       tol_Value = [], tol_Effect = []\<rparr>]"

definition proxyNodeSelector :: "(string, string) fmap" where
  "proxyNodeSelector =
     fmap_of_list [(LabelAndTaintKeyVirtualKubeletProvider, VirtualKubeletProviderName)]"

text \<open>The constraints of \<open>sched\<close> added to those of every proxy pod, and no constraint of its own.\<close>

definition addConstraints :: "podSpec \<Rightarrow> podSpec \<Rightarrow> podSpec" where
  "addConstraints sched spec = spec
     \<lparr>NodeSelector := Some (copyInto (nonnil (NodeSelector spec)) (NodeSelector sched)),
      Tolerations := Tolerations spec @ Tolerations sched,
      Affinity := Affinity sched,
      TopologySpreadConstraints := TopologySpreadConstraints sched\<rparr>"

text \<open>The source pod: the one in the manifest annotation, or the pod itself, which is saved there.\<close>

definition sourceManifest :: "yamlCodec \<Rightarrow> pod \<Rightarrow> error + (pod \<times> pod)" where
  "sourceManifest yaml p =
     (case mlookup (Annotations p) AnnotationKeySourcePodManifest of
        None \<Rightarrow>
          (case Marshal yaml p of
             Inl err \<Rightarrow> Inl err
           | Inr srcPodManifest \<Rightarrow> Inr (p, p\<lparr>Annotations :=
               Some (fmupd AnnotationKeySourcePodManifest srcPodManifest (nonnil (Annotations p)))\<rparr>))
      | Some manifest \<Rightarrow>
          (case UnmarshalStrict yaml manifest of
             Inl err \<Rightarrow> Inl err
           | Inr srcPod \<Rightarrow> Inr (srcPod, p)))"

definition proxyConstraints :: "yamlCodec \<Rightarrow> pod \<Rightarrow> pod \<Rightarrow> error + podSpec" where
  "proxyConstraints yaml srcPod p =
     (let spec = (pod_Spec p)
        \<lparr>NodeSelector := Some proxyNodeSelector, Tolerations := proxyTolerations,
         Affinity := None, TopologySpreadConstraints := []\<rparr>
      in case mlookup (Annotations p) AnnotationKeyProxyPodSchedulingConstraints of
           Some s \<Rightarrow>
             (case UnmarshalStrictPodSpec yaml s of
                Inl err \<Rightarrow> Inl err
              | Inr proxyPodSched \<Rightarrow> Inr (addConstraints proxyPodSched spec))
         | None \<Rightarrow>
             (case mlookup (Annotations p) AnnotationKeyUseConstraintsFromSpecForProxyPodScheduling of
                Some _ \<Rightarrow> Inr (addConstraints (pod_Spec srcPod) spec)
              | None \<Rightarrow> Inr spec))"

definition proxyFinalizers :: "mutator \<Rightarrow> pod \<Rightarrow> string list" where
  "proxyFinalizers m p =
     filter (\<lambda>f. \<not> HasPrefix f KeyPrefix) (Finalizers p)
     @ (case mlookup (KnownFinalizers m) (Namespace p) of None \<Rightarrow> [] | Some fs \<Rightarrow> fs)"

definition Default :: "yamlCodec \<Rightarrow> mutator \<Rightarrow> runtimeObject \<Rightarrow> error + runtimeObject" where
  "Default yaml m obj =
     (case obj of
        OtherObject T \<Rightarrow> Inl (Errorf (''expected a Pod but got a '' @ T))
      | PodObject p \<Rightarrow>
          (case mlookup (Annotations p) AnnotationKeyElect of
             None \<Rightarrow> Inr (PodObject p)
           | Some _ \<Rightarrow>
               (case sourceManifest yaml p of
                  Inl err \<Rightarrow> Inl err
                | Inr (srcPod, p) \<Rightarrow>
                    (case proxyConstraints yaml srcPod p of
                       Inl err \<Rightarrow> Inl err
                     | Inr spec \<Rightarrow> Inr (PodObject (p
                         \<lparr>pod_Spec := spec\<lparr>SchedulerName := ProxySchedulerName,
                            TerminationGracePeriodSeconds := Some 0\<rparr>,
                          Finalizers := proxyFinalizers m p,
                          Labels := Some (fmupd LabelKeyHasFinalizer ''true'' (nonnil (Labels p)))\<rparr>))))))"


section \<open>Lemmas\<close>

text \<open>What the code relies on: a manifest written by the codec reads back as the pod.\<close>

definition yaml_roundtrip :: "yamlCodec \<Rightarrow> bool" where
  "yaml_roundtrip yaml \<longleftrightarrow>
     (\<forall>p s. Marshal yaml p = Inr s \<longrightarrow> UnmarshalStrict yaml s = Inr p \<and> Unmarshal yaml s = Inr p)"

lemma manifest_not_elect [simp]:
  "AnnotationKeyElect \<noteq> AnnotationKeySourcePodManifest"
  "AnnotationKeyProxyPodSchedulingConstraints \<noteq> AnnotationKeySourcePodManifest"
  "AnnotationKeyUseConstraintsFromSpecForProxyPodScheduling \<noteq> AnnotationKeySourcePodManifest"
  by (simp_all add: key_simps)

text \<open>The mutated pod, in terms of the source pod and the saved one.\<close>

lemma Default_elected:
  assumes "Default yaml m (PodObject p) = Inr obj" and "mlookup (Annotations p) AnnotationKeyElect = Some e"
  shows "\<exists>src q spec. sourceManifest yaml p = Inr (src, q) \<and> proxyConstraints yaml src q = Inr spec
    \<and> obj = PodObject (q\<lparr>pod_Spec := spec\<lparr>SchedulerName := ProxySchedulerName,
          TerminationGracePeriodSeconds := Some 0\<rparr>,
        Finalizers := proxyFinalizers m q,
        Labels := Some (fmupd LabelKeyHasFinalizer ''true'' (nonnil (Labels q)))\<rparr>)"
  using assms by (auto simp: Default_def split: sum.splits prod.splits)

lemma sourceManifest_keeps:
  assumes "sourceManifest yaml p = Inr (src, q)"
  shows "q = p\<lparr>Annotations := Annotations q\<rparr>"
    and "k \<noteq> AnnotationKeySourcePodManifest \<Longrightarrow> mlookup (Annotations q) k = mlookup (Annotations p) k"
  using assms by (auto simp: sourceManifest_def split: option.splits sum.splits)

lemma sourceManifest_again:
  assumes "sourceManifest yaml p = Inr (src, q)" and "yaml_roundtrip yaml"
    and "Annotations r = Annotations q"
  shows "sourceManifest yaml r = Inr (src, r)"
  using assms by (auto simp: sourceManifest_def yaml_roundtrip_def split: option.splits sum.splits)

text \<open>The constraints depend on the annotations and on the source pod, not on those of the pod.\<close>

lemma proxyConstraints_again:
  assumes "proxyConstraints yaml src q = Inr spec" and "Annotations r = Annotations q"
    and "pod_Spec r = spec\<lparr>SchedulerName := s, TerminationGracePeriodSeconds := g\<rparr>"
  shows "proxyConstraints yaml src r = Inr (spec\<lparr>SchedulerName := s, TerminationGracePeriodSeconds := g\<rparr>)"
  using assms by (auto simp: proxyConstraints_def addConstraints_def Let_def split: option.splits sum.splits)

lemma proxyFinalizers_again:
  assumes "\<forall>fs. mlookup (KnownFinalizers m) (Namespace p) = Some fs \<longrightarrow> list_all (\<lambda>f. HasPrefix f KeyPrefix) fs"
    and "Namespace q = Namespace p" "Finalizers q = proxyFinalizers m p"
  shows "proxyFinalizers m q = proxyFinalizers m p"
  using assms by (auto simp: proxyFinalizers_def list_all_iff split: option.splits)

text \<open>The finalizers the agent hands to the webhook are in the program's domain.\<close>

lemma known_finalizers_prefixed:
  assumes "\<forall>t\<in>set cfg. wf_target t"
    and "fmlookup (GetKnownFinalizersByNamespace cfg) ns = Some fs"
  shows "list_all (\<lambda>f. HasPrefix f KeyPrefix) fs"
  using assms
  by (auto simp: GetKnownFinalizersByNamespace_def knownFinalizersStep_fold Let_def wf_target_def
      list_all_iff split: if_splits)


definition agentMutator :: "agentConfig \<Rightarrow> mutator" where
  "agentMutator cfg = \<lparr>KnownFinalizers = Some (GetKnownFinalizersByNamespace cfg)\<rparr>"

lemma proxyFinalizers_agent:
  "proxyFinalizers (agentMutator cfg) p =
     filter (\<lambda>f. \<not> HasPrefix f KeyPrefix) (Finalizers p)
     @ map Finalizer (filter (\<lambda>t. t_Namespace t = Namespace p) cfg)"
  by (auto simp: proxyFinalizers_def agentMutator_def GetKnownFinalizersByNamespace_def
      knownFinalizersStep_fold Let_def filter_empty_conv split: option.splits)

lemma Default_finalizers_eq:
  assumes "mlookup (Annotations p) AnnotationKeyElect = Some e"
    and "Default yaml (agentMutator cfg) (PodObject p) = Inr (PodObject q)"
  shows "Finalizers q = filter (\<lambda>f. \<not> HasPrefix f KeyPrefix) (Finalizers p)
    @ map Finalizer (filter (\<lambda>t. t_Namespace t = Namespace p) cfg)"
proof -
  from Default_elected [OF assms(2,1)] obtain src r where
    r: "sourceManifest yaml p = Inr (src, r)" and q: "Finalizers q = proxyFinalizers (agentMutator cfg) r"
    by fastforce
  have "Finalizers r = Finalizers p" "Namespace r = Namespace p"
    using r by (auto simp: sourceManifest_def split: option.splits sum.splits)
  with q show ?thesis by (simp add: proxyFinalizers_agent)
qed

text \<open>A small instance: an elected pod, a codec that knows it, and a configuration with one target
  in its namespace and one cluster-wide target.\<close>

definition samplePod :: pod where
  "samplePod = zero_pod\<lparr>Name := ''web'', Namespace := ''team'', UID := ''u1'',
     Annotations := Some (fmupd AnnotationKeyElect [] fmempty), Finalizers := [''x.io/mine'']\<rparr>"

definition sampleYaml :: yamlCodec where
  "sampleYaml = \<lparr>Marshal = (\<lambda>p. if p = samplePod then Inr ''web: 1'' else Inl (Errorf ''unknown'')),
     Unmarshal = (\<lambda>_. Inr samplePod), UnmarshalStrict = (\<lambda>_. Inr samplePod),
     UnmarshalStrictPodSpec = (\<lambda>_. Inr zero_podSpec)\<rparr>"

definition sampleEnv :: configEnv where
  "sampleEnv = \<lparr>Secrets_Get = (\<lambda>_ _. Inl (Errorf [])), clientcmd_Load = Inr,
     clientcmd_ClientConfig = (\<lambda>c _. Inr c), GetConfigOrDie = []\<rparr>"

definition sampleTarget :: targetObject where
  "sampleTarget = objmeta.extend (zero_meta\<lparr>Name := ''prod'', Namespace := ''team''\<rparr>)
     \<lparr>tg_Spec = \<lparr>tg_Self = True, tg_KubeconfigSecret = None, tg_ExcludedLabelsRegexp = None\<rparr>\<rparr>"

definition sampleClusterTarget :: clusterTarget where
  "sampleClusterTarget = objmeta.extend (zero_meta\<lparr>Name := ''wide''\<rparr>)
     \<lparr>ct_Spec = \<lparr>ct_Self = True, ct_KubeconfigSecret = None, ct_ExcludedLabelsRegexp = None\<rparr>\<rparr>"

definition sampleConfig :: agentConfig where
  "sampleConfig =
     [\<lparr>t_Name = ''wide'', ClientConfig = [], Self = True, t_Namespace = [], ExcludedLabelsRegexp = None,
       VirtualNodeName = ''admiralty-wide'', Finalizer = KeyPrefix @ ''wide''\<rparr>,
      \<lparr>t_Name = ''prod'', ClientConfig = [], Self = True, t_Namespace = ''team'', ExcludedLabelsRegexp = None,
       VirtualNodeName = ''admiralty-team-prod'', Finalizer = KeyPrefix @ ''team-prod''\<rparr>]"

lemma sample_config: "NewFromCRD sampleEnv [sampleClusterTarget] [sampleTarget] = Some sampleConfig"
  by (simp add: NewFromCRD_def addTarget_def addClusterTarget_def complete_def FromParts_def
      HasPrefix_def Short_def Long_def sampleTarget_def sampleClusterTarget_def sampleEnv_def
      sampleConfig_def objmeta.defs zero_meta_def)

lemma sample_yaml: "yaml_roundtrip sampleYaml"
  by (auto simp: yaml_roundtrip_def sampleYaml_def split: if_splits)

lemma sample_pod:
  "mlookup (Annotations samplePod) AnnotationKeyElect = Some []"
  "mlookup (Annotations samplePod) AnnotationKeySourcePodManifest = None"
  "Namespace samplePod = ''team''"
  "Finalizers samplePod = [''x.io/mine'']"
  by (simp_all add: samplePod_def zero_pod_def objmeta.defs zero_meta_def key_simps)

lemma sample_default:
  "\<exists>q. Default sampleYaml (agentMutator sampleConfig) (PodObject samplePod) = Inr (PodObject q)"
proof -
  have "Marshal sampleYaml samplePod = Inr ''web: 1''" by (simp add: sampleYaml_def)
  moreover have "mlookup (Annotations samplePod) AnnotationKeyProxyPodSchedulingConstraints = None"
    "mlookup (Annotations samplePod) AnnotationKeyUseConstraintsFromSpecForProxyPodScheduling = None"
    by (simp_all add: samplePod_def key_simps)
  ultimately show ?thesis
    by (simp add: Default_def sample_pod sourceManifest_def proxyConstraints_def
        manifest_not_elect [symmetric])
qed


section \<open>Properties\<close>

text \<open>
  Property C21.  The webhook is idempotent, as the API server may call it again on its own output:
  with the finalizers of a loaded configuration, and a YAML codec that reads back what it writes,
  a second call leaves the pod as the first made it.
\<close>

theorem Default_idempotent:
  assumes "yaml_roundtrip yaml" and "NewFromCRD k cl l = Some cfg"
    and "Default yaml (agentMutator cfg) obj = Inr obj'"
  shows "Default yaml (agentMutator cfg) obj' = Inr obj'"
proof -
  obtain p where obj: "obj = PodObject p" using assms(3) by (cases obj) (auto simp: Default_def)
  show ?thesis
  proof (cases "mlookup (Annotations p) AnnotationKeyElect")
    case None
    then show ?thesis using assms(3) by (auto simp: obj Default_def)
  next
    case (Some e)
    from Default_elected [OF assms(3) [unfolded obj] this] obtain src q spec where
      q: "sourceManifest yaml p = Inr (src, q)" "proxyConstraints yaml src q = Inr spec"
      and obj': "obj' = PodObject (q\<lparr>pod_Spec := spec\<lparr>SchedulerName := ProxySchedulerName,
          TerminationGracePeriodSeconds := Some 0\<rparr>,
        Finalizers := proxyFinalizers (agentMutator cfg) q,
        Labels := Some (fmupd LabelKeyHasFinalizer ''true'' (nonnil (Labels q)))\<rparr>)" (is "_ = PodObject ?r")
      by blast
    have "sourceManifest yaml ?r = Inr (src, ?r)"
      by (rule sourceManifest_again [OF q(1) assms(1)]) simp
    moreover have "proxyConstraints yaml src ?r = Inr (pod_Spec ?r)"
      using proxyConstraints_again [OF q(2), of ?r "Some 0" ProxySchedulerName] by simp
    moreover have "proxyFinalizers (agentMutator cfg) ?r = proxyFinalizers (agentMutator cfg) q"
      by (rule proxyFinalizers_again)
        (auto simp: agentMutator_def dest: known_finalizers_prefixed [OF NewFromCRD_targets [OF assms(2)]])
    moreover have "mlookup (Annotations ?r) AnnotationKeyElect = Some e"
      using sourceManifest_keeps(2) [OF q(1), of AnnotationKeyElect] Some by simp
    ultimately show ?thesis by (simp add: obj' Default_def)
  qed
qed

theorem Default_idempotent_witness:
  "\<exists>q. Default sampleYaml (agentMutator sampleConfig) (PodObject samplePod) = Inr q
    \<and> q \<noteq> PodObject samplePod \<and> Default sampleYaml (agentMutator sampleConfig) q = Inr q"
proof -
  obtain q where q: "Default sampleYaml (agentMutator sampleConfig) (PodObject samplePod) = Inr (PodObject q)"
    using sample_default by blast
  from Default_elected [OF q sample_pod(1)] have "SchedulerName (pod_Spec q) = ProxySchedulerName"
    by fastforce
  moreover have "SchedulerName (pod_Spec samplePod) \<noteq> ProxySchedulerName"
    by (simp add: samplePod_def zero_pod_def zero_podSpec_def objmeta.defs ProxySchedulerName_def)
  ultimately have "q \<noteq> samplePod" by blast
  with q Default_idempotent [OF sample_yaml sample_config q] show ?thesis by blast
qed

lemma Default_recovers:
  assumes "yaml_roundtrip yaml" and "mlookup (Annotations p) AnnotationKeyElect = Some e"
    and "mlookup (Annotations p) AnnotationKeySourcePodManifest = None"
    and "Default yaml m (PodObject p) = Inr (PodObject q)"
  shows "GetSourcePod yaml q = Inr p \<and> IsProxy q"
proof -
  from Default_elected [OF assms(4,2)] obtain src r where
    r: "sourceManifest yaml p = Inr (src, r)" and q: "Annotations q = Annotations r"
      "SchedulerName (pod_Spec q) = ProxySchedulerName" by fastforce
  from r assms(3) obtain s where "Marshal yaml p = Inr s"
    "mlookup (Annotations r) AnnotationKeySourcePodManifest = Some s"
    by (auto simp: sourceManifest_def split: sum.splits)
  with q assms(1) show ?thesis by (auto simp: GetSourcePod_def IsProxy_def yaml_roundtrip_def)
qed

text \<open>
  The webhook loses nothing: from the proxy pod it makes, the program recovers the
  pod the user submitted, scheduling constraints and finalizers included.
\<close>

theorem Default_source_recoverable:
  assumes "yaml_roundtrip yaml" and "mlookup (Annotations p) AnnotationKeyElect = Some e"
    and "mlookup (Annotations p) AnnotationKeySourcePodManifest = None"
    and "Default yaml m (PodObject p) = Inr (PodObject q)"
  shows "GetSourcePod yaml q = Inr p \<and> IsProxy q"
  using assms by (rule Default_recovers)

theorem Default_source_recoverable_witness:
  "\<exists>q. Default sampleYaml (agentMutator sampleConfig) (PodObject samplePod) = Inr (PodObject q)
    \<and> GetSourcePod sampleYaml q = Inr samplePod \<and> IsProxy q"
  using sample_default Default_source_recoverable [OF sample_yaml sample_pod(1,2)] by blast

text \<open>
  The program's finalizers on a proxy pod are exactly those of the targets of its own
  namespace, each target's once: stale ones are dropped, and the user's are kept in their order.
\<close>

theorem Default_finalizers:
  assumes "mlookup (Annotations p) AnnotationKeyElect = Some e"
    and "Default yaml (agentMutator cfg) (PodObject p) = Inr (PodObject q)"
  shows "Finalizers q = filter (\<lambda>f. \<not> HasPrefix f KeyPrefix) (Finalizers p)
    @ map Finalizer (filter (\<lambda>t. t_Namespace t = Namespace p) cfg)"
  using assms by (rule Default_finalizers_eq)

theorem Default_finalizers_witness:
  "\<exists>q. Default sampleYaml (agentMutator sampleConfig) (PodObject samplePod) = Inr (PodObject q)
    \<and> Finalizers q = [''x.io/mine'', KeyPrefix @ ''team-prod'']"
proof -
  obtain q where q: "Default sampleYaml (agentMutator sampleConfig) (PodObject samplePod) = Inr (PodObject q)"
    using sample_default by blast
  from Default_finalizers [OF sample_pod(1) q] have "Finalizers q = [''x.io/mine'', KeyPrefix @ ''team-prod'']"
    by (simp add: sample_pod sampleConfig_def HasPrefix_def KeyPrefix_def)
  with q show ?thesis by blast
qed

text \<open>
  A cluster-wide target, whose namespace is empty, leaves no finalizer on a proxy pod
  of any namespace, unless a target of that namespace shares it.
\<close>

theorem Default_no_cluster_target_finalizer:
  assumes "mlookup (Annotations p) AnnotationKeyElect = Some e" and "Namespace p \<noteq> []"
    and "Default yaml (agentMutator cfg) (PodObject p) = Inr (PodObject q)"
    and "t \<in> set cfg" "t_Namespace t = []" "HasPrefix (Finalizer t) KeyPrefix"
    and "\<forall>u\<in>set cfg. t_Namespace u = Namespace p \<longrightarrow> Finalizer u \<noteq> Finalizer t"
  shows "Finalizer t \<notin> set (Finalizers q)"
  using Default_finalizers_eq [OF assms(1,3)] assms(2,4-7) by force

theorem Default_no_cluster_target_finalizer_witness:
  "\<exists>q. Default sampleYaml (agentMutator sampleConfig) (PodObject samplePod) = Inr (PodObject q)
    \<and> KeyPrefix @ ''wide'' \<notin> set (Finalizers q)"
proof -
  obtain q where q: "Default sampleYaml (agentMutator sampleConfig) (PodObject samplePod) = Inr (PodObject q)"
    using sample_default by blast
  have "Finalizer (sampleConfig ! 0) \<notin> set (Finalizers q)"
    by (rule Default_no_cluster_target_finalizer [OF sample_pod(1) _ q])
      (simp_all add: sample_pod sampleConfig_def)
  with q show ?thesis by (auto simp: sampleConfig_def)
qed

end
