(* ===== verification/Scheduler_Framework.thy ===== *)
theory Scheduler_Framework
  imports K8s_Objects
begin

text \<open>
  What both scheduler plugins use of the scheduling framework: the status of an extension point, with
  \<open>None\<close> for the nil status that means success, and \<open>wait.PollImmediateUntil\<close>.  The poll is a
  parameter of the plugins.  Its documented behaviour is the predicate \<open>polls\<close>: the condition runs
  at once and then at every tick, until it says it is done, until it returns an error, or until the
  context ends, which is an error too.  The variables that a condition function captures are an
  explicit state.
\<close>

section \<open>Statuses\<close>

datatype statusCode = StatusError | Unschedulable | UnschedulableAndUnresolvable

type_synonym status = "(statusCode \<times> string) option"


section \<open>Polling\<close>

type_synonym ('e, 's) condition = "'s \<Rightarrow> ('e, bool \<times> 's) io"
type_synonym ('e, 's) poller = "nat \<Rightarrow> ('e, 's) condition \<Rightarrow> 's \<Rightarrow> ('e, 's) io"

fun pollTicks :: "nat \<Rightarrow> ('e, 's) condition \<Rightarrow> 's \<Rightarrow> ('e, 's) io" where
  "pollTicks 0 cond s =
     bindM (cond s) (\<lambda>(done, s'). if done then ret s' else fail (Errorf ''timed out waiting for the condition''))"
| "pollTicks (Suc n) cond s = bindM (cond s) (\<lambda>(done, s'). if done then ret s' else pollTicks n cond s')"

definition polls :: "('e, 's) poller \<Rightarrow> bool" where
  "polls poll \<longleftrightarrow> (\<forall>d cond s h. \<exists>n. poll d cond s h = pollTicks n cond s h)"

text \<open>A poll that returns has just run its condition, which said it was done.\<close>

lemma pollTicks_done:
  "pollTicks n cond s h = (Ret s', h') \<Longrightarrow> \<exists>s1 h1. cond s1 h1 = (Ret (True, s'), h')"
proof (induction n arbitrary: s h)
  case 0
  then show ?case by (fastforce simp: bindM_Ret io_apply split: if_splits)
next
  case (Suc n)
  then show ?case by (fastforce simp: bindM_Ret io_apply split: if_splits)
qed

lemma pollTicks_emits: "(\<And>s. emits P (cond s)) \<Longrightarrow> emits P (pollTicks n cond s)"
  by (induction n arbitrary: s) (auto intro!: emits_intros)

text \<open>A condition that is done at once is polled once.\<close>

lemma pollTicks_at_once: "cond s h = (Ret (True, s'), h') \<Longrightarrow> pollTicks n cond s h = (Ret s', h')"
  by (cases n) (simp_all add: bindM_apply io_apply)

lemma poll_done:
  "polls poll \<Longrightarrow> poll d cond s h = (Ret s', h') \<Longrightarrow> \<exists>s1 h1. cond s1 h1 = (Ret (True, s'), h')"
  unfolding polls_def by (metis pollTicks_done)

lemma poll_emits: "polls poll \<Longrightarrow> (\<And>s. emits P (cond s)) \<Longrightarrow> emits P (poll d cond s)"
  unfolding polls_def emits_def using pollTicks_emits [of P cond] unfolding emits_def by metis

lemma poll_at_once: "polls poll \<Longrightarrow> cond s h = (Ret (True, s'), h') \<Longrightarrow> poll d cond s h = (Ret s', h')"
  unfolding polls_def by (metis pollTicks_at_once)

lemma bindM_attempt_Ret: "m h = (Ret x, h') \<Longrightarrow> bindM (attempt m) f h = f (Inr x) h'"
  by (simp add: bindM_apply attempt_def)

lemma polls_pollTicks [simp]: "polls pollTicks"
  by (auto simp: polls_def)

end
