(* ===== verification/Proxy_Plugin.thy ===== *)
theory Proxy_Plugin
  imports Scheduler_Framework Pod_Models Agent_Config
begin

text \<open>
  The proxy scheduler plugin (\<open>pkg/scheduler_plugins/proxy\<close>), in the source cluster.  It filters
  virtual nodes by asking each target cluster, through a candidate pod chaperon, whether it would
  take the pod, allows the candidate of the chosen node, waits until it is bound, and deletes the
  others.  A client is opaque; the answers of the target clusters are functions of the calls made so
  far.
\<close>

section \<open>The plugin\<close>

datatype proxyCall =
    PX_List string string string
  | PX_Create string string podChaperon
  | PX_Patch string string string string
  | PX_DeleteCollection string string string

record proxyPlugin =
  px_clusterName :: string
  targets :: "(string, string) fmap"
  targetNamespaces :: "(string, string) fmap"
  failedNodeNamesByPodUID :: "(string, (string, bool) gomap) fmap"
  px_yaml :: yamlCodec
  px_compile :: "string \<Rightarrow> error + (string \<Rightarrow> bool)"
  px_rangeLabels :: "(string, string) fmap \<Rightarrow> (string \<times> string) list"
  px_rangeTargets :: "(string, string) fmap \<Rightarrow> (string \<times> string) list"
  px_PollFilter :: "(proxyCall, bool \<times> bool) poller"
  px_PollBind :: "(proxyCall, unit) poller"
  px_List :: "proxyCall list \<Rightarrow> string \<Rightarrow> string \<Rightarrow> string \<Rightarrow> error + podChaperon list"
  px_Create :: "proxyCall list \<Rightarrow> string \<Rightarrow> string \<Rightarrow> podChaperon \<Rightarrow> error + podChaperon"
  px_Patch :: "proxyCall list \<Rightarrow> string \<Rightarrow> string \<Rightarrow> string \<Rightarrow> string \<Rightarrow> error + unit"
  px_DeleteCollection :: "proxyCall list \<Rightarrow> string \<Rightarrow> string \<Rightarrow> string \<Rightarrow> error + unit"

text \<open>The two maps of \<open>New\<close>, from the targets of the configuration; a client error panics.\<close>

fun newTargets ::
  "(string \<Rightarrow> error + string) \<Rightarrow> agentTarget list \<Rightarrow> (string, string) fmap \<times> (string, string) fmap
     \<Rightarrow> ((string, string) fmap \<times> (string, string) fmap) option" where
  "newTargets newForConfig [] ms = Some ms"
| "newTargets newForConfig (t # ts) ms =
     (case newForConfig (ClientConfig t) of
        Inl err \<Rightarrow> None
      | Inr client \<Rightarrow> newTargets newForConfig ts
          (fmupd (VirtualNodeName t) client (fst ms), fmupd (VirtualNodeName t) (t_Namespace t) (snd ms)))"

definition New_proxy :: "(string \<Rightarrow> error + string) \<Rightarrow> agentConfig \<Rightarrow> string \<Rightarrow> proxyPlugin \<Rightarrow> proxyPlugin option" where
  "New_proxy newForConfig agentCfg clusterName env =
     map_option (\<lambda>(ts, nss). env\<lparr>px_clusterName := clusterName, targets := ts, targetNamespaces := nss,
         failedNodeNamesByPodUID := fmempty\<rparr>)
       (newTargets newForConfig agentCfg (fmempty, fmempty))"

definition virtualNodeNameToClusterName :: "string \<Rightarrow> string" where
  "virtualNodeNameToClusterName nodeName = nodeName"

definition parentSelector :: "pod \<Rightarrow> string" where
  "parentSelector p = LabelKeyParentUID @ ''='' @ UID p"

definition getCandidate :: "proxyPlugin \<Rightarrow> pod \<Rightarrow> string \<Rightarrow> (proxyCall, podChaperon option) io" where
  "getCandidate pl proxyPod clusterName =
     (case fmlookup (targets pl) clusterName of
        None \<Rightarrow> fail (Errorf (''no target for cluster name '' @ clusterName))
      | Some target \<Rightarrow>
          bindM (call (\<lambda>h. px_List pl h target (Namespace proxyPod) (parentSelector proxyPod))
                   (PX_List target (Namespace proxyPod) (parentSelector proxyPod))) (\<lambda>res.
            case res of
              Inl err \<Rightarrow> fail err
            | Inr l \<Rightarrow>
                if length l > 1 then fail (Errorf ''more than one candidate in target cluster'')
                else if length l < 1 then ret None
                else ret (Some (hd l))))"

definition allowPatch :: string where
  "allowPatch = ''{\"metadata\":{\"annotations\":{\"'' @ AnnotationKeyIsAllowed @ ''\":\"true\"}}}''"

definition allowCandidate :: "proxyPlugin \<Rightarrow> podChaperon \<Rightarrow> string \<Rightarrow> (proxyCall, unit) io" where
  "allowCandidate pl c clusterName =
     (case fmlookup (targets pl) clusterName of
        None \<Rightarrow> fail (Errorf (''no target for cluster name '' @ clusterName))
      | Some target \<Rightarrow>
          bindM (call (\<lambda>h. px_Patch pl h target (Namespace c) (Name c) allowPatch)
                   (PX_Patch target (Namespace c) (Name c) allowPatch)) tryM)"

text \<open>Making the candidate and creating it in the target cluster, in \<open>Filter\<close> and in \<open>Reserve\<close>.\<close>

definition createCandidate :: "proxyPlugin \<Rightarrow> pod \<Rightarrow> string \<Rightarrow> (proxyCall, unit) io" where
  "createCandidate pl p clusterName =
     bindM (tryM (MakeDelegatePod (px_yaml pl) (px_compile pl) (px_rangeLabels pl) p (px_clusterName pl))) (\<lambda>c.
     bindM (must (fmlookup (targets pl) clusterName)) (\<lambda>target.
     bindM (call (\<lambda>h. px_Create pl h target (Namespace c) c) (PX_Create target (Namespace c) c)) (\<lambda>res.
     bindM (tryM res) (\<lambda>_. ret ()))))"

fun unschedulableConditions :: "podCondition list \<Rightarrow> bool" where
  "unschedulableConditions [] = False"
| "unschedulableConditions (cond # conds) =
     (if cond_Type cond = ''PodScheduled'' \<and> cond_Status cond = ''False''
        \<and> (cond_Reason cond = ''Unschedulable'' \<or> cond_Reason cond = ''SchedulingGated'')
      then True else unschedulableConditions conds)"

definition isCandidatePodUnschedulable :: "podChaperon \<Rightarrow> bool" where
  "isCandidatePodUnschedulable c = unschedulableConditions (Conditions (pc_Status c))"

definition unreservedInAPreviousCycle :: "proxyPlugin \<Rightarrow> string \<Rightarrow> string \<Rightarrow> bool" where
  "unreservedInAPreviousCycle pl podUID nodeName \<longleftrightarrow>
     (case fmlookup (failedNodeNamesByPodUID pl) podUID of
        None \<Rightarrow> False
      | Some m \<Rightarrow> mlookup m nodeName = Some True)"

definition filterWaitDuration :: nat where "filterWaitDuration = 30 * 10 ^ 9"

text \<open>The condition function of \<open>Filter\<close>, with the captured \<open>isReserved\<close> and \<open>isUnschedulable\<close>.\<close>

definition filterCondition :: "proxyPlugin \<Rightarrow> pod \<Rightarrow> string \<Rightarrow> (proxyCall, bool \<times> bool) condition" where
  "filterCondition pl p targetClusterName s =
     bindM (getCandidate pl p targetClusterName) (\<lambda>c.
       case c of
         None \<Rightarrow> bindM (createCandidate pl p targetClusterName) (\<lambda>_. ret (False, s))
       | Some c \<Rightarrow>
           let isReserved = (mlookup (Annotations c) AnnotationKeyIsReserved \<noteq> None);
               isUnschedulable = isCandidatePodUnschedulable c
           in ret (isReserved \<or> isUnschedulable, (isReserved, isUnschedulable)))"

definition Filter_proxy :: "proxyPlugin \<Rightarrow> pod \<Rightarrow> node \<Rightarrow> (proxyCall, status) io" where
  "Filter_proxy pl p n =
     (if mget (Labels n) LabelAndTaintKeyVirtualKubeletProvider \<noteq> VirtualKubeletProviderName
      then ret (Some (UnschedulableAndUnresolvable, []))
      else if unreservedInAPreviousCycle pl (UID p) (Name n)
      then ret (Some (UnschedulableAndUnresolvable, ''unreserved in a previous cycle''))
      else
        let ns = mget (Labels n) LabelKeyTargetNamespace in
        if ns \<noteq> [] \<and> ns \<noteq> Namespace p
        then ret (Some (UnschedulableAndUnresolvable, ''target in different namespace''))
        else if mlookup (Annotations p) AnnotationKeyNoReservation \<noteq> None then ret None
        else
          bindM (attempt (px_PollFilter pl filterWaitDuration
                   (filterCondition pl p (virtualNodeNameToClusterName (Name n))) (False, False))) (\<lambda>res.
            case res of
              Inl err \<Rightarrow> ret (Some (UnschedulableAndUnresolvable, Error err))
            | Inr (isReserved, isUnschedulable) \<Rightarrow>
                if isUnschedulable then ret (Some (UnschedulableAndUnresolvable, [])) else ret None))"

definition PostFilter :: "proxyPlugin \<Rightarrow> pod \<Rightarrow> proxyPlugin \<times> status" where
  "PostFilter pl p =
     (pl\<lparr>failedNodeNamesByPodUID := fmupd (UID p) None (failedNodeNamesByPodUID pl)\<rparr>, Some (Unschedulable, []))"

definition Reserve_proxy :: "proxyPlugin \<Rightarrow> pod \<Rightarrow> string \<Rightarrow> (proxyCall, status) io" where
  "Reserve_proxy pl p nodeName =
     (let targetClusterName = virtualNodeNameToClusterName nodeName in
      bindM (attempt (getCandidate pl p targetClusterName)) (\<lambda>res.
        case res of
          Inl err \<Rightarrow> ret (Some (StatusError, Error err))
        | Inr None \<Rightarrow>
            if mlookup (Annotations p) AnnotationKeyNoReservation \<noteq> None
            then bindM (attempt (createCandidate pl p targetClusterName)) (\<lambda>res.
                   case res of Inl err \<Rightarrow> ret (Some (StatusError, Error err)) | Inr _ \<Rightarrow> ret None)
            else ret (Some (StatusError, ''candidate not found''))
        | Inr (Some c) \<Rightarrow>
            bindM (attempt (allowCandidate pl c targetClusterName)) (\<lambda>res.
              case res of Inl err \<Rightarrow> ret (Some (StatusError, Error err)) | Inr _ \<Rightarrow> ret None)))"

definition Unreserve_proxy :: "proxyPlugin \<Rightarrow> pod \<Rightarrow> string \<Rightarrow> proxyPlugin" where
  "Unreserve_proxy pl p nodeName =
     (let m = (case fmlookup (failedNodeNamesByPodUID pl) (UID p) of
                 None \<Rightarrow> fmempty | Some None \<Rightarrow> fmempty | Some (Some m) \<Rightarrow> m)
      in pl\<lparr>failedNodeNamesByPodUID :=
           fmupd (UID p) (Some (fmupd nodeName True m)) (failedNodeNamesByPodUID pl)\<rparr>)"

definition preBindWaitDuration :: nat where "preBindWaitDuration = 60 * 10 ^ 9"

fun scheduledCondition :: "podCondition list \<Rightarrow> error + bool" where
  "scheduledCondition [] = Inr False"
| "scheduledCondition (cond # conds) =
     (if cond_Type cond = ''PodScheduled''
      then (if cond_Status cond = ''True'' then Inr True else Inl (Errorf ''candidate binding failed''))
      else scheduledCondition conds)"

definition candidateIsBound :: "proxyPlugin \<Rightarrow> pod \<Rightarrow> string \<Rightarrow> (proxyCall, bool) io" where
  "candidateIsBound pl p targetClusterName =
     bindM (attempt (getCandidate pl p targetClusterName)) (\<lambda>res.
       case res of
         Inl err \<Rightarrow> ret False
       | Inr None \<Rightarrow> fail (Errorf ''candidate not found'')
       | Inr (Some c) \<Rightarrow> tryM (scheduledCondition (Conditions (pc_Status c))))"

definition PreBind_proxy :: "proxyPlugin \<Rightarrow> pod \<Rightarrow> string \<Rightarrow> (proxyCall, status) io" where
  "PreBind_proxy pl p nodeName =
     bindM (attempt (px_PollBind pl preBindWaitDuration
              (\<lambda>_. bindM (candidateIsBound pl p (virtualNodeNameToClusterName nodeName)) (\<lambda>b. ret (b, ()))) ())) (\<lambda>res.
       case res of Inl err \<Rightarrow> ret (Some (StatusError, Error err)) | Inr _ \<Rightarrow> ret None)"

text \<open>The loop of \<open>PostBind\<close> over the targets, in the order of the range; errors are only logged.\<close>

fun deleteOthers :: "proxyPlugin \<Rightarrow> pod \<Rightarrow> string \<Rightarrow> (string \<times> string) list \<Rightarrow> (proxyCall, unit) io" where
  "deleteOthers pl p targetClusterName [] = ret ()"
| "deleteOthers pl p targetClusterName ((clusterName, target) # ts) =
     (if clusterName = targetClusterName then deleteOthers pl p targetClusterName ts
      else
        let ns = (case fmlookup (targetNamespaces pl) clusterName of None \<Rightarrow> [] | Some ns \<Rightarrow> ns) in
        if ns \<noteq> [] \<and> ns \<noteq> Namespace p then deleteOthers pl p targetClusterName ts
        else bindM (call (\<lambda>h. px_DeleteCollection pl h target (Namespace p) (parentSelector p))
                      (PX_DeleteCollection target (Namespace p) (parentSelector p))) (\<lambda>_.
             deleteOthers pl p targetClusterName ts))"

definition PostBind :: "proxyPlugin \<Rightarrow> pod \<Rightarrow> string \<Rightarrow> (proxyCall, proxyPlugin) io" where
  "PostBind pl p nodeName =
     bindM (deleteOthers pl p (virtualNodeNameToClusterName nodeName) (px_rangeTargets pl (targets pl))) (\<lambda>_.
     ret (pl\<lparr>failedNodeNamesByPodUID := fmdrop (UID p) (failedNodeNamesByPodUID pl)\<rparr>))"


section \<open>The candidate of a target\<close>

lemma getCandidate_Some:
  "getCandidate pl p cluster h = (Ret (Some c), h') \<longleftrightarrow>
     (\<exists>client. fmlookup (targets pl) cluster = Some client
        \<and> px_List pl h client (Namespace p) (parentSelector p) = Inr [c]
        \<and> h' = h @ [PX_List client (Namespace p) (parentSelector p)])"
proof -
  have "l = [hd l]" if "l \<noteq> []" "\<not> Suc 0 < length l" for l :: "podChaperon list"
    using that by (cases l) auto
  then show ?thesis
    by (auto simp: getCandidate_def io_simps split: option.splits sum.splits if_splits)
qed

lemma filterCondition_done:
  "filterCondition pl p cluster s h = (Ret (True, s'), h') \<longleftrightarrow>
     (\<exists>c. getCandidate pl p cluster h = (Ret (Some c), h')
        \<and> s' = (mlookup (Annotations c) AnnotationKeyIsReserved \<noteq> None, isCandidatePodUnschedulable c)
        \<and> (fst s' \<or> snd s'))"
  by (auto simp: filterCondition_def bindM_Ret io_apply Let_def split: option.splits)

lemma candidateIsBound_True:
  "candidateIsBound pl p cluster h = (Ret True, h') \<longleftrightarrow>
     (\<exists>c. getCandidate pl p cluster h = (Ret (Some c), h')
        \<and> scheduledCondition (Conditions (pc_Status c)) = Inr True)"
  by (cases "getCandidate pl p cluster h")
    (auto simp: candidateIsBound_def bindM_apply attempt_def io_apply tryM_def
      split: outcome.splits option.splits sum.splits)

lemma unschedulableConditions_iff:
  "unschedulableConditions cs \<longleftrightarrow> (\<exists>c\<in>set cs. cond_Type c = ''PodScheduled'' \<and> cond_Status c = ''False''
     \<and> (cond_Reason c = ''Unschedulable'' \<or> cond_Reason c = ''SchedulingGated''))"
  by (induction cs) auto

lemma scheduledCondition_True:
  "scheduledCondition cs = Inr True \<Longrightarrow> \<exists>c\<in>set cs. cond_Type c = ''PodScheduled'' \<and> cond_Status c = ''True''"
  by (induction cs) (auto split: if_splits)


section \<open>What the plugin may do\<close>

text \<open>The calls of each extension point for the pod and the node it is given.\<close>

definition looksUp :: "proxyPlugin \<Rightarrow> pod \<Rightarrow> string \<Rightarrow> proxyCall \<Rightarrow> bool" where
  "looksUp pl p nodeName e \<longleftrightarrow> (\<exists>client. fmlookup (targets pl) nodeName = Some client
     \<and> e = PX_List client (Namespace p) (parentSelector p))"

definition creates :: "proxyPlugin \<Rightarrow> pod \<Rightarrow> string \<Rightarrow> proxyCall \<Rightarrow> bool" where
  "creates pl p nodeName e \<longleftrightarrow> (\<exists>client d. fmlookup (targets pl) nodeName = Some client
     \<and> MakeDelegatePod (px_yaml pl) (px_compile pl) (px_rangeLabels pl) p (px_clusterName pl) = Inr d
     \<and> e = PX_Create client (Namespace d) d)"

definition allows :: "proxyPlugin \<Rightarrow> pod \<Rightarrow> string \<Rightarrow> proxyCall \<Rightarrow> bool" where
  "allows pl p nodeName e \<longleftrightarrow> (\<exists>client h c. fmlookup (targets pl) nodeName = Some client
     \<and> px_List pl h client (Namespace p) (parentSelector p) = Inr [c]
     \<and> e = PX_Patch client (Namespace c) (Name c) allowPatch)"

lemma emits_getCandidate: "emits (looksUp pl p cluster) (getCandidate pl p cluster)"
  unfolding getCandidate_def by (intro emits_intros) (simp add: looksUp_def)

lemma emits_createCandidate: "emits (creates pl p cluster) (createCandidate pl p cluster)"
proof (cases "MakeDelegatePod (px_yaml pl) (px_compile pl) (px_rangeLabels pl) p (px_clusterName pl)")
  case (Inr d)
  then show ?thesis
    by (cases "fmlookup (targets pl) cluster")
      (auto simp: createCandidate_def io_values creates_def intro!: emits_intros)
qed (simp add: createCandidate_def io_values emits_fail)

lemma emits_filterCondition:
  "emits (\<lambda>e. looksUp pl p cluster e \<or> creates pl p cluster e) (filterCondition pl p cluster s)"
  unfolding filterCondition_def Let_def
  by (intro emits_intros emits_mono [OF emits_getCandidate] emits_mono [OF emits_createCandidate] disjI1 disjI2)

lemma emits_Filter:
  "polls (px_PollFilter pl) \<Longrightarrow>
     emits (\<lambda>e. looksUp pl p (Name n) e \<or> creates pl p (Name n) e) (Filter_proxy pl p n)"
  unfolding Filter_proxy_def Let_def virtualNodeNameToClusterName_def
  by (intro emits_intros poll_emits emits_filterCondition)

lemma emits_candidateIsBound: "emits (looksUp pl p cluster) (candidateIsBound pl p cluster)"
  unfolding candidateIsBound_def by (intro emits_intros emits_getCandidate)

lemma emits_PreBind: "polls (px_PollBind pl) \<Longrightarrow> emits (looksUp pl p nodeName) (PreBind_proxy pl p nodeName)"
  unfolding PreBind_proxy_def virtualNodeNameToClusterName_def
  by (intro emits_intros poll_emits emits_candidateIsBound)

lemma emits_allowCandidate:
  "fmlookup (targets pl) cluster = Some client \<Longrightarrow> px_List pl h client (Namespace p) (parentSelector p) = Inr [c]
     \<Longrightarrow> emits (allows pl p cluster) (allowCandidate pl c cluster)"
  unfolding allowCandidate_def by (simp, intro emits_intros) (auto simp: allows_def)

definition reserves :: "proxyPlugin \<Rightarrow> pod \<Rightarrow> string \<Rightarrow> proxyCall \<Rightarrow> bool" where
  "reserves pl p nodeName e \<longleftrightarrow> looksUp pl p nodeName e \<or> allows pl p nodeName e
     \<or> mlookup (Annotations p) AnnotationKeyNoReservation \<noteq> None \<and> creates pl p nodeName e"

lemma emits_Reserve: "emits (reserves pl p nodeName) (Reserve_proxy pl p nodeName)"
  unfolding Reserve_proxy_def Let_def virtualNodeNameToClusterName_def
proof (rule emits_bindM_ret)
  show "emits (reserves pl p nodeName) (attempt (getCandidate pl p nodeName))"
    by (intro emits_attempt emits_mono [OF emits_getCandidate]) (simp add: reserves_def)
next
  fix res h h' assume r: "attempt (getCandidate pl p nodeName) h = (Ret res, h')"
  have created: "emits (reserves pl p nodeName) (createCandidate pl p nodeName)"
    if "mlookup (Annotations p) AnnotationKeyNoReservation \<noteq> None"
    using that by (intro emits_mono [OF emits_createCandidate]) (simp add: reserves_def)
  have allowed: "emits (reserves pl p nodeName) (allowCandidate pl c nodeName)" if "res = Inr (Some c)" for c
    using r that by (auto simp: attempt_Inr getCandidate_Some reserves_def
        intro!: emits_mono [OF emits_allowCandidate])
  show "emits (reserves pl p nodeName) (case res of
      Inl err \<Rightarrow> ret (Some (StatusError, Error err))
    | Inr None \<Rightarrow>
        if mlookup (Annotations p) AnnotationKeyNoReservation \<noteq> None
        then bindM (attempt (createCandidate pl p nodeName)) (\<lambda>res.
               case res of Inl err \<Rightarrow> ret (Some (StatusError, Error err)) | Inr _ \<Rightarrow> ret None)
        else ret (Some (StatusError, ''candidate not found''))
    | Inr (Some c) \<Rightarrow>
        bindM (attempt (allowCandidate pl c nodeName)) (\<lambda>res.
          case res of Inl err \<Rightarrow> ret (Some (StatusError, Error err)) | Inr _ \<Rightarrow> ret None))"
    by (intro emits_intros created allowed) simp_all
qed

text \<open>The loop over the targets deletes in every other target that the namespace of the pod can use.\<close>

definition usable :: "proxyPlugin \<Rightarrow> pod \<Rightarrow> string \<Rightarrow> bool" where
  "usable pl p cluster \<longleftrightarrow> fmlookup (targetNamespaces pl) cluster \<in> {None, Some [], Some (Namespace p)}"

lemma deleteOthers_calls:
  "deleteOthers pl p cluster ts h =
     (Ret (), h @ map (\<lambda>(_, client). PX_DeleteCollection client (Namespace p) (parentSelector p))
        (filter (\<lambda>(name, _). name \<noteq> cluster \<and> usable pl p name) ts))"
proof (induction pl p cluster ts arbitrary: h rule: deleteOthers.induct)
  case (2 pl p cluster name target ts)
  then show ?case
    by (auto simp: Let_def usable_def io_simps split: option.splits)
qed (simp add: io_simps)


section \<open>The memory of failed nodes\<close>

text \<open>
  What the plugin promises about its memory: for each pod a set of nodes, which a failed reservation
  adds to and a reset empties, without an effect on other pods.
\<close>

locale failure_memory =
  fixes abs :: "'m \<Rightarrow> string \<Rightarrow> string set"
    and remember :: "'m \<Rightarrow> 'p \<Rightarrow> string \<Rightarrow> 'm"
    and forget :: "'m \<Rightarrow> 'p \<Rightarrow> 'm"
    and uid :: "'p \<Rightarrow> string"
  assumes remember: "abs (remember m p n) = (abs m)(uid p := insert n (abs m (uid p)))"
    and forget: "abs (forget m p) = (abs m)(uid p := {})"
begin

lemma remember_all:
  "abs (foldl (\<lambda>m n. remember m p n) m ns) = (abs m)(uid p := abs m (uid p) \<union> set ns)"
  by (induction ns arbitrary: m) (auto simp: remember fun_eq_iff)

text \<open>From a reset on, the memory of a pod is the set of the nodes where its reservation failed.\<close>

lemma since_reset:
  "abs (foldl (\<lambda>m n. remember m p n) (forget m p) ns) = (abs m)(uid p := set ns)"
  by (simp add: remember_all forget)

end

definition failedNodes :: "proxyPlugin \<Rightarrow> string \<Rightarrow> string set" where
  "failedNodes pl u = {n. unreservedInAPreviousCycle pl u n}"

lemma failedNodes_Unreserve:
  "failedNodes (Unreserve_proxy pl p n) = (failedNodes pl)(UID p := insert n (failedNodes pl (UID p)))"
  by (auto simp: failedNodes_def unreservedInAPreviousCycle_def Unreserve_proxy_def Let_def fun_eq_iff
      split: option.splits)

lemma failedNodes_PostFilter: "failedNodes (fst (PostFilter pl p)) = (failedNodes pl)(UID p := {})"
  by (auto simp: failedNodes_def unreservedInAPreviousCycle_def PostFilter_def fun_eq_iff split: option.splits)

lemma failedNodes_PostBind:
  "PostBind pl p n h = (Ret pl', h') \<Longrightarrow> failedNodes pl' = (failedNodes pl)(UID p := {})"
  by (auto simp: PostBind_def io_simps deleteOthers_calls failedNodes_def unreservedInAPreviousCycle_def fun_eq_iff
      split: option.splits if_splits)

interpretation fm: failure_memory failedNodes Unreserve_proxy "\<lambda>pl p. fst (PostFilter pl p)" UID
  by unfold_locales (rule failedNodes_Unreserve failedNodes_PostFilter)+


section \<open>Properties\<close>

text \<open>
  Property C8.  Each extension point of the proxy scheduler calls the target clusters only as it
  should, whatever they answer.  Filtering a node looks for the candidate in the target of that node
  only, and creates nothing there but the delegate of the pod.  Reserving a node looks there, allows
  the one candidate it found there, and creates a candidate only for a pod without reservation.
  Waiting before the binding only looks.  After the binding the candidates are deleted in every
  other target that serves the namespace of the pod, each once, and in no other.
\<close>

theorem proxy_calls_only:
  assumes "polls (px_PollFilter pl)" "polls (px_PollBind pl)"
  shows "emits (\<lambda>e. looksUp pl p (Name n) e \<or> creates pl p (Name n) e) (Filter_proxy pl p n)
    \<and> emits (reserves pl p node) (Reserve_proxy pl p node)
    \<and> emits (looksUp pl p node) (PreBind_proxy pl p node)
    \<and> snd (PostBind pl p node h) = h
        @ map (\<lambda>(_, client). PX_DeleteCollection client (Namespace p) (parentSelector p))
            (filter (\<lambda>(cluster, _). cluster \<noteq> node \<and> usable pl p cluster) (px_rangeTargets pl (targets pl)))"
  using assms
  by (intro conjI emits_Filter emits_Reserve emits_PreBind)
    (simp_all add: PostBind_def io_simps deleteOthers_calls virtualNodeNameToClusterName_def)

text \<open>A plugin with two targets, of which the second serves another namespace.\<close>

definition samplePlugin :: "podChaperon \<Rightarrow> proxyPlugin" where
  "samplePlugin c = \<lparr>px_clusterName = ''c1'', targets = fmap_of_list [(''n1'', ''t1''), (''n2'', ''t2''), (''n3'', ''t3'')],
     targetNamespaces = fmap_of_list [(''n1'', []), (''n2'', []), (''n3'', ''else'')], failedNodeNamesByPodUID = fmempty,
     px_yaml = \<lparr>Marshal = (\<lambda>_. Inr []), Unmarshal = (\<lambda>_. Inr zero_pod),
       UnmarshalStrict = (\<lambda>_. Inr zero_pod), UnmarshalStrictPodSpec = (\<lambda>_. Inr zero_podSpec)\<rparr>,
     px_compile = (\<lambda>_. Inr (\<lambda>_. False)), px_rangeLabels = (\<lambda>_. []),
     px_rangeTargets = (\<lambda>_. [(''n2'', ''t2''), (''n1'', ''t1''), (''n3'', ''t3'')]),
     px_PollFilter = pollTicks, px_PollBind = pollTicks, px_List = (\<lambda>_ _ _ _. Inr [c]),
     px_Create = (\<lambda>_ _ _ d. Inr d), px_Patch = (\<lambda>_ _ _ _ _. Inr ()), px_DeleteCollection = (\<lambda>_ _ _ _. Inr ())\<rparr>"

theorem proxy_calls_only_witness:
  "snd (PostBind (samplePlugin zero_podChaperon) (zero_pod\<lparr>Namespace := ''team''\<rparr>) ''n1'' [])
     = [PX_DeleteCollection ''t2'' ''team'' (parentSelector (zero_pod\<lparr>Namespace := ''team''\<rparr>))]"
proof -
  let ?p = "zero_pod\<lparr>Namespace := ''team''\<rparr>"
  have "snd (PostBind (samplePlugin zero_podChaperon) ?p ''n1'' []) = []
      @ map (\<lambda>(_, client). PX_DeleteCollection client (Namespace ?p) (parentSelector ?p))
          (filter (\<lambda>(cluster, _). cluster \<noteq> ''n1'' \<and> usable (samplePlugin zero_podChaperon) ?p cluster)
            (px_rangeTargets (samplePlugin zero_podChaperon) (targets (samplePlugin zero_podChaperon))))"
    by (rule proxy_calls_only [THEN conjunct2, THEN conjunct2, THEN conjunct2]) (simp_all add: samplePlugin_def)
  then show ?thesis by (simp add: samplePlugin_def usable_def)
qed

text \<open>
  Whether a virtual node is open to a pod, before any target cluster is asked: it is a virtual node of
  the program, its reservation did not fail in an earlier cycle, and its target serves the namespace.
\<close>

definition openTo :: "proxyPlugin \<Rightarrow> pod \<Rightarrow> node \<Rightarrow> bool" where
  "openTo pl p n \<longleftrightarrow> mget (Labels n) LabelAndTaintKeyVirtualKubeletProvider = VirtualKubeletProviderName
     \<and> mget (Labels n) LabelKeyTargetNamespace \<in> {[], Namespace p} \<and> Name n \<notin> failedNodes pl (UID p)"

lemma openTo_guards:
  "openTo pl p n \<longleftrightarrow> \<not> (mget (Labels n) LabelAndTaintKeyVirtualKubeletProvider \<noteq> VirtualKubeletProviderName)
     \<and> \<not> unreservedInAPreviousCycle pl (UID p) (Name n)
     \<and> \<not> (mget (Labels n) LabelKeyTargetNamespace \<noteq> [] \<and> mget (Labels n) LabelKeyTargetNamespace \<noteq> Namespace p)"
  by (auto simp: openTo_def failedNodes_def)

text \<open>A node that is not open is rejected without a call.\<close>

lemma Filter_closed:
  "\<not> openTo pl p n \<Longrightarrow> \<exists>msg. Filter_proxy pl p n h = (Ret (Some (UnschedulableAndUnresolvable, msg)), h)"
  unfolding openTo_guards by (auto simp: Filter_proxy_def io_apply Let_def)

text \<open>
  Property C9.  What it takes to pass the filter, in its two modes.  A pod with a reservation passes a
  node only if the node is open to it and the last call of the filter found exactly one candidate in the
  target of that node, reserved there and not reported unschedulable.  A pod that asks for no
  reservation passes every open node at once, without a call and so without a candidate, although
  the comment on that annotation says that such a pod waits for its candidates to be scheduled.  A node
  that is not open never passes, in either mode.
\<close>

theorem Filter_passes:
  assumes "polls (px_PollFilter pl)"
  shows "if mlookup (Annotations p) AnnotationKeyNoReservation \<noteq> None
     then Filter_proxy pl p n h = (Ret None, h') \<longleftrightarrow> openTo pl p n \<and> h' = h
     else Filter_proxy pl p n h = (Ret None, h') \<longrightarrow> openTo pl p n
       \<and> (\<exists>h1 client c. fmlookup (targets pl) (Name n) = Some client
         \<and> h' = h1 @ [PX_List client (Namespace p) (parentSelector p)]
         \<and> px_List pl h1 client (Namespace p) (parentSelector p) = Inr [c]
         \<and> mlookup (Annotations c) AnnotationKeyIsReserved \<noteq> None \<and> \<not> isCandidatePodUnschedulable c)"
proof (cases "openTo pl p n")
  case False
  then show ?thesis using Filter_closed [OF False, of h] by auto
next
  case True
  let ?poll = "px_PollFilter pl filterWaitDuration (filterCondition pl p (Name n)) (False, False)"
  have "\<exists>h1 client c. fmlookup (targets pl) (Name n) = Some client
      \<and> h' = h1 @ [PX_List client (Namespace p) (parentSelector p)]
      \<and> px_List pl h1 client (Namespace p) (parentSelector p) = Inr [c]
      \<and> mlookup (Annotations c) AnnotationKeyIsReserved \<noteq> None \<and> \<not> isCandidatePodUnschedulable c"
    if "mlookup (Annotations p) AnnotationKeyNoReservation = None" "Filter_proxy pl p n h = (Ret None, h')"
  proof -
    have "\<exists>s'. ?poll h = (Ret s', h') \<and> \<not> snd s'"
      using that True [unfolded openTo_guards]
      by (cases "?poll h") (auto simp: Filter_proxy_def virtualNodeNameToClusterName_def Let_def bindM_apply attempt_def
          io_apply split: if_splits outcome.splits)
    then show ?thesis
      using poll_done [OF assms] by (fastforce simp: filterCondition_done getCandidate_Some)
  qed
  moreover have "Filter_proxy pl p n h = (Ret None, h)" if "mlookup (Annotations p) AnnotationKeyNoReservation \<noteq> None"
    using that True [unfolded openTo_guards] by (auto simp: Filter_proxy_def io_apply Let_def)
  ultimately show ?thesis using True by auto
qed


theorem Filter_passes_witness:
  "\<exists>pl p n h1 client c. Filter_proxy pl p n [] = (Ret None, h1 @ [PX_List client (Namespace p) (parentSelector p)])
     \<and> px_List pl h1 client (Namespace p) (parentSelector p) = Inr [c]
     \<and> mlookup (Annotations c) AnnotationKeyIsReserved \<noteq> None"
proof -
  define c where "c = zero_podChaperon\<lparr>Annotations := Some (fmupd AnnotationKeyIsReserved ''true'' fmempty)\<rparr>"
  define p where "p = zero_pod\<lparr>Namespace := ''team'', UID := ''u1''\<rparr>"
  define n where "n = zero_node\<lparr>Name := ''n1'',
     Labels := Some (fmupd LabelAndTaintKeyVirtualKubeletProvider VirtualKubeletProviderName fmempty)\<rparr>"
  let ?pl = "samplePlugin c"
  have p: "Namespace p = ''team''" "Annotations p = None"
    and n: "Name n = ''n1''" "Labels n = Some (fmupd LabelAndTaintKeyVirtualKubeletProvider VirtualKubeletProviderName fmempty)"
    by (simp_all add: p_def n_def zero_pod_def zero_meta_def objmeta.defs)
  have "Conditions (pc_Status c) = []" by (simp add: c_def zero_podChaperon_def zero_meta_def objmeta.defs zero_podStatus_def)
  then have cond: "filterCondition ?pl p ''n1'' s [] = (Ret (True, (True, False)), [PX_List ''t1'' ''team'' (parentSelector p)])" for s
    by (simp add: filterCondition_done getCandidate_Some isCandidatePodUnschedulable_def p)
      (simp add: samplePlugin_def c_def)
  have polls: "polls (px_PollFilter ?pl)" by (simp add: samplePlugin_def)
  have "mget (Some (fmupd LabelAndTaintKeyVirtualKubeletProvider VirtualKubeletProviderName fmempty)) LabelKeyTargetNamespace = []"
    by (simp add: LabelAndTaintKeyVirtualKubeletProvider_def LabelKeyTargetNamespace_def KeyPrefix_def mget_def)
  moreover have "\<not> unreservedInAPreviousCycle ?pl (UID p) ''n1''"
    by (simp add: unreservedInAPreviousCycle_def samplePlugin_def)
  ultimately have passes: "Filter_proxy ?pl p n [] = (Ret None, [PX_List ''t1'' ''team'' (parentSelector p)])"
    using poll_at_once [OF polls, where cond = "filterCondition ?pl p ''n1''", OF cond]
    by (simp add: Filter_proxy_def Let_def n p virtualNodeNameToClusterName_def bindM_attempt_Ret io_apply)
  from Filter_passes [OF polls, of p n "[]" "[PX_List ''t1'' ''team'' (parentSelector p)]"] passes obtain h1 client d
    where d: "[PX_List ''t1'' ''team'' (parentSelector p)] = h1 @ [PX_List client (Namespace p) (parentSelector p)]"
      "px_List ?pl h1 client (Namespace p) (parentSelector p) = Inr [d]"
      "mlookup (Annotations d) AnnotationKeyIsReserved \<noteq> None"
    by (auto simp: p)
  from passes d show ?thesis unfolding d(1) by blast
qed

text \<open>
  Property C10.  A pod is bound to a virtual node only after the last look into the target of that node
  has found exactly one candidate, with a \<open>PodScheduled\<close> condition that is true.
\<close>

theorem PreBind_bound:
  assumes "polls (px_PollBind pl)" "PreBind_proxy pl p node h = (Ret None, h')"
  shows "\<exists>h1 client c cond. fmlookup (targets pl) node = Some client
    \<and> h' = h1 @ [PX_List client (Namespace p) (parentSelector p)]
    \<and> px_List pl h1 client (Namespace p) (parentSelector p) = Inr [c]
    \<and> cond \<in> set (Conditions (pc_Status c)) \<and> cond_Type cond = ''PodScheduled'' \<and> cond_Status cond = ''True''"
proof -
  let ?cond = "\<lambda>_. bindM (candidateIsBound pl p node) (\<lambda>b. ret (b, ()))"
  have "px_PollBind pl preBindWaitDuration ?cond () h = (Ret (), h')"
    using assms(2)
    by (cases "px_PollBind pl preBindWaitDuration ?cond () h")
      (auto simp: PreBind_proxy_def virtualNodeNameToClusterName_def bindM_apply attempt_def io_apply split: outcome.splits)
  from poll_done [OF assms(1) this] obtain h1 where "candidateIsBound pl p node h1 = (Ret True, h')"
    by (auto simp: bindM_Ret io_apply)
  then show ?thesis
    unfolding candidateIsBound_True getCandidate_Some using scheduledCondition_True by blast
qed

theorem PreBind_bound_witness:
  "\<exists>pl p h1 client c. PreBind_proxy pl p ''n1'' [] = (Ret None, h1 @ [PX_List client (Namespace p) (parentSelector p)])
     \<and> px_List pl h1 client (Namespace p) (parentSelector p) = Inr [c]"
proof -
  define c where "c = zero_podChaperon\<lparr>pc_Status := zero_podStatus\<lparr>Conditions :=
     [\<lparr>cond_Type = ''PodScheduled'', cond_Status = ''True'', cond_Reason = []\<rparr>]\<rparr>\<rparr>"
  let ?pl = "samplePlugin c"
  let ?h = "[PX_List ''t1'' (Namespace zero_pod) (parentSelector zero_pod)]"
  have "candidateIsBound ?pl zero_pod ''n1'' [] = (Ret True, ?h)"
    by (simp add: candidateIsBound_True getCandidate_Some) (simp add: samplePlugin_def c_def)
  then have cond: "bindM (candidateIsBound ?pl zero_pod ''n1'') (\<lambda>b. ret (b, ())) [] = (Ret (True, ()), ?h)"
    by (simp add: bindM_apply io_apply)
  have polls: "polls (px_PollBind ?pl)" by (simp add: samplePlugin_def)
  have bound: "PreBind_proxy ?pl zero_pod ''n1'' [] = (Ret None, ?h)"
    using poll_at_once [OF polls, where cond = "\<lambda>_. bindM (candidateIsBound ?pl zero_pod ''n1'') (\<lambda>b. ret (b, ()))", OF cond]
    by (simp add: PreBind_proxy_def virtualNodeNameToClusterName_def bindM_attempt_Ret io_apply)
  from PreBind_bound [OF polls bound] obtain h1 client d
    where d: "?h = h1 @ [PX_List client (Namespace zero_pod) (parentSelector zero_pod)]"
      "px_List ?pl h1 client (Namespace zero_pod) (parentSelector zero_pod) = Inr [d]"
    by blast
  from bound d show ?thesis unfolding d(1) by blast
qed

text \<open>
  Property C11.  The memory of failed nodes implements one set of nodes per pod.  A new plugin
  remembers nothing, a failed reservation adds its node, finding no node and binding the pod both
  empty the set of that pod only, and the filter rejects the nodes of the set without a call.  So
  after a reset and any sequence of failed reservations the filter leaves out just their nodes.
\<close>

theorem failure_memory_refines:
  "(New_proxy newForConfig cfg name env = Some pl0 \<longrightarrow> failedNodes pl0 = (\<lambda>_. {}))
   \<and> failedNodes (foldl (\<lambda>pl n. Unreserve_proxy pl p n) (fst (PostFilter pl p)) ns) = (failedNodes pl)(UID p := set ns)
   \<and> failedNodes (Unreserve_proxy pl p m) = (failedNodes pl)(UID p := insert m (failedNodes pl (UID p)))
   \<and> (\<exists>pl' h'. PostBind pl p m h = (Ret pl', h') \<and> failedNodes pl' = (failedNodes pl)(UID p := {}))
   \<and> (Name n \<in> failedNodes pl (UID p) \<longrightarrow> (\<exists>msg. Filter_proxy pl p n h = (Ret (Some (UnschedulableAndUnresolvable, msg)), h)))"
proof (intro conjI)
  show "\<exists>pl' h'. PostBind pl p m h = (Ret pl', h') \<and> failedNodes pl' = (failedNodes pl)(UID p := {})"
  proof -
    obtain pl' h' where "PostBind pl p m h = (Ret pl', h')" by (simp add: PostBind_def io_simps deleteOthers_calls)
    with failedNodes_PostBind show ?thesis by blast
  qed
qed (auto simp: New_proxy_def failedNodes_def [of "_\<lparr>px_clusterName := _\<rparr>"] unreservedInAPreviousCycle_def
    fm.since_reset failedNodes_Unreserve, auto simp: failedNodes_def Filter_proxy_def io_apply unreservedInAPreviousCycle_def)

theorem failure_memory_refines_witness:
  "failedNodes (foldl (\<lambda>pl n. Unreserve_proxy pl zero_pod n)
     (fst (PostFilter (samplePlugin zero_podChaperon) zero_pod)) [''n1'', ''n2'']) (UID zero_pod) = {''n1'', ''n2''}"
  using failure_memory_refines [where p = zero_pod and pl = "samplePlugin zero_podChaperon"
      and ns = "[''n1'', ''n2'']", THEN conjunct2, THEN conjunct1]
  by (simp only: fun_upd_same list.set)

end
