(* ===== verification/Failure_Memory.thy ===== *)
theory Failure_Memory
  imports Proxy_Plugin
begin

text \<open>
  The memory of failed nodes of the proxy scheduler under concurrency (\<open>pkg/scheduler_plugins/proxy/plugin.go\<close>).  The
  scheduling cycle and the binding cycles of other pods run in goroutines that share \<open>failedNodeNamesByPodUID\<close> and the
  lock \<open>mx\<close>.  An access to a Go map takes time, with a beginning and an end; two that overlap, one of them a write,
  end the process.  Any interleaving of any number of goroutines is a sequence of steps.
  \<^item> \<open>failure_memory_concurrent\<close>: the functions that take the lock never race, and act as if one after the other.
  \<^item> \<open>PostFilter_races\<close>: \<open>PostFilter\<close> does not take it, and races.
\<close>

section \<open>Operations and their steps\<close>

datatype failureOp =
    OpFilter string string
  | OpPostFilter string
  | OpUnreserve string string
  | OpPostBind string

type_synonym failedMap = "(string, (string, bool) gomap) fmap"

datatype mapWrite = SetNil string | MakeInner string | SetInner string string | Delete string

text \<open>A write to an inner map that is nil panics.\<close>

fun applyWrite :: "mapWrite \<Rightarrow> failedMap \<Rightarrow> failedMap option" where
  "applyWrite (SetNil u) m = Some (fmupd u None m)"
| "applyWrite (MakeInner u) m = Some (fmupd u (Some fmempty) m)"
| "applyWrite (SetInner u n) m =
     map_option (\<lambda>inner. fmupd u (Some (fmupd n True inner)) m) (Option.bind (fmlookup m u) id)"
| "applyWrite (Delete u) m = Some (fmdrop u m)"

text \<open>\<open>IfNil\<close> writes only if the entry of the pod is nil or missing at that time.\<close>

datatype micro =
    RLock | RUnlock | Lock | Unlock
  | BeginRead | EndRead
  | IfNil string mapWrite
  | BeginWrite mapWrite | EndWrite mapWrite

text \<open>What each function does with the memory, access by access.\<close>

definition unreserved_steps :: "micro list" where
  "unreserved_steps = [RLock, BeginRead, EndRead, RUnlock]"

definition PostFilter_steps :: "string \<Rightarrow> micro list" where
  "PostFilter_steps u = [BeginWrite (SetNil u), EndWrite (SetNil u)]"

definition Unreserve_steps :: "string \<Rightarrow> string \<Rightarrow> micro list" where
  "Unreserve_steps u n =
     [Lock, BeginRead, EndRead, IfNil u (MakeInner u), BeginRead, EndRead,
      BeginWrite (SetInner u n), EndWrite (SetInner u n), Unlock]"

definition PostBind_steps :: "string \<Rightarrow> micro list" where
  "PostBind_steps u = [Lock, BeginWrite (Delete u), EndWrite (Delete u), Unlock]"

fun steps_of :: "failureOp \<Rightarrow> micro list" where
  "steps_of (OpFilter u n) = unreserved_steps"
| "steps_of (OpPostFilter u) = PostFilter_steps u"
| "steps_of (OpUnreserve u n) = Unreserve_steps u n"
| "steps_of (OpPostBind u) = PostBind_steps u"


section \<open>Goroutines\<close>

datatype mode = Free | Shared | Exclusive
datatype access = Reading | Writing

record goroutine =
  g_op :: failureOp
  g_rest :: "micro list"
  g_mode :: mode
  g_access :: "access option"

text \<open>\<open>ms_log\<close> keeps the operations in the order in which they took the lock.\<close>

record memorySystem =
  ms_map :: failedMap
  ms_threads :: "goroutine list"
  ms_log :: "failureOp list"
  ms_panicked :: bool

definition idle :: goroutine where
  "idle = \<lparr>g_op = OpFilter [] [], g_rest = [], g_mode = Free, g_access = None\<rparr>"

definition initMemory :: "nat \<Rightarrow> memorySystem" where
  "initMemory n = \<lparr>ms_map = fmempty, ms_threads = replicate n idle, ms_log = [], ms_panicked = False\<rparr>"

text \<open>The lock is a \<open>sync.RWMutex\<close>: readers share it, a writer has it alone.\<close>

inductive gstep :: "failureOp set \<Rightarrow> memorySystem \<Rightarrow> memorySystem \<Rightarrow> bool" for ops where
  start: "\<lbrakk>i < length ts; g_rest (ts ! i) = []; op \<in> ops\<rbrakk> \<Longrightarrow>
    gstep ops \<lparr>ms_map = m, ms_threads = ts, ms_log = l, ms_panicked = False\<rparr>
      \<lparr>ms_map = m, ms_threads = ts[i := (ts ! i)\<lparr>g_op := op, g_rest := steps_of op\<rparr>], ms_log = l, ms_panicked = False\<rparr>"
| rlock: "\<lbrakk>i < length ts; g_rest (ts ! i) = RLock # r; \<forall>g \<in> set ts. g_mode g \<noteq> Exclusive\<rbrakk> \<Longrightarrow>
    gstep ops \<lparr>ms_map = m, ms_threads = ts, ms_log = l, ms_panicked = False\<rparr>
      \<lparr>ms_map = m, ms_threads = ts[i := (ts ! i)\<lparr>g_rest := r, g_mode := Shared\<rparr>], ms_log = l @ [g_op (ts ! i)], ms_panicked = False\<rparr>"
| lock: "\<lbrakk>i < length ts; g_rest (ts ! i) = Lock # r; \<forall>g \<in> set ts. g_mode g = Free\<rbrakk> \<Longrightarrow>
    gstep ops \<lparr>ms_map = m, ms_threads = ts, ms_log = l, ms_panicked = False\<rparr>
      \<lparr>ms_map = m, ms_threads = ts[i := (ts ! i)\<lparr>g_rest := r, g_mode := Exclusive\<rparr>], ms_log = l @ [g_op (ts ! i)], ms_panicked = False\<rparr>"
| unlock: "\<lbrakk>i < length ts; g_rest (ts ! i) = c # r; c = RUnlock \<or> c = Unlock\<rbrakk> \<Longrightarrow>
    gstep ops \<lparr>ms_map = m, ms_threads = ts, ms_log = l, ms_panicked = False\<rparr>
      \<lparr>ms_map = m, ms_threads = ts[i := (ts ! i)\<lparr>g_rest := r, g_mode := Free\<rparr>], ms_log = l, ms_panicked = False\<rparr>"
| begin_read: "\<lbrakk>i < length ts; g_rest (ts ! i) = BeginRead # r\<rbrakk> \<Longrightarrow>
    gstep ops \<lparr>ms_map = m, ms_threads = ts, ms_log = l, ms_panicked = False\<rparr>
      \<lparr>ms_map = m, ms_threads = ts[i := (ts ! i)\<lparr>g_rest := r, g_access := Some Reading\<rparr>], ms_log = l, ms_panicked = False\<rparr>"
| end_read: "\<lbrakk>i < length ts; g_rest (ts ! i) = EndRead # r\<rbrakk> \<Longrightarrow>
    gstep ops \<lparr>ms_map = m, ms_threads = ts, ms_log = l, ms_panicked = False\<rparr>
      \<lparr>ms_map = m, ms_threads = ts[i := (ts ! i)\<lparr>g_rest := r, g_access := None\<rparr>], ms_log = l, ms_panicked = False\<rparr>"
| if_nil: "\<lbrakk>i < length ts; g_rest (ts ! i) = IfNil u w # r\<rbrakk> \<Longrightarrow>
    gstep ops \<lparr>ms_map = m, ms_threads = ts, ms_log = l, ms_panicked = False\<rparr>
      \<lparr>ms_map = m, ms_threads = ts[i := (ts ! i)\<lparr>g_rest :=
          (if Option.bind (fmlookup m u) id = None then BeginWrite w # EndWrite w # r else r)\<rparr>], ms_log = l, ms_panicked = False\<rparr>"
| begin_write: "\<lbrakk>i < length ts; g_rest (ts ! i) = BeginWrite w # r\<rbrakk> \<Longrightarrow>
    gstep ops \<lparr>ms_map = m, ms_threads = ts, ms_log = l, ms_panicked = False\<rparr>
      \<lparr>ms_map = m, ms_threads = ts[i := (ts ! i)\<lparr>g_rest := r, g_access := Some Writing\<rparr>], ms_log = l, ms_panicked = False\<rparr>"
| end_write: "\<lbrakk>i < length ts; g_rest (ts ! i) = EndWrite w # r; applyWrite w m = Some m'\<rbrakk> \<Longrightarrow>
    gstep ops \<lparr>ms_map = m, ms_threads = ts, ms_log = l, ms_panicked = False\<rparr>
      \<lparr>ms_map = m', ms_threads = ts[i := (ts ! i)\<lparr>g_rest := r, g_access := None\<rparr>], ms_log = l, ms_panicked = False\<rparr>"
| nil_write: "\<lbrakk>i < length ts; g_rest (ts ! i) = EndWrite w # r; applyWrite w m = None\<rbrakk> \<Longrightarrow>
    gstep ops \<lparr>ms_map = m, ms_threads = ts, ms_log = l, ms_panicked = False\<rparr>
      \<lparr>ms_map = m, ms_threads = ts, ms_log = l, ms_panicked = True\<rparr>"

definition races :: "memorySystem \<Rightarrow> bool" where
  "races s \<longleftrightarrow> (\<exists>i < length (ms_threads s). \<exists>j < length (ms_threads s). i \<noteq> j
     \<and> g_access (ms_threads s ! i) = Some Writing \<and> g_access (ms_threads s ! j) \<noteq> None)"

definition quiet :: "memorySystem \<Rightarrow> bool" where
  "quiet s \<longleftrightarrow> (\<forall>g \<in> set (ms_threads s). g_rest g = [])"


section \<open>The operations one after the other\<close>

fun sequential :: "failureOp \<Rightarrow> failedMap \<Rightarrow> failedMap" where
  "sequential (OpFilter u n) m = m"
| "sequential (OpPostFilter u) m = fmupd u None m"
| "sequential (OpUnreserve u n) m = fmupd u (Some (fmupd n True (nonnil (Option.bind (fmlookup m u) id)))) m"
| "sequential (OpPostBind u) m = fmdrop u m"

text \<open>They are the functions of the plugin.\<close>

lemma sequential_plugin:
  "failedNodeNamesByPodUID (fst (PostFilter pl p)) = sequential (OpPostFilter (UID p)) (failedNodeNamesByPodUID pl)"
  "failedNodeNamesByPodUID (Unreserve_proxy pl p n) = sequential (OpUnreserve (UID p) n) (failedNodeNamesByPodUID pl)"
  "PostBind pl p n h = (Ret pl', h') \<Longrightarrow>
     failedNodeNamesByPodUID pl' = sequential (OpPostBind (UID p)) (failedNodeNamesByPodUID pl)"
  by (auto simp: PostFilter_def Unreserve_proxy_def PostBind_def io_simps deleteOthers_calls Let_def
      split: option.splits)

text \<open>The rest of a critical section, run without interruption.\<close>

fun finish :: "micro list \<Rightarrow> failedMap \<Rightarrow> failedMap option" where
  "finish [] m = Some m"
| "finish (EndWrite w # r) m = Option.bind (applyWrite w m) (finish r)"
| "finish (IfNil u w # r) m =
     (if Option.bind (fmlookup m u) id = None then Option.bind (applyWrite w m) (finish r) else finish r m)"
| "finish (c # r) m = finish r m"

text \<open>Lists of steps that keep to the lock, by the mode and the access they are reached in.\<close>

primrec keeps :: "mode \<Rightarrow> access option \<Rightarrow> micro list \<Rightarrow> bool" where
  "keeps md a [] \<longleftrightarrow> md = Free \<and> a = None"
| "keeps md a (c # r) \<longleftrightarrow> (case c of
      RLock \<Rightarrow> md = Free \<and> a = None \<and> keeps Shared None r
    | Lock \<Rightarrow> md = Free \<and> a = None \<and> keeps Exclusive None r
    | RUnlock \<Rightarrow> md = Shared \<and> a = None \<and> r = []
    | Unlock \<Rightarrow> md = Exclusive \<and> a = None \<and> r = []
    | BeginRead \<Rightarrow> md \<noteq> Free \<and> a = None \<and> keeps md (Some Reading) r
    | EndRead \<Rightarrow> md \<noteq> Free \<and> a = Some Reading \<and> keeps md None r
    | IfNil u w \<Rightarrow> md = Exclusive \<and> a = None \<and> keeps md None r
    | BeginWrite w \<Rightarrow> md = Exclusive \<and> a = None \<and> keeps md (Some Writing) r
    | EndWrite w \<Rightarrow> md = Exclusive \<and> a = Some Writing \<and> keeps md None r)"

lemma steps_keep: "op \<notin> range OpPostFilter \<Longrightarrow> keeps Free None (steps_of op)"
  by (cases op) (auto simp: unreserved_steps_def Unreserve_steps_def PostBind_steps_def)

text \<open>What a waiting operation will do when it gets the lock.\<close>

lemma finish_steps: "finish (steps_of op) m = Some (sequential op m)"
  by (cases op) (auto simp: unreserved_steps_def PostFilter_steps_def Unreserve_steps_def PostBind_steps_def
      intro!: fmap_ext split: option.splits)


section \<open>Mutual exclusion and order\<close>

definition spec :: "failureOp list \<Rightarrow> failedMap" where
  "spec l = fold sequential l fmempty"

lemma spec_snoc [simp]: "spec (l @ [op]) = sequential op (spec l)"
  by (simp add: spec_def)

text \<open>Every goroutine keeps to the lock, a writer is alone, and the map is that of the operations so far.\<close>

definition keeping :: "goroutine \<Rightarrow> bool" where
  "keeping g \<longleftrightarrow> keeps (g_mode g) (g_access g) (g_rest g)
     \<and> (g_mode g = Free \<longrightarrow> g_rest g \<noteq> [] \<longrightarrow> g_rest g = steps_of (g_op g))"

definition exclusion :: "goroutine list \<Rightarrow> bool" where
  "exclusion ts \<longleftrightarrow> (\<forall>i < length ts. \<forall>j < length ts. i \<noteq> j \<longrightarrow> g_mode (ts ! i) = Exclusive \<longrightarrow> g_mode (ts ! j) = Free)"

definition mapped :: "goroutine list \<Rightarrow> failedMap \<Rightarrow> failureOp list \<Rightarrow> bool" where
  "mapped ts m l \<longleftrightarrow> (\<forall>g \<in> set ts. g_mode g = Exclusive \<longrightarrow> finish (g_rest g) m = Some (spec l))
     \<and> ((\<forall>g \<in> set ts. g_mode g \<noteq> Exclusive) \<longrightarrow> m = spec l)"

definition memory_inv :: "memorySystem \<Rightarrow> bool" where
  "memory_inv s \<longleftrightarrow> (\<forall>g \<in> set (ms_threads s). keeping g) \<and> exclusion (ms_threads s)
     \<and> mapped (ms_threads s) (ms_map s) (ms_log s) \<and> \<not> ms_panicked s"

text \<open>One goroutine changes: what has to be shown of it, and of the others.\<close>

lemma keeping_update: "\<lbrakk>\<forall>g \<in> set ts. keeping g; keeping g'\<rbrakk> \<Longrightarrow> \<forall>g \<in> set (ts[i := g']). keeping g"
  using set_update_subset_insert [of ts i g'] by blast

lemma exclusion_update:
  assumes "exclusion ts" "i < length ts"
    and "g_mode g' = Exclusive \<Longrightarrow> g_mode (ts ! i) \<noteq> Exclusive \<Longrightarrow> \<forall>g \<in> set ts. g_mode g = Free"
    and "g_mode g' \<noteq> Free \<Longrightarrow> g_mode (ts ! i) = Free \<Longrightarrow> \<forall>g \<in> set ts. g_mode g \<noteq> Exclusive"
  shows "exclusion (ts[i := g'])"
  unfolding exclusion_def
proof (intro allI impI)
  fix a b
  assume ab: "a < length (ts[i := g'])" "b < length (ts[i := g'])" "a \<noteq> b" "g_mode (ts[i := g'] ! a) = Exclusive"
  have *: "g_mode (ts ! x) = Exclusive \<Longrightarrow> x < length ts \<Longrightarrow> y < length ts \<Longrightarrow> x \<noteq> y \<Longrightarrow> g_mode (ts ! y) = Free" for x y
    using assms(1) unfolding exclusion_def by blast
  show "g_mode (ts[i := g'] ! b) = Free"
  proof (cases "a = i")
    case True
    then have "g_mode g' = Exclusive" "g_mode (ts[i := g'] ! b) = g_mode (ts ! b)" using ab assms(2) by simp_all
    then show ?thesis using assms(2,3) * [of i b] ab True by (cases "g_mode (ts ! i) = Exclusive") auto
  next
    case False
    then have a: "g_mode (ts ! a) = Exclusive" "a < length ts" using ab by simp_all
    show ?thesis
    proof (cases "b = i")
      case True
      then have "g_mode (ts ! i) = Free" using * [of a i] a assms(2) False by simp
      with assms(4) a True show ?thesis by (metis ab(2) length_list_update nth_list_update_eq nth_mem)
    next
      case neq: False
      with * [of a b] a ab show ?thesis by simp
    qed
  qed
qed

lemma mode_others:
  assumes "exclusion ts" "i < length ts" "g_mode (ts ! i) = Exclusive" "g \<in> set (ts[i := g'])" "g \<noteq> g'"
  shows "g_mode g = Free"
proof -
  from assms(4) obtain j where j: "j < length ts" "g = ts[i := g'] ! j" by (auto simp: in_set_conv_nth)
  with assms(2,5) have "j \<noteq> i" by auto
  with j have "g = ts ! j" by simp
  with \<open>j \<noteq> i\<close> j(1) show ?thesis
    using assms(1) [unfolded exclusion_def, rule_format, OF assms(2) j(1) _ assms(3)] by simp
qed

text \<open>A goroutine that holds the lock alone goes on, or lets go of it.\<close>

lemma mapped_exclusive:
  assumes "mapped ts m l" "exclusion ts" "i < length ts" "g_mode (ts ! i) = Exclusive"
    and "g_mode g' \<noteq> Shared" "finish (g_rest g') m' = finish (g_rest (ts ! i)) m" "g_mode g' = Free \<Longrightarrow> g_rest g' = []"
  shows "mapped (ts[i := g']) m' l"
proof -
  have now: "finish (g_rest g') m' = Some (spec l)" using assms(1,3,4,6) nth_mem [OF assms(3)] unfolding mapped_def by simp
  have in_set: "g' \<in> set (ts[i := g'])" using assms(3) by (simp add: set_update_memI)
  have "finish (g_rest g) m' = Some (spec l)" if "g \<in> set (ts[i := g'])" "g_mode g = Exclusive" for g
    using mode_others [OF assms(2-4) that(1)] that(2) now by (cases "g = g'") auto
  moreover have "m' = spec l" if "\<forall>g \<in> set (ts[i := g']). g_mode g \<noteq> Exclusive"
  proof -
    have "g_mode g' = Free" using that in_set assms(5) by (cases "g_mode g'") auto
    with now assms(7) show ?thesis by simp
  qed
  ultimately show ?thesis unfolding mapped_def by blast
qed

text \<open>A goroutine without the lock, or one that shares it, does not touch the map.\<close>

lemma mapped_other:
  assumes "mapped ts m l" "i < length ts" "g_mode (ts ! i) \<noteq> Exclusive" "g_mode g' \<noteq> Exclusive"
  shows "mapped (ts[i := g']) m l"
proof -
  have "finish (g_rest g) m = Some (spec l)" if "g \<in> set (ts[i := g'])" "g_mode g = Exclusive" for g
  proof -
    have "g \<in> set ts" using that assms(4) set_update_subset_insert [of ts i g'] by auto
    with assms(1) that(2) show ?thesis unfolding mapped_def by blast
  qed
  moreover have "m = spec l" if "\<forall>g \<in> set (ts[i := g']). g_mode g \<noteq> Exclusive"
  proof -
    have "g_mode g \<noteq> Exclusive" if g: "g \<in> set ts" for g
    proof -
      from g obtain j where "j < length ts" "g = ts ! j" by (auto simp: in_set_conv_nth)
      then show ?thesis
        using \<open>\<forall>g \<in> set (ts[i := g']). g_mode g \<noteq> Exclusive\<close> assms(3)
        by (cases "j = i") (auto, metis length_list_update nth_list_update_neq nth_mem)
    qed
    with assms(1) show ?thesis unfolding mapped_def by blast
  qed
  ultimately show ?thesis unfolding mapped_def by blast
qed

lemma memory_invI:
  assumes "memory_inv \<lparr>ms_map = m, ms_threads = ts, ms_log = l, ms_panicked = False\<rparr>" "keeping g'" "exclusion (ts[i := g'])" "mapped (ts[i := g']) m' l'"
  shows "memory_inv \<lparr>ms_map = m', ms_threads = ts[i := g'], ms_log = l', ms_panicked = False\<rparr>"
  using assms keeping_update [of ts g' i] by (simp add: memory_inv_def)

text \<open>A step that keeps the mode: it is one of the goroutine that writes, or it leaves the map as it is.\<close>

lemma memory_inv_same_mode:
  assumes "memory_inv \<lparr>ms_map = m, ms_threads = ts, ms_log = l, ms_panicked = False\<rparr>" "i < length ts" "keeping g'"
    and "g_mode g' = g_mode (ts ! i)"
    and "g_mode g' = Exclusive \<Longrightarrow> finish (g_rest g') m' = finish (g_rest (ts ! i)) m"
    and "g_mode g' \<noteq> Exclusive \<Longrightarrow> m' = m"
  shows "memory_inv \<lparr>ms_map = m', ms_threads = ts[i := g'], ms_log = l, ms_panicked = False\<rparr>"
proof (rule memory_invI [OF assms(1,3)])
  have ex: "exclusion ts" and mp: "mapped ts m l" using assms(1) by (simp_all add: memory_inv_def)
  show "exclusion (ts[i := g'])" using ex assms(2) by (rule exclusion_update) (simp_all add: assms(4))
  show "mapped (ts[i := g']) m' l"
  proof (cases "g_mode g' = Exclusive")
    case True
    then show ?thesis using assms(4,5) by (intro mapped_exclusive [OF mp ex assms(2)]) simp_all
  next
    case False
    then show ?thesis using assms(4,6) mapped_other [OF mp assms(2)] by simp
  qed
qed

lemma inv_keeping:
  assumes "memory_inv \<lparr>ms_map = m, ms_threads = ts, ms_log = l, ms_panicked = False\<rparr>" "i < length ts"
  shows "keeping (ts ! i)"
  using assms nth_mem [OF assms(2)] by (simp add: memory_inv_def)

lemma gstep_inv:
  assumes "gstep ops s s'" "memory_inv s" "ops \<inter> range OpPostFilter = {}"
  shows "memory_inv s'"
  using assms
proof (induction rule: gstep.induct)
  case (start i ts op m l)
  have k: "keeping (ts ! i)" using inv_keeping [OF start(4,1)] .
  then have free: "g_mode (ts ! i) = Free" "g_access (ts ! i) = None" using start(2) by (simp_all add: keeping_def)
  have "op \<notin> range OpPostFilter" using start(3,5) by blast
  then have "keeping ((ts ! i)\<lparr>g_op := op, g_rest := steps_of op\<rparr>)"
    using free by (simp add: keeping_def steps_keep)
  then show ?case using free by (intro memory_inv_same_mode [OF start(4,1)]) simp_all
next
  case (rlock i ts r m l)
  have k: "keeping (ts ! i)" using inv_keeping [OF rlock(4,1)] .
  then have free: "g_mode (ts ! i) = Free" "g_access (ts ! i) = None" "keeps Shared None r"
    "steps_of (g_op (ts ! i)) = RLock # r"
    using rlock(2) by (simp_all add: keeping_def)
  have op: "sequential (g_op (ts ! i)) m' = m'" for m'
    using free(4) by (cases "g_op (ts ! i)") (simp_all add: PostFilter_steps_def Unreserve_steps_def PostBind_steps_def)
  have ex: "exclusion ts" and mp: "mapped ts m l" using rlock(4) by (simp_all add: memory_inv_def)
  have "mapped ts m (l @ [g_op (ts ! i)])" using mp by (simp add: mapped_def op)
  then have "mapped (ts[i := (ts ! i)\<lparr>g_rest := r, g_mode := Shared\<rparr>]) m (l @ [g_op (ts ! i)])"
    using free rlock(1) by (intro mapped_other) simp_all
  moreover have "exclusion (ts[i := (ts ! i)\<lparr>g_rest := r, g_mode := Shared\<rparr>])"
    using ex rlock(1,3) by (intro exclusion_update) simp_all
  ultimately show ?case using free by (intro memory_invI [OF rlock(4)]) (simp_all add: keeping_def)
next
  case (lock i ts r m l)
  have k: "keeping (ts ! i)" using inv_keeping [OF lock(4,1)] .
  then have free: "g_mode (ts ! i) = Free" "g_access (ts ! i) = None" "keeps Exclusive None r"
    "steps_of (g_op (ts ! i)) = Lock # r"
    using lock(2) by (simp_all add: keeping_def)
  have ex: "exclusion ts" and mp: "mapped ts m l" using lock(4) by (simp_all add: memory_inv_def)
  let ?g = "(ts ! i)\<lparr>g_rest := r, g_mode := Exclusive\<rparr>"
  have m: "m = spec l" using mp lock(3) by (auto simp: mapped_def)
  have "finish r m = Some (sequential (g_op (ts ! i)) m)"
    using finish_steps [of "g_op (ts ! i)" m] by (simp add: free(4))
  then have run: "finish (g_rest ?g) m = Some (spec (l @ [g_op (ts ! i)]))" by (simp add: m)
  have "g = ?g" if "g \<in> set (ts[i := ?g])" "g_mode g = Exclusive" for g
    using that lock(3) set_update_subset_insert [of ts i ?g] by auto
  moreover have "?g \<in> set (ts[i := ?g])" "g_mode ?g = Exclusive" using lock(1) by (simp_all add: set_update_memI)
  ultimately have "mapped (ts[i := ?g]) m (l @ [g_op (ts ! i)])" using run unfolding mapped_def by metis
  moreover have "exclusion (ts[i := ?g])"
    using ex lock(1,3) by (intro exclusion_update) simp_all
  ultimately show ?case using free by (intro memory_invI [OF lock(4)]) (simp_all add: keeping_def)
next
  case (unlock i ts c r m l)
  have k: "keeping (ts ! i)" using inv_keeping [OF unlock(4,1)] .
  then have r: "r = []" "g_access (ts ! i) = None"
    using unlock(2,3) by (auto simp: keeping_def)
  have ex: "exclusion ts" and mp: "mapped ts m l" using unlock(4) by (simp_all add: memory_inv_def)
  let ?g = "(ts ! i)\<lparr>g_rest := r, g_mode := Free\<rparr>"
  have "mapped (ts[i := ?g]) m l"
  proof (cases "g_mode (ts ! i) = Exclusive")
    case True
    then show ?thesis using r unlock(2,3)
      by (intro mapped_exclusive [OF mp ex unlock(1)]) auto
  qed (use mapped_other [OF mp unlock(1), of ?g] in simp)
  moreover have "exclusion (ts[i := ?g])" using ex unlock(1) by (rule exclusion_update) simp_all
  ultimately show ?case using r by (intro memory_invI [OF unlock(4)]) (simp_all add: keeping_def)
next
  case (begin_read i ts r m l)
  then show ?case using inv_keeping [OF begin_read(3,1)]
    by (intro memory_inv_same_mode [OF begin_read(3,1)]) (auto simp: keeping_def)
next
  case (end_read i ts r m l)
  then show ?case using inv_keeping [OF end_read(3,1)]
    by (intro memory_inv_same_mode [OF end_read(3,1)]) (auto simp: keeping_def)
next
  case (if_nil i ts u w r m l)
  then show ?case using inv_keeping [OF if_nil(3,1)]
    by (intro memory_inv_same_mode [OF if_nil(3,1)]) (auto simp: keeping_def)
next
  case (begin_write i ts w r m l)
  then show ?case using inv_keeping [OF begin_write(3,1)]
    by (intro memory_inv_same_mode [OF begin_write(3,1)]) (auto simp: keeping_def)
next
  case (end_write i ts w r m m' l)
  then show ?case using inv_keeping [OF end_write(4,1)]
    by (intro memory_inv_same_mode [OF end_write(4,1)]) (auto simp: keeping_def)
next
  case (nil_write i ts w r m l)
  have "g_mode (ts ! i) = Exclusive" using inv_keeping [OF nil_write(4,1)] nil_write(2) by (simp add: keeping_def)
  then have "finish (EndWrite w # r) m = Some (spec l)"
    using nil_write(1,2,4) nth_mem [OF nil_write(1)] unfolding memory_inv_def mapped_def by fastforce
  then show ?case using nil_write(3) by simp
qed

lemma init_inv: "memory_inv (initMemory n)"
  by (auto simp: memory_inv_def initMemory_def keeping_def idle_def exclusion_def mapped_def spec_def)

lemma inv_no_race:
  assumes "memory_inv s"
  shows "\<not> races s"
proof
  assume "races s"
  then obtain i j where ij: "i < length (ms_threads s)" "j < length (ms_threads s)" "i \<noteq> j"
    "g_access (ms_threads s ! i) = Some Writing" "g_access (ms_threads s ! j) \<noteq> None"
    unfolding races_def by blast
  have k: "keeps (g_mode g) (g_access g) (g_rest g)" if "g \<in> set (ms_threads s)" for g
    using assms that by (simp add: memory_inv_def keeping_def)
  have "g_mode (ms_threads s ! i) = Exclusive"
    using k [OF nth_mem [OF ij(1)]] ij(4) by (cases "g_rest (ms_threads s ! i)") (auto split: micro.splits)
  then have "g_mode (ms_threads s ! j) = Free" using assms ij(1-3) by (auto simp: memory_inv_def exclusion_def)
  then show False
    using k [OF nth_mem [OF ij(2)]] ij(5) by (cases "g_rest (ms_threads s ! j)") (auto split: micro.splits)
qed

lemma inv_shared_reads:
  assumes "memory_inv s" "g \<in> set (ms_threads s)" "g_mode g = Shared"
  shows "ms_map s = spec (ms_log s)"
proof -
  have "g_mode x \<noteq> Exclusive" if x: "x \<in> set (ms_threads s)" for x
  proof
    assume ex: "g_mode x = Exclusive"
    from x assms(2) obtain i j where ij: "i < length (ms_threads s)" "x = ms_threads s ! i"
      "j < length (ms_threads s)" "g = ms_threads s ! j" by (auto simp: in_set_conv_nth)
    with ex assms(3) have "i \<noteq> j" by auto
    with ij ex have "g_mode g = Free" using assms(1) by (simp add: memory_inv_def exclusion_def)
    with assms(3) show False by simp
  qed
  then show ?thesis using assms(1) by (simp add: memory_inv_def mapped_def)
qed

lemma inv_quiet:
  assumes "memory_inv s" "quiet s"
  shows "ms_map s = spec (ms_log s)"
proof -
  have "g_mode g \<noteq> Exclusive" if "g \<in> set (ms_threads s)" for g
    using assms that unfolding memory_inv_def keeping_def quiet_def by fastforce
  then show ?thesis using assms(1) by (simp add: memory_inv_def mapped_def)
qed


section \<open>Properties\<close>

text \<open>
  Property C25.  The memory of failed nodes is safe for concurrent use by \<open>Filter\<close>, \<open>Unreserve\<close> and \<open>PostBind\<close>, which
  take its lock.  In any interleaving of any number of goroutines that run them, no two accesses race, no write
  meets a nil map, a goroutine that reads under the lock reads the memory that the operations before it left, in the order
  in which they took the lock, and once all goroutines are done the memory is the result of the operations
  one after the other in that order.
\<close>

theorem failure_memory_concurrent:
  assumes "ops \<inter> range OpPostFilter = {}" "(gstep ops)\<^sup>*\<^sup>* (initMemory n) s"
  shows "\<not> races s \<and> \<not> ms_panicked s
    \<and> (\<forall>g \<in> set (ms_threads s). g_mode g = Shared \<longrightarrow> ms_map s = fold sequential (ms_log s) fmempty)
    \<and> (quiet s \<longrightarrow> ms_map s = fold sequential (ms_log s) fmempty)"
proof -
  from assms(2) have "memory_inv s"
  proof (induction rule: rtranclp_induct)
    case base
    show ?case by (rule init_inv)
  next
    case (step s s')
    show ?case by (rule gstep_inv [OF step(2,3) assms(1)])
  qed
  moreover from this have "\<not> ms_panicked s" by (simp add: memory_inv_def)
  ultimately show ?thesis
    using inv_no_race [of s] inv_shared_reads [of s] inv_quiet [of s] unfolding spec_def by blast
qed

text \<open>Runs of given schedules, for the witnesses.\<close>

datatype move = Begin nat failureOp | Go nat

fun go :: "micro list \<Rightarrow> nat \<Rightarrow> memorySystem \<Rightarrow> memorySystem option" where
  "go [] i s = None"
| "go (c # r) i s =
     (let ts = ms_threads s; g = (ts ! i)\<lparr>g_rest := r\<rparr>; put = (\<lambda>g. s\<lparr>ms_threads := ts[i := g]\<rparr>) in
      case c of
        RLock \<Rightarrow> if list_all (\<lambda>g. g_mode g \<noteq> Exclusive) ts
                 then Some ((put (g\<lparr>g_mode := Shared\<rparr>))\<lparr>ms_log := ms_log s @ [g_op g]\<rparr>) else None
      | Lock \<Rightarrow> if list_all (\<lambda>g. g_mode g = Free) ts
                then Some ((put (g\<lparr>g_mode := Exclusive\<rparr>))\<lparr>ms_log := ms_log s @ [g_op g]\<rparr>) else None
      | RUnlock \<Rightarrow> Some (put (g\<lparr>g_mode := Free\<rparr>))
      | Unlock \<Rightarrow> Some (put (g\<lparr>g_mode := Free\<rparr>))
      | BeginRead \<Rightarrow> Some (put (g\<lparr>g_access := Some Reading\<rparr>))
      | EndRead \<Rightarrow> Some (put (g\<lparr>g_access := None\<rparr>))
      | IfNil u w \<Rightarrow> Some (put (g\<lparr>g_rest := (if Option.bind (fmlookup (ms_map s) u) id = None
                                             then BeginWrite w # EndWrite w # r else r)\<rparr>))
      | BeginWrite w \<Rightarrow> Some (put (g\<lparr>g_access := Some Writing\<rparr>))
      | EndWrite w \<Rightarrow> map_option (\<lambda>m. (put (g\<lparr>g_access := None\<rparr>))\<lparr>ms_map := m\<rparr>) (applyWrite w (ms_map s)))"

fun runMoves :: "move list \<Rightarrow> memorySystem \<Rightarrow> memorySystem option" where
  "runMoves [] s = Some s"
| "runMoves (Begin i op # mvs) s =
     (if i < length (ms_threads s) \<and> g_rest (ms_threads s ! i) = []
      then runMoves mvs (s\<lparr>ms_threads := (ms_threads s)[i := (ms_threads s ! i)\<lparr>g_op := op, g_rest := steps_of op\<rparr>]\<rparr>)
      else None)"
| "runMoves (Go i # mvs) s =
     (if i < length (ms_threads s)
      then (case go (g_rest (ms_threads s ! i)) i s of None \<Rightarrow> None | Some s' \<Rightarrow> runMoves mvs s')
      else None)"

lemma go_gstep:
  assumes "go (g_rest (ms_threads s ! i)) i s = Some s'" "i < length (ms_threads s)" "\<not> ms_panicked s"
  shows "gstep ops s s' \<and> \<not> ms_panicked s'"
proof -
  obtain m ts l where s: "s = \<lparr>ms_map = m, ms_threads = ts, ms_log = l, ms_panicked = False\<rparr>"
    using assms(3) by (cases s) simp
  with assms obtain c r where c: "g_rest (ts ! i) = c # r" by (cases "g_rest (ts ! i)") auto
  show ?thesis
  proof (cases c)
    case (IfNil u w)
    then show ?thesis using assms(1,2) c gstep.if_nil [of i ts u w r ops m l] unfolding s by (auto simp: Let_def)
  qed (use assms(1,2) c in \<open>auto simp: s list_all_iff Let_def split: if_splits intro: gstep.intros\<close>)
qed

lemma runMoves_gstep:
  assumes "runMoves mvs s = Some s'" "\<not> ms_panicked s" "\<And>i op. Begin i op \<in> set mvs \<Longrightarrow> op \<in> ops"
  shows "(gstep ops)\<^sup>*\<^sup>* s s'"
  using assms
proof (induction mvs arbitrary: s)
  case (Cons mv mvs)
  show ?case
  proof (cases mv)
    case (Begin i op)
    let ?s = "s\<lparr>ms_threads := (ms_threads s)[i := (ms_threads s ! i)\<lparr>g_op := op, g_rest := steps_of op\<rparr>]\<rparr>"
    have b: "i < length (ms_threads s)" "g_rest (ms_threads s ! i) = []" "runMoves mvs ?s = Some s'"
      using Cons.prems(1) Begin by (auto split: if_splits)
    have "gstep ops s ?s"
      using gstep.start [OF b(1,2), of op ops "ms_map s" "ms_log s"] Cons.prems(2) Cons.prems(3) [of i op] Begin
      by (cases s) simp
    moreover have "(gstep ops)\<^sup>*\<^sup>* ?s s'" using b(3) Cons.prems by (intro Cons.IH) auto
    ultimately show ?thesis by (rule converse_rtranclp_into_rtranclp)
  next
    case (Go i)
    then obtain t where t: "i < length (ms_threads s)" "go (g_rest (ms_threads s ! i)) i s = Some t" "runMoves mvs t = Some s'"
      using Cons.prems(1) by (auto split: if_splits option.splits)
    have step: "gstep ops s t" "\<not> ms_panicked t" using go_gstep [OF t(2,1) Cons.prems(2)] by blast+
    have "(gstep ops)\<^sup>*\<^sup>* t s'" using t(3) step(2) Cons.prems(3) by (intro Cons.IH) auto
    with step(1) show ?thesis by (rule converse_rtranclp_into_rtranclp)
  qed
qed simp

definition sampleSchedule :: "move list" where
  "sampleSchedule = [Begin 0 (OpUnreserve ''u1'' ''n1''), Begin 1 (OpUnreserve ''u1'' ''n2'')] @ replicate 11 (Go 0)
     @ [Begin 0 (OpFilter ''u1'' ''n1'')] @ replicate 9 (Go 1) @ replicate 4 (Go 0)"

theorem failure_memory_concurrent_witness:
  "\<exists>s. (gstep {OpUnreserve ''u1'' ''n1'', OpUnreserve ''u1'' ''n2'', OpFilter ''u1'' ''n1''})\<^sup>*\<^sup>* (initMemory 2) s
     \<and> \<not> races s \<and> \<not> ms_panicked s
     \<and> ms_map s = fmupd ''u1'' (Some (fmupd ''n2'' True (fmupd ''n1'' True fmempty))) fmempty"
proof -
  let ?ops = "{OpUnreserve ''u1'' ''n1'', OpUnreserve ''u1'' ''n2'', OpFilter ''u1'' ''n1''}"
  obtain s where run: "runMoves sampleSchedule (initMemory 2) = Some s" and q: "quiet s"
    and l: "ms_log s = [OpUnreserve ''u1'' ''n1'', OpUnreserve ''u1'' ''n2'', OpFilter ''u1'' ''n1'']"
    by (simp add: sampleSchedule_def initMemory_def idle_def quiet_def numeral_2_eq_2 eval_nat_numeral
        Unreserve_steps_def unreserved_steps_def Let_def)
  have reach: "(gstep ?ops)\<^sup>*\<^sup>* (initMemory 2) s"
    using run by (rule runMoves_gstep) (auto simp: initMemory_def sampleSchedule_def)
  have "?ops \<inter> range OpPostFilter = {}" by auto
  from failure_memory_concurrent [OF this reach] q
  have "\<not> races s" "\<not> ms_panicked s" "ms_map s = fold sequential (ms_log s) fmempty" by blast+
  moreover have "fold sequential (ms_log s) fmempty = fmupd ''u1'' (Some (fmupd ''n2'' True (fmupd ''n1'' True fmempty))) fmempty"
    by (simp add: l)
  ultimately have "\<not> races s \<and> \<not> ms_panicked s
      \<and> ms_map s = fmupd ''u1'' (Some (fmupd ''n2'' True (fmupd ''n1'' True fmempty))) fmempty"
    by simp
  with reach show ?thesis by blast
qed

text \<open>
  \<open>PostFilter\<close>, which does not take the lock, races with the binding cycle of any other pod: while it writes the map
  of one pod, \<open>Unreserve\<close> can read it for another.
\<close>

theorem PostFilter_races:
  "\<exists>s. (gstep {OpPostFilter u, OpUnreserve v n})\<^sup>*\<^sup>* (initMemory 2) s \<and> races s"
proof -
  obtain s where run: "runMoves [Begin 0 (OpPostFilter u), Begin 1 (OpUnreserve v n), Go 0, Go 1, Go 1] (initMemory 2) = Some s"
    and r: "g_access (ms_threads s ! 0) = Some Writing" "g_access (ms_threads s ! 1) = Some Reading" "length (ms_threads s) = 2"
    by (simp add: initMemory_def idle_def numeral_2_eq_2 PostFilter_steps_def Unreserve_steps_def Let_def)
  have "(gstep {OpPostFilter u, OpUnreserve v n})\<^sup>*\<^sup>* (initMemory 2) s"
    using run by (rule runMoves_gstep) (auto simp: initMemory_def)
  moreover have "races s" using r unfolding races_def by (intro exI [of _ 0] conjI exI [of _ 1]) simp_all
  ultimately show ?thesis by blast
qed

end
