(* ===== verification/Follow_Common.thy ===== *)
theory Follow_Common
  imports Pod_Models Agent_Config
begin

text \<open>
  What the follow controllers share (packages under \<open>pkg/controllers/follow\<close>): the API calls they
  make, the environment they run in, an abstract reconciler \<open>followSpec\<close> and, as the locale
  \<open>follower\<close>, the contract under which its safety holds.  The four controllers are written out in
  their own theories, shown to refine \<open>followSpec\<close>, and interpret the locale.
\<close>

section \<open>Calls and environment\<close>

datatype 'o followCall =
    LocalUpdate string 'o
  | RemoteCreate string 'o
  | RemoteUpdate string 'o
  | RemoteDelete string string

text \<open>
  The listers read informer caches.  The two clients answer from the history of the calls made;
  \<open>SplitKey\<close> is \<open>cache.SplitMetaNamespaceKey\<close>.
\<close>

record 'o followEnv =
  clusterName :: string
  fe_target :: agentTarget
  SplitKey :: "string \<Rightarrow> (string \<times> string) option"
  lister_Get :: "string \<Rightarrow> string \<Rightarrow> error + 'o"
  remoteLister_Get :: "string \<Rightarrow> string \<Rightarrow> error + 'o"
  client_Update :: "'o followCall list \<Rightarrow> string \<Rightarrow> 'o \<Rightarrow> error + 'o"
  remoteClient_Create :: "'o followCall list \<Rightarrow> string \<Rightarrow> 'o \<Rightarrow> error + 'o"
  remoteClient_Update :: "'o followCall list \<Rightarrow> string \<Rightarrow> 'o \<Rightarrow> error + 'o"
  remoteClient_Delete :: "'o followCall list \<Rightarrow> string \<Rightarrow> string \<Rightarrow> error + unit"

type_synonym ('o, 'a) followIO = "('o followCall, 'a) io"

definition updateLocal ::
  "('o, 'z) followEnv_scheme \<Rightarrow> string \<Rightarrow> 'o \<Rightarrow> ('o, 'o) followIO" where
  "updateLocal r ns obj =
     bindM (call (\<lambda>h. client_Update r h ns obj) (LocalUpdate ns obj)) tryM"

text \<open>\<open>Create\<close>, where an object that exists already is no error.\<close>

definition createRemote ::
  "('o, 'z) followEnv_scheme \<Rightarrow> string \<Rightarrow> 'o \<Rightarrow> ('o, unit) followIO" where
  "createRemote r ns gold =
     bindM (call (\<lambda>h. remoteClient_Create r h ns gold) (RemoteCreate ns gold)) (\<lambda>res.
       case res of Inl err \<Rightarrow> if \<not> IsAlreadyExists err then fail err else ret () | Inr _ \<Rightarrow> ret ())"

definition updateRemote ::
  "('o, 'z) followEnv_scheme \<Rightarrow> string \<Rightarrow> 'o \<Rightarrow> ('o, unit) followIO" where
  "updateRemote r ns obj =
     bindM (call (\<lambda>h. remoteClient_Update r h ns obj) (RemoteUpdate ns obj)) (\<lambda>res.
       case res of Inl err \<Rightarrow> fail err | Inr _ \<Rightarrow> ret ())"

text \<open>\<open>Delete\<close>, where an object that is gone already is no error; \<open>wrap\<close> is how the error is
  returned.\<close>

definition deleteRemote ::
  "('o, 'z) followEnv_scheme \<Rightarrow> (error \<Rightarrow> error) \<Rightarrow> string \<Rightarrow> string \<Rightarrow> ('o, unit) followIO" where
  "deleteRemote r wrap ns name =
     bindM (call (\<lambda>h. remoteClient_Delete r h ns name) (RemoteDelete ns name)) (\<lambda>res.
       case res of Inl err \<Rightarrow> if \<not> IsNotFound err then fail (wrap err) else ret () | Inr _ \<Rightarrow> ret ())"

text \<open>A lister's \<open>Get\<close> returns no object with its error.\<close>

definition getRemote ::
  "('o, 'z) followEnv_scheme \<Rightarrow> string \<Rightarrow> string \<Rightarrow> ('o, 'o option) followIO" where
  "getRemote r ns name =
     (case remoteLister_Get r ns name of
        Inl err \<Rightarrow> if \<not> IsNotFound err then fail err else ret None
      | Inr obj \<Rightarrow> ret (Some obj))"


section \<open>The abstract reconciler\<close>

text \<open>
  \<open>skip\<close>: objects that are delegates themselves.  \<open>decide\<close>: whether the object should follow, with
  what else the decision found.  \<open>prepare\<close>: what is written to the local object before the remote
  one is touched.  \<open>mk\<close>: the remote object.  \<open>change\<close>: the change of the remote object, if any.
\<close>

definition followSpec ::
  "('a objmeta_scheme \<Rightarrow> bool)
   \<Rightarrow> (string \<Rightarrow> string \<Rightarrow> 'a objmeta_scheme \<Rightarrow> ('a objmeta_scheme, 'd) followIO)
   \<Rightarrow> ('d \<Rightarrow> bool)
   \<Rightarrow> ('d \<Rightarrow> 'a objmeta_scheme \<Rightarrow> ('a objmeta_scheme, 'a objmeta_scheme) followIO)
   \<Rightarrow> ('a objmeta_scheme \<Rightarrow> 'a objmeta_scheme)
   \<Rightarrow> ('a objmeta_scheme \<Rightarrow> 'a objmeta_scheme \<Rightarrow> ('a objmeta_scheme, 'a objmeta_scheme option) followIO)
   \<Rightarrow> (error \<Rightarrow> error)
   \<Rightarrow> ('a objmeta_scheme, 'z) followEnv_scheme \<Rightarrow> string \<Rightarrow> ('a objmeta_scheme, nat option) followIO"
where
  "followSpec skip decide follows prepare mk change orphanErr r key =
     bindM (must (SplitKey r key)) (\<lambda>(namespace, name).
     bindM (getRemote r namespace name) (\<lambda>remote.
     case lister_Get r namespace name of
       Inl err \<Rightarrow>
         if IsNotFound err then
           (case remote of
              Some ro \<Rightarrow> if IsRemoteControlled ro (clusterName r)
                then bindM (deleteRemote r orphanErr namespace name) (\<lambda>_. ret None) else ret None
            | None \<Rightarrow> ret None)
         else fail err
     | Inr obj \<Rightarrow>
         if skip obj then ret None
         else bindM (decide namespace name obj) (\<lambda>d.
           case remote of
             Some ro \<Rightarrow>
               if \<not> ParentControlsChild ro obj then ret None
               else if DeletionTimestamp obj \<noteq> None
               then bindM (deleteRemote r id namespace name) (\<lambda>_. ret None)
               else if follows d
               then bindM (prepare d obj) (\<lambda>obj'.
                 bindM (change ro obj') (\<lambda>u. case u of
                     Some ro' \<Rightarrow> bindM (updateRemote r namespace ro') (\<lambda>_. ret None)
                   | None \<Rightarrow> ret None))
               else ret None
           | None \<Rightarrow>
               if DeletionTimestamp obj \<noteq> None
               then (if Finalizer (fe_target r) \<in> set (Finalizers obj)
                     then bindM (updateLocal r (Namespace obj)
                            (obj\<lparr>Finalizers := remove1 (Finalizer (fe_target r)) (Finalizers obj)\<rparr>)) (\<lambda>_. ret None)
                     else ret None)
               else if follows d
               then bindM (prepare d obj) (\<lambda>obj'.
                 bindM (createRemote r namespace (mk obj')) (\<lambda>_. ret None))
               else ret None)))"


section \<open>Lemmas on the calls\<close>

lemma emits_updateLocal [emits_intros]: "P (LocalUpdate ns obj) \<Longrightarrow> emits P (updateLocal r ns obj)"
  unfolding updateLocal_def by (intro emits_intros)

lemma emits_createRemote [emits_intros]: "P (RemoteCreate ns obj) \<Longrightarrow> emits P (createRemote r ns obj)"
  unfolding createRemote_def by (intro emits_intros)

lemma emits_updateRemote [emits_intros]: "P (RemoteUpdate ns obj) \<Longrightarrow> emits P (updateRemote r ns obj)"
  unfolding updateRemote_def by (intro emits_intros)

lemma emits_deleteRemote [emits_intros]: "P (RemoteDelete ns n) \<Longrightarrow> emits P (deleteRemote r w ns n)"
  unfolding deleteRemote_def by (intro emits_intros)

text \<open>Reading the cache of the target cluster, as one of three cases.\<close>

lemma getRemote_cases:
  obtains (found) ro where "remoteLister_Get r ns n = Inr ro" "getRemote r ns n = ret (Some ro)"
  | (gone) err where "remoteLister_Get r ns n = Inl err" "IsNotFound err" "getRemote r ns n = ret None"
  | (failed) err where "remoteLister_Get r ns n = Inl err" "\<not> IsNotFound err" "getRemote r ns n = fail err"
  by (cases "remoteLister_Get r ns n") (auto simp: getRemote_def)

lemma io_followCalls [io_simps]:
  "updateLocal r ns obj h = (case client_Update r h ns obj of Inl e \<Rightarrow> Fail e | Inr x \<Rightarrow> Ret x, h @ [LocalUpdate ns obj])"
  "createRemote r ns obj h = (case remoteClient_Create r h ns obj of
      Inl e \<Rightarrow> if IsAlreadyExists e then Ret () else Fail e | Inr x \<Rightarrow> Ret (), h @ [RemoteCreate ns obj])"
  "updateRemote r ns obj h = (case remoteClient_Update r h ns obj of Inl e \<Rightarrow> Fail e | Inr x \<Rightarrow> Ret (), h @ [RemoteUpdate ns obj])"
  "deleteRemote r w ns n h = (case remoteClient_Delete r h ns n of
      Inl e \<Rightarrow> if IsNotFound e then Ret () else Fail (w e) | Inr x \<Rightarrow> Ret (), h @ [RemoteDelete ns n])"
  by (auto simp: updateLocal_def createRemote_def updateRemote_def deleteRemote_def io_simps split: sum.splits)

text \<open>A loop that adds keys, and the keys of a namespace.\<close>

lemma set_foldl_keys:
  "(\<And>ks x. set (f ks x) = set ks \<union> {g n | n. R x n}) \<Longrightarrow>
     set (foldl f ks xs) = set ks \<union> {g n | n. \<exists>x\<in>set xs. R x n}"
  by (induction xs arbitrary: ks) auto

lemma namespaced_key_inject:
  "\<lbrakk>slash \<notin> set ns; slash \<notin> set ns'; ns @ ''/'' @ n = ns' @ ''/'' @ n'\<rbrakk> \<Longrightarrow> ns = ns' \<and> n = n'"
  by (induction ns arbitrary: ns') (auto simp: Cons_eq_append_conv)


section \<open>What a controller may do\<close>

text \<open>
  An object that was made for a local one says so: it has its name, its UID as the label that
  \<open>ParentControlsChild\<close> reads, the cluster, and the key by which an event on it finds the local one.
\<close>

definition madeFor :: "'a objmeta_scheme \<Rightarrow> 'b objmeta_scheme \<Rightarrow> string \<Rightarrow> bool" where
  "madeFor child parent cluster \<longleftrightarrow> Name child = Name parent
     \<and> mlookup (Labels child) LabelKeyParentUID = Some (UID parent) \<and> IsRemoteControlled child cluster
     \<and> mlookup (Annotations child) AnnotationKeyParentName = Some (Name parent)
     \<and> mlookup (Annotations child) AnnotationKeyParentNamespace = Some (Namespace parent)"

text \<open>
  \<open>ownedOnly\<close>: a remote object is deleted or updated only if the cache holds it and it belongs to
  the local object, which is terminating when it is deleted, or, when there is no local object, to
  this cluster; one is created only when none is known, and for the local object, as the cache has it or as
  the update that adds the finalizer returned it; and every object written to a cluster goes under the name
  that was asked for.
\<close>

definition ownedOnly ::
  "('a objmeta_scheme, 'z) followEnv_scheme \<Rightarrow> string \<Rightarrow> string \<Rightarrow> 'a objmeta_scheme followCall \<Rightarrow> bool" where
  "ownedOnly r ns name c \<longleftrightarrow>
     (case c of
        RemoteDelete ns' n' \<Rightarrow> ns' = ns \<and> n' = name
          \<and> (\<exists>ro. remoteLister_Get r ns name = Inr ro
             \<and> (case lister_Get r ns name of
                  Inr obj \<Rightarrow> ParentControlsChild ro obj \<and> DeletionTimestamp obj \<noteq> None
                | Inl err \<Rightarrow> IsNotFound err \<and> IsRemoteControlled ro (clusterName r)))
      | RemoteUpdate ns' ro' \<Rightarrow> ns' = ns
          \<and> (\<exists>ro obj. remoteLister_Get r ns name = Inr ro \<and> lister_Get r ns name = Inr obj
             \<and> ParentControlsChild ro obj \<and> ParentControlsChild ro' obj \<and> Name ro' = Name ro
             \<and> mget (Labels ro') LabelKeyParentClusterName = clusterName r
             \<and> DeletionTimestamp obj = None)
      | RemoteCreate ns' ro' \<Rightarrow> ns' = ns
          \<and> (\<exists>err obj. remoteLister_Get r ns name = Inl err \<and> IsNotFound err
             \<and> lister_Get r ns name = Inr obj \<and> DeletionTimestamp obj = None
             \<and> (madeFor ro' obj (clusterName r)
                \<or> (\<exists>h u obj'. client_Update r h (Namespace obj) u = Inr obj' \<and> Name u = Name obj
                    \<and> Finalizer (fe_target r) \<in> set (Finalizers u) \<and> madeFor ro' obj' (clusterName r))))
      | LocalUpdate ns' obj' \<Rightarrow>
          (\<exists>obj. lister_Get r ns name = Inr obj \<and> ns' = Namespace obj \<and> Name obj' = Name obj))"

text \<open>\<open>releasesOnlyGone\<close>: a local update either has the finalizer or takes it, and only it, off a
  terminating object whose remote object is gone.\<close>

definition releasesOnlyGone ::
  "('a objmeta_scheme, 'z) followEnv_scheme \<Rightarrow> string \<Rightarrow> string \<Rightarrow> 'a objmeta_scheme followCall \<Rightarrow> bool" where
  "releasesOnlyGone r ns name c \<longleftrightarrow>
     (case c of
        LocalUpdate ns' obj' \<Rightarrow>
          Finalizer (fe_target r) \<in> set (Finalizers obj')
          \<or> (\<exists>obj err. lister_Get r ns name = Inr obj \<and> DeletionTimestamp obj \<noteq> None
              \<and> remoteLister_Get r ns name = Inl err \<and> IsNotFound err
              \<and> obj' = obj\<lparr>Finalizers := remove1 (Finalizer (fe_target r)) (Finalizers obj)\<rparr>)
      | _ \<Rightarrow> True)"

text \<open>\<open>createdGuarded\<close>: in a history from the empty one, the remote object is created only after the
  finalizer is on the local object, either in the cache or by an update that succeeded.\<close>

definition createdGuarded ::
  "('a objmeta_scheme, 'z) followEnv_scheme \<Rightarrow> string \<Rightarrow> string \<Rightarrow> 'a objmeta_scheme followCall list \<Rightarrow> bool" where
  "createdGuarded r ns name h \<longleftrightarrow>
     (\<forall>a ns' gold b. h = a @ RemoteCreate ns' gold # b \<longrightarrow>
        (\<exists>obj. lister_Get r ns name = Inr obj
          \<and> (a = [] \<and> Finalizer (fe_target r) \<in> set (Finalizers obj)
             \<or> (\<exists>u obj'. a = [LocalUpdate (Namespace obj) u] \<and> Finalizer (fe_target r) \<in> set (Finalizers u)
                 \<and> client_Update r [] (Namespace obj) u = Inr obj'))))"

text \<open>\<open>labelledAs\<close>: an object as it is written carries the label by which objects with a finalizer are
  found, or has the labels it had and no further finalizer.\<close>

definition labelledAs :: "'a objmeta_scheme \<Rightarrow> 'a objmeta_scheme \<Rightarrow> bool" where
  "labelledAs u obj \<longleftrightarrow> mlookup (Labels u) LabelKeyHasFinalizer \<noteq> None
     \<or> Labels u = Labels obj \<and> set (Finalizers u) \<subseteq> set (Finalizers obj)"

lemma labelledAs_remove1 [simp]: "labelledAs (obj\<lparr>Finalizers := remove1 f (Finalizers obj)\<rparr>) obj"
  by (simp add: labelledAs_def set_remove1_subset)

definition labelsFinalizers ::
  "('a objmeta_scheme, 'z) followEnv_scheme \<Rightarrow> string \<Rightarrow> string \<Rightarrow> 'a objmeta_scheme followCall \<Rightarrow> bool" where
  "labelsFinalizers r ns name c \<longleftrightarrow>
     (case c of LocalUpdate _ u \<Rightarrow> \<exists>obj. lister_Get r ns name = Inr obj \<and> labelledAs u obj | _ \<Rightarrow> True)"


section \<open>The contract\<close>

locale follower =
  fixes handle :: "('a objmeta_scheme, 'z) followEnv_scheme \<Rightarrow> string \<Rightarrow> ('a objmeta_scheme, nat option) followIO"
    and skip :: "'a objmeta_scheme \<Rightarrow> bool"
    and decide :: "('a objmeta_scheme, 'z) followEnv_scheme \<Rightarrow> string \<Rightarrow> string \<Rightarrow> 'a objmeta_scheme
      \<Rightarrow> ('a objmeta_scheme, 'd) followIO"
    and follows :: "'d \<Rightarrow> bool"
    and prepare :: "('a objmeta_scheme, 'z) followEnv_scheme \<Rightarrow> 'd \<Rightarrow> 'a objmeta_scheme
      \<Rightarrow> ('a objmeta_scheme, 'a objmeta_scheme) followIO"
    and mk :: "('a objmeta_scheme, 'z) followEnv_scheme \<Rightarrow> 'a objmeta_scheme \<Rightarrow> 'a objmeta_scheme"
    and change :: "('a objmeta_scheme, 'z) followEnv_scheme \<Rightarrow> 'a objmeta_scheme \<Rightarrow> 'a objmeta_scheme
      \<Rightarrow> ('a objmeta_scheme, 'a objmeta_scheme option) followIO"
    and orphanErr :: "error \<Rightarrow> error"
  assumes refines:
      "handle r key = followSpec skip (decide r) follows (prepare r) (mk r) (change r) orphanErr r key"
    and decide_pure: "emits (\<lambda>_. False) (decide r ns n obj)"
    and prepare_emits: "emits (\<lambda>c. \<exists>u. c = LocalUpdate (Namespace obj) u \<and> Name u = Name obj
      \<and> Finalizer (fe_target r) \<in> set (Finalizers u) \<and> labelledAs u obj) (prepare r d obj)"
    and prepare_ret: "prepare r d obj h = (Ret obj', h') \<Longrightarrow>
      h' = h \<and> obj' = obj \<and> Finalizer (fe_target r) \<in> set (Finalizers obj)
      \<or> (\<exists>u. h' = h @ [LocalUpdate (Namespace obj) u] \<and> Name u = Name obj
          \<and> Finalizer (fe_target r) \<in> set (Finalizers u) \<and> client_Update r h (Namespace obj) u = Inr obj')"
    and change_pure: "emits (\<lambda>_. False) (change r ro obj)"
    and change_owned: "change r ro obj h = (Ret (Some ro'), h') \<Longrightarrow>
      Name ro' = Name ro \<and> mget (Labels ro') LabelKeyParentClusterName = clusterName r
      \<and> (\<forall>p :: 'a objmeta_scheme. ParentControlsChild ro p \<longrightarrow> ParentControlsChild ro' p)"
    and mk_made: "madeFor (mk r obj) obj (clusterName r)"
begin

text \<open>The handler on a key that splits, by what the two caches hold.\<close>

lemma handle_found:
  assumes "SplitKey r key = Some (ns, n)" "remoteLister_Get r ns n = Inr ro" "lister_Get r ns n = Inr obj"
    and "\<not> skip obj"
  shows "handle r key = bindM (decide r ns n obj) (\<lambda>d.
     if \<not> ParentControlsChild ro obj then ret None
     else if DeletionTimestamp obj \<noteq> None then bindM (deleteRemote r id ns n) (\<lambda>_. ret None)
     else if follows d
     then bindM (prepare r d obj) (\<lambda>obj'. bindM (change r ro obj') (\<lambda>u. case u of
         Some ro' \<Rightarrow> bindM (updateRemote r ns ro') (\<lambda>_. ret None) | None \<Rightarrow> ret None))
     else ret None)"
  using assms by (simp add: refines followSpec_def getRemote_def io_values)

lemma handle_gone:
  assumes "SplitKey r key = Some (ns, n)" "remoteLister_Get r ns n = Inl err" "IsNotFound err"
    and "lister_Get r ns n = Inr obj" "\<not> skip obj"
  shows "handle r key = bindM (decide r ns n obj) (\<lambda>d.
     if DeletionTimestamp obj \<noteq> None
     then (if Finalizer (fe_target r) \<in> set (Finalizers obj)
           then bindM (updateLocal r (Namespace obj)
                  (obj\<lparr>Finalizers := remove1 (Finalizer (fe_target r)) (Finalizers obj)\<rparr>)) (\<lambda>_. ret None)
           else ret None)
     else if follows d
     then bindM (prepare r d obj) (\<lambda>obj'. bindM (createRemote r ns (mk r obj')) (\<lambda>_. ret None))
     else ret None)"
  using assms by (simp add: refines followSpec_def getRemote_def io_values)

text \<open>In every other case the handler deletes an orphan or makes no call.\<close>

lemma handle_other:
  assumes "SplitKey r key = Some (ns, n)"
    and "\<not> (\<exists>obj. lister_Get r ns n = Inr obj \<and> \<not> skip obj)
       \<or> (\<exists>err. remoteLister_Get r ns n = Inl err \<and> \<not> IsNotFound err)"
  shows "emits (\<lambda>c. c = RemoteDelete ns n \<and> (\<exists>ro err. remoteLister_Get r ns n = Inr ro
      \<and> lister_Get r ns n = Inl err \<and> IsNotFound err \<and> IsRemoteControlled ro (clusterName r))) (handle r key)"
  using assms
  by (cases rule: getRemote_cases [of r ns n]; cases "lister_Get r ns n")
    (auto simp: refines followSpec_def io_values intro!: emits_intros)

lemma handle_cases [consumes 1, case_names found gone other]:
  assumes "SplitKey r key = Some (ns, n)"
  obtains (found) ro obj where "remoteLister_Get r ns n = Inr ro" "lister_Get r ns n = Inr obj" "\<not> skip obj"
  | (gone) err obj where "remoteLister_Get r ns n = Inl err" "IsNotFound err"
      "lister_Get r ns n = Inr obj" "\<not> skip obj"
  | (other) "emits (\<lambda>c. c = RemoteDelete ns n \<and> (\<exists>ro err. remoteLister_Get r ns n = Inr ro
      \<and> lister_Get r ns n = Inl err \<and> IsNotFound err \<and> IsRemoteControlled ro (clusterName r))) (handle r key)"
proof (cases "\<exists>obj. lister_Get r ns n = Inr obj \<and> \<not> skip obj")
  case True
  then obtain obj where obj: "lister_Get r ns n = Inr obj" "\<not> skip obj" by blast
  then show ?thesis
    using that(1) [OF _ obj] that(2) [OF _ _ obj] that(3) [OF handle_other [OF assms]]
    by (cases "remoteLister_Get r ns n") blast+
qed (use that(3) [OF handle_other [OF assms]] in blast)

lemma handle_owned:
  assumes key: "SplitKey r key = Some (ns, n)"
  shows "emits (ownedOnly r ns n) (handle r key)"
  using key
proof (cases rule: handle_cases)
  case (found ro obj)
  have "emits (ownedOnly r ns n) (updateRemote r ns ro')"
    if "change r ro obj' h = (Ret (Some ro'), h')" "ParentControlsChild ro obj" "DeletionTimestamp obj = None"
    for ro' obj' h h'
    using change_owned [OF that(1)] that(2,3) found by (intro emits_intros) (simp add: ownedOnly_def)
  then show ?thesis
    unfolding handle_found [OF key found]
    by (intro emits_bindM_ret [OF emits_none_any] emits_bindM emits_if decide_pure change_pure emits_option
        emits_mono [OF prepare_emits] emits_deleteRemote emits_ret)
      (use found in \<open>auto simp: ownedOnly_def\<close>)
next
  case (gone err obj)
  have "emits (ownedOnly r ns n) (createRemote r ns (mk r obj'))"
    if p: "prepare r d obj h = (Ret obj', h')" and "DeletionTimestamp obj = None" for d obj' h h'
  proof -
    have "obj' = obj \<or> (\<exists>u. client_Update r h (Namespace obj) u = Inr obj' \<and> Name u = Name obj
        \<and> Finalizer (fe_target r) \<in> set (Finalizers u))"
      using prepare_ret [OF p] by blast
    then have "madeFor (mk r obj') obj (clusterName r)
        \<or> (\<exists>h u obj'a. client_Update r h (Namespace obj) u = Inr obj'a \<and> Name u = Name obj
            \<and> Finalizer (fe_target r) \<in> set (Finalizers u) \<and> madeFor (mk r obj') obj'a (clusterName r))"
      using mk_made by blast
    with that(2) gone show ?thesis by (intro emits_intros) (simp add: ownedOnly_def)
  qed
  then show ?thesis
    unfolding handle_gone [OF key gone]
    by (intro emits_bindM emits_bindM_ret [OF emits_mono [OF prepare_emits]] emits_none_any [OF decide_pure] emits_if
        emits_updateLocal emits_ret)
      (use gone in \<open>auto simp: ownedOnly_def\<close>)
next
  case other
  then show ?thesis by (rule emits_mono) (auto simp: ownedOnly_def)
qed

lemma handle_releases:
  assumes key: "SplitKey r key = Some (ns, n)"
  shows "emits (releasesOnlyGone r ns n) (handle r key)"
  using key
proof (cases rule: handle_cases)
  case (found ro obj)
  then show ?thesis
    unfolding handle_found [OF key found]
    by (intro emits_bindM emits_none_any [OF decide_pure] emits_none_any [OF change_pure] emits_if
        emits_option emits_mono [OF prepare_emits] emits_updateRemote emits_deleteRemote emits_ret)
      (auto simp: releasesOnlyGone_def)
next
  case (gone err obj)
  then show ?thesis
    unfolding handle_gone [OF key gone]
    by (intro emits_bindM emits_none_any [OF decide_pure] emits_if emits_mono [OF prepare_emits]
        emits_createRemote emits_updateLocal emits_ret)
      (auto simp: releasesOnlyGone_def)
next
  case other
  then show ?thesis by (rule emits_mono) (auto simp: releasesOnlyGone_def)
qed

lemma handle_labels:
  assumes key: "SplitKey r key = Some (ns, n)"
  shows "emits (labelsFinalizers r ns n) (handle r key)"
  using key
proof (cases rule: handle_cases)
  case (found ro obj)
  then show ?thesis
    unfolding handle_found [OF key found]
    by (intro emits_bindM emits_none_any [OF decide_pure] emits_none_any [OF change_pure] emits_if
        emits_option emits_mono [OF prepare_emits] emits_updateRemote emits_deleteRemote emits_ret)
      (auto simp: labelsFinalizers_def)
next
  case (gone err obj)
  then show ?thesis
    unfolding handle_gone [OF key gone]
    by (intro emits_bindM emits_none_any [OF decide_pure] emits_if emits_mono [OF prepare_emits]
        emits_createRemote emits_updateLocal emits_ret)
      (auto simp: labelsFinalizers_def)
next
  case other
  then show ?thesis by (rule emits_mono) (auto simp: labelsFinalizers_def)
qed

lemma createdGuarded_none: "list_all (\<lambda>c. \<nexists>ns' gold. c = RemoteCreate ns' gold) h \<Longrightarrow> createdGuarded r ns n h"
  by (auto simp: createdGuarded_def)

lemma createdGuarded_emits:
  "emits (\<lambda>c. \<nexists>ns' gold. c = RemoteCreate ns' gold) m \<Longrightarrow> createdGuarded r ns n (snd (m []))"
  unfolding emits_def by (metis append_Nil createdGuarded_none)

lemma handle_guarded:
  assumes key: "SplitKey r key = Some (ns, n)"
  shows "createdGuarded r ns n (snd (handle r key []))"
  using key
proof (cases rule: handle_cases)
  case (found ro obj)
  then show ?thesis
    unfolding handle_found [OF key found]
    by (intro createdGuarded_emits emits_bindM emits_none_any [OF decide_pure]
        emits_none_any [OF change_pure] emits_if emits_option emits_mono [OF prepare_emits]
        emits_updateRemote emits_deleteRemote emits_ret) auto
next
  case (gone err obj)
  obtain dr where d: "decide r ns n obj [] = (dr, [])"
    using emits_none [OF decide_pure, of r ns n obj "[]"] by (metis prod.collapse)
  have "createdGuarded r ns n (snd (bindM (prepare r x obj)
      (\<lambda>obj'. bindM (createRemote r ns (mk r obj')) (\<lambda>_. ret None)) []))" for x
  proof -
    obtain pr h1 where p: "prepare r x obj [] = (pr, h1)" by fastforce
    have h1: "list_all (\<lambda>c. \<nexists>ns' gold. c = RemoteCreate ns' gold) h1"
      using prepare_emits [of obj r x] p unfolding emits_def list_all_iff
      by (metis append_Nil followCall.distinct(1) snd_conv)
    show ?thesis
    proof (cases pr)
      case (Ret obj')
      have "createdGuarded r ns n (h1 @ [RemoteCreate ns (mk r obj')])"
        using prepare_ret [OF p [unfolded Ret]] gone
        by (auto simp: createdGuarded_def Cons_eq_append_conv)
      with p Ret show ?thesis by (auto simp: io_simps split: sum.splits prod.splits)
    qed (use h1 p in \<open>auto simp: io_simps intro: createdGuarded_none\<close>)
  qed
  with d show ?thesis
    by (cases dr) (auto simp: handle_gone [OF key gone] bindM_apply [of "decide r ns n obj"] io_apply
        bindM_apply [of "updateLocal r m u" for m u] io_followCalls createdGuarded_none split: sum.splits)
next
  case other
  then show ?thesis by (intro createdGuarded_emits) (erule emits_mono, auto)
qed

text \<open>An object of the same name that belongs to someone else stops the handler.\<close>

lemma handle_unowned:
  assumes "SplitKey r key = Some (ns, n)" "remoteLister_Get r ns n = Inr ro" "lister_Get r ns n = Inr obj"
    and "\<not> ParentControlsChild ro obj"
  shows "emits (\<lambda>_. False) (handle r key)"
proof (cases "skip obj")
  case False
  with assms show ?thesis
    by (simp add: handle_found) (intro emits_bindM decide_pure emits_ret)
qed (use assms in \<open>simp add: refines followSpec_def getRemote_def io_values emits_ret\<close>)

text \<open>The guarantees together, for every key.\<close>

lemma handle_nosplit: "SplitKey r key = None \<Longrightarrow> handle r key = panic"
  by (simp add: refines followSpec_def io_values)

lemma handle_guarantees:
  "case SplitKey r key of
     None \<Rightarrow> handle r key = panic
   | Some (ns, n) \<Rightarrow> emits (ownedOnly r ns n) (handle r key)"
  "case SplitKey r key of
     None \<Rightarrow> handle r key = panic
   | Some (ns, n) \<Rightarrow> emits (releasesOnlyGone r ns n) (handle r key)"
  "case SplitKey r key of
     None \<Rightarrow> handle r key = panic
   | Some (ns, n) \<Rightarrow> createdGuarded r ns n (snd (handle r key []))"
  "case SplitKey r key of
     None \<Rightarrow> handle r key = panic
   | Some (ns, n) \<Rightarrow> emits (labelsFinalizers r ns n) (handle r key)"
  using handle_nosplit handle_owned handle_releases handle_guarded handle_labels
  by (auto split: option.splits)

text \<open>The remote object goes before the finalizer, in two runs.\<close>

lemma handle_terminating:
  assumes "SplitKey r key = Some (ns, n)" "lister_Get r ns n = Inr obj" "\<not> skip obj"
    and "DeletionTimestamp obj \<noteq> None" and "decide r ns n obj [] = (Ret d, [])"
  shows "remoteLister_Get r ns n = Inr ro \<Longrightarrow> ParentControlsChild ro obj \<Longrightarrow>
      snd (handle r key []) = [RemoteDelete ns n]"
    and "remoteLister_Get r ns n = Inl err \<Longrightarrow> IsNotFound err \<Longrightarrow>
      snd (handle r key []) =
        (if Finalizer (fe_target r) \<in> set (Finalizers obj)
         then [LocalUpdate (Namespace obj) (obj\<lparr>Finalizers := remove1 (Finalizer (fe_target r)) (Finalizers obj)\<rparr>)]
         else [])"
  using assms
  by (auto simp: handle_found handle_gone bindM_apply io_apply io_followCalls split: sum.splits prod.splits)

end


section \<open>Convergence\<close>

text \<open>
  What the API server keeps of a written object: the labels, annotations and content, where an
  empty map and \<open>nil\<close> are one (both are left out of the wire format), so an object read from the
  server has no empty map.
\<close>

definition sameEntries :: "('k, 'v) gomap \<Rightarrow> ('k, 'v) gomap \<Rightarrow> bool" where
  "sameEntries m m' \<longleftrightarrow> nonnil m = nonnil m'"

definition wireMap :: "('k, 'v) gomap \<Rightarrow> bool" where
  "wireMap m \<longleftrightarrow> m \<noteq> Some fmempty"

lemma wireMap_eq: "\<lbrakk>sameEntries m m'; wireMap m; wireMap m'\<rbrakk> \<Longrightarrow> m = m'"
  by (cases m; cases m') (auto simp: sameEntries_def wireMap_def)

lemma sameEntries_mlookup: "sameEntries m m' \<Longrightarrow> mlookup m k = mlookup m' k"
  unfolding sameEntries_def by (metis fmlookup_nonnil)

lemma sameEntries_mget: "sameEntries m m' \<Longrightarrow> mget m k = mget m' k"
  by (simp add: mget_def sameEntries_mlookup)

lemma copyInto_empty [simp]: "copyInto fmempty m = nonnil m"
  by (rule fmap_ext) (simp add: copyInto_def)

lemma stored_copy:
  "\<lbrakk>sameEntries (Some (nonnil m)) m'; wireMap m; wireMap m'\<rbrakk> \<Longrightarrow> m' = m"
  by (rule wireMap_eq) (auto simp: sameEntries_def)

text \<open>Writing the parent's cluster name, as every follow controller does, keeps the parent.\<close>

lemma ParentControlsChild_cluster [simp]:
  assumes "Labels ro' = Some (fmupd LabelKeyParentClusterName cl f)" "Labels ro = Some f"
    and "Annotations ro' = Annotations ro"
  shows "ParentControlsChild ro' p = ParentControlsChild ro p"
  using assms by (simp add: ParentControlsChild_def key_simps)

lemma ParentControlsChild_same:
  assumes "sameEntries (Labels w) (Labels ro)" "sameEntries (Annotations w) (Annotations ro)"
  shows "ParentControlsChild ro p = ParentControlsChild w p"
  using assms by (simp add: ParentControlsChild_def sameEntries_mget [of "Labels w"] sameEntries_mget [of "Annotations w"])

text \<open>A follower that knows when the remote object is as it should be: \<open>synced\<close>; \<open>stored\<close> relates
  a written object to what is read back.\<close>

locale syncing = follower +
  fixes stored :: "'a objmeta_scheme \<Rightarrow> 'a objmeta_scheme \<Rightarrow> bool"
    and valid :: "'a objmeta_scheme \<Rightarrow> bool"
    and synced :: "('a objmeta_scheme, 'z) followEnv_scheme \<Rightarrow> 'a objmeta_scheme \<Rightarrow> 'a objmeta_scheme \<Rightarrow> bool"
  assumes change_synced: "synced r ro obj \<Longrightarrow> change r ro obj = ret None"
    and change_None: "change r ro obj h = (Ret None, h') \<Longrightarrow> synced r ro obj"
    and change_syncs: "\<lbrakk>change r ro obj h = (Ret (Some ro'), h'); stored ro' ro''; valid ro''; valid obj;
        ParentControlsChild ro obj\<rbrakk> \<Longrightarrow> synced r ro'' obj \<and> ParentControlsChild ro'' obj"
    and mk_syncs: "\<lbrakk>stored (mk r obj) ro''; valid ro''; valid obj\<rbrakk> \<Longrightarrow>
        synced r ro'' obj \<and> ParentControlsChild ro'' obj"
    and prepare_has: "Finalizer (fe_target r) \<in> set (Finalizers obj) \<Longrightarrow> prepare r d obj = ret obj"
    and synced_local: "synced (r\<lparr>remoteLister_Get := g\<rparr>) = synced r"
begin

text \<open>Once the remote object is synced, a run makes no call.\<close>

lemma handle_synced:
  assumes "SplitKey r key = Some (ns, n)" "remoteLister_Get r ns n = Inr ro" "lister_Get r ns n = Inr obj"
    and "DeletionTimestamp obj = None" "Finalizer (fe_target r) \<in> set (Finalizers obj)"
    and "synced r ro obj"
  shows "emits (\<lambda>_. False) (handle r key)"
proof (cases "skip obj")
  case False
  have "handle r key = bindM (decide r ns n obj) (\<lambda>d. ret None)"
    unfolding handle_found [OF assms(1,2,3) False]
    using assms by (simp add: prepare_has change_synced cong: if_cong)
  then show ?thesis by (simp add: emits_bindM decide_pure emits_ret)
qed (use assms in \<open>simp add: refines followSpec_def getRemote_def io_values emits_ret\<close>)

text \<open>The object a run writes to the target cluster is, once read back, synced: the next run with
  the same local object makes no call.\<close>

lemma handle_rerun:
  assumes "SplitKey r key = Some (ns, n)" "lister_Get r ns n = Inr obj" "valid obj"
    and "DeletionTimestamp obj = None" "Finalizer (fe_target r) \<in> set (Finalizers obj)"
    and w: "RemoteCreate ns w \<in> set (snd (handle r key [])) \<or> RemoteUpdate ns w \<in> set (snd (handle r key []))"
    and "stored w ro''" "valid ro''"
  shows "emits (\<lambda>_. False) (handle (r\<lparr>remoteLister_Get := (\<lambda>_ _. Inr ro'')\<rparr>) key)"
proof -
  have "synced r ro'' obj \<and> ParentControlsChild ro'' obj"
    using assms(1)
  proof (cases rule: handle_cases)
    case (found ro obj')
    with assms(2) have obj: "obj' = obj" by simp
    obtain dr where d: "decide r ns n obj [] = (dr, [])"
      using emits_none [OF decide_pure, of r ns n obj "[]"] by (metis prod.collapse)
    obtain cr where c: "change r ro obj [] = (cr, [])"
      using emits_none [OF change_pure, of r ro obj "[]"] by (metis prod.collapse)
    have "ParentControlsChild ro obj" "cr = Ret (Some w)"
      using w d c assms(4,5) found handle_found [OF assms(1) found]
      by (auto simp: obj prepare_has bindM_apply io_apply io_followCalls
          split: outcome.splits if_splits option.splits prod.splits sum.splits)
    with c change_syncs assms(3,7,8) show ?thesis by blast
  next
    case (gone err obj')
    with assms(2) have obj: "obj' = obj" by simp
    obtain dr where d: "decide r ns n obj [] = (dr, [])"
      using emits_none [OF decide_pure, of r ns n obj "[]"] by (metis prod.collapse)
    have "w = mk r obj"
      using w d assms(4,5) gone handle_gone [OF assms(1) gone]
      by (auto simp: obj prepare_has bindM_apply io_apply io_followCalls
          split: outcome.splits if_splits option.splits prod.splits sum.splits)
    with mk_syncs assms(3,7,8) show ?thesis by blast
  next
    case other
    then show ?thesis using w unfolding emits_def list_all_iff
      by (metis append_Nil followCall.distinct(9,11))
  qed
  then show ?thesis
    by (intro handle_synced [of _ key ns n ro'' obj]) (use assms in \<open>auto simp: synced_local\<close>)
qed

end

end
