(* ===== verification/Follow_ConfigMap.thy ===== *)
theory Follow_ConfigMap
  imports Follow_Common
begin

text \<open>
  The controller that makes config maps follow the proxy pods that use them
  (\<open>pkg/controllers/follow/cm.go\<close>): the index of proxy pods by config map, the event handlers and
  the reconciler, which interprets the contracts of \<open>Follow_Common\<close>.
\<close>

section \<open>Index and events\<close>

text \<open>
  \<open>ByIndex\<close> of a shared informer fails only when there is no index of that name; the constructor adds the index to
  the informer before the reconciler that looks it up can run, so that the lookup is a function of the key.
\<close>

record configMapReconciler = "configMap followEnv" +
  podsByConfigMap :: "string \<Rightarrow> pod list"

definition indexContainerByConfigMap :: "container \<Rightarrow> string list \<Rightarrow> pod \<Rightarrow> string list" where
  "indexContainerByConfigMap c keys p =
     (let keys = foldl (\<lambda>keys envVar.
            case ValueFrom envVar of
              None \<Rightarrow> keys
            | Some from \<Rightarrow> (case ConfigMapKeyRef from of None \<Rightarrow> keys | Some cm \<Rightarrow> keys @ [Namespace p @ ''/'' @ cm]))
          keys (Env c)
      in foldl (\<lambda>keys src. case ConfigMapRef src of None \<Rightarrow> keys | Some cm \<Rightarrow> keys @ [Namespace p @ ''/'' @ cm])
           keys (EnvFrom c))"

definition indexProxyPodByConfigMaps :: "pod \<Rightarrow> string list" where
  "indexProxyPodByConfigMaps p =
     (if \<not> IsProxy p then []
      else
        let keys = foldl (\<lambda>keys vol.
              let keys = (case vol_ConfigMap vol of None \<Rightarrow> keys | Some cm \<Rightarrow> keys @ [Namespace p @ ''/'' @ cm])
              in case vol_Projected vol of
                   None \<Rightarrow> keys
                 | Some sources \<Rightarrow> foldl (\<lambda>keys src. case proj_ConfigMap src of
                       None \<Rightarrow> keys | Some cm \<Rightarrow> keys @ [Namespace p @ ''/'' @ cm]) keys sources)
              [] (Volumes (pod_Spec p));
            keys = foldl (\<lambda>keys c. indexContainerByConfigMap c keys p) keys (Containers (pod_Spec p))
        in foldl (\<lambda>keys c. indexContainerByConfigMap c keys p) keys (InitContainers (pod_Spec p)))"

fun enqueueKeys :: "'k list \<Rightarrow> ('k wq_call, unit) io" where
  "enqueueKeys [] = ret ()"
| "enqueueKeys (key # keys) = bindM (EnqueueKey key) (\<lambda>_. enqueueKeys keys)"

definition enqueueProxyPodsConfigMaps :: "pod \<Rightarrow> (string wq_call, unit) io" where
  "enqueueProxyPodsConfigMaps p = enqueueKeys (indexProxyPodByConfigMaps p)"

text \<open>The events the controller listens to: config maps here and in the target cluster, and pods.\<close>

datatype configMapEvent =
    ConfigMapEvent "configMap notification"
  | RemoteConfigMapEvent "configMap notification"
  | ConfigMapPodEvent "pod notification"

fun NewConfigMapController ::
  "(configMap \<Rightarrow> error + string) \<Rightarrow> string \<Rightarrow> configMapEvent \<Rightarrow> (string wq_call, unit) io" where
  "NewConfigMapController keyFunc cluster (ConfigMapEvent n) = HandleAddUpdateWith (EnqueueObject keyFunc) n"
| "NewConfigMapController keyFunc cluster (RemoteConfigMapEvent n) = HandleAllWith (EnqueueRemoteController cluster) n"
| "NewConfigMapController keyFunc cluster (ConfigMapPodEvent n) = HandleAllWith enqueueProxyPodsConfigMaps n"


section \<open>The reconciler\<close>

definition shouldFollow_configMap :: "configMapReconciler \<Rightarrow> string \<Rightarrow> string \<Rightarrow> bool" where
  "shouldFollow_configMap r namespace name \<longleftrightarrow>
     list_ex (\<lambda>proxyPod. GetScheduledClusterName proxyPod = VirtualNodeName (fe_target r))
       (podsByConfigMap r (namespace @ ''/'' @ name))"

definition addFinalizer_configMap :: "configMapReconciler \<Rightarrow> configMap \<Rightarrow> (configMap, configMap) followIO" where
  "addFinalizer_configMap r cm =
     updateLocal r (Namespace cm)
       (cm\<lparr>Finalizers := Finalizers cm @ [Finalizer (fe_target r)],
           Labels := Some (fmupd LabelKeyHasFinalizer ''true'' (nonnil (Labels cm)))\<rparr>)"

definition removeFinalizer_configMap ::
  "configMapReconciler \<Rightarrow> configMap \<Rightarrow> int \<Rightarrow> (configMap, configMap) followIO" where
  "removeFinalizer_configMap r cm j =
     bindM (must (removeAt j (Finalizers cm))) (\<lambda>fs. updateLocal r (Namespace cm) (cm\<lparr>Finalizers := fs\<rparr>))"

definition makeRemoteConfigMap :: "configMapReconciler \<Rightarrow> configMap \<Rightarrow> configMap" where
  "makeRemoteConfigMap r cm =
     (let gold = zero_configMap
        \<lparr>Name := Name cm,
         Labels := Some (copyInto fmempty (Labels cm)),
         Annotations := Some (copyInto fmempty (Annotations cm))\<rparr>;
          gold = AddRemoteControllerReference gold cm (clusterName r)
      in gold\<lparr>cm_Data := Some (copyInto fmempty (cm_Data cm)),
              cm_BinaryData := Some (copyInto fmempty (cm_BinaryData cm))\<rparr>)"

definition Handle_configMap :: "configMapReconciler \<Rightarrow> string \<Rightarrow> (configMap, nat option) followIO" where
  "Handle_configMap r key =
     bindM (must (SplitKey r key)) (\<lambda>(namespace, name).
     bindM (getRemote r namespace name) (\<lambda>remoteConfigMap.
     case lister_Get r namespace name of
       Inl err \<Rightarrow>
         if IsNotFound err then
           (case remoteConfigMap of
              None \<Rightarrow> ret None
            | Some rc \<Rightarrow>
                if IsRemoteControlled rc (clusterName r)
                then bindM (deleteRemote r (\<lambda>err. Errorf (''cannot delete orphaned configmap: '' @ Error err))
                       namespace name) (\<lambda>_. ret None)
                else ret None)
         else fail err
     | Inr cm \<Rightarrow>
         let terminating = (DeletionTimestamp cm \<noteq> None);
             (hasFinalizer, j) = HasFinalizer (Finalizers cm) (Finalizer (fe_target r));
             shouldFollow = shouldFollow_configMap r namespace name
         in if (case remoteConfigMap of None \<Rightarrow> False | Some rc \<Rightarrow> \<not> ParentControlsChild rc cm) then ret None
            else if terminating then
              (case remoteConfigMap of
                 Some _ \<Rightarrow> bindM (deleteRemote r id namespace name) (\<lambda>_. ret None)
               | None \<Rightarrow>
                   if hasFinalizer then bindM (removeFinalizer_configMap r cm j) (\<lambda>_. ret None)
                   else ret None)
            else if shouldFollow then
              bindM (if \<not> hasFinalizer then addFinalizer_configMap r cm else ret cm) (\<lambda>cm.
                case remoteConfigMap of
                  None \<Rightarrow> bindM (createRemote r namespace (makeRemoteConfigMap r cm)) (\<lambda>_. ret None)
                | Some rc \<Rightarrow>
                    if cm_Data rc \<noteq> cm_Data cm \<or> cm_BinaryData rc \<noteq> cm_BinaryData cm
                       \<or> mget (Labels rc) LabelKeyParentClusterName \<noteq> clusterName r
                    then bindM (mwrite (Labels rc) LabelKeyParentClusterName (clusterName r)) (\<lambda>labels.
                         bindM (updateRemote r namespace
                           (rc\<lparr>cm_Data := Some (copyInto fmempty (cm_Data cm)),
                               cm_BinaryData := Some (copyInto fmempty (cm_BinaryData cm)),
                               Labels := labels\<rparr>)) (\<lambda>_. ret None))
                    else ret None)
            else ret None))"


section \<open>The contract\<close>

definition cmPrepare :: "configMapReconciler \<Rightarrow> bool \<Rightarrow> configMap \<Rightarrow> (configMap, configMap) followIO" where
  "cmPrepare r d cm =
     (if Finalizer (fe_target r) \<in> set (Finalizers cm) then ret cm else addFinalizer_configMap r cm)"

definition cmChange :: "configMapReconciler \<Rightarrow> configMap \<Rightarrow> configMap \<Rightarrow> (configMap, configMap option) followIO" where
  "cmChange r rc cm =
     (if cm_Data rc \<noteq> cm_Data cm \<or> cm_BinaryData rc \<noteq> cm_BinaryData cm
         \<or> mget (Labels rc) LabelKeyParentClusterName \<noteq> clusterName r
      then bindM (mwrite (Labels rc) LabelKeyParentClusterName (clusterName r)) (\<lambda>labels.
           ret (Some (rc\<lparr>cm_Data := Some (copyInto fmempty (cm_Data cm)),
                         cm_BinaryData := Some (copyInto fmempty (cm_BinaryData cm)), Labels := labels\<rparr>)))
      else ret None)"

abbreviation cmOrphanErr :: "error \<Rightarrow> error" where
  "cmOrphanErr \<equiv> \<lambda>err. Errorf (''cannot delete orphaned configmap: '' @ Error err)"

lemma Handle_configMap_refines:
  "Handle_configMap r key = followSpec (\<lambda>_. False) (\<lambda>ns n _. ret (shouldFollow_configMap r ns n)) id
     (cmPrepare r) (makeRemoteConfigMap r) (cmChange r) cmOrphanErr r key"
proof (cases "SplitKey r key")
  case (Some k)
  obtain ns n where k: "k = (ns, n)" by (cases k)
  show ?thesis
  proof (cases "lister_Get r ns n")
    case (Inr cm)
    show ?thesis
      by (cases rule: getRemote_cases [of r ns n];
          cases rule: HasFinalizer_cases [of "Finalizers cm" "Finalizer (fe_target r)"])
        (simp_all add: Some k Inr Handle_configMap_def followSpec_def io_values cmPrepare_def cmChange_def
          removeFinalizer_configMap_def bindM_assoc if_distrib [of "\<lambda>m. bindM m f" for f] cong: if_cong)
  qed (cases rule: getRemote_cases [of r ns n];
      simp add: Some k Handle_configMap_def followSpec_def io_values cong: if_cong)
qed (simp add: Handle_configMap_def followSpec_def io_values)


text \<open>What the API server keeps of a config map, and when the remote one is up to date.\<close>

definition cmStored :: "configMap \<Rightarrow> configMap \<Rightarrow> bool" where
  "cmStored w rc \<longleftrightarrow> Name rc = Name w \<and> sameEntries (Labels w) (Labels rc)
     \<and> sameEntries (Annotations w) (Annotations rc)
     \<and> sameEntries (cm_Data w) (cm_Data rc) \<and> sameEntries (cm_BinaryData w) (cm_BinaryData rc)"

definition cmValid :: "configMap \<Rightarrow> bool" where
  "cmValid cm \<longleftrightarrow> wireMap (cm_Data cm) \<and> wireMap (cm_BinaryData cm)"

definition cmSynced :: "configMapReconciler \<Rightarrow> configMap \<Rightarrow> configMap \<Rightarrow> bool" where
  "cmSynced r rc cm \<longleftrightarrow> cm_Data rc = cm_Data cm \<and> cm_BinaryData rc = cm_BinaryData cm
     \<and> mget (Labels rc) LabelKeyParentClusterName = clusterName r"

lemma cmChange_Some:
  "cmChange r rc cm h = (Ret (Some rc'), h') \<Longrightarrow>
     \<exists>f. Labels rc = Some f \<and> rc' = rc\<lparr>cm_Data := Some (nonnil (cm_Data cm)),
       cm_BinaryData := Some (nonnil (cm_BinaryData cm)),
       Labels := Some (fmupd LabelKeyParentClusterName (clusterName r) f)\<rparr>"
  by (cases "Labels rc") (auto simp: cmChange_def io_simps split: if_splits)

lemma makeRemoteConfigMap_simps:
  "Name (makeRemoteConfigMap r cm) = Name cm"
  "cm_Data (makeRemoteConfigMap r cm) = Some (nonnil (cm_Data cm))"
  "cm_BinaryData (makeRemoteConfigMap r cm) = Some (nonnil (cm_BinaryData cm))"
  "ParentControlsChild (makeRemoteConfigMap r cm) cm"
  "mget (Labels (makeRemoteConfigMap r cm)) LabelKeyParentClusterName = clusterName r"
  by (simp_all add: makeRemoteConfigMap_def Let_def ParentControlsChild_def key_simps)

interpretation cm: syncing Handle_configMap "\<lambda>_. False" "\<lambda>r ns n _. ret (shouldFollow_configMap r ns n)" id
  cmPrepare makeRemoteConfigMap cmChange cmOrphanErr cmStored cmValid cmSynced
proof (unfold_locales, goal_cases)
  case (1 r key)
  then show ?case by (rule Handle_configMap_refines)
next
  case (2 r ns n obj)
  then show ?case by (rule emits_ret)
next
  case (3 obj r d)
  then show ?case
    by (auto simp: cmPrepare_def addFinalizer_configMap_def labelledAs_def intro!: emits_intros)
next
  case (4 r d obj h obj' h')
  then show ?case
    by (auto simp: cmPrepare_def addFinalizer_configMap_def io_simps split: if_splits sum.splits)
next
  case (5 r ro obj)
  then show ?case by (auto simp: cmChange_def intro!: emits_intros)
next
  case (6 r ro obj h ro' h')
  then show ?case by (auto dest!: cmChange_Some)
next
  case (7 r obj)
  then show ?case by (simp add: makeRemoteConfigMap_def Let_def madeFor_def IsRemoteControlled_def key_simps)
next
  case (8 r ro obj)
  then show ?case by (simp add: cmSynced_def cmChange_def)
next
  case (9 r ro obj h h')
  then show ?case
    by (cases "Labels ro") (auto simp: cmChange_def cmSynced_def io_simps split: if_splits)
next
  case (10 r ro obj h ro' h' ro'')
  then obtain f where f: "Labels ro = Some f" "ro' = ro\<lparr>cm_Data := Some (nonnil (cm_Data obj)),
       cm_BinaryData := Some (nonnil (cm_BinaryData obj)),
       Labels := Some (fmupd LabelKeyParentClusterName (clusterName r) f)\<rparr>"
    using cmChange_Some by blast
  have "ParentControlsChild ro'' obj"
    using 10(2,5) f ParentControlsChild_same [of ro' ro'' obj] ParentControlsChild_cluster [of ro' _ f ro obj]
    by (simp add: cmStored_def)
  moreover have "cmSynced r ro'' obj"
    using 10 f sameEntries_mget [of "Labels ro'" "Labels ro''" LabelKeyParentClusterName]
    by (auto simp: cmStored_def cmSynced_def cmValid_def intro: stored_copy)
  ultimately show ?case by simp
next
  case (11 r obj ro'')
  let ?g = "makeRemoteConfigMap r obj"
  have "ParentControlsChild ro'' obj"
    using 11 ParentControlsChild_same [of ?g ro'' obj] by (simp add: cmStored_def makeRemoteConfigMap_simps)
  moreover have "cmSynced r ro'' obj"
    using 11 sameEntries_mget [of "Labels ?g" "Labels ro''" LabelKeyParentClusterName]
    by (auto simp: cmStored_def cmSynced_def cmValid_def makeRemoteConfigMap_simps intro: stored_copy)
  ultimately show ?case by simp
next
  case (12 r obj d)
  then show ?case by (simp add: cmPrepare_def)
next
  case (13 r g)
  then show ?case by (simp add: cmSynced_def fun_eq_iff)
qed


section \<open>Who uses a config map\<close>

definition usesConfigMap :: "pod \<Rightarrow> string \<Rightarrow> bool" where
  "usesConfigMap p n \<longleftrightarrow>
     (\<exists>vol\<in>set (Volumes (pod_Spec p)). vol_ConfigMap vol = Some n
        \<or> (\<exists>srcs. vol_Projected vol = Some srcs \<and> (\<exists>src\<in>set srcs. proj_ConfigMap src = Some n)))
     \<or> (\<exists>c\<in>set (Containers (pod_Spec p) @ InitContainers (pod_Spec p)).
          (\<exists>e\<in>set (Env c). \<exists>from. ValueFrom e = Some from \<and> ConfigMapKeyRef from = Some n)
          \<or> (\<exists>src\<in>set (EnvFrom c). ConfigMapRef src = Some n))"

text \<open>A reference from a container and from a volume.\<close>

definition containerUsesConfigMap :: "container \<Rightarrow> string \<Rightarrow> bool" where
  "containerUsesConfigMap c n \<longleftrightarrow>
     (\<exists>e\<in>set (Env c). \<exists>from. ValueFrom e = Some from \<and> ConfigMapKeyRef from = Some n)
     \<or> (\<exists>src\<in>set (EnvFrom c). ConfigMapRef src = Some n)"

definition volumeUsesConfigMap :: "volume \<Rightarrow> string \<Rightarrow> bool" where
  "volumeUsesConfigMap vol n \<longleftrightarrow> vol_ConfigMap vol = Some n
     \<or> (\<exists>srcs. vol_Projected vol = Some srcs \<and> (\<exists>src\<in>set srcs. proj_ConfigMap src = Some n))"

lemma usesConfigMap_iff:
  "usesConfigMap p n \<longleftrightarrow> (\<exists>vol\<in>set (Volumes (pod_Spec p)). volumeUsesConfigMap vol n)
     \<or> (\<exists>c\<in>set (Containers (pod_Spec p)). containerUsesConfigMap c n)
     \<or> (\<exists>c\<in>set (InitContainers (pod_Spec p)). containerUsesConfigMap c n)"
  unfolding usesConfigMap_def volumeUsesConfigMap_def containerUsesConfigMap_def set_append bex_Un ..

lemma set_indexContainerByConfigMap:
  "set (indexContainerByConfigMap c keys p) =
     set keys \<union> {Namespace p @ ''/'' @ n | n. containerUsesConfigMap c n}"
  unfolding indexContainerByConfigMap_def Let_def
  by (subst set_foldl_keys [where R = "\<lambda>src n. ConfigMapRef src = Some n"], force split: option.splits,
      subst set_foldl_keys [where R = "\<lambda>e n. \<exists>from. ValueFrom e = Some from \<and> ConfigMapKeyRef from = Some n"])
    (auto simp: containerUsesConfigMap_def split: option.splits)

lemma set_indexVolumeByConfigMap:
  "set (let keys = (case vol_ConfigMap vol of None \<Rightarrow> keys | Some cm \<Rightarrow> keys @ [Namespace p @ ''/'' @ cm])
      in case vol_Projected vol of
           None \<Rightarrow> keys
         | Some sources \<Rightarrow> foldl (\<lambda>keys src. case proj_ConfigMap src of
               None \<Rightarrow> keys | Some cm \<Rightarrow> keys @ [Namespace p @ ''/'' @ cm]) keys sources) =
     set keys \<union> {Namespace p @ ''/'' @ n | n. volumeUsesConfigMap vol n}"
proof -
  have "set (foldl (\<lambda>keys src. case proj_ConfigMap src of
      None \<Rightarrow> keys | Some cm \<Rightarrow> keys @ [Namespace p @ ''/'' @ cm]) ks srcs) =
      set ks \<union> {Namespace p @ ''/'' @ n | n. \<exists>src\<in>set srcs. proj_ConfigMap src = Some n}" for ks srcs
    by (rule set_foldl_keys) (auto split: option.splits)
  then show ?thesis by (auto simp: Let_def volumeUsesConfigMap_def split: option.splits)
qed

lemma set_indexProxyPodByConfigMaps:
  "key \<in> set (indexProxyPodByConfigMaps p) \<longleftrightarrow>
     IsProxy p \<and> (\<exists>n. key = Namespace p @ ''/'' @ n \<and> usesConfigMap p n)"
proof (cases "IsProxy p")
  case True
  note steps = set_foldl_keys [OF set_indexContainerByConfigMap] set_foldl_keys [OF set_indexVolumeByConfigMap]
  have "set (indexProxyPodByConfigMaps p) = {Namespace p @ ''/'' @ n | n. usesConfigMap p n}"
    using True unfolding indexProxyPodByConfigMaps_def usesConfigMap_iff
    by (simp only: not_True_eq_False if_False Let_def [of "foldl f ks xs" for f ks xs] steps) auto
  then show ?thesis using True by auto
qed (simp add: indexProxyPodByConfigMaps_def)

end
