(* ===== verification/Follow_Secret.thy ===== *)
theory Follow_Secret
  imports Follow_ConfigMap
begin

text \<open>
  The controller that makes secrets follow the proxy pods that use them
  (\<open>pkg/controllers/follow/secret.go\<close>): the index of proxy pods by secret, the event handlers and
  the reconciler, which interprets the contracts of \<open>Follow_Common\<close>.
\<close>

section \<open>Index and events\<close>

text \<open>
  \<open>ByIndex\<close> of a shared informer fails only when there is no index of that name; the constructor adds the index to
  the informer before the reconciler that looks it up can run, so that the lookup is a function of the key.
\<close>

record secretReconciler = "secret followEnv" +
  podsBySecret :: "string \<Rightarrow> pod list"

definition indexContainerBySecret :: "container \<Rightarrow> string list \<Rightarrow> pod \<Rightarrow> string list" where
  "indexContainerBySecret c keys p =
     (let keys = foldl (\<lambda>keys envVar.
            case ValueFrom envVar of
              None \<Rightarrow> keys
            | Some from \<Rightarrow> (case SecretKeyRef from of None \<Rightarrow> keys | Some s \<Rightarrow> keys @ [Namespace p @ ''/'' @ s]))
          keys (Env c)
      in foldl (\<lambda>keys src. case SecretRef src of None \<Rightarrow> keys | Some s \<Rightarrow> keys @ [Namespace p @ ''/'' @ s])
           keys (EnvFrom c))"

definition indexProxyPodBySecrets :: "pod \<Rightarrow> string list" where
  "indexProxyPodBySecrets p =
     (if \<not> IsProxy p then []
      else
        let keys = foldl (\<lambda>keys vol.
              let keys = (case vol_Secret vol of None \<Rightarrow> keys | Some s \<Rightarrow> keys @ [Namespace p @ ''/'' @ s])
              in case vol_Projected vol of
                   None \<Rightarrow> keys
                 | Some sources \<Rightarrow> foldl (\<lambda>keys src. case proj_Secret src of
                       None \<Rightarrow> keys | Some s \<Rightarrow> keys @ [Namespace p @ ''/'' @ s]) keys sources)
              [] (Volumes (pod_Spec p));
            keys = foldl (\<lambda>keys c. indexContainerBySecret c keys p) keys (Containers (pod_Spec p));
            keys = foldl (\<lambda>keys c. indexContainerBySecret c keys p) keys (InitContainers (pod_Spec p))
        in foldl (\<lambda>keys s. keys @ [Namespace p @ ''/'' @ s]) keys (ImagePullSecrets (pod_Spec p)))"

definition enqueueProxyPodsSecrets :: "pod \<Rightarrow> (string wq_call, unit) io" where
  "enqueueProxyPodsSecrets p = enqueueKeys (indexProxyPodBySecrets p)"

datatype secretEvent =
    SecretEvent "secret notification"
  | RemoteSecretEvent "secret notification"
  | SecretPodEvent "pod notification"

fun NewSecretController ::
  "(secret \<Rightarrow> error + string) \<Rightarrow> string \<Rightarrow> secretEvent \<Rightarrow> (string wq_call, unit) io" where
  "NewSecretController keyFunc cluster (SecretEvent n) = HandleAddUpdateWith (EnqueueObject keyFunc) n"
| "NewSecretController keyFunc cluster (RemoteSecretEvent n) = HandleAllWith (EnqueueRemoteController cluster) n"
| "NewSecretController keyFunc cluster (SecretPodEvent n) = HandleAllWith enqueueProxyPodsSecrets n"


section \<open>The reconciler\<close>

definition shouldFollow_secret :: "secretReconciler \<Rightarrow> string \<Rightarrow> string \<Rightarrow> bool" where
  "shouldFollow_secret r namespace name \<longleftrightarrow>
     list_ex (\<lambda>proxyPod. GetScheduledClusterName proxyPod = VirtualNodeName (fe_target r))
       (podsBySecret r (namespace @ ''/'' @ name))"

definition addFinalizer_secret :: "secretReconciler \<Rightarrow> secret \<Rightarrow> (secret, secret) followIO" where
  "addFinalizer_secret r s =
     updateLocal r (Namespace s)
       (s\<lparr>Finalizers := Finalizers s @ [Finalizer (fe_target r)],
          Labels := Some (fmupd LabelKeyHasFinalizer ''true'' (nonnil (Labels s)))\<rparr>)"

definition removeFinalizer_secret ::
  "secretReconciler \<Rightarrow> secret \<Rightarrow> int \<Rightarrow> (secret, secret) followIO" where
  "removeFinalizer_secret r s j =
     bindM (must (removeAt j (Finalizers s))) (\<lambda>fs. updateLocal r (Namespace s) (s\<lparr>Finalizers := fs\<rparr>))"

definition makeRemoteSecret :: "secretReconciler \<Rightarrow> secret \<Rightarrow> secret" where
  "makeRemoteSecret r s =
     (let gold = zero_secret
        \<lparr>Name := Name s,
         Labels := Some (copyInto fmempty (Labels s)),
         Annotations := Some (copyInto fmempty (Annotations s))\<rparr>;
          gold = AddRemoteControllerReference gold s (clusterName r)
      in gold\<lparr>secret_Type := secret_Type s, secret_Data := Some (copyInto fmempty (secret_Data s))\<rparr>)"

definition Handle_secret :: "secretReconciler \<Rightarrow> string \<Rightarrow> (secret, nat option) followIO" where
  "Handle_secret r key =
     bindM (must (SplitKey r key)) (\<lambda>(namespace, name).
     bindM (getRemote r namespace name) (\<lambda>remoteSecret.
     case lister_Get r namespace name of
       Inl err \<Rightarrow>
         if IsNotFound err then
           (case remoteSecret of
              None \<Rightarrow> ret None
            | Some rs \<Rightarrow>
                if IsRemoteControlled rs (clusterName r)
                then bindM (deleteRemote r (\<lambda>err. Errorf (''cannot delete orphaned secret: '' @ Error err))
                       namespace name) (\<lambda>_. ret None)
                else ret None)
         else fail err
     | Inr s \<Rightarrow>
         let terminating = (DeletionTimestamp s \<noteq> None);
             (hasFinalizer, j) = HasFinalizer (Finalizers s) (Finalizer (fe_target r));
             shouldFollow = shouldFollow_secret r namespace name
         in if (case remoteSecret of None \<Rightarrow> False | Some rs \<Rightarrow> \<not> ParentControlsChild rs s) then ret None
            else if terminating then
              (case remoteSecret of
                 Some _ \<Rightarrow> bindM (deleteRemote r id namespace name) (\<lambda>_. ret None)
               | None \<Rightarrow>
                   if hasFinalizer then bindM (removeFinalizer_secret r s j) (\<lambda>_. ret None)
                   else ret None)
            else if shouldFollow then
              bindM (if \<not> hasFinalizer then addFinalizer_secret r s else ret s) (\<lambda>s.
                case remoteSecret of
                  None \<Rightarrow> bindM (createRemote r namespace (makeRemoteSecret r s)) (\<lambda>_. ret None)
                | Some rs \<Rightarrow>
                    if secret_Data rs \<noteq> secret_Data s
                       \<or> mget (Labels rs) LabelKeyParentClusterName \<noteq> clusterName r
                    then bindM (mwrite (Labels rs) LabelKeyParentClusterName (clusterName r)) (\<lambda>labels.
                         bindM (updateRemote r namespace
                           (rs\<lparr>secret_Data := Some (copyInto fmempty (secret_Data s)), Labels := labels\<rparr>))
                           (\<lambda>_. ret None))
                    else ret None)
            else ret None))"


section \<open>The contract\<close>

definition secretPrepare :: "secretReconciler \<Rightarrow> bool \<Rightarrow> secret \<Rightarrow> (secret, secret) followIO" where
  "secretPrepare r d s =
     (if Finalizer (fe_target r) \<in> set (Finalizers s) then ret s else addFinalizer_secret r s)"

definition secretChange :: "secretReconciler \<Rightarrow> secret \<Rightarrow> secret \<Rightarrow> (secret, secret option) followIO" where
  "secretChange r rs s =
     (if secret_Data rs \<noteq> secret_Data s \<or> mget (Labels rs) LabelKeyParentClusterName \<noteq> clusterName r
      then bindM (mwrite (Labels rs) LabelKeyParentClusterName (clusterName r)) (\<lambda>labels.
           ret (Some (rs\<lparr>secret_Data := Some (copyInto fmempty (secret_Data s)), Labels := labels\<rparr>)))
      else ret None)"

abbreviation secretOrphanErr :: "error \<Rightarrow> error" where
  "secretOrphanErr \<equiv> \<lambda>err. Errorf (''cannot delete orphaned secret: '' @ Error err)"

lemma Handle_secret_refines:
  "Handle_secret r key = followSpec (\<lambda>_. False) (\<lambda>ns n _. ret (shouldFollow_secret r ns n)) id
     (secretPrepare r) (makeRemoteSecret r) (secretChange r) secretOrphanErr r key"
proof (cases "SplitKey r key")
  case (Some k)
  obtain ns n where k: "k = (ns, n)" by (cases k)
  show ?thesis
  proof (cases "lister_Get r ns n")
    case (Inr s)
    show ?thesis
      by (cases rule: getRemote_cases [of r ns n];
          cases rule: HasFinalizer_cases [of "Finalizers s" "Finalizer (fe_target r)"])
        (simp_all add: Some k Inr Handle_secret_def followSpec_def io_values secretPrepare_def secretChange_def
          removeFinalizer_secret_def bindM_assoc if_distrib [of "\<lambda>m. bindM m f" for f] cong: if_cong)
  qed (cases rule: getRemote_cases [of r ns n];
      simp add: Some k Handle_secret_def followSpec_def io_values cong: if_cong)
qed (simp add: Handle_secret_def followSpec_def io_values)

definition secretStored :: "secret \<Rightarrow> secret \<Rightarrow> bool" where
  "secretStored w rs \<longleftrightarrow> Name rs = Name w \<and> sameEntries (Labels w) (Labels rs)
     \<and> sameEntries (Annotations w) (Annotations rs) \<and> sameEntries (secret_Data w) (secret_Data rs)"

definition secretValid :: "secret \<Rightarrow> bool" where
  "secretValid s \<longleftrightarrow> wireMap (secret_Data s)"

definition secretSynced :: "secretReconciler \<Rightarrow> secret \<Rightarrow> secret \<Rightarrow> bool" where
  "secretSynced r rs s \<longleftrightarrow> secret_Data rs = secret_Data s
     \<and> mget (Labels rs) LabelKeyParentClusterName = clusterName r"

lemma secretChange_Some:
  "secretChange r rs s h = (Ret (Some rs'), h') \<Longrightarrow>
     \<exists>f. Labels rs = Some f \<and> rs' = rs\<lparr>secret_Data := Some (nonnil (secret_Data s)),
       Labels := Some (fmupd LabelKeyParentClusterName (clusterName r) f)\<rparr>"
  by (cases "Labels rs") (auto simp: secretChange_def io_simps split: if_splits)

lemma makeRemoteSecret_simps:
  "Name (makeRemoteSecret r s) = Name s"
  "secret_Type (makeRemoteSecret r s) = secret_Type s"
  "secret_Data (makeRemoteSecret r s) = Some (nonnil (secret_Data s))"
  "ParentControlsChild (makeRemoteSecret r s) s"
  "mget (Labels (makeRemoteSecret r s)) LabelKeyParentClusterName = clusterName r"
  by (simp_all add: makeRemoteSecret_def Let_def ParentControlsChild_def key_simps)

interpretation sec: syncing Handle_secret "\<lambda>_. False" "\<lambda>r ns n _. ret (shouldFollow_secret r ns n)" id
  secretPrepare makeRemoteSecret secretChange secretOrphanErr secretStored secretValid secretSynced
proof (unfold_locales, goal_cases)
  case (1 r key)
  then show ?case by (rule Handle_secret_refines)
next
  case (2 r ns n obj)
  then show ?case by (rule emits_ret)
next
  case (3 obj r d)
  then show ?case
    by (auto simp: secretPrepare_def addFinalizer_secret_def labelledAs_def intro!: emits_intros)
next
  case (4 r d obj h obj' h')
  then show ?case
    by (auto simp: secretPrepare_def addFinalizer_secret_def io_simps split: if_splits sum.splits)
next
  case (5 r ro obj)
  then show ?case by (auto simp: secretChange_def intro!: emits_intros)
next
  case (6 r ro obj h ro' h')
  then show ?case by (auto dest!: secretChange_Some)
next
  case (7 r obj)
  then show ?case by (simp add: makeRemoteSecret_def Let_def madeFor_def IsRemoteControlled_def key_simps)
next
  case (8 r ro obj)
  then show ?case by (simp add: secretSynced_def secretChange_def)
next
  case (9 r ro obj h h')
  then show ?case
    by (cases "Labels ro") (auto simp: secretChange_def secretSynced_def io_simps split: if_splits)
next
  case (10 r ro obj h ro' h' ro'')
  then obtain f where f: "Labels ro = Some f" "ro' = ro\<lparr>secret_Data := Some (nonnil (secret_Data obj)),
       Labels := Some (fmupd LabelKeyParentClusterName (clusterName r) f)\<rparr>"
    using secretChange_Some by blast
  have "ParentControlsChild ro'' obj"
    using 10(2,5) f ParentControlsChild_same [of ro' ro'' obj] ParentControlsChild_cluster [of ro' _ f ro obj]
    by (simp add: secretStored_def)
  moreover have "secretSynced r ro'' obj"
    using 10 f sameEntries_mget [of "Labels ro'" "Labels ro''" LabelKeyParentClusterName]
    by (auto simp: secretStored_def secretSynced_def secretValid_def intro: stored_copy)
  ultimately show ?case by simp
next
  case (11 r obj ro'')
  let ?g = "makeRemoteSecret r obj"
  have "ParentControlsChild ro'' obj"
    using 11 ParentControlsChild_same [of ?g ro'' obj] by (simp add: secretStored_def makeRemoteSecret_simps)
  moreover have "secretSynced r ro'' obj"
    using 11 sameEntries_mget [of "Labels ?g" "Labels ro''" LabelKeyParentClusterName]
    by (auto simp: secretStored_def secretSynced_def secretValid_def makeRemoteSecret_simps intro: stored_copy)
  ultimately show ?case by simp
next
  case (12 r obj d)
  then show ?case by (simp add: secretPrepare_def)
next
  case (13 r g)
  then show ?case by (simp add: secretSynced_def fun_eq_iff)
qed


section \<open>Who uses a secret\<close>

definition containerUsesSecret :: "container \<Rightarrow> string \<Rightarrow> bool" where
  "containerUsesSecret c n \<longleftrightarrow>
     (\<exists>e\<in>set (Env c). \<exists>from. ValueFrom e = Some from \<and> SecretKeyRef from = Some n)
     \<or> (\<exists>src\<in>set (EnvFrom c). SecretRef src = Some n)"

definition volumeUsesSecret :: "volume \<Rightarrow> string \<Rightarrow> bool" where
  "volumeUsesSecret vol n \<longleftrightarrow> vol_Secret vol = Some n
     \<or> (\<exists>srcs. vol_Projected vol = Some srcs \<and> (\<exists>src\<in>set srcs. proj_Secret src = Some n))"

definition usesSecret :: "pod \<Rightarrow> string \<Rightarrow> bool" where
  "usesSecret p n \<longleftrightarrow> (\<exists>vol\<in>set (Volumes (pod_Spec p)). volumeUsesSecret vol n)
     \<or> (\<exists>c\<in>set (Containers (pod_Spec p)). containerUsesSecret c n)
     \<or> (\<exists>c\<in>set (InitContainers (pod_Spec p)). containerUsesSecret c n)
     \<or> n \<in> set (ImagePullSecrets (pod_Spec p))"

lemma set_indexContainerBySecret:
  "set (indexContainerBySecret c keys p) =
     set keys \<union> {Namespace p @ ''/'' @ n | n. containerUsesSecret c n}"
  unfolding indexContainerBySecret_def Let_def
  by (subst set_foldl_keys [where R = "\<lambda>src n. SecretRef src = Some n"], force split: option.splits,
      subst set_foldl_keys [where R = "\<lambda>e n. \<exists>from. ValueFrom e = Some from \<and> SecretKeyRef from = Some n"])
    (auto simp: containerUsesSecret_def split: option.splits)

lemma set_indexVolumeBySecret:
  "set (let keys = (case vol_Secret vol of None \<Rightarrow> keys | Some s \<Rightarrow> keys @ [Namespace p @ ''/'' @ s])
      in case vol_Projected vol of
           None \<Rightarrow> keys
         | Some sources \<Rightarrow> foldl (\<lambda>keys src. case proj_Secret src of
               None \<Rightarrow> keys | Some s \<Rightarrow> keys @ [Namespace p @ ''/'' @ s]) keys sources) =
     set keys \<union> {Namespace p @ ''/'' @ n | n. volumeUsesSecret vol n}"
proof -
  have "set (foldl (\<lambda>keys src. case proj_Secret src of
      None \<Rightarrow> keys | Some s \<Rightarrow> keys @ [Namespace p @ ''/'' @ s]) ks srcs) =
      set ks \<union> {Namespace p @ ''/'' @ n | n. \<exists>src\<in>set srcs. proj_Secret src = Some n}" for ks srcs
    by (rule set_foldl_keys) (auto split: option.splits)
  then show ?thesis by (auto simp: Let_def volumeUsesSecret_def split: option.splits)
qed

lemma set_indexProxyPodBySecrets:
  "key \<in> set (indexProxyPodBySecrets p) \<longleftrightarrow>
     IsProxy p \<and> (\<exists>n. key = Namespace p @ ''/'' @ n \<and> usesSecret p n)"
proof (cases "IsProxy p")
  case True
  have pull: "set (foldl (\<lambda>keys s. keys @ [Namespace p @ ''/'' @ s]) ks xs) =
      set ks \<union> {Namespace p @ ''/'' @ n | n. n \<in> set xs}" for ks xs
    using set_foldl_keys [of "\<lambda>keys s. keys @ [Namespace p @ ''/'' @ s]" "\<lambda>n. Namespace p @ ''/'' @ n"
      "\<lambda>x n. n = x" ks xs] by auto
  note steps = pull set_foldl_keys [OF set_indexContainerBySecret] set_foldl_keys [OF set_indexVolumeBySecret]
  have "set (indexProxyPodBySecrets p) = {Namespace p @ ''/'' @ n | n. usesSecret p n}"
    using True unfolding indexProxyPodBySecrets_def usesSecret_def
    by (simp only: not_True_eq_False if_False Let_def [of "foldl f ks xs" for f ks xs] steps) auto
  then show ?thesis using True by auto
qed (simp add: indexProxyPodBySecrets_def)

end
