(* ===== verification/Follow_Service.thy ===== *)
theory Follow_Service
  imports Follow_Common
begin

text \<open>
  The controller that makes services follow the proxy pods they select, and reroutes their
  selectors to delegate pods (\<open>pkg/controllers/follow/service/controller.go\<close>).  The pod lister,
  the label selectors of the API machinery and regular expressions are parameters.
\<close>

section \<open>The reconciler\<close>

record serviceReconciler = "service followEnv" +
  serviceRerouteEnabled :: bool
  podLister_List :: "string \<Rightarrow> (string, string) fmap \<Rightarrow> error + pod list"
  ConvertSelectorToLabelsMap :: "string \<Rightarrow> error + (string, string) fmap"
  SelectorString :: "(string, string) fmap \<Rightarrow> string"
  regexp_Compile :: "string \<Rightarrow> error + (string \<Rightarrow> bool)"
  range_order :: "(string, string) fmap \<Rightarrow> (string \<times> string) list"

text \<open>The events that enqueue a service: its own, the remote one's, and those of its endpoints.\<close>

datatype 'e serviceEvent =
    ServiceEvent "service notification"
  | RemoteServiceEvent "service notification"
  | EndpointsEvent "'e notification"

fun NewServiceController ::
  "(service \<Rightarrow> error + string) \<Rightarrow> ('e \<Rightarrow> error + string) \<Rightarrow> string \<Rightarrow> 'e serviceEvent
     \<Rightarrow> (string wq_call, unit) io" where
  "NewServiceController svcKey epKey cluster (ServiceEvent n) = HandleAddUpdateWith (EnqueueObject svcKey) n"
| "NewServiceController svcKey epKey cluster (RemoteServiceEvent n) = HandleAllWith (EnqueueRemoteController cluster) n"
| "NewServiceController svcKey epKey cluster (EndpointsEvent n) = HandleAddUpdateWith (EnqueueObject epKey) n"

definition shouldFollow_service :: "serviceReconciler \<Rightarrow> service \<Rightarrow> error + (bool \<times> string)" where
  "shouldFollow_service r svc =
     (if nonnil (Selector (svc_Spec svc)) = fmempty then Inr (False, [])
      else
        let selector = fmfilter (\<lambda>k. \<not> HasPrefix k KeyPrefix) (nonnil (Selector (svc_Spec svc)))
        in case (if selector = fmempty
                 then (case mlookup (Annotations svc) AnnotationKeyOriginalSelector of
                         None \<Rightarrow> Inl (Errorf ''original selector not found'')
                       | Some s \<Rightarrow>
                           (case ConvertSelectorToLabelsMap r s of
                              Inl err \<Rightarrow> Inl (Errorf (''original selector is invalid (was tampered with?): '' @ Error err))
                            | Inr selector \<Rightarrow> Inr selector))
                 else Inr selector) of
             Inl err \<Rightarrow> Inl err
           | Inr selector \<Rightarrow>
               (case podLister_List r (Namespace svc) selector of
                  Inl err \<Rightarrow> Inl err
                | Inr pods \<Rightarrow> Inr (list_ex IsProxy pods, SelectorString r selector)))"

definition addFinalizer_service :: "serviceReconciler \<Rightarrow> service \<Rightarrow> service" where
  "addFinalizer_service r svc =
     svc\<lparr>Finalizers := Finalizers svc @ [Finalizer (fe_target r)],
         Labels := Some (fmupd LabelKeyHasFinalizer ''true'' (nonnil (Labels svc)))\<rparr>"

definition removeFinalizer_service ::
  "serviceReconciler \<Rightarrow> service \<Rightarrow> int \<Rightarrow> (service, service) followIO" where
  "removeFinalizer_service r svc j =
     bindM (must (removeAt j (Finalizers svc))) (\<lambda>fs. updateLocal r (Namespace svc) (svc\<lparr>Finalizers := fs\<rparr>))"

text \<open>\<open>if m[k] != v { needUpdateLocal = true; m[k] = v }\<close> on the annotations of the copy.\<close>

definition setAnnotation :: "string \<Rightarrow> string \<Rightarrow> service \<times> bool \<Rightarrow> service \<times> bool" where
  "setAnnotation k v acc = (case acc of (svcCopy, needUpdateLocal) \<Rightarrow>
     if mget (Annotations svcCopy) k \<noteq> v
     then (svcCopy\<lparr>Annotations := Some (fmupd k v (nonnil (Annotations svcCopy)))\<rparr>, True)
     else (svcCopy, needUpdateLocal))"

text \<open>The changes to the local service before the remote one is touched: the finalizer and the
  annotations, then the selector.\<close>

definition annotatedService :: "serviceReconciler \<Rightarrow> service \<Rightarrow> bool \<Rightarrow> string \<Rightarrow> service \<times> bool" where
  "annotatedService r svc hasFinalizer originalSelector =
     (let (svcCopy, needUpdateLocal) =
            (if \<not> hasFinalizer then (addFinalizer_service r svc, True) else (svc, False));
          svcCopy = svcCopy\<lparr>Annotations := Some (nonnil (Annotations svcCopy))\<rparr>
      in setAnnotation AnnotationKeyOriginalSelector originalSelector
           (setAnnotation AnnotationKeyGlobal ''true''
             (setAnnotation AnnotationKeyCiliumGlobalService ''true'' (svcCopy, needUpdateLocal))))"

definition updatedService ::
  "serviceReconciler \<Rightarrow> service \<Rightarrow> bool \<Rightarrow> string \<Rightarrow> error + (service \<times> bool)" where
  "updatedService r svc hasFinalizer originalSelector =
     (case annotatedService r svc hasFinalizer originalSelector of (svcCopy, needUpdateLocal) \<Rightarrow>
      if serviceRerouteEnabled r
      then (case ChangeLabels (regexp_Compile r) (range_order r) (Selector (svc_Spec svcCopy))
              (mget (Annotations svc) AnnotationNoPrefixLabelRegexp) of
              Inl err \<Rightarrow> Inl (Errorf (''failed to change labels for mirrored service '' @ Name svcCopy @ '': '' @ Error err))
            | Inr (selector, changed) \<Rightarrow>
                Inr (if changed
                     then (svcCopy\<lparr>svc_Spec := (svc_Spec svcCopy)\<lparr>Selector := Some selector\<rparr>\<rparr>, True)
                     else (svcCopy, needUpdateLocal)))
      else Inr (svcCopy, needUpdateLocal))"

definition makeRemoteService :: "serviceReconciler \<Rightarrow> service \<Rightarrow> service" where
  "makeRemoteService r actual =
     (let gold = zero_service
        \<lparr>Name := Name actual,
         Labels := Some (copyInto fmempty (Labels actual)),
         Annotations := Some (fmupd AnnotationKeyIsDelegate [] (copyInto fmempty (Annotations actual)))\<rparr>;
          gold = AddRemoteControllerReference gold actual (clusterName r);
          gold = gold\<lparr>svc_Spec := svc_Spec actual\<rparr>
      in if ClusterIP (svc_Spec actual) \<noteq> ''None''
         then gold\<lparr>svc_Spec := (svc_Spec gold)\<lparr>ClusterIP := [], ClusterIPs := []\<rparr>\<rparr>
         else gold)"

text \<open>The spec the remote service should have: the local one but for the addresses, which each
  cluster gives.\<close>

definition remoteServiceSpec :: "service \<Rightarrow> service \<Rightarrow> serviceSpec" where
  "remoteServiceSpec remoteSvc svc =
     (if svc_Type (svc_Spec svc) \<noteq> ''ExternalName''
      then (svc_Spec svc)\<lparr>ClusterIP := ClusterIP (svc_Spec remoteSvc), ClusterIPs := ClusterIPs (svc_Spec remoteSvc)\<rparr>
      else svc_Spec svc)"

definition Handle_service :: "serviceReconciler \<Rightarrow> string \<Rightarrow> (service, nat option) followIO" where
  "Handle_service r key =
     bindM (must (SplitKey r key)) (\<lambda>(namespace, name).
     bindM (getRemote r namespace name) (\<lambda>remoteSvc.
     case lister_Get r namespace name of
       Inl err \<Rightarrow>
         if IsNotFound err then
           (case remoteSvc of
              None \<Rightarrow> ret None
            | Some rs \<Rightarrow>
                if IsRemoteControlled rs (clusterName r)
                then bindM (deleteRemote r (\<lambda>err. Errorf (''cannot delete orphaned service: '' @ Error err))
                       namespace name) (\<lambda>_. ret None)
                else ret None)
         else fail err
     | Inr svc \<Rightarrow>
         if mlookup (Annotations svc) AnnotationKeyIsDelegate \<noteq> None then ret None
         else
         let terminating = (DeletionTimestamp svc \<noteq> None);
             (hasFinalizer, j) = HasFinalizer (Finalizers svc) (Finalizer (fe_target r))
         in bindM (tryM (shouldFollow_service r svc)) (\<lambda>(shouldFollow, originalSelector).
            if (case remoteSvc of None \<Rightarrow> False | Some rs \<Rightarrow> \<not> ParentControlsChild rs svc) then ret None
            else if terminating then
              (case remoteSvc of
                 Some _ \<Rightarrow> bindM (deleteRemote r id namespace name) (\<lambda>_. ret None)
               | None \<Rightarrow>
                   if hasFinalizer then bindM (removeFinalizer_service r svc j) (\<lambda>_. ret None)
                   else ret None)
            else if shouldFollow then
              bindM (tryM (updatedService r svc hasFinalizer originalSelector)) (\<lambda>(svcCopy, needUpdateLocal).
              bindM (if needUpdateLocal then updateLocal r (Namespace svcCopy) svcCopy else ret svc) (\<lambda>svc.
                case remoteSvc of
                  None \<Rightarrow> bindM (createRemote r namespace (makeRemoteService r svc)) (\<lambda>_. ret None)
                | Some rs \<Rightarrow>
                    let spec = remoteServiceSpec rs svc
                    in if svc_Spec rs \<noteq> spec \<or> mget (Labels rs) LabelKeyParentClusterName \<noteq> clusterName r
                       then bindM (mwrite (Labels rs) LabelKeyParentClusterName (clusterName r)) (\<lambda>labels.
                            bindM (updateRemote r namespace (rs\<lparr>svc_Spec := spec, Labels := labels\<rparr>)) (\<lambda>_. ret None))
                       else ret None))
            else ret None)))"


section \<open>The contract\<close>

definition svcPrepare :: "serviceReconciler \<Rightarrow> bool \<times> string \<Rightarrow> service \<Rightarrow> (service, service) followIO" where
  "svcPrepare r d svc =
     bindM (tryM (updatedService r svc (Finalizer (fe_target r) \<in> set (Finalizers svc)) (snd d)))
       (\<lambda>(svcCopy, needUpdateLocal).
          if needUpdateLocal then updateLocal r (Namespace svcCopy) svcCopy else ret svc)"

definition svcChange :: "serviceReconciler \<Rightarrow> service \<Rightarrow> service \<Rightarrow> (service, service option) followIO" where
  "svcChange r rs svc =
     (if svc_Spec rs \<noteq> remoteServiceSpec rs svc \<or> mget (Labels rs) LabelKeyParentClusterName \<noteq> clusterName r
      then bindM (mwrite (Labels rs) LabelKeyParentClusterName (clusterName r)) (\<lambda>labels.
           ret (Some (rs\<lparr>svc_Spec := remoteServiceSpec rs svc, Labels := labels\<rparr>)))
      else ret None)"

abbreviation svcOrphanErr :: "error \<Rightarrow> error" where
  "svcOrphanErr \<equiv> \<lambda>err. Errorf (''cannot delete orphaned service: '' @ Error err)"

abbreviation svcSkip :: "service \<Rightarrow> bool" where
  "svcSkip \<equiv> \<lambda>svc. mlookup (Annotations svc) AnnotationKeyIsDelegate \<noteq> None"

lemma Handle_service_refines:
  "Handle_service r key = followSpec svcSkip (\<lambda>_ _ svc. tryM (shouldFollow_service r svc)) fst
     (svcPrepare r) (makeRemoteService r) (svcChange r) svcOrphanErr r key"
proof (cases "SplitKey r key")
  case (Some k)
  obtain ns n where k: "k = (ns, n)" by (cases k)
  show ?thesis
  proof (cases "lister_Get r ns n")
    case (Inr svc)
    show ?thesis
      by (cases rule: getRemote_cases [of r ns n];
          cases rule: HasFinalizer_cases [of "Finalizers svc" "Finalizer (fe_target r)"])
        (simp_all add: Some k Inr Handle_service_def followSpec_def io_values svcPrepare_def svcChange_def
          removeFinalizer_service_def bindM_assoc if_distrib [of "\<lambda>m. bindM m f" for f] case_prod_unfold Let_def
          cong: if_cong)
  qed (cases rule: getRemote_cases [of r ns n];
      simp add: Some k Handle_service_def followSpec_def io_values cong: if_cong)
qed (simp add: Handle_service_def followSpec_def io_values)

text \<open>Setting an annotation changes nothing else, and never forgets that an update is needed.\<close>

lemma setAnnotation_simps [simp]:
  "svc_Spec (fst (setAnnotation k v acc)) = svc_Spec (fst acc)"
  "Name (fst (setAnnotation k v acc)) = Name (fst acc)"
  "Namespace (fst (setAnnotation k v acc)) = Namespace (fst acc)"
  "Finalizers (fst (setAnnotation k v acc)) = Finalizers (fst acc)"
  "Labels (fst (setAnnotation k v acc)) = Labels (fst acc)"
  "mget (Annotations (fst (setAnnotation k v acc))) k' = (if k' = k then v else mget (Annotations (fst acc)) k')"
  "k' \<noteq> k \<Longrightarrow> mlookup (Annotations (fst (setAnnotation k v acc))) k' = mlookup (Annotations (fst acc)) k'"
  "snd (setAnnotation k v acc) \<longleftrightarrow> snd acc \<or> mget (Annotations (fst acc)) k \<noteq> v"
  by (cases "Annotations (fst acc)"; auto simp: setAnnotation_def mget_def split: prod.splits if_splits)+

lemma annotation_keys_distinct [simp]:
  "AnnotationKeyOriginalSelector \<noteq> AnnotationKeyGlobal"
  "AnnotationKeyGlobal \<noteq> AnnotationKeyOriginalSelector"
  "AnnotationNoPrefixLabelRegexp \<noteq> AnnotationKeyOriginalSelector"
  "AnnotationNoPrefixLabelRegexp \<noteq> AnnotationKeyGlobal"
  "AnnotationKeyOriginalSelector \<noteq> AnnotationKeyCiliumGlobalService"
  "AnnotationKeyGlobal \<noteq> AnnotationKeyCiliumGlobalService"
  "AnnotationNoPrefixLabelRegexp \<noteq> AnnotationKeyCiliumGlobalService"
  "AnnotationKeyCiliumGlobalService \<noteq> AnnotationKeyOriginalSelector"
  "AnnotationKeyCiliumGlobalService \<noteq> AnnotationKeyGlobal"
proof -
  have "KeyPrefix @ s \<noteq> AnnotationKeyCiliumGlobalService" "AnnotationKeyCiliumGlobalService \<noteq> KeyPrefix @ s" for s
    using cilium_not_prefixed by (metis HasPrefix_append)+
  then show
    "AnnotationKeyOriginalSelector \<noteq> AnnotationKeyGlobal"
    "AnnotationKeyGlobal \<noteq> AnnotationKeyOriginalSelector"
    "AnnotationNoPrefixLabelRegexp \<noteq> AnnotationKeyOriginalSelector"
    "AnnotationNoPrefixLabelRegexp \<noteq> AnnotationKeyGlobal"
    "AnnotationKeyOriginalSelector \<noteq> AnnotationKeyCiliumGlobalService"
    "AnnotationKeyGlobal \<noteq> AnnotationKeyCiliumGlobalService"
    "AnnotationNoPrefixLabelRegexp \<noteq> AnnotationKeyCiliumGlobalService"
    "AnnotationKeyCiliumGlobalService \<noteq> AnnotationKeyOriginalSelector"
    "AnnotationKeyCiliumGlobalService \<noteq> AnnotationKeyGlobal"
    by (simp_all add: key_simps)
qed

lemma annotatedService_simps [simp]:
  "svc_Spec (fst (annotatedService r svc has orig)) = svc_Spec svc"
  "Name (fst (annotatedService r svc has orig)) = Name svc"
  "Namespace (fst (annotatedService r svc has orig)) = Namespace svc"
  "Finalizers (fst (annotatedService r svc has orig)) =
     (if has then Finalizers svc else Finalizers svc @ [Finalizer (fe_target r)])"
  "Labels (fst (annotatedService r svc has orig)) =
     (if has then Labels svc else Some (fmupd LabelKeyHasFinalizer ''true'' (nonnil (Labels svc))))"
  "mget (Annotations (fst (annotatedService r svc has orig))) AnnotationKeyOriginalSelector = orig"
  "mget (Annotations (fst (annotatedService r svc has orig))) AnnotationKeyGlobal = ''true''"
  "mget (Annotations (fst (annotatedService r svc has orig))) AnnotationKeyCiliumGlobalService = ''true''"
  "mlookup (Annotations (fst (annotatedService r svc has orig))) AnnotationNoPrefixLabelRegexp =
     mlookup (Annotations svc) AnnotationNoPrefixLabelRegexp"
  "\<not> has \<Longrightarrow> snd (annotatedService r svc has orig)"
  by (auto simp: annotatedService_def addFinalizer_service_def Let_def split: if_splits)

lemma updatedService_cases:
  fixes svc :: service
  assumes u: "updatedService r svc has orig = Inr (c, need)"
  defines "a \<equiv> annotatedService r svc has orig"
    and "ch \<equiv> ChangeLabels (regexp_Compile r) (range_order r) (Selector (svc_Spec svc))
      (mget (Annotations svc) AnnotationNoPrefixLabelRegexp)"
  obtains (same) "c = fst a" "need = snd a" "serviceRerouteEnabled r \<longrightarrow> (\<exists>sel. ch = Inr (sel, False))"
  | (rerouted) sel where "c = (fst a)\<lparr>svc_Spec := (svc_Spec svc)\<lparr>Selector := Some sel\<rparr>\<rparr>" "need"
      "ch = Inr (sel, True)"
proof -
  obtain c0 n0 where a: "annotatedService r svc has orig = (c0, n0)" by fastforce
  have spec: "svc_Spec c0 = svc_Spec svc" using annotatedService_simps(1) [of r svc has orig] a by simp
  show ?thesis
  proof (cases "serviceRerouteEnabled r")
    case False
    then have "c = c0" "need = n0" using u by (simp_all add: updatedService_def a)
    with False show ?thesis by (intro same) (simp_all add: a_def a)
  next
    case True
    show ?thesis
    proof (cases ch)
      case (Inl err)
      then show ?thesis using u True by (simp add: updatedService_def a spec ch_def)
    next
      case (Inr sc)
      obtain sel changed where sc: "sc = (sel, changed)" by (cases sc)
      have u': "(c, need) = (if changed then (c0\<lparr>svc_Spec := (svc_Spec svc)\<lparr>Selector := Some sel\<rparr>\<rparr>, True) else (c0, n0))"
        using u True Inr sc by (cases changed) (simp_all add: updatedService_def a spec ch_def)
      show ?thesis
      proof (cases changed)
        case True
        with u' Inr sc show ?thesis by (intro rerouted [of sel]) (simp_all add: a_def a)
      next
        case False
        with u' Inr sc show ?thesis by (intro same) (auto simp: a_def a)
      qed
    qed
  qed
qed

lemma updatedService_keeps:
  assumes "updatedService r svc has orig = Inr (c, need)"
  shows "Namespace c = Namespace svc" "Name c = Name svc"
    "Finalizers c = (if has then Finalizers svc else Finalizers svc @ [Finalizer (fe_target r)])"
    "\<not> need \<Longrightarrow> has"
    "Annotations c = Annotations (fst (annotatedService r svc has orig))"
    "Labels c = (if has then Labels svc else Some (fmupd LabelKeyHasFinalizer ''true'' (nonnil (Labels svc))))"
  by (cases rule: updatedService_cases [OF assms]; simp; use annotatedService_simps(10) in blast)+

lemma svcChange_Some:
  "svcChange r rs s h = (Ret (Some rs'), h') \<Longrightarrow>
     \<exists>f. Labels rs = Some f \<and> rs' = rs\<lparr>svc_Spec := remoteServiceSpec rs s,
       Labels := Some (fmupd LabelKeyParentClusterName (clusterName r) f)\<rparr>"
  by (cases "Labels rs") (auto simp: svcChange_def io_simps split: if_splits)

interpretation svc: follower Handle_service svcSkip "\<lambda>r _ _ svc. tryM (shouldFollow_service r svc)" fst
  svcPrepare makeRemoteService svcChange svcOrphanErr
proof (unfold_locales, goal_cases)
  case (1 r key)
  then show ?case by (rule Handle_service_refines)
next
  case (2 r ns n obj)
  then show ?case by (rule emits_tryM)
next
  case (3 obj r d)
  then show ?case
    by (cases "updatedService r obj (Finalizer (fe_target r) \<in> set (Finalizers obj)) (snd d)")
      (auto simp: svcPrepare_def io_values updatedService_keeps(1-3,6) labelledAs_def intro!: emits_intros)
next
  case (4 r d obj h obj' h')
  then show ?case
    by (cases "updatedService r obj (Finalizer (fe_target r) \<in> set (Finalizers obj)) (snd d)")
      (auto simp: svcPrepare_def io_simps updatedService_keeps(1-3) dest: updatedService_keeps(4)
        split: if_splits sum.splits prod.splits)
next
  case (5 r ro obj)
  then show ?case by (auto simp: svcChange_def intro!: emits_intros)
next
  case (6 r ro obj h ro' h')
  then show ?case by (auto dest!: svcChange_Some)
next
  case (7 r obj)
  then show ?case by (simp add: makeRemoteService_def Let_def madeFor_def IsRemoteControlled_def key_simps)
qed


section \<open>Rerouting\<close>

text \<open>What the annotations of the updated service hold, and its selector.\<close>

lemma updatedService_annotations:
  assumes "updatedService r svc has orig = Inr (c, need)" and "orig \<noteq> []"
  shows "mlookup (Annotations c) AnnotationKeyOriginalSelector = Some orig"
proof -
  have "mget (Annotations c) AnnotationKeyOriginalSelector = orig"
    by (simp add: updatedService_keeps(5) [OF assms(1)])
  with assms(2) show ?thesis by (auto simp: mget_def split: option.splits)
qed

lemma updatedService_selector:
  assumes "updatedService r svc has orig = Inr (c, need)" and "serviceRerouteEnabled r"
  shows "\<exists>sel changed. ChangeLabels (regexp_Compile r) (range_order r) (Selector (svc_Spec svc))
      (mget (Annotations svc) AnnotationNoPrefixLabelRegexp) = Inr (sel, changed)
    \<and> Selector (svc_Spec c) = (if changed then Some sel else Selector (svc_Spec svc)) \<and> (changed \<longrightarrow> need)"
  by (cases rule: updatedService_cases [OF assms(1)]) (use assms(2) in auto)

lemma updatedService_returns:
  assumes "regexp_Compile r (mget (Annotations svc) AnnotationNoPrefixLabelRegexp) = Inr re"
  shows "\<exists>c need. updatedService r svc has orig = Inr (c, need)"
proof -
  obtain a b where a: "annotatedService r svc has orig = (a, b)" by fastforce
  obtain sel ch where "ChangeLabels (regexp_Compile r) (range_order r) (Selector (svc_Spec a))
      (mget (Annotations svc) AnnotationNoPrefixLabelRegexp) = Inr (sel, ch)"
    using assms by (fastforce simp: ChangeLabels_def)
  then show ?thesis using a by (auto simp: updatedService_def)
qed

lemma fmfilter_empty_iff: "fmfilter P m = fmempty \<longleftrightarrow> (\<forall>k v. fmlookup m k = Some v \<longrightarrow> \<not> P k)"
proof -
  have "fmfilter P m = fmempty \<longleftrightarrow> (\<forall>k. (if P k then fmlookup m k else None) = None)"
    by (metis fmap_ext fmempty_lookup fmlookup_filter)
  also have "\<dots> \<longleftrightarrow> (\<forall>k v. fmlookup m k = Some v \<longrightarrow> \<not> P k)"
    by (auto split: if_splits)
  finally show ?thesis .
qed

lemma fmempty_iff: "m = fmempty \<longleftrightarrow> (\<forall>k. fmlookup m k = None)"
  by (auto intro: fmap_ext)

lemma fmfilter_all: "(\<forall>k v. fmlookup m k = Some v \<longrightarrow> P k) \<Longrightarrow> fmfilter P m = m"
  by (rule fmap_ext, case_tac "fmlookup m x") auto

lemma foldl_fmupd_dom:
  "fmlookup m k \<noteq> None \<or> k \<in> fst ` set xs \<Longrightarrow> fmlookup (foldl (\<lambda>d (k, v). fmupd k v d) m xs) k \<noteq> None"
  by (induction xs arbitrary: m) (auto split: if_splits)

text \<open>A small instance: one selector label, a proxy pod that carries it, and a reconciler whose
  label selectors are written and read as the API machinery does for that selector.\<close>

definition sampleSelector :: "(string, string) fmap" where
  "sampleSelector = fmap_of_list [(''app'', ''web''), (''tier'', ''front'')]"

definition sampleService :: "string option \<Rightarrow> service" where
  "sampleService rx = zero_service\<lparr>Name := ''web'', Namespace := ''team'', UID := ''u1'',
     Annotations := (case rx of None \<Rightarrow> None | Some x \<Rightarrow> Some (fmupd AnnotationNoPrefixLabelRegexp x fmempty)),
     svc_Spec := zero_serviceSpec\<lparr>Selector := Some sampleSelector\<rparr>\<rparr>"

definition sampleTargetOf :: "string \<Rightarrow> agentTarget" where
  "sampleTargetOf n = \<lparr>t_Name = n, ClientConfig = [], Self = True, t_Namespace = ''team'',
     ExcludedLabelsRegexp = None, VirtualNodeName = ''admiralty-team-'' @ n, Finalizer = KeyPrefix @ ''team-'' @ n\<rparr>"

definition sampleNotFound :: error where
  "sampleNotFound = \<lparr>Error = ''not found'', IsNotFound = True, IsAlreadyExists = False\<rparr>"

definition sampleServiceReconciler :: serviceReconciler where
  "sampleServiceReconciler = \<lparr>clusterName = ''c1'', fe_target = sampleTargetOf ''prod'',
     SplitKey = (\<lambda>_. Some (''team'', ''web'')), lister_Get = (\<lambda>_ _. Inr (sampleService None)),
     remoteLister_Get = (\<lambda>_ _. Inl sampleNotFound),
     client_Update = (\<lambda>_ _ obj. Inr obj), remoteClient_Create = (\<lambda>_ _ obj. Inr obj),
     remoteClient_Update = (\<lambda>_ _ obj. Inr obj), remoteClient_Delete = (\<lambda>_ _ _. Inr ()),
     serviceRerouteEnabled = True,
     podLister_List = (\<lambda>_ _. Inr [zero_pod\<lparr>pod_Spec := zero_podSpec\<lparr>SchedulerName := ProxySchedulerName\<rparr>\<rparr>]),
     ConvertSelectorToLabelsMap = (\<lambda>_. Inr sampleSelector), SelectorString = (\<lambda>_. ''app=web,tier=front''),
     regexp_Compile = (\<lambda>_. Inr (\<lambda>s. s = ''tier=front'')),
     range_order = (\<lambda>_. [(''app'', ''web''), (''tier'', ''front'')])\<rparr>"

lemma sample_range: "is_range [(''app'', ''web''), (''tier'', ''front'')] sampleSelector"
  by (simp add: is_range_def sampleSelector_def)

lemma sample_selector:
  "Selector (svc_Spec (sampleService rx)) = Some sampleSelector"
  "fmlookup sampleSelector k = (if k = ''app'' then Some ''web'' else if k = ''tier'' then Some ''front'' else None)"
  "sampleSelector \<noteq> fmempty"
  by (simp_all add: sampleService_def sampleSelector_def fmlookup_of_list fmempty_iff [of "fmupd k v m" for k v m])

lemma sample_unprefixed: "\<not> HasPrefix ''app'' KeyPrefix" "\<not> HasPrefix ''tier'' KeyPrefix"
  by (simp_all add: HasPrefix_def KeyPrefix_def)


section \<open>Properties\<close>

text \<open>
  Property C24.  Rerouting can be undone: without a regular expression of labels to keep, the
  service as it is updated locally, whose selector no longer names the user's labels, leads to the
  same decision, with the same original selector, as the service before.
\<close>

theorem service_selector_recovered:
  assumes r: "serviceRerouteEnabled r" "regexp_Compile r [] = Inr re"
      "is_range (range_order r sel) sel"
      "ConvertSelectorToLabelsMap r (SelectorString r sel) = Inr sel" "SelectorString r sel \<noteq> []"
    and svc: "Selector (svc_Spec svc) = Some sel" "sel \<noteq> fmempty"
      "\<forall>k v. fmlookup sel k = Some v \<longrightarrow> \<not> HasPrefix k KeyPrefix"
      "mlookup (Annotations svc) AnnotationNoPrefixLabelRegexp = None"
    and d: "shouldFollow_service r svc = Inr (follow, orig)"
    and c: "updatedService r svc has orig = Inr (c, need)"
  shows "shouldFollow_service r c = Inr (follow, orig)"
proof -
  have filt: "fmfilter (\<lambda>k. \<not> HasPrefix k KeyPrefix) sel = sel"
    using svc(3) by (intro fmfilter_all) auto
  then have orig: "orig = SelectorString r sel"
    "podLister_List r (Namespace svc) sel = Inr pods \<Longrightarrow> follow = list_ex IsProxy pods"
    "\<exists>pods. podLister_List r (Namespace svc) sel = Inr pods" for pods
    using d svc by (auto simp: shouldFollow_service_def Let_def split: sum.splits)
  obtain k v where kv: "fmlookup sel k = Some v" using svc(2) by (auto simp: fmempty_iff)
  have mg: "mget (Annotations svc) AnnotationNoPrefixLabelRegexp = []" by (simp add: mget_def svc(4))
  obtain new ch where new: "ChangeLabels (regexp_Compile r) (range_order r) (Some sel) [] = Inr (new, ch)"
    "Selector (svc_Spec c) = (if ch then Some new else Some sel)"
    using updatedService_selector [OF c r(1)] svc(1) mg by auto
  have "ch" using new(1) r(2,3) kv is_rangeD [OF r(3)]
    by (auto simp: ChangeLabels_eq Let_def keepsLabel_def)
  moreover have pre: "fmlookup new k' = Some v' \<Longrightarrow> HasPrefix k' KeyPrefix" for k' v'
    using ChangeLabels_entry [OF new(1) r(2), of k' v'] r(3)
    by (auto simp: movedEntry_def keepsLabel_def newLabelKey_def)
  moreover have "new \<noteq> fmempty"
  proof -
    have "(k, v) \<in> set (range_order r sel)" using is_rangeD [OF r(3)] kv by simp
    then obtain xs y ys where xs: "range_order r sel = xs @ [y]"
      by (metis append_butlast_last_id list.distinct(1) list.set_cases)
    then show ?thesis using new(1) r(2)
      by (auto simp: ChangeLabels_eq Let_def case_prod_unfold fmempty_iff dest: spec [of _ "fst (movedEntry [] re y)"])
  qed
  ultimately have "shouldFollow_service r c =
      (case podLister_List r (Namespace svc) sel of Inl e \<Rightarrow> Inl e | Inr ps \<Rightarrow> Inr (list_ex IsProxy ps, orig))"
    using new(2) updatedService_annotations [OF c] r(4,5) orig(1) updatedService_keeps(1) [OF c]
    by (auto simp: shouldFollow_service_def Let_def fmfilter_empty_iff)
  with orig show ?thesis by auto
qed


theorem service_selector_recovered_witness:
  "\<exists>c. updatedService sampleServiceReconciler (sampleService None) False ''app=web,tier=front'' = Inr (c, True)
    \<and> shouldFollow_service sampleServiceReconciler c = Inr (True, ''app=web,tier=front'')"
proof -
  let ?r = sampleServiceReconciler and ?s = "sampleService None"
  have f: "fmfilter (\<lambda>k. \<not> HasPrefix k KeyPrefix) sampleSelector = sampleSelector"
    using sample_unprefixed by (intro fmfilter_all) (auto simp: sample_selector split: if_splits)
  have d: "shouldFollow_service ?r ?s = Inr (True, ''app=web,tier=front'')"
    by (simp add: shouldFollow_service_def sample_selector f sampleServiceReconciler_def IsProxy_def)
  have no: "mlookup (Annotations ?s) AnnotationNoPrefixLabelRegexp = None"
    by (simp add: sampleService_def)
  obtain c need where c: "updatedService ?r ?s False ''app=web,tier=front'' = Inr (c, need)"
    using updatedService_returns [of ?r ?s] by (fastforce simp: sampleServiceReconciler_def)
  moreover have "need" using updatedService_keeps(4) [OF c] by blast
  moreover have "shouldFollow_service ?r c = Inr (True, ''app=web,tier=front'')"
    by (rule service_selector_recovered [OF _ _ _ _ _ _ _ _ no d c, of "\<lambda>s. s = ''tier=front''" sampleSelector])
      (use sample_unprefixed in \<open>auto simp: sampleServiceReconciler_def sample_range sample_selector split: if_splits\<close>)
  ultimately show ?thesis by auto
qed

text \<open>
  With a regular expression that keeps one label of the selector and not another, the
  original selector is lost: the next decision rests on the kept labels only, and records them
  as the original selector.
\<close>

theorem service_selector_lost:
  assumes "serviceRerouteEnabled r" "regexp_Compile r rx = Inr re" "rx \<noteq> []"
      "is_range (range_order r sel) sel"
    and "Selector (svc_Spec svc) = Some sel" "mlookup (Annotations svc) AnnotationNoPrefixLabelRegexp = Some rx"
    and kept: "fmlookup sel k1 = Some v1" "\<not> HasPrefix k1 KeyPrefix" "re (k1 @ ''='' @ v1)"
    and moved: "fmlookup sel k2 = Some v2" "\<not> HasPrefix k2 KeyPrefix" "\<not> re (k2 @ ''='' @ v2)"
    and c: "updatedService r svc has orig = Inr (c, need)"
    and d: "shouldFollow_service r c = Inr (follow, orig')"
  shows "\<exists>sel'. orig' = SelectorString r sel' \<and> fmlookup sel' k2 = None"
proof -
  have mg: "mget (Annotations svc) AnnotationNoPrefixLabelRegexp = rx" by (simp add: mget_def assms(6))
  have rng: "is_range (range_order r (nonnil (Some sel))) (nonnil (Some sel))" using assms(4) by simp
  obtain new ch where new: "ChangeLabels (regexp_Compile r) (range_order r) (Some sel) rx = Inr (new, ch)"
    "Selector (svc_Spec c) = (if ch then Some new else Some sel)"
    using updatedService_selector [OF c assms(1)] assms(5) mg by auto
  have in_rng: "(k1, v1) \<in> set (range_order r sel)" "(k2, v2) \<in> set (range_order r sel)"
    using kept(1) moved(1) is_rangeD [OF assms(4)] by simp_all
  have keeps: "\<not> keepsLabel rx re (k2, v2)" "movedEntry rx re (k1, v1) = (k1, v1)"
    using moved(3) kept(3) assms(3) by (simp_all add: keepsLabel_def movedEntry_def)
  have ch: "ch" "new = foldl (\<lambda>d (k, v). fmupd k v d) fmempty (map (movedEntry rx re) (range_order r sel))"
    using new(1) assms(2) in_rng(2) keeps(1) by (auto simp: ChangeLabels_eq Let_def)
  have "k1 \<in> fst ` set (map (movedEntry rx re) (range_order r sel))"
    using in_rng(1) keeps(2) by force
  then have k1: "fmlookup new k1 \<noteq> None" unfolding ch(2) by (intro foldl_fmupd_dom) blast
  have k2: "fmlookup new k2 = None"
  proof (rule ccontr)
    assume "fmlookup new k2 \<noteq> None"
    then obtain v k0 where "mlookup (Some sel) k0 = Some v" "(k2, v) = movedEntry rx re (k0, v)"
      using ChangeLabels_entry [OF new(1) assms(2) rng] by blast
    with moved show False
      by (cases "keepsLabel rx re (k0, v)") (auto simp: movedEntry_def newLabelKey_def keepsLabel_def)
  qed
  have "fmfilter (\<lambda>k. \<not> HasPrefix k KeyPrefix) new \<noteq> fmempty" "new \<noteq> fmempty"
    using k1 kept(2) by (auto simp: fmfilter_empty_iff)
  then have "orig' = SelectorString r (fmfilter (\<lambda>k. \<not> HasPrefix k KeyPrefix) new)"
    using d new(2) ch(1) by (auto simp: shouldFollow_service_def Let_def split: sum.splits)
  with k2 show ?thesis by (intro exI [of _ "fmfilter (\<lambda>k. \<not> HasPrefix k KeyPrefix) new"]) simp
qed

theorem service_selector_lost_witness:
  "\<exists>c orig' sel'. updatedService sampleServiceReconciler (sampleService (Some ''tier=.*'')) False
        ''app=web,tier=front'' = Inr (c, True)
    \<and> shouldFollow_service sampleServiceReconciler c = Inr (True, orig')
    \<and> orig' = SelectorString sampleServiceReconciler sel' \<and> fmlookup sel' ''app'' = None"
proof -
  let ?r = sampleServiceReconciler and ?s = "sampleService (Some ''tier=.*'')"
  have rx: "mlookup (Annotations ?s) AnnotationNoPrefixLabelRegexp = Some ''tier=.*''"
    by (simp add: sampleService_def)
  obtain c need where c: "updatedService ?r ?s False ''app=web,tier=front'' = Inr (c, need)"
    using updatedService_returns [of ?r ?s] by (fastforce simp: sampleServiceReconciler_def)
  have need: "need" using updatedService_keeps(4) [OF c] by blast
  have "mlookup (Annotations c) AnnotationKeyOriginalSelector = Some ''app=web,tier=front''"
    by (rule updatedService_annotations [OF c]) simp
  moreover have "Selector (svc_Spec c) \<noteq> None" "nonnil (Selector (svc_Spec c)) \<noteq> fmempty"
    using updatedService_selector [OF c] rx
    by (auto simp: sampleServiceReconciler_def mget_def ChangeLabels_def changeLabelsStep_def
        sample_selector KeyPrefix_def fmempty_iff [of "fmupd k v m" for k v m] split: if_splits)
  ultimately have "\<exists>orig'. shouldFollow_service ?r c = Inr (True, orig')"
    by (auto simp: shouldFollow_service_def Let_def sampleServiceReconciler_def IsProxy_def)
  then obtain orig' where d: "shouldFollow_service ?r c = Inr (True, orig')" ..
  have "\<exists>sel'. orig' = SelectorString ?r sel' \<and> fmlookup sel' ''app'' = None"
    by (rule service_selector_lost [OF _ _ _ _ sample_selector(1) rx _ _ _ _ _ _ c d, of "\<lambda>s. s = ''tier=front''" "''tier''" "''front''" _ "''web''"])
      (use sample_unprefixed in \<open>simp_all add: sampleServiceReconciler_def sample_range sample_selector\<close>)
  with c need d show ?thesis by auto
qed

end
