(* ===== verification/Follow_Ingress.thy ===== *)
theory Follow_Ingress
  imports Follow_Common
begin

text \<open>
  The controller that makes ingresses follow the global services they expose
  (\<open>pkg/controllers/follow/ingress/controller.go\<close>).  A rule without an \<open>HTTP\<close> part is a valid
  ingress rule; dereferencing it panics.
\<close>

section \<open>Index and events\<close>

record ingressReconciler = "ingress followEnv" +
  svcLister_Get :: "string \<Rightarrow> string \<Rightarrow> error + service"
  ingressesByService :: "string \<Rightarrow> ingress list option"

text \<open>The paths of all rules, in order; \<open>None\<close> is the panic on a rule without \<open>HTTP\<close>.\<close>

fun indexRules :: "string \<Rightarrow> ingressRule list \<Rightarrow> string list option" where
  "indexRules ns [] = Some []"
| "indexRules ns (rule # rules) =
     (case HTTP rule of
        None \<Rightarrow> None
      | Some paths \<Rightarrow>
          map_option (\<lambda>keys. foldl (\<lambda>keys path. case path of
              None \<Rightarrow> keys | Some svc \<Rightarrow> keys @ [ns @ ''/'' @ svc]) [] paths @ keys) (indexRules ns rules))"

definition indexIngressByService :: "ingress \<Rightarrow> string list option" where
  "indexIngressByService ing = indexRules (Namespace ing) (Rules (ing_Spec ing))"

fun enqueueObjects :: "('o \<Rightarrow> error + string) \<Rightarrow> 'o list \<Rightarrow> (string wq_call, unit) io" where
  "enqueueObjects keyFunc [] = ret ()"
| "enqueueObjects keyFunc (obj # objs) =
     bindM (EnqueueObject keyFunc obj) (\<lambda>_. enqueueObjects keyFunc objs)"

definition enqueueIngressForService ::
  "(ingress \<Rightarrow> error + string) \<Rightarrow> (string \<Rightarrow> ingress list option) \<Rightarrow> service \<Rightarrow> (string wq_call, unit) io" where
  "enqueueIngressForService keyFunc byIndex svc =
     bindM (must (byIndex (Namespace svc @ ''/'' @ Name svc))) (enqueueObjects keyFunc)"

datatype ingressEvent =
    IngressEvent "ingress notification"
  | RemoteIngressEvent "ingress notification"
  | IngressServiceEvent "service notification"

fun NewIngressController ::
  "(ingress \<Rightarrow> error + string) \<Rightarrow> (string \<Rightarrow> ingress list option) \<Rightarrow> string \<Rightarrow> ingressEvent
     \<Rightarrow> (string wq_call, unit) io" where
  "NewIngressController keyFunc byIndex cluster (IngressEvent n) = HandleAddUpdateWith (EnqueueObject keyFunc) n"
| "NewIngressController keyFunc byIndex cluster (RemoteIngressEvent n) =
     HandleAllWith (EnqueueRemoteController cluster) n"
| "NewIngressController keyFunc byIndex cluster (IngressServiceEvent n) =
     HandleAllWith (enqueueIngressForService keyFunc byIndex) n"


section \<open>The reconciler\<close>

text \<open>The search over the paths, then over the rules; \<open>None\<close> is the panic.\<close>

definition pathIsGlobal :: "ingressReconciler \<Rightarrow> string \<Rightarrow> string option \<Rightarrow> bool" where
  "pathIsGlobal r ns path \<longleftrightarrow>
     (case path of
        None \<Rightarrow> False
      | Some n \<Rightarrow>
          (case svcLister_Get r ns n of
             Inl err \<Rightarrow> False
           | Inr svc \<Rightarrow> mget (Annotations svc) AnnotationKeyGlobal = ''true''))"

fun shouldFollowRules :: "ingressReconciler \<Rightarrow> string \<Rightarrow> ingressRule list \<Rightarrow> bool option" where
  "shouldFollowRules r ns [] = Some False"
| "shouldFollowRules r ns (rule # rules) =
     (case HTTP rule of
        None \<Rightarrow> None
      | Some paths \<Rightarrow> if list_ex (pathIsGlobal r ns) paths then Some True else shouldFollowRules r ns rules)"

definition shouldFollow_ingress :: "ingressReconciler \<Rightarrow> ingress \<Rightarrow> bool option" where
  "shouldFollow_ingress r ing = shouldFollowRules r (Namespace ing) (Rules (ing_Spec ing))"

text \<open>The annotations of the local ingress, other than the program's own, that the remote one lacks
  or has with another value.\<close>

definition annotationDiff :: "ingress \<Rightarrow> ingress \<Rightarrow> (string, string) fmap" where
  "annotationDiff remoteIngress ing =
     fmfilter (\<lambda>k. \<not> HasPrefix k KeyPrefix
       \<and> (case mlookup (Annotations remoteIngress) k of
            Some _ \<Rightarrow> mget (Annotations remoteIngress) k \<noteq> mget (Annotations ing) k
          | None \<Rightarrow> True)) (nonnil (Annotations ing))"

definition shouldUpdate ::
  "ingressReconciler \<Rightarrow> ingress \<Rightarrow> ingress \<Rightarrow> (ingress, ingress \<times> bool) followIO" where
  "shouldUpdate r remoteIngress ing =
     (let (copy, upd) = (if ing_Spec remoteIngress \<noteq> ing_Spec ing
              then (remoteIngress\<lparr>ing_Spec := ing_Spec ing\<rparr>, True) else (remoteIngress, False));
          diff = annotationDiff remoteIngress ing
      in bindM (if diff \<noteq> fmempty
                then (case Annotations copy of
                        None \<Rightarrow> panic
                      | Some a \<Rightarrow> ret (copy\<lparr>Annotations := Some (copyInto a (Some diff))\<rparr>, True))
                else ret (copy, upd)) (\<lambda>(copy, upd).
         if mget (Labels remoteIngress) LabelKeyParentClusterName \<noteq> clusterName r
         then bindM (mwrite (Labels copy) LabelKeyParentClusterName (clusterName r)) (\<lambda>labels.
              ret (copy\<lparr>Labels := labels\<rparr>, True))
         else ret (copy, upd)))"

definition addFinalizer_ingress :: "ingressReconciler \<Rightarrow> ingress \<Rightarrow> (ingress, ingress) followIO" where
  "addFinalizer_ingress r ing =
     updateLocal r (Namespace ing)
       (ing\<lparr>Finalizers := Finalizers ing @ [Finalizer (fe_target r)],
            Labels := Some (fmupd LabelKeyHasFinalizer ''true'' (nonnil (Labels ing))),
            Annotations := Some (fmupd AnnotationKeyGlobal ''true'' (nonnil (Annotations ing)))\<rparr>)"

definition removeFinalizer_ingress ::
  "ingressReconciler \<Rightarrow> ingress \<Rightarrow> int \<Rightarrow> (ingress, ingress) followIO" where
  "removeFinalizer_ingress r ing j =
     bindM (must (removeAt j (Finalizers ing))) (\<lambda>fs. updateLocal r (Namespace ing) (ing\<lparr>Finalizers := fs\<rparr>))"

definition makeRemoteIngress :: "ingressReconciler \<Rightarrow> ingress \<Rightarrow> ingress" where
  "makeRemoteIngress r ing =
     (let gold = zero_ingress
        \<lparr>Name := Name ing,
         Labels := Some (copyInto fmempty (Labels ing)),
         Annotations := Some (fmupd AnnotationKeyGlobal ''true''
           (fmupd AnnotationKeyIsDelegate [] (copyInto fmempty (Annotations ing))))\<rparr>;
          gold = AddRemoteControllerReference gold ing (clusterName r)
      in gold\<lparr>ing_Spec := ing_Spec ing\<rparr>)"

definition Handle_ingress :: "ingressReconciler \<Rightarrow> string \<Rightarrow> (ingress, nat option) followIO" where
  "Handle_ingress r key =
     bindM (must (SplitKey r key)) (\<lambda>(namespace, name).
     bindM (getRemote r namespace name) (\<lambda>remoteIngress.
     case lister_Get r namespace name of
       Inl err \<Rightarrow>
         if IsNotFound err then
           (case remoteIngress of
              None \<Rightarrow> ret None
            | Some ri \<Rightarrow>
                if IsRemoteControlled ri (clusterName r)
                then bindM (deleteRemote r (\<lambda>err. Errorf (''cannot delete orphaned ingress: '' @ Error err))
                       namespace name) (\<lambda>_. ret None)
                else ret None)
         else fail err
     | Inr ing \<Rightarrow>
         if mlookup (Annotations ing) AnnotationKeyIsDelegate \<noteq> None then ret None
         else
         let terminating = (DeletionTimestamp ing \<noteq> None);
             (hasFinalizer, j) = HasFinalizer (Finalizers ing) (Finalizer (fe_target r))
         in bindM (must (shouldFollow_ingress r ing)) (\<lambda>shouldFollow.
            if (case remoteIngress of None \<Rightarrow> False | Some ri \<Rightarrow> \<not> ParentControlsChild ri ing) then ret None
            else if terminating then
              (case remoteIngress of
                 Some _ \<Rightarrow> bindM (deleteRemote r id namespace name) (\<lambda>_. ret None)
               | None \<Rightarrow>
                   if hasFinalizer then bindM (removeFinalizer_ingress r ing j) (\<lambda>_. ret None)
                   else ret None)
            else if shouldFollow then
              bindM (if \<not> hasFinalizer then addFinalizer_ingress r ing else ret ing) (\<lambda>ing.
                case remoteIngress of
                  None \<Rightarrow> bindM (createRemote r namespace (makeRemoteIngress r ing)) (\<lambda>_. ret None)
                | Some ri \<Rightarrow>
                    bindM (shouldUpdate r ri ing) (\<lambda>(remoteIngressCopy, upd).
                      if upd then bindM (updateRemote r namespace remoteIngressCopy) (\<lambda>_. ret None)
                      else ret None))
            else ret None)))"


section \<open>The contract\<close>

definition ingPrepare :: "ingressReconciler \<Rightarrow> bool \<Rightarrow> ingress \<Rightarrow> (ingress, ingress) followIO" where
  "ingPrepare r d ing =
     (if Finalizer (fe_target r) \<in> set (Finalizers ing) then ret ing else addFinalizer_ingress r ing)"

definition ingChange :: "ingressReconciler \<Rightarrow> ingress \<Rightarrow> ingress \<Rightarrow> (ingress, ingress option) followIO" where
  "ingChange r ri ing =
     bindM (shouldUpdate r ri ing) (\<lambda>(copy, upd). ret (if upd then Some copy else None))"

abbreviation ingOrphanErr :: "error \<Rightarrow> error" where
  "ingOrphanErr \<equiv> \<lambda>err. Errorf (''cannot delete orphaned ingress: '' @ Error err)"

abbreviation ingSkip :: "ingress \<Rightarrow> bool" where
  "ingSkip \<equiv> \<lambda>ing. mlookup (Annotations ing) AnnotationKeyIsDelegate \<noteq> None"

lemma Handle_ingress_refines:
  "Handle_ingress r key = followSpec ingSkip (\<lambda>_ _ ing. must (shouldFollow_ingress r ing)) id
     (ingPrepare r) (makeRemoteIngress r) (ingChange r) ingOrphanErr r key"
proof (cases "SplitKey r key")
  case (Some k)
  obtain ns n where k: "k = (ns, n)" by (cases k)
  show ?thesis
  proof (cases "lister_Get r ns n")
    case (Inr ing)
    have upd: "bindM (ingChange r ri x) (\<lambda>u. case u of
          Some ro' \<Rightarrow> bindM (updateRemote r ns ro') (\<lambda>_. ret None) | None \<Rightarrow> ret None) =
        bindM (shouldUpdate r ri x) (\<lambda>(copy, upd). if upd
          then bindM (updateRemote r ns copy) (\<lambda>_. ret None) else ret None)" for ri x
      unfolding ingChange_def bindM_assoc
      by (rule arg_cong [where f = "bindM (shouldUpdate r ri x)"], rule ext) (simp split: prod.split)
    show ?thesis
      by (cases rule: getRemote_cases [of r ns n];
          cases rule: HasFinalizer_cases [of "Finalizers ing" "Finalizer (fe_target r)"])
        (simp_all add: Some k Inr Handle_ingress_def followSpec_def io_values ingPrepare_def upd
          removeFinalizer_ingress_def bindM_assoc if_distrib [of "\<lambda>m. bindM m f" for f] cong: if_cong)
  qed (cases rule: getRemote_cases [of r ns n];
      simp add: Some k Handle_ingress_def followSpec_def io_values cong: if_cong)
qed (simp add: Handle_ingress_def followSpec_def io_values)


text \<open>The remote ingress after an update: it differs from the old one by the spec, the user's
  annotations and the parent's cluster name.\<close>

definition updatedIngress :: "ingressReconciler \<Rightarrow> ingress \<Rightarrow> ingress \<Rightarrow> ingress" where
  "updatedIngress r ri ing = ri
     \<lparr>ing_Spec := ing_Spec ing,
      Annotations := (if annotationDiff ri ing = fmempty then Annotations ri
        else Some (copyInto (nonnil (Annotations ri)) (Some (annotationDiff ri ing)))),
      Labels := (if mget (Labels ri) LabelKeyParentClusterName \<noteq> clusterName r
        then Some (fmupd LabelKeyParentClusterName (clusterName r) (nonnil (Labels ri))) else Labels ri)\<rparr>"

definition ingSynced :: "ingressReconciler \<Rightarrow> ingress \<Rightarrow> ingress \<Rightarrow> bool" where
  "ingSynced r ri ing \<longleftrightarrow> ing_Spec ri = ing_Spec ing \<and> annotationDiff ri ing = fmempty
     \<and> mget (Labels ri) LabelKeyParentClusterName = clusterName r"

lemma ingChange_eq:
  "ingChange r ri ing =
     (if annotationDiff ri ing \<noteq> fmempty \<and> Annotations ri = None then panic
      else if mget (Labels ri) LabelKeyParentClusterName \<noteq> clusterName r \<and> Labels ri = None then panic
      else if ingSynced r ri ing then ret None
      else ret (Some (updatedIngress r ri ing)))"
proof -
  have eq: "ing_Spec ri = sp \<Longrightarrow> ri\<lparr>ing_Spec := sp\<rparr> = ri" "Annotations x = a \<Longrightarrow> x\<lparr>Annotations := a\<rparr> = x"
    "Labels x = l \<Longrightarrow> x\<lparr>Labels := l\<rparr> = x" for sp a l and x :: ingress by auto
  show ?thesis
    by (cases "ing_Spec ri = ing_Spec ing"; cases "annotationDiff ri ing = fmempty";
        cases "mget (Labels ri) LabelKeyParentClusterName = clusterName r"; cases "Annotations ri"; cases "Labels ri")
      (simp_all add: ingChange_def shouldUpdate_def ingSynced_def updatedIngress_def io_values eq)
qed


definition ingStored :: "ingress \<Rightarrow> ingress \<Rightarrow> bool" where
  "ingStored w ri \<longleftrightarrow> Name ri = Name w \<and> sameEntries (Labels w) (Labels ri)
     \<and> sameEntries (Annotations w) (Annotations ri) \<and> ing_Spec ri = ing_Spec w"

text \<open>The user's annotations of the local ingress are all on the remote one.\<close>

lemma annotationDiff_empty_iff:
  "annotationDiff ri ing = fmempty \<longleftrightarrow>
     (\<forall>k v. mlookup (Annotations ing) k = Some v \<longrightarrow> \<not> HasPrefix k KeyPrefix \<longrightarrow>
        mlookup (Annotations ri) k = Some v)"
proof -
  have "fmlookup (annotationDiff ri ing) k = None \<longleftrightarrow> (\<forall>v. mlookup (Annotations ing) k = Some v \<longrightarrow>
      \<not> HasPrefix k KeyPrefix \<longrightarrow> mlookup (Annotations ri) k = Some v)" for k
    by (cases "mlookup (Annotations ing) k"; cases "mlookup (Annotations ri) k")
      (auto simp: annotationDiff_def mget_def)
  note pointwise = this
  have "annotationDiff ri ing = fmempty \<longleftrightarrow> (\<forall>k. fmlookup (annotationDiff ri ing) k = None)"
    by (metis fmap_ext fmempty_lookup)
  also have "\<dots> \<longleftrightarrow> (\<forall>k v. mlookup (Annotations ing) k = Some v \<longrightarrow> \<not> HasPrefix k KeyPrefix \<longrightarrow>
        mlookup (Annotations ri) k = Some v)"
    by (simp only: pointwise)
  finally show ?thesis .
qed

lemma updatedIngress_annotations:
  "mlookup (Annotations (updatedIngress r ri ing)) k =
     (if HasPrefix k KeyPrefix then mlookup (Annotations ri) k
      else case mlookup (Annotations ing) k of None \<Rightarrow> mlookup (Annotations ri) k | Some v \<Rightarrow> Some v)"
proof -
  have "mlookup (Annotations (updatedIngress r ri ing)) k =
      (case fmlookup (annotationDiff ri ing) k of None \<Rightarrow> mlookup (Annotations ri) k | Some v \<Rightarrow> Some v)"
    by (auto simp: updatedIngress_def split: option.splits)
  also have "\<dots> = (if HasPrefix k KeyPrefix then mlookup (Annotations ri) k
      else case mlookup (Annotations ing) k of None \<Rightarrow> mlookup (Annotations ri) k | Some v \<Rightarrow> Some v)"
    by (auto simp: annotationDiff_def mget_def split: option.splits)
  finally show ?thesis .
qed

lemma updatedIngress_owned:
  "Name (updatedIngress r ri ing) = Name ri"
  "mget (Labels (updatedIngress r ri ing)) LabelKeyParentClusterName = clusterName r"
  "ParentControlsChild (updatedIngress r ri ing) p = ParentControlsChild ri p"
proof -
  have "mlookup (Annotations (updatedIngress r ri ing)) LabelKeyParentUID = mlookup (Annotations ri) LabelKeyParentUID"
    unfolding updatedIngress_annotations by (simp add: key_simps)
  moreover have "mget (Labels (updatedIngress r ri ing)) LabelKeyParentUID = mget (Labels ri) LabelKeyParentUID"
    by (cases "Labels ri") (simp_all add: updatedIngress_def key_simps mget_def)
  ultimately show "ParentControlsChild (updatedIngress r ri ing) p = ParentControlsChild ri p"
    by (simp add: ParentControlsChild_def mget_def)
qed (simp_all add: updatedIngress_def)

lemma updatedIngress_synced: "ingSynced r (updatedIngress r ri ing) ing"
  by (simp add: ingSynced_def annotationDiff_empty_iff updatedIngress_annotations updatedIngress_owned)
    (simp add: updatedIngress_def)

lemma makeRemoteIngress_synced:
  "ingSynced r (makeRemoteIngress r ing) ing" "ParentControlsChild (makeRemoteIngress r ing) ing"
proof -
  have "HasPrefix AnnotationKeyGlobal KeyPrefix" "HasPrefix AnnotationKeyIsDelegate KeyPrefix"
    "HasPrefix AnnotationKeyParentName KeyPrefix" "HasPrefix AnnotationKeyParentNamespace KeyPrefix"
    by (simp_all add: key_simps)
  then show "ingSynced r (makeRemoteIngress r ing) ing"
    by (auto simp: ingSynced_def annotationDiff_empty_iff makeRemoteIngress_def Let_def)
  show "ParentControlsChild (makeRemoteIngress r ing) ing"
    by (simp add: makeRemoteIngress_def Let_def ParentControlsChild_def key_simps)
qed

lemma ingSynced_stored: "\<lbrakk>ingSynced r w ing; ingStored w ri\<rbrakk> \<Longrightarrow> ingSynced r ri ing"
  by (auto simp: ingSynced_def ingStored_def annotationDiff_empty_iff
      sameEntries_mlookup [of "Annotations w"] sameEntries_mget [of "Labels w"])

lemma ingStored_owned: "ingStored w ri \<Longrightarrow> ParentControlsChild ri p = ParentControlsChild w p"
  by (rule ParentControlsChild_same) (simp_all add: ingStored_def)

lemma ingChange_Some:
  "ingChange r ri ing h = (Ret (Some ri'), h') \<Longrightarrow> ri' = updatedIngress r ri ing"
  by (auto simp: ingChange_eq io_simps split: if_splits)

interpretation ing: syncing Handle_ingress ingSkip "\<lambda>r _ _ ing. must (shouldFollow_ingress r ing)" id
  ingPrepare makeRemoteIngress ingChange ingOrphanErr ingStored "\<lambda>_. True" ingSynced
proof (unfold_locales, goal_cases)
  case (1 r key)
  then show ?case by (rule Handle_ingress_refines)
next
  case (2 r ns n obj)
  then show ?case by (rule emits_must)
next
  case (3 obj r d)
  then show ?case
    by (auto simp: ingPrepare_def addFinalizer_ingress_def labelledAs_def intro!: emits_intros)
next
  case (4 r d obj h obj' h')
  then show ?case
    by (auto simp: ingPrepare_def addFinalizer_ingress_def io_simps split: if_splits sum.splits)
next
  case (5 r ro obj)
  then show ?case by (auto simp: ingChange_eq intro!: emits_intros)
next
  case (6 r ro obj h ro' h')
  then show ?case by (auto dest!: ingChange_Some simp: updatedIngress_owned)
next
  case (7 r obj)
  then show ?case by (simp add: makeRemoteIngress_def Let_def madeFor_def IsRemoteControlled_def key_simps)
next
  case (8 r ro obj)
  then show ?case by (simp add: ingChange_eq) (simp add: ingSynced_def)
next
  case (9 r ro obj h h')
  then show ?case by (auto simp: ingChange_eq io_simps split: if_splits)
next
  case (10 r ro obj h ro' h' ro'')
  then have "ro' = updatedIngress r ro obj" by (blast dest: ingChange_Some)
  with 10 show ?case
    using ingSynced_stored [OF updatedIngress_synced, of r ro obj ro''] ingStored_owned [of ro' ro'' obj]
    by (simp add: updatedIngress_owned)
next
  case (11 r obj ro'')
  then show ?case
    using makeRemoteIngress_synced ingSynced_stored ingStored_owned by blast
next
  case (12 r obj d)
  then show ?case by (simp add: ingPrepare_def)
next
  case (13 r g)
  then show ?case by (simp add: ingSynced_def fun_eq_iff)
qed

end
