(* ===== verification/Follow_Properties.thy ===== *)
theory Follow_Properties
  imports Follow_ConfigMap Follow_Secret Follow_Service Follow_Ingress
begin

text \<open>
  The properties of the four follow controllers, read off the contracts they interpret: what they
  may do to either cluster, in which order, whom they follow, and that they come to rest.
\<close>

section \<open>A small instance\<close>

definition sampleConfigMap :: configMap where
  "sampleConfigMap = zero_configMap\<lparr>Name := ''conf'', Namespace := ''team'', UID := ''u1'',
     Finalizers := [KeyPrefix @ ''team-prod''], cm_Data := Some (fmupd ''a'' ''1'' fmempty)\<rparr>"

definition sampleUser :: pod where
  "sampleUser = zero_pod\<lparr>Name := ''web'', Namespace := ''team'', pod_Spec := zero_podSpec
     \<lparr>SchedulerName := ProxySchedulerName, NodeName := ''admiralty-team-prod'', ImagePullSecrets := [''reg''],
      Volumes := [\<lparr>vol_Name = ''v'', vol_ConfigMap = Some ''conf'', vol_Secret = None, vol_Projected = None,
        vol_Other = []\<rparr>]\<rparr>\<rparr>"

definition sampleReconciler :: "configMap \<Rightarrow> error + configMap \<Rightarrow> configMapReconciler" where
  "sampleReconciler obj remote = \<lparr>clusterName = ''c1'', fe_target = sampleTargetOf ''prod'',
     SplitKey = (\<lambda>_. Some (''team'', ''conf'')), lister_Get = (\<lambda>_ _. Inr obj),
     remoteLister_Get = (\<lambda>_ _. remote),
     client_Update = (\<lambda>_ _ obj. Inr obj), remoteClient_Create = (\<lambda>_ _ obj. Inr obj),
     remoteClient_Update = (\<lambda>_ _ obj. Inr obj), remoteClient_Delete = (\<lambda>_ _ _. Inr ()),
     podsByConfigMap = (\<lambda>k. filter (\<lambda>p. k \<in> set (indexProxyPodByConfigMaps p)) [sampleUser])\<rparr>"

lemma sample_user:
  "IsProxy sampleUser" "usesConfigMap sampleUser ''conf''" "usesSecret sampleUser ''reg''"
  "Namespace sampleUser = ''team''" "NodeName (pod_Spec sampleUser) = ''admiralty-team-prod''"
  by (simp_all add: sampleUser_def IsProxy_def usesConfigMap_def usesSecret_def)

lemma sample_reconciler [simp]:
  "clusterName (sampleReconciler obj remote) = ''c1''"
  "fe_target (sampleReconciler obj remote) = sampleTargetOf ''prod''"
  "SplitKey (sampleReconciler obj remote) k = Some (''team'', ''conf'')"
  "lister_Get (sampleReconciler obj remote) ns n = Inr obj"
  "remoteLister_Get (sampleReconciler obj remote) ns n = remote"
  "podsByConfigMap (sampleReconciler obj remote) k =
     filter (\<lambda>p. k \<in> set (indexProxyPodByConfigMaps p)) [sampleUser]"
  "Finalizer (sampleTargetOf ''prod'') = KeyPrefix @ ''team-prod''"
  "VirtualNodeName (sampleTargetOf ''prod'') = ''admiralty-team-prod''"
  by (simp_all add: sampleReconciler_def sampleTargetOf_def)

lemma sample_not_found [simp]: "IsNotFound sampleNotFound"
  by (simp add: sampleNotFound_def)

lemma sample_follows: "shouldFollow_configMap (sampleReconciler obj remote) ''team'' ''conf''"
  using set_indexProxyPodByConfigMaps [of "''team/conf''" sampleUser] sample_user
  by (simp add: shouldFollow_configMap_def GetScheduledClusterName_def)


section \<open>Safety\<close>

text \<open>
  Property C17.  A follow controller touches nothing it does not own, for every behaviour of the two
  API servers: it deletes or updates a remote object only if the cache holds it and it belongs to
  the local object (which is terminating when it is deleted) or, without a local object, to this
  cluster; it creates one only when none is known and the local object is alive, and what it creates
  is made for that object: with its name, its UID, the name of this cluster and the key by which the
  controller finds the local object again, all as the cache has them or as the update that added the finalizer
  returned them; and it writes no other local object than the one of the key.  A key that does not
  split is a panic.
\<close>

theorem follow_owned_only:
  "(case SplitKey rc key of None \<Rightarrow> Handle_configMap rc key = panic
      | Some (ns, n) \<Rightarrow> emits (ownedOnly rc ns n) (Handle_configMap rc key))
   \<and> (case SplitKey rs key of None \<Rightarrow> Handle_secret rs key = panic
      | Some (ns, n) \<Rightarrow> emits (ownedOnly rs ns n) (Handle_secret rs key))
   \<and> (case SplitKey rv key of None \<Rightarrow> Handle_service rv key = panic
      | Some (ns, n) \<Rightarrow> emits (ownedOnly rv ns n) (Handle_service rv key))
   \<and> (case SplitKey ri key of None \<Rightarrow> Handle_ingress ri key = panic
      | Some (ns, n) \<Rightarrow> emits (ownedOnly ri ns n) (Handle_ingress ri key))"
  by (intro conjI cm.handle_guarantees sec.handle_guarantees svc.handle_guarantees ing.handle_guarantees)

text \<open>
  Property C19.  The finalizer protects the remote object: a local update keeps the target's
  finalizer, or takes it, once and nothing else, off a terminating object whose remote object is
  gone.
\<close>

theorem follow_releases_only_gone:
  "(case SplitKey rc key of None \<Rightarrow> Handle_configMap rc key = panic
      | Some (ns, n) \<Rightarrow> emits (releasesOnlyGone rc ns n) (Handle_configMap rc key))
   \<and> (case SplitKey rs key of None \<Rightarrow> Handle_secret rs key = panic
      | Some (ns, n) \<Rightarrow> emits (releasesOnlyGone rs ns n) (Handle_secret rs key))
   \<and> (case SplitKey rv key of None \<Rightarrow> Handle_service rv key = panic
      | Some (ns, n) \<Rightarrow> emits (releasesOnlyGone rv ns n) (Handle_service rv key))
   \<and> (case SplitKey ri key of None \<Rightarrow> Handle_ingress ri key = panic
      | Some (ns, n) \<Rightarrow> emits (releasesOnlyGone ri ns n) (Handle_ingress ri key))"
  by (intro conjI cm.handle_guarantees sec.handle_guarantees svc.handle_guarantees ing.handle_guarantees)

text \<open>
  Property C18.  No remote object is created without a finalizer on the local one: in every run, a
  creation is preceded by nothing, with the finalizer in the cache already, or by one local update
  that adds the finalizer and succeeded.
\<close>

theorem follow_create_guarded:
  "(case SplitKey rc key of None \<Rightarrow> Handle_configMap rc key = panic
      | Some (ns, n) \<Rightarrow> createdGuarded rc ns n (snd (Handle_configMap rc key [])))
   \<and> (case SplitKey rs key of None \<Rightarrow> Handle_secret rs key = panic
      | Some (ns, n) \<Rightarrow> createdGuarded rs ns n (snd (Handle_secret rs key [])))
   \<and> (case SplitKey rv key of None \<Rightarrow> Handle_service rv key = panic
      | Some (ns, n) \<Rightarrow> createdGuarded rv ns n (snd (Handle_service rv key [])))
   \<and> (case SplitKey ri key of None \<Rightarrow> Handle_ingress ri key = panic
      | Some (ns, n) \<Rightarrow> createdGuarded ri ns n (snd (Handle_ingress ri key [])))"
  by (intro conjI cm.handle_guarantees sec.handle_guarantees svc.handle_guarantees ing.handle_guarantees)


section \<open>Whom they follow\<close>

text \<open>
  A config map follows to a target exactly when a proxy pod of its namespace, bound to
  the target's virtual node, uses it, in a volume, a projected volume, or the environment of a
  container or init container; \<open>ByIndex\<close> is the informer's index over the pods.
\<close>

theorem configMap_follows_users:
  assumes "\<forall>k. set (podsByConfigMap r k) = {p \<in> set pods. k \<in> set (indexProxyPodByConfigMaps p)}"
    and "slash \<notin> set ns" and "\<forall>p\<in>set pods. slash \<notin> set (Namespace p)"
  shows "shouldFollow_configMap r ns n \<longleftrightarrow>
    (\<exists>p\<in>set pods. IsProxy p \<and> Namespace p = ns \<and> usesConfigMap p n
       \<and> NodeName (pod_Spec p) = VirtualNodeName (fe_target r))"
  using assms
  by (auto simp: shouldFollow_configMap_def list_ex_iff set_indexProxyPodByConfigMaps GetScheduledClusterName_def
      dest: namespaced_key_inject)

theorem configMap_follows_users_witness:
  "shouldFollow_configMap (sampleReconciler sampleConfigMap (Inl sampleNotFound)) ''team'' ''conf''
    \<and> \<not> shouldFollow_configMap (sampleReconciler sampleConfigMap (Inl sampleNotFound)) ''other'' ''conf''"
proof -
  let ?r = "sampleReconciler sampleConfigMap (Inl sampleNotFound)"
  have "shouldFollow_configMap ?r ns ''conf'' \<longleftrightarrow>
    (\<exists>p\<in>set [sampleUser]. IsProxy p \<and> Namespace p = ns \<and> usesConfigMap p ''conf''
       \<and> NodeName (pod_Spec p) = VirtualNodeName (fe_target ?r))" if "slash \<notin> set ns" for ns
    using that by (intro configMap_follows_users) (auto simp: sample_user)
  then show ?thesis by (simp add: sample_user)
qed

text \<open>
  A secret follows to a target exactly when a proxy pod of its namespace, bound to the
  target's virtual node, uses it, to pull images included.
\<close>

theorem secret_follows_users:
  assumes "\<forall>k. set (podsBySecret r k) = {p \<in> set pods. k \<in> set (indexProxyPodBySecrets p)}"
    and "slash \<notin> set ns" and "\<forall>p\<in>set pods. slash \<notin> set (Namespace p)"
  shows "shouldFollow_secret r ns n \<longleftrightarrow>
    (\<exists>p\<in>set pods. IsProxy p \<and> Namespace p = ns \<and> usesSecret p n
       \<and> NodeName (pod_Spec p) = VirtualNodeName (fe_target r))"
  using assms
  by (auto simp: shouldFollow_secret_def list_ex_iff set_indexProxyPodBySecrets GetScheduledClusterName_def
      dest: namespaced_key_inject)

theorem secret_follows_users_witness:
  "\<exists>r. shouldFollow_secret r ''team'' ''reg'' \<and> \<not> shouldFollow_secret r ''team'' ''conf''"
proof -
  define r where "r = \<lparr>clusterName = ''c1'', fe_target = sampleTargetOf ''prod'',
     SplitKey = (\<lambda>_. Some (''team'', ''reg'')), lister_Get = (\<lambda>_ _. Inr zero_secret),
     remoteLister_Get = (\<lambda>_ _. Inl sampleNotFound),
     client_Update = (\<lambda>_ _ obj. Inr obj), remoteClient_Create = (\<lambda>_ _ obj. Inr obj),
     remoteClient_Update = (\<lambda>_ _ obj. Inr obj), remoteClient_Delete = (\<lambda>_ _ _. Inr ()),
     podsBySecret = (\<lambda>k. filter (\<lambda>p. k \<in> set (indexProxyPodBySecrets p)) [sampleUser])\<rparr>"
  have "shouldFollow_secret r ''team'' n \<longleftrightarrow>
    (\<exists>p\<in>set [sampleUser]. IsProxy p \<and> Namespace p = ''team'' \<and> usesSecret p n
       \<and> NodeName (pod_Spec p) = VirtualNodeName (fe_target r))" for n
    by (rule secret_follows_users) (auto simp: sample_user r_def)
  moreover have "\<not> usesSecret sampleUser ''conf''"
    by (simp add: usesSecret_def sampleUser_def volumeUsesSecret_def zero_podSpec_def)
  ultimately show ?thesis
    by (intro exI [of _ r]) (simp add: sample_user r_def)
qed



section \<open>Rest\<close>

text \<open>
  The config map controller comes to rest: whatever it writes to the target cluster
  for a living config map with the finalizer, once the server has stored it (an empty map being
  stored as none), the next run makes no call at all.
\<close>

theorem configMap_converges:
  assumes "SplitKey r key = Some (ns, n)" "lister_Get r ns n = Inr obj" "cmValid obj"
    and "DeletionTimestamp obj = None" "Finalizer (fe_target r) \<in> set (Finalizers obj)"
    and "RemoteCreate ns w \<in> set (snd (Handle_configMap r key []))
       \<or> RemoteUpdate ns w \<in> set (snd (Handle_configMap r key []))"
    and "cmStored w stored" "cmValid stored"
  shows "emits (\<lambda>_. False) (Handle_configMap (r\<lparr>remoteLister_Get := (\<lambda>_ _. Inr stored)\<rparr>) key)"
  using assms by (rule cm.handle_rerun)

theorem configMap_converges_witness:
  "\<exists>w. snd (Handle_configMap (sampleReconciler sampleConfigMap (Inl sampleNotFound)) ''team/conf'' [])
        = [RemoteCreate ''team'' w]
     \<and> (\<exists>stored. emits (\<lambda>_. False) (Handle_configMap
          ((sampleReconciler sampleConfigMap (Inl sampleNotFound))\<lparr>remoteLister_Get := (\<lambda>_ _. Inr stored)\<rparr>) ''team/conf''))"
proof -
  let ?r = "sampleReconciler sampleConfigMap (Inl sampleNotFound)"
  define w where "w = makeRemoteConfigMap ?r sampleConfigMap"
  define st where "st = w\<lparr>cm_BinaryData := None\<rparr>"
  have cm: "DeletionTimestamp sampleConfigMap = None" "KeyPrefix @ ''team-prod'' \<in> set (Finalizers sampleConfigMap)"
    "cm_Data sampleConfigMap = Some (fmupd ''a'' ''1'' fmempty)" "cm_BinaryData sampleConfigMap = None"
    by (simp_all add: sampleConfigMap_def zero_configMap_def zero_meta_def objmeta.defs)
  have ne: "fmupd ''a'' ''1'' fmempty \<noteq> fmempty" by (simp add: fmempty_iff)
  have run: "snd (Handle_configMap ?r ''team/conf'' []) = [RemoteCreate ''team'' w]"
    using cm sample_follows [of sampleConfigMap "Inl sampleNotFound"]
    by (subst cm.handle_gone [of _ _ "''team''" "''conf''" sampleNotFound sampleConfigMap])
      (simp_all add: cmPrepare_def w_def io_apply io_followCalls bindM_apply [of "createRemote r m g" for r m g]
        split: sum.splits)
  have "emits (\<lambda>_. False) (Handle_configMap (?r\<lparr>remoteLister_Get := (\<lambda>_ _. Inr st)\<rparr>) ''team/conf'')"
    by (rule configMap_converges [of _ _ "''team''" "''conf''" sampleConfigMap w])
      (use cm run ne in \<open>simp_all add: st_def w_def makeRemoteConfigMap_simps cmStored_def cmValid_def
          wireMap_def sameEntries_def\<close>)
  with run show ?thesis by blast
qed

text \<open>
  The ingress controller comes to rest the same way, the user's annotations included.
\<close>

theorem ingress_converges:
  assumes "SplitKey r key = Some (ns, n)" "lister_Get r ns n = Inr obj"
    and "DeletionTimestamp obj = None" "Finalizer (fe_target r) \<in> set (Finalizers obj)"
    and "RemoteCreate ns w \<in> set (snd (Handle_ingress r key []))
       \<or> RemoteUpdate ns w \<in> set (snd (Handle_ingress r key []))"
    and "ingStored w stored"
  shows "emits (\<lambda>_. False) (Handle_ingress (r\<lparr>remoteLister_Get := (\<lambda>_ _. Inr stored)\<rparr>) key)"
  by (rule ing.handle_rerun [OF assms(1,2) _ assms(3-6)]) simp_all

theorem ingress_converges_witness:
  "\<exists>r w. snd (Handle_ingress r ''team/web'' []) = [RemoteCreate ''team'' w] \<and> ing_Spec w \<noteq> ing_Spec zero_ingress
     \<and> emits (\<lambda>_. False) (Handle_ingress (r\<lparr>remoteLister_Get := (\<lambda>_ _. Inr w)\<rparr>) ''team/web'')"
proof -
  define obj where "obj = zero_ingress\<lparr>Name := ''web'', Namespace := ''team'', UID := ''u2'',
    Finalizers := [KeyPrefix @ ''team-prod''],
    ing_Spec := \<lparr>Rules = [\<lparr>Host = ''a.io'', HTTP = Some [Some ''web'']\<rparr>], is_Other = []\<rparr>\<rparr>"
  define r where "r = \<lparr>clusterName = ''c1'', fe_target = sampleTargetOf ''prod'',
     SplitKey = (\<lambda>_. Some (''team'', ''web'')), lister_Get = (\<lambda>_ _. Inr obj),
     remoteLister_Get = (\<lambda>_ _. Inl sampleNotFound),
     client_Update = (\<lambda>_ _ obj. Inr obj), remoteClient_Create = (\<lambda>_ _ obj. Inr obj),
     remoteClient_Update = (\<lambda>_ _ obj. Inr obj), remoteClient_Delete = (\<lambda>_ _ _. Inr ()),
     svcLister_Get = (\<lambda>_ _. Inr (zero_service\<lparr>Annotations := Some (fmupd AnnotationKeyGlobal ''true'' fmempty)\<rparr>)),
     ingressesByService = (\<lambda>_. Some [])\<rparr>"
  define w where "w = makeRemoteIngress r obj"
  have obj: "DeletionTimestamp obj = None" "Finalizers obj = [KeyPrefix @ ''team-prod'']"
    "mlookup (Annotations obj) AnnotationKeyIsDelegate = None"
    by (simp_all add: obj_def zero_ingress_def zero_meta_def objmeta.defs)
  have r: "SplitKey r k = Some (''team'', ''web'')" "lister_Get r ns n = Inr obj"
    "remoteLister_Get r ns n = Inl sampleNotFound" "fe_target r = sampleTargetOf ''prod''"
    "shouldFollow_ingress r obj = Some True" for k ns n
    by (simp_all add: r_def shouldFollow_ingress_def obj_def pathIsGlobal_def)
  have run: "snd (Handle_ingress r ''team/web'' []) = [RemoteCreate ''team'' w]"
    using obj r
    by (subst ing.handle_gone [of _ _ "''team''" "''web''" sampleNotFound obj])
      (simp_all add: ingPrepare_def w_def io_values io_apply io_followCalls
        bindM_apply [of "createRemote r m g" for r m g] split: sum.splits)
  have "emits (\<lambda>_. False) (Handle_ingress (r\<lparr>remoteLister_Get := (\<lambda>_ _. Inr w)\<rparr>) ''team/web'')"
    by (rule ingress_converges [of _ _ "''team''" "''web''" obj w])
      (use obj r run in \<open>simp_all add: ingStored_def sameEntries_def\<close>)
  moreover have "ing_Spec w \<noteq> ing_Spec zero_ingress"
    by (simp add: w_def makeRemoteIngress_def Let_def obj_def zero_ingress_def objmeta.defs)
  ultimately show ?thesis using run by blast
qed

text \<open>
  Deletion goes through the target cluster first: for a terminating config map with
  the finalizer, one run deletes the remote object and leaves the finalizer, and a run after it is
  gone takes the finalizer off.
\<close>

theorem configMap_deletion:
  assumes "SplitKey r key = Some (ns, n)" "lister_Get r ns n = Inr obj" "DeletionTimestamp obj \<noteq> None"
    and "Finalizer (fe_target r) \<in> set (Finalizers obj)"
    and "remoteLister_Get r ns n = Inr ro" "ParentControlsChild ro obj" "IsNotFound err"
  shows "snd (Handle_configMap r key []) = [RemoteDelete ns n]
    \<and> snd (Handle_configMap (r\<lparr>remoteLister_Get := (\<lambda>_ _. Inl err)\<rparr>) key []) =
        [LocalUpdate (Namespace obj) (obj\<lparr>Finalizers := remove1 (Finalizer (fe_target r)) (Finalizers obj)\<rparr>)]"
proof
  show "snd (Handle_configMap r key []) = [RemoteDelete ns n]"
    using assms by (intro cm.handle_terminating(1)) (auto simp: io_simps)
  have "snd (Handle_configMap (r\<lparr>remoteLister_Get := (\<lambda>_ _. Inl err)\<rparr>) key []) =
      (if Finalizer (fe_target (r\<lparr>remoteLister_Get := (\<lambda>_ _. Inl err)\<rparr>)) \<in> set (Finalizers obj)
       then [LocalUpdate (Namespace obj) (obj\<lparr>Finalizers :=
         remove1 (Finalizer (fe_target (r\<lparr>remoteLister_Get := (\<lambda>_ _. Inl err)\<rparr>))) (Finalizers obj)\<rparr>)] else [])"
    by (rule cm.handle_terminating(2) [of _ key ns n]) (use assms in \<open>auto simp: io_simps\<close>)
  with assms(4) show "snd (Handle_configMap (r\<lparr>remoteLister_Get := (\<lambda>_ _. Inl err)\<rparr>) key []) =
      [LocalUpdate (Namespace obj) (obj\<lparr>Finalizers := remove1 (Finalizer (fe_target r)) (Finalizers obj)\<rparr>)]"
    by simp
qed

theorem configMap_deletion_witness:
  "\<exists>obj ro. snd (Handle_configMap (sampleReconciler obj (Inr ro)) ''team/conf'' []) = [RemoteDelete ''team'' ''conf'']
    \<and> (\<exists>obj'. snd (Handle_configMap ((sampleReconciler obj (Inr ro))\<lparr>remoteLister_Get := (\<lambda>_ _. Inl sampleNotFound)\<rparr>)
         ''team/conf'' []) = [LocalUpdate ''team'' obj'] \<and> Finalizers obj' = [])"
proof -
  define obj where "obj = sampleConfigMap\<lparr>DeletionTimestamp := Some 1\<rparr>"
  define ro where "ro = makeRemoteConfigMap (sampleReconciler obj (Inr obj)) obj"
  have obj: "Namespace obj = ''team''" "Finalizers obj = [KeyPrefix @ ''team-prod'']" "DeletionTimestamp obj \<noteq> None"
    by (simp_all add: obj_def sampleConfigMap_def)
  have "snd (Handle_configMap (sampleReconciler obj (Inr ro)) ''team/conf'' []) = [RemoteDelete ''team'' ''conf'']
    \<and> snd (Handle_configMap ((sampleReconciler obj (Inr ro))\<lparr>remoteLister_Get := (\<lambda>_ _. Inl sampleNotFound)\<rparr>) ''team/conf'' []) =
        [LocalUpdate (Namespace obj) (obj\<lparr>Finalizers := remove1 (Finalizer (fe_target (sampleReconciler obj (Inr ro)))) (Finalizers obj)\<rparr>)]"
    by (rule configMap_deletion [of _ _ "''team''" "''conf''" obj ro])
      (use obj in \<open>simp_all add: ro_def makeRemoteConfigMap_simps\<close>)
  with obj show ?thesis by (intro exI [of _ obj] exI [of _ ro]) simp
qed

text \<open>
  A terminating object can be stuck: when the target cluster has an object of the same
  name that belongs to someone else, the controller returns without a call, so the finalizer it
  may have added before the creation failed on that object is never removed.
\<close>

theorem configMap_stuck:
  assumes "SplitKey r key = Some (ns, n)" "lister_Get r ns n = Inr obj"
    and "remoteLister_Get r ns n = Inr ro" "\<not> ParentControlsChild ro obj"
  shows "Handle_configMap r key h = (Ret None, h)"
  using assms by (simp add: Handle_configMap_def getRemote_def io_simps split: prod.splits)

theorem configMap_stuck_witness:
  "\<exists>obj ro. DeletionTimestamp obj \<noteq> None \<and> KeyPrefix @ ''team-prod'' \<in> set (Finalizers obj)
    \<and> Handle_configMap (sampleReconciler obj (Inr ro)) ''team/conf'' [] = (Ret None, [])"
proof -
  define obj where "obj = sampleConfigMap\<lparr>DeletionTimestamp := Some 1\<rparr>"
  have "\<not> ParentControlsChild zero_configMap obj"
    by (simp add: ParentControlsChild_def obj_def sampleConfigMap_def zero_configMap_def zero_meta_def objmeta.defs)
  then have "Handle_configMap (sampleReconciler obj (Inr zero_configMap)) ''team/conf'' [] = (Ret None, [])"
    by (intro configMap_stuck [of _ _ "''team''" "''conf''" obj zero_configMap]) simp_all
  then show ?thesis
    by (intro exI [of _ obj] exI [of _ zero_configMap]) (simp add: obj_def sampleConfigMap_def)
qed

text \<open>
  Two inputs the API admits make a handler panic: a remote config map that names its
  parent in an annotation and has no labels, when it needs an update, and an ingress rule that
  names a host only.
\<close>

theorem follow_panics:
  "(\<exists>obj ro. ParentControlsChild ro obj
      \<and> fst (Handle_configMap (sampleReconciler obj (Inr ro)) ''team/conf'' []) = Panic)
   \<and> indexIngressByService (zero_ingress\<lparr>ing_Spec := \<lparr>Rules = [\<lparr>Host = ''a.io'', HTTP = None\<rparr>], is_Other = []\<rparr>\<rparr>) = None
   \<and> shouldFollow_ingress r (zero_ingress\<lparr>ing_Spec := \<lparr>Rules = [\<lparr>Host = ''a.io'', HTTP = None\<rparr>], is_Other = []\<rparr>\<rparr>) = None"
proof -
  define ro where "ro = zero_configMap\<lparr>Annotations := Some (fmupd LabelKeyParentUID ''u1'' fmempty)\<rparr>"
  have own: "ParentControlsChild ro sampleConfigMap"
    by (simp add: ParentControlsChild_def ro_def sampleConfigMap_def)
  have cm: "DeletionTimestamp sampleConfigMap = None" "KeyPrefix @ ''team-prod'' \<in> set (Finalizers sampleConfigMap)"
    by (simp_all add: sampleConfigMap_def zero_configMap_def zero_meta_def objmeta.defs)
  have "cmChange (sampleReconciler sampleConfigMap (Inr ro)) ro sampleConfigMap = panic"
    by (simp add: cmChange_def ro_def zero_configMap_def zero_meta_def objmeta.defs io_values)
  then have "fst (Handle_configMap (sampleReconciler sampleConfigMap (Inr ro)) ''team/conf'' []) = Panic"
    using own cm sample_follows [of sampleConfigMap "Inr ro"]
    by (simp add: cm.handle_found [of _ _ "''team''" "''conf''" ro sampleConfigMap] cmPrepare_def io_apply)
  with own show ?thesis
    by (auto simp: indexIngressByService_def shouldFollow_ingress_def)
qed

end
