(* ===== verification/Follow_Stabilisation.thy ===== *)
theory Follow_Stabilisation
  imports Follow_Properties
begin

text \<open>
  The follow controllers in the closed loop: two API servers hold at most one object each under a key, a
  run of the handler reads them (informer caches that have caught up) and its calls are applied to
  them, and the next run reads the result.  From every state whose remote object, if any, is the
  controller's, two runs reach a state in which both clusters agree and no further call is made.  The
  locale \<open>closed_loop\<close> proves this once; the config map, secret and ingress controllers interpret it.
\<close>

section \<open>Two clusters under one key\<close>

record 'o world =
  w_local :: "'o option"
  w_remote :: "'o option"

definition absent :: error where
  "absent = \<lparr>Error = ''not found'', IsNotFound = True, IsAlreadyExists = False\<rparr>"

definition present :: error where
  "present = \<lparr>Error = ''already exists'', IsNotFound = False, IsAlreadyExists = True\<rparr>"

definition readObject :: "'o option \<Rightarrow> error + 'o" where
  "readObject x = (case x of None \<Rightarrow> Inl absent | Some obj \<Rightarrow> Inr obj)"

text \<open>
  What an API server does: an update stores the object, or removes it when it is terminating and has no
  finalizer left; an object is created if there is none; a deletion removes an object without
  finalizers.  \<open>store\<close> is what the server makes of an object it stores.
\<close>

definition updateObject :: "('a objmeta_scheme \<Rightarrow> 'a objmeta_scheme) \<Rightarrow> 'a objmeta_scheme \<Rightarrow> 'a objmeta_scheme option
    \<Rightarrow> 'a objmeta_scheme option" where
  "updateObject store u x =
     (case x of
        None \<Rightarrow> None
      | Some _ \<Rightarrow> if DeletionTimestamp u \<noteq> None \<and> Finalizers u = [] then None else Some (store u))"

fun applyCall :: "('a objmeta_scheme \<Rightarrow> 'a objmeta_scheme) \<Rightarrow> 'a objmeta_scheme followCall \<Rightarrow> 'a objmeta_scheme world
    \<Rightarrow> 'a objmeta_scheme world" where
  "applyCall store (LocalUpdate ns u) w = w\<lparr>w_local := updateObject store u (w_local w)\<rparr>"
| "applyCall store (RemoteCreate ns g) w =
     w\<lparr>w_remote := (case w_remote w of None \<Rightarrow> Some (store g) | Some ro \<Rightarrow> Some ro)\<rparr>"
| "applyCall store (RemoteUpdate ns u) w = w\<lparr>w_remote := updateObject store u (w_remote w)\<rparr>"
| "applyCall store (RemoteDelete ns n) w =
     w\<lparr>w_remote := (case w_remote w of
        Some ro \<Rightarrow> if Finalizers ro = [] then None else Some (ro\<lparr>DeletionTimestamp := Some 0\<rparr>) | None \<Rightarrow> None)\<rparr>"

text \<open>The environment of a run: the listers and the clients answer from the two clusters.\<close>

definition connect :: "('a objmeta_scheme, 'z) followEnv_scheme \<Rightarrow> ('a objmeta_scheme \<Rightarrow> 'a objmeta_scheme)
    \<Rightarrow> 'a objmeta_scheme world \<Rightarrow> ('a objmeta_scheme, 'z) followEnv_scheme" where
  "connect r store w = r
     \<lparr>lister_Get := (\<lambda>_ _. readObject (w_local w)), remoteLister_Get := (\<lambda>_ _. readObject (w_remote w)),
      client_Update := (\<lambda>_ _ u. if w_local w = None then Inl absent else Inr (store u)),
      remoteClient_Create := (\<lambda>_ _ g. if w_remote w = None then Inr (store g) else Inl present),
      remoteClient_Update := (\<lambda>_ _ u. if w_remote w = None then Inl absent else Inr (store u)),
      remoteClient_Delete := (\<lambda>_ _ _. if w_remote w = None then Inl absent else Inr ())\<rparr>"

type_synonym ('a, 'z) followHandler =
  "('a objmeta_scheme, 'z) followEnv_scheme \<Rightarrow> string \<Rightarrow> ('a objmeta_scheme, nat option) followIO"

definition calls_at :: "('a, 'z) followHandler \<Rightarrow> ('a objmeta_scheme, 'z) followEnv_scheme
    \<Rightarrow> ('a objmeta_scheme \<Rightarrow> 'a objmeta_scheme) \<Rightarrow> string \<Rightarrow> 'a objmeta_scheme world \<Rightarrow> 'a objmeta_scheme followCall list" where
  "calls_at handle r store key w = snd (handle (connect r store w) key [])"

definition reconcile :: "('a, 'z) followHandler \<Rightarrow> ('a objmeta_scheme, 'z) followEnv_scheme
    \<Rightarrow> ('a objmeta_scheme \<Rightarrow> 'a objmeta_scheme) \<Rightarrow> string \<Rightarrow> 'a objmeta_scheme world \<Rightarrow> 'a objmeta_scheme world" where
  "reconcile handle r store key w = foldl (\<lambda>w c. applyCall store c w) w (calls_at handle r store key w)"

text \<open>What the server keeps of what it stores: finalizers, the time of deletion, an identifier that is set, and
  the content of an object in the form it has on the wire.\<close>

definition keepsMeta :: "('a objmeta_scheme \<Rightarrow> bool) \<Rightarrow> ('a objmeta_scheme \<Rightarrow> 'a objmeta_scheme) \<Rightarrow> bool" where
  "keepsMeta valid store \<longleftrightarrow> (\<forall>u. Finalizers (store u) = Finalizers u \<and> DeletionTimestamp (store u) = DeletionTimestamp u
     \<and> (UID u \<noteq> [] \<longrightarrow> UID (store u) = UID u) \<and> (valid u \<longrightarrow> objmeta.more (store u) = objmeta.more u))"

text \<open>A state to start from: the local object is as an API server holds it, and the remote one, if any, is
  its own, has no finalizers, and has labels and annotations, as the controllers write them.\<close>

definition startable :: "('a objmeta_scheme \<Rightarrow> bool) \<Rightarrow> 'a objmeta_scheme world \<Rightarrow> bool" where
  "startable valid w \<longleftrightarrow>
     (case w_local w of
        None \<Rightarrow> True
      | Some obj \<Rightarrow> valid obj \<and> UID obj \<noteq> [] \<and> distinct (Finalizers obj)
          \<and> (\<forall>ro. w_remote w = Some ro \<longrightarrow> ParentControlsChild ro obj))
     \<and> (\<forall>ro. w_remote w = Some ro \<longrightarrow> Finalizers ro = [] \<and> DeletionTimestamp ro = None
          \<and> Labels ro \<noteq> None \<and> Annotations ro \<noteq> None)"

lemma connect_simps [simp]:
  "clusterName (connect r store w) = clusterName r"
  "fe_target (connect r store w) = fe_target r"
  "SplitKey (connect r store w) = SplitKey r"
  "lister_Get (connect r store w) = (\<lambda>_ _. readObject (w_local w))"
  "remoteLister_Get (connect r store w) = (\<lambda>_ _. readObject (w_remote w))"
  "client_Update (connect r store w) = (\<lambda>_ _ u. if w_local w = None then Inl absent else Inr (store u))"
  "remoteClient_Create (connect r store w) = (\<lambda>_ _ g. if w_remote w = None then Inr (store g) else Inl present)"
  "remoteClient_Update (connect r store w) = (\<lambda>_ _ u. if w_remote w = None then Inl absent else Inr (store u))"
  "remoteClient_Delete (connect r store w) = (\<lambda>_ _ _. if w_remote w = None then Inl absent else Inr ())"
  by (simp_all add: connect_def)

lemma readObject_simps [simp]:
  "readObject None = Inl absent" "readObject (Some obj) = Inr obj" "IsNotFound absent"
  by (simp_all add: readObject_def absent_def)

lemma updateObject_simps [simp]:
  "updateObject store u None = None"
  "DeletionTimestamp u = None \<Longrightarrow> updateObject store u (Some x) = Some (store u)"
  by (simp_all add: updateObject_def)


section \<open>Stabilisation\<close>

text \<open>
  The laws of a closed loop: the decision and the comparison do not read what the connection replaces,
  preparing the local object is one update or none, and changing a remote object with labels and
  annotations does not panic.
\<close>

locale closed_loop = syncing +
  assumes decide_connect: "decide (connect r store w) = decide r"
    and synced_connect: "synced (connect r store w) = synced r"
    and prepare_total: "\<lbrakk>Finalizer (fe_target r) \<notin> set (Finalizers obj)\<rbrakk> \<Longrightarrow>
        \<exists>u. prepare r d obj = updateLocal r (Namespace obj) u \<and> UID u = UID obj
          \<and> Finalizers u = Finalizers obj @ [Finalizer (fe_target r)] \<and> DeletionTimestamp u = DeletionTimestamp obj
          \<and> objmeta.more u = objmeta.more obj"
    and valid_content: "objmeta.more u = objmeta.more obj \<Longrightarrow> valid u = valid obj"
    and change_total: "\<lbrakk>Labels ro \<noteq> None; Annotations ro \<noteq> None\<rbrakk> \<Longrightarrow> \<exists>x. change r ro obj h = (Ret x, h)"
    and change_keeps: "change r ro obj h = (Ret (Some ro'), h') \<Longrightarrow>
        Finalizers ro' = Finalizers ro \<and> DeletionTimestamp ro' = DeletionTimestamp ro"
begin

text \<open>The goal.\<close>

definition agreed where
  "agreed r ns n w \<longleftrightarrow>
     (case w_local w of
        None \<Rightarrow> (\<forall>ro. w_remote w = Some ro \<longrightarrow> \<not> IsRemoteControlled ro (clusterName r))
      | Some obj \<Rightarrow> skip obj
          \<or> (DeletionTimestamp obj \<noteq> None \<and> w_remote w = None \<and> Finalizer (fe_target r) \<notin> set (Finalizers obj))
          \<or> (DeletionTimestamp obj = None \<and> (\<exists>d. decide r ns n obj [] = (Ret d, []) \<and>
                (follows d \<longrightarrow> Finalizer (fe_target r) \<in> set (Finalizers obj)
                   \<and> (\<exists>ro. w_remote w = Some ro \<and> ParentControlsChild ro obj \<and> synced r ro obj)))))"

text \<open>The decision is reached, without a panic or an error, for the content that the local object has.\<close>

definition decides where
  "decides r ns n w \<longleftrightarrow> (\<forall>x obj. w_local w = Some x \<longrightarrow> objmeta.more obj = objmeta.more x \<longrightarrow>
     (\<exists>d. \<forall>h. decide r ns n obj h = (Ret d, h)))"

lemma decidesE:
  assumes "decides r ns n w" "w_local w = Some x" "objmeta.more obj = objmeta.more x"
  obtains d where "\<And>h. decide (connect r store w') ns n obj h = (Ret d, h)" "\<And>h. decide r ns n obj h = (Ret d, h)"
  using assms unfolding decides_def decide_connect by metis

lemma agreed_quiet:
  assumes "SplitKey r key = Some (ns, n)" "agreed r ns n w" "decides r ns n w"
  shows "calls_at handle r store key w = []"
proof (cases "w_local w")
  case None
  then show ?thesis
    using assms by (cases "w_remote w") (simp_all add: calls_at_def refines followSpec_def getRemote_def io_values io_apply agreed_def)
next
  case (Some obj)
  let ?r = "connect r store w"
  show ?thesis
  proof (cases "skip obj")
    case True
    with Some assms(1) show ?thesis
      by (cases "w_remote w") (simp_all add: calls_at_def refines followSpec_def getRemote_def io_values io_apply)
  next
    case False
    obtain d where d: "\<And>h. decide ?r ns n obj h = (Ret d, h)" "\<And>h. decide r ns n obj h = (Ret d, h)"
      using decidesE [OF assms(3) Some refl] by metis
    show ?thesis
    proof (cases "w_remote w")
      case None
      then show ?thesis
        using Some False assms(1,2) d
        by (auto simp: calls_at_def handle_gone [of ?r key ns n absent obj] bindM_apply io_apply agreed_def)
    next
      case r: (Some ro)
      show ?thesis
        using Some False r assms(1,2) d
        by (auto simp: calls_at_def handle_found [of ?r key ns n ro obj] bindM_apply io_apply agreed_def prepare_has
            change_synced synced_connect)
    qed
  qed
qed

text \<open>Preparing a living object in the closed loop: afterwards the local cluster holds what was returned.\<close>

lemma prepare_connected:
  assumes "w_local w = Some obj" "DeletionTimestamp obj = None" "valid obj" "keepsMeta valid store" "\<And>u. valid (store u)"
    and "UID obj \<noteq> []"
  obtains obj' h where "prepare (connect r store w) d obj [] = (Ret obj', h)"
    "foldl (\<lambda>w c. applyCall store c w) w h = w\<lparr>w_local := Some obj'\<rparr>"
    "valid obj'" "DeletionTimestamp obj' = None" "UID obj' = UID obj" "Finalizer (fe_target r) \<in> set (Finalizers obj')"
    "objmeta.more obj' = objmeta.more obj"
proof (cases "Finalizer (fe_target r) \<in> set (Finalizers obj)")
  case True
  have "prepare (connect r store w) d obj [] = (Ret obj, [])"
    using True by (simp add: prepare_has io_apply)
  then show ?thesis using assms True by (intro that [of obj "[]"]) simp_all
next
  case False
  then obtain u where u: "prepare (connect r store w) d obj = updateLocal (connect r store w) (Namespace obj) u" "UID u = UID obj"
    "Finalizers u = Finalizers obj @ [Finalizer (fe_target r)]" "DeletionTimestamp u = DeletionTimestamp obj"
    "objmeta.more u = objmeta.more obj"
    using prepare_total [of "connect r store w" obj d] by auto
  then have "prepare (connect r store w) d obj [] = (Ret (store u), [LocalUpdate (Namespace obj) u])"
    using assms(1) by (simp add: io_followCalls)
  moreover have "objmeta.more (store u) = objmeta.more obj"
    using valid_content [OF u(5)] assms(3,4) u(5) by (simp add: keepsMeta_def)
  ultimately show ?thesis using assms u by (intro that [of "store u" "[LocalUpdate (Namespace obj) u]"]) (simp_all add: keepsMeta_def)
qed

definition pendingRelease where
  "pendingRelease w \<longleftrightarrow> w_remote w = None
     \<and> (\<exists>obj. w_local w = Some obj \<and> DeletionTimestamp obj \<noteq> None \<and> distinct (Finalizers obj))"

lemma ParentControlsChild_UID: "UID p = UID q \<Longrightarrow> ParentControlsChild c p = ParentControlsChild c q"
  by (simp add: ParentControlsChild_def)

lemma terminating_run:
  assumes "SplitKey r key = Some (ns, n)" "w_local w = Some obj" "\<not> skip obj" "DeletionTimestamp obj \<noteq> None"
    and "decides r ns n w" "distinct (Finalizers obj)" "keepsMeta valid store"
  shows "w_remote w = None \<Longrightarrow> agreed r ns n (reconcile handle r store key w)"
    and "\<lbrakk>w_remote w = Some ro; ParentControlsChild ro obj; Finalizers ro = []\<rbrakk> \<Longrightarrow>
      pendingRelease (reconcile handle r store key w)"
proof -
  obtain d where d: "\<And>h. decide (connect r store w) ns n obj h = (Ret d, h)"
    using decidesE [OF assms(5,2) refl] by metis
  show "agreed r ns n (reconcile handle r store key w)" if "w_remote w = None"
  proof (cases "Finalizer (fe_target r) \<in> set (Finalizers obj)")
    case True
    let ?u = "obj\<lparr>Finalizers := remove1 (Finalizer (fe_target r)) (Finalizers obj)\<rparr>"
    have "calls_at handle r store key w = [LocalUpdate (Namespace obj) ?u]"
      using assms that d True
      by (simp add: calls_at_def handle_gone [of _ key ns n absent obj] bindM_apply io_apply io_followCalls)
    then have "reconcile handle r store key w = w\<lparr>w_local := updateObject store ?u (w_local w)\<rparr>"
      by (simp add: reconcile_def)
    then show ?thesis
      using assms that by (auto simp: agreed_def updateObject_def keepsMeta_def)
  next
    case False
    then have "calls_at handle r store key w = []"
      using assms that d by (simp add: calls_at_def handle_gone [of _ key ns n absent obj] bindM_apply io_apply)
    then show ?thesis using assms that False by (simp add: reconcile_def agreed_def)
  qed
  show "pendingRelease (reconcile handle r store key w)"
    if "w_remote w = Some ro" "ParentControlsChild ro obj" "Finalizers ro = []"
  proof -
    have "calls_at handle r store key w = [RemoteDelete ns n]"
      using assms that d
      by (simp add: calls_at_def handle_found [of _ key ns n ro obj] bindM_apply io_apply io_followCalls)
    then show ?thesis using assms that by (simp add: reconcile_def pendingRelease_def)
  qed
qed

lemma living_run:
  assumes key: "SplitKey r key = Some (ns, n)" and dec: "decides r ns n w"
    and l: "w_local w = Some obj" "\<not> skip obj" "DeletionTimestamp obj = None" "valid obj" "UID obj \<noteq> []"
    and rem: "\<And>ro. w_remote w = Some ro \<Longrightarrow> ParentControlsChild ro obj \<and> Finalizers ro = [] \<and> DeletionTimestamp ro = None
      \<and> Labels ro \<noteq> None \<and> Annotations ro \<noteq> None"
    and store: "keepsMeta valid store" "\<And>u. stored u (store u)" "\<And>u. valid (store u)"
  shows "agreed r ns n (reconcile handle r store key w)"
proof -
  let ?r = "connect r store w"
  obtain d where d: "\<And>h. decide ?r ns n obj h = (Ret d, h)" "\<And>h. decide r ns n obj h = (Ret d, h)"
    using decidesE [OF dec l(1) refl] by metis
  show ?thesis
  proof (cases "follows d")
    case False
    have "calls_at handle r store key w = []"
      using l key d rem False
      by (cases "w_remote w") (simp_all add: calls_at_def handle_gone [of _ key ns n absent obj]
          handle_found [of _ key ns n _ obj] bindM_apply io_apply)
    then show ?thesis using l d False by (simp add: reconcile_def agreed_def)
  next
    case True
    obtain obj' h where p: "prepare ?r d obj [] = (Ret obj', h)" "foldl (\<lambda>w c. applyCall store c w) w h = w\<lparr>w_local := Some obj'\<rparr>"
      and obj': "valid obj'" "DeletionTimestamp obj' = None" "UID obj' = UID obj" "Finalizer (fe_target r) \<in> set (Finalizers obj')"
      and more: "objmeta.more obj' = objmeta.more obj"
      using prepare_connected [OF l(1,3,4) store(1,3) l(5)] by metis
    have agreed: "agreed r ns n w'" if "w_local w' = Some obj'" "w_remote w' = Some ro" "ParentControlsChild ro obj'" "synced r ro obj'" for w' ro
      using that obj' decidesE [OF dec l(1) more] by (simp add: agreed_def) metis
    show ?thesis
    proof (cases "w_remote w")
      case None
      have "calls_at handle r store key w = h @ [RemoteCreate ns (mk ?r obj')]"
        using l key d True None p
        by (simp add: calls_at_def handle_gone [of _ key ns n absent obj] bindM_apply io_apply io_followCalls)
      then have "reconcile handle r store key w = w\<lparr>w_local := Some obj', w_remote := Some (store (mk ?r obj'))\<rparr>"
        using None by (simp add: reconcile_def p(2))
      moreover have "synced ?r (store (mk ?r obj')) obj' \<and> ParentControlsChild (store (mk ?r obj')) obj'"
        using mk_syncs [OF store(2,3) obj'(1)] by blast
      ultimately show ?thesis by (intro agreed [of _ "store (mk ?r obj')"]) (simp_all add: synced_connect)
    next
      case (Some ro)
      have own: "ParentControlsChild ro obj'" using rem [OF Some] ParentControlsChild_UID [OF obj'(3)] by blast
      obtain x where c: "change ?r ro obj' h = (Ret x, h)" using change_total [of ro ?r obj' h] rem [OF Some] by blast
      have run: "calls_at handle r store key w = (case x of None \<Rightarrow> h | Some ro' \<Rightarrow> h @ [RemoteUpdate ns ro'])"
        using l key d True Some p c rem [OF Some]
        by (cases x) (simp_all add: calls_at_def handle_found [of _ key ns n ro obj] bindM_apply io_apply io_followCalls)
      show ?thesis
      proof (cases x)
        case None
        then have "synced ?r ro obj'" using change_None c by blast
        moreover have "reconcile handle r store key w = w\<lparr>w_local := Some obj'\<rparr>"
          using run None by (simp add: reconcile_def p(2))
        ultimately show ?thesis using Some own by (intro agreed [of _ ro]) (simp_all add: synced_connect)
      next
        case (Some ro')
        then have s: "synced ?r (store ro') obj' \<and> ParentControlsChild (store ro') obj'"
          using change_syncs [OF c [unfolded Some] store(2,3) obj'(1) own] by blast
        have "DeletionTimestamp ro' = None" using change_keeps [OF c [unfolded Some]] rem [OF \<open>w_remote w = Some ro\<close>] by simp
        then have "reconcile handle r store key w = w\<lparr>w_local := Some obj', w_remote := Some (store ro')\<rparr>"
          using run Some \<open>w_remote w = Some ro\<close> by (simp add: reconcile_def p(2))
        with s show ?thesis by (intro agreed [of _ "store ro'"]) (simp_all add: synced_connect)
      qed
    qed
  qed
qed

text \<open>One run agrees, or has only the finalizer left to take off.\<close>

lemma reconcile_once:
  assumes key: "SplitKey r key = Some (ns, n)" and dec: "decides r ns n w"
    and start: "startable valid w" and store: "keepsMeta valid store" "\<And>u. stored u (store u)" "\<And>u. valid (store u)"
  shows "agreed r ns n (reconcile handle r store key w) \<or> pendingRelease (reconcile handle r store key w)"
proof (cases "w_local w")
  case None
  then show ?thesis
    using key start
    by (cases "w_remote w") (auto simp: reconcile_def calls_at_def refines followSpec_def getRemote_def io_values io_apply
        io_followCalls bindM_apply agreed_def startable_def)
next
  case (Some obj)
  let ?r = "connect r store w"
  have obj: "valid obj" "UID obj \<noteq> []" "distinct (Finalizers obj)"
    and rem: "\<And>ro. w_remote w = Some ro \<Longrightarrow> ParentControlsChild ro obj \<and> Finalizers ro = [] \<and> DeletionTimestamp ro = None
      \<and> Labels ro \<noteq> None \<and> Annotations ro \<noteq> None"
    using start Some by (auto simp: startable_def)
  show ?thesis
  proof (cases "skip obj")
    case True
    then have "reconcile handle r store key w = w"
      using Some key by (cases "w_remote w") (simp_all add: reconcile_def calls_at_def refines followSpec_def getRemote_def io_values io_apply)
    with True Some show ?thesis by (simp add: agreed_def)
  next
    case False
    obtain d where d: "\<And>h. decide ?r ns n obj h = (Ret d, h)" "\<And>h. decide r ns n obj h = (Ret d, h)"
      using decidesE [OF dec Some refl] by metis
    show ?thesis
    proof (cases "DeletionTimestamp obj")
      case (Some t)
      then show ?thesis
        using terminating_run [OF key \<open>w_local w = Some obj\<close> False _ dec obj(3) store(1)] rem
        by (cases "w_remote w") auto
    next
      case alive: None
      then show ?thesis
        by (intro disjI1 living_run [OF key dec \<open>w_local w = Some obj\<close> False alive obj(1,2) rem store]) simp_all
    qed
  qed
qed

lemma pendingRelease_released:
  assumes "SplitKey r key = Some (ns, n)" "decides r ns n w" "pendingRelease w" "keepsMeta valid store"
  shows "agreed r ns n (reconcile handle r store key w)"
proof -
  obtain obj where obj: "w_local w = Some obj" "w_remote w = None" "DeletionTimestamp obj \<noteq> None" "distinct (Finalizers obj)"
    using assms(3) by (auto simp: pendingRelease_def)
  show ?thesis
  proof (cases "skip obj")
    case True
    then have "reconcile handle r store key w = w"
      using assms(1) obj by (simp add: reconcile_def calls_at_def refines followSpec_def getRemote_def io_values io_apply)
    with True obj show ?thesis by (simp add: agreed_def)
  qed (use terminating_run(1) assms obj in blast)
qed

text \<open>No run changes the content of the local object, or brings a deleted one back.\<close>

lemma calls_content:
  assumes "SplitKey r key = Some (ns, n)" "lister_Get r ns n = Inr obj"
  shows "emits (\<lambda>c. \<forall>m u. c = LocalUpdate m u \<longrightarrow> objmeta.more u = objmeta.more obj
      \<and> DeletionTimestamp u = DeletionTimestamp obj) (handle r key)"
proof -
  have prep: "emits (\<lambda>c. \<forall>m u. c = LocalUpdate m u \<longrightarrow> objmeta.more u = objmeta.more obj
      \<and> DeletionTimestamp u = DeletionTimestamp obj) (prepare r d obj)" for d
    using prepare_total [of r obj d]
    by (cases "Finalizer (fe_target r) \<in> set (Finalizers obj)") (auto simp: prepare_has intro!: emits_intros)
  from assms(1) show ?thesis
  proof (cases rule: handle_cases)
    case (found ro obj')
    with assms(2) have obj': "obj' = obj" by simp
    show ?thesis
      unfolding handle_found [OF assms(1) found] obj'
      by (intro emits_bindM emits_none_any [OF decide_pure] emits_none_any [OF change_pure] emits_if
          emits_option prep emits_updateRemote emits_deleteRemote emits_ret) simp_all
  next
    case (gone err obj')
    with assms(2) have obj': "obj' = obj" by simp
    show ?thesis
      unfolding handle_gone [OF assms(1) gone] obj'
      by (intro emits_bindM emits_none_any [OF decide_pure] emits_if prep emits_createRemote emits_updateLocal emits_ret)
        simp_all
  next
    case other
    then show ?thesis by (rule emits_mono) auto
  qed
qed

definition sameContent where
  "sameContent w w' \<longleftrightarrow>
     (\<forall>x'. w_local w' = Some x' \<longrightarrow> (\<exists>x. w_local w = Some x \<and> objmeta.more x' = objmeta.more x
        \<and> DeletionTimestamp x' = DeletionTimestamp x))
     \<and> (\<forall>x. w_local w = Some x \<longrightarrow> DeletionTimestamp x = None \<longrightarrow> w_local w' \<noteq> None)"

lemma apply_content:
  assumes "keepsMeta valid store" "valid obj" "w_local w = Some obj"
    and "list_all (\<lambda>c. \<forall>m u. c = LocalUpdate m u \<longrightarrow> objmeta.more u = objmeta.more obj
      \<and> DeletionTimestamp u = DeletionTimestamp obj) cs"
  shows "sameContent w (foldl (\<lambda>w c. applyCall store c w) w cs)"
  using assms(4)
proof (induction cs rule: rev_induct)
  case (snoc c cs)
  let ?w = "foldl (\<lambda>w c. applyCall store c w) w cs"
  have IH: "sameContent w ?w" using snoc by simp
  show ?case
  proof (cases c)
    case (LocalUpdate m u)
    then have u: "objmeta.more u = objmeta.more obj" "DeletionTimestamp u = DeletionTimestamp obj" using snoc.prems by simp_all
    moreover from u(1) have "objmeta.more (store u) = objmeta.more u" "DeletionTimestamp (store u) = DeletionTimestamp u"
      using assms(1,2) valid_content [of u obj] unfolding keepsMeta_def by blast+
    ultimately have st: "objmeta.more (store u) = objmeta.more obj" "DeletionTimestamp (store u) = DeletionTimestamp obj" by simp_all
    show ?thesis
    proof (cases "w_local ?w")
      case None
      with IH LocalUpdate show ?thesis by (simp add: sameContent_def)
    next
      case (Some y)
      show ?thesis
        using assms(3) st u(2) unfolding sameContent_def foldl_append
        by (simp add: LocalUpdate Some updateObject_def)
    qed
  qed (use IH in \<open>simp_all add: sameContent_def\<close>)
qed (simp add: sameContent_def)

lemma reconcile_content:
  assumes "SplitKey r key = Some (ns, n)" "keepsMeta valid store" "\<And>x. w_local w = Some x \<Longrightarrow> valid x"
  shows "sameContent w (reconcile handle r store key w)"
proof (cases "w_local w")
  case None
  then have "w_local (foldl (\<lambda>w c. applyCall store c w) w cs) = None" for cs
  proof (induction cs rule: rev_induct)
    case (snoc c cs)
    then show ?case by (cases c) simp_all
  qed simp
  with None show ?thesis by (simp add: sameContent_def reconcile_def)
next
  case (Some obj)
  have "emits (\<lambda>c. \<forall>m u. c = LocalUpdate m u \<longrightarrow> objmeta.more u = objmeta.more obj
      \<and> DeletionTimestamp u = DeletionTimestamp obj) (handle (connect r store w) key)"
    by (rule calls_content [of _ key ns n]) (simp_all add: assms Some)
  then have "list_all (\<lambda>c. \<forall>m u. c = LocalUpdate m u \<longrightarrow> objmeta.more u = objmeta.more obj
      \<and> DeletionTimestamp u = DeletionTimestamp obj) (calls_at handle r store key w)"
    unfolding calls_at_def emits_def by (metis append_Nil)
  then show ?thesis unfolding reconcile_def by (rule apply_content [OF assms(2) assms(3) [OF Some] Some])
qed

lemma sameContent_trans: "sameContent w w1 \<Longrightarrow> sameContent w1 w2 \<Longrightarrow> sameContent w w2"
proof -
  assume a: "sameContent w w1" "sameContent w1 w2"
  have before: "\<exists>x. w_local w = Some x \<and> objmeta.more x' = objmeta.more x \<and> DeletionTimestamp x' = DeletionTimestamp x"
    if x': "w_local w2 = Some x'" for x'
  proof -
    obtain x1 where x1: "w_local w1 = Some x1" "objmeta.more x' = objmeta.more x1" "DeletionTimestamp x' = DeletionTimestamp x1"
      using a(2) x' unfolding sameContent_def by blast
    moreover obtain x where "w_local w = Some x" "objmeta.more x1 = objmeta.more x" "DeletionTimestamp x1 = DeletionTimestamp x"
      using a(1) x1(1) unfolding sameContent_def by blast
    ultimately show ?thesis by simp
  qed
  have after: "w_local w2 \<noteq> None" if x: "w_local w = Some x" "DeletionTimestamp x = None" for x
  proof -
    have "w_local w1 \<noteq> None" using a(1) x unfolding sameContent_def by blast
    then obtain x1 where x1: "w_local w1 = Some x1" by blast
    moreover have "DeletionTimestamp x1 = None" using a(1) x1 x unfolding sameContent_def by fastforce
    ultimately show ?thesis using a(2) unfolding sameContent_def by blast
  qed
  show "sameContent w w2" unfolding sameContent_def using before after by blast
qed

lemma reconcile_content_funpow:
  assumes "SplitKey r key = Some (ns, n)" "keepsMeta valid store" "\<And>x. w_local w = Some x \<Longrightarrow> valid x"
  shows "sameContent w ((reconcile handle r store key ^^ k) w)"
proof (induction k)
  case (Suc k)
  let ?w = "(reconcile handle r store key ^^ k) w"
  have "valid x" if "w_local ?w = Some x" for x
    using Suc that assms(3) valid_content unfolding sameContent_def by metis
  from reconcile_content [OF assms(1,2) this] Suc show ?case
    unfolding funpow.simps comp_apply by (rule sameContent_trans [rotated])
qed (simp add: sameContent_def)

lemma decides_content: "decides r ns n w \<Longrightarrow> sameContent w w' \<Longrightarrow> decides r ns n w'"
  unfolding decides_def sameContent_def by (metis (no_types))

text \<open>Two runs agree, and nothing happens from then on.\<close>

lemma agreed_stays:
  assumes "SplitKey r key = Some (ns, n)" "agreed r ns n w" "decides r ns n w"
  shows "(reconcile handle r store key ^^ k) w = w"
  by (induction k) (simp_all add: reconcile_def agreed_quiet [OF assms])

lemma stabilises:
  assumes "SplitKey r key = Some (ns, n)" "decides r ns n w" "startable valid w"
    and "keepsMeta valid store" "\<And>u. stored u (store u)" "\<And>u. valid (store u)" "2 \<le> k"
  shows "agreed r ns n ((reconcile handle r store key ^^ k) w)
    \<and> calls_at handle r store key ((reconcile handle r store key ^^ k) w) = []
    \<and> sameContent w ((reconcile handle r store key ^^ k) w)"
proof -
  let ?run = "reconcile handle r store key"
  have v: "valid x" if "w_local w = Some x" for x using assms(3) that by (simp add: startable_def)
  have dec: "decides r ns n ((?run ^^ i) w)" for i
    using decides_content [OF assms(2)] reconcile_content_funpow [OF assms(1,4)] v by blast
  have "agreed r ns n (?run (?run w))"
    using reconcile_once [OF assms(1-6)]
  proof
    assume "agreed r ns n (?run w)"
    from agreed_stays [OF assms(1) this, where store = store and k = 1] dec [of 1] this show ?thesis by simp
  next
    assume "pendingRelease (?run w)"
    with pendingRelease_released [OF assms(1) _ _ assms(4)] dec [of 1] show ?thesis by simp
  qed
  moreover have "(?run ^^ k) w = (?run ^^ (k - 2)) (?run (?run w))"
  proof -
    have "k = k - 2 + 2" using assms(7) by simp
    then show ?thesis using funpow_add [of "k - 2" 2 ?run] by (simp add: numeral_2_eq_2 del: funpow.simps) simp
  qed
  ultimately have "agreed r ns n ((?run ^^ k) w)"
    using agreed_stays [OF assms(1)] dec [of 2] by (simp add: numeral_2_eq_2)
  then show ?thesis
    using agreed_quiet [OF assms(1) _ dec] reconcile_content_funpow [OF assms(1,4)] v by blast
qed

end


section \<open>The controllers\<close>

interpretation cml: closed_loop Handle_configMap "\<lambda>_. False" "\<lambda>r ns n _. ret (shouldFollow_configMap r ns n)" id
  cmPrepare makeRemoteConfigMap cmChange cmOrphanErr cmStored cmValid cmSynced
proof (unfold_locales, goal_cases)
  case (1 r store w)
  then show ?case by (simp add: fun_eq_iff shouldFollow_configMap_def connect_def)
next
  case (2 r store w)
  then show ?case by (simp add: fun_eq_iff cmSynced_def)
next
  case (3 r obj d)
  then show ?case by (auto simp: cmPrepare_def addFinalizer_configMap_def)
next
  case (4 u obj)
  then show ?case by (cases u; cases obj) (simp add: cmValid_def)
next
  case (5 ro r obj h)
  then show ?case by (auto simp: cmChange_def io_simps)
next
  case (6 r ro obj h ro' h')
  then show ?case by (auto dest!: cmChange_Some)
qed

interpretation secl: closed_loop Handle_secret "\<lambda>_. False" "\<lambda>r ns n _. ret (shouldFollow_secret r ns n)" id
  secretPrepare makeRemoteSecret secretChange secretOrphanErr secretStored secretValid secretSynced
proof (unfold_locales, goal_cases)
  case (1 r store w)
  then show ?case by (simp add: fun_eq_iff shouldFollow_secret_def connect_def)
next
  case (2 r store w)
  then show ?case by (simp add: fun_eq_iff secretSynced_def)
next
  case (3 r obj d)
  then show ?case by (auto simp: secretPrepare_def addFinalizer_secret_def)
next
  case (4 u obj)
  then show ?case by (cases u; cases obj) (simp add: secretValid_def)
next
  case (5 ro r obj h)
  then show ?case by (auto simp: secretChange_def io_simps)
next
  case (6 r ro obj h ro' h')
  then show ?case by (auto dest!: secretChange_Some)
qed

lemma shouldFollow_ingress_connect: "shouldFollow_ingress (connect r store w) ing = shouldFollow_ingress r ing"
proof -
  have "svcLister_Get (connect r store w) = svcLister_Get r" by (simp add: connect_def)
  then have "pathIsGlobal (connect r store w) = pathIsGlobal r" by (simp add: fun_eq_iff pathIsGlobal_def split: option.split)
  then have "shouldFollowRules (connect r store w) ns rules = shouldFollowRules r ns rules" for ns rules
    by (induction rules) (simp_all split: option.split)
  then show ?thesis by (simp add: shouldFollow_ingress_def)
qed

interpretation ingl: closed_loop Handle_ingress ingSkip "\<lambda>r _ _ ing. must (shouldFollow_ingress r ing)" id
  ingPrepare makeRemoteIngress ingChange ingOrphanErr ingStored "\<lambda>_. True" ingSynced
proof (unfold_locales, goal_cases)
  case (1 r store w)
  then show ?case by (simp add: shouldFollow_ingress_connect)
next
  case (2 r store w)
  then show ?case by (simp add: fun_eq_iff ingSynced_def)
next
  case (3 r obj d)
  then show ?case by (auto simp: ingPrepare_def addFinalizer_ingress_def)
next
  case (4 u obj)
  then show ?case by simp
next
  case (5 ro r obj h)
  then show ?case by (auto simp: ingChange_eq io_simps)
next
  case (6 r ro obj h ro' h')
  then show ?case by (auto dest!: ingChange_Some simp: updatedIngress_def)
qed


section \<open>Properties\<close>

text \<open>
  Property C20.  The config map controller stabilises.  From every state of the two clusters in which the
  remote object, if any, is the local one's, after two runs the clusters agree and stay so: a
  config map that is gone has no remote copy of this cluster; a terminating one has no remote copy and
  has lost the target's finalizer; a living one that proxy pods of the target use has the finalizer and a
  remote copy that it owns, with the same data and this cluster's name.  Its own data is what it was, and
  further runs make no call.  \<open>store\<close> is what an API server makes of what it stores.
\<close>

theorem configMap_stabilises:
  fixes r :: configMapReconciler
  assumes "SplitKey r key = Some (ns, n)" "startable cmValid w"
    and "keepsMeta cmValid store" "\<And>u. cmStored u (store u)" "\<And>u. cmValid (store u)"
    and "2 \<le> k" "w' = (reconcile Handle_configMap r store key ^^ k) w"
  shows "calls_at Handle_configMap r store key w' = []
    \<and> (case w_local w' of
         None \<Rightarrow> (\<forall>rc. w_remote w' = Some rc \<longrightarrow> \<not> IsRemoteControlled rc (clusterName r))
           \<and> (\<forall>cm. w_local w = Some cm \<longrightarrow> DeletionTimestamp cm \<noteq> None)
       | Some cm' \<Rightarrow>
           (\<exists>cm. w_local w = Some cm \<and> cm_Data cm' = cm_Data cm \<and> cm_BinaryData cm' = cm_BinaryData cm
              \<and> DeletionTimestamp cm' = DeletionTimestamp cm)
           \<and> (if DeletionTimestamp cm' \<noteq> None
              then w_remote w' = None \<and> Finalizer (fe_target r) \<notin> set (Finalizers cm')
              else shouldFollow_configMap r ns n \<longrightarrow> Finalizer (fe_target r) \<in> set (Finalizers cm')
                \<and> (\<exists>rc. w_remote w' = Some rc \<and> ParentControlsChild rc cm' \<and> cm_Data rc = cm_Data cm'
                     \<and> cm_BinaryData rc = cm_BinaryData cm' \<and> mget (Labels rc) LabelKeyParentClusterName = clusterName r)))"
proof -
  have dec: "cml.decides r ns n w" by (simp add: cml.decides_def io_apply)
  have more: "objmeta.more x = objmeta.more y \<Longrightarrow> cm_Data x = cm_Data y \<and> cm_BinaryData x = cm_BinaryData y" for x y :: configMap
    by (cases x; cases y) simp
  have s: "cml.agreed r ns n w'" "calls_at Handle_configMap r store key w' = []" "cml.sameContent w w'"
    using cml.stabilises [OF assms(1) dec assms(2-6)] unfolding assms(7) by simp_all
  show ?thesis
  proof (cases "w_local w'")
    case (Some x')
    then obtain x where x: "w_local w = Some x" "objmeta.more x' = objmeta.more x" "DeletionTimestamp x' = DeletionTimestamp x"
      using s(3) by (auto simp: cml.sameContent_def)
    with more [OF x(2)] s(1,2) Some x show ?thesis by (auto simp: cml.agreed_def cmSynced_def io_apply)
  qed (use s in \<open>auto simp: cml.agreed_def cml.sameContent_def\<close>)
qed

theorem configMap_stabilises_witness:
  "\<exists>store w' cm rc. w' = (reconcile Handle_configMap (sampleReconciler sampleConfigMap (Inl sampleNotFound)) store ''team/conf'' ^^ 2)
        \<lparr>w_local = Some sampleConfigMap, w_remote = None\<rparr>
     \<and> w_local w' = Some cm \<and> w_remote w' = Some rc \<and> cm_Data rc = Some (fmupd ''a'' ''1'' fmempty)
     \<and> ParentControlsChild rc cm
     \<and> calls_at Handle_configMap (sampleReconciler sampleConfigMap (Inl sampleNotFound)) store ''team/conf'' w' = []"
proof -
  define wire :: "(string, string) gomap \<Rightarrow> (string, string) gomap" where "wire m = (if m = Some fmempty then None else m)" for m
  define store where "store cm = cm\<lparr>cm_Data := wire (cm_Data cm), cm_BinaryData := wire (cm_BinaryData cm)\<rparr>" for cm :: configMap
  let ?r = "sampleReconciler sampleConfigMap (Inl sampleNotFound)"
  let ?w = "\<lparr>w_local = Some sampleConfigMap, w_remote = None\<rparr>"
  define w' where "w' = (reconcile Handle_configMap ?r store ''team/conf'' ^^ 2) ?w"
  have ne: "fmupd ''a'' ''1'' fmempty \<noteq> fmempty" by (simp add: fmempty_iff)
  have cm: "DeletionTimestamp sampleConfigMap = None" "UID sampleConfigMap \<noteq> []" "distinct (Finalizers sampleConfigMap)"
    "cm_Data sampleConfigMap = Some (fmupd ''a'' ''1'' fmempty)" "cmValid sampleConfigMap"
    using ne by (simp_all add: sampleConfigMap_def zero_configMap_def zero_meta_def objmeta.defs cmValid_def wireMap_def)
  have wire: "sameEntries m (wire m)" "wireMap (wire m)" "wireMap m \<Longrightarrow> wire m = m" for m
    by (auto simp: wire_def sameEntries_def wireMap_def)
  have keeps: "keepsMeta cmValid store" unfolding keepsMeta_def
  proof (intro allI conjI impI)
    fix u assume "cmValid u" then show "objmeta.more (store u) = objmeta.more u"
      by (cases u) (simp add: store_def cmValid_def wire)
  qed (simp_all add: store_def)
  have st: "startable cmValid ?w" using cm by (simp add: startable_def)
  have stored: "cmStored u (store u)" "cmValid (store u)" for u
    by (simp_all add: cmStored_def cmValid_def store_def wire) (simp_all add: sameEntries_def)
  note stab = configMap_stabilises [OF _ st keeps stored order_refl w'_def, of "''team''" "''conf''"]
  show ?thesis
    using stab sample_follows [of sampleConfigMap "Inl sampleNotFound"] cm
    by (intro exI [of _ store] exI [of _ w']) (auto simp: w'_def [symmetric] split: option.splits)
qed

text \<open>The same for secrets.\<close>

theorem secret_stabilises:
  fixes r :: secretReconciler
  assumes "SplitKey r key = Some (ns, n)" "startable secretValid w"
    and "keepsMeta secretValid store" "\<And>u. secretStored u (store u)" "\<And>u. secretValid (store u)"
    and "2 \<le> k" "w' = (reconcile Handle_secret r store key ^^ k) w"
  shows "calls_at Handle_secret r store key w' = []
    \<and> (case w_local w' of
         None \<Rightarrow> (\<forall>rs. w_remote w' = Some rs \<longrightarrow> \<not> IsRemoteControlled rs (clusterName r))
           \<and> (\<forall>s. w_local w = Some s \<longrightarrow> DeletionTimestamp s \<noteq> None)
       | Some s' \<Rightarrow>
           (\<exists>s. w_local w = Some s \<and> secret_Data s' = secret_Data s \<and> DeletionTimestamp s' = DeletionTimestamp s)
           \<and> (if DeletionTimestamp s' \<noteq> None
              then w_remote w' = None \<and> Finalizer (fe_target r) \<notin> set (Finalizers s')
              else shouldFollow_secret r ns n \<longrightarrow> Finalizer (fe_target r) \<in> set (Finalizers s')
                \<and> (\<exists>rs. w_remote w' = Some rs \<and> ParentControlsChild rs s' \<and> secret_Data rs = secret_Data s'
                     \<and> mget (Labels rs) LabelKeyParentClusterName = clusterName r)))"
proof -
  have dec: "secl.decides r ns n w" by (simp add: secl.decides_def io_apply)
  have more: "objmeta.more x = objmeta.more y \<Longrightarrow> secret_Data x = secret_Data y" for x y :: secret
    by (cases x; cases y) simp
  have s: "secl.agreed r ns n w'" "calls_at Handle_secret r store key w' = []" "secl.sameContent w w'"
    using secl.stabilises [OF assms(1) dec assms(2-6)] unfolding assms(7) by simp_all
  show ?thesis
  proof (cases "w_local w'")
    case (Some x')
    then obtain x where x: "w_local w = Some x" "objmeta.more x' = objmeta.more x" "DeletionTimestamp x' = DeletionTimestamp x"
      using s(3) by (auto simp: secl.sameContent_def)
    with more [OF x(2)] s(1,2) Some x show ?thesis by (auto simp: secl.agreed_def secretSynced_def io_apply)
  qed (use s in \<open>auto simp: secl.agreed_def secl.sameContent_def\<close>)
qed

text \<open>
  The same for ingresses that are not delegates themselves, where the user's annotations agree as well.  A rule
  without paths would end the process, so that the local ingress must have none.
\<close>

lemma shouldFollowRules_returns:
  "\<forall>rule\<in>set rules. HTTP rule \<noteq> None \<Longrightarrow> \<exists>b. shouldFollowRules r ns rules = Some b"
  by (induction rules) auto

theorem ingress_stabilises:
  fixes r :: ingressReconciler
  assumes "SplitKey r key = Some (ns, n)" "startable (\<lambda>_. True) w"
    and "keepsMeta (\<lambda>_. True) store" "\<And>u. ingStored u (store u)" "2 \<le> k"
    and rules: "\<And>ing. w_local w = Some ing \<Longrightarrow> \<forall>rule\<in>set (Rules (ing_Spec ing)). HTTP rule \<noteq> None"
    and "w' = (reconcile Handle_ingress r store key ^^ k) w"
  shows "calls_at Handle_ingress r store key w' = []
    \<and> (case w_local w' of
         None \<Rightarrow> (\<forall>ri. w_remote w' = Some ri \<longrightarrow> \<not> IsRemoteControlled ri (clusterName r))
           \<and> (\<forall>ing. w_local w = Some ing \<longrightarrow> DeletionTimestamp ing \<noteq> None)
       | Some ing' \<Rightarrow>
           (\<exists>ing. w_local w = Some ing \<and> ing_Spec ing' = ing_Spec ing \<and> DeletionTimestamp ing' = DeletionTimestamp ing)
           \<and> (ingSkip ing'
              \<or> (if DeletionTimestamp ing' \<noteq> None
                 then w_remote w' = None \<and> Finalizer (fe_target r) \<notin> set (Finalizers ing')
                 else shouldFollow_ingress r ing' = Some True \<longrightarrow> Finalizer (fe_target r) \<in> set (Finalizers ing')
                   \<and> (\<exists>ri. w_remote w' = Some ri \<and> ParentControlsChild ri ing' \<and> ing_Spec ri = ing_Spec ing'
                        \<and> annotationDiff ri ing' = fmempty \<and> mget (Labels ri) LabelKeyParentClusterName = clusterName r))))"
proof -
  have more: "objmeta.more x = objmeta.more y \<Longrightarrow> ing_Spec x = ing_Spec y" for x y :: ingress
    by (cases x; cases y) simp
  have dec: "ingl.decides r ns n w"
    unfolding ingl.decides_def
  proof (intro allI impI)
    fix x obj :: ingress assume "w_local w = Some x" "objmeta.more obj = objmeta.more x"
    then obtain b where "shouldFollow_ingress r obj = Some b"
      using rules [of x] more [of obj x] shouldFollowRules_returns unfolding shouldFollow_ingress_def by metis
    then show "\<exists>d. \<forall>h. must (shouldFollow_ingress r obj) h = (Ret d, h)" by (simp add: io_simps)
  qed
  have s: "ingl.agreed r ns n w'" "calls_at Handle_ingress r store key w' = []" "ingl.sameContent w w'"
    using ingl.stabilises [OF assms(1) dec assms(2-4) _ assms(5)] unfolding assms(7) by simp_all
  show ?thesis
  proof (cases "w_local w'")
    case (Some x')
    then obtain x where x: "w_local w = Some x" "objmeta.more x' = objmeta.more x" "DeletionTimestamp x' = DeletionTimestamp x"
      using s(3) by (auto simp: ingl.sameContent_def)
    have d: "b = d" if "must (Some b) h = (Ret d, h)" for b d :: bool and h :: "ingress followCall list"
      using that by (simp add: io_simps)
    from more [OF x(2)] s(1) [unfolded ingl.agreed_def] s(2) Some x show ?thesis by (auto simp: ingSynced_def io_simps dest!: d)
  qed (use s(2,3) s(1) [unfolded ingl.agreed_def] in \<open>auto simp: ingl.sameContent_def\<close>)
qed

end
