(* ===== verification/Feedback_Controller.thy ===== *)
theory Feedback_Controller
  imports Pod_Models Agent_Config
begin

text \<open>
  The feedback controller (\<open>pkg/controllers/feedback/controller.go\<close>), one per target: it deletes
  the candidates of a proxy pod that were not chosen, releases the proxy pod's finalizer, mirrors
  the delegate's annotations and status to the proxy pod, and deletes a proxy pod whose delegate is
  gone.  Listers, the index, the clients and \<open>deep.Equal\<close> are parameters.
\<close>

section \<open>Filtering container statuses\<close>

fun hasContainerName :: "container list \<Rightarrow> string \<Rightarrow> bool" where
  "hasContainerName [] name = False"
| "hasContainerName (c # cs) name = (if c_Name c = name then True else hasContainerName cs name)"

fun hasEphemeralContainerName :: "ephemeralContainer list \<Rightarrow> string \<Rightarrow> bool" where
  "hasEphemeralContainerName [] name = False"
| "hasEphemeralContainerName (c # cs) name = (if ec_Name c = name then True else hasEphemeralContainerName cs name)"

text \<open>The loop from index \<open>i\<close>, with the slice being built and whether it is a copy.\<close>

fun filterStatusesFrom ::
  "containerStatus list \<Rightarrow> (string \<Rightarrow> bool) \<Rightarrow> nat \<Rightarrow> containerStatus list \<Rightarrow> containerStatus list \<times> bool
     \<Rightarrow> containerStatus list" where
  "filterStatusesFrom statuses hasName i [] (retval, copied) = retval"
| "filterStatusesFrom statuses hasName i (s # ss) (retval, copied) =
     filterStatusesFrom statuses hasName (i + 1) ss
       (if hasName (cs_Name s) then (if copied then retval @ [s] else retval, copied)
        else if \<not> copied then (take i statuses, True) else (retval, copied))"

definition filterContainerStatuses :: "containerStatus list \<Rightarrow> (string \<Rightarrow> bool) \<Rightarrow> containerStatus list" where
  "filterContainerStatuses statuses hasName = filterStatusesFrom statuses hasName 0 statuses (statuses, False)"

definition filterContainerStatus :: "podSpec \<Rightarrow> podStatus \<Rightarrow> podStatus" where
  "filterContainerStatus proxyPodSpec delegateStatus = delegateStatus
     \<lparr>ContainerStatuses := filterContainerStatuses (ContainerStatuses delegateStatus)
        (hasContainerName (Containers proxyPodSpec)),
      InitContainerStatuses := filterContainerStatuses (InitContainerStatuses delegateStatus)
        (hasContainerName (InitContainers proxyPodSpec)),
      EphemeralContainerStatuses := filterContainerStatuses (EphemeralContainerStatuses delegateStatus)
        (hasEphemeralContainerName (EphemeralContainers proxyPodSpec))\<rparr>"


section \<open>The reconciler\<close>

datatype feedbackCall =
    FB_DeleteChaperon string string
  | FB_UpdateChaperon string podChaperon
  | FB_UpdatePod string pod
  | FB_UpdatePodStatus string pod
  | FB_DeletePod string string

record feedbackReconciler =
  fb_clusterName :: string
  fb_target :: agentTarget
  fb_SplitKey :: "string \<Rightarrow> (string \<times> string) option"
  podsLister_Get :: "string \<Rightarrow> string \<Rightarrow> error + pod"
  chaperonsByPod :: "string \<Rightarrow> podChaperon list option"
  chaperonsLister_List :: "string \<Rightarrow> string \<Rightarrow> error + podChaperon list"
  deep_Equal :: "podStatus \<Rightarrow> podStatus \<Rightarrow> bool"
  chaperons_Delete :: "feedbackCall list \<Rightarrow> string \<Rightarrow> string \<Rightarrow> error + unit"
  chaperons_Update :: "feedbackCall list \<Rightarrow> string \<Rightarrow> podChaperon \<Rightarrow> error + podChaperon"
  pods_Update :: "feedbackCall list \<Rightarrow> string \<Rightarrow> pod \<Rightarrow> error + pod"
  pods_UpdateStatus :: "feedbackCall list \<Rightarrow> string \<Rightarrow> pod \<Rightarrow> error + pod"
  pods_Delete :: "feedbackCall list \<Rightarrow> string \<Rightarrow> string \<Rightarrow> error + unit"

text \<open>\<open>NewController\<close>: proxy pods are enqueued, and pod chaperons enqueue the proxy pod they name.\<close>

datatype feedbackEvent = FeedbackPodEvent "pod notification" | FeedbackChaperonEvent "podChaperon notification"

fun NewFeedbackController ::
  "(pod \<Rightarrow> error + string) \<Rightarrow> string \<Rightarrow> feedbackEvent \<Rightarrow> (string wq_call, unit) io" where
  "NewFeedbackController keyFunc cluster (FeedbackPodEvent n) =
     HandleAddUpdateWith (\<lambda>p. if IsProxy p then EnqueueObject keyFunc p else ret ()) n"
| "NewFeedbackController keyFunc cluster (FeedbackChaperonEvent n) =
     HandleAllWith (EnqueueRemoteController cluster) n"

definition deleteChaperon ::
  "feedbackReconciler \<Rightarrow> (error \<Rightarrow> error) \<Rightarrow> string \<Rightarrow> podChaperon \<Rightarrow> (feedbackCall, unit) io" where
  "deleteChaperon c wrap ns candidate =
     bindM (call (\<lambda>h. chaperons_Delete c h ns (Name candidate)) (FB_DeleteChaperon ns (Name candidate))) (\<lambda>res.
       case res of Inl err \<Rightarrow> if \<not> IsNotFound err then fail (wrap err) else ret () | Inr _ \<Rightarrow> ret ())"

fun deleteOrphans :: "feedbackReconciler \<Rightarrow> string \<Rightarrow> podChaperon list \<Rightarrow> (feedbackCall, unit) io" where
  "deleteOrphans c ns [] = ret ()"
| "deleteOrphans c ns (candidate # objs) =
     bindM (deleteChaperon c (\<lambda>err. Errorf (''cannot delete orphaned pod chaperon: '' @ Error err)) ns candidate)
       (\<lambda>_. deleteOrphans c ns objs)"

definition removeFinalizer_feedback :: "feedbackReconciler \<Rightarrow> pod \<Rightarrow> int \<Rightarrow> (feedbackCall, pod) io" where
  "removeFinalizer_feedback c p j =
     bindM (must (removeAt j (Finalizers p))) (\<lambda>fs.
     bindM (call (\<lambda>h. pods_Update c h (Namespace p) (p\<lparr>Finalizers := fs\<rparr>))
       (FB_UpdatePod (Namespace p) (p\<lparr>Finalizers := fs\<rparr>))) tryM)"

text \<open>A terminating proxy pod, or one bound to another node, gives up its candidate here, then its
  finalizer.\<close>

definition releaseCandidate ::
  "feedbackReconciler \<Rightarrow> string \<Rightarrow> pod \<Rightarrow> podChaperon option \<Rightarrow> (feedbackCall, pod) io" where
  "releaseCandidate c ns proxyPod candidate =
     (let virtualNodeName = GetScheduledClusterName proxyPod;
          (proxyPodHasFinalizer, j) = HasFinalizer (Finalizers proxyPod) (Finalizer (fb_target c))
      in if DeletionTimestamp proxyPod \<noteq> None
            \<or> virtualNodeName \<noteq> [] \<and> virtualNodeName \<noteq> VirtualNodeName (fb_target c)
         then (case candidate of
                 Some cand \<Rightarrow> bindM (deleteChaperon c id ns cand) (\<lambda>_. ret proxyPod)
               | None \<Rightarrow> if proxyPodHasFinalizer then removeFinalizer_feedback c proxyPod j else ret proxyPod)
         else ret proxyPod)"

definition deleteMissing ::
  "feedbackReconciler \<Rightarrow> string \<Rightarrow> podChaperon option \<Rightarrow> (feedbackCall, unit) io" where
  "deleteMissing c ns candidate =
     (case candidate of
        None \<Rightarrow> ret ()
      | Some cand \<Rightarrow>
          (case mlookup (Annotations cand) AnnotationKeyPodMissingSince of
             None \<Rightarrow> ret ()
           | Some _ \<Rightarrow> deleteChaperon c (\<lambda>_. Errorf ''cannot delete pod chaperon'') ns cand))"

definition mirrorDelegate ::
  "feedbackReconciler \<Rightarrow> string \<Rightarrow> pod \<Rightarrow> podChaperon \<Rightarrow> (feedbackCall, unit) io" where
  "mirrorDelegate c ns proxyPod delegate =
     (case SplitLabelsOrAnnotations (Annotations proxyPod) of (mcProxyPodAnnotations, otherProxyPodAnnotations) \<Rightarrow>
      case SplitLabelsOrAnnotations (Annotations delegate) of (_, otherDelegatePodAnnotations) \<Rightarrow>
      bindM (if otherProxyPodAnnotations \<noteq> otherDelegatePodAnnotations
             then let podCopy = proxyPod\<lparr>Annotations :=
                        Some (copyInto mcProxyPodAnnotations (Some otherDelegatePodAnnotations))\<rparr>
                  in bindM (call (\<lambda>h. pods_Update c h ns podCopy) (FB_UpdatePod ns podCopy)) tryM
             else ret proxyPod) (\<lambda>proxyPod.
      let filteredDelegateStatus = filterContainerStatus (pod_Spec proxyPod) (pc_Status delegate) in
      bindM (if \<not> deep_Equal c (pod_Status proxyPod) filteredDelegateStatus
             then let podCopy = proxyPod\<lparr>pod_Status := filteredDelegateStatus\<rparr>
                  in bindM (call (\<lambda>h. pods_UpdateStatus c h ns podCopy) (FB_UpdatePodStatus ns podCopy)) tryM
             else ret proxyPod) (\<lambda>_.
      if mget (Labels delegate) LabelKeyParentClusterName \<noteq> fb_clusterName c
      then bindM (mwrite (Labels delegate) LabelKeyParentClusterName (fb_clusterName c)) (\<lambda>labels.
           bindM (call (\<lambda>h. chaperons_Update c h ns (delegate\<lparr>Labels := labels\<rparr>))
             (FB_UpdateChaperon ns (delegate\<lparr>Labels := labels\<rparr>))) (\<lambda>res.
             case res of Inl err \<Rightarrow> fail (Errorf ''cannot update candidate pod chaperon'') | Inr _ \<Rightarrow> ret ()))
      else ret ())))"

definition Handle_feedback :: "feedbackReconciler \<Rightarrow> string \<Rightarrow> (feedbackCall, nat option) io" where
  "Handle_feedback c key =
     bindM (must (fb_SplitKey c key)) (\<lambda>(namespace, name).
     case podsLister_Get c namespace name of
       Inl err \<Rightarrow>
         if IsNotFound err then bindM (must (chaperonsByPod c key)) (\<lambda>objs. bindM (deleteOrphans c namespace objs) (\<lambda>_. ret None))
         else fail (Errorf (''cannot get proxy pod: '' @ Error err))
     | Inr proxyPod \<Rightarrow>
         bindM (tryM (chaperonsLister_List c namespace (UID proxyPod))) (\<lambda>l.
         if length l > 1 then fail (Errorf ''more than one candidate in target cluster'')
         else
           let candidate = (if length l = 1 then Some (l ! 0) else None);
               virtualNodeName = GetScheduledClusterName proxyPod
           in bindM (releaseCandidate c namespace proxyPod candidate) (\<lambda>proxyPod.
              bindM (deleteMissing c namespace candidate) (\<lambda>_.
              if virtualNodeName = VirtualNodeName (fb_target c) then
                (case candidate of
                   Some delegate \<Rightarrow> bindM (mirrorDelegate c namespace proxyPod delegate) (\<lambda>_. ret None)
                 | None \<Rightarrow>
                     bindM (call (\<lambda>h. pods_Delete c h namespace name) (FB_DeletePod namespace name)) (\<lambda>res.
                       case res of Inl err \<Rightarrow> fail err | Inr _ \<Rightarrow> ret None))
              else ret None))))"


section \<open>Lemmas on statuses\<close>

lemma hasContainerName_iff: "hasContainerName cs n \<longleftrightarrow> n \<in> c_Name ` set cs"
  by (induction cs) auto

lemma hasEphemeralContainerName_iff: "hasEphemeralContainerName cs n \<longleftrightarrow> n \<in> ec_Name ` set cs"
  by (induction cs) auto

lemma filterStatusesFrom_copied:
  "filterStatusesFrom statuses P i ss (acc, True) = acc @ filter (\<lambda>s. P (cs_Name s)) ss"
  by (induction ss arbitrary: i acc) auto

text \<open>Until the first status to drop, the slice is the original one.\<close>

lemma filterStatusesFrom_original:
  "list_all (\<lambda>s. P (cs_Name s)) pre \<Longrightarrow>
     filterStatusesFrom (pre @ ss) P (length pre) ss (pre @ ss, False) = filter (\<lambda>s. P (cs_Name s)) (pre @ ss)"
proof (induction ss arbitrary: pre)
  case Nil
  then show ?case by (auto simp: list_all_iff filter_id_conv)
next
  case (Cons s ss)
  then have pre: "filter (\<lambda>s. P (cs_Name s)) pre = pre" by (auto simp: list_all_iff filter_id_conv)
  show ?case
  proof (cases "P (cs_Name s)")
    case True
    with Cons.IH [of "pre @ [s]"] Cons.prems show ?thesis by simp
  qed (simp add: filterStatusesFrom_copied pre)
qed

lemma filterContainerStatuses_eq: "filterContainerStatuses ss P = filter (\<lambda>s. P (cs_Name s)) ss"
  unfolding filterContainerStatuses_def using filterStatusesFrom_original [of P "[]" ss] by simp



section \<open>What the controller may do\<close>

definition givesUp :: "feedbackReconciler \<Rightarrow> pod \<Rightarrow> bool" where
  "givesUp c p \<longleftrightarrow> DeletionTimestamp p \<noteq> None
     \<or> NodeName (pod_Spec p) \<noteq> [] \<and> NodeName (pod_Spec p) \<noteq> VirtualNodeName (fb_target c)"

definition boundHere :: "feedbackReconciler \<Rightarrow> pod \<Rightarrow> bool" where
  "boundHere c p \<longleftrightarrow> NodeName (pod_Spec p) = VirtualNodeName (fb_target c)"

text \<open>With the proxy pod \<open>p\<close> in the cache and the candidates \<open>l\<close> of its UID.\<close>

definition podCallAllowed ::
  "feedbackReconciler \<Rightarrow> string \<Rightarrow> string \<Rightarrow> pod \<Rightarrow> podChaperon list \<Rightarrow> feedbackCall \<Rightarrow> bool" where
  "podCallAllowed c ns name p l e \<longleftrightarrow>
     (case e of
        FB_DeleteChaperon ns' n \<Rightarrow> ns' = ns \<and> (\<exists>cand. l = [cand] \<and> n = Name cand
          \<and> (givesUp c p \<or> mlookup (Annotations cand) AnnotationKeyPodMissingSince \<noteq> None))
      | FB_DeletePod ns' n \<Rightarrow> ns' = ns \<and> n = name \<and> l = [] \<and> boundHere c p
      | FB_UpdatePod ns' p' \<Rightarrow>
          (l = [] \<and> ns' = Namespace p \<and> givesUp c p \<and> Finalizer (fb_target c) \<in> set (Finalizers p)
            \<and> p' = p\<lparr>Finalizers := remove1 (Finalizer (fb_target c)) (Finalizers p)\<rparr>)
          \<or> (\<exists>d. l = [d] \<and> ns' = ns \<and> boundHere c p \<and> p' = p\<lparr>Annotations := Annotations p'\<rparr>
              \<and> fst (SplitLabelsOrAnnotations (Annotations p')) = fst (SplitLabelsOrAnnotations (Annotations p))
              \<and> snd (SplitLabelsOrAnnotations (Annotations p')) = snd (SplitLabelsOrAnnotations (Annotations d)))
      | FB_UpdatePodStatus ns' p' \<Rightarrow> ns' = ns \<and> (\<exists>d. l = [d] \<and> boundHere c p
          \<and> pod_Status p' = filterContainerStatus (pod_Spec p') (pc_Status d))
      | FB_UpdateChaperon ns' d' \<Rightarrow> ns' = ns \<and> (\<exists>d. l = [d] \<and> boundHere c p \<and> d' = d\<lparr>Labels := Labels d'\<rparr>
          \<and> mget (Labels d') LabelKeyParentClusterName = fb_clusterName c))"

definition feedbackAllowed ::
  "feedbackReconciler \<Rightarrow> string \<Rightarrow> string \<Rightarrow> string \<Rightarrow> feedbackCall \<Rightarrow> bool" where
  "feedbackAllowed c key ns name e \<longleftrightarrow>
     (case podsLister_Get c ns name of
        Inl err \<Rightarrow> IsNotFound err \<and> (\<exists>cands. chaperonsByPod c key = Some cands
          \<and> (\<exists>cand\<in>set cands. e = FB_DeleteChaperon ns (Name cand)))
      | Inr p \<Rightarrow> (\<exists>l. chaperonsLister_List c ns (UID p) = Inr l \<and> podCallAllowed c ns name p l e))"

lemma emits_deleteChaperon [emits_intros]:
  "P (FB_DeleteChaperon ns (Name cand)) \<Longrightarrow> emits P (deleteChaperon c w ns cand)"
  unfolding deleteChaperon_def by (intro emits_intros)

lemma emits_deleteOrphans:
  "(\<And>cand. cand \<in> set l \<Longrightarrow> P (FB_DeleteChaperon ns (Name cand))) \<Longrightarrow> emits P (deleteOrphans c ns l)"
  by (induction l) (auto intro!: emits_intros)

lemma emits_removeFinalizer_feedback:
  assumes "P (FB_UpdatePod (Namespace p) (p\<lparr>Finalizers := remove1 f (Finalizers p)\<rparr>))"
    and "removeAt j (Finalizers p) = Some (remove1 f (Finalizers p))"
  shows "emits P (removeFinalizer_feedback c p j)"
  unfolding removeFinalizer_feedback_def using assms by (auto simp: io_values intro!: emits_intros)

lemma emits_releaseCandidate:
  assumes "length l \<le> 1" and "candidate = (if length l = 1 then Some (l ! 0) else None)"
  shows "emits (podCallAllowed c ns name p l) (releaseCandidate c ns p candidate)"
proof (cases rule: HasFinalizer_cases [of "Finalizers p" "Finalizer (fb_target c)"])
  case (has j)
  with assms show ?thesis
    by (cases l) (auto simp: releaseCandidate_def Let_def GetScheduledClusterName_def podCallAllowed_def givesUp_def
        intro!: emits_intros emits_removeFinalizer_feedback [where f = "Finalizer (fb_target c)"])
next
  case (hasnt j)
  with assms show ?thesis
    by (cases l) (auto simp: releaseCandidate_def Let_def GetScheduledClusterName_def podCallAllowed_def givesUp_def
        intro!: emits_intros)
qed

lemma releaseCandidate_keeps:
  "releaseCandidate c ns p (Some cand) h = (Ret p', h') \<Longrightarrow> p' = p"
  by (auto simp: releaseCandidate_def Let_def io_simps split: prod.splits if_splits outcome.splits)

lemma emits_mirrorDelegate:
  assumes "boundHere c p"
  shows "emits (podCallAllowed c ns name p [d]) (mirrorDelegate c ns p d)"
proof -
  obtain mc other where p: "SplitLabelsOrAnnotations (Annotations p) = (mc, other)" by fastforce
  obtain mc' other' where d: "SplitLabelsOrAnnotations (Annotations d) = (mc', other')" by fastforce
  note split = mirrored_annotations [OF p d]
  have tail: "emits (podCallAllowed c ns name p [d])
      (if mget (Labels d) LabelKeyParentClusterName \<noteq> fb_clusterName c
       then bindM (mwrite (Labels d) LabelKeyParentClusterName (fb_clusterName c)) (\<lambda>labels.
            bindM (call (\<lambda>h. chaperons_Update c h ns (d\<lparr>Labels := labels\<rparr>))
              (FB_UpdateChaperon ns (d\<lparr>Labels := labels\<rparr>))) (\<lambda>res.
              case res of Inl err \<Rightarrow> fail (Errorf ''cannot update candidate pod chaperon'') | Inr _ \<Rightarrow> ret ()))
       else ret ())"
    using assms by (cases "Labels d") (auto simp: io_values podCallAllowed_def intro!: emits_intros)
  show ?thesis
    unfolding mirrorDelegate_def p d Let_def prod.case
    by (intro emits_bindM tail)
      (use assms split in \<open>auto simp: podCallAllowed_def p d intro!: emits_intros\<close>)
qed

lemma Handle_feedback_allowed:
  assumes "fb_SplitKey c key = Some (ns, name)"
  shows "emits (feedbackAllowed c key ns name) (Handle_feedback c key)"
proof (cases "podsLister_Get c ns name")
  case (Inl err)
  then show ?thesis using assms
    by (cases "chaperonsByPod c key")
      (auto simp: Handle_feedback_def io_values feedbackAllowed_def
        intro!: emits_intros emits_deleteOrphans)
next
  case (Inr p)
  show ?thesis
  proof (cases "chaperonsLister_List c ns (UID p)")
    case (Inl err)
    with Inr assms show ?thesis by (simp add: Handle_feedback_def io_values emits_fail)
  next
    case l: (Inr l)
    let ?cand = "if length l = 1 then Some (l ! 0) else None"
    have mono: "emits (podCallAllowed c ns name p l) m \<Longrightarrow> emits (feedbackAllowed c key ns name) m" for m :: "(feedbackCall, 'x) io"
      by (erule emits_mono) (simp add: feedbackAllowed_def Inr l)
    have missing: "emits (podCallAllowed c ns name p l) (deleteMissing c ns ?cand)"
      by (cases l) (auto simp: deleteMissing_def podCallAllowed_def intro!: emits_intros)
    have rest: "emits (podCallAllowed c ns name p l) (bindM (releaseCandidate c ns p ?cand) (\<lambda>q.
        bindM (deleteMissing c ns ?cand) (\<lambda>_.
        if GetScheduledClusterName p = VirtualNodeName (fb_target c) then
          (case ?cand of
             Some delegate \<Rightarrow> bindM (mirrorDelegate c ns q delegate) (\<lambda>_. ret None)
           | None \<Rightarrow>
               bindM (call (\<lambda>h. pods_Delete c h ns name) (FB_DeletePod ns name)) (\<lambda>res.
                 case res of Inl err \<Rightarrow> fail err | Inr _ \<Rightarrow> ret None))
        else ret None)))" if "length l \<le> 1"
    proof (rule emits_bindM_ret [OF emits_releaseCandidate [OF that refl]], rule emits_bindM [OF missing], rule emits_if)
      fix q h h'
      assume q: "releaseCandidate c ns p ?cand h = (Ret q, h')"
        and here: "GetScheduledClusterName p = VirtualNodeName (fb_target c)"
      then have b: "boundHere c p" by (simp add: boundHere_def GetScheduledClusterName_def)
      show "emits (podCallAllowed c ns name p l) (case ?cand of
             Some delegate \<Rightarrow> bindM (mirrorDelegate c ns q delegate) (\<lambda>_. ret None)
           | None \<Rightarrow> bindM (call (\<lambda>h. pods_Delete c h ns name) (FB_DeletePod ns name)) (\<lambda>res.
                 case res of Inl err \<Rightarrow> fail err | Inr _ \<Rightarrow> ret None))"
      proof (cases l)
        case Nil
        with b show ?thesis by (auto simp: podCallAllowed_def intro!: emits_intros)
      next
        case (Cons d l')
        with that q have "l = [d]" "q = p" by (auto dest: releaseCandidate_keeps)
        with b show ?thesis by (auto intro!: emits_intros emits_mirrorDelegate)
      qed
    qed (rule emits_ret)
    show ?thesis
    proof (cases "length l > 1")
      case True
      with assms Inr l show ?thesis by (simp add: Handle_feedback_def io_values emits_fail)
    next
      case False
      then show ?thesis
        unfolding Handle_feedback_def Let_def
        by (simp only: assms io_values bindM_laws prod.case Inr l sum.case if_False)
          (rule mono [OF rest], simp)
    qed
  qed
qed


section \<open>Properties\<close>

text \<open>
  Property C28.  The feedback controller does only what the state of the proxy pod calls for, whatever
  the API servers answer.  A candidate is deleted only if its proxy pod is gone, is terminating or
  is bound to another node, or if the candidate itself reports its pod missing; the finalizer
  is taken off only when no candidate is left; annotations and status flow only from the delegate
  of the node the pod is bound to, and never touch the program's own annotations; and the proxy
  pod is deleted only when it is bound here and has no delegate.
\<close>

theorem feedback_allowed_only:
  "case fb_SplitKey c key of
     None \<Rightarrow> Handle_feedback c key = panic
   | Some (ns, name) \<Rightarrow> emits (feedbackAllowed c key ns name) (Handle_feedback c key)"
proof (cases "fb_SplitKey c key")
  case None
  then show ?thesis by (simp add: Handle_feedback_def io_values)
next
  case (Some k)
  then show ?thesis using Handle_feedback_allowed by (cases k) simp
qed

text \<open>
  The status shown on a proxy pod lists exactly the containers of the proxy pod: the
  copy-on-write loop is a filter, so the delegate's statuses of containers that the target cluster
  injected are dropped, the others keep their order, and the rest of the status is the delegate's.
\<close>

theorem filterContainerStatus_filters:
  "filterContainerStatus spec st = st
     \<lparr>ContainerStatuses := filter (\<lambda>s. cs_Name s \<in> c_Name ` set (Containers spec)) (ContainerStatuses st),
      InitContainerStatuses := filter (\<lambda>s. cs_Name s \<in> c_Name ` set (InitContainers spec)) (InitContainerStatuses st),
      EphemeralContainerStatuses :=
        filter (\<lambda>s. cs_Name s \<in> ec_Name ` set (EphemeralContainers spec)) (EphemeralContainerStatuses st)\<rparr>"
  by (simp add: filterContainerStatus_def filterContainerStatuses_eq hasContainerName_iff
      hasEphemeralContainerName_iff)

text \<open>A pod that gives up its candidate: the three runs, by what is left of the candidate and the finalizer.\<close>

lemma emits_mirror_not_delete:
  assumes "boundHere c p"
  shows "emits (\<lambda>e. podCallAllowed c ns name p [d] e \<and> e \<noteq> FB_DeleteChaperon ns' n') (mirrorDelegate c ns p d)"
proof (rule emits_conj [OF emits_mirrorDelegate [OF assms]])
  show "emits (\<lambda>e. e \<noteq> FB_DeleteChaperon ns' n') (mirrorDelegate c ns p d)"
    unfolding mirrorDelegate_def Let_def by (intro emits_intros; simp)
qed

lemma Handle_gives_up:
  assumes "fb_SplitKey c key = Some (ns, name)" "podsLister_Get c ns name = Inr p" "givesUp c p"
    and "chaperonsLister_List c ns (UID p) = Inr [cand]"
  shows "Handle_feedback c key = bindM (deleteChaperon c id ns cand) (\<lambda>_.
     bindM (deleteMissing c ns (Some cand)) (\<lambda>_.
     if boundHere c p then bindM (mirrorDelegate c ns p cand) (\<lambda>_. ret None) else ret None))"
proof -
  have "releaseCandidate c ns p (Some cand) = bindM (deleteChaperon c id ns cand) (\<lambda>_. ret p)"
    using assms(3) by (auto simp: releaseCandidate_def givesUp_def GetScheduledClusterName_def Let_def split: prod.splits)
  then show ?thesis
    using assms(1,2,4) by (simp add: Handle_feedback_def io_values boundHere_def GetScheduledClusterName_def bindM_assoc)
qed

lemma gives_up_first:
  assumes "fb_SplitKey c key = Some (ns, name)" "podsLister_Get c ns name = Inr p" "givesUp c p"
    and "chaperonsLister_List c ns (UID p) = Inr [cand]"
  shows "\<exists>es. snd (Handle_feedback c key []) = FB_DeleteChaperon ns (Name cand) # es
    \<and> (\<forall>e\<in>set es. if e = FB_DeleteChaperon ns (Name cand) then mlookup (Annotations cand) AnnotationKeyPodMissingSince \<noteq> None
         else boundHere c p \<and> podCallAllowed c ns name p [cand] e)"
proof -
  let ?P = "\<lambda>e. if e = FB_DeleteChaperon ns (Name cand) then mlookup (Annotations cand) AnnotationKeyPodMissingSince \<noteq> None
         else boundHere c p \<and> podCallAllowed c ns name p [cand] e"
  let ?rest = "bindM (deleteMissing c ns (Some cand)) (\<lambda>_.
     if boundHere c p then bindM (mirrorDelegate c ns p cand) (\<lambda>_. ret None) else ret (None :: nat option))"
  have "emits ?P (deleteMissing c ns (Some cand))"
    unfolding deleteMissing_def by (simp, intro emits_intros) simp
  then have rest: "emits ?P ?rest"
    by (intro emits_bindM emits_if emits_ret emits_mono [OF emits_mirror_not_delete]) auto
  have "snd (deleteChaperon c id ns cand []) = [FB_DeleteChaperon ns (Name cand)]"
    by (auto simp: deleteChaperon_def io_simps split: sum.split)
  then obtain r where del: "deleteChaperon c id ns cand [] = (r, [FB_DeleteChaperon ns (Name cand)])"
    by (metis prod.collapse)
  obtain es where "snd (?rest [FB_DeleteChaperon ns (Name cand)]) = [FB_DeleteChaperon ns (Name cand)] @ es" "list_all ?P es"
    using rest unfolding emits_def by blast
  then show ?thesis
    by (cases r) (auto simp: Handle_gives_up [OF assms] bindM_apply [of "deleteChaperon c id ns cand"] del list_all_iff)
qed

lemma gives_up_then:
  assumes "fb_SplitKey c key = Some (ns, name)" "podsLister_Get c ns name = Inr p" "givesUp c p"
    and "chaperonsLister_List c ns (UID p) = Inr []"
  defines "p' \<equiv> p\<lparr>Finalizers := remove1 (Finalizer (fb_target c)) (Finalizers p)\<rparr>"
    and "deletion \<equiv> if boundHere c p then [FB_DeletePod ns name] else []"
  shows "snd (Handle_feedback c key []) =
    (if Finalizer (fb_target c) \<in> set (Finalizers p)
     then FB_UpdatePod (Namespace p) p' # (case pods_Update c [] (Namespace p) p' of Inl _ \<Rightarrow> [] | Inr _ \<Rightarrow> deletion)
     else deletion)"
proof -
  have run: "Handle_feedback c key = bindM (releaseCandidate c ns p None) (\<lambda>_.
      if boundHere c p then bindM (call (\<lambda>h. pods_Delete c h ns name) (FB_DeletePod ns name)) (\<lambda>res.
        case res of Inl err \<Rightarrow> fail err | Inr _ \<Rightarrow> ret None) else ret None)"
    using assms(1,2,4)
    by (simp add: Handle_feedback_def io_values deleteMissing_def boundHere_def GetScheduledClusterName_def)
  show ?thesis
  proof (cases rule: HasFinalizer_cases [of "Finalizers p" "Finalizer (fb_target c)"])
    case (has j)
    then have "releaseCandidate c ns p None [] = (case pods_Update c [] (Namespace p) p' of Inl e \<Rightarrow> Fail e | Inr q \<Rightarrow> Ret q,
        [FB_UpdatePod (Namespace p) p'])"
      using assms(3) by (auto simp: releaseCandidate_def givesUp_def GetScheduledClusterName_def Let_def
          removeFinalizer_feedback_def io_simps p'_def split: sum.split)
    with has show ?thesis
      by (auto simp: run bindM_apply [of "releaseCandidate c ns p None"] io_apply bindM_apply [of "call a e" for a e]
          deletion_def split: sum.splits)
  next
    case (hasnt j)
    then have "releaseCandidate c ns p None = ret p"
      by (auto simp: releaseCandidate_def Let_def)
    with hasnt show ?thesis
      by (auto simp: run deletion_def io_apply bindM_apply [of "call a e" for a e] split: sum.splits)
  qed
qed

text \<open>
  Property C30.  A proxy pod that is terminating, or bound to another target, is released step by step.
  While it has its candidate, a run deletes the candidate first; it deletes it again if the candidate
  reports its pod missing, still mirrors it to the proxy pod if that is bound to this target, does nothing
  else, and keeps the finalizer.  Without a candidate, a run takes the finalizer off, and without
  either it leaves the pod alone.  A terminating pod bound to this target is deleted as well, though it is terminating
  already: after its finalizer is off, or at once when it had none.
\<close>

theorem feedback_releases:
  assumes "fb_SplitKey c key = Some (ns, name)" "podsLister_Get c ns name = Inr p"
    and "DeletionTimestamp p \<noteq> None \<or> NodeName (pod_Spec p) \<notin> {[], VirtualNodeName (fb_target c)}"
  defines "p' \<equiv> p\<lparr>Finalizers := remove1 (Finalizer (fb_target c)) (Finalizers p)\<rparr>"
    and "deletion \<equiv> if boundHere c p then [FB_DeletePod ns name] else []"
  shows "(\<forall>cand. chaperonsLister_List c ns (UID p) = Inr [cand] \<longrightarrow>
       (\<exists>es. snd (Handle_feedback c key []) = FB_DeleteChaperon ns (Name cand) # es
          \<and> (\<forall>e\<in>set es. if e = FB_DeleteChaperon ns (Name cand) then mlookup (Annotations cand) AnnotationKeyPodMissingSince \<noteq> None
               else boundHere c p \<and> podCallAllowed c ns name p [cand] e)))
    \<and> (chaperonsLister_List c ns (UID p) = Inr [] \<longrightarrow> snd (Handle_feedback c key []) =
        (if Finalizer (fb_target c) \<in> set (Finalizers p)
         then FB_UpdatePod (Namespace p) p' # (case pods_Update c [] (Namespace p) p' of Inl _ \<Rightarrow> [] | Inr _ \<Rightarrow> deletion)
         else deletion))"
proof -
  have "givesUp c p" using assms(3) by (auto simp: givesUp_def)
  then show ?thesis
    using gives_up_first [OF assms(1,2)] gives_up_then [OF assms(1,2)] unfolding p'_def deletion_def by blast
qed

text \<open>A proxy pod of the first target; what each of the two conjuncts says of it.\<close>

definition sampleFeedback :: "string \<Rightarrow> pod \<Rightarrow> podChaperon list \<Rightarrow> feedbackReconciler" where
  "sampleFeedback virtualNode p l = \<lparr>fb_clusterName = ''c1'',
     fb_target = \<lparr>t_Name = ''prod'', ClientConfig = [], Self = True, t_Namespace = ''team'',
       ExcludedLabelsRegexp = None, VirtualNodeName = virtualNode, Finalizer = ''fin''\<rparr>,
     fb_SplitKey = (\<lambda>_. Some (''team'', ''web'')),
     podsLister_Get = (\<lambda>_ _. Inr p), chaperonsByPod = (\<lambda>_. Some []), chaperonsLister_List = (\<lambda>_ _. Inr l),
     deep_Equal = (=), chaperons_Delete = (\<lambda>_ _ _. Inr ()), chaperons_Update = (\<lambda>_ _ d. Inr d),
     pods_Update = (\<lambda>_ _ q. Inr q), pods_UpdateStatus = (\<lambda>_ _ q. Inr q), pods_Delete = (\<lambda>_ _ _. Inr ())\<rparr>"

theorem feedback_releases_witness:
  "\<exists>p cand. Finalizers p = [''fin''] \<and> snd (Handle_feedback (sampleFeedback ''other'' p [cand]) ''team/web'' []) = [FB_DeleteChaperon ''team'' (Name cand)]
    \<and> snd (Handle_feedback (sampleFeedback ''other'' p []) ''team/web'' []) = [FB_UpdatePod ''team'' (p\<lparr>Finalizers := []\<rparr>)]
    \<and> snd (Handle_feedback (sampleFeedback ''node'' p []) ''team/web'' []) =
        [FB_UpdatePod ''team'' (p\<lparr>Finalizers := []\<rparr>), FB_DeletePod ''team'' ''web'']"
proof -
  define p where "p = zero_pod\<lparr>Name := ''web'', Namespace := ''team'', UID := ''u1'', Finalizers := [''fin''],
     DeletionTimestamp := Some 1, pod_Spec := zero_podSpec\<lparr>NodeName := ''node''\<rparr>\<rparr>"
  let ?c = "\<lambda>vn l. sampleFeedback vn p l"
  have p: "Finalizers p = [''fin'']" "Namespace p = ''team''" "DeletionTimestamp p \<noteq> None" "NodeName (pod_Spec p) = ''node''"
    and c: "fb_SplitKey (?c vn l) ''team/web'' = Some (''team'', ''web'')" "podsLister_Get (?c vn l) ''team'' ''web'' = Inr p"
      "chaperonsLister_List (?c vn l) ''team'' (UID p) = Inr l" "Finalizer (fb_target (?c vn l)) = ''fin''"
      "pods_Update (?c vn l) h ns q = Inr q" "boundHere (?c vn l) p \<longleftrightarrow> vn = ''node''" for vn l h ns q
    by (auto simp: p_def sampleFeedback_def boundHere_def)
  have missing: "mlookup (Annotations zero_podChaperon) AnnotationKeyPodMissingSince = None"
    by (simp add: zero_podChaperon_def zero_meta_def objmeta.defs)
  have "snd (Handle_feedback (?c ''other'' [zero_podChaperon]) ''team/web'' []) = [FB_DeleteChaperon ''team'' (Name zero_podChaperon)]"
    using feedback_releases [OF c(1) [of "''other''" "[zero_podChaperon]"] c(2) disjI1 [OF p(3)]] missing by (auto simp: c neq_Nil_conv split: if_splits)
  moreover have "snd (Handle_feedback (?c ''other'' []) ''team/web'' []) = [FB_UpdatePod ''team'' (p\<lparr>Finalizers := []\<rparr>)]"
    using feedback_releases [OF c(1) [of "''other''" "[]"] c(2) disjI1 [OF p(3)]] by (simp add: c p)
  moreover have "snd (Handle_feedback (?c ''node'' []) ''team/web'' []) =
      [FB_UpdatePod ''team'' (p\<lparr>Finalizers := []\<rparr>), FB_DeletePod ''team'' ''web'']"
    using feedback_releases [OF c(1) [of "''node''" "[]"] c(2) disjI1 [OF p(3)]] by (simp add: c p)
  ultimately show ?thesis using p(1) by blast
qed

end
