(* ===== verification/Feedback_Mirror.thy ===== *)
theory Feedback_Mirror
  imports Feedback_Controller
begin

text \<open>
  The feedback controller in the closed loop: a living proxy pod that is bound to the target, its delegate, and
  the two API servers that hold them.  A general update leaves the status of a pod alone and an
  update of the status leaves everything else alone, as the API machinery documents.  One run mirrors the
  delegate; the next one has nothing to do.
\<close>

section \<open>The two API servers\<close>

type_synonym mirrorWorld = "pod \<times> podChaperon"

fun applyFeedback :: "mirrorWorld \<Rightarrow> feedbackCall \<Rightarrow> mirrorWorld" where
  "applyFeedback (p, d) (FB_UpdatePod ns u) = (u\<lparr>pod_Status := pod_Status p\<rparr>, d)"
| "applyFeedback (p, d) (FB_UpdatePodStatus ns u) = (p\<lparr>pod_Status := pod_Status u\<rparr>, d)"
| "applyFeedback (p, d) (FB_UpdateChaperon ns u) = (p, u)"
| "applyFeedback w e = w"

definition connectFeedback :: "feedbackReconciler \<Rightarrow> mirrorWorld \<Rightarrow> feedbackReconciler" where
  "connectFeedback c w = c
     \<lparr>podsLister_Get := (\<lambda>_ _. Inr (fst w)), chaperonsLister_List := (\<lambda>_ _. Inr [snd w]),
      pods_Update := (\<lambda>h ns u. Inr (fst (foldl applyFeedback w (h @ [FB_UpdatePod ns u])))),
      pods_UpdateStatus := (\<lambda>h ns u. Inr (fst (foldl applyFeedback w (h @ [FB_UpdatePodStatus ns u])))),
      chaperons_Update := (\<lambda>h ns u. Inr u)\<rparr>"

definition runFeedback :: "feedbackReconciler \<Rightarrow> string \<Rightarrow> mirrorWorld \<Rightarrow> mirrorWorld" where
  "runFeedback c key w = foldl applyFeedback w (snd (Handle_feedback (connectFeedback c w) key []))"

lemma connectFeedback_simps [simp]:
  "fb_clusterName (connectFeedback c w) = fb_clusterName c"
  "fb_target (connectFeedback c w) = fb_target c"
  "fb_SplitKey (connectFeedback c w) = fb_SplitKey c"
  "deep_Equal (connectFeedback c w) = deep_Equal c"
  "podsLister_Get (connectFeedback c w) = (\<lambda>_ _. Inr (fst w))"
  "chaperonsLister_List (connectFeedback c w) = (\<lambda>_ _. Inr [snd w])"
  "pods_Update (connectFeedback c w) = (\<lambda>h ns u. Inr (fst (foldl applyFeedback w (h @ [FB_UpdatePod ns u]))))"
  "pods_UpdateStatus (connectFeedback c w) = (\<lambda>h ns u. Inr (fst (foldl applyFeedback w (h @ [FB_UpdatePodStatus ns u]))))"
  "chaperons_Update (connectFeedback c w) = (\<lambda>h ns u. Inr u)"
  by (simp_all add: connectFeedback_def)


section \<open>One run\<close>

text \<open>A living pod that is bound here, with a delegate whose pod is not missing, is only mirrored.\<close>

definition mirrored :: "feedbackReconciler \<Rightarrow> mirrorWorld \<Rightarrow> bool" where
  "mirrored c w \<longleftrightarrow> (case w of (p, d) \<Rightarrow>
     snd (SplitLabelsOrAnnotations (Annotations p)) = snd (SplitLabelsOrAnnotations (Annotations d))
     \<and> deep_Equal c (pod_Status p) (filterContainerStatus (pod_Spec p) (pc_Status d))
     \<and> mget (Labels d) LabelKeyParentClusterName = fb_clusterName c)"

definition mirrorable :: "feedbackReconciler \<Rightarrow> mirrorWorld \<Rightarrow> bool" where
  "mirrorable c w \<longleftrightarrow> (case w of (p, d) \<Rightarrow> boundHere c p \<and> DeletionTimestamp p = None
     \<and> mlookup (Annotations d) AnnotationKeyPodMissingSince = None \<and> Labels d \<noteq> None)"

lemma Handle_feedback_mirrors:
  assumes "fb_SplitKey c key = Some (ns, name)" "mirrorable c (p, d)"
  shows "Handle_feedback (connectFeedback c (p, d)) key h =
    bindM (mirrorDelegate (connectFeedback c (p, d)) ns p d) (\<lambda>_. ret None) h"
proof -
  have "releaseCandidate (connectFeedback c (p, d)) ns p cand = ret p" for cand
    using assms(2) by (auto simp: releaseCandidate_def mirrorable_def boundHere_def GetScheduledClusterName_def
        split: prod.split)
  then show ?thesis
    using assms by (simp add: Handle_feedback_def deleteMissing_def mirrorable_def boundHere_def GetScheduledClusterName_def io_values)
qed

text \<open>The result of a run, and what it keeps.\<close>

definition mirroredPod :: "feedbackReconciler \<Rightarrow> pod \<Rightarrow> podChaperon \<Rightarrow> pod" where
  "mirroredPod c p d =
     (let other = snd (SplitLabelsOrAnnotations (Annotations d));
          status = filterContainerStatus (pod_Spec p) (pc_Status d)
      in p\<lparr>Annotations := (if snd (SplitLabelsOrAnnotations (Annotations p)) = other then Annotations p
             else Some (copyInto (fst (SplitLabelsOrAnnotations (Annotations p))) (Some other))),
           pod_Status := (if deep_Equal c (pod_Status p) status then pod_Status p else status)\<rparr>)"

definition mirroredDelegate :: "feedbackReconciler \<Rightarrow> podChaperon \<Rightarrow> podChaperon" where
  "mirroredDelegate c d =
     (if mget (Labels d) LabelKeyParentClusterName = fb_clusterName c then d
      else d\<lparr>Labels := Some (fmupd LabelKeyParentClusterName (fb_clusterName c) (nonnil (Labels d)))\<rparr>)"

lemma mirrorDelegate_run:
  assumes "Labels d = Some l"
  shows "\<exists>es. mirrorDelegate (connectFeedback c (p, d)) ns p d [] = (Ret (), es)
    \<and> foldl applyFeedback (p, d) es = (mirroredPod c p d, mirroredDelegate c d)
    \<and> (mirrored c (p, d) \<longrightarrow> es = [])"
  using assms
  by (cases "SplitLabelsOrAnnotations (Annotations p)"; cases "SplitLabelsOrAnnotations (Annotations d)")
    (auto simp: mirrorDelegate_def io_simps mirroredPod_def mirroredDelegate_def mirrored_def Let_def)

lemma runFeedback_eq:
  assumes "fb_SplitKey c key = Some (ns, name)" "mirrorable c (p, d)"
  shows "runFeedback c key (p, d) = (mirroredPod c p d, mirroredDelegate c d)"
    and "mirrored c (p, d) \<Longrightarrow> snd (Handle_feedback (connectFeedback c (p, d)) key []) = []"
proof -
  obtain l where l: "Labels d = Some l" using assms(2) by (auto simp: mirrorable_def)
  obtain es where es: "mirrorDelegate (connectFeedback c (p, d)) ns p d [] = (Ret (), es)"
    "foldl applyFeedback (p, d) es = (mirroredPod c p d, mirroredDelegate c d)" "mirrored c (p, d) \<longrightarrow> es = []"
    using mirrorDelegate_run [OF l] by blast
  then have "snd (Handle_feedback (connectFeedback c (p, d)) key []) = es"
    by (simp add: Handle_feedback_mirrors [OF assms] bindM_apply io_apply)
  with es show "runFeedback c key (p, d) = (mirroredPod c p d, mirroredDelegate c d)"
    "mirrored c (p, d) \<Longrightarrow> snd (Handle_feedback (connectFeedback c (p, d)) key []) = []"
    by (simp_all add: runFeedback_def)
qed

lemma mirroredPod_simps [simp]:
  "pod_Spec (mirroredPod c p d) = pod_Spec p"
  "DeletionTimestamp (mirroredPod c p d) = DeletionTimestamp p"
  by (simp_all add: mirroredPod_def Let_def)

lemma mirroredPod_annotations:
  "SplitLabelsOrAnnotations (Annotations (mirroredPod c p d)) =
     (fst (SplitLabelsOrAnnotations (Annotations p)), snd (SplitLabelsOrAnnotations (Annotations d)))"
proof (cases "snd (SplitLabelsOrAnnotations (Annotations p)) = snd (SplitLabelsOrAnnotations (Annotations d))")
  case True
  then show ?thesis by (simp add: mirroredPod_def Let_def prod_eq_iff)
next
  case False
  then show ?thesis
    using mirrored_annotations [OF prod.collapse [symmetric] prod.collapse [symmetric], of "Annotations p" "Annotations d"]
    by (simp add: mirroredPod_def Let_def)
qed

lemma mirroredDelegate_simps [simp]:
  "Annotations (mirroredDelegate c d) = Annotations d"
  "pc_Status (mirroredDelegate c d) = pc_Status d"
  "mget (Labels (mirroredDelegate c d)) LabelKeyParentClusterName = fb_clusterName c"
  "Labels d = Some l \<Longrightarrow> \<exists>l'. Labels (mirroredDelegate c d) = Some l'"
  by (simp_all add: mirroredDelegate_def)


section \<open>Properties\<close>

text \<open>
  Property C29.  One run of the feedback controller makes a living proxy pod the mirror of its delegate, and
  the next run makes no call.  After the run the proxy pod has the annotations of the delegate that are not
  the program's, its own of the program as they were, and the status of the delegate without the
  containers it does not have (up to \<open>deep.Equal\<close>); nothing else of it changed.  The delegate has the
  name of this cluster, and its annotations and status as they were.
\<close>

theorem feedback_mirrors:
  assumes "fb_SplitKey c key = Some (ns, name)" "mirrorable c (p, d)" "\<And>s. deep_Equal c s s"
    and "runFeedback c key (p, d) = (p', d')"
  shows "p' = p\<lparr>Annotations := Annotations p', pod_Status := pod_Status p'\<rparr>
    \<and> fst (SplitLabelsOrAnnotations (Annotations p')) = fst (SplitLabelsOrAnnotations (Annotations p))
    \<and> snd (SplitLabelsOrAnnotations (Annotations p')) = snd (SplitLabelsOrAnnotations (Annotations d))
    \<and> deep_Equal c (pod_Status p') (filterContainerStatus (pod_Spec p) (pc_Status d))
    \<and> mget (Labels d') LabelKeyParentClusterName = fb_clusterName c
    \<and> Annotations d' = Annotations d \<and> pc_Status d' = pc_Status d
    \<and> snd (Handle_feedback (connectFeedback c (p', d')) key []) = []"
proof -
  have w: "p' = mirroredPod c p d" "d' = mirroredDelegate c d"
    using runFeedback_eq(1) [OF assms(1,2)] assms(4) by simp_all
  have st: "deep_Equal c (pod_Status p') (filterContainerStatus (pod_Spec p) (pc_Status d))"
    using assms(3) by (simp add: w(1) mirroredPod_def Let_def)
  have ok: "mirrorable c (p', d')" using assms(2) by (auto simp: w mirrorable_def boundHere_def)
  have "mirrored c (p', d')" using st by (simp add: mirrored_def w mirroredPod_annotations)
  moreover have "p' = p\<lparr>Annotations := Annotations p', pod_Status := pod_Status p'\<rparr>" by (simp add: w(1) mirroredPod_def Let_def)
  ultimately show ?thesis
    using runFeedback_eq(2) [OF assms(1) ok] st mirroredPod_annotations [of c p d] mirroredDelegate_simps(1-3)
    unfolding w(2) by (simp add: w(1) [symmetric])
qed

theorem feedback_mirrors_witness:
  "\<exists>c p d p' d'. runFeedback c ''team/web'' (p, d) = (p', d') \<and> Annotations p = None
     \<and> fmlookup (snd (SplitLabelsOrAnnotations (Annotations p'))) ''note'' = Some ''from the delegate''
     \<and> deep_Equal c (pod_Status p') (filterContainerStatus (pod_Spec p) (pc_Status d))
     \<and> snd (Handle_feedback (connectFeedback c (p', d')) ''team/web'' []) = []"
proof -
  define t where "t = \<lparr>t_Name = ''prod'', ClientConfig = [], Self = True, t_Namespace = ''team'',
     ExcludedLabelsRegexp = None, VirtualNodeName = ''node'', Finalizer = ''fin''\<rparr>"
  define p where "p = zero_pod\<lparr>Name := ''web'', Namespace := ''team'', UID := ''u1'',
     pod_Spec := zero_podSpec\<lparr>NodeName := ''node''\<rparr>\<rparr>"
  define d where "d = AddRemoteControllerReference zero_podChaperon p ''old''
     \<lparr>Annotations := Some (fmupd ''note'' ''from the delegate'' fmempty)\<rparr>"
  define c where "c = \<lparr>fb_clusterName = ''c1'', fb_target = t, fb_SplitKey = (\<lambda>_. Some (''team'', ''web'')),
     podsLister_Get = (\<lambda>_ _. Inr p), chaperonsByPod = (\<lambda>_. Some []), chaperonsLister_List = (\<lambda>_ _. Inr []),
     deep_Equal = (=), chaperons_Delete = (\<lambda>_ _ _. Inr ()), chaperons_Update = (\<lambda>_ _ d. Inr d),
     pods_Update = (\<lambda>_ _ q. Inr q), pods_UpdateStatus = (\<lambda>_ _ q. Inr q), pods_Delete = (\<lambda>_ _ _. Inr ())\<rparr>"
  obtain p' d' where run: "runFeedback c ''team/web'' (p, d) = (p', d')" by fastforce
  have ok: "mirrorable c (p, d)"
    by (simp add: mirrorable_def boundHere_def c_def p_def d_def t_def key_simps KeyPrefix_def
        zero_pod_def zero_meta_def objmeta.defs)
  have "\<not> HasPrefix ''note'' KeyPrefix" by (simp add: HasPrefix_def KeyPrefix_def)
  then have n: "fmlookup (snd (SplitLabelsOrAnnotations (Annotations d))) ''note'' = Some ''from the delegate''" "Annotations p = None"
    by (simp_all add: d_def p_def zero_pod_def zero_meta_def objmeta.defs)
  have "fb_SplitKey c ''team/web'' = Some (''team'', ''web'')" "deep_Equal c s s" for s by (simp_all add: c_def)
  from feedback_mirrors [OF this(1) ok this(2) run] n run show ?thesis by metis
qed

end
