(* ===== verification/Chaperon_Controller.thy ===== *)
theory Chaperon_Controller
  imports Pod_Models
begin

text \<open>
  The pod chaperon controller (\<open>pkg/controllers/chaperon/controller.go\<close>), in the target cluster: it
  creates the pod of a pod chaperon, notes when the pod goes missing, recreates it after a while if
  its restart policy asks for it, and mirrors status and annotations.  Times are nanoseconds; the
  clock, its format, \<open>deep.Equal\<close>, controller references and the clients are parameters.
\<close>

section \<open>The reconciler\<close>

datatype chaperonCall =
    CH_CreatePod string pod
  | CH_Patch string string string
  | CH_UpdateStatus string podChaperon
  | CH_Update string podChaperon

record chaperonReconciler =
  ch_SplitKey :: "string \<Rightarrow> (string \<times> string) option"
  ch_chaperons_Get :: "string \<Rightarrow> string \<Rightarrow> error + podChaperon"
  ch_pods_Get :: "string \<Rightarrow> string \<Rightarrow> error + pod"
  time_Parse :: "string \<Rightarrow> error + int"
  time_Since :: "int \<Rightarrow> int"
  time_NowRFC3339 :: string
  ch_deep_Equal :: "podStatus \<Rightarrow> podStatus \<Rightarrow> bool"
  IsControlledBy :: "pod \<Rightarrow> podChaperon \<Rightarrow> bool"
  NewControllerRef :: "podChaperon \<Rightarrow> ownerReference"
  ch_pods_Create :: "chaperonCall list \<Rightarrow> string \<Rightarrow> pod \<Rightarrow> error + pod"
  ch_Patch :: "chaperonCall list \<Rightarrow> string \<Rightarrow> string \<Rightarrow> string \<Rightarrow> error + unit"
  ch_UpdateStatus :: "chaperonCall list \<Rightarrow> string \<Rightarrow> podChaperon \<Rightarrow> error + podChaperon"
  ch_Update :: "chaperonCall list \<Rightarrow> string \<Rightarrow> podChaperon \<Rightarrow> error + podChaperon"

definition PodRecreatedIfPodChaperonNotDeletedAfter :: int where
  "PodRecreatedIfPodChaperonNotDeletedAfter = 60 * 10 ^ 9"

definition oneSecond :: nat where "oneSecond = 10 ^ 9"

datatype chaperonEvent = ChaperonEvent "podChaperon notification" | ChaperonPodEvent "pod notification"

fun NewChaperonController ::
  "(podChaperon \<Rightarrow> error + string) \<Rightarrow> (ownerReference list \<Rightarrow> ownerReference option)
     \<Rightarrow> (string \<Rightarrow> string \<Rightarrow> error + podChaperon) \<Rightarrow> chaperonEvent \<Rightarrow> (string wq_call, unit) io" where
  "NewChaperonController keyFunc getControllerOf getPodChaperon (ChaperonEvent n) =
     HandleAddUpdateWith (EnqueueObject keyFunc) n"
| "NewChaperonController keyFunc getControllerOf getPodChaperon (ChaperonPodEvent n) =
     HandleAllWith (EnqueueController getControllerOf keyFunc ''PodChaperon'' getPodChaperon) n"

definition newPod :: "chaperonReconciler \<Rightarrow> podChaperon \<Rightarrow> pod" where
  "newPod c pc = zero_pod
     \<lparr>Name := Name pc, Namespace := Namespace pc,
      Labels := Some (copyInto fmempty (Labels pc)),
      Annotations := Some (copyInto fmempty (Annotations pc)),
      OwnerReferences := [NewControllerRef c pc],
      pod_Spec := pc_Spec pc\<rparr>"

text \<open>The two merge patches, which set and remove the annotation.\<close>

definition missingPatch :: "string \<Rightarrow> string" where
  "missingPatch now = ''{\"metadata\":{\"annotations\":{\"'' @ AnnotationKeyPodMissingSince @ ''\":\"'' @ now @ ''\"}}}''"

definition foundPatch :: string where
  "foundPatch = ''{\"metadata\":{\"annotations\":{\"'' @ AnnotationKeyPodMissingSince @ ''\":null}}}''"

definition patchChaperon ::
  "chaperonReconciler \<Rightarrow> string \<Rightarrow> string \<Rightarrow> string \<Rightarrow> (chaperonCall, unit) io" where
  "patchChaperon c ns name patch =
     bindM (call (\<lambda>h. ch_Patch c h ns name patch) (CH_Patch ns name patch)) (\<lambda>res.
       case res of Inl err \<Rightarrow> fail (Errorf (''cannot patch pod chaperon: '' @ Error err)) | Inr _ \<Rightarrow> ret ())"

text \<open>
  Status, then annotations, each through the chaperon the previous update returned; a conflict
  requeues after a second.
\<close>

definition updateAnnotations ::
  "chaperonReconciler \<Rightarrow> podChaperon \<Rightarrow> podChaperon \<Rightarrow> pod \<Rightarrow> (chaperonCall, nat option) io" where
  "updateAnnotations c orig pc p =
     (case SplitLabelsOrAnnotations (Annotations orig) of (mcPodChaperonAnnotations, otherPodChaperonAnnotations) \<Rightarrow>
      case SplitLabelsOrAnnotations (Annotations p) of (_, otherPodAnnotations) \<Rightarrow>
      if otherPodChaperonAnnotations \<noteq> otherPodAnnotations
      then let copy = pc\<lparr>Annotations := Some (copyInto mcPodChaperonAnnotations (Some otherPodAnnotations))\<rparr>
           in bindM (call (\<lambda>h. ch_Update c h (Namespace pc) copy) (CH_Update (Namespace pc) copy)) (\<lambda>res.
                case res of
                  Inl err \<Rightarrow> if IsOptimisticLockError err then ret (Some oneSecond) else fail err
                | Inr _ \<Rightarrow> ret None)
      else ret None)"

definition reconcilePod ::
  "chaperonReconciler \<Rightarrow> string \<Rightarrow> string \<Rightarrow> podChaperon \<Rightarrow> bool \<Rightarrow> pod \<Rightarrow> (chaperonCall, nat option) io" where
  "reconcilePod c ns name pc podMissing p =
     (if \<not> IsControlledBy c p pc
      then fail (Errorf (''resource \"'' @ Name p @ ''\" already exists and is not managed by PodChaperon''))
      else bindM (if podMissing then patchChaperon c ns name foundPatch else ret ()) (\<lambda>_.
        if \<not> ch_deep_Equal c (pc_Status pc) (pod_Status p)
        then let copy = pc\<lparr>pc_Status := pod_Status p\<rparr>
             in bindM (call (\<lambda>h. ch_UpdateStatus c h (Namespace pc) copy) (CH_UpdateStatus (Namespace pc) copy)) (\<lambda>res.
                  case res of
                    Inl err \<Rightarrow> if IsOptimisticLockError err then ret (Some oneSecond) else fail err
                  | Inr pc' \<Rightarrow> updateAnnotations c pc pc' p)
        else updateAnnotations c pc pc p))"

definition Handle_chaperon :: "chaperonReconciler \<Rightarrow> string \<Rightarrow> (chaperonCall, nat option) io" where
  "Handle_chaperon c key =
     bindM (must (ch_SplitKey c key)) (\<lambda>(namespace, name).
     case ch_chaperons_Get c namespace name of
       Inl err \<Rightarrow> if IsNotFound err then ret None else fail err
     | Inr podChaperon \<Rightarrow>
         bindM (case mlookup (Annotations podChaperon) AnnotationKeyPodMissingSince of
             None \<Rightarrow> ret None
           | Some podMissingSinceStr \<Rightarrow>
               (case time_Parse c podMissingSinceStr of
                  Inl err \<Rightarrow> fail (Errorf (''cannot parse '' @ AnnotationKeyPodMissingSince
                    @ '' annotation value: '' @ Error err))
                | Inr t \<Rightarrow> ret (Some t))) (\<lambda>podMissingSince.
         case ch_pods_Get c (Namespace podChaperon) (Name podChaperon) of
           Inr p \<Rightarrow> reconcilePod c namespace name podChaperon (podMissingSince \<noteq> None) p
         | Inl err \<Rightarrow>
             if \<not> IsNotFound err then fail err
             else
               let podNeverExisted = (Phase (pc_Status podChaperon) = []);
                   recreate = (case podMissingSince of
                       None \<Rightarrow> False
                     | Some t \<Rightarrow> time_Since c t > PodRecreatedIfPodChaperonNotDeletedAfter
                         \<and> RestartPolicy (pc_Spec podChaperon) = ''Always'')
               in if podNeverExisted \<or> recreate
                  then bindM (call (\<lambda>h. ch_pods_Create c h (Namespace podChaperon) (newPod c podChaperon))
                         (CH_CreatePod (Namespace podChaperon) (newPod c podChaperon))) (\<lambda>res.
                       case res of
                         Inl err \<Rightarrow> fail (Errorf (''cannot create pod for pod chaperon '' @ Error err))
                       | Inr p \<Rightarrow> reconcilePod c namespace name podChaperon (podMissingSince \<noteq> None) p)
                  else if podMissingSince = None
                  then bindM (patchChaperon c namespace name (missingPatch (time_NowRFC3339 c))) (\<lambda>_. ret None)
                  else ret None))"


section \<open>What the controller may do\<close>

text \<open>Since when the pod is missing, according to the chaperon.\<close>

definition missingSince :: "chaperonReconciler \<Rightarrow> podChaperon \<Rightarrow> int option" where
  "missingSince c pc =
     (case mlookup (Annotations pc) AnnotationKeyPodMissingSince of
        None \<Rightarrow> None | Some s \<Rightarrow> (case time_Parse c s of Inl _ \<Rightarrow> None | Inr t \<Rightarrow> Some t))"

definition mayRecreate :: "chaperonReconciler \<Rightarrow> podChaperon \<Rightarrow> bool" where
  "mayRecreate c pc \<longleftrightarrow> Phase (pc_Status pc) = []
     \<or> (\<exists>t. missingSince c pc = Some t \<and> time_Since c t > PodRecreatedIfPodChaperonNotDeletedAfter
          \<and> RestartPolicy (pc_Spec pc) = ''Always'')"

definition chaperonAllowed :: "chaperonReconciler \<Rightarrow> string \<Rightarrow> string \<Rightarrow> chaperonCall \<Rightarrow> bool" where
  "chaperonAllowed c ns name e \<longleftrightarrow> (\<exists>pc. ch_chaperons_Get c ns name = Inr pc \<and>
     (case e of
        CH_CreatePod ns' p \<Rightarrow> ns' = Namespace pc \<and> p = newPod c pc \<and> mayRecreate c pc
          \<and> (\<exists>err. ch_pods_Get c (Namespace pc) (Name pc) = Inl err \<and> IsNotFound err)
      | CH_Patch ns' n' patch \<Rightarrow> ns' = ns \<and> n' = name
          \<and> (patch = foundPatch \<and> mlookup (Annotations pc) AnnotationKeyPodMissingSince \<noteq> None
             \<or> patch = missingPatch (time_NowRFC3339 c) \<and> \<not> mayRecreate c pc
               \<and> mlookup (Annotations pc) AnnotationKeyPodMissingSince = None
               \<and> (\<exists>err. ch_pods_Get c (Namespace pc) (Name pc) = Inl err \<and> IsNotFound err))
      | CH_UpdateStatus ns' pc' \<Rightarrow> ns' = Namespace pc
          \<and> (\<exists>p. IsControlledBy c p pc \<and> pc' = pc\<lparr>pc_Status := pod_Status p\<rparr>)
      | CH_Update ns' pc' \<Rightarrow> (\<exists>p. IsControlledBy c p pc
          \<and> fst (SplitLabelsOrAnnotations (Annotations pc')) = fst (SplitLabelsOrAnnotations (Annotations pc))
          \<and> snd (SplitLabelsOrAnnotations (Annotations pc')) = snd (SplitLabelsOrAnnotations (Annotations p)))))"


lemma emits_patchChaperon:
  "P (CH_Patch ns n patch) \<Longrightarrow> emits P (patchChaperon c ns n patch)"
  unfolding patchChaperon_def by (intro emits_intros)

lemma emits_updateAnnotations:
  assumes "ch_chaperons_Get c ns name = Inr pc" "IsControlledBy c p pc"
  shows "emits (chaperonAllowed c ns name) (updateAnnotations c pc pc' p)"
proof -
  obtain mc other where pc: "SplitLabelsOrAnnotations (Annotations pc) = (mc, other)" by fastforce
  obtain mc' other' where p: "SplitLabelsOrAnnotations (Annotations p) = (mc', other')" by fastforce
  have "chaperonAllowed c ns name (CH_Update (Namespace pc')
      (pc'\<lparr>Annotations := Some (copyInto mc (Some other'))\<rparr>))"
    using assms mirrored_annotations [OF pc p] by (auto simp: chaperonAllowed_def pc p intro!: exI [of _ p])
  then show ?thesis
    unfolding updateAnnotations_def pc p prod.case Let_def by (intro emits_intros)
qed

lemma emits_reconcilePod:
  assumes pc: "ch_chaperons_Get c ns name = Inr pc"
    and "missing \<longleftrightarrow> mlookup (Annotations pc) AnnotationKeyPodMissingSince \<noteq> None"
  shows "emits (chaperonAllowed c ns name) (reconcilePod c ns name pc missing p)"
proof (cases "IsControlledBy c p pc")
  case True
  have "chaperonAllowed c ns name (CH_UpdateStatus (Namespace pc) (pc\<lparr>pc_Status := pod_Status p\<rparr>))"
    using pc True by (auto simp: chaperonAllowed_def)
  moreover have "missing \<Longrightarrow> chaperonAllowed c ns name (CH_Patch ns name foundPatch)"
    using assms by (auto simp: chaperonAllowed_def)
  ultimately show ?thesis
    using True unfolding reconcilePod_def Let_def
    by (auto intro!: emits_intros emits_patchChaperon emits_updateAnnotations [OF pc True])
qed (simp add: reconcilePod_def emits_fail)

lemma Handle_chaperon_allowed:
  assumes "ch_SplitKey c key = Some (ns, name)"
  shows "emits (chaperonAllowed c ns name) (Handle_chaperon c key)"
proof (cases "ch_chaperons_Get c ns name")
  case (Inl err)
  with assms show ?thesis by (auto simp: Handle_chaperon_def io_values intro!: emits_intros)
next
  case (Inr pc)
  let ?m = "mlookup (Annotations pc) AnnotationKeyPodMissingSince"
  let ?rest = "\<lambda>since. case ch_pods_Get c (Namespace pc) (Name pc) of
      Inr p \<Rightarrow> reconcilePod c ns name pc (since \<noteq> None) p
    | Inl err \<Rightarrow>
        if \<not> IsNotFound err then fail err
        else if Phase (pc_Status pc) = [] \<or> (case since of None \<Rightarrow> False
            | Some t \<Rightarrow> time_Since c t > PodRecreatedIfPodChaperonNotDeletedAfter \<and> RestartPolicy (pc_Spec pc) = ''Always'')
        then bindM (call (\<lambda>h. ch_pods_Create c h (Namespace pc) (newPod c pc)) (CH_CreatePod (Namespace pc) (newPod c pc)))
          (\<lambda>res. case res of
              Inl err \<Rightarrow> fail (Errorf (''cannot create pod for pod chaperon '' @ Error err))
            | Inr p \<Rightarrow> reconcilePod c ns name pc (since \<noteq> None) p)
        else if since = None
        then bindM (patchChaperon c ns name (missingPatch (time_NowRFC3339 c))) (\<lambda>_. ret None)
        else ret None"
  have rest: "emits (chaperonAllowed c ns name) (?rest since)"
    if "since = missingSince c pc" "since \<noteq> None \<longleftrightarrow> ?m \<noteq> None" for since
  proof -
    have "emits (chaperonAllowed c ns name) (reconcilePod c ns name pc (since \<noteq> None) p)" for p
      using emits_reconcilePod [OF Inr that(2)] .
    moreover have "chaperonAllowed c ns name (CH_CreatePod (Namespace pc) (newPod c pc))"
      if "ch_pods_Get c (Namespace pc) (Name pc) = Inl err" "IsNotFound err" "mayRecreate c pc" for err
      using that Inr by (auto simp: chaperonAllowed_def)
    moreover have "chaperonAllowed c ns name (CH_Patch ns name (missingPatch (time_NowRFC3339 c)))"
      if "ch_pods_Get c (Namespace pc) (Name pc) = Inl err" "IsNotFound err" "\<not> mayRecreate c pc" "?m = None" for err
      using that Inr by (auto simp: chaperonAllowed_def)
    ultimately show ?thesis
      using that
      by (auto simp: mayRecreate_def intro!: emits_intros emits_patchChaperon split: option.splits)
  qed
  have h: "Handle_chaperon c key = (case ?m of
      None \<Rightarrow> ?rest None
    | Some s \<Rightarrow> (case time_Parse c s of
          Inl err \<Rightarrow> fail (Errorf (''cannot parse '' @ AnnotationKeyPodMissingSince @ '' annotation value: '' @ Error err))
        | Inr t \<Rightarrow> ?rest (Some t)))"
    using assms Inr unfolding Handle_chaperon_def Let_def
    by (simp add: io_values split: option.splits sum.splits)
  show ?thesis
  proof (cases ?m)
    case None
    have "emits (chaperonAllowed c ns name) (?rest None)"
      by (rule rest) (simp_all add: None missingSince_def)
    then show ?thesis unfolding h None option.case .
  next
    case (Some s)
    show ?thesis
    proof (cases "time_Parse c s")
      case (Inl err)
      then show ?thesis unfolding h Some option.case by (simp add: emits_fail)
    next
      case (Inr t)
      have "emits (chaperonAllowed c ns name) (?rest (Some t))"
        by (rule rest) (simp_all add: Some Inr missingSince_def)
      then show ?thesis unfolding h Some option.case Inr sum.case .
    qed
  qed
qed


lemma missingSince_Some:
  "missingSince c pc = Some t \<longleftrightarrow> (\<exists>s. mlookup (Annotations pc) AnnotationKeyPodMissingSince = Some s \<and> time_Parse c s = Inr t)"
  by (auto simp: missingSince_def split: option.splits sum.splits)

lemma reconcilePod_patches:
  assumes "IsControlledBy c p pc"
  shows "\<exists>es. snd (reconcilePod c ns name pc True p h) = h @ [CH_Patch ns name foundPatch] @ es"
proof -
  define rest where "rest = (\<lambda>_ :: unit. if \<not> ch_deep_Equal c (pc_Status pc) (pod_Status p)
        then let copy = pc\<lparr>pc_Status := pod_Status p\<rparr>
             in bindM (call (\<lambda>h. ch_UpdateStatus c h (Namespace pc) copy) (CH_UpdateStatus (Namespace pc) copy)) (\<lambda>res.
                  case res of
                    Inl err \<Rightarrow> if IsOptimisticLockError err then ret (Some oneSecond) else fail err
                  | Inr pc' \<Rightarrow> updateAnnotations c pc pc' p)
        else updateAnnotations c pc pc p)"
  have "emits (\<lambda>_. True) (rest ())"
    unfolding rest_def updateAnnotations_def Let_def by (intro emits_intros) simp_all
  then obtain es where "snd (rest () (h @ [CH_Patch ns name foundPatch])) = h @ [CH_Patch ns name foundPatch] @ es"
    by (metis append_assoc emits_extends)
  moreover have "reconcilePod c ns name pc True p = bindM (patchChaperon c ns name foundPatch) rest"
    using assms by (simp add: reconcilePod_def rest_def)
  moreover obtain r where "patchChaperon c ns name foundPatch h = (r, h @ [CH_Patch ns name foundPatch])"
    by (cases "ch_Patch c h ns name foundPatch") (simp_all add: patchChaperon_def io_simps)
  ultimately show ?thesis by (cases r) (simp_all add: bindM_apply)
qed


section \<open>Properties\<close>

text \<open>
  Property C31.  The pod chaperon controller does only what the chaperon calls for, whatever the API
  server answers.  A pod is created only from the chaperon's own template, only while the lister
  has none, and only if there never was one or if an \<open>Always\<close> pod has been missing for more than
  a minute; the missing mark is set only when the pod is missing, not to be recreated and not
  marked yet, and cleared only when it was set; status and annotations come only from a pod that
  the chaperon controls, and the program's own annotations stay.
\<close>

theorem chaperon_allowed_only:
  "case ch_SplitKey c key of
     None \<Rightarrow> Handle_chaperon c key = panic
   | Some (ns, name) \<Rightarrow> emits (chaperonAllowed c ns name) (Handle_chaperon c key)"
proof (cases "ch_SplitKey c key")
  case None
  then show ?thesis by (simp add: Handle_chaperon_def io_values)
next
  case (Some k)
  then show ?thesis using Handle_chaperon_allowed by (cases k) simp
qed

text \<open>
  Property C32.  A pod that disappears is handled in order: it is first marked missing; a run in the
  next minute, or any later run if its restart policy is not \<open>Always\<close>, does nothing; and a run
  after that minute creates the pod again and clears the mark.
\<close>

theorem chaperon_missing_protocol:
  assumes "ch_SplitKey c key = Some (ns, name)" "ch_chaperons_Get c ns name = Inr pc"
    and "ch_pods_Get c (Namespace pc) (Name pc) = Inl err" "IsNotFound err" "Phase (pc_Status pc) \<noteq> []"
  shows "(mlookup (Annotations pc) AnnotationKeyPodMissingSince = None
      \<longrightarrow> snd (Handle_chaperon c key []) = [CH_Patch ns name (missingPatch (time_NowRFC3339 c))])
    \<and> (\<forall>t. missingSince c pc = Some t \<longrightarrow> \<not> mayRecreate c pc \<longrightarrow> Handle_chaperon c key [] = (Ret None, []))
    \<and> (\<forall>t p. missingSince c pc = Some t \<longrightarrow> mayRecreate c pc
        \<longrightarrow> ch_pods_Create c [] (Namespace pc) (newPod c pc) = Inr p \<longrightarrow> IsControlledBy c p pc
        \<longrightarrow> (\<exists>es. snd (Handle_chaperon c key []) =
              [CH_CreatePod (Namespace pc) (newPod c pc), CH_Patch ns name foundPatch] @ es))"
proof (intro conjI allI impI)
  assume "mlookup (Annotations pc) AnnotationKeyPodMissingSince = None"
  then show "snd (Handle_chaperon c key []) = [CH_Patch ns name (missingPatch (time_NowRFC3339 c))]"
    using assms by (simp add: Handle_chaperon_def patchChaperon_def io_simps split: sum.splits)
next
  fix t assume t: "missingSince c pc = Some t" and "\<not> mayRecreate c pc"
  then show "Handle_chaperon c key [] = (Ret None, [])"
    using assms t [unfolded missingSince_Some]
    by (auto simp: Handle_chaperon_def io_simps mayRecreate_def)
next
  fix t p
  assume t: "missingSince c pc = Some t" and may: "mayRecreate c pc" and own: "IsControlledBy c p pc"
    and p: "ch_pods_Create c [] (Namespace pc) (newPod c pc) = Inr p"
  obtain s where s: "mlookup (Annotations pc) AnnotationKeyPodMissingSince = Some s" "time_Parse c s = Inr t"
    using t by (auto simp: missingSince_Some)
  have "Handle_chaperon c key [] =
      reconcilePod c ns name pc True p [CH_CreatePod (Namespace pc) (newPod c pc)]"
    using assms may t s p by (auto simp: Handle_chaperon_def io_simps mayRecreate_def)
  then show "\<exists>es. snd (Handle_chaperon c key []) =
      [CH_CreatePod (Namespace pc) (newPod c pc), CH_Patch ns name foundPatch] @ es"
    using reconcilePod_patches [OF own, of ns name "[CH_CreatePod (Namespace pc) (newPod c pc)]"] by simp
qed

theorem chaperon_missing_protocol_witness:
  "\<exists>c pc es. RestartPolicy (pc_Spec pc) = ''Always'' \<and> snd (Handle_chaperon c ''team/web'' []) =
      [CH_CreatePod ''team'' (newPod c pc), CH_Patch ''team'' ''web'' foundPatch] @ es"
proof -
  define pc where "pc = zero_podChaperon\<lparr>Name := ''web'', Namespace := ''team'',
     Annotations := Some (fmupd AnnotationKeyPodMissingSince ''noon'' fmempty),
     pc_Spec := zero_podSpec\<lparr>RestartPolicy := ''Always''\<rparr>, pc_Status := zero_podStatus\<lparr>Phase := ''Running''\<rparr>\<rparr>"
  define c where "c = \<lparr>ch_SplitKey = (\<lambda>_. Some (''team'', ''web'')), ch_chaperons_Get = (\<lambda>_ _. Inr pc),
     ch_pods_Get = (\<lambda>_ _. Inl \<lparr>Error = ''pod not found'', IsNotFound = True, IsAlreadyExists = False\<rparr>),
     time_Parse = (\<lambda>_. Inr 0), time_Since = (\<lambda>t. 90 * 10 ^ 9 - t), time_NowRFC3339 = ''later'', ch_deep_Equal = (=),
     IsControlledBy = (\<lambda>_ _. True), NewControllerRef = (\<lambda>_. \<lparr>or_Kind = [], or_Name = [], or_UID = [], or_Controller = None\<rparr>),
     ch_pods_Create = (\<lambda>_ _ p. Inr p), ch_Patch = (\<lambda>_ _ _ _. Inr ()),
     ch_UpdateStatus = (\<lambda>_ _ d. Inr d), ch_Update = (\<lambda>_ _ d. Inr d)\<rparr>"
  have "missingSince c pc = Some 0" by (simp add: missingSince_def c_def pc_def)
  moreover from this have "mayRecreate c pc"
    by (simp add: mayRecreate_def PodRecreatedIfPodChaperonNotDeletedAfter_def) (simp add: c_def pc_def)
  ultimately obtain es where "snd (Handle_chaperon c ''team/web'' []) =
      [CH_CreatePod (Namespace pc) (newPod c pc), CH_Patch ''team'' ''web'' foundPatch] @ es"
    using chaperon_missing_protocol [of c "''team/web''" "''team''" "''web''" pc] by (auto simp: c_def pc_def)
  moreover have "Namespace pc = ''team''" "RestartPolicy (pc_Spec pc) = ''Always''" by (simp_all add: pc_def)
  ultimately show ?thesis by metis
qed

end
