(* ===== verification/Cleanup_Controller.thy ===== *)
theory Cleanup_Controller
  imports Agent_Config Controller_Lib
begin

text \<open>
  The cleanup controller (\<open>pkg/controllers/cleanup/controller.go\<close>): it takes the program's finalizers
  that belong to no configured target off pods, services, ingresses, config maps and secrets.  The
  five listers and the five clients are parameters.
\<close>

section \<open>The reconciler\<close>

record cleanupKey =
  k_kind :: string
  k_namespace :: string
  k_name :: string

datatype cleanupCall =
    PatchPod string string string
  | PatchService string string string
  | PatchIngress string string string
  | PatchConfigMap string string string
  | PatchSecret string string string

record cleanupReconciler =
  podLister :: "string \<Rightarrow> string \<Rightarrow> error + pod"
  serviceLister :: "string \<Rightarrow> string \<Rightarrow> error + service"
  ingressLister :: "string \<Rightarrow> string \<Rightarrow> error + ingress"
  configMapLister :: "string \<Rightarrow> string \<Rightarrow> error + configMap"
  secretLister :: "string \<Rightarrow> string \<Rightarrow> error + secret"
  cl_answer :: "cleanupCall list \<Rightarrow> cleanupCall \<Rightarrow> error + unit"
  knownFinalizers :: "(string, bool) fmap"

definition knownFinalizersSet :: "string list \<Rightarrow> (string, bool) fmap" where
  "knownFinalizersSet fs = foldl (\<lambda>m f. fmupd f True m) fmempty fs"

text \<open>The five informers, each with its kind.\<close>

datatype cleanupEvent =
    CleanupPod "pod notification"
  | CleanupService "service notification"
  | CleanupIngress "ingress notification"
  | CleanupConfigMap "configMap notification"
  | CleanupSecret "secret notification"

definition enqueueKind :: "string \<Rightarrow> 'a objmeta_scheme \<Rightarrow> (cleanupKey wq_call, unit) io" where
  "enqueueKind kind m = EnqueueKey \<lparr>k_kind = kind, k_namespace = Namespace m, k_name = Name m\<rparr>"

fun NewCleanupController :: "cleanupEvent \<Rightarrow> (cleanupKey wq_call, unit) io" where
  "NewCleanupController (CleanupPod n) = HandleAddUpdateWith (enqueueKind ''Pod'') n"
| "NewCleanupController (CleanupService n) = HandleAddUpdateWith (enqueueKind ''Service'') n"
| "NewCleanupController (CleanupIngress n) = HandleAddUpdateWith (enqueueKind ''Ingress'') n"
| "NewCleanupController (CleanupConfigMap n) = HandleAddUpdateWith (enqueueKind ''ConfigMap'') n"
| "NewCleanupController (CleanupSecret n) = HandleAddUpdateWith (enqueueKind ''Secret'') n"

text \<open>The handler uses the finalizers of the object only.\<close>

definition unknownKind :: "string \<Rightarrow> error" where
  "unknownKind kind = Errorf (''unknown key kind '' @ kind)"

definition getFinalizers :: "cleanupReconciler \<Rightarrow> cleanupKey \<Rightarrow> error + string list" where
  "getFinalizers r t =
     (if k_kind t = ''Pod'' then map_sum id Finalizers (podLister r (k_namespace t) (k_name t))
      else if k_kind t = ''Service'' then map_sum id Finalizers (serviceLister r (k_namespace t) (k_name t))
      else if k_kind t = ''Ingress'' then map_sum id Finalizers (ingressLister r (k_namespace t) (k_name t))
      else if k_kind t = ''ConfigMap'' then map_sum id Finalizers (configMapLister r (k_namespace t) (k_name t))
      else if k_kind t = ''Secret'' then map_sum id Finalizers (secretLister r (k_namespace t) (k_name t))
      else Inl (unknownKind (k_kind t)))"

fun unknownFinalizers :: "(string, bool) fmap \<Rightarrow> string list \<Rightarrow> string list" where
  "unknownFinalizers known [] = []"
| "unknownFinalizers known (f # fs) =
     (if HasPrefix f KeyPrefix \<and> fmlookup known f \<noteq> Some True
      then f # unknownFinalizers known fs else unknownFinalizers known fs)"

definition patch :: "string list \<Rightarrow> string" where
  "patch finalizers = ''{\"metadata\":{\"$deleteFromPrimitiveList/finalizers\":[\"''
     @ Join ''\",\"'' finalizers @ ''\"]}}''"

definition patchCall :: "cleanupKey \<Rightarrow> string \<Rightarrow> cleanupCall option" where
  "patchCall t body =
     (if k_kind t = ''Pod'' then Some (PatchPod (k_namespace t) (k_name t) body)
      else if k_kind t = ''Service'' then Some (PatchService (k_namespace t) (k_name t) body)
      else if k_kind t = ''Ingress'' then Some (PatchIngress (k_namespace t) (k_name t) body)
      else if k_kind t = ''ConfigMap'' then Some (PatchConfigMap (k_namespace t) (k_name t) body)
      else if k_kind t = ''Secret'' then Some (PatchSecret (k_namespace t) (k_name t) body)
      else None)"

definition Handle_cleanup :: "cleanupReconciler \<Rightarrow> cleanupKey \<Rightarrow> (cleanupCall, nat option) io" where
  "Handle_cleanup r t =
     (case getFinalizers r t of
        Inl err \<Rightarrow> if IsNotFound err then ret None
                   else fail (Errorf (''cannot get '' @ k_kind t @ '': '' @ Error err))
      | Inr fs \<Rightarrow>
          let unknown = unknownFinalizers (knownFinalizers r) fs
          in if length unknown > 0
             then bindM (case patchCall t (patch unknown) of
                      Some c \<Rightarrow> call (\<lambda>h. cl_answer r h c) c
                    | None \<Rightarrow> ret (Inl (unknownKind (k_kind t)))) (\<lambda>res.
                    case res of
                      Inl err \<Rightarrow> fail (Errorf (''cannot patch '' @ k_kind t @ '': '' @ Error err))
                    | Inr _ \<Rightarrow> ret None)
             else ret None)"


section \<open>The set of known finalizers\<close>

lemma knownFinalizersSet_lookup [simp]:
  "fmlookup (knownFinalizersSet fs) f = (if f \<in> set fs then Some True else None)"
proof -
  have "fmlookup (foldl (\<lambda>m f. fmupd f True m) m fs) f = (if f \<in> set fs then Some True else fmlookup m f)" for m
    by (induction fs arbitrary: m) auto
  then show ?thesis by (simp add: knownFinalizersSet_def)
qed

lemma GetKnownFinalizers_map [simp]: "GetKnownFinalizers ts = map Finalizer ts"
  by (induction ts) auto

lemma unknownFinalizers_filter:
  "unknownFinalizers known fs = filter (\<lambda>f. HasPrefix f KeyPrefix \<and> fmlookup known f \<noteq> Some True) fs"
  by (induction fs) auto

lemma patchCall_known:
  "getFinalizers r t = Inr fs \<Longrightarrow> \<exists>c. patchCall t body = Some c"
  by (auto simp: getFinalizers_def patchCall_def split: if_splits)

text \<open>The finalizers of the program that no target of a configuration has.\<close>

definition orphaned :: "agentConfig \<Rightarrow> string list \<Rightarrow> string list" where
  "orphaned cfg fs = filter (\<lambda>f. HasPrefix f KeyPrefix \<and> f \<notin> Finalizer ` set cfg) fs"

lemma unknownFinalizers_orphaned:
  "unknownFinalizers (knownFinalizersSet (GetKnownFinalizers cfg)) fs = orphaned cfg fs"
  by (auto simp: unknownFinalizers_filter orphaned_def intro!: filter_cong)

lemma Handle_cleanup_idle:
  assumes "getFinalizers r t = Inr fs" "knownFinalizers r = knownFinalizersSet (GetKnownFinalizers cfg)"
    and "orphaned cfg fs = []"
  shows "Handle_cleanup r t h = (Ret None, h)"
  using assms by (simp add: Handle_cleanup_def unknownFinalizers_orphaned io_simps del: GetKnownFinalizers_map)


section \<open>Properties\<close>

text \<open>
  Property C33.  For a reconciler made with the known finalizers of a configuration, a run on an
  object makes at most one call.  The call patches that very object and asks for the removal of
  exactly the finalizers that have the program's prefix and belong to no target of the
  configuration, in their order on the object; there is no call when there is no such finalizer,
  and none when the object cannot be read.
\<close>

theorem cleanup_patches_orphaned:
  assumes "knownFinalizers r = knownFinalizersSet (GetKnownFinalizers cfg)"
  shows "map Some (snd (Handle_cleanup r t [])) =
    (case getFinalizers r t of
       Inl err \<Rightarrow> []
     | Inr fs \<Rightarrow> if \<exists>f\<in>set fs. HasPrefix f KeyPrefix \<and> f \<notin> Finalizer ` set cfg
                then [patchCall t (patch (filter (\<lambda>f. HasPrefix f KeyPrefix \<and> f \<notin> Finalizer ` set cfg) fs))]
                else [])"
proof (cases "getFinalizers r t")
  case (Inr fs)
  obtain c where c: "patchCall t (patch (orphaned cfg fs)) = Some c"
    using patchCall_known [OF Inr] by blast
  show ?thesis
    using Inr c assms
    by (auto simp: Handle_cleanup_def unknownFinalizers_orphaned io_simps orphaned_def filter_empty_conv
        simp del: GetKnownFinalizers_map split: sum.splits)
qed (simp add: Handle_cleanup_def io_simps)

theorem cleanup_patches_orphaned_witness:
  "\<exists>r (cfg :: agentConfig) t. Finalizer ` set cfg = {KeyPrefix @ ''a''} \<and>
     map Some (snd (Handle_cleanup r t [])) =
       [Some (PatchSecret ''team'' ''s'' (patch [KeyPrefix @ ''b'']))]"
proof -
  define cfg where "cfg = [\<lparr>t_Name = ''prod'', ClientConfig = [], Self = True, t_Namespace = ''team'',
     ExcludedLabelsRegexp = None, VirtualNodeName = ''node'', Finalizer = KeyPrefix @ ''a''\<rparr>]"
  define t where "t = \<lparr>k_kind = ''Secret'', k_namespace = ''team'', k_name = ''s''\<rparr>"
  define r where "r = \<lparr>podLister = (\<lambda>_ _. Inr zero_pod), serviceLister = (\<lambda>_ _. Inr zero_service),
     ingressLister = (\<lambda>_ _. Inr zero_ingress), configMapLister = (\<lambda>_ _. Inr zero_configMap),
     secretLister = (\<lambda>_ _. Inr (zero_secret\<lparr>Finalizers := [KeyPrefix @ ''a'', ''other'', KeyPrefix @ ''b'']\<rparr>)),
     cl_answer = (\<lambda>_ _. Inr ()), knownFinalizers = knownFinalizersSet (GetKnownFinalizers cfg)\<rparr>"
  have other: "\<not> HasPrefix ''other'' KeyPrefix" by (simp add: HasPrefix_def KeyPrefix_def)
  have "map Some (snd (Handle_cleanup r t [])) =
    (case getFinalizers r t of
       Inl err \<Rightarrow> []
     | Inr fs \<Rightarrow> if \<exists>f\<in>set fs. HasPrefix f KeyPrefix \<and> f \<notin> Finalizer ` set cfg
                then [patchCall t (patch (filter (\<lambda>f. HasPrefix f KeyPrefix \<and> f \<notin> Finalizer ` set cfg) fs))]
                else [])"
    by (rule cleanup_patches_orphaned) (simp add: r_def)
  also have "getFinalizers r t = Inr [KeyPrefix @ ''a'', ''other'', KeyPrefix @ ''b'']"
    by (simp add: getFinalizers_def r_def t_def)
  finally have "map Some (snd (Handle_cleanup r t [])) = [patchCall t (patch [KeyPrefix @ ''b''])]"
    using other by (simp add: cfg_def)
  also have "patchCall t (patch [KeyPrefix @ ''b'']) = Some (PatchSecret ''team'' ''s'' (patch [KeyPrefix @ ''b'']))"
    by (simp add: patchCall_def t_def)
  finally have "Finalizer ` set cfg = {KeyPrefix @ ''a''} \<and> map Some (snd (Handle_cleanup r t [])) =
       [Some (PatchSecret ''team'' ''s'' (patch [KeyPrefix @ ''b'']))]"
    by (simp add: cfg_def)
  then show ?thesis by (intro exI)
qed

end
