(* ===== verification/Candidate_Plugin.thy ===== *)
theory Candidate_Plugin
  imports Scheduler_Framework Common_Keys
begin

text \<open>
  The candidate scheduler plugin (\<open>pkg/scheduler_plugins/candidate\<close>), in a target cluster: it
  publishes on the pod chaperon that a candidate has a reservation, and holds the binding back
  until the proxy scheduler allows it.  The client and the poll are parameters.
\<close>

section \<open>The plugin\<close>

datatype candidateCall = CP_Patch string string string | CP_Get string string

record candidatePlugin =
  cp_Patch :: "candidateCall list \<Rightarrow> string \<Rightarrow> string \<Rightarrow> string \<Rightarrow> error + unit"
  cp_Get :: "candidateCall list \<Rightarrow> string \<Rightarrow> string \<Rightarrow> error + podChaperon"
  cp_Poll :: "(candidateCall, unit) poller"

definition resetPatch :: string where
  "resetPatch = ''{\"metadata\":{\"annotations\":{\"'' @ AnnotationKeyIsReserved @ ''\":null}}}''"

definition reservePatch :: string where
  "reservePatch = ''{\"metadata\":{\"annotations\":{\"'' @ AnnotationKeyIsReserved @ ''\":\"true\"}}}''"

definition patchStatus :: "candidatePlugin \<Rightarrow> pod \<Rightarrow> string \<Rightarrow> (candidateCall, status) io" where
  "patchStatus pl p body =
     bindM (call (\<lambda>h. cp_Patch pl h (Namespace p) (Name p) body) (CP_Patch (Namespace p) (Name p) body)) (\<lambda>res.
       case res of Inl err \<Rightarrow> ret (Some (StatusError, Error err)) | Inr _ \<Rightarrow> ret None)"

definition PreFilter :: "candidatePlugin \<Rightarrow> pod \<Rightarrow> (candidateCall, status) io" where
  "PreFilter pl p = patchStatus pl p resetPatch"

definition Reserve_candidate :: "candidatePlugin \<Rightarrow> pod \<Rightarrow> string \<Rightarrow> (candidateCall, status) io" where
  "Reserve_candidate pl p nodeName = patchStatus pl p reservePatch"

definition Unreserve_candidate :: "candidatePlugin \<Rightarrow> pod \<Rightarrow> string \<Rightarrow> (candidateCall, unit) io" where
  "Unreserve_candidate pl p nodeName = ret ()"

definition waitDuration :: nat where "waitDuration = 30 * 10 ^ 9"

definition isAllowed :: "candidatePlugin \<Rightarrow> pod \<Rightarrow> (candidateCall, bool) io" where
  "isAllowed pl p =
     bindM (call (\<lambda>h. cp_Get pl h (Namespace p) (Name p)) (CP_Get (Namespace p) (Name p))) (\<lambda>res.
       case res of
         Inl err \<Rightarrow> ret False
       | Inr c \<Rightarrow> ret (mlookup (Annotations c) AnnotationKeyIsAllowed \<noteq> None))"

definition PreBind_candidate :: "candidatePlugin \<Rightarrow> pod \<Rightarrow> string \<Rightarrow> (candidateCall, status) io" where
  "PreBind_candidate pl p nodeName =
     bindM (attempt (cp_Poll pl waitDuration (\<lambda>_. bindM (isAllowed pl p) (\<lambda>b. ret (b, ()))) ())) (\<lambda>res.
       case res of Inl err \<Rightarrow> ret (Some (StatusError, Error err)) | Inr _ \<Rightarrow> ret None)"

text \<open>\<open>New\<close> panics when the client cannot be made.\<close>

definition New_candidate :: "(string \<Rightarrow> error + candidatePlugin) \<Rightarrow> string \<Rightarrow> candidatePlugin option" where
  "New_candidate newForConfig cfg = (case newForConfig cfg of Inl err \<Rightarrow> None | Inr pl \<Rightarrow> Some pl)"


section \<open>What the plugin does\<close>

lemma isAllowed_True:
  "isAllowed pl p h = (Ret True, h') \<longleftrightarrow>
     (\<exists>c. cp_Get pl h (Namespace p) (Name p) = Inr c \<and> mlookup (Annotations c) AnnotationKeyIsAllowed \<noteq> None
        \<and> h' = h @ [CP_Get (Namespace p) (Name p)])"
  by (auto simp: isAllowed_def io_simps split: sum.splits)

lemma PreBind_candidate_allowed:
  assumes "polls (cp_Poll pl)" "PreBind_candidate pl p node h = (Ret None, h')"
  obtains h1 c where "h' = h1 @ [CP_Get (Namespace p) (Name p)]"
    "cp_Get pl h1 (Namespace p) (Name p) = Inr c" "mlookup (Annotations c) AnnotationKeyIsAllowed \<noteq> None"
proof -
  let ?cond = "\<lambda>_. bindM (isAllowed pl p) (\<lambda>b. ret (b, ()))"
  have "cp_Poll pl waitDuration ?cond () h = (Ret (), h')"
    using assms(2)
    by (cases "cp_Poll pl waitDuration ?cond () h")
      (auto simp: PreBind_candidate_def bindM_apply attempt_def io_apply split: outcome.splits)
  from poll_done [OF assms(1) this] obtain h1 where "isAllowed pl p h1 = (Ret True, h')"
    by (auto simp: bindM_Ret io_apply)
  then show thesis using that unfolding isAllowed_True by blast
qed

lemma PreBind_candidate_at_once:
  assumes "polls (cp_Poll pl)" "cp_Get pl h (Namespace p) (Name p) = Inr c"
    and "mlookup (Annotations c) AnnotationKeyIsAllowed \<noteq> None"
  shows "PreBind_candidate pl p node h = (Ret None, h @ [CP_Get (Namespace p) (Name p)])"
proof -
  have "isAllowed pl p h = (Ret True, h @ [CP_Get (Namespace p) (Name p)])"
    using assms(2,3) by (auto simp: isAllowed_True)
  then have cond: "bindM (isAllowed pl p) (\<lambda>b. ret (b, ())) h = (Ret (True, ()), h @ [CP_Get (Namespace p) (Name p)])"
    by (simp add: bindM_apply io_apply)
  show ?thesis
    using poll_at_once [OF assms(1), where cond = "\<lambda>_. bindM (isAllowed pl p) (\<lambda>b. ret (b, ()))", OF cond]
    by (simp add: PreBind_candidate_def bindM_attempt_Ret io_apply)
qed

end
