(* ===== verification/Scheduling_Protocol.thy ===== *)
theory Scheduling_Protocol
  imports Proxy_Plugin Candidate_Plugin
begin

text \<open>
  The two schedulers together.  A session of the proxy scheduler is any sequence of calls of its
  extension points, for any pods and nodes and against any answers of the target clusters; its log
  holds the calls each one made.  The theorems relate the log to what a candidate scheduler does in
  a target cluster.
\<close>

section \<open>Sessions of the proxy scheduler\<close>

datatype proxyOp = OpFilter pod node | OpReserve pod string | OpPreBind pod string | OpPostBind pod string

type_synonym proxyLog = "(proxyOp \<times> proxyCall list) list"

inductive session :: "proxyPlugin \<Rightarrow> proxyPlugin \<Rightarrow> proxyLog \<Rightarrow> bool" for pl0 where
  start: "session pl0 pl0 []"
| filter: "session pl0 pl log \<Longrightarrow> snd (Filter_proxy pl p n h) = h @ es
     \<Longrightarrow> session pl0 pl (log @ [(OpFilter p n, es)])"
| postFilter: "session pl0 pl log \<Longrightarrow> session pl0 (fst (PostFilter pl p)) log"
| reserve: "session pl0 pl log \<Longrightarrow> snd (Reserve_proxy pl p node h) = h @ es
     \<Longrightarrow> session pl0 pl (log @ [(OpReserve p node, es)])"
| unreserve: "session pl0 pl log \<Longrightarrow> session pl0 (Unreserve_proxy pl p node) log"
| preBind: "session pl0 pl log \<Longrightarrow> snd (PreBind_proxy pl p node h) = h @ es
     \<Longrightarrow> session pl0 pl (log @ [(OpPreBind p node, es)])"
| postBind: "session pl0 pl log \<Longrightarrow> PostBind pl p node h = (Ret pl', h @ es)
     \<Longrightarrow> session pl0 pl' (log @ [(OpPostBind p node, es)])"

text \<open>A session changes nothing of the plugin but its memory of failed nodes.\<close>

lemma session_same: "session pl0 pl log \<Longrightarrow> \<exists>m. pl = pl0\<lparr>failedNodeNamesByPodUID := m\<rparr>"
proof (induction rule: session.induct)
  case start
  show ?case by (rule exI [of _ "failedNodeNamesByPodUID pl0"]) simp
next
  case (postBind pl log p node h pl' es)
  then show ?case by (auto simp: PostBind_def io_simps deleteOthers_calls)
qed (auto simp: PostFilter_def Unreserve_proxy_def Let_def)

text \<open>What each extension point may have written, in terms of the plugin at the start.\<close>

fun opAllows :: "proxyPlugin \<Rightarrow> proxyOp \<Rightarrow> proxyCall \<Rightarrow> bool" where
  "opAllows pl (OpFilter p n) e \<longleftrightarrow> looksUp pl p (Name n) e \<or> creates pl p (Name n) e"
| "opAllows pl (OpReserve p node) e \<longleftrightarrow> reserves pl p node e"
| "opAllows pl (OpPreBind p node) e \<longleftrightarrow> looksUp pl p node e"
| "opAllows pl (OpPostBind p node) e \<longleftrightarrow>
     (\<exists>client. e = PX_DeleteCollection client (Namespace p) (parentSelector p))"

lemma memory_irrelevant [simp]:
  "looksUp (pl\<lparr>failedNodeNamesByPodUID := m\<rparr>) = looksUp pl"
  "creates (pl\<lparr>failedNodeNamesByPodUID := m\<rparr>) = creates pl"
  "reserves (pl\<lparr>failedNodeNamesByPodUID := m\<rparr>) = reserves pl"
  by (simp_all add: fun_eq_iff looksUp_def creates_def reserves_def allows_def)

lemma session_entry:
  assumes "session pl0 pl log" "polls (px_PollFilter pl0)" "polls (px_PollBind pl0)" "(op, es) \<in> set log"
  shows "list_all (opAllows pl0 op) es"
  using assms
proof (induction rule: session.induct)
  case (filter pl log p n h es')
  obtain m where pl: "pl = pl0\<lparr>failedNodeNamesByPodUID := m\<rparr>" using session_same filter.hyps(1) by blast
  have "list_all (opAllows pl (OpFilter p n)) es'"
    using emits_calls [OF emits_Filter filter.hyps(2)] filter.prems(1) by (simp add: pl list_all_iff)
  with filter show ?case by (auto simp: pl list_all_iff)
next
  case (reserve pl log p node h es')
  obtain m where pl: "pl = pl0\<lparr>failedNodeNamesByPodUID := m\<rparr>" using session_same reserve.hyps(1) by blast
  have "list_all (opAllows pl (OpReserve p node)) es'"
    using emits_calls [OF emits_Reserve reserve.hyps(2)] by (simp add: list_all_iff)
  with reserve show ?case by (auto simp: pl list_all_iff)
next
  case (preBind pl log p node h es')
  obtain m where pl: "pl = pl0\<lparr>failedNodeNamesByPodUID := m\<rparr>" using session_same preBind.hyps(1) by blast
  have "list_all (opAllows pl (OpPreBind p node)) es'"
    using emits_calls [OF emits_PreBind preBind.hyps(2)] preBind.prems(2) by (simp add: pl list_all_iff)
  with preBind show ?case by (auto simp: pl list_all_iff)
next
  case (postBind pl log p node h pl' es')
  have "list_all (opAllows pl0 (OpPostBind p node)) es'"
    using postBind.hyps(2) by (auto simp: PostBind_def io_simps deleteOthers_calls list_all_iff)
  with postBind show ?case by auto
qed auto

text \<open>A candidate is created without the program's annotations that the protocol uses.\<close>

lemma created_unmarked:
  assumes "creates pl p node (PX_Create client ns d)"
  shows "mlookup (Annotations d) AnnotationKeyIsAllowed = None \<and> mlookup (Annotations d) AnnotationKeyIsReserved = None"
proof -
  from assms have "MakeDelegatePod (px_yaml pl) (px_compile pl) (px_rangeLabels pl) p (px_clusterName pl) = Inr d"
    by (simp add: creates_def)
  then show ?thesis
    by (rule MakeDelegatePod_cases) (simp add: delegateMeta_annotation, simp add: key_simps)
qed


section \<open>Properties\<close>

text \<open>The writes of a session that put the allowed mark on a chaperon of a target.\<close>

definition marksAllowed :: "string \<Rightarrow> string \<Rightarrow> string \<Rightarrow> proxyCall \<Rightarrow> bool" where
  "marksAllowed client ns name e \<longleftrightarrow>
     (case e of
        PX_Patch client' ns' name' body \<Rightarrow> client' = client \<and> ns' = ns \<and> name' = name \<and> body = allowPatch
      | PX_Create client' ns' d \<Rightarrow> client' = client \<and> ns' = ns \<and> mlookup (Annotations d) AnnotationKeyIsAllowed \<noteq> None
      | _ \<Rightarrow> False)"

lemma session_marks:
  assumes "session pl0 pl log" "polls (px_PollFilter pl0)" "polls (px_PollBind pl0)" "(op, es) \<in> set log"
    and "e \<in> set es" "marksAllowed client ns name e"
  obtains p node where "op = OpReserve p node" "fmlookup (targets pl0) node = Some client"
    "e = PX_Patch client ns name allowPatch" "allows pl0 p node e"
proof -
  have e: "opAllows pl0 op e" using session_entry [OF assms(1-4)] assms(5) by (simp add: list_all_iff)
  have "\<exists>p node. op = OpReserve p node \<and> fmlookup (targets pl0) node = Some client
      \<and> e = PX_Patch client ns name allowPatch \<and> allows pl0 p node e"
    using e assms(6) created_unmarked
    by (cases op; cases e) (auto simp: marksAllowed_def looksUp_def reserves_def allows_def creates_def)
  then show thesis using that by blast
qed


text \<open>
  Property C2.  A candidate is bound only if the proxy scheduler reserved its node.  Suppose that the
  allowed mark of a chaperon in a target cluster comes from a write of the proxy scheduler.  If the
  candidate scheduler of that cluster lets a candidate through to its binding, then the proxy
  scheduler has, in some cycle, reserved a node of that target for a pod, found exactly one candidate
  for that pod there, and allowed just this candidate.
\<close>

theorem binding_needs_reservation:
  assumes run: "session pl0 pl log" and polls: "polls (px_PollFilter pl0)" "polls (px_PollBind pl0)" "polls (cp_Poll cp)"
    and bound: "PreBind_candidate cp q node' g = (Ret None, g')"
    and only_proxy: "\<And>g d. cp_Get cp g (Namespace q) (Name q) = Inr d
      \<Longrightarrow> mlookup (Annotations d) AnnotationKeyIsAllowed \<noteq> None
      \<Longrightarrow> \<exists>(op, es)\<in>set log. \<exists>e\<in>set es. marksAllowed client (Namespace q) (Name q) e"
  shows "\<exists>p node es h c. (OpReserve p node, es) \<in> set log \<and> fmlookup (targets pl0) node = Some client
    \<and> PX_Patch client (Namespace q) (Name q) allowPatch \<in> set es
    \<and> px_List pl0 h client (Namespace p) (parentSelector p) = Inr [c] \<and> Namespace c = Namespace q \<and> Name c = Name q"
proof -
  obtain g1 d where "cp_Get cp g1 (Namespace q) (Name q) = Inr d" "mlookup (Annotations d) AnnotationKeyIsAllowed \<noteq> None"
    using polls(3) bound by (rule PreBind_candidate_allowed)
  with only_proxy obtain op es e where e: "(op, es) \<in> set log" "e \<in> set es" "marksAllowed client (Namespace q) (Name q) e"
    by blast
  obtain p node where "op = OpReserve p node" "fmlookup (targets pl0) node = Some client"
    "e = PX_Patch client (Namespace q) (Name q) allowPatch" "allows pl0 p node e"
    using run polls(1,2) e by (rule session_marks)
  moreover from this obtain h c where "px_List pl0 h client (Namespace p) (parentSelector p) = Inr [c]"
    "Namespace c = Namespace q" "Name c = Name q" by (auto simp: allows_def)
  ultimately show ?thesis using e(1,2) by blast
qed

text \<open>A cluster in which the candidate of a pod was allowed, and a session that reserved its node.\<close>

definition allowedCandidate :: podChaperon where
  "allowedCandidate = zero_podChaperon\<lparr>Name := ''web-x'', Namespace := ''team'',
     Annotations := Some (fmupd AnnotationKeyIsAllowed ''true'' fmempty)\<rparr>"

definition sampleCandidatePlugin :: candidatePlugin where
  "sampleCandidatePlugin = \<lparr>cp_Patch = (\<lambda>_ _ _ _. Inr ()), cp_Get = (\<lambda>_ _ _. Inr allowedCandidate), cp_Poll = pollTicks\<rparr>"

lemma sample_reserves:
  "Reserve_proxy (samplePlugin allowedCandidate) zero_pod ''n1'' [] =
     (Ret None, [PX_List ''t1'' (Namespace zero_pod) (parentSelector zero_pod), PX_Patch ''t1'' ''team'' ''web-x'' allowPatch])"
proof -
  have "getCandidate (samplePlugin allowedCandidate) zero_pod ''n1'' [] =
      (Ret (Some allowedCandidate), [PX_List ''t1'' (Namespace zero_pod) (parentSelector zero_pod)])"
    by (simp add: getCandidate_Some) (simp add: samplePlugin_def)
  then show ?thesis
    unfolding Reserve_proxy_def Let_def virtualNodeNameToClusterName_def
    by (simp add: bindM_attempt_Ret allowCandidate_def io_simps attempt_def) (simp add: samplePlugin_def allowedCandidate_def io_simps)
qed

theorem binding_needs_reservation_witness:
  "\<exists>pl0 p node es log. (OpReserve p node, es) \<in> set log \<and> PX_Patch ''t1'' ''team'' ''web-x'' allowPatch \<in> set es
     \<and> session pl0 pl0 log \<and> fmlookup (targets pl0) node = Some ''t1''"
proof -
  define q where "q = zero_pod\<lparr>Name := ''web-x'', Namespace := ''team''\<rparr>"
  define pl0 where "pl0 = samplePlugin allowedCandidate"
  define log where "log = [(OpReserve zero_pod ''n1'', snd (Reserve_proxy pl0 zero_pod ''n1'' []))]"
  have q: "Namespace q = ''team''" "Name q = ''web-x''" by (simp_all add: q_def)
  have run: "session pl0 pl0 log"
    using session.reserve [OF session.start, of pl0 zero_pod "''n1''" "[]"] by (simp add: log_def)
  have polls: "polls (px_PollFilter pl0)" "polls (px_PollBind pl0)" "polls (cp_Poll sampleCandidatePlugin)"
    by (simp_all add: pl0_def samplePlugin_def sampleCandidatePlugin_def)
  have bound: "PreBind_candidate sampleCandidatePlugin q ''w1'' [] = (Ret None, [CP_Get ''team'' ''web-x''])"
    using PreBind_candidate_at_once [OF polls(3), of "[]" q allowedCandidate "''w1''"]
    by (simp add: q sampleCandidatePlugin_def allowedCandidate_def)
  have marked: "\<exists>(op, es)\<in>set log. \<exists>e\<in>set es. marksAllowed ''t1'' (Namespace q) (Name q) e"
    by (simp add: log_def pl0_def sample_reserves marksAllowed_def q)
  from binding_needs_reservation [OF run polls bound marked] show ?thesis
    unfolding q using run by blast
qed


text \<open>
  The candidate scheduler writes nothing but the reservation mark of the chaperon it
  schedules: it resets the mark at the start of a cycle and sets it on reservation.  It does not take
  the allowed mark back, so a candidate that was allowed in an earlier cycle is let through to its
  binding at the first look.
\<close>

theorem candidate_marks_reservation_only:
  assumes "polls (cp_Poll cp)"
  shows "snd (PreFilter cp q h) = h @ [CP_Patch (Namespace q) (Name q) resetPatch]
    \<and> snd (Reserve_candidate cp q node h) = h @ [CP_Patch (Namespace q) (Name q) reservePatch]
    \<and> snd (Unreserve_candidate cp q node h) = h
    \<and> emits (\<lambda>e. e = CP_Get (Namespace q) (Name q)) (PreBind_candidate cp q node)
    \<and> (\<forall>d. cp_Get cp h (Namespace q) (Name q) = Inr d \<longrightarrow> mlookup (Annotations d) AnnotationKeyIsAllowed \<noteq> None
         \<longrightarrow> PreBind_candidate cp q node h = (Ret None, h @ [CP_Get (Namespace q) (Name q)]))"
proof (intro conjI allI impI)
  show "emits (\<lambda>e. e = CP_Get (Namespace q) (Name q)) (PreBind_candidate cp q node)"
    unfolding PreBind_candidate_def isAllowed_def by (intro emits_intros poll_emits [OF assms] refl)
  show "PreBind_candidate cp q node h = (Ret None, h @ [CP_Get (Namespace q) (Name q)])"
    if "cp_Get cp h (Namespace q) (Name q) = Inr d" "mlookup (Annotations d) AnnotationKeyIsAllowed \<noteq> None" for d
    using assms that by (rule PreBind_candidate_at_once)
qed (simp_all add: PreFilter_def Reserve_candidate_def Unreserve_candidate_def patchStatus_def io_simps split: sum.split)

theorem candidate_marks_reservation_only_witness:
  "PreBind_candidate sampleCandidatePlugin (zero_pod\<lparr>Name := ''web-x'', Namespace := ''team''\<rparr>) ''w1'' []
     = (Ret None, [CP_Get ''team'' ''web-x''])"
  using candidate_marks_reservation_only [of sampleCandidatePlugin "zero_pod\<lparr>Name := ''web-x'', Namespace := ''team''\<rparr>" "[]" "''w1''",
      THEN conjunct2, THEN conjunct2, THEN conjunct2, THEN conjunct2, THEN spec [of _ allowedCandidate]]
  by (simp add: sampleCandidatePlugin_def allowedCandidate_def)

end
