(* ===== verification/Resources_Downstream.thy ===== *)
theory Resources_Downstream
  imports Pod_Models "HOL-Library.List_Lexorder" "HOL-Library.Char_ord"
begin

text \<open>
  The downstream resources controller (\<open>pkg/controllers/resources/downstream.go\<close>), in a target
  cluster: it sums the resources of the nodes and keeps the labels they agree on, in a singleton
  cluster summary.  Quantities and their addition, \<open>labels.Parse\<close> and \<open>labels.Equals\<close>, the node
  lister and the client are parameters, and so is the order of each range over a map.
\<close>

section \<open>The reconciler\<close>

record clusterSummary = objmeta +
  cs_Capacity :: resourceList
  cs_Allocatable :: resourceList

definition zero_clusterSummary :: clusterSummary where
  "zero_clusterSummary = objmeta.extend zero_meta \<lparr>cs_Capacity = None, cs_Allocatable = None\<rparr>"

datatype summaryCall = CS_Get string | CS_Create clusterSummary | CS_Update clusterSummary

record downstream =
  ds_Parse :: "string \<Rightarrow> string option"
  ds_List :: "string \<Rightarrow> error + node list"
  Quantity_Add :: "quantity \<Rightarrow> quantity \<Rightarrow> quantity"
  ds_labels_Equals :: "(string, string) gomap \<Rightarrow> (string, string) gomap \<Rightarrow> bool"
  ds_rangeResources :: "(string, quantity) fmap \<Rightarrow> (string \<times> quantity) list"
  ds_rangeLabels :: "(string, string) fmap \<Rightarrow> (string \<times> string) list"
  ds_Get :: "summaryCall list \<Rightarrow> string \<Rightarrow> error + clusterSummary"
  ds_Create :: "summaryCall list \<Rightarrow> clusterSummary \<Rightarrow> error + clusterSummary"
  ds_Update :: "summaryCall list \<Rightarrow> clusterSummary \<Rightarrow> error + clusterSummary"

definition singletonName :: string where "singletonName = ''singleton''"

definition downstreamKey :: string where "downstreamKey = ''key''"

definition NewDownstreamController :: "node notification \<Rightarrow> (string wq_call, unit) io" where
  "NewDownstreamController = HandleAllWith (\<lambda>n.
     if mget (Labels n) LabelAndTaintKeyVirtualKubeletProvider \<noteq> VirtualKubeletProviderName
     then EnqueueKey downstreamKey else ret ())"

text \<open>The selector of the nodes that are not virtual nodes of the program.\<close>

definition nonVirtual :: string where
  "nonVirtual = LabelAndTaintKeyVirtualKubeletProvider @ ''!='' @ VirtualKubeletProviderName"

text \<open>The three loops over one node.\<close>

definition addResource ::
  "(quantity \<Rightarrow> quantity \<Rightarrow> quantity) \<Rightarrow> (string, quantity) fmap \<Rightarrow> string \<times> quantity \<Rightarrow> (string, quantity) fmap" where
  "addResource add m rq =
     (case rq of (res, qty) \<Rightarrow>
      case fmlookup m res of Some val \<Rightarrow> fmupd res (add val qty) m | None \<Rightarrow> fmupd res qty m)"

definition aggregateLabel ::
  "(string, string) fmap \<times> (string, bool) fmap \<Rightarrow> string \<times> string \<Rightarrow> (string, string) fmap \<times> (string, bool) fmap" where
  "aggregateLabel s kv =
     (case s of (l, keysWithMultipleValues) \<Rightarrow>
      case kv of (k, v) \<Rightarrow>
      case fmlookup l k of
        None \<Rightarrow> if fmlookup keysWithMultipleValues k \<noteq> Some True then (fmupd k v l, keysWithMultipleValues)
                else (l, keysWithMultipleValues)
      | Some c \<Rightarrow> if c \<noteq> v then (fmdrop k l, fmupd k True keysWithMultipleValues) else (l, keysWithMultipleValues))"

definition sumResources :: "downstream \<Rightarrow> (node \<Rightarrow> resourceList) \<Rightarrow> node list \<Rightarrow> (string, quantity) fmap" where
  "sumResources r field nodes =
     foldl (\<lambda>m n. foldl (addResource (Quantity_Add r)) m (ds_rangeResources r (nonnil (field n)))) fmempty nodes"

definition aggregateLabels :: "downstream \<Rightarrow> node list \<Rightarrow> (string, string) fmap" where
  "aggregateLabels r nodes =
     fst (foldl (\<lambda>s n. foldl aggregateLabel s (ds_rangeLabels r (nonnil (Labels n)))) (fmempty, fmempty) nodes)"

text \<open>
  An error of \<open>Get\<close> other than not found is not returned: the generated client gives an empty object
  with it, and the handler goes on with that object.
\<close>

definition Handle_downstream :: "downstream \<Rightarrow> (summaryCall, nat option) io" where
  "Handle_downstream r =
     bindM (must (ds_Parse r nonVirtual)) (\<lambda>sel.
     case ds_List r sel of
       Inl err \<Rightarrow> fail err
     | Inr nodes \<Rightarrow>
         let capacity = sumResources r Capacity nodes;
             allocatable = sumResources r Allocatable nodes;
             l = aggregateLabels r nodes
         in bindM (call (\<lambda>h. ds_Get r h singletonName) (CS_Get singletonName)) (\<lambda>res.
            bindM (case res of
                Inr actual \<Rightarrow> ret actual
              | Inl err \<Rightarrow>
                  if IsNotFound err
                  then let gold = zero_clusterSummary\<lparr>Name := singletonName, Labels := Some l,
                             cs_Capacity := Some capacity, cs_Allocatable := Some allocatable\<rparr>
                       in bindM (call (\<lambda>h. ds_Create r h gold) (CS_Create gold)) tryM
                  else ret zero_clusterSummary) (\<lambda>actual.
            if Some capacity \<noteq> cs_Capacity actual \<or> Some allocatable \<noteq> cs_Allocatable actual
              \<or> \<not> ds_labels_Equals r (Some l) (Labels actual)
            then let copy = actual\<lparr>cs_Allocatable := Some allocatable, cs_Capacity := Some capacity, Labels := Some l\<rparr>
                 in bindM (call (\<lambda>h. ds_Update r h copy) (CS_Update copy)) (\<lambda>res.
                    bindM (tryM res) (\<lambda>_. ret None))
            else ret None)))"


section \<open>Sums\<close>

lemma fmlookup_addResource:
  "fmlookup (addResource add m (res, qty)) k =
     (if k = res then Some (case fmlookup m res of Some val \<Rightarrow> add val qty | None \<Rightarrow> qty) else fmlookup m k)"
  by (simp add: addResource_def split: option.split)

text \<open>The order in which the resources of one node are visited does not matter.\<close>

lemma addResource_fold:
  "distinct (map fst xs) \<Longrightarrow> fmlookup (foldl (addResource add) m xs) k =
     (case map_of xs k of
        None \<Rightarrow> fmlookup m k
      | Some qty \<Rightarrow> Some (case fmlookup m k of Some val \<Rightarrow> add val qty | None \<Rightarrow> qty))"
proof (induction xs arbitrary: m)
  case (Cons x xs)
  obtain res qty where x: "x = (res, qty)" by fastforce
  show ?case
  proof (cases "k = res")
    case True
    with Cons.prems x have "map_of xs k = None" by (auto simp: map_of_eq_None_iff)
    with Cons x True show ?thesis by (simp add: fmlookup_addResource)
  next
    case False
    with Cons x show ?thesis by (simp add: fmlookup_addResource split: option.split)
  qed
qed simp

lemma is_range_map_of: "is_range xs m \<Longrightarrow> map_of xs = fmlookup m"
  by (auto simp: is_range_def fun_eq_iff fmlookup_of_list)

text \<open>The quantities of a resource, over the nodes that have it, summed in the order of the nodes.\<close>

definition quantities :: "(node \<Rightarrow> resourceList) \<Rightarrow> string \<Rightarrow> node list \<Rightarrow> quantity list" where
  "quantities field res nodes = List.map_filter (\<lambda>n. mlookup (field n) res) nodes"

fun total :: "(quantity \<Rightarrow> quantity \<Rightarrow> quantity) \<Rightarrow> quantity list \<Rightarrow> quantity option" where
  "total add [] = None"
| "total add (q # qs) = Some (foldl add q qs)"

lemma total_snoc: "total add (qs @ [q]) = Some (case total add qs of None \<Rightarrow> q | Some s \<Rightarrow> add s q)"
  by (cases qs) simp_all

lemma sumResources_total:
  assumes "\<And>m. is_range (ds_rangeResources r m) m"
  shows "fmlookup (sumResources r field nodes) res = total (Quantity_Add r) (quantities field res nodes)"
proof (induction nodes rule: rev_induct)
  case Nil
  show ?case by (simp add: sumResources_def quantities_def map_filter_simps)
next
  case (snoc n nodes)
  let ?xs = "ds_rangeResources r (nonnil (field n))"
  have rng: "is_range ?xs (nonnil (field n))" by (rule assms)
  then have "distinct (map fst ?xs)" "map_of ?xs res = mlookup (field n) res"
    by (simp add: is_range_def) (simp add: is_range_map_of [OF rng])
  then show ?case
    using snoc by (auto simp: sumResources_def addResource_fold quantities_def total_snoc map_filter_simps
        List.map_filter_def split: option.split)
qed


section \<open>Labels\<close>

text \<open>
  The invariant of the label loops: after the entries \<open>seen\<close>, a key has a label if all of its values
  agree, and is marked if they do not.
\<close>

definition valuesOf :: "(string \<times> string) set \<Rightarrow> string \<Rightarrow> string set" where
  "valuesOf seen k = {v. (k, v) \<in> seen}"

definition labelsAgree :: "(string \<times> string) set \<Rightarrow> (string, string) fmap \<times> (string, bool) fmap \<Rightarrow> bool" where
  "labelsAgree seen s \<longleftrightarrow> (\<forall>k.
     (\<forall>v. fmlookup (fst s) k = Some v \<longleftrightarrow> valuesOf seen k = {v})
     \<and> (fmlookup (snd s) k = Some True \<longleftrightarrow> (\<exists>v w. {v, w} \<subseteq> valuesOf seen k \<and> v \<noteq> w)))"

lemma valuesOf_insert: "valuesOf (insert (k, v) seen) k' = (if k' = k then insert v (valuesOf seen k) else valuesOf seen k')"
  by (auto simp: valuesOf_def)

lemma none_one_many:
  obtains "A = {}" | c where "A = {c}" | a b where "{a, b} \<subseteq> A" "a \<noteq> b"
proof (cases "A = {}")
  case False
  then obtain a where "a \<in> A" by blast
  then show ?thesis using that(2,3) [of a] by blast
qed (rule that(1))

lemma aggregateLabel_agree:
  assumes "labelsAgree seen s"
  shows "labelsAgree (insert kv seen) (aggregateLabel s kv)"
proof -
  obtain l multi where s: "s = (l, multi)" by fastforce
  obtain k v where kv: "kv = (k, v)" by fastforce
  let ?vals = "valuesOf seen k"
  have one: "\<And>v. fmlookup l k = Some v \<longleftrightarrow> ?vals = {v}"
    and many: "fmlookup multi k = Some True \<longleftrightarrow> (\<exists>v w. {v, w} \<subseteq> ?vals \<and> v \<noteq> w)"
    using assms by (simp_all add: labelsAgree_def s)
  have "(\<forall>w. fmlookup (fst (aggregateLabel s kv)) k = Some w \<longleftrightarrow> insert v ?vals = {w})
    \<and> (fmlookup (snd (aggregateLabel s kv)) k = Some True \<longleftrightarrow> (\<exists>a b. {a, b} \<subseteq> insert v ?vals \<and> a \<noteq> b))"
  proof (cases rule: none_one_many [of ?vals])
    case 1
    then have "fmlookup l k = None" "fmlookup multi k \<noteq> Some True" using one many by auto
    with 1 show ?thesis by (auto simp: aggregateLabel_def s kv)
  next
    case (2 c)
    then have "fmlookup l k = Some c" "fmlookup multi k \<noteq> Some True" using one many by auto
    with 2 show ?thesis by (auto simp: aggregateLabel_def s kv)
  next
    case (3 a b)
    then have two: "a \<in> ?vals" "b \<in> ?vals" by simp_all
    have "?vals \<noteq> {c}" for c
    proof
      assume "?vals = {c}"
      with two 3(2) show False by simp
    qed
    with one have "fmlookup l k \<noteq> Some c" for c by simp
    then have "fmlookup l k = None" by (cases "fmlookup l k") auto
    moreover have "fmlookup multi k = Some True" using many 3 by blast
    moreover have "insert v ?vals \<noteq> {w}" for w
    proof
      assume "insert v ?vals = {w}"
      with two have "a \<in> {w}" "b \<in> {w}" by (metis insertI2)+
      with 3(2) show False by simp
    qed
    moreover have "\<exists>a b. {a, b} \<subseteq> insert v ?vals \<and> a \<noteq> b" using 3 by (intro exI [of _ a] exI [of _ b]) auto
    ultimately show ?thesis by (simp add: aggregateLabel_def s kv)
  qed
  moreover have "fmlookup (fst (aggregateLabel s kv)) k' = fmlookup l k'"
    "fmlookup (snd (aggregateLabel s kv)) k' = fmlookup multi k'" if "k' \<noteq> k" for k'
    using that by (auto simp: aggregateLabel_def s kv split: option.split)
  ultimately show ?thesis
    using assms by (simp add: labelsAgree_def s kv valuesOf_insert)
qed

lemma aggregateLabel_fold: "labelsAgree seen s \<Longrightarrow> labelsAgree (seen \<union> set xs) (foldl aggregateLabel s xs)"
proof (induction xs arbitrary: seen s)
  case (Cons kv xs)
  from Cons.IH [OF aggregateLabel_agree [OF Cons.prems]] show ?case by simp
qed simp

lemma aggregateLabels_agree:
  assumes "\<And>m. is_range (ds_rangeLabels r m) m"
  shows "labelsAgree {(k, v). \<exists>n\<in>set nodes. mlookup (Labels n) k = Some v}
    (foldl (\<lambda>s n. foldl aggregateLabel s (ds_rangeLabels r (nonnil (Labels n)))) (fmempty, fmempty) nodes)"
proof (induction nodes rule: rev_induct)
  case Nil
  show ?case by (simp add: labelsAgree_def valuesOf_def)
next
  case (snoc n nodes)
  have "set (ds_rangeLabels r (nonnil (Labels n))) = {(k, v). mlookup (Labels n) k = Some v}"
    using is_rangeD [OF assms] by auto
  moreover have "{(k, v). \<exists>n\<in>set nodes. mlookup (Labels n) k = Some v} \<union> {(k, v). mlookup (Labels n) k = Some v}
      = {(k, v). \<exists>n\<in>set (nodes @ [n]). mlookup (Labels n) k = Some v}" by auto
  ultimately show ?case
    using aggregateLabel_fold [OF snoc, of "ds_rangeLabels r (nonnil (Labels n))"] by simp
qed


lemma aggregateLabels_lookup:
  assumes "\<And>m. is_range (ds_rangeLabels r m) m"
  shows "fmlookup (aggregateLabels r nodes) k = Some v \<longleftrightarrow>
    (\<exists>n\<in>set nodes. mlookup (Labels n) k = Some v) \<and> (\<forall>n\<in>set nodes. \<forall>w. mlookup (Labels n) k = Some w \<longrightarrow> w = v)"
proof -
  have "fmlookup (aggregateLabels r nodes) k = Some v \<longleftrightarrow>
      valuesOf {(k, v). \<exists>n\<in>set nodes. mlookup (Labels n) k = Some v} k = {v}"
    using aggregateLabels_agree [OF assms, of nodes] by (simp add: labelsAgree_def aggregateLabels_def)
  also have "\<dots> \<longleftrightarrow> {w. \<exists>n\<in>set nodes. mlookup (Labels n) k = Some w} = {v}" by (simp add: valuesOf_def)
  also have "\<dots> \<longleftrightarrow> (\<exists>n\<in>set nodes. mlookup (Labels n) k = Some v)
      \<and> (\<forall>n\<in>set nodes. \<forall>w. mlookup (Labels n) k = Some w \<longrightarrow> w = v)" by auto
  finally show ?thesis .
qed


section \<open>Writes\<close>

text \<open>A summary that holds just what the handler computes.\<close>

definition upToDate :: "downstream \<Rightarrow> node list \<Rightarrow> clusterSummary \<Rightarrow> bool" where
  "upToDate r nodes s \<longleftrightarrow> cs_Capacity s = Some (sumResources r Capacity nodes)
     \<and> cs_Allocatable s = Some (sumResources r Allocatable nodes) \<and> Labels s = Some (aggregateLabels r nodes)"

lemma emits_downstream:
  assumes "ds_Parse r nonVirtual = Some sel" "ds_List r sel = Inr nodes"
  shows "emits (\<lambda>e. e = CS_Get singletonName \<or> (\<exists>s. (e = CS_Create s \<or> e = CS_Update s) \<and> upToDate r nodes s))
    (Handle_downstream r)"
  unfolding Handle_downstream_def Let_def
  by (simp add: assms io_values) (intro emits_intros, simp_all add: upToDate_def)

lemma downstream_idle:
  assumes "ds_Parse r nonVirtual = Some sel" "ds_List r sel = Inr nodes"
    and "ds_Get r h singletonName = Inr s" "upToDate r nodes s" "\<And>l. ds_labels_Equals r l l"
  shows "Handle_downstream r h = (Ret None, h @ [CS_Get singletonName])"
  using assms by (simp add: Handle_downstream_def upToDate_def Let_def io_simps)

text \<open>
  An API error while the summary is read is not returned to the work queue: the run goes on and
  updates an object without a name.
\<close>

lemma downstream_ignores_error:
  assumes "ds_Parse r nonVirtual = Some sel" "ds_List r sel = Inr nodes" "ds_Get r [] singletonName = Inl err" "\<not> IsNotFound err"
  shows "\<exists>s. Name s = [] \<and> snd (Handle_downstream r []) = [CS_Get singletonName, CS_Update s]"
  using assms
  by (simp add: Handle_downstream_def Let_def io_simps tryM_def zero_clusterSummary_def zero_meta_def objmeta.defs split: sum.split)


section \<open>Properties\<close>

text \<open>
  Property C12.  Whatever the API server answers, and in whichever order the maps are visited, every
  cluster summary that the controller writes is the sum of the nodes.  The amount of each resource is
  the sum over the nodes that have it, in the order of the list, and there is no entry for a resource
  that no node has; a label is in the summary just if some node has it and no node has another
  value for its key, so a key on which nodes disagree never comes back.
\<close>

theorem downstream_summarises:
  assumes "\<And>m. is_range (ds_rangeResources r m) m" "\<And>m. is_range (ds_rangeLabels r m) m"
    and "ds_Parse r nonVirtual = Some sel" "ds_List r sel = Inr nodes"
  shows "emits (\<lambda>e. e = CS_Get singletonName \<or> (\<exists>s. (e = CS_Create s \<or> e = CS_Update s)
      \<and> (\<forall>res. mlookup (cs_Capacity s) res = total (Quantity_Add r) (quantities Capacity res nodes))
      \<and> (\<forall>res. mlookup (cs_Allocatable s) res = total (Quantity_Add r) (quantities Allocatable res nodes))
      \<and> (\<forall>k v. mlookup (Labels s) k = Some v \<longleftrightarrow> (\<exists>n\<in>set nodes. mlookup (Labels n) k = Some v)
           \<and> (\<forall>n\<in>set nodes. \<forall>w. mlookup (Labels n) k = Some w \<longrightarrow> w = v)))) (Handle_downstream r)"
  by (rule emits_mono [OF emits_downstream [OF assms(3,4)]])
    (use assms(1,2) in \<open>auto simp: upToDate_def sumResources_total aggregateLabels_lookup\<close>)

text \<open>A cluster with two nodes; quantities are numbers in unary.\<close>

definition sampleNode :: "(string \<times> string) list \<Rightarrow> string \<Rightarrow> node" where
  "sampleNode labels cpu = zero_node\<lparr>Labels := Some (fmap_of_list labels),
     Capacity := Some (fmap_of_list [(''cpu'', cpu)]), Allocatable := Some fmempty\<rparr>"

definition sampleDownstream :: downstream where
  "sampleDownstream = \<lparr>ds_Parse = Some,
     ds_List = (\<lambda>_. Inr [sampleNode [(''zone'', ''a''), (''os'', ''linux'')] ''11'',
       sampleNode [(''zone'', ''b''), (''os'', ''linux'')] ''1'']),
     Quantity_Add = (@), ds_labels_Equals = (=), ds_rangeResources = sorted_list_of_fmap, ds_rangeLabels = sorted_list_of_fmap,
     ds_Get = (\<lambda>_ _. Inl \<lparr>Error = [], IsNotFound = True, IsAlreadyExists = False\<rparr>),
     ds_Create = (\<lambda>_ s. Inr s), ds_Update = (\<lambda>_ s. Inr s)\<rparr>"


lemma sorted_range: "is_range (sorted_list_of_fmap m) m"
proof -
  have "map fst (sorted_list_of_fmap m) = sorted_list_of_fset (fmdom m)"
    by (simp add: sorted_list_of_fmap_def comp_def)
  then show ?thesis by (auto simp: is_range_def fmlookup_of_list sorted_list_of_fset.rep_eq intro: fmap_ext)
qed

theorem downstream_summarises_witness:
  "\<exists>s. CS_Create s \<in> set (snd (Handle_downstream sampleDownstream []))
     \<and> mlookup (cs_Capacity s) ''cpu'' = Some ''111'' \<and> mlookup (Labels s) ''os'' = Some ''linux''
     \<and> mlookup (Labels s) ''zone'' = None"
proof -
  let ?r = sampleDownstream
  let ?nodes = "[sampleNode [(''zone'', ''a''), (''os'', ''linux'')] ''11'', sampleNode [(''zone'', ''b''), (''os'', ''linux'')] ''1'']"
  obtain s where run: "snd (Handle_downstream ?r []) = [CS_Get singletonName, CS_Create s]"
    by (simp add: Handle_downstream_def sampleDownstream_def Let_def io_simps)
  have nodes: "ds_Parse ?r nonVirtual = Some nonVirtual" "ds_List ?r nonVirtual = Inr ?nodes"
    by (simp_all add: sampleDownstream_def)
  have "is_range (ds_rangeResources ?r m) m" "is_range (ds_rangeLabels ?r m) m" for m
    by (simp_all add: sampleDownstream_def sorted_range)
  from emits_calls [OF downstream_summarises [OF this nodes], of "[]", simplified run]
  have s: "mlookup (cs_Capacity s) ''cpu'' = total (Quantity_Add ?r) (quantities Capacity ''cpu'' ?nodes)"
    "\<And>k v. mlookup (Labels s) k = Some v \<longleftrightarrow> (\<exists>n\<in>set ?nodes. mlookup (Labels n) k = Some v)
       \<and> (\<forall>n\<in>set ?nodes. \<forall>w. mlookup (Labels n) k = Some w \<longrightarrow> w = v)"
    by auto
  have "mlookup (cs_Capacity s) ''cpu'' = Some ''111''"
    by (simp add: s(1) quantities_def sampleNode_def map_filter_simps sampleDownstream_def)
  moreover have "mlookup (Labels s) ''os'' = Some ''linux''" by (simp add: s(2) sampleNode_def)
  moreover have "mlookup (Labels s) ''zone'' \<noteq> Some v" for v by (auto simp: s(2) sampleNode_def)
  then have "mlookup (Labels s) ''zone'' = None" by (cases "mlookup (Labels s) ''zone''") auto
  ultimately show ?thesis using run by (intro exI [of _ s]) simp
qed

text \<open>
  The controller converges in one step: once the API server stores the summary that a
  run created or updated, the next run on the same nodes only reads it.
\<close>

theorem downstream_converges:
  assumes "ds_Parse r nonVirtual = Some sel" "ds_List r sel = Inr nodes" "\<And>l. ds_labels_Equals r l l"
    and "e \<in> set (snd (Handle_downstream r []))" "e = CS_Create s \<or> e = CS_Update s"
  shows "Handle_downstream (r\<lparr>ds_Get := \<lambda>_ _. Inr s\<rparr>) [] = (Ret None, [CS_Get singletonName])"
proof -
  have "upToDate r nodes s"
    using emits_calls [OF emits_downstream [OF assms(1,2)], of "[]"] assms(4,5) by (auto simp: list_all_iff)
  then have "upToDate (r\<lparr>ds_Get := \<lambda>_ _. Inr s\<rparr>) nodes s"
    by (simp add: upToDate_def sumResources_def aggregateLabels_def)
  with assms(1-3) show ?thesis
    using downstream_idle [of "r\<lparr>ds_Get := \<lambda>_ _. Inr s\<rparr>" sel nodes "[]" s] by simp
qed

theorem downstream_converges_witness:
  "\<exists>s. Handle_downstream (sampleDownstream\<lparr>ds_Get := \<lambda>_ _. Inr s\<rparr>) [] = (Ret None, [CS_Get singletonName])"
proof -
  obtain s where run: "snd (Handle_downstream sampleDownstream []) = [CS_Get singletonName, CS_Create s]"
    by (simp add: Handle_downstream_def sampleDownstream_def Let_def io_simps)
  have "Handle_downstream (sampleDownstream\<lparr>ds_Get := \<lambda>_ _. Inr s\<rparr>) [] = (Ret None, [CS_Get singletonName])"
    by (rule downstream_converges [of _ nonVirtual _ "CS_Create s"]) (simp_all add: run, simp_all add: sampleDownstream_def)
  then show ?thesis ..
qed

end
