(* ===== verification/Resources_Upstream.thy ===== *)
theory Resources_Upstream
  imports Resources_Downstream Agent_Config
begin

text \<open>
  The upstream resources controller (\<open>pkg/controllers/resources/upstream.go\<close>), in the source cluster:
  it copies the labels and resources of a target's cluster summary to the target's virtual node.
  Huge page names, zero quantities, \<open>labels.Equals\<close>, the two-way merge patch (with the marshalling
  around it), the listers, the client and the node status updater are parameters.
\<close>

section \<open>The reconciler\<close>

datatype nodeCall = UP_Patch string string | UP_UpdateNodeStatus node

record upstream =
  up_target :: agentTarget
  up_List :: "string \<Rightarrow> error + node list"
  up_Get :: "string \<Rightarrow> error + node"
  up_summaries_Get :: "string \<Rightarrow> error + clusterSummary"
  compiledExcludedLabelsRegexp :: "(string \<Rightarrow> bool) option"
  IsHugePageResourceName :: "string \<Rightarrow> bool"
  Quantity_IsZero :: "quantity \<Rightarrow> bool"
  up_labels_Equals :: "(string, string) gomap \<Rightarrow> (string, string) gomap \<Rightarrow> bool"
  up_rangeResources :: "(string, quantity) fmap \<Rightarrow> (string \<times> quantity) list"
  up_TwoWayMergePatch :: "node \<Rightarrow> node \<Rightarrow> error + string"
  up_Patch :: "nodeCall list \<Rightarrow> string \<Rightarrow> string \<Rightarrow> error + node"

datatype upstreamEvent = UpstreamNode "node notification" | UpstreamSummary "clusterSummary notification"

fun NewUpstreamController :: "agentTarget \<Rightarrow> upstreamEvent \<Rightarrow> (string wq_call, unit) io" where
  "NewUpstreamController target (UpstreamNode nf) =
     HandleAddUpdateWith (\<lambda>n. if Name n = VirtualNodeName target then EnqueueKey (Name n) else ret ()) nf"
| "NewUpstreamController target (UpstreamSummary nf) = HandleAllWith (\<lambda>_. EnqueueKey (VirtualNodeName target)) nf"

text \<open>An expression that does not compile excludes nothing.\<close>

definition compileExcluded :: "(string \<Rightarrow> error + (string \<Rightarrow> bool)) \<Rightarrow> agentTarget \<Rightarrow> (string \<Rightarrow> bool) option" where
  "compileExcluded compile target =
     (case ExcludedLabelsRegexp target of
        None \<Rightarrow> None
      | Some re \<Rightarrow> (case compile re of Inl err \<Rightarrow> None | Inr f \<Rightarrow> Some f))"

text \<open>The range over the summary's labels writes distinct keys, so it is written as its result.\<close>

definition reconcileLabels :: "upstream \<Rightarrow> (string, string) gomap \<Rightarrow> (string, string) fmap" where
  "reconcileLabels r clusterSummaryLabels =
     BaseLabels (t_Namespace (up_target r)) (t_Name (up_target r))
     ++\<^sub>f fmfilter (\<lambda>k. case compiledExcludedLabelsRegexp r of
            None \<Rightarrow> True | Some regExp \<Rightarrow> \<not> regExp (k @ ''='' @ mget clusterSummaryLabels k)) (nonnil clusterSummaryLabels)"

definition countsAsHuge :: "upstream \<Rightarrow> string \<times> quantity \<Rightarrow> bool" where
  "countsAsHuge r rq \<longleftrightarrow> (case rq of (res, qty) \<Rightarrow> IsHugePageResourceName r res \<and> \<not> Quantity_IsZero r qty)"

fun hugePageSizesFrom :: "upstream \<Rightarrow> nat \<Rightarrow> (string \<times> quantity) list \<Rightarrow> bool" where
  "hugePageSizesFrom r n [] = False"
| "hugePageSizesFrom r n (rq # rl) =
     (if countsAsHuge r rq then (if n + 1 > 1 then True else hugePageSizesFrom r (n + 1) rl)
      else hugePageSizesFrom r n rl)"

definition hasMultipleHugePageSizes :: "upstream \<Rightarrow> resourceList \<Rightarrow> bool" where
  "hasMultipleHugePageSizes r rl = hugePageSizesFrom r 0 (up_rangeResources r (nonnil rl))"

text \<open>The keys are collected first and then deleted; a nil list stays nil.\<close>

definition purgeHugePageResources :: "upstream \<Rightarrow> resourceList \<Rightarrow> resourceList" where
  "purgeHugePageResources r rl =
     (let ks = map fst (filter (countsAsHuge r) (up_rangeResources r (nonnil rl)))
      in map_option (\<lambda>m. foldl (\<lambda>m k. fmdrop k m) m ks) rl)"

fun anyMultiple :: "upstream \<Rightarrow> node list \<Rightarrow> bool" where
  "anyMultiple r [] = False"
| "anyMultiple r (n # ns) =
     (if hasMultipleHugePageSizes r (Capacity n) \<or> hasMultipleHugePageSizes r (Allocatable n) then True
      else anyMultiple r ns)"

text \<open>An error of the list of nodes is dropped, and then there are no nodes.\<close>

definition fittingSummary :: "upstream \<Rightarrow> clusterSummary \<Rightarrow> clusterSummary" where
  "fittingSummary r s =
     (let nodes = (case up_List r nonVirtual of Inl err \<Rightarrow> [] | Inr ns \<Rightarrow> ns);
          nodesHaveMultipleHugePageSizes = anyMultiple r nodes;
          clusterSummaryHasMultipleHugePageSizes =
            (hasMultipleHugePageSizes r (cs_Capacity s) \<or> hasMultipleHugePageSizes r (cs_Allocatable s))
      in if clusterSummaryHasMultipleHugePageSizes \<and> \<not> nodesHaveMultipleHugePageSizes
         then s\<lparr>cs_Capacity := purgeHugePageResources r (cs_Capacity s),
                cs_Allocatable := purgeHugePageResources r (cs_Allocatable s)\<rparr>
         else s)"

definition Handle_upstream :: "upstream \<Rightarrow> string \<Rightarrow> (nodeCall, nat option) io" where
  "Handle_upstream r targetName =
     (case up_summaries_Get r singletonName of
        Inl err \<Rightarrow> fail err
      | Inr summary \<Rightarrow>
          let clusterSummary = fittingSummary r summary in
          (case up_Get r targetName of
             Inl err \<Rightarrow> fail err
           | Inr virtualNode \<Rightarrow>
               let l = reconcileLabels r (Labels clusterSummary) in
               bindM (if \<not> up_labels_Equals r (Labels virtualNode) (Some l)
                      then bindM (tryM (up_TwoWayMergePatch r virtualNode (virtualNode\<lparr>Labels := Some l\<rparr>))) (\<lambda>patchBytes.
                           bindM (call (\<lambda>h. up_Patch r h targetName patchBytes) (UP_Patch targetName patchBytes)) tryM)
                      else ret virtualNode) (\<lambda>virtualNode.
               if Capacity virtualNode \<noteq> cs_Capacity clusterSummary \<or> Allocatable virtualNode \<noteq> cs_Allocatable clusterSummary
               then bindM (call (\<lambda>_. ()) (UP_UpdateNodeStatus (virtualNode\<lparr>Allocatable := cs_Allocatable clusterSummary,
                      Capacity := cs_Capacity clusterSummary\<rparr>))) (\<lambda>_. ret None)
               else ret None)))"


section \<open>Huge pages\<close>

lemma hugePageSizesFrom_count:
  "n \<le> 1 \<Longrightarrow> hugePageSizesFrom r n rl \<longleftrightarrow> n + length (filter (countsAsHuge r) rl) \<ge> 2"
  by (induction r n rl rule: hugePageSizesFrom.induct) auto

text \<open>The resources that count, whatever the order of the range.\<close>

definition hugePages :: "upstream \<Rightarrow> resourceList \<Rightarrow> string set" where
  "hugePages r rl = {res. \<exists>qty. mlookup rl res = Some qty \<and> IsHugePageResourceName r res \<and> \<not> Quantity_IsZero r qty}"

lemma filter_range:
  assumes "is_range (up_rangeResources r (nonnil rl)) (nonnil rl)"
  shows "set (map fst (filter (countsAsHuge r) (up_rangeResources r (nonnil rl)))) = hugePages r rl"
    and "distinct (map fst (filter (countsAsHuge r) (up_rangeResources r (nonnil rl))))"
proof -
  show "set (map fst (filter (countsAsHuge r) (up_rangeResources r (nonnil rl)))) = hugePages r rl"
    using is_rangeD [OF assms] by (force simp: hugePages_def countsAsHuge_def image_iff)
  show "distinct (map fst (filter (countsAsHuge r) (up_rangeResources r (nonnil rl))))"
    using assms by (simp add: is_range_def distinct_map_filter)
qed

lemma hasMultiple_iff:
  assumes "is_range (up_rangeResources r (nonnil rl)) (nonnil rl)"
  shows "hasMultipleHugePageSizes r rl \<longleftrightarrow> card (hugePages r rl) \<ge> 2"
  using filter_range [OF assms] distinct_card [OF filter_range(2) [OF assms]]
  by (simp add: hasMultipleHugePageSizes_def hugePageSizesFrom_count)

lemma fmdrop_fold: "foldl (\<lambda>m k. fmdrop k m) m ks = fmfilter (\<lambda>k. k \<notin> set ks) m"
proof (induction ks arbitrary: m)
  case (Cons k ks)
  have "fmfilter (\<lambda>k. k \<notin> set ks) (fmdrop k m) = fmfilter (\<lambda>k'. k' \<notin> set (k # ks)) m"
    by (rule fmap_ext) simp
  with Cons show ?case by simp
qed (simp add: fmfilter_true)

lemma purge_lookup:
  assumes "is_range (up_rangeResources r (nonnil rl)) (nonnil rl)"
  shows "mlookup (purgeHugePageResources r rl) res = (if res \<in> hugePages r rl then None else mlookup rl res)"
  using filter_range(1) [OF assms]
  by (cases rl) (auto simp: purgeHugePageResources_def Let_def fmdrop_fold simp del: set_map)

lemma purge_none:
  assumes "is_range (up_rangeResources r (nonnil rl)) (nonnil rl)"
  shows "hugePages r (purgeHugePageResources r rl) = {}"
  unfolding hugePages_def [of _ "purgeHugePageResources r rl"] purge_lookup [OF assms]
  by (auto simp: hugePages_def split: if_splits)



section \<open>Labels\<close>

definition excluded :: "upstream \<Rightarrow> string \<Rightarrow> string \<Rightarrow> bool" where
  "excluded r k v \<longleftrightarrow> (case compiledExcludedLabelsRegexp r of None \<Rightarrow> False | Some regExp \<Rightarrow> regExp (k @ ''='' @ v))"

lemma reconcileLabels_lookup:
  "fmlookup (reconcileLabels r ls) k =
     (case mlookup ls k of
        Some v \<Rightarrow> if excluded r k v then fmlookup (BaseLabels (t_Namespace (up_target r)) (t_Name (up_target r))) k else Some v
      | None \<Rightarrow> fmlookup (BaseLabels (t_Namespace (up_target r)) (t_Name (up_target r))) k)"
  by (auto simp: reconcileLabels_def excluded_def mget_def split: option.splits)


section \<open>Properties\<close>

definition otherNodes :: "upstream \<Rightarrow> node list" where
  "otherNodes r = (case up_List r nonVirtual of Inl err \<Rightarrow> [] | Inr ns \<Rightarrow> ns)"

lemma anyMultiple_iff:
  assumes "\<And>m. is_range (up_rangeResources r m) m"
  shows "anyMultiple r ns \<longleftrightarrow> (\<exists>n\<in>set ns. card (hugePages r (Capacity n)) \<ge> 2 \<or> card (hugePages r (Allocatable n)) \<ge> 2)"
  by (induction ns) (auto simp: hasMultiple_iff [OF assms])

lemma fittingSummary_fits:
  assumes "\<And>m. is_range (up_rangeResources r m) m" "\<not> anyMultiple r (otherNodes r)"
  shows "card (hugePages r (cs_Capacity (fittingSummary r s))) \<le> 1 \<and> card (hugePages r (cs_Allocatable (fittingSummary r s))) \<le> 1"
  using assms(2)
  by (auto simp: fittingSummary_def Let_def otherNodes_def [symmetric] hasMultiple_iff [OF assms(1)] purge_none [OF assms(1)])

lemma fittingSummary_lookup:
  assumes "\<And>m. is_range (up_rangeResources r m) m" "\<not> IsHugePageResourceName r res"
  shows "mlookup (cs_Capacity (fittingSummary r s)) res = mlookup (cs_Capacity s) res
    \<and> mlookup (cs_Allocatable (fittingSummary r s)) res = mlookup (cs_Allocatable s) res"
proof -
  have "res \<notin> hugePages r rl" for rl using assms(2) by (simp add: hugePages_def)
  then show ?thesis by (simp add: fittingSummary_def Let_def purge_lookup [OF assms(1)])
qed

text \<open>
  What the virtual node should show for a summary: a label of the summary that is not excluded wins over one
  of the program, and a resource is that of the summary, but for huge pages of several sizes in a source
  cluster where no other node has several.
\<close>

definition expectedLabel :: "upstream \<Rightarrow> clusterSummary \<Rightarrow> string \<Rightarrow> string option" where
  "expectedLabel r s k =
     (let base = fmlookup (BaseLabels (t_Namespace (up_target r)) (t_Name (up_target r))) k
      in case mlookup (Labels s) k of Some w \<Rightarrow> if excluded r k w then base else Some w | None \<Rightarrow> base)"

definition severalSizes :: "upstream \<Rightarrow> resourceList \<Rightarrow> resourceList \<Rightarrow> bool" where
  "severalSizes r cap alloc \<longleftrightarrow> card (hugePages r cap) \<ge> 2 \<or> card (hugePages r alloc) \<ge> 2"

definition purges :: "upstream \<Rightarrow> clusterSummary \<Rightarrow> bool" where
  "purges r s \<longleftrightarrow> severalSizes r (cs_Capacity s) (cs_Allocatable s)
     \<and> \<not> (\<exists>m\<in>set (otherNodes r). severalSizes r (Capacity m) (Allocatable m))"

definition expectedResource :: "upstream \<Rightarrow> clusterSummary \<Rightarrow> resourceList \<Rightarrow> string \<Rightarrow> quantity option" where
  "expectedResource r s rl res = (if purges r s \<and> res \<in> hugePages r rl then None else mlookup rl res)"

definition showsResources :: "upstream \<Rightarrow> clusterSummary \<Rightarrow> node \<Rightarrow> bool" where
  "showsResources r s n \<longleftrightarrow> (\<forall>res. mlookup (Capacity n) res = expectedResource r s (cs_Capacity s) res
     \<and> mlookup (Allocatable n) res = expectedResource r s (cs_Allocatable s) res)"

definition showsLabels :: "upstream \<Rightarrow> clusterSummary \<Rightarrow> node \<Rightarrow> bool" where
  "showsLabels r s n \<longleftrightarrow> (\<forall>k. mlookup (Labels n) k = expectedLabel r s k)"

text \<open>The node of a name after some calls: a patch gives what it answers, a status update sets the status.\<close>

fun nodeAfter :: "upstream \<Rightarrow> string \<Rightarrow> nodeCall list \<Rightarrow> node \<Rightarrow> nodeCall list \<Rightarrow> node" where
  "nodeAfter r name h v [] = v"
| "nodeAfter r name h v (UP_Patch n body # es) = nodeAfter r name (h @ [UP_Patch n body])
     (if n = name then case up_Patch r h n body of Inl _ \<Rightarrow> v | Inr w \<Rightarrow> w else v) es"
| "nodeAfter r name h v (UP_UpdateNodeStatus w # es) = nodeAfter r name (h @ [UP_UpdateNodeStatus w])
     (if Name w = name then v\<lparr>Capacity := Capacity w, Allocatable := Allocatable w\<rparr> else v) es"

lemma reconciled_shows: "Labels n = Some (reconcileLabels r (Labels s)) \<Longrightarrow> showsLabels r s n"
  by (simp add: showsLabels_def expectedLabel_def reconcileLabels_lookup Let_def split: option.splits)

lemma fitting_Labels [simp]: "Labels (fittingSummary r s) = Labels s"
  by (simp add: fittingSummary_def Let_def)

lemma fittingSummary_purges:
  assumes "\<And>m. is_range (up_rangeResources r m) m"
  shows "fittingSummary r s = (if purges r s
     then s\<lparr>cs_Capacity := purgeHugePageResources r (cs_Capacity s),
            cs_Allocatable := purgeHugePageResources r (cs_Allocatable s)\<rparr> else s)"
  by (auto simp: fittingSummary_def Let_def purges_def severalSizes_def otherNodes_def [symmetric]
      anyMultiple_iff [OF assms] hasMultiple_iff [OF assms])

lemma fitting_shows:
  assumes "\<And>m. is_range (up_rangeResources r m) m"
    and "Capacity n = cs_Capacity (fittingSummary r s)" "Allocatable n = cs_Allocatable (fittingSummary r s)"
  shows "showsResources r s n"
  using assms(2,3)
  by (cases "purges r s")
    (simp_all add: showsResources_def expectedResource_def fittingSummary_purges [OF assms(1)] purge_lookup [OF assms(1)])

text \<open>What a run makes of a summary does not depend on the node that the lister gives.\<close>

lemma up_Get_irrelevant:
  fixes r :: upstream and g :: "string \<Rightarrow> error + node"
  defines "r' \<equiv> r\<lparr>up_Get := g\<rparr>"
  shows "reconcileLabels r' ls = reconcileLabels r ls" "fittingSummary r' s = fittingSummary r s"
proof -
  have counts: "countsAsHuge r' = countsAsHuge r" by (simp add: fun_eq_iff countsAsHuge_def r'_def)
  have "hugePageSizesFrom r' k rl = hugePageSizesFrom r k rl" for k rl
    by (induction rl arbitrary: k) (simp_all add: counts)
  then have multiple: "hasMultipleHugePageSizes r' = hasMultipleHugePageSizes r"
    by (simp add: fun_eq_iff hasMultipleHugePageSizes_def r'_def)
  have "anyMultiple r' ns = anyMultiple r ns" for ns by (induction ns) (simp_all add: multiple)
  then show "fittingSummary r' s = fittingSummary r s"
    by (simp add: fittingSummary_def multiple purgeHugePageResources_def counts) (simp add: r'_def)
qed (simp add: reconcileLabels_def r'_def)

text \<open>A run on a summary and a node, with the node that the status update sees.\<close>

definition statusStep :: "clusterSummary \<Rightarrow> node \<Rightarrow> (nodeCall, nat option) io" where
  "statusStep cs v =
     (if Capacity v \<noteq> cs_Capacity cs \<or> Allocatable v \<noteq> cs_Allocatable cs
      then bindM (call (\<lambda>_. ()) (UP_UpdateNodeStatus (v\<lparr>Allocatable := cs_Allocatable cs, Capacity := cs_Capacity cs\<rparr>)))
        (\<lambda>_. ret None) else ret None)"

lemma Handle_upstream_run:
  assumes "up_summaries_Get r singletonName = Inr s" "up_Get r name = Inr v"
  shows "Handle_upstream r name =
     (if up_labels_Equals r (Labels v) (Some (reconcileLabels r (Labels s))) then statusStep (fittingSummary r s) v
      else case up_TwoWayMergePatch r v (v\<lparr>Labels := Some (reconcileLabels r (Labels s))\<rparr>) of
        Inl err \<Rightarrow> fail err
      | Inr body \<Rightarrow> bindM (call (\<lambda>h. up_Patch r h name body) (UP_Patch name body)) (\<lambda>res.
          bindM (tryM res) (statusStep (fittingSummary r s))))"
  using assms
  by (auto simp: Handle_upstream_def Let_def io_values statusStep_def [abs_def] bindM_assoc split: sum.split)

text \<open>The status step reaches the resources of the summary, and keeps the rest of the node.\<close>

lemma statusStep_reaches:
  assumes "Name v = name"
  obtains es where "statusStep cs v h = (Ret None, h @ es)"
    "nodeAfter r name h v es = v\<lparr>Capacity := cs_Capacity cs, Allocatable := cs_Allocatable cs\<rparr>"
proof (cases "Capacity v \<noteq> cs_Capacity cs \<or> Allocatable v \<noteq> cs_Allocatable cs")
  case True
  with assms show ?thesis
    by (intro that [of "[UP_UpdateNodeStatus (v\<lparr>Allocatable := cs_Allocatable cs, Capacity := cs_Capacity cs\<rparr>)]"])
      (simp_all add: statusStep_def io_simps)
next
  case False
  then show ?thesis by (intro that [of "[]"]) (auto simp: statusStep_def io_simps)
qed

text \<open>A node on which the work is done: it shows what it should, and a run on it makes no call.\<close>

definition settled :: "upstream \<Rightarrow> clusterSummary \<Rightarrow> string \<Rightarrow> node \<Rightarrow> bool" where
  "settled r s name n \<longleftrightarrow> showsLabels r s n \<and> showsResources r s n
     \<and> (\<forall>h. Handle_upstream (r\<lparr>up_Get := (\<lambda>_. Inr n)\<rparr>) name h = (Ret None, h))"

lemma settledI:
  assumes "\<And>m. is_range (up_rangeResources r m) m" "up_summaries_Get r singletonName = Inr s"
    and "\<And>l l'. up_labels_Equals r l l' \<longleftrightarrow> nonnil l = nonnil l'"
    and "nonnil (Labels n) = reconcileLabels r (Labels s)"
    and "Capacity n = cs_Capacity (fittingSummary r s)" "Allocatable n = cs_Allocatable (fittingSummary r s)"
  shows "settled r s name n"
proof -
  have "Handle_upstream (r\<lparr>up_Get := (\<lambda>_. Inr n)\<rparr>) name h = (Ret None, h)" for h
    using assms(2-6) by (subst Handle_upstream_run [of _ s _ n]) (simp_all add: up_Get_irrelevant statusStep_def io_simps)
  moreover have "mlookup (Labels n) k = expectedLabel r s k" for k
    using reconciled_shows [of "n\<lparr>Labels := Some (nonnil (Labels n))\<rparr>" r s] assms(4)
    by (simp add: showsLabels_def fmlookup_nonnil [symmetric] del: fmlookup_nonnil)
  ultimately show ?thesis
    using fitting_shows [OF assms(1,5,6)] by (simp add: settled_def showsLabels_def)
qed

definition upstreamAllowed :: "upstream \<Rightarrow> clusterSummary \<Rightarrow> string \<Rightarrow> node \<Rightarrow> nodeCall \<Rightarrow> bool" where
  "upstreamAllowed r s name v e \<longleftrightarrow>
     (case e of
        UP_Patch n body \<Rightarrow> n = name
          \<and> (\<exists>w. up_TwoWayMergePatch r v w = Inr body \<and> w = v\<lparr>Labels := Labels w\<rparr> \<and> showsLabels r s w)
      | UP_UpdateNodeStatus n \<Rightarrow> showsResources r s n
          \<and> (severalSizes r (Capacity n) (Allocatable n)
             \<longrightarrow> (\<exists>m\<in>set (otherNodes r). severalSizes r (Capacity m) (Allocatable m))))"

lemma Handle_upstream_allowed:
  assumes rng: "\<And>m. is_range (up_rangeResources r m) m"
    and get: "up_summaries_Get r singletonName = Inr s" "up_Get r name = Inr v"
  shows "emits (upstreamAllowed r s name v) (Handle_upstream r name)"
proof -
  let ?cs = "fittingSummary r s"
  have fits: "severalSizes r (cs_Capacity ?cs) (cs_Allocatable ?cs) \<Longrightarrow>
      \<exists>m\<in>set (otherNodes r). severalSizes r (Capacity m) (Allocatable m)"
    using fittingSummary_fits [OF rng, of s] anyMultiple_iff [OF rng] by (fastforce simp: severalSizes_def)
  have step: "emits (upstreamAllowed r s name v) (statusStep ?cs x)" for x
    unfolding statusStep_def
    by (intro emits_intros) (use fits fitting_shows [OF rng] in \<open>simp add: upstreamAllowed_def\<close>)
  show ?thesis
    unfolding Handle_upstream_run [OF get]
    by (intro emits_intros step)
      (use reconciled_shows [of "v\<lparr>Labels := Some (reconcileLabels r (Labels s))\<rparr>" r s] in \<open>auto simp: upstreamAllowed_def\<close>)
qed

text \<open>
  Property C13.  A run of the upstream controller brings the virtual node to the labels and resources
  of the target, from any state of the node.  For every answer of the API server the calls are patches of that
  node's labels to the expected ones and status updates to the expected resources, which never have
  several huge page sizes unless another node of the source cluster has, since the API server would refuse them.
  With an API server that applies a patch, and \<open>labels.Equals\<close> the equality of entries, the run ends
  with a node that shows the labels and the resources, and a run on that node makes no call; the run can only
  fail when the patch cannot be made, and then before any call.
\<close>

theorem upstream_reports_summary:
  assumes rng: "\<And>m. is_range (up_rangeResources r m) m"
    and get: "up_summaries_Get r singletonName = Inr s" "up_Get r name = Inr v" "Name v = name"
    and equals: "\<And>l l'. up_labels_Equals r l l' \<longleftrightarrow> nonnil l = nonnil l'"
    and patch: "\<And>w body h. up_TwoWayMergePatch r v w = Inr body \<Longrightarrow> up_Patch r h name body = Inr w"
  shows "emits (upstreamAllowed r s name v) (Handle_upstream r name)
    \<and> (case Handle_upstream r name h of
         (Ret x, h') \<Rightarrow> \<exists>es. h' = h @ es \<and> settled r s name (nodeAfter r name h v es)
       | (Fail err, h') \<Rightarrow> h' = h \<and> (\<exists>w. up_TwoWayMergePatch r v w = Inl err)
       | (Panic, h') \<Rightarrow> False)"
proof (rule conjI [OF Handle_upstream_allowed [OF rng get(1,2)]])
  let ?cs = "fittingSummary r s" and ?w = "v\<lparr>Labels := Some (reconcileLabels r (Labels s))\<rparr>"
  note fin = settledI [OF rng get(1) equals]
  show "case Handle_upstream r name h of
         (Ret x, h') \<Rightarrow> \<exists>es. h' = h @ es \<and> settled r s name (nodeAfter r name h v es)
       | (Fail err, h') \<Rightarrow> h' = h \<and> (\<exists>w. up_TwoWayMergePatch r v w = Inl err)
       | (Panic, h') \<Rightarrow> False"
  proof (cases "nonnil (Labels v) = reconcileLabels r (Labels s)")
    case True
    obtain es where "statusStep ?cs v h = (Ret None, h @ es)"
      "nodeAfter r name h v es = v\<lparr>Capacity := cs_Capacity ?cs, Allocatable := cs_Allocatable ?cs\<rparr>"
      using get(3) by (rule statusStep_reaches)
    with True show ?thesis by (simp add: Handle_upstream_run [OF get(1,2)] equals fin)
  next
    case False
    show ?thesis
    proof (cases "up_TwoWayMergePatch r v ?w")
      case (Inr body)
      obtain es where "statusStep ?cs ?w (h @ [UP_Patch name body]) = (Ret None, (h @ [UP_Patch name body]) @ es)"
        "nodeAfter r name (h @ [UP_Patch name body]) ?w es = ?w\<lparr>Capacity := cs_Capacity ?cs, Allocatable := cs_Allocatable ?cs\<rparr>"
        by (rule statusStep_reaches [of ?w name]) (use get(3) in simp)
      with False Inr patch [OF Inr] show ?thesis
        by (auto simp: Handle_upstream_run [OF get(1,2)] equals io_simps intro!: exI [of _ "UP_Patch name body # es"] fin)
    qed (use False in \<open>auto simp: Handle_upstream_run [OF get(1,2)] equals io_simps\<close>)
  qed
qed


text \<open>A target with a label and two huge page sizes, for a source cluster without other nodes.\<close>

definition sampleSummary :: clusterSummary where
  "sampleSummary = zero_clusterSummary\<lparr>Labels := Some (fmap_of_list [(''zone'', ''a'')]),
     cs_Capacity := Some (fmap_of_list [(''cpu'', ''4''), (''hugepages-2Mi'', ''1''), (''hugepages-1Gi'', ''1'')])\<rparr>"

definition sampleUpstream :: "node \<Rightarrow> upstream" where
  "sampleUpstream w = \<lparr>up_target = \<lparr>t_Name = ''prod'', ClientConfig = [], Self = False, t_Namespace = ''team'',
       ExcludedLabelsRegexp = None, VirtualNodeName = ''node'', Finalizer = ''fin''\<rparr>,
     up_List = (\<lambda>_. Inr []), up_Get = (\<lambda>_. Inr (zero_node\<lparr>Name := ''node''\<rparr>)),
     up_summaries_Get = (\<lambda>_. Inr sampleSummary), compiledExcludedLabelsRegexp = None,
     IsHugePageResourceName = (\<lambda>s. HasPrefix s ''hugepages-''), Quantity_IsZero = (\<lambda>q. q = ''0''),
     up_labels_Equals = (\<lambda>l l'. nonnil l = nonnil l'), up_rangeResources = sorted_list_of_fmap,
     up_TwoWayMergePatch = (\<lambda>_ x. if x = w then Inr [] else Inl (Errorf [])), up_Patch = (\<lambda>_ _ _. Inr w)\<rparr>"

theorem upstream_reports_summary_witness:
  "\<exists>r s n. settled r s ''node'' n \<and> mlookup (Labels n) ''zone'' = Some ''a'' \<and> mlookup (Capacity n) ''cpu'' = Some ''4''
     \<and> mlookup (cs_Capacity s) ''hugepages-2Mi'' = Some ''1'' \<and> mlookup (Capacity n) ''hugepages-2Mi'' = None"
proof -
  let ?v = "zero_node\<lparr>Name := ''node''\<rparr>"
  define w where "w = ?v\<lparr>Labels := Some (reconcileLabels (sampleUpstream ?v) (Labels sampleSummary))\<rparr>"
  let ?r = "sampleUpstream w"
  have same: "reconcileLabels ?r ls = reconcileLabels (sampleUpstream ?v) ls" for ls
    by (simp add: reconcileLabels_def sampleUpstream_def)
  have r: "up_summaries_Get ?r singletonName = Inr sampleSummary" "up_Get ?r ''node'' = Inr ?v"
    "up_labels_Equals ?r l l' \<longleftrightarrow> nonnil l = nonnil l'" "is_range (up_rangeResources ?r m) m"
    "up_TwoWayMergePatch ?r ?v x = Inr body \<Longrightarrow> up_Patch ?r h ''node'' body = Inr x"
    "up_TwoWayMergePatch ?r ?v x = Inl err \<Longrightarrow> x \<noteq> w" "otherNodes ?r = []" for l l' m x body h err
    by (auto simp: sampleUpstream_def sorted_range otherNodes_def split: if_splits)
  have made: "up_TwoWayMergePatch ?r ?v w = Inr []" "up_Patch ?r h ''node'' [] = Inr w" for h
    by (simp_all add: sampleUpstream_def)
  have status: "statusStep cs x h \<noteq> (Fail err, h')" for cs x h err h'
    by (simp add: statusStep_def io_simps)
  have "Handle_upstream ?r ''node'' [] \<noteq> (Fail err, h')" for err h'
    unfolding Handle_upstream_run [OF r(1,2)] same w_def [symmetric] made sum.case
    by (simp add: bindM_apply io_apply made io_values status)
  then obtain es where "settled ?r sampleSummary ''node'' (nodeAfter ?r ''node'' [] ?v es)"
    using upstream_reports_summary [OF r(4) r(1,2) _ r(3) r(5), of "[]", THEN conjunct2]
    by (cases "Handle_upstream ?r ''node'' []"; cases "fst (Handle_upstream ?r ''node'' [])") auto
  moreover have cap: "mlookup (cs_Capacity sampleSummary) res = (if res = ''cpu'' then Some ''4''
      else if res = ''hugepages-2Mi'' \<or> res = ''hugepages-1Gi'' then Some ''1'' else None)" for res
    by (simp add: sampleSummary_def)
  have pages: "hugePages ?r (cs_Capacity sampleSummary) = {''hugepages-2Mi'', ''hugepages-1Gi''}"
  proof (rule set_eqI)
    have huge: "\<not> IsHugePageResourceName ?r ''cpu''" "IsHugePageResourceName ?r ''hugepages-2Mi''"
      "IsHugePageResourceName ?r ''hugepages-1Gi''" "\<not> Quantity_IsZero ?r ''1''"
      by (simp_all add: sampleUpstream_def HasPrefix_def)
    show "res \<in> hugePages ?r (cs_Capacity sampleSummary) \<longleftrightarrow> res \<in> {''hugepages-2Mi'', ''hugepages-1Gi''}" for res
      using huge by (cases "res = ''cpu''"; cases "res = ''hugepages-2Mi''"; cases "res = ''hugepages-1Gi''")
        (simp_all add: hugePages_def cap)
  qed
  then have "purges ?r sampleSummary" by (simp add: purges_def severalSizes_def r(7))
  moreover have "expectedLabel ?r sampleSummary ''zone'' = Some ''a''"
    by (simp add: expectedLabel_def excluded_def Let_def) (simp add: excluded_def sampleSummary_def sampleUpstream_def)
  moreover have "mlookup (cs_Capacity sampleSummary) ''cpu'' = Some ''4''"
    "mlookup (cs_Capacity sampleSummary) ''hugepages-2Mi'' = Some ''1''"
    by (simp_all add: cap)
  ultimately show ?thesis
    by (intro exI [of _ ?r] exI [of _ sampleSummary] exI [of _ "nodeAfter ?r ''node'' [] ?v es"])
      (simp add: settled_def showsLabels_def showsResources_def expectedResource_def pages)
qed

end
