(* ===== verification/Source_Controller.thy ===== *)
theory Source_Controller
  imports Name_Parts Controller_Lib
begin

text \<open>
  The source controller (\<open>pkg/controllers/source/controller.go\<close>), in a target cluster: it gives the
  user or service account of a source the roles that the source's agent needs, in the namespace of
  a \<open>Source\<close> and in the whole cluster for a \<open>ClusterSource\<close>, and lets both read the cluster summary.
  The listers, the clients, owner references and the role names from the environment are parameters.
\<close>

section \<open>Objects (source_types.go, clustersource_types.go)\<close>

record sourceSpec =
  src_UserName :: string
  src_ServiceAccountName :: string

record sourceObject = objmeta +
  src_Spec :: sourceSpec

record serviceAccountReference =
  sar_Name :: string
  sar_Namespace :: string

record clusterSourceSpec =
  csrc_UserName :: string
  csrc_ServiceAccount :: "serviceAccountReference option"

record clusterSourceObject = objmeta +
  csrc_Spec :: clusterSourceSpec

record subject =
  sub_Kind :: string
  sub_Name :: string
  sub_Namespace :: string

record roleRef =
  rr_APIGroup :: string
  rr_Kind :: string
  rr_Name :: string

record roleBinding = objmeta +
  Subjects :: "subject list"
  RoleRef :: "roleRef option"

definition zero_roleBinding :: roleBinding where
  "zero_roleBinding = objmeta.extend zero_meta \<lparr>Subjects = [], RoleRef = None\<rparr>"


section \<open>The reconciler\<close>

datatype sourceCall =
    SR_CreateServiceAccount string objmeta
  | SR_CreateClusterRoleBinding roleBinding
  | SR_UpdateClusterRoleBinding roleBinding
  | SR_CreateRoleBinding string roleBinding
  | SR_UpdateRoleBinding string roleBinding

record sourceReconciler =
  SOURCE_CLUSTER_ROLE_NAME :: string
  CLUSTER_SUMMARY_VIEWER_CLUSTER_ROLE_NAME :: string
  sr_SplitKey :: "string \<Rightarrow> (string \<times> string) option"
  sourceLister :: "string \<Rightarrow> string \<Rightarrow> error + sourceObject"
  clusterSourceLister :: "string \<Rightarrow> error + clusterSourceObject"
  serviceAccountLister :: "string \<Rightarrow> string \<Rightarrow> error + objmeta"
  roleBindingLister :: "string \<Rightarrow> string \<Rightarrow> error + roleBinding"
  clusterRoleBindingLister :: "string \<Rightarrow> error + roleBinding"
  sr_SourceRef :: "sourceObject \<Rightarrow> ownerReference"
  sr_ClusterSourceRef :: "clusterSourceObject \<Rightarrow> ownerReference"
  sr_answer :: "sourceCall list \<Rightarrow> sourceCall \<Rightarrow> error + unit"

text \<open>Two informers enqueue the sources themselves, six the sources that own what changed.\<close>

datatype sourceEvent =
    SourceEvent "sourceObject notification"
  | ClusterSourceEvent "clusterSourceObject notification"
  | OwnedEvent "objmeta notification"

fun NewSourceController ::
  "(objmeta \<Rightarrow> error + string) \<Rightarrow> (ownerReference list \<Rightarrow> ownerReference option)
     \<Rightarrow> (string \<Rightarrow> string \<Rightarrow> error + objmeta) \<Rightarrow> (string \<Rightarrow> string \<Rightarrow> error + objmeta)
     \<Rightarrow> sourceEvent \<Rightarrow> (string wq_call, unit) io" where
  "NewSourceController keyFunc getControllerOf getSource getClusterSource (SourceEvent n) =
     HandleAddUpdateWith (EnqueueObject (\<lambda>s. keyFunc (objmeta.truncate s))) n"
| "NewSourceController keyFunc getControllerOf getSource getClusterSource (ClusterSourceEvent n) =
     HandleAddUpdateWith (EnqueueObject (\<lambda>s. keyFunc (objmeta.truncate s))) n"
| "NewSourceController keyFunc getControllerOf getSource getClusterSource (OwnedEvent n) =
     bindM (HandleAllWith (EnqueueController getControllerOf keyFunc ''Source'' getSource) n) (\<lambda>_.
       HandleAllWith (EnqueueController getControllerOf keyFunc ''ClusterSource'' getClusterSource) n)"

definition clusterRoleRef :: "string \<Rightarrow> roleRef" where
  "clusterRoleRef name = \<lparr>rr_APIGroup = ''rbac.authorization.k8s.io'', rr_Kind = ''ClusterRole'', rr_Name = name\<rparr>"

definition clusterRoleRefSource :: "sourceReconciler \<Rightarrow> roleRef" where
  "clusterRoleRefSource c = clusterRoleRef (SOURCE_CLUSTER_ROLE_NAME c)"

definition clusterRoleRefClusterSummaryViewer :: "sourceReconciler \<Rightarrow> roleRef" where
  "clusterRoleRefClusterSummaryViewer c = clusterRoleRef (CLUSTER_SUMMARY_VIEWER_CLUSTER_ROLE_NAME c)"

definition makeSubjects :: "string \<Rightarrow> string \<Rightarrow> string \<Rightarrow> subject list" where
  "makeSubjects saName saNamespace userName =
     (if saName \<noteq> [] then [\<lparr>sub_Kind = ''ServiceAccount'', sub_Name = saName, sub_Namespace = saNamespace\<rparr>] else [])
     @ (if userName \<noteq> [] then [\<lparr>sub_Kind = ''User'', sub_Name = userName, sub_Namespace = []\<rparr>] else [])"

definition request :: "sourceReconciler \<Rightarrow> sourceCall \<Rightarrow> (sourceCall, unit) io" where
  "request c e = bindM (call (\<lambda>h. sr_answer c h e) e) tryM"

text \<open>Neither function ever asks for a requeue, so they return only their error.\<close>

definition ensureClusterRoleBinding ::
  "sourceReconciler \<Rightarrow> string \<Rightarrow> roleRef \<Rightarrow> string \<Rightarrow> string \<Rightarrow> string \<Rightarrow> ownerReference \<Rightarrow> (sourceCall, unit) io" where
  "ensureClusterRoleBinding c name ref userName saName saNamespace ownerRef =
     (let subjects = makeSubjects saName saNamespace userName in
      case clusterRoleBindingLister c name of
        Inl err \<Rightarrow>
          if \<not> IsNotFound err then fail err
          else request c (SR_CreateClusterRoleBinding (zero_roleBinding\<lparr>Name := name, OwnerReferences := [ownerRef],
                 Subjects := makeSubjects saName saNamespace userName, RoleRef := Some ref\<rparr>))
      | Inr crb \<Rightarrow>
          if Subjects crb \<noteq> subjects then request c (SR_UpdateClusterRoleBinding (crb\<lparr>Subjects := subjects\<rparr>))
          else ret ())"

text \<open>The role passed to the next function is not used: it always binds the source role.\<close>

definition ensureRoleBinding ::
  "sourceReconciler \<Rightarrow> string \<Rightarrow> string \<Rightarrow> roleRef \<Rightarrow> string \<Rightarrow> string \<Rightarrow> string \<Rightarrow> ownerReference \<Rightarrow> (sourceCall, unit) io" where
  "ensureRoleBinding c name namespace ref userName saName saNamespace ownerRef =
     (let subjects = makeSubjects saName saNamespace userName in
      case roleBindingLister c namespace name of
        Inl err \<Rightarrow>
          if \<not> IsNotFound err then fail err
          else request c (SR_CreateRoleBinding namespace (zero_roleBinding\<lparr>Name := name, OwnerReferences := [ownerRef],
                 Subjects := makeSubjects saName saNamespace userName, RoleRef := Some (clusterRoleRefSource c)\<rparr>))
      | Inr rb \<Rightarrow>
          if Subjects rb \<noteq> subjects then request c (SR_UpdateRoleBinding namespace (rb\<lparr>Subjects := subjects\<rparr>))
          else ret ())"

text \<open>What the first half of the handler reads from the source; \<open>None\<close> when it is gone.\<close>

record grant =
  g_userName :: string
  g_saName :: string
  g_saNamespace :: string
  g_bindingName :: string
  g_viewerName :: string
  g_ownerRef :: ownerReference

definition crbNameOf :: "string \<Rightarrow> string option" where
  "crbNameOf name = FromParts Long [0] [] [''admiralty-cluster-source'', name]"

definition clusterViewerNameOf :: "string \<Rightarrow> string option" where
  "clusterViewerNameOf name = FromParts Long [0, 2] [] [''admiralty-cluster-source'', name, ''cluster-summary-viewer'']"

definition rbNameOf :: "string \<Rightarrow> string option" where
  "rbNameOf name = FromParts Long [0] [] [''admiralty-source'', name]"

definition viewerNameOf :: "string \<Rightarrow> string \<Rightarrow> string option" where
  "viewerNameOf namespace name =
     FromParts Long [0, 3] [] [''admiralty-source'', namespace, name, ''cluster-summary-viewer'']"

definition readSource :: "sourceReconciler \<Rightarrow> string \<Rightarrow> string \<Rightarrow> (sourceCall, grant option) io" where
  "readSource c namespace srcName =
     (if namespace = [] then
        (case clusterSourceLister c srcName of
           Inl err \<Rightarrow> if IsNotFound err then ret None else fail err
         | Inr s \<Rightarrow>
             bindM (must (crbNameOf (Name s))) (\<lambda>crbName.
             bindM (must (clusterViewerNameOf (Name s))) (\<lambda>viewerName.
             ret (Some \<lparr>g_userName = csrc_UserName (csrc_Spec s),
               g_saName = (case csrc_ServiceAccount (csrc_Spec s) of None \<Rightarrow> [] | Some saRef \<Rightarrow> sar_Name saRef),
               g_saNamespace = (case csrc_ServiceAccount (csrc_Spec s) of None \<Rightarrow> [] | Some saRef \<Rightarrow> sar_Namespace saRef),
               g_bindingName = crbName, g_viewerName = viewerName, g_ownerRef = sr_ClusterSourceRef c s\<rparr>))))
      else
        (case sourceLister c namespace srcName of
           Inl err \<Rightarrow> if IsNotFound err then ret None else fail err
         | Inr s \<Rightarrow>
             bindM (must (rbNameOf (Name s))) (\<lambda>rbName.
             bindM (must (viewerNameOf (Namespace s) (Name s))) (\<lambda>viewerName.
             ret (Some \<lparr>g_userName = src_UserName (src_Spec s), g_saName = src_ServiceAccountName (src_Spec s),
               g_saNamespace = Namespace s, g_bindingName = rbName, g_viewerName = viewerName,
               g_ownerRef = sr_SourceRef c s\<rparr>)))))"

definition ensureServiceAccount :: "sourceReconciler \<Rightarrow> string \<Rightarrow> grant \<Rightarrow> (sourceCall, unit) io" where
  "ensureServiceAccount c namespace g =
     (if g_saName g \<noteq> [] then
        (case serviceAccountLister c (g_saNamespace g) (g_saName g) of
           Inr _ \<Rightarrow> ret ()
         | Inl err \<Rightarrow>
             if \<not> IsNotFound err then fail err
             else request c (SR_CreateServiceAccount namespace (zero_meta\<lparr>Name := g_saName g, OwnerReferences := [g_ownerRef g]\<rparr>)))
      else ret ())"

definition Handle_source :: "sourceReconciler \<Rightarrow> string \<Rightarrow> (sourceCall, nat option) io" where
  "Handle_source c key =
     bindM (must (sr_SplitKey c key)) (\<lambda>(namespace, srcName).
     bindM (readSource c namespace srcName) (\<lambda>res.
     case res of
       None \<Rightarrow> ret None
     | Some g \<Rightarrow>
         bindM (ensureServiceAccount c namespace g) (\<lambda>_.
         if g_userName g \<noteq> [] \<or> g_saName g \<noteq> []
         then bindM (if namespace = []
                then ensureClusterRoleBinding c (g_bindingName g) (clusterRoleRefSource c)
                       (g_userName g) (g_saName g) (g_saNamespace g) (g_ownerRef g)
                else ensureRoleBinding c (g_bindingName g) namespace (clusterRoleRefSource c)
                       (g_userName g) (g_saName g) (g_saNamespace g) (g_ownerRef g)) (\<lambda>_.
              bindM (ensureClusterRoleBinding c (g_viewerName g) (clusterRoleRefClusterSummaryViewer c)
                       (g_userName g) (g_saName g) (g_saNamespace g) (g_ownerRef g)) (\<lambda>_. ret None))
         else ret None)))"



section \<open>What the controller may do\<close>

















section \<open>Properties\<close>


text \<open>
  The viewer binding of one cluster source can have the name of the source binding of another: the
  name of a cluster source is the only variable part, so it is never hashed.
\<close>

lemma cluster_source_name_collision:
  "clusterViewerNameOf ''eu'' = crbNameOf ''eu-cluster-summary-viewer''"
  by (simp add: clusterViewerNameOf_def crbNameOf_def FromParts_def Long_def Contains.simps HasPrefix_def)

text \<open>
  A \<open>ClusterSource\<close> whose service account is missing never gets its roles: the account
  is created with the namespace of the key, which is empty, and not with the namespace that the source
  names.  When the API server refuses to create an object without a namespace, the handler fails
  after that one call, and does so again on every retry.
\<close>

theorem cluster_source_service_account_fails:
  assumes "sr_SplitKey c key = Some ([], name)" "clusterSourceLister c name = Inr s"
    and "crbNameOf (Name s) = Some crb" "clusterViewerNameOf (Name s) = Some viewer"
    and "csrc_ServiceAccount (csrc_Spec s) = Some r" "sar_Name r \<noteq> []"
    and "serviceAccountLister c (sar_Namespace r) (sar_Name r) = Inl err" "IsNotFound err"
    and "\<And>h sa. \<exists>e. sr_answer c h (SR_CreateServiceAccount [] sa) = Inl e"
  shows "\<exists>e sa. Handle_source c key h = (Fail e, h @ [SR_CreateServiceAccount [] sa])"
proof -
  obtain e where "sr_answer c h (SR_CreateServiceAccount [] (zero_meta\<lparr>Name := sar_Name r, OwnerReferences := [sr_ClusterSourceRef c s]\<rparr>)) = Inl e"
    using assms(9) by blast
  with assms(1-8) show ?thesis
    by (simp add: Handle_source_def readSource_def ensureServiceAccount_def request_def io_simps)
qed


theorem cluster_source_service_account_fails_witness:
  "\<exists>c e sa. Handle_source c ''eu'' [] = (Fail e, [SR_CreateServiceAccount [] sa])"
proof -
  define s where "s = objmeta.extend (zero_meta\<lparr>Name := ''eu''\<rparr>)
     \<lparr>csrc_Spec = \<lparr>csrc_UserName = [], csrc_ServiceAccount = Some \<lparr>sar_Name = ''agent'', sar_Namespace = ''admiralty''\<rparr>\<rparr>\<rparr>"
  define missing where "missing = \<lparr>Error = ''not found'', IsNotFound = True, IsAlreadyExists = False\<rparr>"
  define c where "c = \<lparr>SOURCE_CLUSTER_ROLE_NAME = ''source'', CLUSTER_SUMMARY_VIEWER_CLUSTER_ROLE_NAME = ''viewer'',
     sr_SplitKey = (\<lambda>k. Some ([], k)), sourceLister = (\<lambda>_ _. Inl missing), clusterSourceLister = (\<lambda>_. Inr s),
     serviceAccountLister = (\<lambda>_ _. Inl missing), roleBindingLister = (\<lambda>_ _. Inl missing),
     clusterRoleBindingLister = (\<lambda>_. Inl missing),
     sr_SourceRef = (\<lambda>_. \<lparr>or_Kind = [], or_Name = [], or_UID = [], or_Controller = None\<rparr>),
     sr_ClusterSourceRef = (\<lambda>_. \<lparr>or_Kind = [], or_Name = [], or_UID = [], or_Controller = None\<rparr>),
     sr_answer = (\<lambda>_ e. case e of SR_CreateServiceAccount ns _ \<Rightarrow>
       if ns = [] then Inl (Errorf ''an empty namespace may not be set during creation'') else Inr () | _ \<Rightarrow> Inr ())\<rparr>"
  have name: "Name s = ''eu''" by (simp add: s_def objmeta.defs)
  have "crbNameOf ''eu'' = Some ''admiralty-cluster-source-eu''"
    "clusterViewerNameOf ''eu'' = Some ''admiralty-cluster-source-eu-cluster-summary-viewer''"
    by (simp_all add: clusterViewerNameOf_def crbNameOf_def FromParts_def Long_def Contains.simps HasPrefix_def)
  then have "\<exists>e sa. Handle_source c ''eu'' [] = (Fail e, [] @ [SR_CreateServiceAccount [] sa])"
    by (intro cluster_source_service_account_fails [of c "''eu''" "''eu''" s _ _ "\<lparr>sar_Name = ''agent'', sar_Namespace = ''admiralty''\<rparr>" missing])
      (simp_all add: name, simp_all add: c_def s_def missing_def objmeta.defs)
  then show ?thesis by (metis append_Nil)
qed

end
