(* ===== verification/Source_Grants.thy ===== *)
theory Source_Grants
  imports Source_Controller
begin

text \<open>
  The source controller in the closed loop: the service accounts and the bindings of a target cluster behind
  an API server that refuses to create what exists, to update what does not, and to create a service account
  without a namespace.  The caches are those of the state in which a run begins.  One run gives a source what
  it asks for, and the next one makes no call.
\<close>

section \<open>The API server of the target\<close>

record sourceWorld =
  sw_serviceAccounts :: "string \<times> string \<Rightarrow> objmeta option"
  sw_roleBindings :: "string \<times> string \<Rightarrow> roleBinding option"
  sw_clusterRoleBindings :: "string \<Rightarrow> roleBinding option"

definition notFoundError :: error where
  "notFoundError = \<lparr>Error = ''not found'', IsNotFound = True, IsAlreadyExists = False\<rparr>"

definition alreadyExistsError :: error where
  "alreadyExistsError = \<lparr>Error = ''already exists'', IsNotFound = False, IsAlreadyExists = True\<rparr>"

fun answerSource :: "sourceWorld \<Rightarrow> sourceCall \<Rightarrow> error + unit" where
  "answerSource w (SR_CreateServiceAccount ns sa) =
     (if ns = [] then Inl (Errorf ''an empty namespace may not be set during creation'')
      else if sw_serviceAccounts w (ns, Name sa) \<noteq> None then Inl alreadyExistsError else Inr ())"
| "answerSource w (SR_CreateClusterRoleBinding b) =
     (if sw_clusterRoleBindings w (Name b) \<noteq> None then Inl alreadyExistsError else Inr ())"
| "answerSource w (SR_UpdateClusterRoleBinding b) =
     (if sw_clusterRoleBindings w (Name b) = None then Inl notFoundError else Inr ())"
| "answerSource w (SR_CreateRoleBinding ns b) =
     (if sw_roleBindings w (ns, Name b) \<noteq> None then Inl alreadyExistsError else Inr ())"
| "answerSource w (SR_UpdateRoleBinding ns b) =
     (if sw_roleBindings w (ns, Name b) = None then Inl notFoundError else Inr ())"

fun storeSource :: "sourceWorld \<Rightarrow> sourceCall \<Rightarrow> sourceWorld" where
  "storeSource w (SR_CreateServiceAccount ns sa) =
     w\<lparr>sw_serviceAccounts := (sw_serviceAccounts w)((ns, Name sa) \<mapsto> sa\<lparr>Namespace := ns\<rparr>)\<rparr>"
| "storeSource w (SR_CreateClusterRoleBinding b) =
     w\<lparr>sw_clusterRoleBindings := (sw_clusterRoleBindings w)(Name b \<mapsto> b)\<rparr>"
| "storeSource w (SR_UpdateClusterRoleBinding b) =
     w\<lparr>sw_clusterRoleBindings := (sw_clusterRoleBindings w)(Name b \<mapsto> b)\<rparr>"
| "storeSource w (SR_CreateRoleBinding ns b) =
     w\<lparr>sw_roleBindings := (sw_roleBindings w)((ns, Name b) \<mapsto> b\<lparr>Namespace := ns\<rparr>)\<rparr>"
| "storeSource w (SR_UpdateRoleBinding ns b) =
     w\<lparr>sw_roleBindings := (sw_roleBindings w)((ns, Name b) \<mapsto> b\<lparr>Namespace := ns\<rparr>)\<rparr>"

definition applySource :: "sourceWorld \<Rightarrow> sourceCall \<Rightarrow> sourceWorld" where
  "applySource w e = (case answerSource w e of Inl _ \<Rightarrow> w | Inr _ \<Rightarrow> storeSource w e)"

definition cached :: "'a option \<Rightarrow> error + 'a" where
  "cached x = (case x of None \<Rightarrow> Inl notFoundError | Some y \<Rightarrow> Inr y)"

definition connectSource :: "sourceReconciler \<Rightarrow> sourceWorld \<Rightarrow> sourceReconciler" where
  "connectSource c w = c
     \<lparr>serviceAccountLister := (\<lambda>ns n. cached (sw_serviceAccounts w (ns, n))),
      roleBindingLister := (\<lambda>ns n. cached (sw_roleBindings w (ns, n))),
      clusterRoleBindingLister := (\<lambda>n. cached (sw_clusterRoleBindings w n)),
      sr_answer := (\<lambda>h e. answerSource (foldl applySource w h) e)\<rparr>"

definition runSource :: "sourceReconciler \<Rightarrow> string \<Rightarrow> sourceWorld \<Rightarrow> nat option outcome \<times> sourceCall list" where
  "runSource c key w = Handle_source (connectSource c w) key []"

definition afterSource :: "sourceReconciler \<Rightarrow> string \<Rightarrow> sourceWorld \<Rightarrow> sourceWorld" where
  "afterSource c key w = foldl applySource w (snd (runSource c key w))"

text \<open>The server files an object under its namespace and name.\<close>

definition filed :: "sourceWorld \<Rightarrow> bool" where
  "filed w \<longleftrightarrow>
     (\<forall>ns n b. sw_roleBindings w (ns, n) = Some b \<longrightarrow> Namespace b = ns \<and> Name b = n) \<and>
     (\<forall>n b. sw_clusterRoleBindings w n = Some b \<longrightarrow> Name b = n)"

lemma connectSource_simps [simp]:
  "SOURCE_CLUSTER_ROLE_NAME (connectSource c w) = SOURCE_CLUSTER_ROLE_NAME c"
  "sr_SplitKey (connectSource c w) = sr_SplitKey c"
  "serviceAccountLister (connectSource c w) = (\<lambda>ns n. cached (sw_serviceAccounts w (ns, n)))"
  "roleBindingLister (connectSource c w) = (\<lambda>ns n. cached (sw_roleBindings w (ns, n)))"
  "clusterRoleBindingLister (connectSource c w) = (\<lambda>n. cached (sw_clusterRoleBindings w n))"
  "sr_answer (connectSource c w) = (\<lambda>h e. answerSource (foldl applySource w h) e)"
  "clusterRoleRefSource (connectSource c w) = clusterRoleRefSource c"
  "clusterRoleRefClusterSummaryViewer (connectSource c w) = clusterRoleRefClusterSummaryViewer c"
  "sourceLister (connectSource c w) = sourceLister c"
  "clusterSourceLister (connectSource c w) = clusterSourceLister c"
  "sr_SourceRef (connectSource c w) = sr_SourceRef c"
  "sr_ClusterSourceRef (connectSource c w) = sr_ClusterSourceRef c"
  by (simp_all add: connectSource_def clusterRoleRefSource_def clusterRoleRefClusterSummaryViewer_def)

lemma connectSource_readSource [simp]: "readSource (connectSource c w) ns n = readSource c ns n"
  unfolding readSource_def connectSource_simps ..


section \<open>The steps of a run\<close>

lemma cached_simps [simp]: "cached None = Inl notFoundError" "cached (Some x) = Inr x" "IsNotFound notFoundError"
  by (simp_all add: cached_def notFoundError_def)

text \<open>The binding that a step leaves: a new one, or the old one with other subjects.\<close>

definition ensured :: "roleBinding option \<Rightarrow> string \<Rightarrow> roleRef \<Rightarrow> subject list \<Rightarrow> ownerReference \<Rightarrow> roleBinding" where
  "ensured old n ref subjects owner =
     (case old of
        None \<Rightarrow> zero_roleBinding\<lparr>Name := n, OwnerReferences := [owner], Subjects := subjects, RoleRef := Some ref\<rparr>
      | Some b \<Rightarrow> b\<lparr>Subjects := subjects\<rparr>)"

definition settled :: "roleBinding option \<Rightarrow> subject list \<Rightarrow> bool" where
  "settled b subjects \<longleftrightarrow> (\<exists>x. b = Some x \<and> Subjects x = subjects)"

lemma ensured_simps [simp]:
  "Subjects (ensured old n ref subjects owner) = subjects"
  "(\<And>b. old = Some b \<Longrightarrow> Name b = n) \<Longrightarrow> Name (ensured old n ref subjects owner) = n"
  "RoleRef (ensured old n ref subjects owner) = (case old of None \<Rightarrow> Some ref | Some b \<Rightarrow> RoleRef b)"
  "settled (Some (ensured old n ref subjects owner)) subjects"
  by (auto simp: ensured_def settled_def zero_roleBinding_def objmeta.defs split: option.splits)

lemma ensureClusterRoleBinding_run:
  fixes w h
  defines "W \<equiv> foldl applySource w h"
  assumes "filed w" and "sw_clusterRoleBindings W n = sw_clusterRoleBindings w n"
  shows "\<exists>es. ensureClusterRoleBinding (connectSource c w) n ref user sa sans owner h = (Ret (), h @ es) \<and>
      foldl applySource w (h @ es) =
        W\<lparr>sw_clusterRoleBindings := (sw_clusterRoleBindings W)
            (n \<mapsto> ensured (sw_clusterRoleBindings w n) n ref (makeSubjects sa sans user) owner)\<rparr> \<and>
      (settled (sw_clusterRoleBindings w n) (makeSubjects sa sans user) \<longrightarrow> es = [])"
proof (cases "sw_clusterRoleBindings w n")
  case None
  then show ?thesis using assms(3)
    by (simp add: ensureClusterRoleBinding_def request_def io_simps applySource_def ensured_def settled_def
        zero_roleBinding_def objmeta.defs flip: W_def)
next
  case (Some b)
  then have "Name b = n" using assms(2) by (simp add: filed_def)
  with Some assms(3) show ?thesis
    by (cases "Subjects b = makeSubjects sa sans user")
      (auto simp: ensureClusterRoleBinding_def request_def io_simps applySource_def ensured_def settled_def
        fun_upd_idem simp flip: W_def)
qed

lemma ensureRoleBinding_run:
  fixes w h
  defines "W \<equiv> foldl applySource w h"
  assumes "filed w" and "sw_roleBindings W (ns, n) = sw_roleBindings w (ns, n)"
  shows "\<exists>es. ensureRoleBinding (connectSource c w) n ns ref user sa sans owner h = (Ret (), h @ es) \<and>
      foldl applySource w (h @ es) =
        W\<lparr>sw_roleBindings := (sw_roleBindings W)((ns, n) \<mapsto>
            (ensured (sw_roleBindings w (ns, n)) n (clusterRoleRefSource c) (makeSubjects sa sans user) owner)
              \<lparr>Namespace := ns\<rparr>)\<rparr> \<and>
      (settled (sw_roleBindings w (ns, n)) (makeSubjects sa sans user) \<longrightarrow> es = [])"
proof (cases "sw_roleBindings w (ns, n)")
  case None
  then show ?thesis using assms(3)
    by (simp add: ensureRoleBinding_def request_def io_simps applySource_def ensured_def settled_def
        zero_roleBinding_def objmeta.defs flip: W_def)
next
  case (Some b)
  then have "Name b = n" "Namespace b = ns" using assms(2) by (simp_all add: filed_def)
  with Some assms(3) show ?thesis
    by (cases "Subjects b = makeSubjects sa sans user")
      (auto simp: ensureRoleBinding_def request_def io_simps applySource_def ensured_def settled_def
        fun_upd_idem simp flip: W_def)
qed

text \<open>The service account of a grant, which is created in the namespace of the key.\<close>

definition accountFound :: "sourceWorld \<Rightarrow> grant \<Rightarrow> bool" where
  "accountFound w g \<longleftrightarrow> g_saName g = [] \<or> sw_serviceAccounts w (g_saNamespace g, g_saName g) \<noteq> None"

definition newAccount :: "string \<Rightarrow> grant \<Rightarrow> objmeta" where
  "newAccount ns g = zero_meta\<lparr>Name := g_saName g, Namespace := ns, OwnerReferences := [g_ownerRef g]\<rparr>"

definition withAccount :: "string \<Rightarrow> grant \<Rightarrow> sourceWorld \<Rightarrow> sourceWorld" where
  "withAccount ns g w =
     (if accountFound w g then w
      else w\<lparr>sw_serviceAccounts := (sw_serviceAccounts w)((ns, g_saName g) \<mapsto> newAccount ns g)\<rparr>)"

lemma ensureServiceAccount_run:
  assumes "accountFound w g \<or> ns \<noteq> [] \<and> g_saNamespace g = ns"
  shows "\<exists>es. ensureServiceAccount (connectSource c w) ns g [] = (Ret (), es) \<and>
      foldl applySource w es = withAccount ns g w \<and> (accountFound w g \<longrightarrow> es = [])"
proof (cases "accountFound w g")
  case True
  then have "ensureServiceAccount (connectSource c w) ns g [] = (Ret (), [])"
    by (auto simp: ensureServiceAccount_def accountFound_def io_simps)
  then show ?thesis using True by (simp add: withAccount_def)
next
  case False
  then show ?thesis using assms
    by (simp add: ensureServiceAccount_def accountFound_def withAccount_def newAccount_def request_def io_simps
        applySource_def zero_meta_def)
qed


section \<open>A run, and the run after it\<close>

definition grantSubjects :: "grant \<Rightarrow> subject list" where
  "grantSubjects g = makeSubjects (g_saName g) (g_saNamespace g) (g_userName g)"

text \<open>What a source has been given.\<close>

definition granted :: "sourceWorld \<Rightarrow> string \<Rightarrow> grant \<Rightarrow> bool" where
  "granted w ns g \<longleftrightarrow>
     accountFound w g \<and>
     settled (if ns = [] then sw_clusterRoleBindings w (g_bindingName g) else sw_roleBindings w (ns, g_bindingName g))
       (grantSubjects g) \<and>
     settled (sw_clusterRoleBindings w (g_viewerName g)) (grantSubjects g)"

definition withBinding :: "sourceReconciler \<Rightarrow> string \<Rightarrow> grant \<Rightarrow> sourceWorld \<Rightarrow> sourceWorld" where
  "withBinding c ns g w =
     (if ns = []
      then w\<lparr>sw_clusterRoleBindings := (sw_clusterRoleBindings w)(g_bindingName g \<mapsto>
             ensured (sw_clusterRoleBindings w (g_bindingName g)) (g_bindingName g) (clusterRoleRefSource c)
               (grantSubjects g) (g_ownerRef g))\<rparr>
      else w\<lparr>sw_roleBindings := (sw_roleBindings w)((ns, g_bindingName g) \<mapsto>
             (ensured (sw_roleBindings w (ns, g_bindingName g)) (g_bindingName g) (clusterRoleRefSource c)
               (grantSubjects g) (g_ownerRef g))\<lparr>Namespace := ns\<rparr>)\<rparr>)"

definition withViewer :: "sourceReconciler \<Rightarrow> grant \<Rightarrow> sourceWorld \<Rightarrow> sourceWorld" where
  "withViewer c g w =
     w\<lparr>sw_clusterRoleBindings := (sw_clusterRoleBindings w)(g_viewerName g \<mapsto>
         ensured (sw_clusterRoleBindings w (g_viewerName g)) (g_viewerName g) (clusterRoleRefClusterSummaryViewer c)
           (grantSubjects g) (g_ownerRef g))\<rparr>"

definition grantable :: "sourceWorld \<Rightarrow> string \<Rightarrow> grant \<Rightarrow> bool" where
  "grantable w ns g \<longleftrightarrow>
     filed w \<and> (g_userName g \<noteq> [] \<or> g_saName g \<noteq> []) \<and>
     (accountFound w g \<or> ns \<noteq> [] \<and> g_saNamespace g = ns) \<and> (ns = [] \<longrightarrow> g_bindingName g \<noteq> g_viewerName g)"

lemma withAccount_bindings [simp]:
  "sw_roleBindings (withAccount ns g w) = sw_roleBindings w"
  "sw_clusterRoleBindings (withAccount ns g w) = sw_clusterRoleBindings w"
  by (simp_all add: withAccount_def)

lemma runSource_eq:
  assumes "sr_SplitKey c key = Some (ns, name)" and "readSource c ns name [] = (Ret (Some g), [])"
    and "grantable w ns g"
  shows "\<exists>es. runSource c key w = (Ret None, es) \<and>
      foldl applySource w es = withViewer c g (withBinding c ns g (withAccount ns g w)) \<and>
      (granted w ns g \<longrightarrow> es = [])"
proof -
  let ?c = "connectSource c w"
  have w: "filed w" "ns = [] \<longrightarrow> g_bindingName g \<noteq> g_viewerName g"
    using assms(3) by (simp_all add: grantable_def)
  obtain es1 where es1: "ensureServiceAccount ?c ns g [] = (Ret (), es1)"
      "foldl applySource w es1 = withAccount ns g w" "accountFound w g \<longrightarrow> es1 = []"
    using ensureServiceAccount_run assms(3) unfolding grantable_def by blast
  let ?bind = "if ns = []
      then ensureClusterRoleBinding ?c (g_bindingName g) (clusterRoleRefSource c) (g_userName g) (g_saName g)
             (g_saNamespace g) (g_ownerRef g)
      else ensureRoleBinding ?c (g_bindingName g) ns (clusterRoleRefSource c) (g_userName g) (g_saName g)
             (g_saNamespace g) (g_ownerRef g)"
  have "\<exists>es2. ?bind es1 = (Ret (), es1 @ es2) \<and>
      foldl applySource w (es1 @ es2) = withBinding c ns g (withAccount ns g w) \<and> (granted w ns g \<longrightarrow> es2 = [])"
  proof (cases "ns = []")
    case True
    then show ?thesis
      using ensureClusterRoleBinding_run [where w = w and h = es1 and n = "g_bindingName g" and c = c and ref = "clusterRoleRefSource c"
          and user = "g_userName g" and sa = "g_saName g" and sans = "g_saNamespace g" and owner = "g_ownerRef g", OF w(1)] es1(2)
      by (auto simp: withBinding_def granted_def grantSubjects_def)
  next
    case False
    then show ?thesis
      using ensureRoleBinding_run [where w = w and h = es1 and n = "g_bindingName g" and c = c and ns = ns
          and user = "g_userName g" and sa = "g_saName g" and sans = "g_saNamespace g" and owner = "g_ownerRef g", OF w(1)] es1(2)
      by (auto simp: withBinding_def granted_def grantSubjects_def)
  qed
  then obtain es2 where es2: "?bind es1 = (Ret (), es1 @ es2)"
      "foldl applySource w (es1 @ es2) = withBinding c ns g (withAccount ns g w)" "granted w ns g \<longrightarrow> es2 = []"
    by blast
  let ?W = "withBinding c ns g (withAccount ns g w)"
  have "sw_clusterRoleBindings ?W (g_viewerName g) = sw_clusterRoleBindings w (g_viewerName g)"
    using w(2) by (auto simp: withBinding_def)
  then obtain es3 where es3: "ensureClusterRoleBinding ?c (g_viewerName g) (clusterRoleRefClusterSummaryViewer c)
        (g_userName g) (g_saName g) (g_saNamespace g) (g_ownerRef g) (es1 @ es2) = (Ret (), (es1 @ es2) @ es3)"
      "foldl applySource w ((es1 @ es2) @ es3) = withViewer c g ?W" "granted w ns g \<longrightarrow> es3 = []"
    using ensureClusterRoleBinding_run [where w = w and h = "es1 @ es2" and n = "g_viewerName g" and c = c and ref = "clusterRoleRefClusterSummaryViewer c"
          and user = "g_userName g" and sa = "g_saName g" and sans = "g_saNamespace g" and owner = "g_ownerRef g", OF w(1)] es2(2)
    by (auto simp: withViewer_def granted_def grantSubjects_def)
  have "runSource c key w = (Ret None, (es1 @ es2) @ es3)"
    using assms es1(1) es2(1) es3(1)
    by (auto simp: runSource_def Handle_source_def bindM_apply io_apply io_values grantable_def split: if_splits)
  moreover have "granted w ns g \<longrightarrow> (es1 @ es2) @ es3 = []"
    using es1(3) es2(3) es3(3) by (auto simp: granted_def)
  ultimately show ?thesis using es3(2) by blast
qed

lemma filed_withBinding: "filed w \<Longrightarrow> filed (withBinding c ns g w)"
  by (auto simp: filed_def withBinding_def)

lemma filed_withViewer: "filed w \<Longrightarrow> filed (withViewer c g w)"
  by (auto simp: filed_def withViewer_def)

lemma filed_withAccount: "filed w \<Longrightarrow> filed (withAccount ns g w)"
  by (simp add: filed_def)

lemma accountFound_after:
  "accountFound w g \<or> g_saNamespace g = ns \<Longrightarrow>
   accountFound (withViewer c g (withBinding c ns g (withAccount ns g w))) g"
  by (auto simp: accountFound_def withViewer_def withBinding_def withAccount_def)

lemma settled_Namespace [simp]: "settled (Some (b\<lparr>Namespace := ns\<rparr>)) s \<longleftrightarrow> settled (Some b) s"
  by (simp add: settled_def)

lemma granted_after:
  assumes "grantable w ns g"
  shows "granted (withViewer c g (withBinding c ns g (withAccount ns g w))) ns g"
  using assms accountFound_after [of w g ns c]
  by (auto simp: granted_def grantable_def withViewer_def withBinding_def)

lemma grantable_after:
  "grantable w ns g \<Longrightarrow> grantable (withViewer c g (withBinding c ns g (withAccount ns g w))) ns g"
  using accountFound_after [of w g ns c]
  by (auto simp: grantable_def intro: filed_withAccount filed_withBinding filed_withViewer)

text \<open>The role of a binding: that of the grant if the controller made it, else the one it had.\<close>

definition roleOf :: "roleBinding option \<Rightarrow> roleRef \<Rightarrow> roleRef option" where
  "roleOf old ref = (case old of None \<Rightarrow> Some ref | Some b \<Rightarrow> RoleRef b)"

text \<open>
  Property C15.  One run of the source controller gives a source what it asks for: afterwards its service
  account exists, its binding and the one that reads the summary name exactly its user and its account, each
  with the role it should have unless the binding was there before, and no other binding has changed.  The next
  run makes no call.  This holds from any state of the target cluster, for sources and cluster sources, but
  the service account of a cluster source must exist.
\<close>

theorem source_granted:
  assumes "sr_SplitKey c key = Some (ns, name)" and "readSource c ns name [] = (Ret (Some g), [])"
    and "grantable w ns g"
  defines "w' \<equiv> afterSource c key w"
  shows "fst (runSource c key w) = Ret None \<and> granted w' ns g
    \<and> (if ns = []
       then map_option RoleRef (sw_clusterRoleBindings w' (g_bindingName g)) =
              Some (roleOf (sw_clusterRoleBindings w (g_bindingName g)) (clusterRoleRefSource c))
       else map_option RoleRef (sw_roleBindings w' (ns, g_bindingName g)) =
              Some (roleOf (sw_roleBindings w (ns, g_bindingName g)) (clusterRoleRefSource c)))
    \<and> map_option RoleRef (sw_clusterRoleBindings w' (g_viewerName g)) =
        Some (roleOf (sw_clusterRoleBindings w (g_viewerName g)) (clusterRoleRefClusterSummaryViewer c))
    \<and> (\<forall>k. ns \<noteq> [] \<and> k = (ns, g_bindingName g) \<or> sw_roleBindings w' k = sw_roleBindings w k)
    \<and> (\<forall>n. n = g_viewerName g \<or> ns = [] \<and> n = g_bindingName g
         \<or> sw_clusterRoleBindings w' n = sw_clusterRoleBindings w n)
    \<and> runSource c key w' = (Ret None, [])"
proof -
  obtain es where es: "runSource c key w = (Ret None, es)"
      "foldl applySource w es = withViewer c g (withBinding c ns g (withAccount ns g w))"
    using runSource_eq [OF assms(1-3)] by blast
  then have w': "w' = withViewer c g (withBinding c ns g (withAccount ns g w))"
    by (simp add: w'_def afterSource_def)
  have "granted w' ns g" "grantable w' ns g"
    using granted_after [OF assms(3)] grantable_after [OF assms(3)] by (simp_all add: w')
  then have "runSource c key w' = (Ret None, [])"
    using runSource_eq [OF assms(1,2)] by fastforce
  moreover have "ns = [] \<longrightarrow> g_bindingName g \<noteq> g_viewerName g" using assms(3) by (simp add: grantable_def)
  ultimately show ?thesis using es(1) \<open>granted w' ns g\<close>
    by (auto simp: w' withViewer_def withBinding_def roleOf_def)
qed

text \<open>A source of one user and one account, in a cluster where its binding names someone else.\<close>

definition sampleSource :: sourceObject where
  "sampleSource = objmeta.extend (zero_meta\<lparr>Name := ''eu'', Namespace := ''team''\<rparr>)
     \<lparr>src_Spec = \<lparr>src_UserName = ''alice'', src_ServiceAccountName = ''agent''\<rparr>\<rparr>"

definition noOwner :: ownerReference where
  "noOwner = \<lparr>or_Kind = [], or_Name = [], or_UID = [], or_Controller = None\<rparr>"

definition sampleSourceReconciler :: sourceReconciler where
  "sampleSourceReconciler =
     \<lparr>SOURCE_CLUSTER_ROLE_NAME = ''source'', CLUSTER_SUMMARY_VIEWER_CLUSTER_ROLE_NAME = ''viewer'',
      sr_SplitKey = (\<lambda>k. Some (''team'', k)), sourceLister = (\<lambda>_ _. Inr sampleSource),
      clusterSourceLister = (\<lambda>_. Inl notFoundError), serviceAccountLister = (\<lambda>_ _. Inl notFoundError),
      roleBindingLister = (\<lambda>_ _. Inl notFoundError), clusterRoleBindingLister = (\<lambda>_. Inl notFoundError),
      sr_SourceRef = (\<lambda>_. noOwner), sr_ClusterSourceRef = (\<lambda>_. noOwner), sr_answer = (\<lambda>_ _. Inr ())\<rparr>"

definition sampleGrant :: grant where
  "sampleGrant = \<lparr>g_userName = ''alice'', g_saName = ''agent'', g_saNamespace = ''team'',
     g_bindingName = ''admiralty-source-eu'', g_viewerName = ''admiralty-source-team-eu-cluster-summary-viewer'',
     g_ownerRef = noOwner\<rparr>"

definition sampleSourceWorld :: sourceWorld where
  "sampleSourceWorld =
     \<lparr>sw_serviceAccounts = Map.empty,
      sw_roleBindings = [(''team'', ''admiralty-source-eu'') \<mapsto>
        zero_roleBinding\<lparr>Name := ''admiralty-source-eu'', Namespace := ''team'',
          Subjects := makeSubjects [] [] ''bob'', RoleRef := Some (clusterRoleRef ''source'')\<rparr>],
      sw_clusterRoleBindings = Map.empty\<rparr>"

lemma sampleSource_read:
  "readSource sampleSourceReconciler ''team'' ''eu'' [] = (Ret (Some sampleGrant), [])"
proof -
  have "rbNameOf ''eu'' = Some ''admiralty-source-eu''"
    "viewerNameOf ''team'' ''eu'' = Some ''admiralty-source-team-eu-cluster-summary-viewer''"
    by (simp_all add: rbNameOf_def viewerNameOf_def FromParts_def Long_def Contains.simps HasPrefix_def)
  then show ?thesis
    by (simp add: readSource_def sampleSourceReconciler_def sampleSource_def sampleGrant_def objmeta.defs
        zero_meta_def io_simps)
qed

theorem source_granted_witness:
  "\<exists>w'. granted w' ''team'' sampleGrant \<and> \<not> granted sampleSourceWorld ''team'' sampleGrant
     \<and> runSource sampleSourceReconciler ''eu'' w' = (Ret None, [])"
proof -
  have "sr_SplitKey sampleSourceReconciler ''eu'' = Some (''team'', ''eu'')"
    by (simp add: sampleSourceReconciler_def)
  moreover have "grantable sampleSourceWorld ''team'' sampleGrant"
    by (simp add: grantable_def filed_def sampleSourceWorld_def sampleGrant_def)
  moreover have "\<not> granted sampleSourceWorld ''team'' sampleGrant"
    by (simp add: granted_def accountFound_def sampleSourceWorld_def sampleGrant_def)
  ultimately show ?thesis using source_granted [OF _ sampleSource_read] by blast
qed

end
