(* ===== verification/Key_Usage.thy ===== *)
theory Key_Usage
  imports Go_Prelude "HOL-Library.Word"
begin

unbundle bit_operations_syntax

text \<open>
  Key usages of a certificate request (\<open>third_party/.../pki/keyusage.go\<close>): a key usage is a named bit list
  of ASN.1, whose first bit is the most significant bit of the first byte, where Go's constants count
  bits from the least significant one; an extended key usage is an object identifier.
  \<open>asn1.Marshal\<close> is a parameter.
\<close>

type_synonym byte = "8 word"
type_synonym oid = "nat list"

section \<open>Bits\<close>

definition reverseBitsInAByte :: "byte \<Rightarrow> byte" where
  "reverseBitsInAByte i =
     (let b1 = drop_bit 4 i OR push_bit 4 i;
          b2 = (drop_bit 2 b1 AND 0x33) OR (push_bit 2 b1 AND 0xcc);
          b3 = (drop_bit 1 b2 AND 0x55) OR (push_bit 1 b2 AND 0xaa)
      in b3)"

text \<open>
  The two loops of \<open>asn1BitLength\<close>: over the bits of a byte, which returns from the function (\<open>Inl\<close>) or
  ends with the counter, and over the bytes from the last to the first.
\<close>

fun scanBits :: "byte \<Rightarrow> nat list \<Rightarrow> int \<Rightarrow> int + int" where
  "scanBits b [] bitLen = Inr bitLen"
| "scanBits b (k # ks) bitLen = (if drop_bit k b AND 1 = 1 then Inl bitLen else scanBits b ks (bitLen - 1))"

fun scanBytes :: "byte list \<Rightarrow> int \<Rightarrow> int" where
  "scanBytes [] bitLen = 0"
| "scanBytes (b # bs) bitLen = (case scanBits b [0..<8] bitLen of Inl n \<Rightarrow> n | Inr n \<Rightarrow> scanBytes bs n)"

definition asn1BitLength :: "byte list \<Rightarrow> int" where
  "asn1BitLength bitString = scanBytes (rev bitString) (int (length bitString) * 8)"

definition OIDExtensionKeyUsage :: oid where "OIDExtensionKeyUsage = [2, 5, 29, 15]"
definition OIDExtensionExtendedKeyUsage :: oid where "OIDExtensionExtendedKeyUsage = [2, 5, 29, 37]"

text \<open>A key usage is an \<open>int\<close>, which has 64 bits; the conversion to a byte keeps the lowest eight.\<close>

definition keyUsageBytes :: "64 word \<Rightarrow> byte list" where
  "keyUsageBytes usage =
     (let a0 = reverseBitsInAByte (ucast usage);
          a1 = reverseBitsInAByte (ucast (signed_drop_bit 8 usage));
          l = (if a1 \<noteq> 0 then 2 else 1)
      in take l [a0, a1])"

definition BuildASN1KeyUsageRequest ::
  "(byte list \<Rightarrow> int \<Rightarrow> error + string) \<Rightarrow> 64 word \<Rightarrow> error + (oid \<times> string)" where
  "BuildASN1KeyUsageRequest asn1_Marshal usage =
     (let bitString = keyUsageBytes usage
      in case asn1_Marshal bitString (asn1BitLength bitString) of
           Inl err \<Rightarrow> Inl err
         | Inr value \<Rightarrow> Inr (OIDExtensionKeyUsage, value))"


section \<open>Extended key usages\<close>

text \<open>\<open>x509.ExtKeyUsage\<close> is an \<open>int\<close>; the table is in the order of its constants.\<close>

definition extKeyUsageOIDs :: "(int \<times> oid) list" where
  "extKeyUsageOIDs =
     [(0, [2, 5, 29, 37, 0]),
      (1, [1, 3, 6, 1, 5, 5, 7, 3, 1]),
      (2, [1, 3, 6, 1, 5, 5, 7, 3, 2]),
      (3, [1, 3, 6, 1, 5, 5, 7, 3, 3]),
      (4, [1, 3, 6, 1, 5, 5, 7, 3, 4]),
      (5, [1, 3, 6, 1, 5, 5, 7, 3, 5]),
      (6, [1, 3, 6, 1, 5, 5, 7, 3, 6]),
      (7, [1, 3, 6, 1, 5, 5, 7, 3, 7]),
      (8, [1, 3, 6, 1, 5, 5, 7, 3, 8]),
      (9, [1, 3, 6, 1, 5, 5, 7, 3, 9]),
      (10, [1, 3, 6, 1, 4, 1, 311, 10, 3, 3]),
      (11, [2, 16, 840, 1, 113730, 4, 1]),
      (12, [1, 3, 6, 1, 4, 1, 311, 2, 1, 22]),
      (13, [1, 3, 6, 1, 4, 1, 311, 61, 1, 1])]"

fun findOID :: "(int \<times> oid) list \<Rightarrow> int \<Rightarrow> oid option" where
  "findOID [] eku = None"
| "findOID ((u, d) # ps) eku = (if eku = u then Some d else findOID ps eku)"

fun findUsage :: "(int \<times> oid) list \<Rightarrow> oid \<Rightarrow> int option" where
  "findUsage [] d = None"
| "findUsage ((u, d') # ps) d = (if d = d' then Some u else findUsage ps d)"

definition OIDFromExtKeyUsage :: "int \<Rightarrow> oid option" where
  "OIDFromExtKeyUsage eku = findOID extKeyUsageOIDs eku"

definition ExtKeyUsageFromOID :: "oid \<Rightarrow> int option" where
  "ExtKeyUsageFromOID d = findUsage extKeyUsageOIDs d"


section \<open>Lemmas on bits\<close>

text \<open>The reference: the bits of a byte string in the order of ASN.1, and a list without its trailing zeros.\<close>

definition asn1Bits :: "byte list \<Rightarrow> bool list" where
  "asn1Bits bs = concat (map (\<lambda>b. map (bit b) (rev [0..<8])) bs)"

definition stripZeros :: "bool list \<Rightarrow> bool list" where
  "stripZeros xs = rev (dropWhile Not (rev xs))"

lemma less_8: "n < 8 \<longleftrightarrow> n \<in> {0, 1, 2, 3, 4, 5, 6, 7 :: nat}"
  by auto

lemma high_bit: "8 \<le> m \<Longrightarrow> \<not> bit b m" for b :: byte
  by (auto dest: bit_imp_le_length)

lemma bit_reverse: "n < 8 \<Longrightarrow> bit (reverseBitsInAByte b) n = bit b (7 - n)"
  unfolding less_8
  by (elim insertE emptyE; simp only: reverseBitsInAByte_def Let_def bit_or_iff bit_and_iff bit_drop_bit_eq
      bit_push_bit_iff possible_bit_word comp_def; simp add: high_bit)

lemma low_bit: "drop_bit k b AND 1 = 1 \<longleftrightarrow> bit b k" for b :: byte
  by (simp add: bit_iff_and_drop_bit_eq_1)

lemma scanBits_eq:
  "scanBits b ks n = (case dropWhile (\<lambda>k. \<not> bit b k) ks of
     [] \<Rightarrow> Inr (n - int (length ks))
   | _ # ks' \<Rightarrow> Inl (n - int (length ks) + int (length ks') + 1))"
  by (induction ks arbitrary: n) (auto simp: low_bit simp del: dropWhile_eq_Nil_conv split: list.splits)

text \<open>A byte is zero bits throughout, or has a last one; trailing zeros of a string.\<close>

lemma dropWhile_map: "dropWhile P (map f xs) = map f (dropWhile (P \<circ> f) xs)"
  by (induction xs) auto

lemma stripZeros_append:
  "stripZeros (xs @ ys) = (if stripZeros ys = [] then stripZeros xs else xs @ stripZeros ys)"
  by (auto simp: stripZeros_def dropWhile_append)

lemma length_asn1Bits [simp]: "length (asn1Bits bs) = 8 * length bs"
  by (induction bs) (simp_all add: asn1Bits_def)

lemma stripZeros_byte:
  "stripZeros (map (bit b) (rev ks)) = rev (map (bit b) (dropWhile (\<lambda>k. \<not> bit b k) ks))"
  by (simp add: stripZeros_def rev_map dropWhile_map comp_def flip: rev_map)

lemma scanBytes_eq:
  "scanBytes (rev bs) (int (length bs) * 8) = int (length (stripZeros (asn1Bits bs)))"
proof (induction bs rule: rev_induct)
  case Nil
  then show ?case by (simp add: asn1Bits_def stripZeros_def)
next
  case (snoc b bs)
  have bits: "asn1Bits (bs @ [b]) = asn1Bits bs @ map (bit b) (rev [0..<8])" by (simp add: asn1Bits_def)
  show ?case
  proof (cases "dropWhile (\<lambda>k. \<not> bit b k) [0..<8]")
    case Nil
    then show ?thesis
      using snoc unfolding bits stripZeros_append stripZeros_byte by (simp add: scanBits_eq del: dropWhile_eq_Nil_conv upt_Suc)
  next
    case (Cons k ks)
    then show ?thesis
      unfolding bits stripZeros_append stripZeros_byte by (simp add: scanBits_eq del: upt_Suc)
  qed
qed

lemma asn1BitLength_strip: "asn1BitLength bs = int (length (stripZeros (asn1Bits bs)))"
  by (simp add: asn1BitLength_def scanBytes_eq)

lemma take_strip: "take (length (stripZeros xs)) xs = stripZeros xs"
proof -
  have "xs = stripZeros xs @ rev (takeWhile Not (rev xs))"
    unfolding stripZeros_def rev_append [symmetric] takeWhile_dropWhile_id by simp
  then show ?thesis by (metis append_eq_conv_conj)
qed

lemma asn1Bits_reverse: "asn1Bits [reverseBitsInAByte x] = map (bit x) [0..<8]"
  by (simp add: asn1Bits_def bit_reverse upt_rec eval_nat_numeral)

lemma asn1Bits_Cons: "asn1Bits (b # bs) = asn1Bits [b] @ asn1Bits bs"
  by (simp add: asn1Bits_def)

lemma reverse_zero: "reverseBitsInAByte x = 0 \<Longrightarrow> stripZeros (map (bit x) [0..<8]) = []"
  using asn1Bits_reverse [of x] by (simp add: asn1Bits_def stripZeros_def upt_rec)

lemma stripZeros_keyUsage:
  "stripZeros (asn1Bits (keyUsageBytes usage)) = stripZeros (map (bit usage) [0..<16])"
proof -
  let ?lo = "ucast usage :: byte" and ?hi = "ucast (signed_drop_bit 8 usage) :: byte"
  have "bit ?lo n = bit usage n" "bit ?hi n = bit usage (n + 8)" if "n < 8" for n
    using that by (simp_all add: bit_ucast_iff bit_signed_drop_bit_iff add.commute)
  then have lo: "map (bit ?lo) [0..<8] = map (bit usage) [0..<8]"
    and hi: "map (bit ?hi) [0..<8] = map (bit usage) [8..<16]"
    by (simp_all add: map_add_upt [symmetric, of 8 8, simplified])
  have "map (bit usage) [0..<16] = map (bit usage) [0..<8] @ map (bit usage) [8..<16]"
    by (simp add: upt_rec eval_nat_numeral)
  also have "stripZeros \<dots> = stripZeros (asn1Bits (keyUsageBytes usage))"
  proof (cases "reverseBitsInAByte ?hi = 0")
    case True
    then show ?thesis
      using reverse_zero [OF True] by (simp add: keyUsageBytes_def Let_def stripZeros_append asn1Bits_reverse lo hi)
  next
    case False
    then show ?thesis
      by (simp add: keyUsageBytes_def Let_def asn1Bits_Cons [of _ "[_]"] asn1Bits_reverse lo hi)
  qed
  finally show ?thesis by simp
qed

lemma findOID_mem: "findOID ps u = Some d \<Longrightarrow> (u, d) \<in> set ps"
  by (induction ps) (auto split: if_splits)

lemma findUsage_mem: "findUsage ps d = Some u \<Longrightarrow> (u, d) \<in> set ps"
  by (induction ps) (auto split: if_splits)

lemma mem_findOID: "distinct (map fst ps) \<Longrightarrow> (u, d) \<in> set ps \<Longrightarrow> findOID ps u = Some d"
  by (induction ps) force+

lemma mem_findUsage: "distinct (map snd ps) \<Longrightarrow> (u, d) \<in> set ps \<Longrightarrow> findUsage ps d = Some u"
  by (induction ps) force+

lemma distinct_usages: "distinct (map fst extKeyUsageOIDs)" "distinct (map snd extKeyUsageOIDs)"
  by (simp_all add: extKeyUsageOIDs_def)


lemma keyUsageBytes_take:
  "take (nat (asn1BitLength (keyUsageBytes usage))) (asn1Bits (keyUsageBytes usage)) = stripZeros (map (bit usage) [0..<16])"
  using take_strip [of "asn1Bits (keyUsageBytes usage)"]
  by (simp only: asn1BitLength_strip nat_int stripZeros_keyUsage)


section \<open>Properties\<close>

text \<open>
  The key usage extension of a request says just what the Go constant says.  The string that is
  marshalled is the list of the bits of the constant, lowest first, without its trailing zeros, which is
  how DER encodes a named bit list: reading as many bits as the length tells, in the order of
  ASN.1, gives that list.
\<close>

theorem keyUsage_named_bits:
  "asn1BitLength (keyUsageBytes usage) = int (length (stripZeros (map (bit usage) [0..<16])))
   \<and> take (nat (asn1BitLength (keyUsageBytes usage))) (asn1Bits (keyUsageBytes usage)) = stripZeros (map (bit usage) [0..<16])"
  by (rule conjI, simp only: asn1BitLength_strip stripZeros_keyUsage, rule keyUsageBytes_take)

text \<open>Reversing the bits of a byte twice gives the byte.\<close>

theorem reverseBitsInAByte_involution: "reverseBitsInAByte (reverseBitsInAByte b) = b"
  by (rule bit_word_eqI) (simp add: bit_reverse)

text \<open>
  Extended key usages and their object identifiers correspond one to one: each function undoes the
  other, and a number or an identifier that is not in the table is not found by either.
\<close>

theorem ExtKeyUsage_roundtrip: "OIDFromExtKeyUsage u = Some d \<longleftrightarrow> ExtKeyUsageFromOID d = Some u"
  unfolding OIDFromExtKeyUsage_def ExtKeyUsageFromOID_def
  using distinct_usages findOID_mem findUsage_mem mem_findOID mem_findUsage by metis

text \<open>The usages of the program's request: digital signature and key encipherment.\<close>

lemma keyUsage_request: "keyUsageBytes 5 = [0xA0]" "asn1BitLength [0xA0] = 3"
  by (simp_all add: keyUsageBytes_def reverseBitsInAByte_def Let_def asn1BitLength_def upt_rec)

end
