(* ===== verification/Serving_Certificate.thy ===== *)
theory Serving_Certificate
  imports Key_Usage Scheduler_Framework
begin

text \<open>
  The serving certificate of the virtual kubelet (\<open>pkg/vk/csr\<close>): a key, a certificate request for it, and
  the exchange with the API server that approves the request and waits for the certificate.  The API
  client and the cryptographic and encoding libraries (RSA keys, X.509 requests, ASN.1, PEM) are
  parameters; keys, addresses and encodings are byte strings.
\<close>

section \<open>The certificate request\<close>

type_synonym extension = "oid \<times> string"

record certificateRequest =
  cr_Version :: int
  SignatureAlgorithm :: int
  PublicKeyAlgorithm :: int
  CommonName :: string
  Organization :: "string list"
  ExtraExtensions :: "extension list"
  IPAddresses :: "string list"

text \<open>Constants of package \<open>x509\<close>.\<close>

definition x509_KeyUsageDigitalSignature :: "64 word" where "x509_KeyUsageDigitalSignature = 1"
definition x509_KeyUsageKeyEncipherment :: "64 word" where "x509_KeyUsageKeyEncipherment = 4"
definition x509_ExtKeyUsageServerAuth :: int where "x509_ExtKeyUsageServerAuth = 1"
definition x509_SHA256WithRSA :: int where "x509_SHA256WithRSA = 4"
definition x509_RSA :: int where "x509_RSA = 1"

record csrCondition =
  csrc_Type :: string
  csrc_Reason :: string
  csrc_Message :: string
  csrc_Status :: string

record csrObject = objmeta +
  csr_Usages :: "string list"
  csr_SignerName :: string
  csr_Request :: string
  csr_Conditions :: "csrCondition list"
  Certificate :: string

datatype csrCall = CSR_Create csrObject | CSR_UpdateApproval string csrObject | CSR_Get string

text \<open>The libraries, the environment and the client.\<close>

record csrEnv =
  rsa_GenerateKey :: "nat \<Rightarrow> error + string"
  asn1_MarshalBitString :: "byte list \<Rightarrow> int \<Rightarrow> error + string"
  asn1_MarshalOIDs :: "oid list \<Rightarrow> error + string"
  net_ParseIP :: "string \<Rightarrow> string"
  x509_CreateCertificateRequest :: "certificateRequest \<Rightarrow> string \<Rightarrow> error + string"
  x509_MarshalPKCS1PrivateKey :: "string \<Rightarrow> string"
  pem_EncodeToMemory :: "string \<Rightarrow> string \<Rightarrow> string"
  VKUBELET_POD_IP :: string
  VKUBELET_CSR_SIGNER_NAME :: string
  csr_create :: "csrCall list \<Rightarrow> csrObject \<Rightarrow> error + csrObject"
  csr_updateApproval :: "csrCall list \<Rightarrow> string \<Rightarrow> csrObject \<Rightarrow> error + csrObject"
  csr_get :: "csrCall list \<Rightarrow> string \<Rightarrow> error + csrObject"
  csr_Poll :: "(csrCall, string) poller"

text \<open>The usages: a bit set, and the object identifiers of the extended ones that have one.\<close>

definition csrKeyUsage :: "64 word" where
  "csrKeyUsage = 0 OR x509_KeyUsageKeyEncipherment OR x509_KeyUsageDigitalSignature"

fun extendedUsageOIDs :: "int list \<Rightarrow> oid list" where
  "extendedUsageOIDs [] = []"
| "extendedUsageOIDs (eku # ekus) =
     (case OIDFromExtKeyUsage eku of Some d \<Rightarrow> d # extendedUsageOIDs ekus | None \<Rightarrow> extendedUsageOIDs ekus)"

definition csrTemplate :: "string \<Rightarrow> extension \<Rightarrow> extension \<Rightarrow> certificateRequest" where
  "csrTemplate ip usage extendedUsage =
     \<lparr>cr_Version = 3, SignatureAlgorithm = x509_SHA256WithRSA, PublicKeyAlgorithm = x509_RSA,
      CommonName = ''system:node:admiralty'', Organization = [''system:nodes''],
      ExtraExtensions = [usage, extendedUsage], IPAddresses = [ip]\<rparr>"

text \<open>The key and the request in PEM; an error ends the process.\<close>

definition newRequest :: "csrEnv \<Rightarrow> (string \<times> string) option" where
  "newRequest k =
     (case rsa_GenerateKey k 2048 of Inl err \<Rightarrow> None | Inr key \<Rightarrow>
      (case BuildASN1KeyUsageRequest (asn1_MarshalBitString k) csrKeyUsage of Inl err \<Rightarrow> None | Inr usage \<Rightarrow>
      (case asn1_MarshalOIDs k (extendedUsageOIDs [x509_ExtKeyUsageServerAuth]) of Inl err \<Rightarrow> None | Inr v \<Rightarrow>
       let extendedUsage = (OIDExtensionExtendedKeyUsage, v)
       in case x509_CreateCertificateRequest k (csrTemplate (net_ParseIP k (VKUBELET_POD_IP k)) usage extendedUsage) key of
            Inl err \<Rightarrow> None
          | Inr csrDER \<Rightarrow> Some (key, pem_EncodeToMemory k ''CERTIFICATE REQUEST'' csrDER))))"

definition keyPEMof :: "csrEnv \<Rightarrow> string \<Rightarrow> string" where
  "keyPEMof k key = pem_EncodeToMemory k ''PRIVATE KEY'' (x509_MarshalPKCS1PrivateKey k key)"


section \<open>The exchange with the API server\<close>

definition newCSR :: "string \<Rightarrow> string \<Rightarrow> csrObject" where
  "newCSR signer csrPEM = objmeta.extend (zero_meta\<lparr>GenerateName := ''admiralty-''\<rparr>)
     \<lparr>csr_Usages = [''key encipherment'', ''digital signature'', ''server auth''], csr_SignerName = signer,
      csr_Request = csrPEM, csr_Conditions = [], Certificate = []\<rparr>"

definition approval :: csrCondition where
  "approval = \<lparr>csrc_Type = ''Approved'', csrc_Reason = ''self-approved'', csrc_Message = ''self-approved'',
     csrc_Status = ''True''\<rparr>"

definition csrPollTimeout :: nat where "csrPollTimeout = 30 * 10 ^ 9"

text \<open>The condition captures the certificate.\<close>

definition certificateCondition :: "csrEnv \<Rightarrow> string \<Rightarrow> (csrCall, string) condition" where
  "certificateCondition k csrName certPEM =
     bindM (call (\<lambda>h. csr_get k h csrName) (CSR_Get csrName)) (\<lambda>res.
       case res of
         Inl err \<Rightarrow> ret (False, certPEM)
       | Inr csr \<Rightarrow> if length (Certificate csr) > 0 then ret (True, Certificate csr) else ret (False, certPEM))"

definition GetCertificateFromKubernetesAPIServer :: "csrEnv \<Rightarrow> (csrCall, string \<times> string) io" where
  "GetCertificateFromKubernetesAPIServer k =
     bindM (must (newRequest k)) (\<lambda>(key, csrPEM).
     let csr = newCSR (VKUBELET_CSR_SIGNER_NAME k) csrPEM in
     bindM (call (\<lambda>h. csr_create k h csr) (CSR_Create csr)) (\<lambda>res.
     bindM (tryM res) (\<lambda>csr.
     let csr = csr\<lparr>csr_Conditions := csr_Conditions csr @ [approval]\<rparr> in
     bindM (call (\<lambda>h. csr_updateApproval k h (Name csr) csr) (CSR_UpdateApproval (Name csr) csr)) (\<lambda>res.
     bindM (tryM res) (\<lambda>csr.
     bindM (csr_Poll k csrPollTimeout (certificateCondition k (Name csr)) []) (\<lambda>certPEM.
     ret (certPEM, keyPEMof k key)))))))"


section \<open>Lemmas\<close>

lemma emits_certificateCondition: "emits (\<lambda>e. e = CSR_Get n) (certificateCondition k n c)"
  unfolding certificateCondition_def by (intro emits_intros) simp


text \<open>The usages of the request: the lowest three bits of a named bit list, and one object identifier.\<close>

lemma csrKeyUsage_bits: "stripZeros (map (bit csrKeyUsage) [0..<16]) = [True, False, True]"
  by code_simp


lemma newCSR_usages: "csr_Usages (newCSR signer pem) = [''key encipherment'', ''digital signature'', ''server auth'']"
  by (simp add: newCSR_def objmeta.defs)


section \<open>Properties\<close>

text \<open>
  The two descriptions of the usages agree: the bits of the key usage extension in the encoded
  request are exactly the usages among digital signature, non-repudiation and key encipherment that the Kubernetes
  object lists, in the order of the standard, its extended usages are those of a server exactly when
  the object lists server authentication, and the request is for the address of the pod.
\<close>

theorem request_usages_agree:
  assumes "newRequest k = Some (key, pem)"
  shows "\<exists>bits n v w der. asn1_MarshalBitString k bits n = Inr v
    \<and> take (nat n) (asn1Bits bits) = map (\<lambda>u. u \<in> set (csr_Usages (newCSR signer pem)))
        [''digital signature'', ''non repudiation'', ''key encipherment'']
    \<and> (\<exists>oids. asn1_MarshalOIDs k oids = Inr w
          \<and> (ExtKeyUsageFromOID (hd oids) = Some x509_ExtKeyUsageServerAuth
               \<longleftrightarrow> ''server auth'' \<in> set (csr_Usages (newCSR signer pem))) \<and> length oids = 1)
    \<and> x509_CreateCertificateRequest k
        (csrTemplate (net_ParseIP k (VKUBELET_POD_IP k)) (OIDExtensionKeyUsage, v) (OIDExtensionExtendedKeyUsage, w)) key = Inr der
    \<and> pem = pem_EncodeToMemory k ''CERTIFICATE REQUEST'' der"
proof -
  obtain v w der where r: "asn1_MarshalBitString k (keyUsageBytes csrKeyUsage) (asn1BitLength (keyUsageBytes csrKeyUsage)) = Inr v"
    "asn1_MarshalOIDs k (extendedUsageOIDs [x509_ExtKeyUsageServerAuth]) = Inr w"
    "x509_CreateCertificateRequest k
       (csrTemplate (net_ParseIP k (VKUBELET_POD_IP k)) (OIDExtensionKeyUsage, v) (OIDExtensionExtendedKeyUsage, w)) key = Inr der"
    "pem = pem_EncodeToMemory k ''CERTIFICATE REQUEST'' der"
    using assms by (auto simp: newRequest_def BuildASN1KeyUsageRequest_def Let_def split: sum.splits)
  have bits: "take (nat (asn1BitLength (keyUsageBytes csrKeyUsage))) (asn1Bits (keyUsageBytes csrKeyUsage)) =
      map (\<lambda>u. u \<in> set (csr_Usages (newCSR signer pem))) [''digital signature'', ''non repudiation'', ''key encipherment'']"
    unfolding keyUsageBytes_take csrKeyUsage_bits by (simp add: newCSR_usages)
  have oids: "ExtKeyUsageFromOID (hd (extendedUsageOIDs [x509_ExtKeyUsageServerAuth])) = Some x509_ExtKeyUsageServerAuth
      \<longleftrightarrow> ''server auth'' \<in> set (csr_Usages (newCSR signer pem))"
    and one: "length (extendedUsageOIDs [x509_ExtKeyUsageServerAuth]) = 1"
    by (simp_all add: OIDFromExtKeyUsage_def ExtKeyUsageFromOID_def extKeyUsageOIDs_def x509_ExtKeyUsageServerAuth_def newCSR_usages)
  show ?thesis by (intro exI conjI) (rule r(1), rule bits, rule r(2), rule oids, rule one, rule r(3), rule r(4))
qed

theorem request_usages_agree_witness:
  "\<exists>k bits n. newRequest k = Some (''key'', ''CERTIFICATE REQUESTder'')
     \<and> take (nat n) (asn1Bits bits) = [True, False, True] \<and> asn1_MarshalBitString k bits n = Inr ''bits''"
proof -
  define k where "k = \<lparr>rsa_GenerateKey = (\<lambda>_. Inr ''key''), asn1_MarshalBitString = (\<lambda>_ _. Inr ''bits''),
     asn1_MarshalOIDs = (\<lambda>_. Inr ''oids''), net_ParseIP = (\<lambda>s. s), x509_CreateCertificateRequest = (\<lambda>_ _. Inr ''der''),
     x509_MarshalPKCS1PrivateKey = (\<lambda>_. ''pem''), pem_EncodeToMemory = (\<lambda>t b. t @ b),
     VKUBELET_POD_IP = ''10.0.0.1'', VKUBELET_CSR_SIGNER_NAME = ''signer'',
     csr_create = (\<lambda>_ o1. Inr o1), csr_updateApproval = (\<lambda>_ _ c. Inr c),
     csr_get = (\<lambda>_ _. Inl (Errorf ''not found'')), csr_Poll = pollTicks\<rparr>"
  have r: "newRequest k = Some (''key'', ''CERTIFICATE REQUESTder'')"
    by (simp add: newRequest_def k_def BuildASN1KeyUsageRequest_def)
  obtain bits n v where "take (nat n) (asn1Bits bits) =
      map (\<lambda>u. u \<in> set (csr_Usages (newCSR ''signer'' ''CERTIFICATE REQUESTder'')))
        [''digital signature'', ''non repudiation'', ''key encipherment'']"
    using request_usages_agree [OF r, of "''signer''"] by blast
  with r show ?thesis by (intro exI [of _ k] exI [of _ bits] exI [of _ n]) (simp add: newCSR_usages k_def)
qed

text \<open>
  Property C37.  A certificate is returned only after the request was created with the configured
  signer and approved: the object that the API server created is sent back under its name with the
  approval added and nothing else changed, and from then on only the object that the server returned
  for the approval is read, by its name.  The certificate is the nonempty one that the last of these
  reads gave, and the key is that of the request.  When the poll ends without a certificate, so does
  the function.
\<close>

theorem certificate_approved:
  assumes "polls (csr_Poll k)" "GetCertificateFromKubernetesAPIServer k [] = (Ret (cert, key), h)"
  shows "\<exists>kk pem csr csr' n o'. newRequest k = Some (kk, pem) \<and> key = keyPEMof k kk
    \<and> csr_create k [] (newCSR (VKUBELET_CSR_SIGNER_NAME k) pem) = Inr csr
    \<and> csr_updateApproval k [CSR_Create (newCSR (VKUBELET_CSR_SIGNER_NAME k) pem)] (Name csr)
         (csr\<lparr>csr_Conditions := csr_Conditions csr @ [approval]\<rparr>) = Inr csr'
    \<and> h = [CSR_Create (newCSR (VKUBELET_CSR_SIGNER_NAME k) pem),
           CSR_UpdateApproval (Name csr) (csr\<lparr>csr_Conditions := csr_Conditions csr @ [approval]\<rparr>)]
          @ replicate n (CSR_Get (Name csr')) @ [CSR_Get (Name csr')]
    \<and> csr_get k (butlast h) (Name csr') = Inr o' \<and> Certificate o' = cert \<and> cert \<noteq> []"
proof -
  obtain kk pem where n: "newRequest k = Some (kk, pem)"
    using assms(2) by (auto simp: GetCertificateFromKubernetesAPIServer_def io_simps must_def split: option.splits)
  let ?c = "CSR_Create (newCSR (VKUBELET_CSR_SIGNER_NAME k) pem)"
  obtain csr where c: "csr_create k [] (newCSR (VKUBELET_CSR_SIGNER_NAME k) pem) = Inr csr"
    using assms(2) by (auto simp: GetCertificateFromKubernetesAPIServer_def io_simps n Let_def tryM_def split: sum.splits)
  let ?o = "csr\<lparr>csr_Conditions := csr_Conditions csr @ [approval]\<rparr>"
  obtain csr' where u: "csr_updateApproval k [?c] (Name csr) ?o = Inr csr'"
    using assms(2) by (auto simp: GetCertificateFromKubernetesAPIServer_def io_simps n c Let_def tryM_def split: sum.splits)
  have p: "csr_Poll k csrPollTimeout (certificateCondition k (Name csr')) [] [?c, CSR_UpdateApproval (Name csr) ?o] = (Ret cert, h)"
    and key: "key = keyPEMof k kk"
    using assms(2) by (auto simp: GetCertificateFromKubernetesAPIServer_def io_simps n c u Let_def
        split: prod.splits outcome.splits)
  obtain s1 h1 where "certificateCondition k (Name csr') s1 h1 = (Ret (True, cert), h)"
    using poll_done [OF assms(1) p] by blast
  then obtain o' where get: "csr_get k h1 (Name csr') = Inr o'" "Certificate o' = cert" "cert \<noteq> []"
    and h: "h = h1 @ [CSR_Get (Name csr')]"
    by (auto simp: certificateCondition_def io_simps split: sum.splits if_splits)
  have "emits (\<lambda>e. e = CSR_Get (Name csr')) (csr_Poll k csrPollTimeout (certificateCondition k (Name csr')) [])"
    by (rule poll_emits [OF assms(1) emits_certificateCondition])
  then obtain reads where r: "h = [?c, CSR_UpdateApproval (Name csr) ?o] @ reads" "\<forall>e\<in>set reads. e = CSR_Get (Name csr')"
    using p unfolding emits_def list_all_iff by (metis snd_conv)
  from h r(1) have "reads \<noteq> []" by auto
  with r have reads: "h = [?c, CSR_UpdateApproval (Name csr) ?o]
      @ replicate (length reads - 1) (CSR_Get (Name csr')) @ [CSR_Get (Name csr')]"
    by (cases reads rule: rev_cases) (simp_all add: replicate_length_same)
  have "csr_get k (butlast h) (Name csr') = Inr o'" using get h by simp
  then show ?thesis by (intro exI conjI) (rule n, rule key, rule c, rule u, rule reads, assumption, rule get, rule get)
qed

theorem certificate_approved_witness:
  "\<exists>k csr (csr' :: csrObject) o'. GetCertificateFromKubernetesAPIServer k [] =
       (Ret (''cert'', ''pem''), [CSR_Create (newCSR ''signer'' ''req''), CSR_UpdateApproval (Name csr) csr, CSR_Get ''csr-1''])
     \<and> approval \<in> set (csr_Conditions csr)
     \<and> csr_get k [CSR_Create (newCSR ''signer'' ''req''), CSR_UpdateApproval (Name csr) csr] (Name csr') = Inr o'
     \<and> Certificate o' = ''cert''"
proof -
  define o1 where "o1 = newCSR ''signer'' ''req''\<lparr>Name := ''csr-1''\<rparr>"
  define o2 where "o2 = o1\<lparr>csr_Conditions := csr_Conditions o1 @ [approval]\<rparr>"
  define k where "k = \<lparr>rsa_GenerateKey = (\<lambda>_. Inr ''key''), asn1_MarshalBitString = (\<lambda>_ _. Inr ''bits''),
     asn1_MarshalOIDs = (\<lambda>_. Inr ''oids''), net_ParseIP = (\<lambda>s. s), x509_CreateCertificateRequest = (\<lambda>_ _. Inr ''req''),
     x509_MarshalPKCS1PrivateKey = (\<lambda>_. ''pem''), pem_EncodeToMemory = (\<lambda>_ b. b),
     VKUBELET_POD_IP = ''10.0.0.1'', VKUBELET_CSR_SIGNER_NAME = ''signer'',
     csr_create = (\<lambda>_ _. Inr o1), csr_updateApproval = (\<lambda>_ _ c. Inr c),
     csr_get = (\<lambda>_ _. Inr (o2\<lparr>Certificate := ''cert''\<rparr>)), csr_Poll = pollTicks\<rparr>"
  have r: "newRequest k = Some (''key'', ''req'')" "keyPEMof k ''key'' = ''pem''"
    by (simp_all add: newRequest_def keyPEMof_def k_def BuildASN1KeyUsageRequest_def)
  have n: "Name o1 = ''csr-1''" "Name o2 = ''csr-1''" by (simp_all add: o2_def o1_def)
  have c: "certificateCondition k ''csr-1'' [] h = (Ret (True, ''cert''), h @ [CSR_Get ''csr-1''])" for h
    by (simp add: certificateCondition_def k_def io_simps)
  have run: "GetCertificateFromKubernetesAPIServer k [] =
      (Ret (''cert'', ''pem''), [CSR_Create (newCSR ''signer'' ''req''), CSR_UpdateApproval (Name o2) o2, CSR_Get ''csr-1''])"
    unfolding GetCertificateFromKubernetesAPIServer_def
    unfolding r(1) io_values bindM_laws prod.case
    by (simp add: k_def io_simps n o2_def [symmetric]) (simp add: k_def [symmetric] r pollTicks_at_once [where cond = "certificateCondition k ''csr-1''", OF c] n io_apply)
  have "polls (csr_Poll k)" by (simp add: k_def)
  from certificate_approved [OF this run]
  obtain csr' :: csrObject and o' where
    get: "csr_get k (butlast [CSR_Create (newCSR ''signer'' ''req''), CSR_UpdateApproval (Name o2) o2,
      CSR_Get ''csr-1'']) (Name csr') = Inr o'" and cert: "Certificate o' = ''cert''"
    by blast
  from get have "csr_get k [CSR_Create (newCSR ''signer'' ''req''), CSR_UpdateApproval (Name o2) o2] (Name csr') = Inr o'"
    by simp
  with run cert show ?thesis
    by (intro exI [of _ k] exI [of _ o2] exI [of _ csr'] exI [of _ o'] conjI) (simp_all add: o2_def)
qed

end
