(* ===== verification/Finalizer_Remover.thy ===== *)
theory Finalizer_Remover
  imports Proxypod_Webhook Follow_ConfigMap Follow_Secret Follow_Service Follow_Ingress Cleanup_Controller
begin

text \<open>
  The command that takes all finalizers of the program off the objects of a cluster before the program is
  uninstalled (\<open>cmd/remove-finalizers/main.go\<close>).  It finds the objects by a label, so the label must be
  on every object that carries such a finalizer: the second half of the theory shows that the
  follow controllers and the webhook see to that.  The client is a parameter.
\<close>

section \<open>The command\<close>

datatype removerCall =
    RM_ListPods string
  | RM_ListServices string
  | RM_ListConfigMaps string
  | RM_ListSecrets string
  | RM_ListIngresses string
  | RM_Patch cleanupCall

record patchAll =
  rm_pods :: "removerCall list \<Rightarrow> string \<Rightarrow> error + pod list"
  rm_services :: "removerCall list \<Rightarrow> string \<Rightarrow> error + service list"
  rm_configMaps :: "removerCall list \<Rightarrow> string \<Rightarrow> error + configMap list"
  rm_secrets :: "removerCall list \<Rightarrow> string \<Rightarrow> error + secret list"
  rm_ingresses :: "removerCall list \<Rightarrow> string \<Rightarrow> error + ingress list"
  rm_patch :: "removerCall list \<Rightarrow> cleanupCall \<Rightarrow> error + unit"

definition patch_remover :: "string list \<Rightarrow> string" where
  "patch_remover finalizers = ''{\"metadata\":{\"$deleteFromPrimitiveList/finalizers\":[\"''
     @ Join ''\",\"'' finalizers @ ''\"]}}''"

fun programFinalizers :: "string list \<Rightarrow> string list" where
  "programFinalizers [] = []"
| "programFinalizers (f # fs) = (if HasPrefix f KeyPrefix then f # programFinalizers fs else programFinalizers fs)"

text \<open>The body that the five loops share; an error of the API panics.\<close>

fun patchItems ::
  "patchAll \<Rightarrow> (string \<Rightarrow> string \<Rightarrow> string \<Rightarrow> cleanupCall) \<Rightarrow> 'a objmeta_scheme list \<Rightarrow> (removerCall, unit) io" where
  "patchItems p mk [] = ret ()"
| "patchItems p mk (obj # items) =
     (let finalizers = programFinalizers (Finalizers obj);
          c = mk (Namespace obj) (Name obj) (patch_remover finalizers)
      in bindM (call (\<lambda>h. rm_patch p h c) (RM_Patch c)) (\<lambda>res.
         case res of Inl err \<Rightarrow> panic | Inr _ \<Rightarrow> patchItems p mk items))"

definition listAndPatch ::
  "patchAll \<Rightarrow> removerCall \<Rightarrow> (removerCall list \<Rightarrow> error + 'a objmeta_scheme list)
     \<Rightarrow> (string \<Rightarrow> string \<Rightarrow> string \<Rightarrow> cleanupCall) \<Rightarrow> (removerCall, unit) io" where
  "listAndPatch p c lst mk =
     bindM (call lst c) (\<lambda>res. case res of Inl err \<Rightarrow> panic | Inr l \<Rightarrow> patchItems p mk l)"

definition patchPods :: "patchAll \<Rightarrow> (removerCall, unit) io" where
  "patchPods p = listAndPatch p (RM_ListPods LabelKeyHasFinalizer) (\<lambda>h. rm_pods p h LabelKeyHasFinalizer) PatchPod"

definition patchServices :: "patchAll \<Rightarrow> (removerCall, unit) io" where
  "patchServices p =
     listAndPatch p (RM_ListServices LabelKeyHasFinalizer) (\<lambda>h. rm_services p h LabelKeyHasFinalizer) PatchService"

definition patchConfigMaps :: "patchAll \<Rightarrow> (removerCall, unit) io" where
  "patchConfigMaps p =
     listAndPatch p (RM_ListConfigMaps LabelKeyHasFinalizer) (\<lambda>h. rm_configMaps p h LabelKeyHasFinalizer) PatchConfigMap"

definition patchSecrets :: "patchAll \<Rightarrow> (removerCall, unit) io" where
  "patchSecrets p =
     listAndPatch p (RM_ListSecrets LabelKeyHasFinalizer) (\<lambda>h. rm_secrets p h LabelKeyHasFinalizer) PatchSecret"

definition patchIngresses :: "patchAll \<Rightarrow> (removerCall, unit) io" where
  "patchIngresses p =
     listAndPatch p (RM_ListIngresses LabelKeyHasFinalizer) (\<lambda>h. rm_ingresses p h LabelKeyHasFinalizer) PatchIngress"

definition main_removeFinalizers :: "patchAll \<Rightarrow> (removerCall, unit) io" where
  "main_removeFinalizers p =
     bindM (patchPods p) (\<lambda>_. bindM (patchServices p) (\<lambda>_. bindM (patchConfigMaps p) (\<lambda>_.
       bindM (patchSecrets p) (\<lambda>_. patchIngresses p))))"


section \<open>Lemmas on the loops\<close>

lemma programFinalizers_filter: "programFinalizers fs = filter (\<lambda>f. HasPrefix f KeyPrefix) fs"
  by (induction fs) auto

text \<open>The patch of an object.\<close>

definition clearing :: "(string \<Rightarrow> string \<Rightarrow> string \<Rightarrow> cleanupCall) \<Rightarrow> 'a objmeta_scheme \<Rightarrow> removerCall" where
  "clearing mk obj =
     RM_Patch (mk (Namespace obj) (Name obj) (patch_remover (filter (\<lambda>f. HasPrefix f KeyPrefix) (Finalizers obj))))"

text \<open>A loop makes the patches in order, up to the first that fails, and panics if one does.\<close>

lemma patchItems_run:
  "\<exists>k\<le>length items. snd (patchItems p mk items h) = h @ map (clearing mk) (take k items)
     \<and> (fst (patchItems p mk items h) = Ret () \<and> k = length items \<or> fst (patchItems p mk items h) = Panic)"
proof (induction items arbitrary: h)
  case (Cons obj items)
  show ?case
  proof (cases "rm_patch p h (mk (Namespace obj) (Name obj) (patch_remover (programFinalizers (Finalizers obj))))")
    case (Inl err)
    then show ?thesis
      by (intro exI [of _ 1]) (simp add: io_simps Let_def clearing_def programFinalizers_filter)
  next
    case (Inr u)
    obtain k where "k \<le> length items"
      "snd (patchItems p mk items (h @ [clearing mk obj])) = (h @ [clearing mk obj]) @ map (clearing mk) (take k items)"
      "fst (patchItems p mk items (h @ [clearing mk obj])) = Ret () \<and> k = length items
        \<or> fst (patchItems p mk items (h @ [clearing mk obj])) = Panic"
      using Cons.IH [of "h @ [clearing mk obj]"] by blast
    with Inr show ?thesis
      by (intro exI [of _ "Suc k"]) (auto simp: io_simps Let_def clearing_def programFinalizers_filter)
  qed
qed (simp add: io_apply)

lemma listAndPatch_run:
  "case lst h of
     Inl err \<Rightarrow> listAndPatch p c lst mk h = (Panic, h @ [c])
   | Inr l \<Rightarrow> \<exists>k\<le>length l. snd (listAndPatch p c lst mk h) = h @ c # map (clearing mk) (take k l)
       \<and> (fst (listAndPatch p c lst mk h) = Ret () \<and> k = length l \<or> fst (listAndPatch p c lst mk h) = Panic)"
proof (cases "lst h")
  case (Inr l)
  then show ?thesis
    using patchItems_run [of l p mk "h @ [c]"] by (simp add: listAndPatch_def io_simps)
qed (simp add: listAndPatch_def io_simps)

text \<open>A part that returns has patched every object it was given.\<close>

lemma listAndPatch_Ret:
  assumes "listAndPatch p c lst mk h = (Ret u, h')"
  shows "\<exists>l. lst h = Inr l \<and> h' = h @ c # map (clearing mk) l"
  using assms listAndPatch_run [where lst = lst and h = h and p = p and c = c and mk = mk] by (auto split: sum.splits)

lemma listAndPatch_panics: "fst (listAndPatch p c lst mk h) \<noteq> Fail err"
  using listAndPatch_run [where lst = lst and h = h and p = p and c = c and mk = mk] by (auto split: sum.splits)

lemma bindM_not_Fail: "(\<And>h. fst (m h) \<noteq> Fail err) \<Longrightarrow> (\<And>x h. fst (f x h) \<noteq> Fail err) \<Longrightarrow> fst (bindM m f h) \<noteq> Fail err"
  unfolding bindM_def by (auto split: prod.split outcome.split) (metis fst_conv)+


section \<open>Objects with a finalizer carry the label\<close>

definition findable :: "'a objmeta_scheme \<Rightarrow> bool" where
  "findable obj \<longleftrightarrow> ((\<exists>f\<in>set (Finalizers obj). HasPrefix f KeyPrefix) \<longrightarrow> mlookup (Labels obj) LabelKeyHasFinalizer \<noteq> None)"

lemma labelledAs_findable: "labelledAs u obj \<Longrightarrow> findable obj \<Longrightarrow> findable u"
  by (auto simp: labelledAs_def findable_def)

text \<open>A local update that keeps a findable object findable.\<close>

definition keepsFindable ::
  "('a objmeta_scheme, 'z) followEnv_scheme \<Rightarrow> string \<Rightarrow> string \<Rightarrow> 'a objmeta_scheme followCall \<Rightarrow> bool" where
  "keepsFindable r ns name c \<longleftrightarrow>
     (case c of LocalUpdate _ u \<Rightarrow> \<exists>obj. lister_Get r ns name = Inr obj \<and> (findable obj \<longrightarrow> findable u) | _ \<Rightarrow> True)"

lemma labelsFinalizers_findable: "labelsFinalizers r ns name c \<Longrightarrow> keepsFindable r ns name c"
  by (cases c) (auto simp: labelsFinalizers_def keepsFindable_def intro: labelledAs_findable)

lemma guarantee_findable:
  assumes "case SplitKey r key of None \<Rightarrow> handle = panic | Some (ns, n) \<Rightarrow> emits (labelsFinalizers r ns n) handle"
  shows "case SplitKey r key of None \<Rightarrow> handle = panic | Some (ns, n) \<Rightarrow> emits (keepsFindable r ns n) handle"
  using assms by (auto split: option.splits intro: emits_mono labelsFinalizers_findable)


section \<open>Properties\<close>

text \<open>
  When the command ends normally, it has sent one patch for every pod, service, config
  map, secret and ingress that the API server listed under the label, in that order, and each
  patch asks for the removal of exactly the finalizers of that object that have the program's prefix.  The
  command never ends with an error value: it panics at the first call that fails.
\<close>

theorem remover_patches_all:
  "(case main_removeFinalizers p h of
      (Ret u, h') \<Rightarrow>
        (\<exists>h1 h2 h3 h4 pods svcs cms secs ings.
           rm_pods p h LabelKeyHasFinalizer = Inr pods \<and> rm_services p h1 LabelKeyHasFinalizer = Inr svcs
         \<and> rm_configMaps p h2 LabelKeyHasFinalizer = Inr cms \<and> rm_secrets p h3 LabelKeyHasFinalizer = Inr secs
         \<and> rm_ingresses p h4 LabelKeyHasFinalizer = Inr ings
         \<and> h' = h @ RM_ListPods LabelKeyHasFinalizer # map (clearing PatchPod) pods
             @ RM_ListServices LabelKeyHasFinalizer # map (clearing PatchService) svcs
             @ RM_ListConfigMaps LabelKeyHasFinalizer # map (clearing PatchConfigMap) cms
             @ RM_ListSecrets LabelKeyHasFinalizer # map (clearing PatchSecret) secs
             @ RM_ListIngresses LabelKeyHasFinalizer # map (clearing PatchIngress) ings)
    | (Fail err, h') \<Rightarrow> False
    | (Panic, h') \<Rightarrow> True)"
proof (cases "main_removeFinalizers p h")
  case (Pair r h')
  show ?thesis
  proof (cases r)
    case (Ret u)
    then obtain h1 h2 h3 h4 where
      "patchPods p h = (Ret (), h1)" "patchServices p h1 = (Ret (), h2)" "patchConfigMaps p h2 = (Ret (), h3)"
      "patchSecrets p h3 = (Ret (), h4)" "patchIngresses p h4 = (Ret (), h')"
      using Pair by (auto simp: main_removeFinalizers_def bindM_Ret)
    then have "\<exists>pods. rm_pods p h LabelKeyHasFinalizer = Inr pods
          \<and> h1 = h @ RM_ListPods LabelKeyHasFinalizer # map (clearing PatchPod) pods"
      "\<exists>svcs. rm_services p h1 LabelKeyHasFinalizer = Inr svcs
          \<and> h2 = h1 @ RM_ListServices LabelKeyHasFinalizer # map (clearing PatchService) svcs"
      "\<exists>cms. rm_configMaps p h2 LabelKeyHasFinalizer = Inr cms
          \<and> h3 = h2 @ RM_ListConfigMaps LabelKeyHasFinalizer # map (clearing PatchConfigMap) cms"
      "\<exists>secs. rm_secrets p h3 LabelKeyHasFinalizer = Inr secs
          \<and> h4 = h3 @ RM_ListSecrets LabelKeyHasFinalizer # map (clearing PatchSecret) secs"
      "\<exists>ings. rm_ingresses p h4 LabelKeyHasFinalizer = Inr ings
          \<and> h' = h4 @ RM_ListIngresses LabelKeyHasFinalizer # map (clearing PatchIngress) ings"
      unfolding patchPods_def patchServices_def patchConfigMaps_def patchSecrets_def patchIngresses_def
      by (blast dest: listAndPatch_Ret)+
    then obtain pods svcs cms secs ings where got:
      "rm_pods p h LabelKeyHasFinalizer = Inr pods" "rm_services p h1 LabelKeyHasFinalizer = Inr svcs"
      "rm_configMaps p h2 LabelKeyHasFinalizer = Inr cms" "rm_secrets p h3 LabelKeyHasFinalizer = Inr secs"
      "rm_ingresses p h4 LabelKeyHasFinalizer = Inr ings"
      "h1 = h @ RM_ListPods LabelKeyHasFinalizer # map (clearing PatchPod) pods"
      "h2 = h1 @ RM_ListServices LabelKeyHasFinalizer # map (clearing PatchService) svcs"
      "h3 = h2 @ RM_ListConfigMaps LabelKeyHasFinalizer # map (clearing PatchConfigMap) cms"
      "h4 = h3 @ RM_ListSecrets LabelKeyHasFinalizer # map (clearing PatchSecret) secs"
      "h' = h4 @ RM_ListIngresses LabelKeyHasFinalizer # map (clearing PatchIngress) ings"
      by (elim exE conjE)
    show ?thesis
      unfolding Pair Ret prod.case outcome.case
      by (intro exI conjI) (rule got(1), rule got(2), rule got(3), rule got(4), rule got(5), simp add: got(6-10))
  next
    case (Fail err)
    moreover have "fst (main_removeFinalizers p h) \<noteq> Fail err"
      unfolding main_removeFinalizers_def patchPods_def patchServices_def patchConfigMaps_def patchSecrets_def
        patchIngresses_def
      by (intro bindM_not_Fail listAndPatch_panics)
    ultimately show ?thesis using Pair by simp
  qed (use Pair in simp)
qed

text \<open>
  Property C34.  No object with a finalizer of the program escapes the command: the webhook labels every
  pod it gives finalizers to, and each follow controller writes a local object only so that, if it
  could be found by the label before, it still can, whatever the API servers answer.
\<close>

theorem finalizers_findable:
  "(case Default yaml m (PodObject p) of Inr (PodObject q) \<Rightarrow> q = p \<or> findable q | _ \<Rightarrow> True)
   \<and> (case SplitKey rc key of None \<Rightarrow> Handle_configMap rc key = panic
      | Some (ns, n) \<Rightarrow> emits (keepsFindable rc ns n) (Handle_configMap rc key))
   \<and> (case SplitKey rs key of None \<Rightarrow> Handle_secret rs key = panic
      | Some (ns, n) \<Rightarrow> emits (keepsFindable rs ns n) (Handle_secret rs key))
   \<and> (case SplitKey rv key of None \<Rightarrow> Handle_service rv key = panic
      | Some (ns, n) \<Rightarrow> emits (keepsFindable rv ns n) (Handle_service rv key))
   \<and> (case SplitKey ri key of None \<Rightarrow> Handle_ingress ri key = panic
      | Some (ns, n) \<Rightarrow> emits (keepsFindable ri ns n) (Handle_ingress ri key))"
proof (intro conjI)
  show "case Default yaml m (PodObject p) of Inr (PodObject q) \<Rightarrow> q = p \<or> findable q | _ \<Rightarrow> True"
  proof (cases "mlookup (Annotations p) AnnotationKeyElect")
    case None
    then show ?thesis by (simp add: Default_def)
  next
    case (Some e)
    then show ?thesis
      using Default_elected [of yaml m p _ e] by (fastforce simp: findable_def split: sum.splits runtimeObject.splits)
  qed
qed (rule guarantee_findable, rule cm.handle_guarantees sec.handle_guarantees svc.handle_guarantees ing.handle_guarantees)+

text \<open>
  A patch leaves nothing of the program: an object less the finalizers that the patch names has
  exactly its other finalizers.
\<close>

theorem clearing_leaves_others:
  "filter (\<lambda>f. f \<notin> set (programFinalizers fs)) fs = filter (\<lambda>f. \<not> HasPrefix f KeyPrefix) fs"
  by (auto simp: programFinalizers_filter intro!: filter_cong)

end
