(* ===== verification/Virtual_Kubelet.thy ===== *)
theory Virtual_Kubelet
  imports Scheduler_Framework Pod_Models Agent_Config
begin

text \<open>
  The program's side of the virtual kubelet: the virtual node of a target (\<open>pkg/vk/node\<close>), and logs and
  commands of the delegate of a proxy pod (\<open>pkg/vk/http\<close>).  The virtual kubelet library, the API clients
  and the streams are parameters; a client and a rest configuration are opaque.
\<close>

section \<open>Virtual nodes (node.go, provider.go, run.go)\<close>

record taint =
  taint_Key :: string
  taint_Value :: string
  taint_Effect :: string

record nodeCondition =
  nc_Type :: string
  nc_Status :: string
  nc_LastHeartbeatTime :: nat
  nc_LastTransitionTime :: nat

record virtualNode = objmeta +
  vn_ResourceVersion :: string
  Taints :: "taint list"
  vn_Conditions :: "nodeCondition list"
  Addresses :: "(string \<times> string) list"

text \<open>The two readings of the clock and the address in the environment are arguments.\<close>

definition NodeFromOpts :: "nat \<Rightarrow> nat \<Rightarrow> string \<Rightarrow> agentTarget \<Rightarrow> virtualNode" where
  "NodeFromOpts now1 now2 podIP t = objmeta.extend
     (zero_meta\<lparr>Name := VirtualNodeName t, Labels := Some (BaseLabels (t_Namespace t) (t_Name t))\<rparr>)
     \<lparr>vn_ResourceVersion = [],
      Taints = [\<lparr>taint_Key = LabelAndTaintKeyVirtualKubeletProvider, taint_Value = VirtualKubeletProviderName,
                 taint_Effect = ''NoSchedule''\<rparr>],
      vn_Conditions = [\<lparr>nc_Type = ''Ready'', nc_Status = ''True'', nc_LastHeartbeatTime = now1,
                        nc_LastTransitionTime = now2\<rparr>],
      Addresses = [(''InternalIP'', podIP)]\<rparr>"

text \<open>The callback of the virtual kubelet's node controller is opaque; calling it with a node is an event.\<close>

record 'c nodeProvider =
  cb :: "'c option"

definition NotifyNodeStatus :: "'c nodeProvider \<Rightarrow> 'c \<Rightarrow> 'c nodeProvider" where
  "NotifyNodeStatus p f = p\<lparr>cb := Some f\<rparr>"

definition UpdateNodeStatus :: "'c nodeProvider \<Rightarrow> node \<Rightarrow> ('c \<times> node, unit) io" where
  "UpdateNodeStatus p n = (case cb p of None \<Rightarrow> ret () | Some f \<Rightarrow> call (\<lambda>_. ()) (f, n))"

definition Ping :: "error option \<Rightarrow> error option" where
  "Ping ctxErr = ctxErr"

text \<open>
  \<open>Run\<close>: the node controller gets the node, and a handler for errors of status updates, which creates
  the node again when it was not found.  A controller that cannot be made ends the process.
\<close>

definition statusUpdateErrorHandler ::
  "(virtualNode list \<Rightarrow> virtualNode \<Rightarrow> error + virtualNode) \<Rightarrow> virtualNode \<Rightarrow> error \<Rightarrow> (virtualNode, unit) io" where
  "statusUpdateErrorHandler create n err =
     (if \<not> IsNotFound err then fail err
      else let newNode = n\<lparr>vn_ResourceVersion := []\<rparr>
           in bindM (call (\<lambda>h. create h newNode) newNode) (\<lambda>res. bindM (tryM res) (\<lambda>_. ret ())))"

definition Run_node ::
  "(virtualNode \<Rightarrow> (error \<Rightarrow> (virtualNode, unit) io) \<Rightarrow> error + (virtualNode, unit) io)
     \<Rightarrow> (virtualNode list \<Rightarrow> virtualNode \<Rightarrow> error + virtualNode) \<Rightarrow> nat \<Rightarrow> nat \<Rightarrow> string \<Rightarrow> agentTarget
     \<Rightarrow> (virtualNode, unit) io" where
  "Run_node newNodeController create now1 now2 podIP t =
     (let n = NodeFromOpts now1 now2 podIP t in
      case newNodeController n (statusUpdateErrorHandler create n) of
        Inl err \<Rightarrow> panic
      | Inr nodeRunner \<Rightarrow> nodeRunner)"


section \<open>Logs and commands of a delegate (http/provider.go)\<close>

text \<open>\<open>errors.Wrap\<close> adds a message and keeps what the error is.\<close>

definition Wrap :: "error \<Rightarrow> string \<Rightarrow> error" where
  "Wrap err msg = err\<lparr>Error := msg @ '': '' @ Error err\<rparr>"

text \<open>\<open>SinceTime\<close> is the zero time when it is 0.\<close>

record containerLogOpts =
  opt_Timestamps :: bool
  opt_Follow :: bool
  opt_Previous :: bool
  opt_Tail :: int
  opt_LimitBytes :: int
  opt_SinceSeconds :: int
  opt_SinceTime :: nat

record podLogOptions =
  plo_Container :: string
  plo_Timestamps :: bool
  plo_Follow :: bool
  plo_Previous :: bool
  TailLines :: "int option"
  LimitBytes :: "int option"
  SinceSeconds :: "int option"
  SinceTime :: "nat option"

record attachIO =
  at_Stdin :: bool
  at_Stdout :: bool
  at_Stderr :: bool
  at_TTY :: bool

record podExecOptions =
  ex_Container :: string
  ex_Command :: "string list"
  ex_Stdin :: bool
  ex_Stdout :: bool
  ex_Stderr :: bool
  ex_TTY :: bool

datatype logCall =
    LE_GetPod string string
  | LE_List string string string
  | LE_Logs string string string podLogOptions
  | LE_Exec string string string string podExecOptions
  | LE_CloseStdout
  | LE_CloseStderr

record logsExecProvider =
  TargetConfigs :: "(string, string) fmap"
  TargetClients :: "(string, string) fmap"
  le_GetPod :: "logCall list \<Rightarrow> string \<Rightarrow> string \<Rightarrow> error + pod"
  le_List :: "logCall list \<Rightarrow> string \<Rightarrow> string \<Rightarrow> string \<Rightarrow> error + pod list"
  le_Stream :: "logCall list \<Rightarrow> string \<Rightarrow> string \<Rightarrow> string \<Rightarrow> podLogOptions \<Rightarrow> error + string"
  NewSPDYExecutor :: "string option \<Rightarrow> error + string"
  le_Exec :: "logCall list \<Rightarrow> string \<Rightarrow> string \<Rightarrow> string \<Rightarrow> podExecOptions \<Rightarrow> error + unit"

definition getTargetAndDelegatePodNames ::
  "logsExecProvider \<Rightarrow> string \<Rightarrow> string \<Rightarrow> (logCall, string \<times> string) io" where
  "getTargetAndDelegatePodNames p namespace podName =
     bindM (call (\<lambda>h. le_GetPod p h namespace podName) (LE_GetPod namespace podName)) (\<lambda>res.
     case res of
       Inl err \<Rightarrow> fail (Wrap err ''cannot get proxy pod'')
     | Inr proxyPod \<Rightarrow>
         let targetName = GetScheduledClusterName proxyPod in
         if targetName = [] then fail (Errorf ''proxy pod isn't scheduled yet'')
         else
           (case fmlookup (TargetClients p) targetName of
              None \<Rightarrow> fail (Errorf ''not a current target name'')
            | Some client \<Rightarrow>
                let selector = LabelKeyParentUID @ ''='' @ UID proxyPod in
                bindM (call (\<lambda>h. le_List p h client namespace selector) (LE_List client namespace selector)) (\<lambda>res.
                case res of
                  Inl err \<Rightarrow> fail (Wrap err ''cannot list delegate pod'')
                | Inr l \<Rightarrow>
                    if length l > 1 then fail (Errorf ''more than one delegate pod'')
                    else if length l < 1 then fail (Errorf ''delegate pod not found'')
                    else ret (targetName, Name (hd l)))))"

definition logOptions :: "string \<Rightarrow> containerLogOpts \<Rightarrow> podLogOptions" where
  "logOptions containerName opts =
     \<lparr>plo_Container = containerName, plo_Timestamps = opt_Timestamps opts, plo_Follow = opt_Follow opts,
      plo_Previous = opt_Previous opts,
      TailLines = (if opt_Tail opts \<noteq> 0 then Some (opt_Tail opts) else None),
      LimitBytes = (if opt_LimitBytes opts \<noteq> 0 then Some (opt_LimitBytes opts) else None),
      SinceSeconds = (if opt_SinceSeconds opts \<noteq> 0 then Some (opt_SinceSeconds opts) else None),
      SinceTime = (if opt_SinceTime opts \<noteq> 0 then Some (opt_SinceTime opts) else None)\<rparr>"

definition GetContainerLogs ::
  "logsExecProvider \<Rightarrow> string \<Rightarrow> string \<Rightarrow> string \<Rightarrow> containerLogOpts \<Rightarrow> (logCall, string) io" where
  "GetContainerLogs p namespace podName containerName opts =
     bindM (attempt (getTargetAndDelegatePodNames p namespace podName)) (\<lambda>res.
     case res of
       Inl err \<Rightarrow> fail (Wrap err ''cannot get delegate pod name'')
     | Inr (targetName, delegatePodName) \<Rightarrow>
         let options = logOptions containerName opts in
         bindM (must (fmlookup (TargetClients p) targetName)) (\<lambda>client.
         bindM (call (\<lambda>h. le_Stream p h client namespace delegatePodName options)
                  (LE_Logs client namespace delegatePodName options)) (\<lambda>res.
         case res of
           Inl err \<Rightarrow> fail (Errorf (''could not get stream from logs request: '' @ Error err))
         | Inr stream \<Rightarrow> ret stream)))"

definition closeStreams :: "attachIO \<Rightarrow> logCall list" where
  "closeStreams attach =
     (if at_Stdout attach then [LE_CloseStdout] else []) @ (if at_Stderr attach then [LE_CloseStderr] else [])"

definition RunInContainer ::
  "logsExecProvider \<Rightarrow> string \<Rightarrow> string \<Rightarrow> string \<Rightarrow> string list \<Rightarrow> attachIO \<Rightarrow> (logCall, unit) io" where
  "RunInContainer p namespace name container cmd attach =
     deferM (closeStreams attach)
       (bindM (attempt (getTargetAndDelegatePodNames p namespace name)) (\<lambda>res.
        case res of
          Inl err \<Rightarrow> fail (Wrap err ''cannot get delegate pod name'')
        | Inr (targetName, delegatePodName) \<Rightarrow>
            let options = \<lparr>ex_Container = container, ex_Command = cmd, ex_Stdin = at_Stdin attach,
                  ex_Stdout = at_Stdout attach, ex_Stderr = at_Stderr attach, ex_TTY = at_TTY attach\<rparr> in
            bindM (must (fmlookup (TargetClients p) targetName)) (\<lambda>client.
            case NewSPDYExecutor p (fmlookup (TargetConfigs p) targetName) of
              Inl err \<Rightarrow> fail (Errorf (''could not make remote command: '' @ Error err))
            | Inr exec \<Rightarrow>
                bindM (call (\<lambda>h. le_Exec p h exec namespace delegatePodName options)
                         (LE_Exec client exec namespace delegatePodName options)) tryM)))"


text \<open>
  The sizes of the terminal come from a channel: the values sent and not yet received, and whether it is closed.
  A receive takes the first, waits (\<open>None\<close>) when there is none, and on a closed channel gives the zero value at once.
\<close>

record termSize =
  Height :: nat
  Width :: nat

type_synonym 'a channel = "'a list \<times> bool"

fun receive :: "'a \<Rightarrow> 'a channel \<Rightarrow> ('a \<times> 'a channel) option" where
  "receive zero (x # xs, closed) = Some (x, (xs, closed))"
| "receive zero ([], closed) = (if closed then Some (zero, ([], closed)) else None)"

definition Next :: "termSize channel \<Rightarrow> (termSize option \<times> termSize channel) option" where
  "Next ch = map_option (\<lambda>(resize, ch). (Some \<lparr>Height = Height resize, Width = Width resize\<rparr>, ch))
     (receive \<lparr>Height = 0, Width = 0\<rparr> ch)"

text \<open>
  A queue of sizes ends with nil, which \<open>Next\<close> never returns: once the channel is closed it gives a terminal without
  width and height, again and again.
\<close>

lemma Next_never_ends:
  "Next ch = Some (r, ch') \<Longrightarrow> r \<noteq> None"
  "Next ([], True) = Some (Some \<lparr>Height = 0, Width = 0\<rparr>, ([], True))"
  by (auto simp: Next_def)


section \<open>The server of logs and commands (http/http.go)\<close>

text \<open>
  The constants of package \<open>tls\<close> are their numbers.  A certificate, a listener and a handler are opaque;
  \<open>serveHTTP\<close> runs in a goroutine, so \<open>SetupHTTPServer\<close> starts it as an event.
\<close>

record tlsConfig =
  Certificates :: "string list"
  MinVersion :: nat
  PreferServerCipherSuites :: bool
  CipherSuites :: "nat list"

definition tls_VersionTLS12 :: nat where "tls_VersionTLS12 = 0x0303"

definition AcceptedCiphers :: "nat list" where
  "AcceptedCiphers = [0xc00a, 0xc009, 0xc014, 0xc013, 0xc02c, 0xc030, 0xc02b, 0xc02f]"

definition DefaultKubeletAddr :: string where "DefaultKubeletAddr = '':10250''"

datatype httpCall =
    HC_Listen string tlsConfig
  | HC_ServeHTTP string string tlsConfig
  | HC_Serve string
  | HC_LogError string
  | HC_CloseListener string
  | HC_CloseServer

definition loadTLSConfig :: "(string \<Rightarrow> string \<Rightarrow> error + string) \<Rightarrow> string \<Rightarrow> string \<Rightarrow> error + tlsConfig" where
  "loadTLSConfig X509KeyPair certPEMBlock keyPEMBlock =
     (case X509KeyPair certPEMBlock keyPEMBlock of
        Inl err \<Rightarrow> Inl (Wrap err ''error loading tls certs'')
      | Inr cert \<Rightarrow> Inr \<lparr>Certificates = [cert], MinVersion = tls_VersionTLS12, PreferServerCipherSuites = True,
          CipherSuites = AcceptedCiphers\<rparr>)"

text \<open>
  The function that closes the servers is returned as the calls it makes; when an error is returned
  there is no server yet, so that the deferred call of it closes nothing.
\<close>

definition SetupHTTPServer ::
  "(string \<Rightarrow> string \<Rightarrow> error + string) \<Rightarrow> (httpCall list \<Rightarrow> tlsConfig \<Rightarrow> error + string) \<Rightarrow> string
     \<Rightarrow> string \<Rightarrow> string \<Rightarrow> (httpCall, httpCall list) io" where
  "SetupHTTPServer X509KeyPair tls_Listen handler certPEMBlock keyPEMBlock =
     bindM (tryM (loadTLSConfig X509KeyPair certPEMBlock keyPEMBlock)) (\<lambda>tlsCfg.
     bindM (call (\<lambda>h. tls_Listen h tlsCfg) (HC_Listen DefaultKubeletAddr tlsCfg)) (\<lambda>res.
     case res of
       Inl err \<Rightarrow> fail (Wrap err ''error setting up listener for pod http server'')
     | Inr l \<Rightarrow> bindM (call (\<lambda>_. ()) (HC_ServeHTTP l handler tlsCfg)) (\<lambda>_. ret [HC_CloseServer])))"

definition serveHTTP :: "(httpCall list \<Rightarrow> error option) \<Rightarrow> bool \<Rightarrow> string \<Rightarrow> string \<Rightarrow> (httpCall, unit) io" where
  "serveHTTP serve ctxDone l name =
     bindM (call serve (HC_Serve l)) (\<lambda>res.
     bindM (case res of
              Some err \<Rightarrow> if ctxDone then ret () else call (\<lambda>_. ()) (HC_LogError (''Error setting up '' @ name @ '' http server''))
            | None \<Rightarrow> ret ()) (\<lambda>_.
     call (\<lambda>_. ()) (HC_CloseListener l)))"


section \<open>Lemmas\<close>

text \<open>What the provider found when it names a target and a delegate.\<close>

definition delegateFound :: "logsExecProvider \<Rightarrow> string \<Rightarrow> string \<Rightarrow> string \<Rightarrow> string \<Rightarrow> bool" where
  "delegateFound p namespace podName target delegate \<longleftrightarrow>
     (\<exists>h h' proxyPod client d. le_GetPod p h namespace podName = Inr proxyPod
        \<and> target = GetScheduledClusterName proxyPod \<and> target \<noteq> []
        \<and> fmlookup (TargetClients p) target = Some client
        \<and> le_List p h' client namespace (LabelKeyParentUID @ ''='' @ UID proxyPod) = Inr [d] \<and> delegate = Name d)"

lemma length_one: "\<not> 1 < length l \<Longrightarrow> \<not> length l < 1 \<Longrightarrow> l = [hd l]"
  by (cases l) auto

lemma getTargetAndDelegatePodNames_Ret:
  assumes "getTargetAndDelegatePodNames p namespace podName h = (Ret (target, delegate), h')"
  shows "delegateFound p namespace podName target delegate"
proof -
  obtain proxyPod client l where
    r: "le_GetPod p h namespace podName = Inr proxyPod" "GetScheduledClusterName proxyPod \<noteq> []"
      "fmlookup (TargetClients p) (GetScheduledClusterName proxyPod) = Some client"
      "le_List p (h @ [LE_GetPod namespace podName]) client namespace (LabelKeyParentUID @ ''='' @ UID proxyPod) = Inr l"
    and l: "\<not> 1 < length l" "\<not> length l < 1" "target = GetScheduledClusterName proxyPod" "delegate = Name (hd l)"
    using assms by (auto simp: getTargetAndDelegatePodNames_def io_simps Let_def split: sum.splits if_splits option.splits)
  moreover have "l = [hd l]" using l by (intro length_one)
  ultimately show ?thesis unfolding delegateFound_def by metis
qed

text \<open>Reads of the proxy pod and of its delegate.\<close>

fun isLookup :: "logCall \<Rightarrow> bool" where
  "isLookup (LE_GetPod _ _) = True"
| "isLookup (LE_List _ _ _) = True"
| "isLookup _ = False"

lemma emits_lookup: "emits isLookup (getTargetAndDelegatePodNames p namespace podName)"
  unfolding getTargetAndDelegatePodNames_def Let_def by (intro emits_intros) simp_all

definition logAllowed :: "logsExecProvider \<Rightarrow> string \<Rightarrow> string \<Rightarrow> logCall \<Rightarrow> bool" where
  "logAllowed p namespace podName e \<longleftrightarrow>
     (case e of
        LE_Logs client ns d _ \<Rightarrow> ns = namespace
          \<and> (\<exists>t. delegateFound p namespace podName t d \<and> fmlookup (TargetClients p) t = Some client)
      | LE_Exec client _ ns d _ \<Rightarrow> ns = namespace
          \<and> (\<exists>t. delegateFound p namespace podName t d \<and> fmlookup (TargetClients p) t = Some client)
      | _ \<Rightarrow> True)"

lemma isLookup_allowed: "isLookup e \<Longrightarrow> logAllowed p namespace podName e"
  by (cases e) (simp_all add: logAllowed_def)

lemma emits_after_lookup:
  assumes "\<And>t d. delegateFound p namespace podName t d \<Longrightarrow> emits (logAllowed p namespace podName) (f (t, d))"
  shows "emits (logAllowed p namespace podName)
    (bindM (attempt (getTargetAndDelegatePodNames p namespace podName)) (\<lambda>res. case res of Inl err \<Rightarrow> fail (w err) | Inr td \<Rightarrow> f td))"
proof (rule emits_bindM_ret)
  show "emits (logAllowed p namespace podName) (attempt (getTargetAndDelegatePodNames p namespace podName))"
    by (intro emits_intros emits_mono [OF emits_lookup] isLookup_allowed)
  fix res h h'
  assume "attempt (getTargetAndDelegatePodNames p namespace podName) h = (Ret res, h')"
  then show "emits (logAllowed p namespace podName) (case res of Inl err \<Rightarrow> fail (w err) | Inr td \<Rightarrow> f td)"
    by (cases res) (auto simp: attempt_Inr intro: emits_fail assms dest: getTargetAndDelegatePodNames_Ret)
qed

lemma emits_logs: "emits (logAllowed p namespace podName) (GetContainerLogs p namespace podName containerName opts)"
  unfolding GetContainerLogs_def Let_def
proof (rule emits_after_lookup)
  fix t d assume f: "delegateFound p namespace podName t d"
  then obtain client where "fmlookup (TargetClients p) t = Some client" by (auto simp: delegateFound_def)
  with f show "emits (logAllowed p namespace podName) (case (t, d) of (targetName, delegatePodName) \<Rightarrow>
      bindM (must (fmlookup (TargetClients p) targetName)) (\<lambda>client.
      bindM (call (\<lambda>h. le_Stream p h client namespace delegatePodName (logOptions containerName opts))
               (LE_Logs client namespace delegatePodName (logOptions containerName opts))) (\<lambda>res.
      case res of Inl err \<Rightarrow> fail (Errorf (''could not get stream from logs request: '' @ Error err))
      | Inr stream \<Rightarrow> ret stream)))"
    by (auto simp: io_values logAllowed_def intro!: emits_intros)
qed

lemma emits_exec: "emits (logAllowed p namespace name) (RunInContainer p namespace name container cmd attach)"
  unfolding RunInContainer_def Let_def
proof (rule emits_deferM [OF emits_after_lookup])
  fix t d assume f: "delegateFound p namespace name t d"
  then obtain client where "fmlookup (TargetClients p) t = Some client" by (auto simp: delegateFound_def)
  with f show "emits (logAllowed p namespace name) (case (t, d) of (targetName, delegatePodName) \<Rightarrow>
      bindM (must (fmlookup (TargetClients p) targetName)) (\<lambda>client.
      case NewSPDYExecutor p (fmlookup (TargetConfigs p) targetName) of
        Inl err \<Rightarrow> fail (Errorf (''could not make remote command: '' @ Error err))
      | Inr exec \<Rightarrow>
          bindM (call (\<lambda>h. le_Exec p h exec namespace delegatePodName
              \<lparr>ex_Container = container, ex_Command = cmd, ex_Stdin = at_Stdin attach, ex_Stdout = at_Stdout attach,
                 ex_Stderr = at_Stderr attach, ex_TTY = at_TTY attach\<rparr>)
            (LE_Exec client exec namespace delegatePodName
              \<lparr>ex_Container = container, ex_Command = cmd, ex_Stdin = at_Stdin attach, ex_Stdout = at_Stdout attach,
                 ex_Stderr = at_Stderr attach, ex_TTY = at_TTY attach\<rparr>)) tryM))"
    by (auto simp: io_values logAllowed_def intro!: emits_intros)
qed (simp add: closeStreams_def logAllowed_def)

text \<open>What was asked for: the container and its options, or the container, the command and the streams.\<close>

definition readAsked :: "string \<Rightarrow> containerLogOpts \<Rightarrow> logCall \<Rightarrow> bool" where
  "readAsked container opts e \<longleftrightarrow>
     (case e of
        LE_Logs _ _ _ o' \<Rightarrow> plo_Container o' = container \<and> plo_Follow o' = opt_Follow opts
          \<and> plo_Previous o' = opt_Previous opts \<and> plo_Timestamps o' = opt_Timestamps opts
          \<and> (case TailLines o' of None \<Rightarrow> opt_Tail opts = 0 | Some n \<Rightarrow> n = opt_Tail opts)
          \<and> (case LimitBytes o' of None \<Rightarrow> opt_LimitBytes opts = 0 | Some n \<Rightarrow> n = opt_LimitBytes opts)
          \<and> (case SinceSeconds o' of None \<Rightarrow> opt_SinceSeconds opts = 0 | Some n \<Rightarrow> n = opt_SinceSeconds opts)
          \<and> (case SinceTime o' of None \<Rightarrow> opt_SinceTime opts = 0 | Some n \<Rightarrow> n = opt_SinceTime opts)
      | LE_Exec _ _ _ _ _ \<Rightarrow> False
      | _ \<Rightarrow> True)"

definition runAsked :: "string \<Rightarrow> string list \<Rightarrow> attachIO \<Rightarrow> logCall \<Rightarrow> bool" where
  "runAsked container cmd attach e \<longleftrightarrow>
     (case e of
        LE_Logs _ _ _ _ \<Rightarrow> False
      | LE_Exec _ _ _ _ o' \<Rightarrow> o' = \<lparr>ex_Container = container, ex_Command = cmd, ex_Stdin = at_Stdin attach,
          ex_Stdout = at_Stdout attach, ex_Stderr = at_Stderr attach, ex_TTY = at_TTY attach\<rparr>
      | _ \<Rightarrow> True)"

lemma emits_readAsked: "emits (readAsked containerName opts) (GetContainerLogs p namespace podName containerName opts)"
proof -
  have "emits (readAsked containerName opts) (getTargetAndDelegatePodNames p namespace podName)"
    by (rule emits_mono [OF emits_lookup]) (auto simp: readAsked_def elim: isLookup.elims)
  then show ?thesis
    unfolding GetContainerLogs_def Let_def by (intro emits_intros) (simp_all add: readAsked_def logOptions_def)
qed

lemma emits_runAsked:
  "emits (runAsked containerName cmd attach) (RunInContainer p namespace podName containerName cmd attach)"
proof -
  have "emits (runAsked containerName cmd attach) (getTargetAndDelegatePodNames p namespace podName)"
    by (rule emits_mono [OF emits_lookup]) (auto simp: runAsked_def elim: isLookup.elims)
  then show ?thesis
    unfolding RunInContainer_def Let_def
    by (intro emits_deferM emits_intros) (simp_all add: runAsked_def closeStreams_def)
qed

lemma closeStreams_once:
  "set (closeStreams attach) \<subseteq> {LE_CloseStdout, LE_CloseStderr}"
  "count_list (closeStreams attach) LE_CloseStdout = (if at_Stdout attach then 1 else 0)"
  "count_list (closeStreams attach) LE_CloseStderr = (if at_Stderr attach then 1 else 0)"
  by (auto simp: closeStreams_def)

lemma RunInContainer_deferred:
  "\<exists>m. RunInContainer p namespace podName containerName cmd attach = deferM (closeStreams attach) m
     \<and> emits (\<lambda>e. e \<noteq> LE_CloseStdout \<and> e \<noteq> LE_CloseStderr) m"
proof -
  have l: "emits (\<lambda>e. e \<noteq> LE_CloseStdout \<and> e \<noteq> LE_CloseStderr) (getTargetAndDelegatePodNames p namespace podName)"
    by (rule emits_mono [OF emits_lookup]) auto
  show ?thesis
    unfolding RunInContainer_def Let_def by (rule exI, rule conjI, rule refl) (intro emits_intros l; simp)
qed

text \<open>What the provider finds when the pod is bound to a target with one delegate.\<close>

lemma getTargetAndDelegatePodNames_found:
  assumes "le_GetPod p h namespace podName = Inr proxyPod" "NodeName (pod_Spec proxyPod) = t" "t \<noteq> []"
    and "fmlookup (TargetClients p) t = Some client"
    and "\<And>h. le_List p h client namespace (LabelKeyParentUID @ ''='' @ UID proxyPod) = Inr [d]"
  shows "getTargetAndDelegatePodNames p namespace podName h =
    (Ret (t, Name d), h @ [LE_GetPod namespace podName, LE_List client namespace (LabelKeyParentUID @ ''='' @ UID proxyPod)])"
  using assms by (simp add: getTargetAndDelegatePodNames_def GetScheduledClusterName_def io_simps Let_def)

section \<open>Properties\<close>

text \<open>
  A virtual node has the labels and the taint by which the schedulers and the resources controllers
  know the virtual nodes of the program.
\<close>

theorem NodeFromOpts_recognised:
  "mget (Labels (NodeFromOpts now1 now2 ip t)) LabelAndTaintKeyVirtualKubeletProvider = VirtualKubeletProviderName
   \<and> mget (Labels (NodeFromOpts now1 now2 ip t)) LabelKeyTargetNamespace = t_Namespace t"
  by (simp add: NodeFromOpts_def objmeta.defs BaseLabels_def Let_def mget_def key_simps KeyPrefix_def
      LabelAndTaintKeyVirtualKubeletProvider_def VirtualKubeletProviderName_def)

text \<open>
  The virtual kubelet's controller is told of a status only after it has registered its callback; a
  status that comes earlier is dropped.
\<close>

theorem UpdateNodeStatus_registered:
  "UpdateNodeStatus (NotifyNodeStatus p f) n h = (Ret (), h @ [(f, n)])"
  "UpdateNodeStatus \<lparr>cb = None\<rparr> n h = (Ret (), h)"
  by (simp_all add: UpdateNodeStatus_def NotifyNodeStatus_def io_apply)

text \<open>
  Requests are served only over TLS 1.2 or later, with the certificate that was loaded, on the kubelet's
  port, and only after listening succeeded; when setting up fails, nothing is served.  A listener that is
  served is closed at the end.
\<close>

theorem SetupHTTPServer_serves:
  assumes "SetupHTTPServer pair listen handler cert key h = (r, h')" "HC_ServeHTTP l srv cfg \<in> set h'" "HC_ServeHTTP l srv cfg \<notin> set h"
  shows "\<exists>c. pair cert key = Inr c \<and> Certificates cfg = [c] \<and> tls_VersionTLS12 \<le> MinVersion cfg
    \<and> listen h cfg = Inr l \<and> h' = h @ [HC_Listen DefaultKubeletAddr cfg, HC_ServeHTTP l handler cfg] \<and> r = Ret [HC_CloseServer]"
  using assms by (auto simp: SetupHTTPServer_def loadTLSConfig_def io_simps split: sum.splits)

lemma serveHTTP_closes: "\<exists>es. serveHTTP serve done l name h = (Ret (), h @ HC_Serve l # es @ [HC_CloseListener l]) \<and> length es \<le> 1"
  by (cases "serve h") (auto simp: serveHTTP_def io_simps intro: exI [of _ "[]"])

text \<open>
  Property C36.  Whatever the API servers answer, logs are read and commands are run only in the
  one delegate of the proxy pod: in the cluster of the virtual node that the proxy pod is bound to, in
  the namespace of the proxy pod, and only when exactly one pod there has the proxy pod for parent; in
  the container that was asked for, with the command and the streams that were asked for.  On every way
  out of a command the standard output is closed exactly once if there is one, and so is the standard
  error, after everything else; a stream that is not there is not closed.
\<close>

theorem logs_only_delegate:
  "emits (logAllowed p namespace podName) (GetContainerLogs p namespace podName containerName opts)
   \<and> emits (logAllowed p namespace podName) (RunInContainer p namespace podName containerName cmd attach)
   \<and> emits (readAsked containerName opts) (GetContainerLogs p namespace podName containerName opts)
   \<and> emits (runAsked containerName cmd attach) (RunInContainer p namespace podName containerName cmd attach)
   \<and> (\<exists>es cs. snd (RunInContainer p namespace podName containerName cmd attach h) = h @ es @ cs
          \<and> set es \<inter> {LE_CloseStdout, LE_CloseStderr} = {} \<and> set cs \<subseteq> {LE_CloseStdout, LE_CloseStderr}
          \<and> count_list cs LE_CloseStdout = (if at_Stdout attach then 1 else 0)
          \<and> count_list cs LE_CloseStderr = (if at_Stderr attach then 1 else 0))"
proof (intro conjI emits_logs emits_exec emits_readAsked emits_runAsked)
  let ?open = "\<lambda>e. e \<noteq> LE_CloseStdout \<and> e \<noteq> LE_CloseStderr"
  obtain m where m: "RunInContainer p namespace podName containerName cmd attach = deferM (closeStreams attach) m" "emits ?open m"
    using RunInContainer_deferred by blast
  obtain r h' where "m h = (r, h')" "deferM (closeStreams attach) m h = (r, h' @ closeStreams attach)"
    using deferM_calls by blast
  moreover obtain es where "snd (m h) = h @ es" "list_all ?open es" using m(2) by (auto simp: emits_def)
  ultimately show "\<exists>es cs. snd (RunInContainer p namespace podName containerName cmd attach h) = h @ es @ cs
      \<and> set es \<inter> {LE_CloseStdout, LE_CloseStderr} = {} \<and> set cs \<subseteq> {LE_CloseStdout, LE_CloseStderr}
      \<and> count_list cs LE_CloseStdout = (if at_Stdout attach then 1 else 0)
      \<and> count_list cs LE_CloseStderr = (if at_Stderr attach then 1 else 0)"
    by (intro exI [of _ es] exI [of _ "closeStreams attach"] conjI closeStreams_once)
      (simp_all add: m(1) list_all_iff disjoint_iff)
qed

end
