(* ===== verification/Agent_Wiring.thy ===== *)
theory Agent_Wiring
  imports Virtual_Kubelet Proxypod_Webhook Cleanup_Controller
begin

text \<open>
  The agent command (\<open>cmd/agent/main.go\<close>): which clients, informer factories, controllers, virtual
  nodes and servers an agent starts for its configuration, and in which order.  A client is known by the
  API it talks to; a factory by its position in the list of factories; an informer by its factory and
  the kind of object it caches.  Constructors of clients, the certificate and the HTTP server are
  parameters; a goroutine is an event at the point where it is started.
\<close>

section \<open>Clients, factories and controllers\<close>

datatype apiClient = SourceKube | SourceCustom | TargetKube string | TargetCustom string

datatype resourceKind =
    RPods | RConfigMaps | RSecrets | RServices | REndpoints | RIngresses | RNodes | RServiceAccounts
  | RRoleBindings | RClusterRoleBindings | RPodChaperons | RClusterSummaries | RSources | RClusterSources

record informerFactory =
  if_client :: apiClient
  if_namespace :: string

datatype informer = Informer nat resourceKind

text \<open>The controllers with the arguments of their constructors.\<close>

datatype (set_runnable: 'i) runnable =
    ConfigMapController string agentTarget apiClient apiClient 'i 'i 'i
  | ServiceController string agentTarget apiClient apiClient 'i 'i 'i 'i
  | SecretController string agentTarget apiClient apiClient 'i 'i 'i
  | IngressController string agentTarget apiClient apiClient 'i 'i 'i
  | FeedbackController string agentTarget apiClient apiClient 'i 'i
  | UpstreamController agentTarget apiClient 'i 'i "nat option"
  | ChaperonController apiClient apiClient 'i 'i
  | DownstreamController apiClient 'i
  | CleanupController apiClient 'i 'i 'i 'i 'i "string list"
  | SourceController apiClient 'i 'i 'i 'i 'i
  for map: map_runnable

type_synonym started = "informerFactory list \<times> informer runnable list"

record agentEnv =
  kube_NewForConfig :: "string \<Rightarrow> error + unit"
  versioned_NewForConfig :: "string \<Rightarrow> error + unit"
  source_versioned :: "error + unit"
  ClusterSources_List :: "error + unit"
  CLUSTER_NAME :: string


section \<open>Old style controllers\<close>

text \<open>One iteration over the targets; a client that cannot be made panics.\<close>

definition wireTarget ::
  "agentEnv \<Rightarrow> (string, nat) gomap \<Rightarrow> agentTarget \<Rightarrow> started \<Rightarrow> started option" where
  "wireTarget e nodeStatusUpdaters target st =
     (case st of (factories, controllers) \<Rightarrow>
      let clusterName = CLUSTER_NAME e;
          ns = t_Namespace target;
          kube = length factories;
          factories = factories @ [\<lparr>if_client = SourceKube, if_namespace = ns\<rparr>];
          custom = length factories;
          factories = factories @ [\<lparr>if_client = SourceCustom, if_namespace = ns\<rparr>]
      in case
        (if Self target
         then Some (factories, controllers, SourceCustom, Informer custom RPodChaperons, Informer custom RClusterSummaries)
         else
           (case kube_NewForConfig e (ClientConfig target) of
              Inl err \<Rightarrow> None
            | Inr _ \<Rightarrow>
           (case versioned_NewForConfig e (ClientConfig target) of
              Inl err \<Rightarrow> None
            | Inr _ \<Rightarrow>
              let targetKubeClient = TargetKube (ClientConfig target);
                  targetCustomClient = TargetCustom (ClientConfig target);
                  targetKube = length factories;
                  factories = factories @ [\<lparr>if_client = targetKubeClient, if_namespace = ns\<rparr>];
                  targetCustom = length factories;
                  factories = factories @ [\<lparr>if_client = targetCustomClient, if_namespace = ns\<rparr>];
                  controllers = controllers @
                    [ConfigMapController clusterName target SourceKube targetKubeClient
                       (Informer kube RPods) (Informer kube RConfigMaps) (Informer targetKube RConfigMaps),
                     ServiceController clusterName target SourceKube targetKubeClient
                       (Informer kube REndpoints) (Informer kube RServices) (Informer kube RPods) (Informer targetKube RServices),
                     SecretController clusterName target SourceKube targetKubeClient
                       (Informer kube RPods) (Informer kube RSecrets) (Informer targetKube RSecrets),
                     IngressController clusterName target SourceKube targetKubeClient
                       (Informer kube RServices) (Informer kube RIngresses) (Informer targetKube RIngresses)]
              in Some (factories, controllers, targetCustomClient,
                   Informer targetCustom RPodChaperons, Informer targetCustom RClusterSummaries)))) of
          None \<Rightarrow> None
        | Some (factories, controllers, targetCustomClient, targetPodChaperonInformer, targetClusterSummaryInformer) \<Rightarrow>
            Some (factories, controllers @
              [FeedbackController clusterName target SourceKube targetCustomClient
                 (Informer kube RPods) targetPodChaperonInformer,
               UpstreamController target SourceKube (Informer kube RNodes) targetClusterSummaryInformer
                 (mlookup nodeStatusUpdaters (VirtualNodeName target))]))"

fun wireTargets ::
  "agentEnv \<Rightarrow> (string, nat) gomap \<Rightarrow> agentTarget list \<Rightarrow> started \<Rightarrow> started option" where
  "wireTargets e nodeStatusUpdaters [] st = Some st"
| "wireTargets e nodeStatusUpdaters (t # ts) st =
     (case wireTarget e nodeStatusUpdaters t st of
        None \<Rightarrow> None | Some st' \<Rightarrow> wireTargets e nodeStatusUpdaters ts st')"

text \<open>The source controller runs only where cluster sources can be listed.\<close>

definition addClusterScopedFactoriesAndControllers :: "agentEnv \<Rightarrow> agentConfig \<Rightarrow> started \<Rightarrow> started" where
  "addClusterScopedFactoriesAndControllers e agentCfg st =
     (case st of (factories, controllers) \<Rightarrow>
      let kube = length factories;
          factories = factories @ [\<lparr>if_client = SourceKube, if_namespace = []\<rparr>];
          custom = length factories;
          factories = factories @ [\<lparr>if_client = SourceCustom, if_namespace = []\<rparr>];
          controllers = controllers @
            [ChaperonController SourceKube SourceCustom (Informer kube RPods) (Informer custom RPodChaperons),
             DownstreamController SourceCustom (Informer kube RNodes),
             CleanupController SourceKube (Informer kube RPods) (Informer kube RServices) (Informer kube RIngresses)
               (Informer kube RConfigMaps) (Informer kube RSecrets) (GetKnownFinalizers agentCfg)];
          srcCtrlEnabled = (case ClusterSources_List e of Inl err \<Rightarrow> False | Inr _ \<Rightarrow> True)
      in (factories, if srcCtrlEnabled
           then controllers @
             [SourceController SourceKube (Informer custom RSources) (Informer custom RClusterSources)
                (Informer kube RServiceAccounts) (Informer kube RRoleBindings) (Informer kube RClusterRoleBindings)]
           else controllers))"

datatype agentEvent =
    StartWebhook mutator
  | StartVirtualKubeletServers
  | ElectLeader
  | RunNode agentTarget nat
  | StartFactory nat
  | RunController "informer runnable"

definition wiring :: "agentEnv \<Rightarrow> agentConfig \<Rightarrow> (string, nat) gomap \<Rightarrow> started option" where
  "wiring e agentCfg nodeStatusUpdaters =
     (case source_versioned e of
        Inl err \<Rightarrow> None
      | Inr _ \<Rightarrow> map_option (addClusterScopedFactoriesAndControllers e agentCfg)
          (wireTargets e nodeStatusUpdaters agentCfg ([], [])))"

definition startOldStyleControllers ::
  "agentEnv \<Rightarrow> agentConfig \<Rightarrow> (string, nat) gomap \<Rightarrow> agentEvent list option" where
  "startOldStyleControllers e agentCfg nodeStatusUpdaters =
     map_option (\<lambda>(factories, controllers).
       map StartFactory [0..<length factories] @ map RunController controllers)
       (wiring e agentCfg nodeStatusUpdaters)"


section \<open>Virtual kubelets, the webhook and the command\<close>

text \<open>A node provider is known by the position of its target.\<close>

fun runNodes :: "nat \<Rightarrow> agentTarget list \<Rightarrow> (string, nat) fmap \<Rightarrow> (string, nat) fmap \<times> agentEvent list" where
  "runNodes i [] nodeStatusUpdaters = (nodeStatusUpdaters, [])"
| "runNodes i (t # ts) nodeStatusUpdaters =
     (case runNodes (Suc i) ts (fmupd (VirtualNodeName t) i nodeStatusUpdaters) of
        (m, events) \<Rightarrow> (m, RunNode t i # events))"

definition startVirtualKubeletControllers :: "agentConfig \<Rightarrow> (string, nat) fmap \<times> agentEvent list" where
  "startVirtualKubeletControllers agentCfg = runNodes 0 agentCfg fmempty"

definition runControllers :: "agentEnv \<Rightarrow> agentConfig \<Rightarrow> agentEvent list option" where
  "runControllers e agentCfg =
     (let (nodeStatusUpdaters, nodes) =
            (if length agentCfg > 0
             then (case startVirtualKubeletControllers agentCfg of (m, events) \<Rightarrow> (Some m, events))
             else (None, []))
      in map_option (\<lambda>events. nodes @ events) (startOldStyleControllers e agentCfg nodeStatusUpdaters))"

definition startWebhook :: "agentConfig \<Rightarrow> mutator" where
  "startWebhook agentCfg = \<lparr>KnownFinalizers = Some (GetKnownFinalizersByNamespace agentCfg)\<rparr>"

definition main_agent :: "agentEnv \<Rightarrow> bool \<Rightarrow> agentConfig \<Rightarrow> agentEvent list option" where
  "main_agent e leaderElect agentCfg =
     map_option (\<lambda>events. [StartWebhook (startWebhook agentCfg), StartVirtualKubeletServers]
         @ (if leaderElect then [ElectLeader] else []) @ events)
       (runControllers e agentCfg)"

text \<open>The servers of logs and commands: \<open>None\<close> for a panic, and no provider when the certificate is
  not signed in time.\<close>

fun targetClientMaps ::
  "(string \<Rightarrow> error + string) \<Rightarrow> agentTarget list \<Rightarrow> (string, string) fmap \<times> (string, string) fmap
     \<Rightarrow> ((string, string) fmap \<times> (string, string) fmap) option" where
  "targetClientMaps newForConfig [] ms = Some ms"
| "targetClientMaps newForConfig (target # ts) ms =
     (let n = VirtualNodeName target;
          targetConfigs = fmupd n (ClientConfig target) (fst ms)
      in case newForConfig (ClientConfig target) of
           Inl err \<Rightarrow> None
         | Inr targetClient \<Rightarrow> targetClientMaps newForConfig ts (targetConfigs, fmupd n targetClient (snd ms)))"

definition startVirtualKubeletServers ::
  "(string \<Rightarrow> error + string) \<Rightarrow> error + (string \<times> string) \<Rightarrow> (error \<Rightarrow> bool)
     \<Rightarrow> (string \<Rightarrow> string \<Rightarrow> error + unit) \<Rightarrow> logsExecProvider \<Rightarrow> agentConfig \<Rightarrow> logsExecProvider option option" where
  "startVirtualKubeletServers newForConfig certificate wait_Interrupted setupHTTPServer source agentCfg =
     (case targetClientMaps newForConfig agentCfg (fmempty, fmempty) of
        None \<Rightarrow> None
      | Some (targetConfigs, targetClients) \<Rightarrow>
          (case certificate of
             Inl err \<Rightarrow> if wait_Interrupted err then Some None else None
           | Inr (certPEM, keyPEM) \<Rightarrow>
               (case setupHTTPServer certPEM keyPEM of
                  Inl err \<Rightarrow> None
                | Inr _ \<Rightarrow> Some (Some (source\<lparr>TargetConfigs := targetConfigs, TargetClients := targetClients\<rparr>)))))"


section \<open>What a controller reads\<close>

text \<open>An informer resolved to the API, the namespace and the kind that it caches.\<close>

type_synonym view = "(apiClient \<times> string \<times> resourceKind) option"

fun resolve :: "informerFactory list \<Rightarrow> informer \<Rightarrow> view" where
  "resolve fs (Informer i r) = (if i < length fs then Some (if_client (fs ! i), if_namespace (fs ! i), r) else None)"

fun factoryOf :: "informer \<Rightarrow> nat" where
  "factoryOf (Informer i r) = i"

definition inRange :: "nat \<Rightarrow> informer runnable \<Rightarrow> bool" where
  "inRange n c \<longleftrightarrow> (\<forall>x\<in>set_runnable c. factoryOf x < n)"

text \<open>
  The reference: the controllers of one target, each with what it reads.  The local informers read the
  source cluster and the remote ones the target cluster, all in the namespace of the target.
\<close>

definition followControllers :: "agentEnv \<Rightarrow> agentTarget \<Rightarrow> view runnable list" where
  "followControllers e t =
     (let source = (\<lambda>r. Some (SourceKube, t_Namespace t, r));
          remote = (\<lambda>r. Some (TargetKube (ClientConfig t), t_Namespace t, r))
      in [ConfigMapController (CLUSTER_NAME e) t SourceKube (TargetKube (ClientConfig t))
            (source RPods) (source RConfigMaps) (remote RConfigMaps),
          ServiceController (CLUSTER_NAME e) t SourceKube (TargetKube (ClientConfig t))
            (source REndpoints) (source RServices) (source RPods) (remote RServices),
          SecretController (CLUSTER_NAME e) t SourceKube (TargetKube (ClientConfig t))
            (source RPods) (source RSecrets) (remote RSecrets),
          IngressController (CLUSTER_NAME e) t SourceKube (TargetKube (ClientConfig t))
            (source RServices) (source RIngresses) (remote RIngresses)])"

definition targetControllers :: "agentEnv \<Rightarrow> (string, nat) gomap \<Rightarrow> agentTarget \<Rightarrow> view runnable list" where
  "targetControllers e m t =
     (let remote = (if Self t then SourceCustom else TargetCustom (ClientConfig t))
      in (if Self t then [] else followControllers e t) @
         [FeedbackController (CLUSTER_NAME e) t SourceKube remote
            (Some (SourceKube, t_Namespace t, RPods)) (Some (remote, t_Namespace t, RPodChaperons)),
          UpstreamController t SourceKube (Some (SourceKube, t_Namespace t, RNodes))
            (Some (remote, t_Namespace t, RClusterSummaries)) (mlookup m (VirtualNodeName t))])"

definition clusterControllers :: "agentEnv \<Rightarrow> agentConfig \<Rightarrow> view runnable list" where
  "clusterControllers e cfg =
     (let kube = (\<lambda>r. Some (SourceKube, [], r)); custom = (\<lambda>r. Some (SourceCustom, [], r))
      in [ChaperonController SourceKube SourceCustom (kube RPods) (custom RPodChaperons),
          DownstreamController SourceCustom (kube RNodes),
          CleanupController SourceKube (kube RPods) (kube RServices) (kube RIngresses) (kube RConfigMaps) (kube RSecrets)
            (map Finalizer cfg)] @
         (if isl (ClusterSources_List e) then []
          else [SourceController SourceKube (custom RSources) (custom RClusterSources) (kube RServiceAccounts)
                  (kube RRoleBindings) (kube RClusterRoleBindings)]))"

text \<open>More factories change nothing for the controllers that are there.\<close>

lemma resolve_append: "factoryOf x < length fs \<Longrightarrow> resolve (fs @ gs) x = resolve fs x"
  by (cases x) (simp add: nth_append)

lemma map_resolve_append:
  "list_all (inRange (length fs)) cs \<Longrightarrow>
     map (map_runnable (resolve (fs @ gs))) cs = map (map_runnable (resolve fs)) cs"
  by (auto simp: list_all_iff inRange_def intro!: runnable.map_cong resolve_append)

lemma inRange_mono: "list_all (inRange n) cs \<Longrightarrow> n \<le> m \<Longrightarrow> list_all (inRange m) cs"
  by (fastforce simp: list_all_iff inRange_def)

text \<open>One target adds its controllers, which read what the reference says.\<close>

lemma wireTarget_adds:
  assumes "wireTarget e m t (fs, cs) = Some st"
  shows "\<exists>gs ds. st = (fs @ gs, cs @ ds) \<and> list_all (inRange (length (fs @ gs))) ds
    \<and> map (map_runnable (resolve (fs @ gs))) ds = targetControllers e m t"
proof (cases "Self t")
  case True
  with assms show ?thesis
    by (auto simp: wireTarget_def Let_def targetControllers_def inRange_def nth_append)
next
  case False
  with assms show ?thesis
    by (auto simp: wireTarget_def Let_def targetControllers_def followControllers_def inRange_def nth_append
        split: sum.splits)
qed

definition wired :: "started \<Rightarrow> view runnable list \<Rightarrow> bool" where
  "wired st vs \<longleftrightarrow> list_all (inRange (length (fst st))) (snd st) \<and> map (map_runnable (resolve (fst st))) (snd st) = vs"

lemma wired_append:
  assumes "wired (fs, cs) vs" "list_all (inRange (length (fs @ gs))) ds" "map (map_runnable (resolve (fs @ gs))) ds = ws"
  shows "wired (fs @ gs, cs @ ds) (vs @ ws)"
  using assms map_resolve_append [of fs cs gs] inRange_mono [of "length fs" cs "length (fs @ gs)"]
  by (simp add: wired_def)

lemma wireTargets_wired:
  "wireTargets e m ts st = Some st' \<Longrightarrow> wired st vs \<Longrightarrow> wired st' (vs @ concat (map (targetControllers e m) ts))"
proof (induction ts arbitrary: st vs)
  case (Cons t ts)
  obtain fs cs where st: "st = (fs, cs)" by (cases st)
  from Cons.prems(1) obtain st1 where w: "wireTarget e m t (fs, cs) = Some st1" "wireTargets e m ts st1 = Some st'"
    by (auto simp: st split: option.splits)
  then obtain gs ds where "st1 = (fs @ gs, cs @ ds)" "list_all (inRange (length (fs @ gs))) ds"
      "map (map_runnable (resolve (fs @ gs))) ds = targetControllers e m t"
    using wireTarget_adds by blast
  then have "wired st1 (vs @ targetControllers e m t)"
    using Cons.prems(2) wired_append [of fs cs vs gs ds] by (simp add: st)
  with Cons.IH [OF w(2) this] show ?case by simp
qed simp

lemma clusterScoped_wired:
  assumes "wired (fs, cs) vs"
  shows "wired (addClusterScopedFactoriesAndControllers e cfg (fs, cs)) (vs @ clusterControllers e cfg)"
proof -
  let ?gs = "[\<lparr>if_client = SourceKube, if_namespace = []\<rparr>, \<lparr>if_client = SourceCustom, if_namespace = []\<rparr>]"
  have "\<exists>ds. addClusterScopedFactoriesAndControllers e cfg (fs, cs) = (fs @ ?gs, cs @ ds)
      \<and> list_all (inRange (length (fs @ ?gs))) ds \<and> map (map_runnable (resolve (fs @ ?gs))) ds = clusterControllers e cfg"
    by (cases "ClusterSources_List e")
      (simp_all add: addClusterScopedFactoriesAndControllers_def Let_def clusterControllers_def inRange_def nth_append)
  then obtain ds where "addClusterScopedFactoriesAndControllers e cfg (fs, cs) = (fs @ ?gs, cs @ ds)"
    "list_all (inRange (length (fs @ ?gs))) ds" "map (map_runnable (resolve (fs @ ?gs))) ds = clusterControllers e cfg"
    by blast
  with wired_append [OF assms] show ?thesis by simp
qed

lemma wiring_wired:
  assumes "wiring e cfg m = Some st"
  shows "wired st (concat (map (targetControllers e m) cfg) @ clusterControllers e cfg)"
proof -
  obtain fs cs where "wireTargets e m cfg ([], []) = Some (fs, cs)"
    "st = addClusterScopedFactoriesAndControllers e cfg (fs, cs)"
    using assms by (auto simp: wiring_def split: sum.splits)
  moreover have "wired ([], []) []" by (simp add: wired_def)
  ultimately show ?thesis using wireTargets_wired clusterScoped_wired by (metis append_Nil)
qed


section \<open>The order of the start\<close>

lemma startWebhook_agent: "startWebhook cfg = agentMutator cfg"
  by (simp add: startWebhook_def agentMutator_def)

text \<open>What comes after the factories comes after each of them.\<close>

lemma split_after:
  assumes "ps @ qs = a @ y # b" "y \<notin> set ps"
  shows "set ps \<subseteq> set a"
  using assms
proof (induction ps arbitrary: a)
  case (Cons p ps)
  then obtain a' where "a = p # a'" by (cases a) auto
  with Cons show ?case by auto
qed simp

text \<open>The map of node providers holds a provider of a running virtual node for each target.\<close>

lemma runNodes_lookup:
  "if v \<in> VirtualNodeName ` set ts
   then \<exists>n t. fmlookup (fst (runNodes i ts m)) v = Some n \<and> RunNode t n \<in> set (snd (runNodes i ts m))
          \<and> t \<in> set ts \<and> VirtualNodeName t = v
   else fmlookup (fst (runNodes i ts m)) v = fmlookup m v"
proof (induction ts arbitrary: i m)
  case (Cons t ts)
  obtain m' es where r: "runNodes (Suc i) ts (fmupd (VirtualNodeName t) i m) = (m', es)" by fastforce
  with Cons.IH [of "Suc i" "fmupd (VirtualNodeName t) i m"] show ?case
    by (cases "v \<in> VirtualNodeName ` set ts"; cases "VirtualNodeName t = v") auto
qed simp

lemma runNodes_events: "e \<in> set (snd (runNodes i ts m)) \<Longrightarrow> \<exists>t n. e = RunNode t n"
  by (induction ts arbitrary: i m) (simp_all split: prod.splits, metis snd_conv)

text \<open>The upstream controllers among all controllers.\<close>

lemma upstream_reference:
  "UpstreamController t k i j p \<in> set (concat (map (targetControllers e m) cfg) @ clusterControllers e cfg)
     \<Longrightarrow> t \<in> set cfg \<and> p = mlookup m (VirtualNodeName t)"
  by (auto simp: targetControllers_def followControllers_def clusterControllers_def Let_def split: if_splits)

lemma wired_upstream:
  assumes "wired st (concat (map (targetControllers e m) cfg) @ clusterControllers e cfg)"
    and "UpstreamController t k i j p \<in> set (snd st)"
  shows "t \<in> set cfg \<and> p = mlookup m (VirtualNodeName t)"
proof -
  have "map_runnable (resolve (fst st)) (UpstreamController t k i j p) \<in> set (map (map_runnable (resolve (fst st))) (snd st))"
    using assms(2) by (metis image_eqI list.set_map)
  then have "UpstreamController t k (resolve (fst st) i) (resolve (fst st) j) p
      \<in> set (concat (map (targetControllers e m) cfg) @ clusterControllers e cfg)"
    using assms(1) by (simp only: wired_def runnable.map)
  then show ?thesis by (rule upstream_reference)
qed

text \<open>The events of an agent: what comes first, the factories, the controllers.\<close>

lemma main_agent_events:
  assumes "main_agent e leaderElect cfg = Some es"
  obtains pre m fs cs where "es = pre @ map StartFactory [0..<length fs] @ map RunController cs"
    "wiring e cfg m = Some (fs, cs)" "\<And>c. RunController c \<notin> set pre" "StartWebhook (agentMutator cfg) \<in> set pre"
    "\<And>t. t \<in> set cfg \<Longrightarrow> \<exists>n t'. mlookup m (VirtualNodeName t) = Some n \<and> RunNode t' n \<in> set pre
        \<and> t' \<in> set cfg \<and> VirtualNodeName t' = VirtualNodeName t"
proof -
  define m where "m = (if cfg = [] then None else Some (fst (startVirtualKubeletControllers cfg)))"
  define nodes where "nodes = (if cfg = [] then [] else snd (startVirtualKubeletControllers cfg))"
  have "main_agent e leaderElect cfg = map_option (\<lambda>st. ([StartWebhook (startWebhook cfg), StartVirtualKubeletServers]
      @ (if leaderElect then [ElectLeader] else []) @ nodes)
      @ map StartFactory [0..<length (fst st)] @ map RunController (snd st)) (wiring e cfg m)"
    by (cases cfg) (simp_all add: main_agent_def runControllers_def m_def nodes_def startOldStyleControllers_def Let_def
        option.map_comp comp_def split_beta)
  then obtain fs cs where w: "wiring e cfg m = Some (fs, cs)"
    and es: "es = ([StartWebhook (startWebhook cfg), StartVirtualKubeletServers] @ (if leaderElect then [ElectLeader] else [])
        @ nodes) @ map StartFactory [0..<length fs] @ map RunController cs"
    using assms by (cases "wiring e cfg m") auto
  have nodes: "\<exists>t n. x = RunNode t n" if "x \<in> set nodes" for x
    using that runNodes_events [of x 0 cfg fmempty]
    by (auto simp: nodes_def startVirtualKubeletControllers_def split: if_splits)
  have "\<exists>n t'. mlookup m (VirtualNodeName t) = Some n \<and> RunNode t' n \<in> set nodes
        \<and> t' \<in> set cfg \<and> VirtualNodeName t' = VirtualNodeName t" if t: "t \<in> set cfg" for t
  proof -
    have "m = Some (fst (runNodes 0 cfg fmempty))" "nodes = snd (runNodes 0 cfg fmempty)"
      using t by (auto simp: m_def nodes_def startVirtualKubeletControllers_def)
    then show ?thesis using runNodes_lookup [of "VirtualNodeName t" cfg 0 fmempty] t by auto
  qed
  then show thesis
    by (intro that [OF es w]) (auto simp: startWebhook_agent dest: nodes)
qed


section \<open>Properties\<close>

text \<open>
  Property C4.  The controllers that an agent runs are, target by target, the four follow controllers of a
  target in another cluster and none of a target in the same cluster, one feedback and one upstream
  controller, and then the controllers of the whole cluster, without the source controller where cluster
  sources cannot be listed.  Each of them reads just what it should: of the source cluster and of the
  target's own cluster, and only the namespace of the target.
\<close>

theorem agent_wiring:
  assumes "wiring e cfg m = Some (fs, cs)"
  shows "map (map_runnable (resolve fs)) cs = concat (map (targetControllers e m) cfg) @ clusterControllers e cfg"
  using wiring_wired [OF assms] by (simp add: wired_def)

theorem agent_wiring_witness:
  "\<exists>e fs cs. wiring e sampleConfig None = Some (fs, cs) \<and> length cs = 7
     \<and> (\<forall>c\<in>set cs. None \<notin> set_runnable (map_runnable (resolve fs) c))"
proof -
  define e where "e = \<lparr>kube_NewForConfig = (\<lambda>_. Inr ()), versioned_NewForConfig = (\<lambda>_. Inr ()),
     source_versioned = Inr (), ClusterSources_List = Inl (Errorf ''forbidden''), CLUSTER_NAME = ''c1''\<rparr>"
  obtain fs cs where w: "wiring e sampleConfig None = Some (fs, cs)"
    by (simp add: wiring_def e_def sampleConfig_def wireTarget_def Let_def)
      (metis (no_types, lifting) surj_pair)
  let ?vs = "concat (map (targetControllers e None) sampleConfig) @ clusterControllers e sampleConfig"
  have eq: "map (map_runnable (resolve fs)) cs = ?vs" by (rule agent_wiring [OF w])
  have "length ?vs = 7"
    by (simp add: sampleConfig_def targetControllers_def clusterControllers_def e_def Let_def)
  moreover have "\<forall>v\<in>set ?vs. None \<notin> set_runnable v"
    by (simp add: sampleConfig_def targetControllers_def clusterControllers_def e_def Let_def)
  ultimately show ?thesis
    using w eq by (intro exI [of _ e] exI [of _ fs] exI [of _ cs]) (metis image_eqI length_map list.set_map)
qed

text \<open>
  Property C5.  The agent starts in an order that works: every controller starts after the factory of
  each of its informers, so none waits for a cache that is never filled; and every upstream controller
  has the node provider of a virtual node that was started before it, the one of its own target when
  virtual node names are distinct, so no status of a node is lost for want of a provider.
\<close>

theorem agent_start_order:
  assumes "main_agent e leaderElect cfg = Some es" "es = a @ RunController c # b"
  shows "(\<forall>x\<in>set_runnable c. StartFactory (factoryOf x) \<in> set a)
    \<and> (case c of
         UpstreamController t _ _ _ p \<Rightarrow> \<exists>n t'. p = Some n \<and> RunNode t' n \<in> set a \<and> t \<in> set cfg \<and> t' \<in> set cfg
           \<and> VirtualNodeName t' = VirtualNodeName t
       | _ \<Rightarrow> True)
    \<and> StartWebhook (agentMutator cfg) \<in> set a"
proof -
  from assms(1) obtain pre m fs cs where es: "es = pre @ map StartFactory [0..<length fs] @ map RunController cs"
    and w: "wiring e cfg m = Some (fs, cs)" and pre: "\<And>c. RunController c \<notin> set pre" "StartWebhook (agentMutator cfg) \<in> set pre"
    and nodes: "\<And>t. t \<in> set cfg \<Longrightarrow> \<exists>n t'. mlookup m (VirtualNodeName t) = Some n \<and> RunNode t' n \<in> set pre
        \<and> t' \<in> set cfg \<and> VirtualNodeName t' = VirtualNodeName t"
    by (rule main_agent_events) blast
  have sub: "set (pre @ map StartFactory [0..<length fs]) \<subseteq> set a"
    by (rule split_after [where y = "RunController c" and b = b and qs = "map RunController cs"])
      (use es assms(2) pre in auto)
  have "RunController c \<in> set es" by (simp add: assms(2))
  then have c: "c \<in> set cs" using pre(1) by (auto simp: es)
  have wd: "wired (fs, cs) (concat (map (targetControllers e m) cfg) @ clusterControllers e cfg)"
    by (rule wiring_wired [OF w])
  then have "\<forall>x\<in>set_runnable c. factoryOf x < length fs" using c by (auto simp: wired_def list_all_iff inRange_def)
  then have "\<forall>x\<in>set_runnable c. StartFactory (factoryOf x) \<in> set a" using sub by auto
  moreover have "\<exists>n t'. p = Some n \<and> RunNode t' n \<in> set a \<and> t \<in> set cfg \<and> t' \<in> set cfg
      \<and> VirtualNodeName t' = VirtualNodeName t" if "c = UpstreamController t k i j p" for t k i j p
    using wired_upstream [OF wd, of t k i j p] c that nodes [of t] sub by fastforce
  ultimately show ?thesis using sub pre(2) by (auto split: runnable.split)
qed

theorem agent_start_order_witness:
  "\<exists>e es a c b t' n. main_agent e True sampleConfig = Some es \<and> es = a @ RunController c # b
     \<and> ElectLeader \<in> set es \<and> RunNode t' n \<in> set a \<and> VirtualNodeName t' = ''admiralty-team-prod''"
proof -
  define e where "e = \<lparr>kube_NewForConfig = (\<lambda>_. Inr ()), versioned_NewForConfig = (\<lambda>_. Inr ()),
     source_versioned = Inr (), ClusterSources_List = Inr (), CLUSTER_NAME = ''c1''\<rparr>"
  define t where "t = sampleConfig ! 1"
  have t: "VirtualNodeName t = ''admiralty-team-prod''" by (simp add: t_def sampleConfig_def)
  obtain es where es: "main_agent e True sampleConfig = Some es" "ElectLeader \<in> set es"
    "RunController (UpstreamController t SourceKube (Informer 2 RNodes) (Informer 3 RClusterSummaries) (Some 1)) \<in> set es"
    by (simp add: main_agent_def runControllers_def startVirtualKubeletControllers_def startOldStyleControllers_def
        wiring_def e_def t_def sampleConfig_def wireTarget_def addClusterScopedFactoriesAndControllers_def Let_def)
  then obtain a b where s: "es = a @ RunController (UpstreamController t SourceKube (Informer 2 RNodes)
      (Informer 3 RClusterSummaries) (Some 1)) # b"
    by (meson split_list)
  from agent_start_order [OF es(1) s] t obtain t' where "RunNode t' 1 \<in> set a" "VirtualNodeName t' = ''admiralty-team-prod''"
    by auto
  with es(1,2) s show ?thesis by blast
qed

text \<open>Logs and commands go to the client of the target whose virtual node runs the proxy pod.\<close>

lemma targetClientMaps_lookup:
  assumes "targetClientMaps newForConfig ts ms = Some ms'" "distinct (map VirtualNodeName ts)"
  shows "t \<in> set ts \<Longrightarrow> \<exists>client. newForConfig (ClientConfig t) = Inr client
      \<and> fmlookup (snd ms') (VirtualNodeName t) = Some client \<and> fmlookup (fst ms') (VirtualNodeName t) = Some (ClientConfig t)"
    and "v \<notin> VirtualNodeName ` set ts \<Longrightarrow> fmlookup (snd ms') v = fmlookup (snd ms) v \<and> fmlookup (fst ms') v = fmlookup (fst ms) v"
  using assms
proof (induction ts arbitrary: ms v)
  case (Cons u ts)
  {
    case 1
    then obtain client where c: "newForConfig (ClientConfig u) = Inr client"
      and m: "targetClientMaps newForConfig ts (fmupd (VirtualNodeName u) (ClientConfig u) (fst ms),
        fmupd (VirtualNodeName u) client (snd ms)) = Some ms'"
      by (auto simp: Let_def split: sum.splits)
    show ?case
    proof (cases "t \<in> set ts")
      case True
      with Cons.IH(1) [OF True m] 1 show ?thesis by simp
    next
      case False
      with 1 have t: "t = u" "VirtualNodeName u \<notin> VirtualNodeName ` set ts" by auto
      have d: "distinct (map VirtualNodeName ts)" using 1 by simp
      from Cons.IH(2) [OF _ m d, of "VirtualNodeName u"] t c show ?thesis by simp
    qed
  next
    case 2
    then obtain client where
      m: "targetClientMaps newForConfig ts (fmupd (VirtualNodeName u) (ClientConfig u) (fst ms),
        fmupd (VirtualNodeName u) client (snd ms)) = Some ms'"
      by (auto simp: Let_def split: sum.splits)
    have d: "distinct (map VirtualNodeName ts)" "v \<notin> VirtualNodeName ` set ts" "v \<noteq> VirtualNodeName u"
      using 2 by auto
    from Cons.IH(2) [OF d(2) m d(1)] d(3) show ?case by simp
  }
qed auto

lemma startVirtualKubeletServers_client:
  assumes "startVirtualKubeletServers newForConfig cert intr setup src cfg = Some (Some p)"
    and "distinct (map VirtualNodeName cfg)" "t \<in> set cfg"
  shows "\<exists>client. newForConfig (ClientConfig t) = Inr client \<and> fmlookup (TargetClients p) (VirtualNodeName t) = Some client
      \<and> fmlookup (TargetConfigs p) (VirtualNodeName t) = Some (ClientConfig t)"
proof -
  obtain ms where "targetClientMaps newForConfig cfg (fmempty, fmempty) = Some ms"
    "p = src\<lparr>TargetConfigs := fst ms, TargetClients := snd ms\<rparr>"
    using assms(1) by (auto simp: startVirtualKubeletServers_def split: option.splits sum.splits prod.splits if_splits)
  then show ?thesis using targetClientMaps_lookup(1) [of newForConfig cfg "(fmempty, fmempty)" ms t] assms(2,3) by simp
qed

end
