(* ===== verification/Informer_Factory.thy ===== *)
theory Informer_Factory
  imports Agent_Wiring "HOL-Library.Multiset"
begin

text \<open>
  The shared informer factory of the program's own API
  (\<open>pkg/generated/informers/externalversions\<close>): the informers it shares, the goroutines it starts and how
  it shuts down, and the informers of the six kinds that are made through it.
  \<^item> An informer is the value of the arguments it was made of; the factory keeps one per Go type, so the
    type stands for its identity.  \<open>cache.SharedIndexInformer\<close> itself is not in the repository: of its
    \<open>Run\<close> the model takes what is documented, that it blocks until its stop channel is closed.
  \<^item> Every method holds the lock of the factory while it touches its fields, so a method is one atomic step
    of the system of the factory and its goroutines, and any interleaving is a sequence of steps.
    \<open>Shutdown\<close> releases the lock before it waits: its call and its return are two steps.
\<close>

section \<open>The factory (factory.go)\<close>

type_synonym reflectType = string

text \<open>
  What a list watcher and its informer are made of: the client, the namespace when the kind has one, the
  filter of the list options, the resync period, the names of the indexers, and the transform.
\<close>

record ('c, 'o, 'x) sharedIndexInformer =
  inf_client :: 'c
  inf_resource :: string
  inf_namespace :: "string option"
  inf_tweak :: "('o \<Rightarrow> 'o) option"
  inf_object :: reflectType
  inf_resyncPeriod :: int
  inf_indexers :: "string list"
  inf_transform :: "'x option"

record ('c, 'o, 'x) sharedInformerFactory =
  sif_client :: 'c
  sif_namespace :: string
  tweakListOptions :: "('o \<Rightarrow> 'o) option"
  defaultResync :: int
  customResync :: "(reflectType, int) fmap"
  transform :: "'x option"
  informers :: "(reflectType, ('c, 'o, 'x) sharedIndexInformer) fmap"
  startedInformers :: "(reflectType, bool) fmap"
  wg :: nat
  shuttingDown :: bool

type_synonym ('c, 'o, 'x) sharedInformerOption =
  "('c, 'o, 'x) sharedInformerFactory \<Rightarrow> ('c, 'o, 'x) sharedInformerFactory"

text \<open>The types of the objects in the argument are taken as its keys.\<close>

definition WithCustomResyncConfig :: "(reflectType, int) gomap \<Rightarrow> ('c, 'o, 'x) sharedInformerOption" where
  "WithCustomResyncConfig resyncConfig f = f\<lparr>customResync := copyInto (customResync f) resyncConfig\<rparr>"

definition WithTweakListOptions :: "('o \<Rightarrow> 'o) option \<Rightarrow> ('c, 'o, 'x) sharedInformerOption" where
  "WithTweakListOptions t f = f\<lparr>tweakListOptions := t\<rparr>"

definition WithNamespace :: "string \<Rightarrow> ('c, 'o, 'x) sharedInformerOption" where
  "WithNamespace ns f = f\<lparr>sif_namespace := ns\<rparr>"

definition WithTransform :: "'x option \<Rightarrow> ('c, 'o, 'x) sharedInformerOption" where
  "WithTransform t f = f\<lparr>transform := t\<rparr>"

definition NewSharedInformerFactoryWithOptions ::
  "'c \<Rightarrow> int \<Rightarrow> ('c, 'o, 'x) sharedInformerOption list \<Rightarrow> ('c, 'o, 'x) sharedInformerFactory" where
  "NewSharedInformerFactoryWithOptions c resync options =
     foldl (\<lambda>factory opt. opt factory)
       \<lparr>sif_client = c, sif_namespace = [], tweakListOptions = None, defaultResync = resync,
        customResync = fmempty, transform = None, informers = fmempty, startedInformers = fmempty,
        wg = 0, shuttingDown = False\<rparr> options"

definition NewSharedInformerFactory :: "'c \<Rightarrow> int \<Rightarrow> ('c, 'o, 'x) sharedInformerFactory" where
  "NewSharedInformerFactory c resync = NewSharedInformerFactoryWithOptions c resync []"

definition NewFilteredSharedInformerFactory ::
  "'c \<Rightarrow> int \<Rightarrow> string \<Rightarrow> ('o \<Rightarrow> 'o) option \<Rightarrow> ('c, 'o, 'x) sharedInformerFactory" where
  "NewFilteredSharedInformerFactory c resync ns t =
     NewSharedInformerFactoryWithOptions c resync [WithNamespace ns, WithTweakListOptions t]"

text \<open>A goroutine runs the informer of a type until its stop channel is closed.\<close>

type_synonym ('c, 'o, 'x, 's) goroutine = "reflectType \<times> ('c, 'o, 'x) sharedIndexInformer \<times> 's"

definition isStarted :: "('c, 'o, 'x) sharedInformerFactory \<Rightarrow> reflectType \<Rightarrow> bool" where
  "isStarted f ty \<longleftrightarrow> fmlookup (startedInformers f) ty = Some True"

text \<open>
  \<open>Start\<close> ranges over the informers in an order \<open>xs\<close> that the language leaves open, and returns the
  goroutines it starts beside the factory.
\<close>

fun startLoop ::
  "'s \<Rightarrow> (reflectType \<times> ('c, 'o, 'x) sharedIndexInformer) list \<Rightarrow> ('c, 'o, 'x) sharedInformerFactory
     \<Rightarrow> ('c, 'o, 'x) sharedInformerFactory \<times> ('c, 'o, 'x, 's) goroutine list" where
  "startLoop stopCh [] f = (f, [])"
| "startLoop stopCh ((informerType, informer) # xs) f =
     (if \<not> isStarted f informerType
      then (case startLoop stopCh xs
                  (f\<lparr>wg := wg f + 1, startedInformers := fmupd informerType True (startedInformers f)\<rparr>) of
              (f', gs) \<Rightarrow> (f', (informerType, informer, stopCh) # gs))
      else startLoop stopCh xs f)"

definition Start ::
  "(reflectType \<times> ('c, 'o, 'x) sharedIndexInformer) list \<Rightarrow> 's \<Rightarrow> ('c, 'o, 'x) sharedInformerFactory
     \<Rightarrow> ('c, 'o, 'x) sharedInformerFactory \<times> ('c, 'o, 'x, 's) goroutine list" where
  "Start xs stopCh f = (if shuttingDown f then (f, []) else startLoop stopCh xs f)"

text \<open>\<open>Shutdown\<close> up to its wait for the wait group; it returns once the count is zero.\<close>

definition beginShutdown :: "('c, 'o, 'x) sharedInformerFactory \<Rightarrow> ('c, 'o, 'x) sharedInformerFactory" where
  "beginShutdown f = f\<lparr>shuttingDown := True\<rparr>"

definition waitDone :: "('c, 'o, 'x) sharedInformerFactory \<Rightarrow> bool" where
  "waitDone f \<longleftrightarrow> wg f = 0"

text \<open>\<open>f.wg.Done()\<close>, deferred by the goroutine of an informer, panics at zero.\<close>

definition wgDone :: "('c, 'o, 'x) sharedInformerFactory \<Rightarrow> ('c, 'o, 'x) sharedInformerFactory option" where
  "wgDone f = (if wg f = 0 then None else Some (f\<lparr>wg := wg f - 1\<rparr>))"

text \<open>The answers of \<open>cache.WaitForCacheSync\<close> for the informers that were started.\<close>

definition WaitForCacheSync ::
  "(('c, 'o, 'x) sharedIndexInformer \<Rightarrow> bool) \<Rightarrow> ('c, 'o, 'x) sharedInformerFactory \<Rightarrow> (reflectType, bool) fmap" where
  "WaitForCacheSync waitForCacheSync f = fmmap waitForCacheSync (fmfilter (isStarted f) (informers f))"

definition InformerFor ::
  "reflectType \<Rightarrow> ('c \<Rightarrow> int \<Rightarrow> ('c, 'o, 'x) sharedIndexInformer) \<Rightarrow> ('c, 'o, 'x) sharedInformerFactory
     \<Rightarrow> ('c, 'o, 'x) sharedIndexInformer \<times> ('c, 'o, 'x) sharedInformerFactory" where
  "InformerFor informerType newFunc f =
     (case fmlookup (informers f) informerType of
        Some informer \<Rightarrow> (informer, f)
      | None \<Rightarrow>
          (let resyncPeriod = (case fmlookup (customResync f) informerType of Some d \<Rightarrow> d | None \<Rightarrow> defaultResync f);
               informer = (newFunc (sif_client f) resyncPeriod)\<lparr>inf_transform := transform f\<rparr>
           in (informer, f\<lparr>informers := fmupd informerType informer (informers f)\<rparr>)))"


section \<open>The informers of the API (multicluster/v1alpha1)\<close>

datatype kind = KClusterSource | KClusterSummary | KClusterTarget | KPodChaperon | KSource | KTarget

fun typeName :: "kind \<Rightarrow> reflectType" where
  "typeName KClusterSource = ''*v1alpha1.ClusterSource''"
| "typeName KClusterSummary = ''*v1alpha1.ClusterSummary''"
| "typeName KClusterTarget = ''*v1alpha1.ClusterTarget''"
| "typeName KPodChaperon = ''*v1alpha1.PodChaperon''"
| "typeName KSource = ''*v1alpha1.Source''"
| "typeName KTarget = ''*v1alpha1.Target''"

fun resourceName :: "kind \<Rightarrow> string" where
  "resourceName KClusterSource = ''clustersources''"
| "resourceName KClusterSummary = ''clustersummaries''"
| "resourceName KClusterTarget = ''clustertargets''"
| "resourceName KPodChaperon = ''podchaperons''"
| "resourceName KSource = ''sources''"
| "resourceName KTarget = ''targets''"

text \<open>\<open>f.Multicluster()\<close> and \<open>.V1alpha1()\<close> copy the namespace and the filter of the factory.\<close>

record 'o version =
  v_namespace :: string
  v_tweakListOptions :: "('o \<Rightarrow> 'o) option"

definition Multicluster :: "('c, 'o, 'x) sharedInformerFactory \<Rightarrow> 'o version" where
  "Multicluster f = \<lparr>v_namespace = sif_namespace f, v_tweakListOptions = tweakListOptions f\<rparr>"

definition V1alpha1 :: "'o version \<Rightarrow> 'o version" where
  "V1alpha1 g = \<lparr>v_namespace = v_namespace g, v_tweakListOptions = v_tweakListOptions g\<rparr>"

text \<open>
  What the two functions of a list watcher call: the client's \<open>List\<close> or \<open>Watch\<close> of the resource, in the
  namespace if there is one, with the options after the filter.
\<close>

definition tweaked :: "('c, 'o, 'x) sharedIndexInformer \<Rightarrow> 'o \<Rightarrow> 'o" where
  "tweaked i options = (case inf_tweak i of None \<Rightarrow> options | Some t \<Rightarrow> t options)"

definition ListFunc ::
  "('c \<Rightarrow> string \<Rightarrow> string option \<Rightarrow> 'o \<Rightarrow> 'r) \<Rightarrow> ('c, 'o, 'x) sharedIndexInformer \<Rightarrow> 'o \<Rightarrow> 'r" where
  "ListFunc List i options = List (inf_client i) (inf_resource i) (inf_namespace i) (tweaked i options)"

definition WatchFunc ::
  "('c \<Rightarrow> string \<Rightarrow> string option \<Rightarrow> 'o \<Rightarrow> 'r) \<Rightarrow> ('c, 'o, 'x) sharedIndexInformer \<Rightarrow> 'o \<Rightarrow> 'r" where
  "WatchFunc Watch i options = Watch (inf_client i) (inf_resource i) (inf_namespace i) (tweaked i options)"

text \<open>
  \<open>cache.NewSharedIndexInformer\<close> of a list watcher on a client, and of the type of an empty object.
\<close>

definition newSharedIndexInformer ::
  "'c \<Rightarrow> string \<Rightarrow> string option \<Rightarrow> ('o \<Rightarrow> 'o) option \<Rightarrow> reflectType \<Rightarrow> int \<Rightarrow> string list
     \<Rightarrow> ('c, 'o, 'x) sharedIndexInformer" where
  "newSharedIndexInformer c resource ns tweak obj resyncPeriod indexers =
     \<lparr>inf_client = c, inf_resource = resource, inf_namespace = ns, inf_tweak = tweak, inf_object = obj,
      inf_resyncPeriod = resyncPeriod, inf_indexers = indexers, inf_transform = None\<rparr>"

definition NewFilteredClusterSourceInformer ::
  "'c \<Rightarrow> int \<Rightarrow> string list \<Rightarrow> ('o \<Rightarrow> 'o) option \<Rightarrow> ('c, 'o, 'x) sharedIndexInformer" where
  "NewFilteredClusterSourceInformer c resyncPeriod indexers tweak =
     newSharedIndexInformer c ''clustersources'' None tweak (typeName KClusterSource) resyncPeriod indexers"

definition NewFilteredClusterSummaryInformer ::
  "'c \<Rightarrow> int \<Rightarrow> string list \<Rightarrow> ('o \<Rightarrow> 'o) option \<Rightarrow> ('c, 'o, 'x) sharedIndexInformer" where
  "NewFilteredClusterSummaryInformer c resyncPeriod indexers tweak =
     newSharedIndexInformer c ''clustersummaries'' None tweak (typeName KClusterSummary) resyncPeriod indexers"

definition NewFilteredClusterTargetInformer ::
  "'c \<Rightarrow> int \<Rightarrow> string list \<Rightarrow> ('o \<Rightarrow> 'o) option \<Rightarrow> ('c, 'o, 'x) sharedIndexInformer" where
  "NewFilteredClusterTargetInformer c resyncPeriod indexers tweak =
     newSharedIndexInformer c ''clustertargets'' None tweak (typeName KClusterTarget) resyncPeriod indexers"

definition NewFilteredPodChaperonInformer ::
  "'c \<Rightarrow> string \<Rightarrow> int \<Rightarrow> string list \<Rightarrow> ('o \<Rightarrow> 'o) option \<Rightarrow> ('c, 'o, 'x) sharedIndexInformer" where
  "NewFilteredPodChaperonInformer c ns resyncPeriod indexers tweak =
     newSharedIndexInformer c ''podchaperons'' (Some ns) tweak (typeName KPodChaperon) resyncPeriod indexers"

definition NewFilteredSourceInformer ::
  "'c \<Rightarrow> string \<Rightarrow> int \<Rightarrow> string list \<Rightarrow> ('o \<Rightarrow> 'o) option \<Rightarrow> ('c, 'o, 'x) sharedIndexInformer" where
  "NewFilteredSourceInformer c ns resyncPeriod indexers tweak =
     newSharedIndexInformer c ''sources'' (Some ns) tweak (typeName KSource) resyncPeriod indexers"

definition NewFilteredTargetInformer ::
  "'c \<Rightarrow> string \<Rightarrow> int \<Rightarrow> string list \<Rightarrow> ('o \<Rightarrow> 'o) option \<Rightarrow> ('c, 'o, 'x) sharedIndexInformer" where
  "NewFilteredTargetInformer c ns resyncPeriod indexers tweak =
     newSharedIndexInformer c ''targets'' (Some ns) tweak (typeName KTarget) resyncPeriod indexers"

text \<open>
  The informer handle of a kind: \<open>f.Multicluster().V1alpha1().ClusterSources()\<close> and its siblings.  The
  handles of the kinds of the cluster have no namespace field.
\<close>

datatype 'o kindInformer =
    ClusterSourceInformer "('o \<Rightarrow> 'o) option"
  | ClusterSummaryInformer "('o \<Rightarrow> 'o) option"
  | ClusterTargetInformer "('o \<Rightarrow> 'o) option"
  | PodChaperonInformer string "('o \<Rightarrow> 'o) option"
  | SourceInformer string "('o \<Rightarrow> 'o) option"
  | TargetInformer string "('o \<Rightarrow> 'o) option"

fun versionInformer :: "kind \<Rightarrow> 'o version \<Rightarrow> 'o kindInformer" where
  "versionInformer KClusterSource v = ClusterSourceInformer (v_tweakListOptions v)"
| "versionInformer KClusterSummary v = ClusterSummaryInformer (v_tweakListOptions v)"
| "versionInformer KClusterTarget v = ClusterTargetInformer (v_tweakListOptions v)"
| "versionInformer KPodChaperon v = PodChaperonInformer (v_namespace v) (v_tweakListOptions v)"
| "versionInformer KSource v = SourceInformer (v_namespace v) (v_tweakListOptions v)"
| "versionInformer KTarget v = TargetInformer (v_namespace v) (v_tweakListOptions v)"

text \<open>The one default index is that of the namespaces.\<close>

fun defaultInformer :: "'o kindInformer \<Rightarrow> 'c \<Rightarrow> int \<Rightarrow> ('c, 'o, 'x) sharedIndexInformer" where
  "defaultInformer (ClusterSourceInformer t) c d = NewFilteredClusterSourceInformer c d [''namespace''] t"
| "defaultInformer (ClusterSummaryInformer t) c d = NewFilteredClusterSummaryInformer c d [''namespace''] t"
| "defaultInformer (ClusterTargetInformer t) c d = NewFilteredClusterTargetInformer c d [''namespace''] t"
| "defaultInformer (PodChaperonInformer ns t) c d = NewFilteredPodChaperonInformer c ns d [''namespace''] t"
| "defaultInformer (SourceInformer ns t) c d = NewFilteredSourceInformer c ns d [''namespace''] t"
| "defaultInformer (TargetInformer ns t) c d = NewFilteredTargetInformer c ns d [''namespace''] t"

fun informerType :: "'o kindInformer \<Rightarrow> reflectType" where
  "informerType (ClusterSourceInformer t) = typeName KClusterSource"
| "informerType (ClusterSummaryInformer t) = typeName KClusterSummary"
| "informerType (ClusterTargetInformer t) = typeName KClusterTarget"
| "informerType (PodChaperonInformer ns t) = typeName KPodChaperon"
| "informerType (SourceInformer ns t) = typeName KSource"
| "informerType (TargetInformer ns t) = typeName KTarget"

definition Informer_method ::
  "'o kindInformer \<Rightarrow> ('c, 'o, 'x) sharedInformerFactory
     \<Rightarrow> ('c, 'o, 'x) sharedIndexInformer \<times> ('c, 'o, 'x) sharedInformerFactory" where
  "Informer_method ki f = InformerFor (informerType ki) (defaultInformer ki) f"

definition informerOf ::
  "kind \<Rightarrow> ('c, 'o, 'x) sharedInformerFactory
     \<Rightarrow> ('c, 'o, 'x) sharedIndexInformer \<times> ('c, 'o, 'x) sharedInformerFactory" where
  "informerOf k f = Informer_method (versionInformer k (V1alpha1 (Multicluster f))) f"

text \<open>\<open>ForResource\<close>: the informer of a resource by its name, or an error.\<close>

record groupVersionResource =
  Group :: string
  Version :: string
  Resource :: string

definition WithResource :: "string \<Rightarrow> groupVersionResource" where
  "WithResource r = \<lparr>Group = ''multicluster.admiralty.io'', Version = ''v1alpha1'', Resource = r\<rparr>"

definition ForResource ::
  "(groupVersionResource \<Rightarrow> string) \<Rightarrow> groupVersionResource \<Rightarrow> ('c, 'o, 'x) sharedInformerFactory
     \<Rightarrow> (error + string \<times> ('c, 'o, 'x) sharedIndexInformer) \<times> ('c, 'o, 'x) sharedInformerFactory" where
  "ForResource printed resource f =
     (let generic = (\<lambda>k. case informerOf k f of (informer, f') \<Rightarrow> (Inr (Resource resource, informer), f'))
      in if resource = WithResource ''clustersources'' then generic KClusterSource
         else if resource = WithResource ''clustersummaries'' then generic KClusterSummary
         else if resource = WithResource ''clustertargets'' then generic KClusterTarget
         else if resource = WithResource ''podchaperons'' then generic KPodChaperon
         else if resource = WithResource ''sources'' then generic KSource
         else if resource = WithResource ''targets'' then generic KTarget
         else (Inl (Errorf (''no informer found for '' @ printed resource)), f))"


section \<open>The loop of Start\<close>

definition unstarted ::
  "('c, 'o, 'x) sharedInformerFactory \<Rightarrow> (reflectType \<times> ('c, 'o, 'x) sharedIndexInformer) list
     \<Rightarrow> (reflectType \<times> ('c, 'o, 'x) sharedIndexInformer) list" where
  "unstarted f xs = filter (\<lambda>x. \<not> isStarted f (fst x)) xs"

text \<open>The loop in closed form: as the keys of a map are distinct, no iteration hides one from the next.\<close>

lemma isStarted_upd [simp]:
  "isStarted (f\<lparr>wg := n, startedInformers := fmupd ty True (startedInformers f)\<rparr>) t \<longleftrightarrow> t = ty \<or> isStarted f t"
  by (auto simp: isStarted_def)

lemma startLoop_eq:
  "distinct (map fst xs) \<Longrightarrow>
   startLoop stop xs f =
     (f\<lparr>wg := wg f + length (unstarted f xs),
        startedInformers := foldl (\<lambda>m t. fmupd t True m) (startedInformers f) (map fst (unstarted f xs))\<rparr>,
      map (\<lambda>(t, i). (t, i, stop)) (unstarted f xs))"
proof (induction stop xs f rule: startLoop.induct)
  case (2 stop ty i xs f)
  let ?f = "f\<lparr>wg := wg f + 1, startedInformers := fmupd ty True (startedInformers f)\<rparr>"
  have "unstarted ?f xs = unstarted f xs"
    unfolding unstarted_def by (rule filter_cong) (use "2.prems" in \<open>force simp del: One_nat_def\<close>)+
  then show ?case using 2 by (simp add: unstarted_def)
qed (simp add: unstarted_def)

lemma fmlookup_foldl_True:
  "fmlookup (foldl (\<lambda>m t. fmupd t True m) m ts) t = (if t \<in> set ts then Some True else fmlookup m t)"
  by (induction ts arbitrary: m) auto

lemma range_unstarted:
  assumes "is_range xs (informers f)"
  shows "(t, i) \<in> set (unstarted f xs) \<longleftrightarrow> \<not> isStarted f t \<and> fmlookup (informers f) t = Some i"
  using is_rangeD [OF assms, of t i] by (auto simp: unstarted_def)

lemma range_unstarted_mset:
  assumes "is_range xs m" and "is_range ys m"
  shows "mset (unstarted f xs) = mset (unstarted f ys)"
proof -
  have "distinct xs" "distinct ys" "set xs = set ys"
    using assms is_rangeD [OF assms(1)] is_rangeD [OF assms(2)]
    by (auto simp: is_range_def distinct_map)
  then have "mset xs = mset ys" by (simp add: set_eq_iff_mset_eq_distinct)
  then show ?thesis by (simp add: unstarted_def)
qed

lemma Start_any_order:
  assumes "is_range xs (informers f)" and "is_range ys (informers f)"
  shows "fst (Start xs stop f) = fst (Start ys stop f) \<and>
         mset (snd (Start xs stop f)) = mset (snd (Start ys stop f))"
proof -
  have m: "mset (unstarted f xs) = mset (unstarted f ys)"
    by (rule range_unstarted_mset [OF assms])
  then have "set (unstarted f xs) = set (unstarted f ys)" by (metis set_mset_mset)
  then have "foldl (\<lambda>m t. fmupd t True m) M (map fst (unstarted f xs)) =
      foldl (\<lambda>m t. fmupd t True m) M (map fst (unstarted f ys))" for M
    by (intro fmap_ext) (simp add: fmlookup_foldl_True)
  moreover have "length (unstarted f xs) = length (unstarted f ys)" using m by (metis size_mset)
  ultimately show ?thesis
    using m assms by (simp add: Start_def startLoop_eq is_range_def)
qed


section \<open>The factory and its goroutines\<close>

text \<open>
  The state of the factory with every goroutine it ever started, those that still run, the closed stop
  channels and the calls of \<open>Shutdown\<close> that wait; a panic of the wait group is recorded.
\<close>

record ('c, 'o, 'x, 's) factorySystem =
  factory :: "('c, 'o, 'x) sharedInformerFactory"
  launched :: "('c, 'o, 'x, 's) goroutine list"
  running :: "('c, 'o, 'x, 's) goroutine multiset"
  closed :: "'s set"
  waiting :: "nat set"
  panicked :: bool

definition initSystem :: "('c, 'o, 'x) sharedInformerFactory \<Rightarrow> ('c, 'o, 'x, 's) factorySystem" where
  "initSystem f = \<lparr>factory = f, launched = [], running = {#}, closed = {}, waiting = {}, panicked = False\<rparr>"

datatype ('c, 'o, 'x, 's) factoryEvent =
    CallInformerFor reflectType "('c, 'o, 'x) sharedIndexInformer"
  | CallStart 's
  | CallShutdown nat
  | ReturnShutdown nat
  | GoDone "('c, 'o, 'x, 's) goroutine"
  | CloseStop 's

inductive fstep ::
  "('c, 'o, 'x, 's) factorySystem \<Rightarrow> ('c, 'o, 'x, 's) factoryEvent \<Rightarrow> ('c, 'o, 'x, 's) factorySystem \<Rightarrow> bool" where
  call_InformerFor:
    "InformerFor ty newFunc (factory s) = (i, f) \<Longrightarrow> fstep s (CallInformerFor ty i) (s\<lparr>factory := f\<rparr>)"
| call_Start:
    "is_range xs (informers (factory s)) \<Longrightarrow> Start xs stop (factory s) = (f, gs) \<Longrightarrow>
     fstep s (CallStart stop) (s\<lparr>factory := f, launched := launched s @ gs, running := running s + mset gs\<rparr>)"
| call_Shutdown:
    "fstep s (CallShutdown t) (s\<lparr>factory := beginShutdown (factory s), waiting := insert t (waiting s)\<rparr>)"
| return_Shutdown:
    "t \<in> waiting s \<Longrightarrow> waitDone (factory s) \<Longrightarrow>
     fstep s (ReturnShutdown t) (s\<lparr>waiting := waiting s - {t}\<rparr>)"
| go_Done:
    "g \<in># running s \<Longrightarrow> snd (snd g) \<in> closed s \<Longrightarrow>
     fstep s (GoDone g)
       (case wgDone (factory s) of
          None \<Rightarrow> s\<lparr>panicked := True\<rparr>
        | Some f \<Rightarrow> s\<lparr>factory := f, running := running s - {#g#}\<rparr>)"
| close_Stop:
    "fstep s (CloseStop c) (s\<lparr>closed := insert c (closed s)\<rparr>)"

text \<open>Any interleaving of the calls, the ends of goroutines and the closing of channels.\<close>

inductive fruns ::
  "('c, 'o, 'x, 's) factorySystem \<Rightarrow> ('c, 'o, 'x, 's) factoryEvent list \<Rightarrow> ('c, 'o, 'x, 's) factorySystem \<Rightarrow> bool" where
  fruns_Nil: "fruns s [] s"
| fruns_Cons: "fstep s e s' \<Longrightarrow> fruns s' es s'' \<Longrightarrow> fruns s (e # es) s''"

inductive_simps fruns_Nil_iff [simp]: "fruns s [] s'"
inductive_simps fruns_Cons_iff: "fruns s (e # es) s'"
inductive_cases fstep_DoneE: "fstep s (GoDone g) s'"
inductive_cases fstep_ReturnE: "fstep s (ReturnShutdown t) s'"
inductive_cases fstep_InformerForE: "fstep s (CallInformerFor ty i) s'"


section \<open>The invariant\<close>

definition factory_inv :: "('c, 'o, 'x, 's) factorySystem \<Rightarrow> bool" where
  "factory_inv s \<longleftrightarrow>
     distinct (map fst (launched s)) \<and>
     (\<forall>t. isStarted (factory s) t \<longleftrightarrow> t \<in> fst ` set (launched s)) \<and>
     (\<forall>(t, i, stop) \<in> set (launched s). fmlookup (informers (factory s)) t = Some i) \<and>
     running s \<subseteq># mset (launched s) \<and>
     wg (factory s) = size (running s) \<and>
     \<not> panicked s"

definition freshFactory :: "('c, 'o, 'x) sharedInformerFactory \<Rightarrow> bool" where
  "freshFactory f \<longleftrightarrow>
     informers f = fmempty \<and> startedInformers f = fmempty \<and> wg f = 0 \<and> \<not> shuttingDown f"

text \<open>The options of the package touch none of these fields.\<close>

definition packageOption :: "('c, 'o, 'x) sharedInformerOption \<Rightarrow> bool" where
  "packageOption opt \<longleftrightarrow>
     (\<exists>r. opt = WithCustomResyncConfig r) \<or> (\<exists>t. opt = WithTweakListOptions t) \<or>
     (\<exists>ns. opt = WithNamespace ns) \<or> (\<exists>x. opt = WithTransform x)"

lemma packageOption_fresh: "packageOption opt \<Longrightarrow> freshFactory f \<Longrightarrow> freshFactory (opt f)"
  by (auto simp: packageOption_def freshFactory_def WithCustomResyncConfig_def WithTweakListOptions_def
      WithNamespace_def WithTransform_def)

lemma foldl_packageOption:
  "\<forall>opt \<in> set opts. packageOption opt \<Longrightarrow> freshFactory f \<Longrightarrow>
   freshFactory (foldl (\<lambda>factory opt. opt factory) f opts)"
  by (induction opts arbitrary: f) (auto simp: packageOption_fresh)

lemma NewFactory_fresh:
  "\<forall>opt \<in> set opts. packageOption opt \<Longrightarrow> freshFactory (NewSharedInformerFactoryWithOptions c d opts)"
  unfolding NewSharedInformerFactoryWithOptions_def by (rule foldl_packageOption) (auto simp: freshFactory_def)

lemma initSystem_inv: "freshFactory f \<Longrightarrow> factory_inv (initSystem f)"
  by (simp add: factory_inv_def freshFactory_def initSystem_def isStarted_def)

lemma InformerFor_frame:
  assumes "InformerFor ty newFunc f = (i, f')"
  shows "fmlookup (informers f') t = (if t = ty then Some i else fmlookup (informers f) t)"
    and "fmlookup (informers f) ty = Some j \<Longrightarrow> i = j"
    and "isStarted f' = isStarted f" "wg f' = wg f" "shuttingDown f' = shuttingDown f"
  using assms by (auto simp: InformerFor_def Let_def isStarted_def fun_eq_iff split: option.splits)

lemma Start_frame:
  assumes "is_range xs (informers f)" and "Start xs stop f = (f', gs)"
  shows "informers f' = informers f" "shuttingDown f' = shuttingDown f"
    and "wg f' = wg f + length gs"
    and "(t, i, c) \<in> set gs \<longleftrightarrow>
      \<not> shuttingDown f \<and> c = stop \<and> \<not> isStarted f t \<and> fmlookup (informers f) t = Some i"
    and "distinct (map fst gs)"
    and "isStarted f' t \<longleftrightarrow> isStarted f t \<or> t \<in> fst ` set gs"
proof -
  have d: "distinct (map fst xs)" using assms(1) by (simp add: is_range_def)
  have m: "map fst (unstarted f xs) = filter (\<lambda>t. \<not> isStarted f t) (map fst xs)"
    by (simp add: unstarted_def filter_map comp_def)
  note eq = assms(2) [unfolded Start_def startLoop_eq [OF d]]
  show "informers f' = informers f" "shuttingDown f' = shuttingDown f" "wg f' = wg f + length gs"
    using eq by (auto split: if_splits)
  show "(t, i, c) \<in> set gs \<longleftrightarrow>
      \<not> shuttingDown f \<and> c = stop \<and> \<not> isStarted f t \<and> fmlookup (informers f) t = Some i"
    using eq range_unstarted [OF assms(1), of t i] by (force split: if_splits)
  have gs: "gs = (if shuttingDown f then [] else map (\<lambda>(t, i). (t, i, stop)) (unstarted f xs))"
    using eq by (auto split: if_splits)
  then have "map fst gs = (if shuttingDown f then [] else map fst (unstarted f xs))"
    by (simp add: comp_def case_prod_unfold)
  then show "distinct (map fst gs)" using d by (simp add: m)
  have st: "fst ` set gs = (if shuttingDown f then {} else set (map fst (unstarted f xs)))"
    by (simp add: gs image_image case_prod_unfold)
  show "isStarted f' t \<longleftrightarrow> isStarted f t \<or> t \<in> fst ` set gs"
    unfolding st using eq
    by (cases "shuttingDown f") (auto simp del: set_map simp: isStarted_def fmlookup_foldl_True)
qed

lemma wgDone_frame:
  "wgDone f = Some f' \<Longrightarrow> wg f' = wg f - 1 \<and> informers f' = informers f \<and> isStarted f' = isStarted f \<and>
     shuttingDown f' = shuttingDown f"
  by (auto simp: wgDone_def isStarted_def fun_eq_iff split: if_splits)

lemma wgDone_running:
  "factory_inv s \<Longrightarrow> g \<in># running s \<Longrightarrow> wgDone (factory s) = Some ((factory s)\<lparr>wg := wg (factory s) - 1\<rparr>)"
  by (cases "running s") (auto simp: factory_inv_def wgDone_def)

lemma beginShutdown_frame [simp]:
  "wg (beginShutdown f) = wg f" "informers (beginShutdown f) = informers f"
  "isStarted (beginShutdown f) = isStarted f" "shuttingDown (beginShutdown f)"
  by (auto simp: beginShutdown_def isStarted_def fun_eq_iff)

lemma fstep_inv: "fstep s e s' \<Longrightarrow> factory_inv s \<Longrightarrow> factory_inv s'"
proof (induction rule: fstep.induct)
  case (call_InformerFor ty newFunc s i f)
  note fr = InformerFor_frame [OF call_InformerFor(1)]
  show ?case using call_InformerFor(2) fr(2)
    by (force simp: factory_inv_def fr(1,3,4) split: prod.splits)
next
  case (call_Start xs s stop f gs)
  note fr = Start_frame [OF call_Start(1,2)]
  have st: "isStarted (factory s) t \<longleftrightarrow> t \<in> fst ` set (launched s)" for t
    using call_Start(3) by (simp add: factory_inv_def)
  have "x \<notin> fst ` set (launched s)" if "x \<in> fst ` set gs" for x
    using that fr(4) by (auto simp: st [symmetric])
  then have "fst ` set (launched s) \<inter> fst ` set gs = {}" by auto
  moreover have "\<forall>(t, i, c) \<in> set gs. fmlookup (informers (factory s)) t = Some i" using fr(4) by auto
  ultimately show ?case using call_Start(3) fr(5)
    by (simp add: factory_inv_def fr(1,3,6) image_Un ball_Un subset_mset.add_mono)
next
  case (go_Done g s)
  then have "running s - {#g#} \<subseteq># mset (launched s)" "size (running s - {#g#}) = wg (factory s) - 1"
    by (auto simp: factory_inv_def size_Diff_singleton intro: subset_mset.order_trans [OF diff_subset_eq_self])
  moreover have "isStarted ((factory s)\<lparr>wg := n\<rparr>) = isStarted (factory s)" for n
    by (simp add: isStarted_def fun_eq_iff)
  ultimately show ?case using go_Done(3)
    by (simp add: wgDone_running [OF go_Done(3,1)] factory_inv_def)
qed (simp_all add: factory_inv_def)

lemma fruns_inv: "fruns s es s' \<Longrightarrow> factory_inv s \<Longrightarrow> factory_inv s'"
  by (induction rule: fruns.induct) (auto intro: fstep_inv)

lemma fruns_init_inv:
  "\<forall>opt \<in> set opts. packageOption opt \<Longrightarrow>
   fruns (initSystem (NewSharedInformerFactoryWithOptions c d opts)) es s \<Longrightarrow> factory_inv s"
  by (rule fruns_inv) (auto intro: initSystem_inv NewFactory_fresh)


section \<open>Each informer is shared and runs once\<close>

lemma fstep_keeps_informer:
  "fstep s e s' \<Longrightarrow> fmlookup (informers (factory s)) t = Some i \<Longrightarrow> fmlookup (informers (factory s')) t = Some i"
proof (induction rule: fstep.induct)
  case (call_InformerFor ty newFunc s j f)
  then show ?case using InformerFor_frame(1,2) [OF call_InformerFor(1)] by auto
next
  case (call_Start xs s stop f gs)
  then show ?case by (simp add: Start_frame(1))
qed (auto simp: wgDone_def)

lemma fruns_keeps_informer:
  "fruns s es s' \<Longrightarrow> fmlookup (informers (factory s)) t = Some i \<Longrightarrow> fmlookup (informers (factory s')) t = Some i"
  by (induction rule: fruns.induct) (auto intro: fstep_keeps_informer)

lemma fruns_InformerFor:
  "fruns s es s' \<Longrightarrow> CallInformerFor t i \<in> set es \<Longrightarrow> fmlookup (informers (factory s')) t = Some i"
proof (induction rule: fruns.induct)
  case (fruns_Cons s e s' es s'')
  show ?case
  proof (cases "e = CallInformerFor t i")
    case True
    with fruns_Cons(1) have "fmlookup (informers (factory s')) t = Some i"
      by (auto elim!: fstep_InformerForE simp: InformerFor_frame(1))
    then show ?thesis by (rule fruns_keeps_informer [OF fruns_Cons(2)])
  qed (use fruns_Cons in auto)
qed simp

lemma informers_shared:
  assumes "fruns s0 es s" and "factory_inv s0"
  shows "CallInformerFor t i \<in> set es \<Longrightarrow> CallInformerFor t j \<in> set es \<Longrightarrow> i = j"
    and "CallInformerFor t i \<in> set es \<Longrightarrow> (t, j, stop) \<in> set (launched s) \<Longrightarrow> i = j"
  using fruns_InformerFor [OF assms(1), of t i] fruns_InformerFor [OF assms(1), of t j] fruns_inv [OF assms]
  by (auto simp: factory_inv_def)


section \<open>Shutdown\<close>

lemma fstep_shuttingDown:
  "fstep s e s' \<Longrightarrow> shuttingDown (factory s) \<Longrightarrow>
   shuttingDown (factory s') \<and> launched s' = launched s \<and> running s' \<subseteq># running s"
proof (induction rule: fstep.induct)
  case (call_InformerFor ty newFunc s i f)
  then show ?case by (simp add: InformerFor_frame(5))
next
  case (call_Start xs s stop f gs)
  then show ?case by (auto simp: Start_def)
qed (auto simp: wgDone_def)

lemma fruns_shuttingDown:
  "fruns s es s' \<Longrightarrow> shuttingDown (factory s) \<Longrightarrow>
   shuttingDown (factory s') \<and> launched s' = launched s \<and> running s' \<subseteq># running s"
proof (induction rule: fruns.induct)
  case (fruns_Cons s e s' es s'')
  then show ?case using fstep_shuttingDown [OF fruns_Cons(1)] by (auto intro: subset_mset.order_trans)
qed simp

lemma fstep_waiting:
  "fstep s e s' \<Longrightarrow> (waiting s \<noteq> {} \<longrightarrow> shuttingDown (factory s)) \<Longrightarrow>
   waiting s' \<noteq> {} \<longrightarrow> shuttingDown (factory s')"
proof (induction rule: fstep.induct)
  case (call_InformerFor ty newFunc s i f)
  then show ?case by (simp add: InformerFor_frame(5))
next
  case (call_Start xs s stop f gs)
  then show ?case using Start_frame(2) [OF call_Start(1,2)] by simp
qed (auto simp: wgDone_def)

lemma fruns_waiting:
  "fruns s es s' \<Longrightarrow> (waiting s \<noteq> {} \<longrightarrow> shuttingDown (factory s)) \<Longrightarrow>
   waiting s' \<noteq> {} \<longrightarrow> shuttingDown (factory s')"
proof (induction rule: fruns.induct)
  case (fruns_Cons s e s' es s'')
  then show ?case using fstep_waiting [OF fruns_Cons(1)] by blast
qed simp

lemma fruns_append: "fruns s (as @ bs) s' \<longleftrightarrow> (\<exists>m. fruns s as m \<and> fruns m bs s')"
  by (induction as arbitrary: s) (auto simp: fruns_Cons_iff)

lemma Shutdown_final:
  assumes "factory_inv s0" and "waiting s0 = {}" and "fruns s0 es s" and "ReturnShutdown t \<in> set es"
  shows "running s = {#}"
proof -
  obtain as bs where es: "es = as @ ReturnShutdown t # bs" using assms(4) by (auto dest: split_list)
  then obtain a b where a: "fruns s0 as a" and ab: "fstep a (ReturnShutdown t) b" and b: "fruns b bs s"
    using assms(3) by (auto simp: fruns_append fruns_Cons_iff)
  have w: "t \<in> waiting a" "wg (factory a) = 0" "running b = running a" "factory b = factory a"
    using ab by (auto elim!: fstep_ReturnE simp: waitDone_def)
  have "shuttingDown (factory a)" using fruns_waiting [OF a] assms(2) w(1) by blast
  moreover have "running a = {#}" using fruns_inv [OF a assms(1)] w(2) by (simp add: factory_inv_def)
  ultimately show ?thesis using fruns_shuttingDown [OF b] w(3,4) by simp
qed

text \<open>
  Property C39.  In any interleaving of calls on a new factory, all the calls for one type get the same
  informer, at most one goroutine is ever started for a type and it runs that informer, the wait group counts
  the goroutines that still run and never panics, and once a call of \<open>Shutdown\<close> has returned none runs, whatever
  is called afterwards.
\<close>

theorem informer_lifecycle:
  assumes "\<forall>opt \<in> set opts. packageOption opt"
    and "fruns (initSystem (NewSharedInformerFactoryWithOptions c d opts)) es s"
  shows "(\<forall>t i j. CallInformerFor t i \<in> set es \<longrightarrow> CallInformerFor t j \<in> set es \<longrightarrow> i = j) \<and>
         distinct (map fst (launched s)) \<and>
         (\<forall>t i j stop. CallInformerFor t i \<in> set es \<longrightarrow> (t, j, stop) \<in> set (launched s) \<longrightarrow> i = j) \<and>
         running s \<subseteq># mset (launched s) \<and> wg (factory s) = size (running s) \<and> \<not> panicked s \<and>
         (\<forall>t. ReturnShutdown t \<in> set es \<longrightarrow> running s = {#})"
proof -
  let ?s0 = "initSystem (NewSharedInformerFactoryWithOptions c d opts)"
  have i0: "factory_inv ?s0" by (intro initSystem_inv NewFactory_fresh assms(1))
  have "running s = {#}" if "ReturnShutdown t \<in> set es" for t
    by (rule Shutdown_final [OF i0 _ assms(2) that]) (simp add: initSystem_def)
  then show ?thesis
    using informers_shared [OF assms(2) i0] fruns_inv [OF assms(2) i0] unfolding factory_inv_def by blast
qed

text \<open>A run that starts an informer, shuts down, waits for it, and calls \<open>Start\<close> once more.\<close>

definition lifecycleEvents ::
  "reflectType \<Rightarrow> ('c, 'o, 'x) sharedIndexInformer \<Rightarrow> 's \<Rightarrow> ('c, 'o, 'x, 's) factoryEvent list" where
  "lifecycleEvents ty i c =
     [CallInformerFor ty i, CallStart c, CallShutdown 0, CloseStop c, GoDone (ty, i, c), ReturnShutdown 0, CallStart c]"

lemma lifecycle_run:
  assumes "freshFactory f" and "InformerFor ty newFunc f = (i, f1)"
  shows "\<exists>s. fruns (initSystem f) (lifecycleEvents ty i c) s \<and> launched s = [(ty, i, c)]"
proof -
  have f: "informers f = fmempty" "startedInformers f = fmempty" "wg f = 0" "\<not> shuttingDown f"
    using assms(1) by (simp_all add: freshFactory_def)
  then have f1: "f1 = f\<lparr>informers := fmupd ty i fmempty\<rparr>" using assms(2) by (auto simp: InformerFor_def Let_def)
  let ?f2 = "f1\<lparr>wg := 1, startedInformers := fmupd ty True fmempty\<rparr>"
  let ?g = "(ty, i, c)"
  let ?s0 = "initSystem f"
  let ?s1 = "?s0\<lparr>factory := f1\<rparr>"
  let ?s2 = "?s1\<lparr>factory := ?f2, launched := launched ?s1 @ [?g], running := running ?s1 + mset [?g]\<rparr>"
  let ?s3 = "?s2\<lparr>factory := beginShutdown (factory ?s2), waiting := insert 0 (waiting ?s2)\<rparr>"
  let ?s4 = "?s3\<lparr>closed := insert c (closed ?s3)\<rparr>"
  let ?s5 = "?s4\<lparr>factory := (factory ?s4)\<lparr>wg := 0\<rparr>, running := running ?s4 - {#?g#}\<rparr>"
  let ?s6 = "?s5\<lparr>waiting := waiting ?s5 - {0}\<rparr>"
  let ?s7 = "?s6\<lparr>factory := factory ?s6, launched := launched ?s6 @ [], running := running ?s6 + mset []\<rparr>"
  have ns: "\<not> isStarted f1 ty" using f by (simp add: f1 isStarted_def)
  have a1: "fstep ?s0 (CallInformerFor ty i) ?s1"
    by (rule fstep.call_InformerFor [of _ newFunc]) (simp add: initSystem_def assms(2))
  have a2: "fstep ?s1 (CallStart c) ?s2"
    by (rule fstep.call_Start [of "[(ty, i)]"]) (use f ns in \<open>simp_all add: f1 is_range_def Start_def\<close>)
  have a3: "fstep ?s2 (CallShutdown 0) ?s3" by (rule fstep.call_Shutdown)
  have a4: "fstep ?s3 (CloseStop c) ?s4" by (rule fstep.close_Stop)
  have a5: "fstep ?s4 (GoDone ?g) ?s5"
    using fstep.go_Done [of ?g ?s4] by (simp add: wgDone_def beginShutdown_def)
  have a6: "fstep ?s5 (ReturnShutdown 0) ?s6"
    by (rule fstep.return_Shutdown) (simp_all add: waitDone_def)
  have a7: "fstep ?s6 (CallStart c) ?s7"
    by (rule fstep.call_Start [of "[(ty, i)]"]) (simp_all add: f1 is_range_def Start_def beginShutdown_def)
  have "fruns ?s0 (lifecycleEvents ty i c) ?s7"
    unfolding lifecycleEvents_def
    by (rule fruns_Cons [OF a1 fruns_Cons [OF a2 fruns_Cons [OF a3 fruns_Cons [OF a4
          fruns_Cons [OF a5 fruns_Cons [OF a6 fruns_Cons [OF a7 fruns_Nil]]]]]]])
  moreover have "launched ?s7 = [?g]" by (simp add: initSystem_def)
  ultimately show ?thesis by blast
qed

theorem informer_lifecycle_witness:
  "\<exists>s :: (nat, nat, nat, nat) factorySystem.
     fruns (initSystem (NewSharedInformerFactoryWithOptions 0 30 [WithNamespace ''ns'']))
       (lifecycleEvents ''*v1.Pod'' (newSharedIndexInformer 0 ''pods'' None None ''*v1.Pod'' 30 []) 7) s \<and>
     launched s = [(''*v1.Pod'', newSharedIndexInformer 0 ''pods'' None None ''*v1.Pod'' 30 [], 7)] \<and>
     wg (factory s) = 0 \<and> running s = {#} \<and> \<not> panicked s"
proof -
  let ?new = "\<lambda>c d. newSharedIndexInformer c ''pods'' None None ''*v1.Pod'' d [] :: (nat, nat, nat) sharedIndexInformer"
  let ?opts = "[WithNamespace ''ns''] :: (nat, nat, nat) sharedInformerOption list"
  let ?f = "NewSharedInformerFactoryWithOptions 0 30 ?opts"
  have o: "\<forall>opt \<in> set ?opts. packageOption opt" by (auto simp: packageOption_def)
  have "fst (InformerFor ''*v1.Pod'' ?new ?f) = ?new 0 30"
    by (simp add: InformerFor_def Let_def NewSharedInformerFactoryWithOptions_def WithNamespace_def
        newSharedIndexInformer_def)
  then obtain f1 where f1: "InformerFor ''*v1.Pod'' ?new ?f = (?new 0 30, f1)" by (metis prod.collapse)
  from lifecycle_run [OF NewFactory_fresh [OF o] f1, of 7]
  obtain s :: "(nat, nat, nat, nat) factorySystem" where
    s: "fruns (initSystem ?f) (lifecycleEvents ''*v1.Pod'' (?new 0 30) 7) s"
      "launched s = [(''*v1.Pod'', ?new 0 30, 7)]"
    by (elim exE conjE)
  from informer_lifecycle [OF o s(1)] have "running s = {#}" "wg (factory s) = size (running s)" "\<not> panicked s"
    by (auto simp: lifecycleEvents_def)
  then show ?thesis using s by auto
qed

text \<open>
  The other half of the contract: with the stop channels closed, a waiting call returns.  The goroutines that
  are left can end one after the other, in every order, and no other step adds one.
\<close>

lemma fstep_GoDone:
  assumes "factory_inv s" and "g \<in># running s" and "snd (snd g) \<in> closed s"
  shows "fstep s (GoDone g)
      (s\<lparr>factory := (factory s)\<lparr>wg := wg (factory s) - 1\<rparr>, running := running s - {#g#}\<rparr>)"
  using fstep.go_Done [OF assms(2,3)] by (simp add: wgDone_running [OF assms(1,2)])

lemma drain:
  assumes "factory_inv s" and "\<forall>g \<in># running s. snd (snd g) \<in> closed s" and "mset gs = running s"
  shows "\<exists>s'. fruns s (map GoDone gs) s' \<and> running s' = {#} \<and> waitDone (factory s') \<and> waiting s' = waiting s"
  using assms
proof (induction gs arbitrary: s)
  case Nil
  then have "running s = {#}" by simp
  then show ?case using Nil(1) by (simp add: waitDone_def factory_inv_def)
next
  case (Cons g gs)
  let ?s = "s\<lparr>factory := (factory s)\<lparr>wg := wg (factory s) - 1\<rparr>, running := running s - {#g#}\<rparr>"
  have g: "g \<in># running s" using Cons.prems(3) by (metis list.set_intros(1) set_mset_mset)
  have st: "fstep s (GoDone g) ?s" using fstep_GoDone Cons.prems(1,2) g by blast
  have "factory_inv ?s" by (rule fstep_inv [OF st Cons.prems(1)])
  moreover have "\<forall>x \<in># running ?s. snd (snd x) \<in> closed ?s" using Cons.prems(2) by (auto dest: in_diffD)
  moreover have "mset gs = running ?s" using Cons.prems(3) by (simp flip: Cons.prems(3))
  ultimately obtain s' where "fruns ?s (map GoDone gs) s'" "running s' = {#}" "waitDone (factory s')"
      "waiting s' = waiting ?s"
    using Cons.IH by blast
  then show ?case using st by (auto intro!: fruns_Cons)
qed

lemma Shutdown_returns:
  assumes "\<forall>opt \<in> set opts. packageOption opt"
    and "fruns (initSystem (NewSharedInformerFactoryWithOptions c d opts)) es s"
    and "t \<in> waiting s" and "\<forall>g \<in># running s. snd (snd g) \<in> closed s" and "mset gs = running s"
  shows "\<exists>s'. fruns s (map GoDone gs @ [ReturnShutdown t]) s' \<and> running s' = {#} \<and> t \<notin> waiting s'"
proof -
  obtain m where m: "fruns s (map GoDone gs) m" "running m = {#}" "waitDone (factory m)" "waiting m = waiting s"
    using drain [OF fruns_init_inv [OF assms(1,2)] assms(4,5)] by blast
  have "fstep m (ReturnShutdown t) (m\<lparr>waiting := waiting m - {t}\<rparr>)"
    by (rule fstep.return_Shutdown) (use m assms(3) in simp_all)
  then have "fruns s (map GoDone gs @ [ReturnShutdown t]) (m\<lparr>waiting := waiting m - {t}\<rparr>)"
    using m(1) by (auto simp: fruns_append fruns_Cons_iff)
  then show ?thesis using m(2) by (intro exI [of _ "m\<lparr>waiting := waiting m - {t}\<rparr>"]) simp
qed

lemma WaitForCacheSync_started:
  "factory_inv s \<Longrightarrow>
   fset (fmdom (WaitForCacheSync sync (factory s))) = fst ` set (launched s)"
  by (auto simp: WaitForCacheSync_def factory_inv_def fmlookup_dom_iff image_iff split: if_splits)


section \<open>What the informers of a factory read\<close>

text \<open>
  What the informer of a kind must be: on the client of the factory, filtered by its filter, in its namespace
  if the kind has one.
\<close>

fun namespaced :: "kind \<Rightarrow> bool" where
  "namespaced k \<longleftrightarrow> k \<in> {KPodChaperon, KSource, KTarget}"

definition expectedInformer :: "kind \<Rightarrow> ('c, 'o, 'x) sharedInformerFactory \<Rightarrow> ('c, 'o, 'x) sharedIndexInformer" where
  "expectedInformer k f =
     \<lparr>inf_client = sif_client f, inf_resource = resourceName k,
      inf_namespace = (if namespaced k then Some (sif_namespace f) else None),
      inf_tweak = tweakListOptions f, inf_object = typeName k,
      inf_resyncPeriod = (case fmlookup (customResync f) (typeName k) of Some d \<Rightarrow> d | None \<Rightarrow> defaultResync f),
      inf_indexers = [''namespace''], inf_transform = transform f\<rparr>"

lemmas newInformer_defs =
  NewFilteredClusterSourceInformer_def NewFilteredClusterSummaryInformer_def NewFilteredClusterTargetInformer_def
  NewFilteredPodChaperonInformer_def NewFilteredSourceInformer_def NewFilteredTargetInformer_def
  newSharedIndexInformer_def

lemma typeName_inj: "typeName k = typeName k' \<longleftrightarrow> k = k'"
  by (cases k; cases k') simp_all

lemma informerType_version: "informerType (versionInformer k v) = typeName k"
  by (cases k) simp_all

lemma informerOf_absent:
  "fmlookup (informers f) (typeName k) = None \<Longrightarrow>
   informerOf k f = (expectedInformer k f, f\<lparr>informers := fmupd (typeName k) (expectedInformer k f) (informers f)\<rparr>)"
  by (cases k)
    (simp_all add: informerOf_def Informer_method_def InformerFor_def Let_def newInformer_defs Multicluster_def
      V1alpha1_def expectedInformer_def)

lemma informerOf_present:
  "fmlookup (informers f) (typeName k) = Some i \<Longrightarrow> informerOf k f = (i, f)"
  by (simp add: informerOf_def Informer_method_def InformerFor_def informerType_version)

fun informersOf :: "kind list \<Rightarrow> ('c, 'o, 'x) sharedInformerFactory
    \<Rightarrow> ('c, 'o, 'x) sharedIndexInformer list \<times> ('c, 'o, 'x) sharedInformerFactory" where
  "informersOf [] f = ([], f)"
| "informersOf (k # ks) f =
     (case informerOf k f of (i, f') \<Rightarrow> case informersOf ks f' of (is, f'') \<Rightarrow> (i # is, f''))"

definition asExpected :: "('c, 'o, 'x) sharedInformerFactory \<Rightarrow> bool" where
  "asExpected f \<longleftrightarrow> (\<forall>k i. fmlookup (informers f) (typeName k) = Some i \<longrightarrow> i = expectedInformer k f)"

lemma expectedInformer_upd [simp]: "expectedInformer k (f\<lparr>informers := m\<rparr>) = expectedInformer k f"
  by (simp add: expectedInformer_def cong: option.case_cong)

lemma informerOf_asExpected:
  assumes "asExpected f"
  shows "\<exists>m. informerOf k f = (expectedInformer k f, f\<lparr>informers := m\<rparr>) \<and> asExpected (f\<lparr>informers := m\<rparr>)"
proof (cases "fmlookup (informers f) (typeName k)")
  case None
  then show ?thesis using assms
    by (intro exI [of _ "fmupd (typeName k) (expectedInformer k f) (informers f)"])
      (auto simp: informerOf_absent asExpected_def typeName_inj)
next
  case (Some i)
  then show ?thesis using assms
    by (intro exI [of _ "informers f"]) (auto simp: informerOf_present asExpected_def)
qed

lemma informersOf_asExpected:
  "asExpected f \<Longrightarrow> fst (informersOf ks f) = map (\<lambda>k. expectedInformer k f) ks"
proof (induction ks arbitrary: f)
  case (Cons k ks)
  obtain m where m: "informerOf k f = (expectedInformer k f, f\<lparr>informers := m\<rparr>)" "asExpected (f\<lparr>informers := m\<rparr>)"
    using informerOf_asExpected [OF Cons.prems] by blast
  then show ?case using Cons.IH [OF m(2)] by (simp add: case_prod_unfold)
qed simp

text \<open>
  The factory that the agent makes for a client and a namespace gives, for any sequence of
  requests, informers that list with that client: in that namespace the kinds that have one, in the whole
  cluster the others.
\<close>

lemma informersOf_factory:
  "fst (informersOf ks (NewSharedInformerFactoryWithOptions c resync [WithNamespace ns])) =
   map (\<lambda>k. \<lparr>inf_client = c, inf_resource = resourceName k,
      inf_namespace = (if namespaced k then Some ns else None), inf_tweak = None, inf_object = typeName k,
      inf_resyncPeriod = resync, inf_indexers = [''namespace''], inf_transform = None\<rparr>) ks"
proof -
  let ?f = "NewSharedInformerFactoryWithOptions c resync [WithNamespace ns]"
  have "asExpected ?f"
    by (simp add: asExpected_def NewSharedInformerFactoryWithOptions_def WithNamespace_def)
  then have eq: "fst (informersOf ks ?f) = map (\<lambda>k. expectedInformer k ?f) ks"
    by (rule informersOf_asExpected)
  show ?thesis unfolding eq
    by (simp add: expectedInformer_def NewSharedInformerFactoryWithOptions_def
        WithNamespace_def del: namespaced.simps cong: if_cong)
qed

lemma informers_read_namespace:
  fixes List Watch :: "'c \<Rightarrow> string \<Rightarrow> string option \<Rightarrow> 'o \<Rightarrow> 'r"
  defines "is ks c resync ns \<equiv> fst (informersOf ks
      (NewSharedInformerFactoryWithOptions c resync [WithNamespace ns] :: ('c, 'o, 'x) sharedInformerFactory))"
  shows "map (\<lambda>i. ListFunc List i options) (is ks c resync ns) =
      map (\<lambda>k. List c (resourceName k) (if namespaced k then Some ns else None) options) ks"
    and "map (\<lambda>i. WatchFunc Watch i options) (is ks c resync ns) =
      map (\<lambda>k. Watch c (resourceName k) (if namespaced k then Some ns else None) options) ks"
  unfolding is_def informersOf_factory
  by (simp_all add: ListFunc_def WatchFunc_def tweaked_def comp_def del: namespaced.simps)

text \<open>\<open>ForResource\<close> knows the six resources of the group version, and gives the same shared informers.\<close>

lemma ForResource_known:
  "ForResource printed (WithResource (resourceName k)) f =
     (case informerOf k f of (i, f') \<Rightarrow> (Inr (resourceName k, i), f'))"
  by (cases k) (simp_all add: ForResource_def WithResource_def Let_def)

lemma all_kind:
  "(\<forall>k. P k) \<longleftrightarrow>
   P KClusterSource \<and> P KClusterSummary \<and> P KClusterTarget \<and> P KPodChaperon \<and> P KSource \<and> P KTarget"
  by (auto intro: kind.induct)

lemma ForResource_unknown:
  "\<forall>k. r \<noteq> WithResource (resourceName k) \<Longrightarrow>
   ForResource printed r f = (Inl (Errorf (''no informer found for '' @ printed r)), f)"
  by (simp add: all_kind ForResource_def Let_def)


section \<open>The factories of the agent\<close>

text \<open>
  The agent makes its factories for the program's own API with a resync of thirty seconds and the namespace of
  the target.  What \<open>resolve\<close> says of an informer of the agent is what the list calls of that informer show,
  whichever informers of the factory were asked for before.
\<close>

definition agentFactory :: "informerFactory \<Rightarrow> (apiClient, 'o, 'x) sharedInformerFactory" where
  "agentFactory f = NewSharedInformerFactoryWithOptions (if_client f) (30 * 10 ^ 9) [WithNamespace (if_namespace f)]"

fun kindOf :: "resourceKind \<Rightarrow> kind option" where
  "kindOf RPodChaperons = Some KPodChaperon"
| "kindOf RClusterSummaries = Some KClusterSummary"
| "kindOf RSources = Some KSource"
| "kindOf RClusterSources = Some KClusterSource"
| "kindOf _ = None"

lemma agent_informer_reads:
  assumes "resolve fs (Informer n r) = Some (c, ns, r)" and "kindOf r = Some k"
  shows "ListFunc List (last (fst (informersOf (ks @ [k])
           (agentFactory (fs ! n) :: (apiClient, 'o, 'x) sharedInformerFactory)))) options =
         List c (resourceName k) (if namespaced k then Some ns else None) options"
proof -
  have c: "if_client (fs ! n) = c" "if_namespace (fs ! n) = ns" using assms(1) by (auto split: if_splits)
  let ?is = "fst (informersOf (ks @ [k]) (agentFactory (fs ! n) :: (apiClient, 'o, 'x) sharedInformerFactory))"
  have eq: "map (\<lambda>i. ListFunc List i options) ?is =
      map (\<lambda>k. List c (resourceName k) (if namespaced k then Some ns else None) options) (ks @ [k])"
    unfolding agentFactory_def c by (rule informers_read_namespace(1))
  have "?is \<noteq> []" using arg_cong [OF eq, of length] by auto
  from arg_cong [OF eq, of last] this show ?thesis by (simp add: last_map del: namespaced.simps)
qed

end
