(* ===== verification/Listers.thy ===== *)
theory Listers
  imports Informer_Factory
begin

text \<open>
  The listers of the six kinds (\<open>pkg/generated/listers\<close>), which the controllers read the caches of the informers with.
  The index is \<open>cache.Indexer\<close>, outside the repository: what \<open>GetByKey\<close> finds, and the objects that \<open>cache.ListAll\<close> and
  \<open>cache.ListAllByNamespace\<close> call their function with, are parameters, and \<open>indexes\<close> is what they document.
  \<^item> \<open>lister_reads_cache\<close>: what a lister finds and lists is what the cache holds.
\<close>

section \<open>The index\<close>

text \<open>A stored object is a pointer with its Go type; the assertion to another type panics.\<close>

type_synonym 'o stored = "kind \<times> 'o"

record ('o, 'sel) indexer =
  GetByKey :: "string \<Rightarrow> error + 'o stored option"
  ListAll :: "'sel \<Rightarrow> 'o stored list \<times> error option"
  ListAllByNamespace :: "string \<Rightarrow> 'sel \<Rightarrow> 'o stored list \<times> error option"

record ('o, 'sel) namespaceLister =
  nl_indexer :: "('o, 'sel) indexer"
  nl_namespace :: string

definition assertKind :: "kind \<Rightarrow> 'o stored \<Rightarrow> ('e, 'o) io" where
  "assertKind k x = (if fst x = k then ret (snd x) else panic)"

text \<open>The function that the listing is called with appends every object to the result.\<close>

fun appendAll :: "kind \<Rightarrow> 'o list \<Rightarrow> 'o stored list \<Rightarrow> ('e, 'o list) io" where
  "appendAll k result [] = ret result"
| "appendAll k result (m # ms) = bindM (assertKind k m) (\<lambda>x. appendAll k (result @ [x]) ms)"

definition listInto :: "kind \<Rightarrow> 'o stored list \<times> error option \<Rightarrow> ('e, 'o list \<times> error option) io" where
  "listInto k visits = (case visits of (ms, err) \<Rightarrow> bindM (appendAll k [] ms) (\<lambda>result. ret (result, err)))"

text \<open>\<open>errors.NewNotFound(v1alpha1.Resource(...), name)\<close>, with \<open>NewNotFound\<close> a parameter.\<close>

definition Resource_v1alpha1 :: "string \<Rightarrow> string \<times> string" where
  "Resource_v1alpha1 resource = (Group (WithResource resource), Resource (WithResource resource))"

type_synonym notFound = "string \<times> string \<Rightarrow> string \<Rightarrow> error"


section \<open>ClusterSources (clustersource.go)\<close>

definition clusterSourceLister_List :: "('o, 'sel) indexer \<Rightarrow> 'sel \<Rightarrow> ('e, 'o list \<times> error option) io" where
  "clusterSourceLister_List s selector = listInto KClusterSource (ListAll s selector)"

definition clusterSourceLister_Get :: "notFound \<Rightarrow> ('o, 'sel) indexer \<Rightarrow> string \<Rightarrow> ('e, error + 'o) io" where
  "clusterSourceLister_Get NewNotFound s name =
     (case GetByKey s (name) of
        Inl err \<Rightarrow> ret (Inl err)
      | Inr None \<Rightarrow> ret (Inl (NewNotFound (Resource_v1alpha1 ''clustersource'') name))
      | Inr (Some obj) \<Rightarrow> bindM (assertKind KClusterSource obj) (\<lambda>obj. ret (Inr obj)))"


section \<open>ClusterSummaries (clustersummary.go)\<close>

definition clusterSummaryLister_List :: "('o, 'sel) indexer \<Rightarrow> 'sel \<Rightarrow> ('e, 'o list \<times> error option) io" where
  "clusterSummaryLister_List s selector = listInto KClusterSummary (ListAll s selector)"

definition clusterSummaryLister_Get :: "notFound \<Rightarrow> ('o, 'sel) indexer \<Rightarrow> string \<Rightarrow> ('e, error + 'o) io" where
  "clusterSummaryLister_Get NewNotFound s name =
     (case GetByKey s (name) of
        Inl err \<Rightarrow> ret (Inl err)
      | Inr None \<Rightarrow> ret (Inl (NewNotFound (Resource_v1alpha1 ''clustersummary'') name))
      | Inr (Some obj) \<Rightarrow> bindM (assertKind KClusterSummary obj) (\<lambda>obj. ret (Inr obj)))"


section \<open>ClusterTargets (clustertarget.go)\<close>

definition clusterTargetLister_List :: "('o, 'sel) indexer \<Rightarrow> 'sel \<Rightarrow> ('e, 'o list \<times> error option) io" where
  "clusterTargetLister_List s selector = listInto KClusterTarget (ListAll s selector)"

definition clusterTargetLister_Get :: "notFound \<Rightarrow> ('o, 'sel) indexer \<Rightarrow> string \<Rightarrow> ('e, error + 'o) io" where
  "clusterTargetLister_Get NewNotFound s name =
     (case GetByKey s (name) of
        Inl err \<Rightarrow> ret (Inl err)
      | Inr None \<Rightarrow> ret (Inl (NewNotFound (Resource_v1alpha1 ''clustertarget'') name))
      | Inr (Some obj) \<Rightarrow> bindM (assertKind KClusterTarget obj) (\<lambda>obj. ret (Inr obj)))"


section \<open>PodChaperons (podchaperon.go)\<close>

definition podChaperonLister_List :: "('o, 'sel) indexer \<Rightarrow> 'sel \<Rightarrow> ('e, 'o list \<times> error option) io" where
  "podChaperonLister_List s selector = listInto KPodChaperon (ListAll s selector)"

definition podChaperonLister_PodChaperons :: "('o, 'sel) indexer \<Rightarrow> string \<Rightarrow> ('o, 'sel) namespaceLister" where
  "podChaperonLister_PodChaperons s namespace = \<lparr>nl_indexer = s, nl_namespace = namespace\<rparr>"

definition podChaperonNamespaceLister_List :: "('o, 'sel) namespaceLister \<Rightarrow> 'sel \<Rightarrow> ('e, 'o list \<times> error option) io" where
  "podChaperonNamespaceLister_List s selector = listInto KPodChaperon (ListAllByNamespace (nl_indexer s) (nl_namespace s) selector)"

definition podChaperonNamespaceLister_Get :: "notFound \<Rightarrow> ('o, 'sel) namespaceLister \<Rightarrow> string \<Rightarrow> ('e, error + 'o) io" where
  "podChaperonNamespaceLister_Get NewNotFound s name =
     (case GetByKey (nl_indexer s) (nl_namespace s @ ''/'' @ name) of
        Inl err \<Rightarrow> ret (Inl err)
      | Inr None \<Rightarrow> ret (Inl (NewNotFound (Resource_v1alpha1 ''podchaperon'') name))
      | Inr (Some obj) \<Rightarrow> bindM (assertKind KPodChaperon obj) (\<lambda>obj. ret (Inr obj)))"


section \<open>Sources (source.go)\<close>

definition sourceLister_List :: "('o, 'sel) indexer \<Rightarrow> 'sel \<Rightarrow> ('e, 'o list \<times> error option) io" where
  "sourceLister_List s selector = listInto KSource (ListAll s selector)"

definition sourceLister_Sources :: "('o, 'sel) indexer \<Rightarrow> string \<Rightarrow> ('o, 'sel) namespaceLister" where
  "sourceLister_Sources s namespace = \<lparr>nl_indexer = s, nl_namespace = namespace\<rparr>"

definition sourceNamespaceLister_List :: "('o, 'sel) namespaceLister \<Rightarrow> 'sel \<Rightarrow> ('e, 'o list \<times> error option) io" where
  "sourceNamespaceLister_List s selector = listInto KSource (ListAllByNamespace (nl_indexer s) (nl_namespace s) selector)"

definition sourceNamespaceLister_Get :: "notFound \<Rightarrow> ('o, 'sel) namespaceLister \<Rightarrow> string \<Rightarrow> ('e, error + 'o) io" where
  "sourceNamespaceLister_Get NewNotFound s name =
     (case GetByKey (nl_indexer s) (nl_namespace s @ ''/'' @ name) of
        Inl err \<Rightarrow> ret (Inl err)
      | Inr None \<Rightarrow> ret (Inl (NewNotFound (Resource_v1alpha1 ''source'') name))
      | Inr (Some obj) \<Rightarrow> bindM (assertKind KSource obj) (\<lambda>obj. ret (Inr obj)))"


section \<open>Targets (target.go)\<close>

definition targetLister_List :: "('o, 'sel) indexer \<Rightarrow> 'sel \<Rightarrow> ('e, 'o list \<times> error option) io" where
  "targetLister_List s selector = listInto KTarget (ListAll s selector)"

definition targetLister_Targets :: "('o, 'sel) indexer \<Rightarrow> string \<Rightarrow> ('o, 'sel) namespaceLister" where
  "targetLister_Targets s namespace = \<lparr>nl_indexer = s, nl_namespace = namespace\<rparr>"

definition targetNamespaceLister_List :: "('o, 'sel) namespaceLister \<Rightarrow> 'sel \<Rightarrow> ('e, 'o list \<times> error option) io" where
  "targetNamespaceLister_List s selector = listInto KTarget (ListAllByNamespace (nl_indexer s) (nl_namespace s) selector)"

definition targetNamespaceLister_Get :: "notFound \<Rightarrow> ('o, 'sel) namespaceLister \<Rightarrow> string \<Rightarrow> ('e, error + 'o) io" where
  "targetNamespaceLister_Get NewNotFound s name =
     (case GetByKey (nl_indexer s) (nl_namespace s @ ''/'' @ name) of
        Inl err \<Rightarrow> ret (Inl err)
      | Inr None \<Rightarrow> ret (Inl (NewNotFound (Resource_v1alpha1 ''target'') name))
      | Inr (Some obj) \<Rightarrow> bindM (assertKind KTarget obj) (\<lambda>obj. ret (Inr obj)))"


section \<open>What a lister reads\<close>

text \<open>
  The listers of a kind, all together.  A namespace is given for the kinds that have one; to list a kind in all
  namespaces it is left out.
\<close>

fun singularName :: "kind \<Rightarrow> string" where
  "singularName KClusterSource = ''clustersource''"
| "singularName KClusterSummary = ''clustersummary''"
| "singularName KClusterTarget = ''clustertarget''"
| "singularName KPodChaperon = ''podchaperon''"
| "singularName KSource = ''source''"
| "singularName KTarget = ''target''"

fun anyLister_Get :: "notFound \<Rightarrow> kind \<Rightarrow> ('o, 'sel) indexer \<Rightarrow> string \<Rightarrow> string \<Rightarrow> ('e, error + 'o) io" where
  "anyLister_Get NewNotFound KClusterSource s namespace name = clusterSourceLister_Get NewNotFound s name"
| "anyLister_Get NewNotFound KClusterSummary s namespace name = clusterSummaryLister_Get NewNotFound s name"
| "anyLister_Get NewNotFound KClusterTarget s namespace name = clusterTargetLister_Get NewNotFound s name"
| "anyLister_Get NewNotFound KPodChaperon s namespace name = podChaperonNamespaceLister_Get NewNotFound (podChaperonLister_PodChaperons s namespace) name"
| "anyLister_Get NewNotFound KSource s namespace name = sourceNamespaceLister_Get NewNotFound (sourceLister_Sources s namespace) name"
| "anyLister_Get NewNotFound KTarget s namespace name = targetNamespaceLister_Get NewNotFound (targetLister_Targets s namespace) name"

fun anyLister_ListAll :: "kind \<Rightarrow> ('o, 'sel) indexer \<Rightarrow> 'sel \<Rightarrow> ('e, 'o list \<times> error option) io" where
  "anyLister_ListAll KClusterSource s selector = clusterSourceLister_List s selector"
| "anyLister_ListAll KClusterSummary s selector = clusterSummaryLister_List s selector"
| "anyLister_ListAll KClusterTarget s selector = clusterTargetLister_List s selector"
| "anyLister_ListAll KPodChaperon s selector = podChaperonLister_List s selector"
| "anyLister_ListAll KSource s selector = sourceLister_List s selector"
| "anyLister_ListAll KTarget s selector = targetLister_List s selector"

fun anyLister_List :: "kind \<Rightarrow> ('o, 'sel) indexer \<Rightarrow> string \<Rightarrow> 'sel \<Rightarrow> ('e, 'o list \<times> error option) io" where
  "anyLister_List KClusterSource s namespace selector = clusterSourceLister_List s selector"
| "anyLister_List KClusterSummary s namespace selector = clusterSummaryLister_List s selector"
| "anyLister_List KClusterTarget s namespace selector = clusterTargetLister_List s selector"
| "anyLister_List KPodChaperon s namespace selector = podChaperonNamespaceLister_List (podChaperonLister_PodChaperons s namespace) selector"
| "anyLister_List KSource s namespace selector = sourceNamespaceLister_List (sourceLister_Sources s namespace) selector"
| "anyLister_List KTarget s namespace selector = targetNamespaceLister_List (targetLister_Targets s namespace) selector"

text \<open>
  An index of the objects of a kind: each is filed under its namespace and its name, joined by a slash if it has a
  namespace, and a listing visits those that match the selector.
\<close>

definition keyOf :: "'a objmeta_scheme \<Rightarrow> string" where
  "keyOf obj = (if Namespace obj = [] then Name obj else Namespace obj @ ''/'' @ Name obj)"

definition indexes :: "('a objmeta_scheme \<Rightarrow> 'sel \<Rightarrow> bool) \<Rightarrow> kind \<Rightarrow> 'a objmeta_scheme list
    \<Rightarrow> ('a objmeta_scheme, 'sel) indexer \<Rightarrow> bool" where
  "indexes match k objs s \<longleftrightarrow>
     (\<forall>key. GetByKey s key = Inr (map_option (Pair k) (find (\<lambda>obj. keyOf obj = key) objs)))
     \<and> (\<forall>sel. ListAll s sel = (map (Pair k) (filter (\<lambda>obj. match obj sel) objs), None))
     \<and> (\<forall>ns sel. ListAllByNamespace s ns sel = (map (Pair k) (filter (\<lambda>obj. Namespace obj = ns \<and> match obj sel) objs), None))"

text \<open>Objects as the API server admits them: no slash in names, and a namespace just for the kinds that have one.\<close>

definition admitted :: "kind \<Rightarrow> 'a objmeta_scheme list \<Rightarrow> bool" where
  "admitted k objs \<longleftrightarrow> distinct (map (\<lambda>obj. (Namespace obj, Name obj)) objs)
     \<and> (\<forall>obj \<in> set objs. CHR ''/'' \<notin> set (Namespace obj) \<and> CHR ''/'' \<notin> set (Name obj) \<and> (Namespace obj \<noteq> [] \<longleftrightarrow> namespaced k))"

lemma appendAll_Pair: "appendAll k result (map (Pair k) xs) = ret (result @ xs)"
  by (induction xs arbitrary: result) (simp_all add: assertKind_def bindM_def ret_def)

lemma listInto_Pair [simp]: "listInto k (map (Pair k) xs, err) = ret (xs, err)"
  by (simp add: listInto_def appendAll_Pair bindM_def ret_def)

text \<open>A namespace has no slash, so no two objects share a key.\<close>

lemma key_inj:
  fixes ns ns' :: string
  assumes "CHR ''/'' \<notin> set ns" "CHR ''/'' \<notin> set ns'" "ns @ ''/'' @ name = ns' @ ''/'' @ name'"
  shows "ns = ns' \<and> name = name'"
  using assms by (induction ns arbitrary: ns') (case_tac ns'; auto)+

lemma find_key:
  assumes "\<And>obj. obj \<in> set objs \<Longrightarrow> keyOf obj = key \<longleftrightarrow> Namespace obj = ns \<and> Name obj = name"
    and "distinct (map (\<lambda>obj. (Namespace obj, Name obj)) objs)"
  shows "find (\<lambda>obj. keyOf obj = key) objs = Some obj \<longleftrightarrow> obj \<in> set objs \<and> Namespace obj = ns \<and> Name obj = name"
  using assms
proof (induction objs)
  case (Cons x xs)
  then have "keyOf x = key \<longleftrightarrow> Namespace x = ns \<and> Name x = name" by simp
  then show ?case using Cons by (cases "keyOf x = key") (auto simp: rev_image_eqI)
qed simp

lemma keyOf_namespaced:
  assumes "admitted k objs" "obj \<in> set objs" "CHR ''/'' \<notin> set namespace"
  shows "namespaced k \<Longrightarrow> keyOf obj = namespace @ ''/'' @ name \<longleftrightarrow> Namespace obj = namespace \<and> Name obj = name"
    and "\<not> namespaced k \<Longrightarrow> keyOf obj = name \<longleftrightarrow> Namespace obj = [] \<and> Name obj = name"
  using assms key_inj [of "Namespace obj" namespace "Name obj" name] unfolding admitted_def keyOf_def by (auto simp del: namespaced.simps)

lemmas lister_defs = clusterSourceLister_Get_def clusterSourceLister_List_def
  clusterSummaryLister_Get_def clusterSummaryLister_List_def
  clusterTargetLister_Get_def clusterTargetLister_List_def
  podChaperonNamespaceLister_Get_def podChaperonNamespaceLister_List_def podChaperonLister_PodChaperons_def podChaperonLister_List_def
  sourceNamespaceLister_Get_def sourceNamespaceLister_List_def sourceLister_Sources_def sourceLister_List_def
  targetNamespaceLister_Get_def targetNamespaceLister_List_def targetLister_Targets_def targetLister_List_def

lemma anyLister_Get_found:
  assumes "indexes match k objs s"
  shows "anyLister_Get NewNotFound k s namespace name h = (Ret (Inr obj), h') \<longleftrightarrow>
    h' = h \<and> find (\<lambda>obj. keyOf obj = (if namespaced k then namespace @ ''/'' @ name else name)) objs = Some obj"
  using assms
  by (cases k) (auto simp: lister_defs indexes_def assertKind_def bindM_def ret_def split: option.splits)

text \<open>
  What a lister reads is what the cache holds, for every one of the six kinds.  When the index files the objects of
  the kind as documented, and these are as the API server admits them, \<open>Get\<close> finds the object of a namespace and a
  name if there is one and it finds nothing else; otherwise its error is that of a missing object; a
  listing returns just the objects that match the selector, those of the namespace for a lister of a
  namespace; so \<open>Get\<close> finds just what a listing of everything shows.
\<close>

theorem lister_reads_cache:
  fixes obj :: "'a objmeta_scheme"
  assumes "indexes match k objs s" "admitted k objs" "CHR ''/'' \<notin> set namespace"
  defines "ns \<equiv> if namespaced k then namespace else []"
  shows "anyLister_Get NewNotFound k s namespace name h = (Ret (Inr obj), h)
      \<longleftrightarrow> obj \<in> set objs \<and> Namespace obj = ns \<and> Name obj = name"
    and "(\<forall>x \<in> set objs. \<not> (Namespace x = ns \<and> Name x = name)) \<longrightarrow>
      anyLister_Get NewNotFound k s namespace name h = (Ret (Inl (NewNotFound (Resource_v1alpha1 (singularName k)) name)), h)"
    and "anyLister_ListAll k s sel h = (Ret (filter (\<lambda>x. match x sel) objs, None), h)"
    and "anyLister_List k s namespace sel h = (Ret (filter (\<lambda>x. Namespace x = ns \<and> match x sel) objs, None), h)"
proof -
  let ?key = "if namespaced k then namespace @ ''/'' @ name else name"
  have key: "keyOf x = ?key \<longleftrightarrow> Namespace x = ns \<and> Name x = name" if "x \<in> set objs" for x
    using keyOf_namespaced [OF assms(2) that assms(3)] unfolding ns_def by (auto simp del: namespaced.simps)
  have "distinct (map (\<lambda>obj. (Namespace obj, Name obj)) objs)" using assms(2) by (simp add: admitted_def)
  from find_key [OF key this]
  show "anyLister_Get NewNotFound k s namespace name h = (Ret (Inr obj), h)
      \<longleftrightarrow> obj \<in> set objs \<and> Namespace obj = ns \<and> Name obj = name"
    by (simp add: anyLister_Get_found [OF assms(1)] del: namespaced.simps)
  show "(\<forall>x \<in> set objs. \<not> (Namespace x = ns \<and> Name x = name)) \<longrightarrow>
      anyLister_Get NewNotFound k s namespace name h = (Ret (Inl (NewNotFound (Resource_v1alpha1 (singularName k)) name)), h)"
  proof
    assume "\<forall>x \<in> set objs. \<not> (Namespace x = ns \<and> Name x = name)"
    then have "find (\<lambda>x. keyOf x = ?key) objs = None"
      unfolding find_None_iff using key by (auto simp del: namespaced.simps)
    then show "anyLister_Get NewNotFound k s namespace name h = (Ret (Inl (NewNotFound (Resource_v1alpha1 (singularName k)) name)), h)"
      using assms(1) by (cases k) (auto simp: lister_defs indexes_def ret_def)
  qed
  show "anyLister_ListAll k s sel h = (Ret (filter (\<lambda>x. match x sel) objs, None), h)"
    using assms(1) by (cases k) (simp_all add: lister_defs indexes_def ret_def)
  have "filter (\<lambda>x. match x sel) objs = filter (\<lambda>x. Namespace x = ns \<and> match x sel) objs" if "\<not> namespaced k"
    using assms(2) that unfolding ns_def admitted_def by (intro filter_cong) (auto simp del: namespaced.simps)
  then show "anyLister_List k s namespace sel h = (Ret (filter (\<lambda>x. Namespace x = ns \<and> match x sel) objs, None), h)"
    using assms(1) unfolding ns_def by (cases k) (simp_all add: lister_defs indexes_def ret_def)
qed

end
