(* ===== verification/Rest_Requests.thy ===== *)
theory Rest_Requests
  imports Informer_Factory "HOL-Library.Word"
begin

text \<open>
  What the generated clients (\<open>pkg/generated/clientset\<close>) are made of.  The REST client of Kubernetes is not in the
  repository: a request is the list of the builder methods that were called on it, and what a server answers to
  \<open>Do\<close> or \<open>Watch\<close> is a function of the requests before it.  The fake clients of the tests record an action instead.
  Both are read as one and the same call of the API, so that the two families of clients can be compared.
\<close>

section \<open>Options, requests and answers\<close>

text \<open>
  Of the list options the clients touch two fields; the rest, and all other options, are opaque.  A duration is a
  64-bit number of nanoseconds.
\<close>

record 'p listOptions =
  TimeoutSeconds :: "64 word option"
  lo_Watch :: bool
  lo_rest :: 'p

datatype verb = VGet | VPost | VPut | VDelete | VPatch string

datatype ('p, 'o) requestBody = ObjectBody "'o option" | OptionsBody 'p | BytesBody string

datatype ('p, 'o) step =
    SNamespace string
  | SResource string
  | SName string
  | SSubResource "string list"
  | SVersionedParams 'p
  | SListParams "'p listOptions"
  | STimeout "64 word"
  | SBody "('p, 'o) requestBody"

record ('p, 'o) restRequest =
  rq_verb :: verb
  rq_steps :: "('p, 'o) step list"

datatype ('p, 'o) clientEvent = DoRequest "('p, 'o) restRequest" | WatchRequest "('p, 'o) restRequest"

record ('m, 'o) apiList =
  al_ListMeta :: 'm
  al_Items :: "'o list"

text \<open>
  \<open>rest.Interface\<close>: its answers, and what \<open>Into\<close> and \<open>Error\<close> make of them; \<open>zeroObject\<close> and \<open>zeroList\<close> are the
  values of \<open>&v1alpha1.T{}\<close>.
\<close>

record ('p, 'o, 'm, 'r, 'w) restInterface =
  rest_Do :: "('p, 'o) clientEvent list \<Rightarrow> ('p, 'o) restRequest \<Rightarrow> 'r"
  rest_Watch :: "('p, 'o) clientEvent list \<Rightarrow> ('p, 'o) restRequest \<Rightarrow> error + 'w"
  Into :: "'r \<Rightarrow> 'o \<Rightarrow> 'o \<times> error option"
  IntoList :: "'r \<Rightarrow> ('m, 'o) apiList \<Rightarrow> ('m, 'o) apiList \<times> error option"
  result_Error :: "'r \<Rightarrow> error option"
  zeroObject :: "kind \<Rightarrow> 'o"
  zeroList :: "kind \<Rightarrow> ('m, 'o) apiList"
  objectName :: "'o \<Rightarrow> string"

text \<open>The client of a kind; that of a kind with namespaces has one.  A method of a nil interface panics.\<close>

record ('p, 'o, 'm, 'r, 'w) typedClient =
  tc_client :: "('p, 'o, 'm, 'r, 'w) restInterface option"

record ('p, 'o, 'm, 'r, 'w) namespacedClient = "('p, 'o, 'm, 'r, 'w) typedClient" +
  tc_ns :: string

definition request :: "verb \<Rightarrow> ('p, 'o) step list \<Rightarrow> ('p, 'o) restRequest" where
  "request verb steps = \<lparr>rq_verb = verb, rq_steps = steps\<rparr>"

text \<open>
  The ways a chain ends: \<open>Do(ctx).Into(result)\<close> for an object and for a list, \<open>Do(ctx).Error()\<close> and \<open>Watch(ctx)\<close>.
  \<open>Into\<close> leaves the new, empty result in place when it fails.
\<close>

definition doInto :: "('p, 'o, 'm, 'r, 'w, 'z) typedClient_scheme \<Rightarrow> kind \<Rightarrow> verb \<Rightarrow> ('p, 'o) step list
    \<Rightarrow> (('p, 'o) clientEvent, 'o option \<times> error option) io" where
  "doInto c k verb steps =
     (case tc_client c of
        None \<Rightarrow> panic
      | Some rc \<Rightarrow>
          bindM (call (\<lambda>h. rest_Do rc h (request verb steps)) (DoRequest (request verb steps))) (\<lambda>r.
          case Into rc r (zeroObject rc k) of (result, err) \<Rightarrow> ret (Some result, err)))"

definition doIntoList :: "('p, 'o, 'm, 'r, 'w, 'z) typedClient_scheme \<Rightarrow> kind \<Rightarrow> verb \<Rightarrow> ('p, 'o) step list
    \<Rightarrow> (('p, 'o) clientEvent, ('m, 'o) apiList option \<times> error option) io" where
  "doIntoList c k verb steps =
     (case tc_client c of
        None \<Rightarrow> panic
      | Some rc \<Rightarrow>
          bindM (call (\<lambda>h. rest_Do rc h (request verb steps)) (DoRequest (request verb steps))) (\<lambda>r.
          case IntoList rc r (zeroList rc k) of (result, err) \<Rightarrow> ret (Some result, err)))"

definition doError :: "('p, 'o, 'm, 'r, 'w, 'z) typedClient_scheme \<Rightarrow> verb \<Rightarrow> ('p, 'o) step list
    \<Rightarrow> (('p, 'o) clientEvent, error option) io" where
  "doError c verb steps =
     (case tc_client c of
        None \<Rightarrow> panic
      | Some rc \<Rightarrow>
          bindM (call (\<lambda>h. rest_Do rc h (request verb steps)) (DoRequest (request verb steps))) (\<lambda>r.
          ret (result_Error rc r)))"

definition doWatch :: "('p, 'o, 'm, 'r, 'w, 'z) typedClient_scheme \<Rightarrow> verb \<Rightarrow> ('p, 'o) step list
    \<Rightarrow> (('p, 'o) clientEvent, error + 'w) io" where
  "doWatch c verb steps =
     (case tc_client c of
        None \<Rightarrow> panic
      | Some rc \<Rightarrow> call (\<lambda>h. rest_Watch rc h (request verb steps)) (WatchRequest (request verb steps)))"

text \<open>\<open>podChaperon.Name\<close> of a nil pointer panics.\<close>

definition nameOf :: "('p, 'o, 'm, 'r, 'w, 'z) typedClient_scheme \<Rightarrow> 'o option \<Rightarrow> (('p, 'o) clientEvent, string) io" where
  "nameOf c obj = (case (tc_client c, obj) of (Some rc, Some x) \<Rightarrow> ret (objectName rc x) | _ \<Rightarrow> panic)"

text \<open>\<open>time.Duration(*opts.TimeoutSeconds) * time.Second\<close>, in 64 bits.\<close>

definition listTimeout :: "'p listOptions \<Rightarrow> 64 word" where
  "listTimeout opts = (case TimeoutSeconds opts of None \<Rightarrow> 0 | Some s \<Rightarrow> s * 1000000000)"

text \<open>The method calls of a client and what they return, for statements about all of them.\<close>

datatype ('p, 'o) apiMethod =
    MGet string 'p
  | MList "'p listOptions"
  | MWatch "'p listOptions"
  | MCreate "'o option" 'p
  | MUpdate "'o option" 'p
  | MUpdateStatus "'o option" 'p
  | MDelete string 'p
  | MDeleteCollection 'p "'p listOptions"
  | MPatch string string string 'p "string list"

datatype ('o, 'm, 'w) answer =
    AnObject "'o option \<times> error option"
  | AListOf "('m, 'o) apiList option \<times> error option"
  | AWatch "error + 'w"
  | AnError "error option"
  | NoSuchMethod

definition mapM :: "('a \<Rightarrow> 'b) \<Rightarrow> ('e, 'a) io \<Rightarrow> ('e, 'b) io" where
  "mapM f m = bindM m (\<lambda>x. ret (f x))"


section \<open>Actions of the fake clients\<close>

record groupVersionKind =
  gvk_Group :: string
  gvk_Version :: string
  gvk_Kind :: string

definition WithKind :: "string \<Rightarrow> groupVersionKind" where
  "WithKind k = \<lparr>gvk_Group = ''multicluster.admiralty.io'', gvk_Version = ''v1alpha1'', gvk_Kind = k\<rparr>"

text \<open>The constructors of \<open>k8s.io/client-go/testing\<close> that the fakes call; those for kinds of the cluster are \<open>Root\<close>.\<close>

datatype ('p, 'o) action =
    NewGetAction groupVersionResource string string
  | NewListAction groupVersionResource groupVersionKind string "'p listOptions"
  | NewWatchAction groupVersionResource string "'p listOptions"
  | NewCreateAction groupVersionResource string "'o option"
  | NewUpdateAction groupVersionResource string "'o option"
  | NewUpdateSubresourceAction groupVersionResource string string "'o option"
  | NewDeleteActionWithOptions groupVersionResource string string 'p
  | NewDeleteCollectionAction groupVersionResource string "'p listOptions"
  | NewPatchSubresourceAction groupVersionResource string string string string "string list"
  | NewRootGetAction groupVersionResource string
  | NewRootListAction groupVersionResource groupVersionKind "'p listOptions"
  | NewRootWatchAction groupVersionResource "'p listOptions"
  | NewRootCreateAction groupVersionResource "'o option"
  | NewRootUpdateAction groupVersionResource "'o option"
  | NewRootUpdateSubresourceAction groupVersionResource string "'o option"
  | NewRootDeleteActionWithOptions groupVersionResource string 'p
  | NewRootDeleteCollectionAction groupVersionResource "'p listOptions"
  | NewRootPatchSubresourceAction groupVersionResource string string string "string list"

text \<open>A \<open>runtime.Object\<close> is a pointer with its dynamic type; a type assertion to another type panics.\<close>

datatype ('m, 'o) runtimeObject = ObjectOf kind "'o option" | ListOf kind "('m, 'o) apiList option" | OtherObject

record ('p, 'o, 'm, 'w, 'sel) fakeClient =
  Invokes :: "('p, 'o) action list \<Rightarrow> ('p, 'o) action \<Rightarrow> ('m, 'o) runtimeObject \<Rightarrow> ('m, 'o) runtimeObject option \<times> error option"
  InvokesWatch :: "('p, 'o) action list \<Rightarrow> ('p, 'o) action \<Rightarrow> error + 'w"
  ExtractLabel :: "'p listOptions \<Rightarrow> 'sel option"
  Everything :: 'sel
  Matches :: "'sel \<Rightarrow> (string, string) gomap \<Rightarrow> bool"
  objectLabels :: "'o \<Rightarrow> (string, string) gomap"
  fk_zeroObject :: "kind \<Rightarrow> 'o"
  fk_zeroList :: "kind \<Rightarrow> ('m, 'o) apiList"
  fk_zeroMeta :: 'm

definition objectAs :: "kind \<Rightarrow> ('m, 'o) runtimeObject \<Rightarrow> ('e, 'o option) io" where
  "objectAs k x = (case x of ObjectOf k' p \<Rightarrow> if k' = k then ret p else panic | _ \<Rightarrow> panic)"

text \<open>The assertion to the type of the list, and the dereference that follows it.\<close>

definition listAs :: "kind \<Rightarrow> ('m, 'o) runtimeObject \<Rightarrow> ('e, ('m, 'o) apiList) io" where
  "listAs k x =
     (case x of ListOf k' (Some l) \<Rightarrow> if k' = k then ret l else panic | _ \<Rightarrow> panic)"

definition invokes :: "('p, 'o, 'm, 'w, 'sel) fakeClient \<Rightarrow> ('p, 'o) action \<Rightarrow> ('m, 'o) runtimeObject
    \<Rightarrow> (('p, 'o) action, ('m, 'o) runtimeObject option \<times> error option) io" where
  "invokes fk a def = call (\<lambda>h. Invokes fk h a def) a"

text \<open>The object of a call, or nil with the error when there is none.\<close>

definition invokesObject :: "('p, 'o, 'm, 'w, 'sel) fakeClient \<Rightarrow> kind \<Rightarrow> ('p, 'o) action
    \<Rightarrow> (('p, 'o) action, 'o option \<times> error option) io" where
  "invokesObject fk k a =
     bindM (invokes fk a (ObjectOf k (Some (fk_zeroObject fk k)))) (\<lambda>(obj, err).
     case obj of
       None \<Rightarrow> ret (None, err)
     | Some x \<Rightarrow> bindM (objectAs k x) (\<lambda>p. ret (p, err)))"

text \<open>The items of a list that match the label selector of the options.\<close>

fun appendMatching :: "('o \<Rightarrow> bool) \<Rightarrow> 'o list \<Rightarrow> 'o list \<Rightarrow> 'o list" where
  "appendMatching P items [] = items"
| "appendMatching P items (item # rest) = appendMatching P (if P item then items @ [item] else items) rest"

definition invokesList :: "('p, 'o, 'm, 'w, 'sel) fakeClient \<Rightarrow> kind \<Rightarrow> 'p listOptions \<Rightarrow> ('p, 'o) action
    \<Rightarrow> (('p, 'o) action, ('m, 'o) apiList option \<times> error option) io" where
  "invokesList fk k opts a =
     bindM (invokes fk a (ListOf k (Some (fk_zeroList fk k)))) (\<lambda>(obj, err).
     case obj of
       None \<Rightarrow> ret (None, err)
     | Some x \<Rightarrow>
         (let label = (case ExtractLabel fk opts of None \<Rightarrow> Everything fk | Some l \<Rightarrow> l)
          in bindM (listAs k x) (\<lambda>l.
             ret (Some \<lparr>al_ListMeta = al_ListMeta l,
                        al_Items = appendMatching (\<lambda>item. Matches fk label (objectLabels fk item)) [] (al_Items l)\<rparr>, err))))"

definition invokesError :: "('p, 'o, 'm, 'w, 'sel) fakeClient \<Rightarrow> ('m, 'o) runtimeObject \<Rightarrow> ('p, 'o) action
    \<Rightarrow> (('p, 'o) action, error option) io" where
  "invokesError fk def a = bindM (invokes fk a def) (\<lambda>(_, err). ret err)"

definition invokesWatch :: "('p, 'o, 'm, 'w, 'sel) fakeClient \<Rightarrow> ('p, 'o) action \<Rightarrow> (('p, 'o) action, error + 'w) io" where
  "invokesWatch fk a = call (\<lambda>h. InvokesWatch fk h a) a"


section \<open>Calls of the API\<close>

text \<open>
  What a request or an action asks the API server for: the verb of the API, the resource, the namespace, name and
  subresources it is about, the object or data it carries and the options that filter a collection.
\<close>

datatype apiVerb = APIGet | APIList | APIWatch | APICreate | APIUpdate | APIDelete | APIDeleteCollection | APIPatch string

record ('p, 'o) apiCall =
  ac_verb :: apiVerb
  ac_resource :: string
  ac_namespace :: "string option"
  ac_name :: "string option"
  ac_subresources :: "string list"
  ac_object :: "'o option"
  ac_data :: string
  ac_filter :: "'p option"

definition single :: "'a list \<Rightarrow> 'a option" where
  "single xs = (case xs of [x] \<Rightarrow> Some x | _ \<Rightarrow> None)"

text \<open>The verb of a request is that of HTTP; a request with a name is about one object, one without about all.\<close>

fun verbOf :: "verb \<Rightarrow> bool \<Rightarrow> apiVerb" where
  "verbOf VGet named = (if named then APIGet else APIList)"
| "verbOf VPost named = APICreate"
| "verbOf VPut named = APIUpdate"
| "verbOf VDelete named = (if named then APIDelete else APIDeleteCollection)"
| "verbOf (VPatch pt) named = APIPatch pt"

definition readRequest :: "('p, 'o) restRequest \<Rightarrow> ('p, 'o) apiCall" where
  "readRequest r =
     (let steps = rq_steps r; name = single [n. SName n \<leftarrow> steps]
      in \<lparr>ac_verb = verbOf (rq_verb r) (name \<noteq> None),
          ac_resource = concat [n. SResource n \<leftarrow> steps],
          ac_namespace = single [n. SNamespace n \<leftarrow> steps],
          ac_name = name,
          ac_subresources = concat [ss. SSubResource ss \<leftarrow> steps],
          ac_object = Option.bind (single [p. SBody (ObjectBody p) \<leftarrow> steps]) id,
          ac_data = concat [d. SBody (BytesBody d) \<leftarrow> steps],
          ac_filter = map_option lo_rest (single [lo. SListParams lo \<leftarrow> steps])\<rparr>)"

text \<open>
  A list and a watch are the same request of HTTP: the API server tells them apart by the parameter \<open>watch\<close> of the
  list options that were encoded into it, not by the method of the client that reads the answer.
\<close>

definition asksToWatch :: "('p, 'o) restRequest \<Rightarrow> bool" where
  "asksToWatch r \<longleftrightarrow> list_ex lo_Watch [lo. SListParams lo \<leftarrow> rq_steps r]"

fun requestOf :: "('p, 'o) clientEvent \<Rightarrow> ('p, 'o) restRequest" where
  "requestOf (DoRequest r) = r"
| "requestOf (WatchRequest r) = r"

definition readEvent :: "('p, 'o) clientEvent \<Rightarrow> ('p, 'o) apiCall" where
  "readEvent e =
     (let ac = readRequest (requestOf e)
      in if ac_verb ac = APIList \<and> asksToWatch (requestOf e) then ac\<lparr>ac_verb := APIWatch\<rparr> else ac)"

text \<open>
  The parameters of a request, each as often as the chain sets it: options in the query, list options in the query,
  timeouts and options in the body.
\<close>

record 'p apiParams =
  ap_options :: "'p list"
  ap_lists :: "'p listOptions list"
  ap_timeouts :: "64 word list"
  ap_body :: "'p list"

definition requestParams :: "('p, 'o) clientEvent \<Rightarrow> 'p apiParams" where
  "requestParams e =
     (let steps = rq_steps (requestOf e)
      in \<lparr>ap_options = [p. SVersionedParams p \<leftarrow> steps], ap_lists = [lo. SListParams lo \<leftarrow> steps],
          ap_timeouts = [t. STimeout t \<leftarrow> steps], ap_body = [p. SBody (OptionsBody p) \<leftarrow> steps]\<rparr>)"

definition readWhole :: "('p, 'o) clientEvent \<Rightarrow> ('p, 'o) apiCall \<times> 'p apiParams" where
  "readWhole e = (readEvent e, requestParams e)"

definition apiCallOf :: "apiVerb \<Rightarrow> string \<Rightarrow> string option \<Rightarrow> string option \<Rightarrow> ('p, 'o) apiCall" where
  "apiCallOf verb resource namespace name = \<lparr>ac_verb = verb, ac_resource = resource, ac_namespace = namespace,
     ac_name = name, ac_subresources = [], ac_object = None, ac_data = [], ac_filter = None\<rparr>"

text \<open>An action that updates an object names it by the object itself.\<close>

fun readAction :: "('o \<Rightarrow> string) \<Rightarrow> ('p, 'o) action \<Rightarrow> ('p, 'o) apiCall" where
  "readAction nm (NewGetAction r ns n) = apiCallOf APIGet (Resource r) (Some ns) (Some n)"
| "readAction nm (NewListAction r k ns lo) = (apiCallOf APIList (Resource r) (Some ns) None)\<lparr>ac_filter := Some (lo_rest lo)\<rparr>"
| "readAction nm (NewWatchAction r ns lo) = (apiCallOf APIWatch (Resource r) (Some ns) None)\<lparr>ac_filter := Some (lo_rest lo)\<rparr>"
| "readAction nm (NewCreateAction r ns x) = (apiCallOf APICreate (Resource r) (Some ns) None)\<lparr>ac_object := x\<rparr>"
| "readAction nm (NewUpdateAction r ns x) = (apiCallOf APIUpdate (Resource r) (Some ns) (map_option nm x))\<lparr>ac_object := x\<rparr>"
| "readAction nm (NewUpdateSubresourceAction r s ns x) =
     (apiCallOf APIUpdate (Resource r) (Some ns) (map_option nm x))\<lparr>ac_object := x, ac_subresources := [s]\<rparr>"
| "readAction nm (NewDeleteActionWithOptions r ns n p) = apiCallOf APIDelete (Resource r) (Some ns) (Some n)"
| "readAction nm (NewDeleteCollectionAction r ns lo) =
     (apiCallOf APIDeleteCollection (Resource r) (Some ns) None)\<lparr>ac_filter := Some (lo_rest lo)\<rparr>"
| "readAction nm (NewPatchSubresourceAction r ns n pt d ss) =
     (apiCallOf (APIPatch pt) (Resource r) (Some ns) (Some n))\<lparr>ac_data := d, ac_subresources := ss\<rparr>"
| "readAction nm (NewRootGetAction r n) = apiCallOf APIGet (Resource r) None (Some n)"
| "readAction nm (NewRootListAction r k lo) = (apiCallOf APIList (Resource r) None None)\<lparr>ac_filter := Some (lo_rest lo)\<rparr>"
| "readAction nm (NewRootWatchAction r lo) = (apiCallOf APIWatch (Resource r) None None)\<lparr>ac_filter := Some (lo_rest lo)\<rparr>"
| "readAction nm (NewRootCreateAction r x) = (apiCallOf APICreate (Resource r) None None)\<lparr>ac_object := x\<rparr>"
| "readAction nm (NewRootUpdateAction r x) = (apiCallOf APIUpdate (Resource r) None (map_option nm x))\<lparr>ac_object := x\<rparr>"
| "readAction nm (NewRootUpdateSubresourceAction r s x) =
     (apiCallOf APIUpdate (Resource r) None (map_option nm x))\<lparr>ac_object := x, ac_subresources := [s]\<rparr>"
| "readAction nm (NewRootDeleteActionWithOptions r n p) = apiCallOf APIDelete (Resource r) None (Some n)"
| "readAction nm (NewRootDeleteCollectionAction r lo) =
     (apiCallOf APIDeleteCollection (Resource r) None None)\<lparr>ac_filter := Some (lo_rest lo)\<rparr>"
| "readAction nm (NewRootPatchSubresourceAction r n pt d ss) =
     (apiCallOf (APIPatch pt) (Resource r) None (Some n))\<lparr>ac_data := d, ac_subresources := ss\<rparr>"

text \<open>The reference: the call that a method of the client of a kind stands for.\<close>

fun expectedCall :: "('o \<Rightarrow> string) \<Rightarrow> string \<Rightarrow> string option \<Rightarrow> ('p, 'o) apiMethod \<Rightarrow> ('p, 'o) apiCall" where
  "expectedCall nm r ns (MGet n p) = apiCallOf APIGet r ns (Some n)"
| "expectedCall nm r ns (MList lo) = (apiCallOf APIList r ns None)\<lparr>ac_filter := Some (lo_rest lo)\<rparr>"
| "expectedCall nm r ns (MWatch lo) = (apiCallOf APIWatch r ns None)\<lparr>ac_filter := Some (lo_rest lo)\<rparr>"
| "expectedCall nm r ns (MCreate x p) = (apiCallOf APICreate r ns None)\<lparr>ac_object := x\<rparr>"
| "expectedCall nm r ns (MUpdate x p) = (apiCallOf APIUpdate r ns (map_option nm x))\<lparr>ac_object := x\<rparr>"
| "expectedCall nm r ns (MUpdateStatus x p) =
     (apiCallOf APIUpdate r ns (map_option nm x))\<lparr>ac_object := x, ac_subresources := [''status'']\<rparr>"
| "expectedCall nm r ns (MDelete n p) = apiCallOf APIDelete r ns (Some n)"
| "expectedCall nm r ns (MDeleteCollection p lo) = (apiCallOf APIDeleteCollection r ns None)\<lparr>ac_filter := Some (lo_rest lo)\<rparr>"
| "expectedCall nm r ns (MPatch n pt d p ss) =
     (apiCallOf (APIPatch pt) r ns (Some n))\<lparr>ac_data := d, ac_subresources := ss\<rparr>"

text \<open>
  The reference for the parameters: the options the caller gave, once and where the method carries them; those of a
  watch with the parameter \<open>watch\<close> set; and for a collection the timeout the caller asked for, in nanoseconds.
\<close>

fun expectedParams :: "('p, 'o) apiMethod \<Rightarrow> 'p apiParams" where
  "expectedParams (MGet n p) = \<lparr>ap_options = [p], ap_lists = [], ap_timeouts = [], ap_body = []\<rparr>"
| "expectedParams (MList lo) = \<lparr>ap_options = [], ap_lists = [lo], ap_timeouts = [listTimeout lo], ap_body = []\<rparr>"
| "expectedParams (MWatch lo) =
     \<lparr>ap_options = [], ap_lists = [lo\<lparr>lo_Watch := True\<rparr>], ap_timeouts = [listTimeout lo], ap_body = []\<rparr>"
| "expectedParams (MCreate x p) = \<lparr>ap_options = [p], ap_lists = [], ap_timeouts = [], ap_body = []\<rparr>"
| "expectedParams (MUpdate x p) = \<lparr>ap_options = [p], ap_lists = [], ap_timeouts = [], ap_body = []\<rparr>"
| "expectedParams (MUpdateStatus x p) = \<lparr>ap_options = [p], ap_lists = [], ap_timeouts = [], ap_body = []\<rparr>"
| "expectedParams (MDelete n p) = \<lparr>ap_options = [], ap_lists = [], ap_timeouts = [], ap_body = [p]\<rparr>"
| "expectedParams (MDeleteCollection p lo) =
     \<lparr>ap_options = [], ap_lists = [lo], ap_timeouts = [listTimeout lo], ap_body = [p]\<rparr>"
| "expectedParams (MPatch n pt d p ss) = \<lparr>ap_options = [p], ap_lists = [], ap_timeouts = [], ap_body = []\<rparr>"


section \<open>Lemmas\<close>

text \<open>A computation makes one call, which reads as \<open>ac\<close>, and returns.\<close>

definition calls :: "('e \<Rightarrow> 'c) \<Rightarrow> 'c \<Rightarrow> ('e, 'a) io \<Rightarrow> bool" where
  "calls rd ac m \<longleftrightarrow> (\<forall>h. \<exists>e. snd (m h) = h @ [e] \<and> rd e = ac)"

lemma snd_ret: "snd (ret x h) = h"
  by (simp add: ret_def)

lemma snd_bindM_ret: "snd (bindM m (\<lambda>x. ret (f x)) h) = snd (m h)"
  by (simp add: bindM_def ret_def split: prod.split outcome.split)

lemma calls_mapM [simp]: "calls rd ac (mapM f m) = calls rd ac m"
  by (simp add: calls_def mapM_def snd_bindM_ret)

lemma bindM_call: "bindM (call f e) g h = g (f h) (h @ [e])"
  by (simp add: bindM_def call_def)

lemma bindM_ret [simp]: "bindM (ret x) f = f x"
  by (simp add: bindM_def ret_def fun_eq_iff)

lemma nameOf_Some [simp]: "tc_client c = Some rc \<Longrightarrow> nameOf c (Some x) = ret (objectName rc x)"
  by (simp add: nameOf_def)

lemma calls_do [simp]:
  assumes "tc_client c = Some rc"
  shows "calls rd ac (doInto c k verb steps) \<longleftrightarrow> rd (DoRequest (request verb steps)) = ac"
    and "calls rd ac (doIntoList c k verb steps) \<longleftrightarrow> rd (DoRequest (request verb steps)) = ac"
    and "calls rd ac (doError c verb steps) \<longleftrightarrow> rd (DoRequest (request verb steps)) = ac"
    and "calls rd ac (doWatch c verb steps) \<longleftrightarrow> rd (WatchRequest (request verb steps)) = ac"
  using assms
  by (simp_all add: calls_def doInto_def doIntoList_def doError_def doWatch_def bindM_def call_def ret_def split: prod.splits)

lemma objectAs_keeps: "snd (objectAs k x h) = h"
  by (simp add: objectAs_def ret_def panic_def split: runtimeObject.split)

lemma listAs_keeps: "snd (listAs k x h) = h"
  by (simp add: listAs_def ret_def panic_def split: runtimeObject.split option.split)

lemma calls_invokes [simp]:
  "calls rd ac (invokesObject fk k a) \<longleftrightarrow> rd a = ac"
  "calls rd ac (invokesList fk k opts a) \<longleftrightarrow> rd a = ac"
  "calls rd ac (invokesError fk def a) \<longleftrightarrow> rd a = ac"
  "calls rd ac (invokesWatch fk a) \<longleftrightarrow> rd a = ac"
proof -
  have "snd (invokesObject fk k a h) = h @ [a]" for h
    by (cases "Invokes fk h a (ObjectOf k (Some (fk_zeroObject fk k)))")
      (simp add: invokesObject_def invokes_def bindM_call snd_bindM_ret objectAs_keeps snd_ret split: option.split)
  moreover have "snd (invokesList fk k opts a h) = h @ [a]" for h
    by (cases "Invokes fk h a (ListOf k (Some (fk_zeroList fk k)))")
      (simp add: invokesList_def invokes_def bindM_call snd_bindM_ret listAs_keeps snd_ret split: option.split)
  moreover have "snd (invokesError fk def a h) = h @ [a]" for h
    by (simp add: invokesError_def invokes_def bindM_def call_def ret_def split: prod.split)
  moreover have "snd (invokesWatch fk a h) = h @ [a]" for h
    by (simp add: invokesWatch_def call_def)
  ultimately show "calls rd ac (invokesObject fk k a) \<longleftrightarrow> rd a = ac" "calls rd ac (invokesList fk k opts a) \<longleftrightarrow> rd a = ac"
    "calls rd ac (invokesError fk def a) \<longleftrightarrow> rd a = ac" "calls rd ac (invokesWatch fk a) \<longleftrightarrow> rd a = ac"
    by (auto simp: calls_def)
qed

lemma appendMatching_filter: "appendMatching P items xs = items @ filter P xs"
  by (induction xs arbitrary: items) simp_all

lemma invokesList_filters:
  assumes "invokesList fk k opts a h = (Ret (Some l, err), h')"
  obtains l' label where "Invokes fk h a (ListOf k (Some (fk_zeroList fk k))) = (Some (ListOf k (Some l')), err)"
    "label = (case ExtractLabel fk opts of None \<Rightarrow> Everything fk | Some s \<Rightarrow> s)"
    "al_Items l = filter (\<lambda>x. Matches fk label (objectLabels fk x)) (al_Items l')"
  using assms
  by (auto simp: invokesList_def invokes_def bindM_call listAs_def appendMatching_filter Let_def panic_def
      split: prod.splits option.splits runtimeObject.splits if_splits) (auto simp: ret_def panic_def bindM_def)

lemma single_simps [simp]: "single [] = None" "single [x] = Some x"
  by (simp_all add: single_def)

lemma Resource_WithResource [simp]: "Resource (WithResource r) = r"
  by (simp add: WithResource_def)

text \<open>
  The timeout of a list is the time the caller asked for as long as it is below 292 years; beyond that the product
  wraps around, and a long timeout may become negative.
\<close>

lemma listTimeout_exact:
  assumes "TimeoutSeconds opts = Some s" "\<bar>sint s\<bar> \<le> 9223372036"
  shows "sint (listTimeout opts) = sint s * 10 ^ 9"
proof -
  have "sint (s * 1000000000) = signed_take_bit 63 (sint s * 1000000000)"
    by (simp add: sint_word_ariths(3))
  also have "\<dots> = sint s * 1000000000"
    using assms(2) by (intro signed_take_bit_int_eq_self) simp_all
  finally show ?thesis using assms(1) by (simp add: listTimeout_def)
qed

end
