(* ===== verification/Typed_Clients.thy ===== *)
theory Typed_Clients
  imports Rest_Requests
begin

text \<open>
  The clients of the six kinds of the API (\<open>pkg/generated/clientset/versioned/typed/multicluster/v1alpha1\<close>) and the
  client of the group: every method with the chain of builder calls it makes, in the order of the code.
  \<open>typedCall\<close> dispatches over kinds and methods; \<open>typed_request\<close> says that each method makes one request, and which.
\<close>

section \<open>The client of the group\<close>

record ('p, 'o, 'm, 'r, 'w) multiclusterV1alpha1Client =
  mc_restClient :: "('p, 'o, 'm, 'r, 'w) restInterface option"

text \<open>A nil client of the group gives a nil REST client.\<close>

definition RESTClient :: "('p, 'o, 'm, 'r, 'w) multiclusterV1alpha1Client option \<Rightarrow> ('p, 'o, 'm, 'r, 'w) restInterface option" where
  "RESTClient c = (case c of None \<Rightarrow> None | Some c \<Rightarrow> mc_restClient c)"

definition New_multicluster :: "('p, 'o, 'm, 'r, 'w) restInterface option \<Rightarrow> ('p, 'o, 'm, 'r, 'w) multiclusterV1alpha1Client" where
  "New_multicluster c = \<lparr>mc_restClient = c\<rparr>"

definition newClient_ClusterSources :: "('p, 'o, 'm, 'r, 'w) multiclusterV1alpha1Client option \<Rightarrow> ('p, 'o, 'm, 'r, 'w) typedClient" where
  "newClient_ClusterSources c = \<lparr>tc_client = RESTClient c\<rparr>"

definition ClusterSources :: "('p, 'o, 'm, 'r, 'w) multiclusterV1alpha1Client option \<Rightarrow> ('p, 'o, 'm, 'r, 'w) typedClient" where
  "ClusterSources c = newClient_ClusterSources c"

definition newClient_ClusterSummaries :: "('p, 'o, 'm, 'r, 'w) multiclusterV1alpha1Client option \<Rightarrow> ('p, 'o, 'm, 'r, 'w) typedClient" where
  "newClient_ClusterSummaries c = \<lparr>tc_client = RESTClient c\<rparr>"

definition ClusterSummaries :: "('p, 'o, 'm, 'r, 'w) multiclusterV1alpha1Client option \<Rightarrow> ('p, 'o, 'm, 'r, 'w) typedClient" where
  "ClusterSummaries c = newClient_ClusterSummaries c"

definition newClient_ClusterTargets :: "('p, 'o, 'm, 'r, 'w) multiclusterV1alpha1Client option \<Rightarrow> ('p, 'o, 'm, 'r, 'w) typedClient" where
  "newClient_ClusterTargets c = \<lparr>tc_client = RESTClient c\<rparr>"

definition ClusterTargets :: "('p, 'o, 'm, 'r, 'w) multiclusterV1alpha1Client option \<Rightarrow> ('p, 'o, 'm, 'r, 'w) typedClient" where
  "ClusterTargets c = newClient_ClusterTargets c"

definition newClient_PodChaperons :: "('p, 'o, 'm, 'r, 'w) multiclusterV1alpha1Client option \<Rightarrow> string \<Rightarrow> ('p, 'o, 'm, 'r, 'w) namespacedClient" where
  "newClient_PodChaperons c namespace = \<lparr>tc_client = RESTClient c, tc_ns = namespace\<rparr>"

definition PodChaperons :: "('p, 'o, 'm, 'r, 'w) multiclusterV1alpha1Client option \<Rightarrow> string \<Rightarrow> ('p, 'o, 'm, 'r, 'w) namespacedClient" where
  "PodChaperons c namespace = newClient_PodChaperons c namespace"

definition newClient_Sources :: "('p, 'o, 'm, 'r, 'w) multiclusterV1alpha1Client option \<Rightarrow> string \<Rightarrow> ('p, 'o, 'm, 'r, 'w) namespacedClient" where
  "newClient_Sources c namespace = \<lparr>tc_client = RESTClient c, tc_ns = namespace\<rparr>"

definition Sources :: "('p, 'o, 'm, 'r, 'w) multiclusterV1alpha1Client option \<Rightarrow> string \<Rightarrow> ('p, 'o, 'm, 'r, 'w) namespacedClient" where
  "Sources c namespace = newClient_Sources c namespace"

definition newClient_Targets :: "('p, 'o, 'm, 'r, 'w) multiclusterV1alpha1Client option \<Rightarrow> string \<Rightarrow> ('p, 'o, 'm, 'r, 'w) namespacedClient" where
  "newClient_Targets c namespace = \<lparr>tc_client = RESTClient c, tc_ns = namespace\<rparr>"

definition Targets :: "('p, 'o, 'm, 'r, 'w) multiclusterV1alpha1Client option \<Rightarrow> string \<Rightarrow> ('p, 'o, 'm, 'r, 'w) namespacedClient" where
  "Targets c namespace = newClient_Targets c namespace"


section \<open>ClusterSources (clustersource.go)\<close>

definition clusterSources_Get :: "('p, 'o, 'm, 'r, 'w) typedClient \<Rightarrow> string \<Rightarrow> 'p \<Rightarrow> (('p, 'o) clientEvent, 'o option \<times> error option) io" where
  "clusterSources_Get c name options =
     doInto c KClusterSource VGet [SResource ''clustersources'', SName name, SVersionedParams options]"

definition clusterSources_List :: "('p, 'o, 'm, 'r, 'w) typedClient \<Rightarrow> 'p listOptions \<Rightarrow> (('p, 'o) clientEvent, ('m, 'o) apiList option \<times> error option) io" where
  "clusterSources_List c opts =
     (let timeout = listTimeout opts
      in doIntoList c KClusterSource VGet [SResource ''clustersources'', SListParams opts, STimeout timeout])"

definition clusterSources_Watch :: "('p, 'o, 'm, 'r, 'w) typedClient \<Rightarrow> 'p listOptions \<Rightarrow> (('p, 'o) clientEvent, error + 'w) io" where
  "clusterSources_Watch c opts =
     (let timeout = listTimeout opts;
          opts = opts\<lparr>lo_Watch := True\<rparr>
      in doWatch c VGet [SResource ''clustersources'', SListParams opts, STimeout timeout])"

definition clusterSources_Create :: "('p, 'o, 'm, 'r, 'w) typedClient \<Rightarrow> 'o option \<Rightarrow> 'p \<Rightarrow> (('p, 'o) clientEvent, 'o option \<times> error option) io" where
  "clusterSources_Create c clusterSource opts =
     doInto c KClusterSource VPost [SResource ''clustersources'', SVersionedParams opts, SBody (ObjectBody clusterSource)]"

definition clusterSources_Update :: "('p, 'o, 'm, 'r, 'w) typedClient \<Rightarrow> 'o option \<Rightarrow> 'p \<Rightarrow> (('p, 'o) clientEvent, 'o option \<times> error option) io" where
  "clusterSources_Update c clusterSource opts =
     bindM (nameOf c clusterSource) (\<lambda>name.
     doInto c KClusterSource VPut [SResource ''clustersources'', SName name, SVersionedParams opts, SBody (ObjectBody clusterSource)])"

definition clusterSources_UpdateStatus :: "('p, 'o, 'm, 'r, 'w) typedClient \<Rightarrow> 'o option \<Rightarrow> 'p \<Rightarrow> (('p, 'o) clientEvent, 'o option \<times> error option) io" where
  "clusterSources_UpdateStatus c clusterSource opts =
     bindM (nameOf c clusterSource) (\<lambda>name.
     doInto c KClusterSource VPut [SResource ''clustersources'', SName name, SSubResource [''status''], SVersionedParams opts, SBody (ObjectBody clusterSource)])"

definition clusterSources_Delete :: "('p, 'o, 'm, 'r, 'w) typedClient \<Rightarrow> string \<Rightarrow> 'p \<Rightarrow> (('p, 'o) clientEvent, error option) io" where
  "clusterSources_Delete c name opts =
     doError c VDelete [SResource ''clustersources'', SName name, SBody (OptionsBody opts)]"

definition clusterSources_DeleteCollection :: "('p, 'o, 'm, 'r, 'w) typedClient \<Rightarrow> 'p \<Rightarrow> 'p listOptions \<Rightarrow> (('p, 'o) clientEvent, error option) io" where
  "clusterSources_DeleteCollection c opts listOpts =
     (let timeout = listTimeout listOpts
      in doError c VDelete [SResource ''clustersources'', SListParams listOpts, STimeout timeout, SBody (OptionsBody opts)])"

definition clusterSources_Patch :: "('p, 'o, 'm, 'r, 'w) typedClient \<Rightarrow> string \<Rightarrow> string \<Rightarrow> string \<Rightarrow> 'p \<Rightarrow> string list \<Rightarrow> (('p, 'o) clientEvent, 'o option \<times> error option) io" where
  "clusterSources_Patch c name pt data opts subresources =
     doInto c KClusterSource (VPatch pt) [SResource ''clustersources'', SName name, SSubResource subresources, SVersionedParams opts, SBody (BytesBody data)]"


section \<open>ClusterSummaries (clustersummary.go)\<close>

definition clusterSummaries_Get :: "('p, 'o, 'm, 'r, 'w) typedClient \<Rightarrow> string \<Rightarrow> 'p \<Rightarrow> (('p, 'o) clientEvent, 'o option \<times> error option) io" where
  "clusterSummaries_Get c name options =
     doInto c KClusterSummary VGet [SResource ''clustersummaries'', SName name, SVersionedParams options]"

definition clusterSummaries_List :: "('p, 'o, 'm, 'r, 'w) typedClient \<Rightarrow> 'p listOptions \<Rightarrow> (('p, 'o) clientEvent, ('m, 'o) apiList option \<times> error option) io" where
  "clusterSummaries_List c opts =
     (let timeout = listTimeout opts
      in doIntoList c KClusterSummary VGet [SResource ''clustersummaries'', SListParams opts, STimeout timeout])"

definition clusterSummaries_Watch :: "('p, 'o, 'm, 'r, 'w) typedClient \<Rightarrow> 'p listOptions \<Rightarrow> (('p, 'o) clientEvent, error + 'w) io" where
  "clusterSummaries_Watch c opts =
     (let timeout = listTimeout opts;
          opts = opts\<lparr>lo_Watch := True\<rparr>
      in doWatch c VGet [SResource ''clustersummaries'', SListParams opts, STimeout timeout])"

definition clusterSummaries_Create :: "('p, 'o, 'm, 'r, 'w) typedClient \<Rightarrow> 'o option \<Rightarrow> 'p \<Rightarrow> (('p, 'o) clientEvent, 'o option \<times> error option) io" where
  "clusterSummaries_Create c clusterSummary opts =
     doInto c KClusterSummary VPost [SResource ''clustersummaries'', SVersionedParams opts, SBody (ObjectBody clusterSummary)]"

definition clusterSummaries_Update :: "('p, 'o, 'm, 'r, 'w) typedClient \<Rightarrow> 'o option \<Rightarrow> 'p \<Rightarrow> (('p, 'o) clientEvent, 'o option \<times> error option) io" where
  "clusterSummaries_Update c clusterSummary opts =
     bindM (nameOf c clusterSummary) (\<lambda>name.
     doInto c KClusterSummary VPut [SResource ''clustersummaries'', SName name, SVersionedParams opts, SBody (ObjectBody clusterSummary)])"

definition clusterSummaries_Delete :: "('p, 'o, 'm, 'r, 'w) typedClient \<Rightarrow> string \<Rightarrow> 'p \<Rightarrow> (('p, 'o) clientEvent, error option) io" where
  "clusterSummaries_Delete c name opts =
     doError c VDelete [SResource ''clustersummaries'', SName name, SBody (OptionsBody opts)]"

definition clusterSummaries_DeleteCollection :: "('p, 'o, 'm, 'r, 'w) typedClient \<Rightarrow> 'p \<Rightarrow> 'p listOptions \<Rightarrow> (('p, 'o) clientEvent, error option) io" where
  "clusterSummaries_DeleteCollection c opts listOpts =
     (let timeout = listTimeout listOpts
      in doError c VDelete [SResource ''clustersummaries'', SListParams listOpts, STimeout timeout, SBody (OptionsBody opts)])"

definition clusterSummaries_Patch :: "('p, 'o, 'm, 'r, 'w) typedClient \<Rightarrow> string \<Rightarrow> string \<Rightarrow> string \<Rightarrow> 'p \<Rightarrow> string list \<Rightarrow> (('p, 'o) clientEvent, 'o option \<times> error option) io" where
  "clusterSummaries_Patch c name pt data opts subresources =
     doInto c KClusterSummary (VPatch pt) [SResource ''clustersummaries'', SName name, SSubResource subresources, SVersionedParams opts, SBody (BytesBody data)]"


section \<open>ClusterTargets (clustertarget.go)\<close>

definition clusterTargets_Get :: "('p, 'o, 'm, 'r, 'w) typedClient \<Rightarrow> string \<Rightarrow> 'p \<Rightarrow> (('p, 'o) clientEvent, 'o option \<times> error option) io" where
  "clusterTargets_Get c name options =
     doInto c KClusterTarget VGet [SResource ''clustertargets'', SName name, SVersionedParams options]"

definition clusterTargets_List :: "('p, 'o, 'm, 'r, 'w) typedClient \<Rightarrow> 'p listOptions \<Rightarrow> (('p, 'o) clientEvent, ('m, 'o) apiList option \<times> error option) io" where
  "clusterTargets_List c opts =
     (let timeout = listTimeout opts
      in doIntoList c KClusterTarget VGet [SResource ''clustertargets'', SListParams opts, STimeout timeout])"

definition clusterTargets_Watch :: "('p, 'o, 'm, 'r, 'w) typedClient \<Rightarrow> 'p listOptions \<Rightarrow> (('p, 'o) clientEvent, error + 'w) io" where
  "clusterTargets_Watch c opts =
     (let timeout = listTimeout opts;
          opts = opts\<lparr>lo_Watch := True\<rparr>
      in doWatch c VGet [SResource ''clustertargets'', SListParams opts, STimeout timeout])"

definition clusterTargets_Create :: "('p, 'o, 'm, 'r, 'w) typedClient \<Rightarrow> 'o option \<Rightarrow> 'p \<Rightarrow> (('p, 'o) clientEvent, 'o option \<times> error option) io" where
  "clusterTargets_Create c clusterTarget opts =
     doInto c KClusterTarget VPost [SResource ''clustertargets'', SVersionedParams opts, SBody (ObjectBody clusterTarget)]"

definition clusterTargets_Update :: "('p, 'o, 'm, 'r, 'w) typedClient \<Rightarrow> 'o option \<Rightarrow> 'p \<Rightarrow> (('p, 'o) clientEvent, 'o option \<times> error option) io" where
  "clusterTargets_Update c clusterTarget opts =
     bindM (nameOf c clusterTarget) (\<lambda>name.
     doInto c KClusterTarget VPut [SResource ''clustertargets'', SName name, SVersionedParams opts, SBody (ObjectBody clusterTarget)])"

definition clusterTargets_UpdateStatus :: "('p, 'o, 'm, 'r, 'w) typedClient \<Rightarrow> 'o option \<Rightarrow> 'p \<Rightarrow> (('p, 'o) clientEvent, 'o option \<times> error option) io" where
  "clusterTargets_UpdateStatus c clusterTarget opts =
     bindM (nameOf c clusterTarget) (\<lambda>name.
     doInto c KClusterTarget VPut [SResource ''clustertargets'', SName name, SSubResource [''status''], SVersionedParams opts, SBody (ObjectBody clusterTarget)])"

definition clusterTargets_Delete :: "('p, 'o, 'm, 'r, 'w) typedClient \<Rightarrow> string \<Rightarrow> 'p \<Rightarrow> (('p, 'o) clientEvent, error option) io" where
  "clusterTargets_Delete c name opts =
     doError c VDelete [SResource ''clustertargets'', SName name, SBody (OptionsBody opts)]"

definition clusterTargets_DeleteCollection :: "('p, 'o, 'm, 'r, 'w) typedClient \<Rightarrow> 'p \<Rightarrow> 'p listOptions \<Rightarrow> (('p, 'o) clientEvent, error option) io" where
  "clusterTargets_DeleteCollection c opts listOpts =
     (let timeout = listTimeout listOpts
      in doError c VDelete [SResource ''clustertargets'', SListParams listOpts, STimeout timeout, SBody (OptionsBody opts)])"

definition clusterTargets_Patch :: "('p, 'o, 'm, 'r, 'w) typedClient \<Rightarrow> string \<Rightarrow> string \<Rightarrow> string \<Rightarrow> 'p \<Rightarrow> string list \<Rightarrow> (('p, 'o) clientEvent, 'o option \<times> error option) io" where
  "clusterTargets_Patch c name pt data opts subresources =
     doInto c KClusterTarget (VPatch pt) [SResource ''clustertargets'', SName name, SSubResource subresources, SVersionedParams opts, SBody (BytesBody data)]"


section \<open>PodChaperons (podchaperon.go)\<close>

definition podChaperons_Get :: "('p, 'o, 'm, 'r, 'w) namespacedClient \<Rightarrow> string \<Rightarrow> 'p \<Rightarrow> (('p, 'o) clientEvent, 'o option \<times> error option) io" where
  "podChaperons_Get c name options =
     doInto c KPodChaperon VGet [SNamespace (tc_ns c), SResource ''podchaperons'', SName name, SVersionedParams options]"

definition podChaperons_List :: "('p, 'o, 'm, 'r, 'w) namespacedClient \<Rightarrow> 'p listOptions \<Rightarrow> (('p, 'o) clientEvent, ('m, 'o) apiList option \<times> error option) io" where
  "podChaperons_List c opts =
     (let timeout = listTimeout opts
      in doIntoList c KPodChaperon VGet [SNamespace (tc_ns c), SResource ''podchaperons'', SListParams opts, STimeout timeout])"

definition podChaperons_Watch :: "('p, 'o, 'm, 'r, 'w) namespacedClient \<Rightarrow> 'p listOptions \<Rightarrow> (('p, 'o) clientEvent, error + 'w) io" where
  "podChaperons_Watch c opts =
     (let timeout = listTimeout opts;
          opts = opts\<lparr>lo_Watch := True\<rparr>
      in doWatch c VGet [SNamespace (tc_ns c), SResource ''podchaperons'', SListParams opts, STimeout timeout])"

definition podChaperons_Create :: "('p, 'o, 'm, 'r, 'w) namespacedClient \<Rightarrow> 'o option \<Rightarrow> 'p \<Rightarrow> (('p, 'o) clientEvent, 'o option \<times> error option) io" where
  "podChaperons_Create c podChaperon opts =
     doInto c KPodChaperon VPost [SNamespace (tc_ns c), SResource ''podchaperons'', SVersionedParams opts, SBody (ObjectBody podChaperon)]"

definition podChaperons_Update :: "('p, 'o, 'm, 'r, 'w) namespacedClient \<Rightarrow> 'o option \<Rightarrow> 'p \<Rightarrow> (('p, 'o) clientEvent, 'o option \<times> error option) io" where
  "podChaperons_Update c podChaperon opts =
     bindM (nameOf c podChaperon) (\<lambda>name.
     doInto c KPodChaperon VPut [SNamespace (tc_ns c), SResource ''podchaperons'', SName name, SVersionedParams opts, SBody (ObjectBody podChaperon)])"

definition podChaperons_UpdateStatus :: "('p, 'o, 'm, 'r, 'w) namespacedClient \<Rightarrow> 'o option \<Rightarrow> 'p \<Rightarrow> (('p, 'o) clientEvent, 'o option \<times> error option) io" where
  "podChaperons_UpdateStatus c podChaperon opts =
     bindM (nameOf c podChaperon) (\<lambda>name.
     doInto c KPodChaperon VPut [SNamespace (tc_ns c), SResource ''podchaperons'', SName name, SSubResource [''status''], SVersionedParams opts, SBody (ObjectBody podChaperon)])"

definition podChaperons_Delete :: "('p, 'o, 'm, 'r, 'w) namespacedClient \<Rightarrow> string \<Rightarrow> 'p \<Rightarrow> (('p, 'o) clientEvent, error option) io" where
  "podChaperons_Delete c name opts =
     doError c VDelete [SNamespace (tc_ns c), SResource ''podchaperons'', SName name, SBody (OptionsBody opts)]"

definition podChaperons_DeleteCollection :: "('p, 'o, 'm, 'r, 'w) namespacedClient \<Rightarrow> 'p \<Rightarrow> 'p listOptions \<Rightarrow> (('p, 'o) clientEvent, error option) io" where
  "podChaperons_DeleteCollection c opts listOpts =
     (let timeout = listTimeout listOpts
      in doError c VDelete [SNamespace (tc_ns c), SResource ''podchaperons'', SListParams listOpts, STimeout timeout, SBody (OptionsBody opts)])"

definition podChaperons_Patch :: "('p, 'o, 'm, 'r, 'w) namespacedClient \<Rightarrow> string \<Rightarrow> string \<Rightarrow> string \<Rightarrow> 'p \<Rightarrow> string list \<Rightarrow> (('p, 'o) clientEvent, 'o option \<times> error option) io" where
  "podChaperons_Patch c name pt data opts subresources =
     doInto c KPodChaperon (VPatch pt) [SNamespace (tc_ns c), SResource ''podchaperons'', SName name, SSubResource subresources, SVersionedParams opts, SBody (BytesBody data)]"


section \<open>Sources (source.go)\<close>

definition sources_Get :: "('p, 'o, 'm, 'r, 'w) namespacedClient \<Rightarrow> string \<Rightarrow> 'p \<Rightarrow> (('p, 'o) clientEvent, 'o option \<times> error option) io" where
  "sources_Get c name options =
     doInto c KSource VGet [SNamespace (tc_ns c), SResource ''sources'', SName name, SVersionedParams options]"

definition sources_List :: "('p, 'o, 'm, 'r, 'w) namespacedClient \<Rightarrow> 'p listOptions \<Rightarrow> (('p, 'o) clientEvent, ('m, 'o) apiList option \<times> error option) io" where
  "sources_List c opts =
     (let timeout = listTimeout opts
      in doIntoList c KSource VGet [SNamespace (tc_ns c), SResource ''sources'', SListParams opts, STimeout timeout])"

definition sources_Watch :: "('p, 'o, 'm, 'r, 'w) namespacedClient \<Rightarrow> 'p listOptions \<Rightarrow> (('p, 'o) clientEvent, error + 'w) io" where
  "sources_Watch c opts =
     (let timeout = listTimeout opts;
          opts = opts\<lparr>lo_Watch := True\<rparr>
      in doWatch c VGet [SNamespace (tc_ns c), SResource ''sources'', SListParams opts, STimeout timeout])"

definition sources_Create :: "('p, 'o, 'm, 'r, 'w) namespacedClient \<Rightarrow> 'o option \<Rightarrow> 'p \<Rightarrow> (('p, 'o) clientEvent, 'o option \<times> error option) io" where
  "sources_Create c source opts =
     doInto c KSource VPost [SNamespace (tc_ns c), SResource ''sources'', SVersionedParams opts, SBody (ObjectBody source)]"

definition sources_Update :: "('p, 'o, 'm, 'r, 'w) namespacedClient \<Rightarrow> 'o option \<Rightarrow> 'p \<Rightarrow> (('p, 'o) clientEvent, 'o option \<times> error option) io" where
  "sources_Update c source opts =
     bindM (nameOf c source) (\<lambda>name.
     doInto c KSource VPut [SNamespace (tc_ns c), SResource ''sources'', SName name, SVersionedParams opts, SBody (ObjectBody source)])"

definition sources_UpdateStatus :: "('p, 'o, 'm, 'r, 'w) namespacedClient \<Rightarrow> 'o option \<Rightarrow> 'p \<Rightarrow> (('p, 'o) clientEvent, 'o option \<times> error option) io" where
  "sources_UpdateStatus c source opts =
     bindM (nameOf c source) (\<lambda>name.
     doInto c KSource VPut [SNamespace (tc_ns c), SResource ''sources'', SName name, SSubResource [''status''], SVersionedParams opts, SBody (ObjectBody source)])"

definition sources_Delete :: "('p, 'o, 'm, 'r, 'w) namespacedClient \<Rightarrow> string \<Rightarrow> 'p \<Rightarrow> (('p, 'o) clientEvent, error option) io" where
  "sources_Delete c name opts =
     doError c VDelete [SNamespace (tc_ns c), SResource ''sources'', SName name, SBody (OptionsBody opts)]"

definition sources_DeleteCollection :: "('p, 'o, 'm, 'r, 'w) namespacedClient \<Rightarrow> 'p \<Rightarrow> 'p listOptions \<Rightarrow> (('p, 'o) clientEvent, error option) io" where
  "sources_DeleteCollection c opts listOpts =
     (let timeout = listTimeout listOpts
      in doError c VDelete [SNamespace (tc_ns c), SResource ''sources'', SListParams listOpts, STimeout timeout, SBody (OptionsBody opts)])"

definition sources_Patch :: "('p, 'o, 'm, 'r, 'w) namespacedClient \<Rightarrow> string \<Rightarrow> string \<Rightarrow> string \<Rightarrow> 'p \<Rightarrow> string list \<Rightarrow> (('p, 'o) clientEvent, 'o option \<times> error option) io" where
  "sources_Patch c name pt data opts subresources =
     doInto c KSource (VPatch pt) [SNamespace (tc_ns c), SResource ''sources'', SName name, SSubResource subresources, SVersionedParams opts, SBody (BytesBody data)]"


section \<open>Targets (target.go)\<close>

definition targets_Get :: "('p, 'o, 'm, 'r, 'w) namespacedClient \<Rightarrow> string \<Rightarrow> 'p \<Rightarrow> (('p, 'o) clientEvent, 'o option \<times> error option) io" where
  "targets_Get c name options =
     doInto c KTarget VGet [SNamespace (tc_ns c), SResource ''targets'', SName name, SVersionedParams options]"

definition targets_List :: "('p, 'o, 'm, 'r, 'w) namespacedClient \<Rightarrow> 'p listOptions \<Rightarrow> (('p, 'o) clientEvent, ('m, 'o) apiList option \<times> error option) io" where
  "targets_List c opts =
     (let timeout = listTimeout opts
      in doIntoList c KTarget VGet [SNamespace (tc_ns c), SResource ''targets'', SListParams opts, STimeout timeout])"

definition targets_Watch :: "('p, 'o, 'm, 'r, 'w) namespacedClient \<Rightarrow> 'p listOptions \<Rightarrow> (('p, 'o) clientEvent, error + 'w) io" where
  "targets_Watch c opts =
     (let timeout = listTimeout opts;
          opts = opts\<lparr>lo_Watch := True\<rparr>
      in doWatch c VGet [SNamespace (tc_ns c), SResource ''targets'', SListParams opts, STimeout timeout])"

definition targets_Create :: "('p, 'o, 'm, 'r, 'w) namespacedClient \<Rightarrow> 'o option \<Rightarrow> 'p \<Rightarrow> (('p, 'o) clientEvent, 'o option \<times> error option) io" where
  "targets_Create c target opts =
     doInto c KTarget VPost [SNamespace (tc_ns c), SResource ''targets'', SVersionedParams opts, SBody (ObjectBody target)]"

definition targets_Update :: "('p, 'o, 'm, 'r, 'w) namespacedClient \<Rightarrow> 'o option \<Rightarrow> 'p \<Rightarrow> (('p, 'o) clientEvent, 'o option \<times> error option) io" where
  "targets_Update c target opts =
     bindM (nameOf c target) (\<lambda>name.
     doInto c KTarget VPut [SNamespace (tc_ns c), SResource ''targets'', SName name, SVersionedParams opts, SBody (ObjectBody target)])"

definition targets_UpdateStatus :: "('p, 'o, 'm, 'r, 'w) namespacedClient \<Rightarrow> 'o option \<Rightarrow> 'p \<Rightarrow> (('p, 'o) clientEvent, 'o option \<times> error option) io" where
  "targets_UpdateStatus c target opts =
     bindM (nameOf c target) (\<lambda>name.
     doInto c KTarget VPut [SNamespace (tc_ns c), SResource ''targets'', SName name, SSubResource [''status''], SVersionedParams opts, SBody (ObjectBody target)])"

definition targets_Delete :: "('p, 'o, 'm, 'r, 'w) namespacedClient \<Rightarrow> string \<Rightarrow> 'p \<Rightarrow> (('p, 'o) clientEvent, error option) io" where
  "targets_Delete c name opts =
     doError c VDelete [SNamespace (tc_ns c), SResource ''targets'', SName name, SBody (OptionsBody opts)]"

definition targets_DeleteCollection :: "('p, 'o, 'm, 'r, 'w) namespacedClient \<Rightarrow> 'p \<Rightarrow> 'p listOptions \<Rightarrow> (('p, 'o) clientEvent, error option) io" where
  "targets_DeleteCollection c opts listOpts =
     (let timeout = listTimeout listOpts
      in doError c VDelete [SNamespace (tc_ns c), SResource ''targets'', SListParams listOpts, STimeout timeout, SBody (OptionsBody opts)])"

definition targets_Patch :: "('p, 'o, 'm, 'r, 'w) namespacedClient \<Rightarrow> string \<Rightarrow> string \<Rightarrow> string \<Rightarrow> 'p \<Rightarrow> string list \<Rightarrow> (('p, 'o) clientEvent, 'o option \<times> error option) io" where
  "targets_Patch c name pt data opts subresources =
     doInto c KTarget (VPatch pt) [SNamespace (tc_ns c), SResource ''targets'', SName name, SSubResource subresources, SVersionedParams opts, SBody (BytesBody data)]"


section \<open>All kinds and methods\<close>

text \<open>The client of a kind, by the method of the client of the group, and one of its methods.\<close>

fun clusterSources_call :: "('p, 'o, 'm, 'r, 'w) typedClient \<Rightarrow> ('p, 'o) apiMethod \<Rightarrow> (('p, 'o) clientEvent, ('o, 'm, 'w) answer) io" where
  "clusterSources_call c (MGet name options) = mapM AnObject (clusterSources_Get c name options)"
| "clusterSources_call c (MList opts) = mapM AListOf (clusterSources_List c opts)"
| "clusterSources_call c (MWatch opts) = mapM AWatch (clusterSources_Watch c opts)"
| "clusterSources_call c (MCreate x opts) = mapM AnObject (clusterSources_Create c x opts)"
| "clusterSources_call c (MUpdate x opts) = mapM AnObject (clusterSources_Update c x opts)"
| "clusterSources_call c (MUpdateStatus x opts) = mapM AnObject (clusterSources_UpdateStatus c x opts)"
| "clusterSources_call c (MDelete name opts) = mapM AnError (clusterSources_Delete c name opts)"
| "clusterSources_call c (MDeleteCollection opts lo) = mapM AnError (clusterSources_DeleteCollection c opts lo)"
| "clusterSources_call c (MPatch name pt data opts ss) = mapM AnObject (clusterSources_Patch c name pt data opts ss)"

fun clusterSummaries_call :: "('p, 'o, 'm, 'r, 'w) typedClient \<Rightarrow> ('p, 'o) apiMethod \<Rightarrow> (('p, 'o) clientEvent, ('o, 'm, 'w) answer) io" where
  "clusterSummaries_call c (MGet name options) = mapM AnObject (clusterSummaries_Get c name options)"
| "clusterSummaries_call c (MList opts) = mapM AListOf (clusterSummaries_List c opts)"
| "clusterSummaries_call c (MWatch opts) = mapM AWatch (clusterSummaries_Watch c opts)"
| "clusterSummaries_call c (MCreate x opts) = mapM AnObject (clusterSummaries_Create c x opts)"
| "clusterSummaries_call c (MUpdate x opts) = mapM AnObject (clusterSummaries_Update c x opts)"
| "clusterSummaries_call c (MUpdateStatus x opts) = ret NoSuchMethod"
| "clusterSummaries_call c (MDelete name opts) = mapM AnError (clusterSummaries_Delete c name opts)"
| "clusterSummaries_call c (MDeleteCollection opts lo) = mapM AnError (clusterSummaries_DeleteCollection c opts lo)"
| "clusterSummaries_call c (MPatch name pt data opts ss) = mapM AnObject (clusterSummaries_Patch c name pt data opts ss)"

fun clusterTargets_call :: "('p, 'o, 'm, 'r, 'w) typedClient \<Rightarrow> ('p, 'o) apiMethod \<Rightarrow> (('p, 'o) clientEvent, ('o, 'm, 'w) answer) io" where
  "clusterTargets_call c (MGet name options) = mapM AnObject (clusterTargets_Get c name options)"
| "clusterTargets_call c (MList opts) = mapM AListOf (clusterTargets_List c opts)"
| "clusterTargets_call c (MWatch opts) = mapM AWatch (clusterTargets_Watch c opts)"
| "clusterTargets_call c (MCreate x opts) = mapM AnObject (clusterTargets_Create c x opts)"
| "clusterTargets_call c (MUpdate x opts) = mapM AnObject (clusterTargets_Update c x opts)"
| "clusterTargets_call c (MUpdateStatus x opts) = mapM AnObject (clusterTargets_UpdateStatus c x opts)"
| "clusterTargets_call c (MDelete name opts) = mapM AnError (clusterTargets_Delete c name opts)"
| "clusterTargets_call c (MDeleteCollection opts lo) = mapM AnError (clusterTargets_DeleteCollection c opts lo)"
| "clusterTargets_call c (MPatch name pt data opts ss) = mapM AnObject (clusterTargets_Patch c name pt data opts ss)"

fun podChaperons_call :: "('p, 'o, 'm, 'r, 'w) namespacedClient \<Rightarrow> ('p, 'o) apiMethod \<Rightarrow> (('p, 'o) clientEvent, ('o, 'm, 'w) answer) io" where
  "podChaperons_call c (MGet name options) = mapM AnObject (podChaperons_Get c name options)"
| "podChaperons_call c (MList opts) = mapM AListOf (podChaperons_List c opts)"
| "podChaperons_call c (MWatch opts) = mapM AWatch (podChaperons_Watch c opts)"
| "podChaperons_call c (MCreate x opts) = mapM AnObject (podChaperons_Create c x opts)"
| "podChaperons_call c (MUpdate x opts) = mapM AnObject (podChaperons_Update c x opts)"
| "podChaperons_call c (MUpdateStatus x opts) = mapM AnObject (podChaperons_UpdateStatus c x opts)"
| "podChaperons_call c (MDelete name opts) = mapM AnError (podChaperons_Delete c name opts)"
| "podChaperons_call c (MDeleteCollection opts lo) = mapM AnError (podChaperons_DeleteCollection c opts lo)"
| "podChaperons_call c (MPatch name pt data opts ss) = mapM AnObject (podChaperons_Patch c name pt data opts ss)"

fun sources_call :: "('p, 'o, 'm, 'r, 'w) namespacedClient \<Rightarrow> ('p, 'o) apiMethod \<Rightarrow> (('p, 'o) clientEvent, ('o, 'm, 'w) answer) io" where
  "sources_call c (MGet name options) = mapM AnObject (sources_Get c name options)"
| "sources_call c (MList opts) = mapM AListOf (sources_List c opts)"
| "sources_call c (MWatch opts) = mapM AWatch (sources_Watch c opts)"
| "sources_call c (MCreate x opts) = mapM AnObject (sources_Create c x opts)"
| "sources_call c (MUpdate x opts) = mapM AnObject (sources_Update c x opts)"
| "sources_call c (MUpdateStatus x opts) = mapM AnObject (sources_UpdateStatus c x opts)"
| "sources_call c (MDelete name opts) = mapM AnError (sources_Delete c name opts)"
| "sources_call c (MDeleteCollection opts lo) = mapM AnError (sources_DeleteCollection c opts lo)"
| "sources_call c (MPatch name pt data opts ss) = mapM AnObject (sources_Patch c name pt data opts ss)"

fun targets_call :: "('p, 'o, 'm, 'r, 'w) namespacedClient \<Rightarrow> ('p, 'o) apiMethod \<Rightarrow> (('p, 'o) clientEvent, ('o, 'm, 'w) answer) io" where
  "targets_call c (MGet name options) = mapM AnObject (targets_Get c name options)"
| "targets_call c (MList opts) = mapM AListOf (targets_List c opts)"
| "targets_call c (MWatch opts) = mapM AWatch (targets_Watch c opts)"
| "targets_call c (MCreate x opts) = mapM AnObject (targets_Create c x opts)"
| "targets_call c (MUpdate x opts) = mapM AnObject (targets_Update c x opts)"
| "targets_call c (MUpdateStatus x opts) = mapM AnObject (targets_UpdateStatus c x opts)"
| "targets_call c (MDelete name opts) = mapM AnError (targets_Delete c name opts)"
| "targets_call c (MDeleteCollection opts lo) = mapM AnError (targets_DeleteCollection c opts lo)"
| "targets_call c (MPatch name pt data opts ss) = mapM AnObject (targets_Patch c name pt data opts ss)"

fun typedCall :: "('p, 'o, 'm, 'r, 'w) multiclusterV1alpha1Client option \<Rightarrow> kind \<Rightarrow> string \<Rightarrow> ('p, 'o) apiMethod \<Rightarrow> (('p, 'o) clientEvent, ('o, 'm, 'w) answer) io" where
  "typedCall c KClusterSource namespace m = clusterSources_call (ClusterSources c) m"
| "typedCall c KClusterSummary namespace m = clusterSummaries_call (ClusterSummaries c) m"
| "typedCall c KClusterTarget namespace m = clusterTargets_call (ClusterTargets c) m"
| "typedCall c KPodChaperon namespace m = podChaperons_call (PodChaperons c namespace) m"
| "typedCall c KSource namespace m = sources_call (Sources c namespace) m"
| "typedCall c KTarget namespace m = targets_call (Targets c namespace) m"

text \<open>
  Only cluster summaries have no status, and an update needs an object.  A list is one whose options do not ask to
  watch: \<open>List\<close> passes the options on as they are, so with \<open>Watch\<close> set it would request a watch.
\<close>

fun hasMethod :: "kind \<Rightarrow> ('p, 'o) apiMethod \<Rightarrow> bool" where
  "hasMethod k (MUpdate x opts) = (x \<noteq> None)"
| "hasMethod k (MUpdateStatus x opts) = (k \<noteq> KClusterSummary \<and> x \<noteq> None)"
| "hasMethod k (MList lo) = (\<not> lo_Watch lo)"
| "hasMethod k m = True"

lemmas newClient_defs = ClusterSources_def newClient_ClusterSources_def
  ClusterSummaries_def newClient_ClusterSummaries_def
  ClusterTargets_def newClient_ClusterTargets_def
  PodChaperons_def newClient_PodChaperons_def
  Sources_def newClient_Sources_def
  Targets_def newClient_Targets_def

lemmas clusterSources_defs = clusterSources_Get_def clusterSources_List_def clusterSources_Watch_def clusterSources_Create_def clusterSources_Update_def clusterSources_UpdateStatus_def clusterSources_Delete_def clusterSources_DeleteCollection_def clusterSources_Patch_def

lemmas clusterSummaries_defs = clusterSummaries_Get_def clusterSummaries_List_def clusterSummaries_Watch_def clusterSummaries_Create_def clusterSummaries_Update_def clusterSummaries_Delete_def clusterSummaries_DeleteCollection_def clusterSummaries_Patch_def

lemmas clusterTargets_defs = clusterTargets_Get_def clusterTargets_List_def clusterTargets_Watch_def clusterTargets_Create_def clusterTargets_Update_def clusterTargets_UpdateStatus_def clusterTargets_Delete_def clusterTargets_DeleteCollection_def clusterTargets_Patch_def

lemmas podChaperons_defs = podChaperons_Get_def podChaperons_List_def podChaperons_Watch_def podChaperons_Create_def podChaperons_Update_def podChaperons_UpdateStatus_def podChaperons_Delete_def podChaperons_DeleteCollection_def podChaperons_Patch_def

lemmas sources_defs = sources_Get_def sources_List_def sources_Watch_def sources_Create_def sources_Update_def sources_UpdateStatus_def sources_Delete_def sources_DeleteCollection_def sources_Patch_def

lemmas targets_defs = targets_Get_def targets_List_def targets_Watch_def targets_Create_def targets_Update_def targets_UpdateStatus_def targets_Delete_def targets_DeleteCollection_def targets_Patch_def

lemmas reading = readRequest_def request_def apiCallOf_def Let_def
lemmas reading_whole = reading readWhole_def readEvent_def asksToWatch_def requestParams_def

lemma clusterSources_request:
  fixes c :: "('p, 'o, 'm, 'r, 'w) typedClient"
  assumes "tc_client c = Some rc" "hasMethod KClusterSource m"
  shows "calls readWhole (expectedCall (objectName rc) ''clustersources'' (None) m, expectedParams m) (clusterSources_call c m)"
  using assms by (cases m) (auto simp: clusterSources_defs reading_whole)

lemma clusterSummaries_request:
  fixes c :: "('p, 'o, 'm, 'r, 'w) typedClient"
  assumes "tc_client c = Some rc" "hasMethod KClusterSummary m"
  shows "calls readWhole (expectedCall (objectName rc) ''clustersummaries'' (None) m, expectedParams m) (clusterSummaries_call c m)"
  using assms by (cases m) (auto simp: clusterSummaries_defs reading_whole)

lemma clusterTargets_request:
  fixes c :: "('p, 'o, 'm, 'r, 'w) typedClient"
  assumes "tc_client c = Some rc" "hasMethod KClusterTarget m"
  shows "calls readWhole (expectedCall (objectName rc) ''clustertargets'' (None) m, expectedParams m) (clusterTargets_call c m)"
  using assms by (cases m) (auto simp: clusterTargets_defs reading_whole)

lemma podChaperons_request:
  fixes c :: "('p, 'o, 'm, 'r, 'w) namespacedClient"
  assumes "tc_client c = Some rc" "tc_ns c = ns" "hasMethod KPodChaperon m"
  shows "calls readWhole (expectedCall (objectName rc) ''podchaperons'' (Some ns) m, expectedParams m) (podChaperons_call c m)"
  using assms by (cases m) (auto simp: podChaperons_defs reading_whole)

lemma sources_request:
  fixes c :: "('p, 'o, 'm, 'r, 'w) namespacedClient"
  assumes "tc_client c = Some rc" "tc_ns c = ns" "hasMethod KSource m"
  shows "calls readWhole (expectedCall (objectName rc) ''sources'' (Some ns) m, expectedParams m) (sources_call c m)"
  using assms by (cases m) (auto simp: sources_defs reading_whole)

lemma targets_request:
  fixes c :: "('p, 'o, 'm, 'r, 'w) namespacedClient"
  assumes "tc_client c = Some rc" "tc_ns c = ns" "hasMethod KTarget m"
  shows "calls readWhole (expectedCall (objectName rc) ''targets'' (Some ns) m, expectedParams m) (targets_call c m)"
  using assms by (cases m) (auto simp: targets_defs reading_whole)

text \<open>
  Every method of every client makes exactly one request, which reads as the call it stands for: on the resource of
  its kind, in the namespace of the client for a kind that has one, with the parameters the caller gave.
\<close>

theorem typed_request:
  assumes "RESTClient c = Some rc" "hasMethod k m"
  shows "calls readWhole
    (expectedCall (objectName rc) (resourceName k) (if namespaced k then Some namespace else None) m, expectedParams m)
    (typedCall c k namespace m)"
  using assms
  by (cases k) (simp_all add: newClient_defs clusterSources_request
      clusterSummaries_request
      clusterTargets_request
      podChaperons_request
      sources_request
      targets_request)

text \<open>A client of a nil client of the group panics before it makes a request.\<close>

lemma typed_nil_panics:
  assumes "RESTClient c = None" "hasMethod k m"
  shows "typedCall c k namespace m h = (Panic, h)"
  using assms
  by (cases k; cases m) (auto simp: newClient_defs clusterSources_defs clusterSummaries_defs clusterTargets_defs podChaperons_defs sources_defs targets_defs
      mapM_def doInto_def doIntoList_def doError_def doWatch_def nameOf_def bindM_def panic_def)

end
