(* ===== verification/Cached_Reads.thy ===== *)
theory Cached_Reads
  imports Listers Typed_Clients
begin

text \<open>
  From a controller's lister to the API server: the informers of the six kinds with the methods that give their
  informer and their lister, the client that an informer lists with, and the index that the lister reads.
  \<^item> \<open>cached_reads\<close>: once the cache has what the informer listed, a lister finds just what the server
    holds in the namespace of the factory.
\<close>

section \<open>The informers of the kinds\<close>

definition NewClusterSourceInformer :: "'c \<Rightarrow> int \<Rightarrow> string list \<Rightarrow> ('c, 'o, 'x) sharedIndexInformer" where
  "NewClusterSourceInformer c resyncPeriod indexers = NewFilteredClusterSourceInformer c resyncPeriod indexers None"

definition clusterSourceInformer_defaultInformer :: "('o \<Rightarrow> 'o) option \<Rightarrow> 'c \<Rightarrow> int \<Rightarrow> ('c, 'o, 'x) sharedIndexInformer" where
  "clusterSourceInformer_defaultInformer tweak c resyncPeriod = NewFilteredClusterSourceInformer c resyncPeriod [''namespace''] tweak"

definition clusterSourceInformer_Informer :: "('o \<Rightarrow> 'o) option \<Rightarrow> ('c, 'o, 'x) sharedInformerFactory \<Rightarrow> ('c, 'o, 'x) sharedIndexInformer \<times> ('c, 'o, 'x) sharedInformerFactory" where
  "clusterSourceInformer_Informer tweak f = InformerFor (typeName KClusterSource) (clusterSourceInformer_defaultInformer tweak) f"

definition clusterSourceInformer_Lister ::
  "(('c, 'o, 'x) sharedIndexInformer \<Rightarrow> 'i) \<Rightarrow> ('o \<Rightarrow> 'o) option \<Rightarrow> ('c, 'o, 'x) sharedInformerFactory \<Rightarrow> 'i \<times> ('c, 'o, 'x) sharedInformerFactory" where
  "clusterSourceInformer_Lister GetIndexer tweak f =
     (case clusterSourceInformer_Informer tweak f of (informer, f) \<Rightarrow> (GetIndexer informer, f))"

definition NewClusterSummaryInformer :: "'c \<Rightarrow> int \<Rightarrow> string list \<Rightarrow> ('c, 'o, 'x) sharedIndexInformer" where
  "NewClusterSummaryInformer c resyncPeriod indexers = NewFilteredClusterSummaryInformer c resyncPeriod indexers None"

definition clusterSummaryInformer_defaultInformer :: "('o \<Rightarrow> 'o) option \<Rightarrow> 'c \<Rightarrow> int \<Rightarrow> ('c, 'o, 'x) sharedIndexInformer" where
  "clusterSummaryInformer_defaultInformer tweak c resyncPeriod = NewFilteredClusterSummaryInformer c resyncPeriod [''namespace''] tweak"

definition clusterSummaryInformer_Informer :: "('o \<Rightarrow> 'o) option \<Rightarrow> ('c, 'o, 'x) sharedInformerFactory \<Rightarrow> ('c, 'o, 'x) sharedIndexInformer \<times> ('c, 'o, 'x) sharedInformerFactory" where
  "clusterSummaryInformer_Informer tweak f = InformerFor (typeName KClusterSummary) (clusterSummaryInformer_defaultInformer tweak) f"

definition clusterSummaryInformer_Lister ::
  "(('c, 'o, 'x) sharedIndexInformer \<Rightarrow> 'i) \<Rightarrow> ('o \<Rightarrow> 'o) option \<Rightarrow> ('c, 'o, 'x) sharedInformerFactory \<Rightarrow> 'i \<times> ('c, 'o, 'x) sharedInformerFactory" where
  "clusterSummaryInformer_Lister GetIndexer tweak f =
     (case clusterSummaryInformer_Informer tweak f of (informer, f) \<Rightarrow> (GetIndexer informer, f))"

definition NewClusterTargetInformer :: "'c \<Rightarrow> int \<Rightarrow> string list \<Rightarrow> ('c, 'o, 'x) sharedIndexInformer" where
  "NewClusterTargetInformer c resyncPeriod indexers = NewFilteredClusterTargetInformer c resyncPeriod indexers None"

definition clusterTargetInformer_defaultInformer :: "('o \<Rightarrow> 'o) option \<Rightarrow> 'c \<Rightarrow> int \<Rightarrow> ('c, 'o, 'x) sharedIndexInformer" where
  "clusterTargetInformer_defaultInformer tweak c resyncPeriod = NewFilteredClusterTargetInformer c resyncPeriod [''namespace''] tweak"

definition clusterTargetInformer_Informer :: "('o \<Rightarrow> 'o) option \<Rightarrow> ('c, 'o, 'x) sharedInformerFactory \<Rightarrow> ('c, 'o, 'x) sharedIndexInformer \<times> ('c, 'o, 'x) sharedInformerFactory" where
  "clusterTargetInformer_Informer tweak f = InformerFor (typeName KClusterTarget) (clusterTargetInformer_defaultInformer tweak) f"

definition clusterTargetInformer_Lister ::
  "(('c, 'o, 'x) sharedIndexInformer \<Rightarrow> 'i) \<Rightarrow> ('o \<Rightarrow> 'o) option \<Rightarrow> ('c, 'o, 'x) sharedInformerFactory \<Rightarrow> 'i \<times> ('c, 'o, 'x) sharedInformerFactory" where
  "clusterTargetInformer_Lister GetIndexer tweak f =
     (case clusterTargetInformer_Informer tweak f of (informer, f) \<Rightarrow> (GetIndexer informer, f))"

definition NewPodChaperonInformer :: "'c \<Rightarrow> string \<Rightarrow> int \<Rightarrow> string list \<Rightarrow> ('c, 'o, 'x) sharedIndexInformer" where
  "NewPodChaperonInformer c ns resyncPeriod indexers = NewFilteredPodChaperonInformer c ns resyncPeriod indexers None"

definition podChaperonInformer_defaultInformer :: "string \<Rightarrow> ('o \<Rightarrow> 'o) option \<Rightarrow> 'c \<Rightarrow> int \<Rightarrow> ('c, 'o, 'x) sharedIndexInformer" where
  "podChaperonInformer_defaultInformer ns tweak c resyncPeriod = NewFilteredPodChaperonInformer c ns resyncPeriod [''namespace''] tweak"

definition podChaperonInformer_Informer :: "string \<Rightarrow> ('o \<Rightarrow> 'o) option \<Rightarrow> ('c, 'o, 'x) sharedInformerFactory \<Rightarrow> ('c, 'o, 'x) sharedIndexInformer \<times> ('c, 'o, 'x) sharedInformerFactory" where
  "podChaperonInformer_Informer ns tweak f = InformerFor (typeName KPodChaperon) (podChaperonInformer_defaultInformer ns tweak) f"

definition podChaperonInformer_Lister ::
  "(('c, 'o, 'x) sharedIndexInformer \<Rightarrow> 'i) \<Rightarrow> string \<Rightarrow> ('o \<Rightarrow> 'o) option \<Rightarrow> ('c, 'o, 'x) sharedInformerFactory \<Rightarrow> 'i \<times> ('c, 'o, 'x) sharedInformerFactory" where
  "podChaperonInformer_Lister GetIndexer ns tweak f =
     (case podChaperonInformer_Informer ns tweak f of (informer, f) \<Rightarrow> (GetIndexer informer, f))"

definition NewSourceInformer :: "'c \<Rightarrow> string \<Rightarrow> int \<Rightarrow> string list \<Rightarrow> ('c, 'o, 'x) sharedIndexInformer" where
  "NewSourceInformer c ns resyncPeriod indexers = NewFilteredSourceInformer c ns resyncPeriod indexers None"

definition sourceInformer_defaultInformer :: "string \<Rightarrow> ('o \<Rightarrow> 'o) option \<Rightarrow> 'c \<Rightarrow> int \<Rightarrow> ('c, 'o, 'x) sharedIndexInformer" where
  "sourceInformer_defaultInformer ns tweak c resyncPeriod = NewFilteredSourceInformer c ns resyncPeriod [''namespace''] tweak"

definition sourceInformer_Informer :: "string \<Rightarrow> ('o \<Rightarrow> 'o) option \<Rightarrow> ('c, 'o, 'x) sharedInformerFactory \<Rightarrow> ('c, 'o, 'x) sharedIndexInformer \<times> ('c, 'o, 'x) sharedInformerFactory" where
  "sourceInformer_Informer ns tweak f = InformerFor (typeName KSource) (sourceInformer_defaultInformer ns tweak) f"

definition sourceInformer_Lister ::
  "(('c, 'o, 'x) sharedIndexInformer \<Rightarrow> 'i) \<Rightarrow> string \<Rightarrow> ('o \<Rightarrow> 'o) option \<Rightarrow> ('c, 'o, 'x) sharedInformerFactory \<Rightarrow> 'i \<times> ('c, 'o, 'x) sharedInformerFactory" where
  "sourceInformer_Lister GetIndexer ns tweak f =
     (case sourceInformer_Informer ns tweak f of (informer, f) \<Rightarrow> (GetIndexer informer, f))"

definition NewTargetInformer :: "'c \<Rightarrow> string \<Rightarrow> int \<Rightarrow> string list \<Rightarrow> ('c, 'o, 'x) sharedIndexInformer" where
  "NewTargetInformer c ns resyncPeriod indexers = NewFilteredTargetInformer c ns resyncPeriod indexers None"

definition targetInformer_defaultInformer :: "string \<Rightarrow> ('o \<Rightarrow> 'o) option \<Rightarrow> 'c \<Rightarrow> int \<Rightarrow> ('c, 'o, 'x) sharedIndexInformer" where
  "targetInformer_defaultInformer ns tweak c resyncPeriod = NewFilteredTargetInformer c ns resyncPeriod [''namespace''] tweak"

definition targetInformer_Informer :: "string \<Rightarrow> ('o \<Rightarrow> 'o) option \<Rightarrow> ('c, 'o, 'x) sharedInformerFactory \<Rightarrow> ('c, 'o, 'x) sharedIndexInformer \<times> ('c, 'o, 'x) sharedInformerFactory" where
  "targetInformer_Informer ns tweak f = InformerFor (typeName KTarget) (targetInformer_defaultInformer ns tweak) f"

definition targetInformer_Lister ::
  "(('c, 'o, 'x) sharedIndexInformer \<Rightarrow> 'i) \<Rightarrow> string \<Rightarrow> ('o \<Rightarrow> 'o) option \<Rightarrow> ('c, 'o, 'x) sharedInformerFactory \<Rightarrow> 'i \<times> ('c, 'o, 'x) sharedInformerFactory" where
  "targetInformer_Lister GetIndexer ns tweak f =
     (case targetInformer_Informer ns tweak f of (informer, f) \<Rightarrow> (GetIndexer informer, f))"

text \<open>\<open>f.Multicluster().V1alpha1().<Kind>s().Lister()\<close>.\<close>

fun listerOf :: "(('c, 'o, 'x) sharedIndexInformer \<Rightarrow> 'i) \<Rightarrow> kind \<Rightarrow> ('c, 'o, 'x) sharedInformerFactory \<Rightarrow> 'i \<times> ('c, 'o, 'x) sharedInformerFactory" where
  "listerOf GetIndexer KClusterSource f =
     (let v = V1alpha1 (Multicluster f) in clusterSourceInformer_Lister GetIndexer (v_tweakListOptions v) f)"
| "listerOf GetIndexer KClusterSummary f =
     (let v = V1alpha1 (Multicluster f) in clusterSummaryInformer_Lister GetIndexer (v_tweakListOptions v) f)"
| "listerOf GetIndexer KClusterTarget f =
     (let v = V1alpha1 (Multicluster f) in clusterTargetInformer_Lister GetIndexer (v_tweakListOptions v) f)"
| "listerOf GetIndexer KPodChaperon f =
     (let v = V1alpha1 (Multicluster f) in podChaperonInformer_Lister GetIndexer (v_namespace v) (v_tweakListOptions v) f)"
| "listerOf GetIndexer KSource f =
     (let v = V1alpha1 (Multicluster f) in sourceInformer_Lister GetIndexer (v_namespace v) (v_tweakListOptions v) f)"
| "listerOf GetIndexer KTarget f =
     (let v = V1alpha1 (Multicluster f) in targetInformer_Lister GetIndexer (v_namespace v) (v_tweakListOptions v) f)"

lemmas kindInformer_defs = clusterSourceInformer_Lister_def clusterSourceInformer_Informer_def clusterSourceInformer_defaultInformer_def [abs_def]
  clusterSummaryInformer_Lister_def clusterSummaryInformer_Informer_def clusterSummaryInformer_defaultInformer_def [abs_def]
  clusterTargetInformer_Lister_def clusterTargetInformer_Informer_def clusterTargetInformer_defaultInformer_def [abs_def]
  podChaperonInformer_Lister_def podChaperonInformer_Informer_def podChaperonInformer_defaultInformer_def [abs_def]
  sourceInformer_Lister_def sourceInformer_Informer_def sourceInformer_defaultInformer_def [abs_def]
  targetInformer_Lister_def targetInformer_Informer_def targetInformer_defaultInformer_def [abs_def]

lemma listerOf_informer: "listerOf GetIndexer k f = (GetIndexer (fst (informerOf k f)), snd (informerOf k f))"
  by (cases k) (simp_all add: kindInformer_defs informerOf_def Informer_method_def V1alpha1_def Multicluster_def
      defaultInformer.simps [abs_def] split_beta)


section \<open>What an informer lists\<close>

text \<open>\<open>client.MulticlusterV1alpha1().<Kind>s(namespace).List(options)\<close>, by the resource of the informer.\<close>

definition clientList :: "('p, 'o, 'm, 'r, 'w) multiclusterV1alpha1Client \<Rightarrow> string \<Rightarrow> string option \<Rightarrow> 'p listOptions
    \<Rightarrow> (('p, 'o) clientEvent, ('m, 'o) apiList option \<times> error option) io" where
  "clientList c resource ns options =
     (let namespace = (case ns of None \<Rightarrow> [] | Some n \<Rightarrow> n) in
      if resource = ''clustersources'' then clusterSources_List (ClusterSources (Some c)) options
      else if resource = ''clustersummaries'' then clusterSummaries_List (ClusterSummaries (Some c)) options
      else if resource = ''clustertargets'' then clusterTargets_List (ClusterTargets (Some c)) options
      else if resource = ''podchaperons'' then podChaperons_List (PodChaperons (Some c) namespace) options
      else if resource = ''sources'' then sources_List (Sources (Some c) namespace) options
      else if resource = ''targets'' then targets_List (Targets (Some c) namespace) options
      else panic)"

text \<open>
  A server that holds the objects of each kind answers a list with those of the namespace that is asked for, or all
  of them for the empty namespace, which stands for all.
\<close>

definition visible :: "string option \<Rightarrow> 'a objmeta_scheme \<Rightarrow> bool" where
  "visible ns obj \<longleftrightarrow> (case ns of None \<Rightarrow> True | Some n \<Rightarrow> n = [] \<or> Namespace obj = n)"

definition serves :: "('p, 'a objmeta_scheme, 'm, 'r, 'w) restInterface \<Rightarrow> (kind \<Rightarrow> 'a objmeta_scheme list) \<Rightarrow> bool" where
  "serves rc store \<longleftrightarrow> (\<forall>h r k. ac_verb (readRequest r) = APIList \<longrightarrow> ac_resource (readRequest r) = resourceName k \<longrightarrow>
     (\<exists>m. IntoList rc (rest_Do rc h r) (zeroList rc k) =
       (\<lparr>al_ListMeta = m, al_Items = filter (visible (ac_namespace (readRequest r))) (store k)\<rparr>, None)))"

lemma serves_list:
  assumes "serves rc store" "tc_client c = Some rc" "ac_verb (readRequest (request verb steps)) = APIList"
    "ac_resource (readRequest (request verb steps)) = resourceName k"
    "doIntoList c k verb steps h = (Ret (Some l, err), h')"
  shows "al_Items l = filter (visible (ac_namespace (readRequest (request verb steps)))) (store k)"
proof -
  obtain m where "IntoList rc (rest_Do rc h (request verb steps)) (zeroList rc k) =
      (\<lparr>al_ListMeta = m, al_Items = filter (visible (ac_namespace (readRequest (request verb steps)))) (store k)\<rparr>, None)"
    using assms(1,3,4) unfolding serves_def by blast
  with assms(2,5) show ?thesis by (auto simp: doIntoList_def bindM_call ret_def)
qed

lemma clusterSources_lists:
  assumes "serves rc store" "RESTClient (Some c) = Some rc" "clientList c ''clustersources'' None options h = (Ret (Some l, err), h')"
  shows "al_Items l = filter (visible None) (store KClusterSource)"
proof -
  let ?steps = "[SResource ''clustersources'', SListParams options, STimeout (listTimeout options)]"
  have "doIntoList (ClusterSources (Some c)) KClusterSource VGet ?steps h = (Ret (Some l, err), h')"
    using assms(3) by (simp add: clientList_def clusterSources_List_def Let_def newClient_defs)
  from serves_list [OF assms(1) _ _ _ this] show ?thesis
    by (simp add: newClient_defs assms(2) reading)
qed

lemma clusterSummaries_lists:
  assumes "serves rc store" "RESTClient (Some c) = Some rc" "clientList c ''clustersummaries'' None options h = (Ret (Some l, err), h')"
  shows "al_Items l = filter (visible None) (store KClusterSummary)"
proof -
  let ?steps = "[SResource ''clustersummaries'', SListParams options, STimeout (listTimeout options)]"
  have "doIntoList (ClusterSummaries (Some c)) KClusterSummary VGet ?steps h = (Ret (Some l, err), h')"
    using assms(3) by (simp add: clientList_def clusterSummaries_List_def Let_def newClient_defs)
  from serves_list [OF assms(1) _ _ _ this] show ?thesis
    by (simp add: newClient_defs assms(2) reading)
qed

lemma clusterTargets_lists:
  assumes "serves rc store" "RESTClient (Some c) = Some rc" "clientList c ''clustertargets'' None options h = (Ret (Some l, err), h')"
  shows "al_Items l = filter (visible None) (store KClusterTarget)"
proof -
  let ?steps = "[SResource ''clustertargets'', SListParams options, STimeout (listTimeout options)]"
  have "doIntoList (ClusterTargets (Some c)) KClusterTarget VGet ?steps h = (Ret (Some l, err), h')"
    using assms(3) by (simp add: clientList_def clusterTargets_List_def Let_def newClient_defs)
  from serves_list [OF assms(1) _ _ _ this] show ?thesis
    by (simp add: newClient_defs assms(2) reading)
qed

lemma podChaperons_lists:
  assumes "serves rc store" "RESTClient (Some c) = Some rc" "clientList c ''podchaperons'' (Some ns) options h = (Ret (Some l, err), h')"
  shows "al_Items l = filter (visible (Some ns)) (store KPodChaperon)"
proof -
  let ?steps = "[SNamespace ns, SResource ''podchaperons'', SListParams options, STimeout (listTimeout options)]"
  have "doIntoList (PodChaperons (Some c) ns) KPodChaperon VGet ?steps h = (Ret (Some l, err), h')"
    using assms(3) by (simp add: clientList_def podChaperons_List_def Let_def newClient_defs)
  from serves_list [OF assms(1) _ _ _ this] show ?thesis
    by (simp add: newClient_defs assms(2) reading)
qed

lemma sources_lists:
  assumes "serves rc store" "RESTClient (Some c) = Some rc" "clientList c ''sources'' (Some ns) options h = (Ret (Some l, err), h')"
  shows "al_Items l = filter (visible (Some ns)) (store KSource)"
proof -
  let ?steps = "[SNamespace ns, SResource ''sources'', SListParams options, STimeout (listTimeout options)]"
  have "doIntoList (Sources (Some c) ns) KSource VGet ?steps h = (Ret (Some l, err), h')"
    using assms(3) by (simp add: clientList_def sources_List_def Let_def newClient_defs)
  from serves_list [OF assms(1) _ _ _ this] show ?thesis
    by (simp add: newClient_defs assms(2) reading)
qed

lemma targets_lists:
  assumes "serves rc store" "RESTClient (Some c) = Some rc" "clientList c ''targets'' (Some ns) options h = (Ret (Some l, err), h')"
  shows "al_Items l = filter (visible (Some ns)) (store KTarget)"
proof -
  let ?steps = "[SNamespace ns, SResource ''targets'', SListParams options, STimeout (listTimeout options)]"
  have "doIntoList (Targets (Some c) ns) KTarget VGet ?steps h = (Ret (Some l, err), h')"
    using assms(3) by (simp add: clientList_def targets_List_def Let_def newClient_defs)
  from serves_list [OF assms(1) _ _ _ this] show ?thesis
    by (simp add: newClient_defs assms(2) reading)
qed

lemma informer_lists:
  assumes "serves rc store" "RESTClient (Some c) = Some rc"
    "clientList c (resourceName k) (if namespaced k then Some ns else None) options h = (Ret (Some l, err), h')"
  shows "al_Items l = filter (visible (if namespaced k then Some ns else None)) (store k)"
  using assms(3)
  by (cases k) (simp_all add: clusterSources_lists [OF assms(1,2)] clusterSummaries_lists [OF assms(1,2)] clusterTargets_lists [OF assms(1,2)] podChaperons_lists [OF assms(1,2)] sources_lists [OF assms(1,2)] targets_lists [OF assms(1,2)])

lemma admitted_filter: "admitted k objs \<Longrightarrow> admitted k (filter P objs)"
  by (auto simp: admitted_def distinct_map_filter)

text \<open>
  Property C40.  What a controller reads is what the API server holds.  A factory that no one has tampered with, of
  any kind of the API: its informer lists with the generated client in the namespace of the factory; once the
  index holds what that list returned, the lister that the factory gives finds the object of a namespace and a name just
  when the server has it and the factory watches that namespace, whichever informers were asked for before.
\<close>

theorem cached_reads:
  fixes store :: "kind \<Rightarrow> 'a objmeta_scheme list"
    and f :: "(('p, 'a objmeta_scheme, 'm, 'r, 'w) multiclusterV1alpha1Client, 'p listOptions, 'x) sharedInformerFactory"
  assumes "asExpected f" "tweakListOptions f = None" "RESTClient (Some (sif_client f)) = Some rc" "serves rc store"
    and "ListFunc clientList (fst (informerOf k f)) options h = (Ret (Some l, err), h')"
    and "indexes match k (al_Items l) (GetIndexer (fst (informerOf k f)))"
    and "admitted k (store k)" "CHR ''/'' \<notin> set namespace"
  shows "anyLister_Get NewNotFound k (fst (listerOf GetIndexer k f)) namespace name h'' = (Ret (Inr obj), h'')
    \<longleftrightarrow> obj \<in> set (store k) \<and> Namespace obj = (if namespaced k then namespace else []) \<and> Name obj = name
        \<and> (namespaced k \<longrightarrow> sif_namespace f = [] \<or> sif_namespace f = namespace)"
proof -
  obtain m where i: "informerOf k f = (expectedInformer k f, f\<lparr>informers := m\<rparr>)"
    using informerOf_asExpected [OF assms(1)] by blast
  have "clientList (sif_client f) (resourceName k) (if namespaced k then Some (sif_namespace f) else None) options h
      = (Ret (Some l, err), h')"
    using assms(2,5) by (simp add: i ListFunc_def expectedInformer_def tweaked_def del: namespaced.simps)
  from informer_lists [OF assms(4,3) this]
  have items: "al_Items l = filter (visible (if namespaced k then Some (sif_namespace f) else None)) (store k)" .
  have ad: "admitted k (al_Items l)" unfolding items using assms(7) by (rule admitted_filter)
  show ?thesis
    unfolding listerOf_informer fst_conv lister_reads_cache(1) [OF assms(6) ad assms(8)] items
    by (auto simp: visible_def simp del: namespaced.simps)
qed

text \<open>An instance: a server with one source, and the factory of an agent for the namespace of that source.\<close>

definition sampleStored :: "unit objmeta_scheme" where
  "sampleStored = zero_meta\<lparr>Namespace := ''team'', Name := ''src''\<rparr>"

definition storedUnder :: "string \<Rightarrow> unit objmeta_scheme list" where
  "storedUnder resource = (if resource = ''sources'' then [sampleStored] else [])"

definition sampleServer :: "(unit, unit objmeta_scheme, unit, (unit, unit objmeta_scheme) restRequest, unit) restInterface" where
  "sampleServer = \<lparr>rest_Do = (\<lambda>_ r. r), rest_Watch = (\<lambda>_ _. Inr ()), Into = (\<lambda>_ x. (x, None)),
     IntoList = (\<lambda>r _. (\<lparr>al_ListMeta = (),
       al_Items = filter (visible (ac_namespace (readRequest r))) (storedUnder (ac_resource (readRequest r)))\<rparr>, None)),
     result_Error = (\<lambda>_. None), zeroObject = (\<lambda>_. sampleStored), zeroList = (\<lambda>_. \<lparr>al_ListMeta = (), al_Items = []\<rparr>),
     objectName = Name\<rparr>"

definition sampleIndexer :: "(unit objmeta_scheme, unit) indexer" where
  "sampleIndexer = \<lparr>GetByKey = (\<lambda>key. Inr (map_option (Pair KSource) (find (\<lambda>obj. keyOf obj = key) [sampleStored]))),
     ListAll = (\<lambda>_. (map (Pair KSource) [sampleStored], None)),
     ListAllByNamespace = (\<lambda>ns _. (map (Pair KSource) (filter (\<lambda>obj. Namespace obj = ns) [sampleStored]), None))\<rparr>"

theorem cached_reads_witness:
  "\<exists>(f :: ((unit, unit objmeta_scheme, unit, (unit, unit objmeta_scheme) restRequest, unit) multiclusterV1alpha1Client,
       unit listOptions, unit) sharedInformerFactory).
     sif_namespace f = ''team''
     \<and> anyLister_Get (\<lambda>_ _. Errorf []) KSource (fst (listerOf (\<lambda>_. sampleIndexer) KSource f)) ''team'' ''src'' ([] :: unit list)
       = (Ret (Inr sampleStored), [])"
proof -
  define f :: "((unit, unit objmeta_scheme, unit, (unit, unit objmeta_scheme) restRequest, unit) multiclusterV1alpha1Client,
      unit listOptions, unit) sharedInformerFactory"
    where "f = NewSharedInformerFactoryWithOptions (New_multicluster (Some sampleServer)) 0 [WithNamespace ''team'']"
  have f: "asExpected f" "tweakListOptions f = None" "RESTClient (Some (sif_client f)) = Some sampleServer" "sif_namespace f = ''team''"
    by (simp_all add: f_def asExpected_def NewSharedInformerFactoryWithOptions_def WithNamespace_def RESTClient_def New_multicluster_def)
  have "storedUnder (resourceName k) = (if k = KSource then [sampleStored] else [])" for k
    by (cases k) (simp_all add: storedUnder_def)
  then have serve: "serves sampleServer (\<lambda>k. if k = KSource then [sampleStored] else [])"
    by (simp add: serves_def sampleServer_def)
  define l where "l = \<lparr>al_ListMeta = (), al_Items = [sampleStored]\<rparr>"
  obtain m where i: "informerOf KSource f = (expectedInformer KSource f, f\<lparr>informers := m\<rparr>)"
    using informerOf_asExpected [OF f(1)] by blast
  have list: "ListFunc clientList (fst (informerOf KSource f)) \<lparr>TimeoutSeconds = None, lo_Watch = False, lo_rest = ()\<rparr> []
      = (Ret (Some l, None), [DoRequest (request VGet [SNamespace ''team'', SResource ''sources'',
          SListParams \<lparr>TimeoutSeconds = None, lo_Watch = False, lo_rest = ()\<rparr>, STimeout 0])])"
    using f by (simp add: i ListFunc_def expectedInformer_def tweaked_def clientList_def sources_List_def Let_def
      newClient_defs listTimeout_def doIntoList_def bindM_call sampleServer_def reading storedUnder_def visible_def
      sampleStored_def l_def) (simp add: ret_def)
  have ix: "indexes (\<lambda>_ _. True) KSource (al_Items l) sampleIndexer"
    by (simp add: indexes_def sampleIndexer_def l_def)
  have ad: "admitted KSource (if KSource = KSource then [sampleStored] else [])"
    by (simp add: admitted_def sampleStored_def zero_meta_def)
  have "CHR ''/'' \<notin> set ''team''" by simp
  from cached_reads [OF f(1-3) serve list ix ad this, where NewNotFound = "\<lambda>_ _. Errorf []" and name = "''src''"
      and h'' = "[] :: unit list" and obj = sampleStored]
  show ?thesis using f(4) by (intro exI [of _ f]) (simp add: sampleStored_def)
qed

end
