(* ===== verification/Fake_Clients.thy ===== *)
theory Fake_Clients
  imports Typed_Clients
begin

text \<open>
  The fake clients (\<open>typed/multicluster/v1alpha1/fake\<close>), which the tests of the controllers run against: a method
  records an action and gives what the reactors of the fake answer.  \<open>clients_agree\<close> says that a fake records for
  every method the call that the client it stands for makes.
\<close>

section \<open>The fake client of the group\<close>

record ('p, 'o, 'm, 'w, 'sel) fakeCluster =
  Fake :: "('p, 'o, 'm, 'w, 'sel) fakeClient"

record ('p, 'o, 'm, 'w, 'sel) fakeNamespaced = "('p, 'o, 'm, 'w, 'sel) fakeCluster" +
  fake_ns :: string

definition Fake_ClusterSources :: "('p, 'o, 'm, 'w, 'sel) fakeClient \<Rightarrow> ('p, 'o, 'm, 'w, 'sel) fakeCluster" where
  "Fake_ClusterSources c = \<lparr>Fake = c\<rparr>"

definition Fake_ClusterSummaries :: "('p, 'o, 'm, 'w, 'sel) fakeClient \<Rightarrow> ('p, 'o, 'm, 'w, 'sel) fakeCluster" where
  "Fake_ClusterSummaries c = \<lparr>Fake = c\<rparr>"

definition Fake_ClusterTargets :: "('p, 'o, 'm, 'w, 'sel) fakeClient \<Rightarrow> ('p, 'o, 'm, 'w, 'sel) fakeCluster" where
  "Fake_ClusterTargets c = \<lparr>Fake = c\<rparr>"

definition Fake_PodChaperons :: "('p, 'o, 'm, 'w, 'sel) fakeClient \<Rightarrow> string \<Rightarrow> ('p, 'o, 'm, 'w, 'sel) fakeNamespaced" where
  "Fake_PodChaperons c namespace = \<lparr>Fake = c, fake_ns = namespace\<rparr>"

definition Fake_Sources :: "('p, 'o, 'm, 'w, 'sel) fakeClient \<Rightarrow> string \<Rightarrow> ('p, 'o, 'm, 'w, 'sel) fakeNamespaced" where
  "Fake_Sources c namespace = \<lparr>Fake = c, fake_ns = namespace\<rparr>"

definition Fake_Targets :: "('p, 'o, 'm, 'w, 'sel) fakeClient \<Rightarrow> string \<Rightarrow> ('p, 'o, 'm, 'w, 'sel) fakeNamespaced" where
  "Fake_Targets c namespace = \<lparr>Fake = c, fake_ns = namespace\<rparr>"


section \<open>ClusterSources (fake_clustersource.go)\<close>

definition clustersourcesResource :: groupVersionResource where
  "clustersourcesResource = WithResource ''clustersources''"

definition clustersourcesKind :: groupVersionKind where
  "clustersourcesKind = WithKind ''ClusterSource''"

definition FakeClusterSources_Get :: "('p, 'o, 'm, 'w, 'sel) fakeCluster \<Rightarrow> string \<Rightarrow> 'p \<Rightarrow> (('p, 'o) action, 'o option \<times> error option) io" where
  "FakeClusterSources_Get c name options =
     invokesObject (Fake c) KClusterSource (NewRootGetAction clustersourcesResource name)"

definition FakeClusterSources_List :: "('p, 'o, 'm, 'w, 'sel) fakeCluster \<Rightarrow> 'p listOptions \<Rightarrow> (('p, 'o) action, ('m, 'o) apiList option \<times> error option) io" where
  "FakeClusterSources_List c opts =
     invokesList (Fake c) KClusterSource opts (NewRootListAction clustersourcesResource clustersourcesKind opts)"

definition FakeClusterSources_Watch :: "('p, 'o, 'm, 'w, 'sel) fakeCluster \<Rightarrow> 'p listOptions \<Rightarrow> (('p, 'o) action, error + 'w) io" where
  "FakeClusterSources_Watch c opts =
     invokesWatch (Fake c) (NewRootWatchAction clustersourcesResource opts)"

definition FakeClusterSources_Create :: "('p, 'o, 'm, 'w, 'sel) fakeCluster \<Rightarrow> 'o option \<Rightarrow> 'p \<Rightarrow> (('p, 'o) action, 'o option \<times> error option) io" where
  "FakeClusterSources_Create c clusterSource opts =
     invokesObject (Fake c) KClusterSource (NewRootCreateAction clustersourcesResource clusterSource)"

definition FakeClusterSources_Update :: "('p, 'o, 'm, 'w, 'sel) fakeCluster \<Rightarrow> 'o option \<Rightarrow> 'p \<Rightarrow> (('p, 'o) action, 'o option \<times> error option) io" where
  "FakeClusterSources_Update c clusterSource opts =
     invokesObject (Fake c) KClusterSource (NewRootUpdateAction clustersourcesResource clusterSource)"

definition FakeClusterSources_UpdateStatus :: "('p, 'o, 'm, 'w, 'sel) fakeCluster \<Rightarrow> 'o option \<Rightarrow> 'p \<Rightarrow> (('p, 'o) action, 'o option \<times> error option) io" where
  "FakeClusterSources_UpdateStatus c clusterSource opts =
     invokesObject (Fake c) KClusterSource (NewRootUpdateSubresourceAction clustersourcesResource ''status'' clusterSource)"

definition FakeClusterSources_Delete :: "('p, 'o, 'm, 'w, 'sel) fakeCluster \<Rightarrow> string \<Rightarrow> 'p \<Rightarrow> (('p, 'o) action, error option) io" where
  "FakeClusterSources_Delete c name opts =
     invokesError (Fake c) (ObjectOf KClusterSource (Some (fk_zeroObject (Fake c) KClusterSource)))
       (NewRootDeleteActionWithOptions clustersourcesResource name opts)"

definition FakeClusterSources_DeleteCollection :: "('p, 'o, 'm, 'w, 'sel) fakeCluster \<Rightarrow> 'p \<Rightarrow> 'p listOptions \<Rightarrow> (('p, 'o) action, error option) io" where
  "FakeClusterSources_DeleteCollection c opts listOpts =
     (let action = NewRootDeleteCollectionAction clustersourcesResource listOpts
      in invokesError (Fake c) (ListOf KClusterSource (Some (fk_zeroList (Fake c) KClusterSource))) action)"

definition FakeClusterSources_Patch :: "('p, 'o, 'm, 'w, 'sel) fakeCluster \<Rightarrow> string \<Rightarrow> string \<Rightarrow> string \<Rightarrow> 'p \<Rightarrow> string list \<Rightarrow> (('p, 'o) action, 'o option \<times> error option) io" where
  "FakeClusterSources_Patch c name pt data opts subresources =
     invokesObject (Fake c) KClusterSource (NewRootPatchSubresourceAction clustersourcesResource name pt data subresources)"


section \<open>ClusterSummaries (fake_clustersummary.go)\<close>

definition clustersummariesResource :: groupVersionResource where
  "clustersummariesResource = WithResource ''clustersummaries''"

definition clustersummariesKind :: groupVersionKind where
  "clustersummariesKind = WithKind ''ClusterSummary''"

definition FakeClusterSummaries_Get :: "('p, 'o, 'm, 'w, 'sel) fakeCluster \<Rightarrow> string \<Rightarrow> 'p \<Rightarrow> (('p, 'o) action, 'o option \<times> error option) io" where
  "FakeClusterSummaries_Get c name options =
     invokesObject (Fake c) KClusterSummary (NewRootGetAction clustersummariesResource name)"

definition FakeClusterSummaries_List :: "('p, 'o, 'm, 'w, 'sel) fakeCluster \<Rightarrow> 'p listOptions \<Rightarrow> (('p, 'o) action, ('m, 'o) apiList option \<times> error option) io" where
  "FakeClusterSummaries_List c opts =
     invokesList (Fake c) KClusterSummary opts (NewRootListAction clustersummariesResource clustersummariesKind opts)"

definition FakeClusterSummaries_Watch :: "('p, 'o, 'm, 'w, 'sel) fakeCluster \<Rightarrow> 'p listOptions \<Rightarrow> (('p, 'o) action, error + 'w) io" where
  "FakeClusterSummaries_Watch c opts =
     invokesWatch (Fake c) (NewRootWatchAction clustersummariesResource opts)"

definition FakeClusterSummaries_Create :: "('p, 'o, 'm, 'w, 'sel) fakeCluster \<Rightarrow> 'o option \<Rightarrow> 'p \<Rightarrow> (('p, 'o) action, 'o option \<times> error option) io" where
  "FakeClusterSummaries_Create c clusterSummary opts =
     invokesObject (Fake c) KClusterSummary (NewRootCreateAction clustersummariesResource clusterSummary)"

definition FakeClusterSummaries_Update :: "('p, 'o, 'm, 'w, 'sel) fakeCluster \<Rightarrow> 'o option \<Rightarrow> 'p \<Rightarrow> (('p, 'o) action, 'o option \<times> error option) io" where
  "FakeClusterSummaries_Update c clusterSummary opts =
     invokesObject (Fake c) KClusterSummary (NewRootUpdateAction clustersummariesResource clusterSummary)"

definition FakeClusterSummaries_Delete :: "('p, 'o, 'm, 'w, 'sel) fakeCluster \<Rightarrow> string \<Rightarrow> 'p \<Rightarrow> (('p, 'o) action, error option) io" where
  "FakeClusterSummaries_Delete c name opts =
     invokesError (Fake c) (ObjectOf KClusterSummary (Some (fk_zeroObject (Fake c) KClusterSummary)))
       (NewRootDeleteActionWithOptions clustersummariesResource name opts)"

definition FakeClusterSummaries_DeleteCollection :: "('p, 'o, 'm, 'w, 'sel) fakeCluster \<Rightarrow> 'p \<Rightarrow> 'p listOptions \<Rightarrow> (('p, 'o) action, error option) io" where
  "FakeClusterSummaries_DeleteCollection c opts listOpts =
     (let action = NewRootDeleteCollectionAction clustersummariesResource listOpts
      in invokesError (Fake c) (ListOf KClusterSummary (Some (fk_zeroList (Fake c) KClusterSummary))) action)"

definition FakeClusterSummaries_Patch :: "('p, 'o, 'm, 'w, 'sel) fakeCluster \<Rightarrow> string \<Rightarrow> string \<Rightarrow> string \<Rightarrow> 'p \<Rightarrow> string list \<Rightarrow> (('p, 'o) action, 'o option \<times> error option) io" where
  "FakeClusterSummaries_Patch c name pt data opts subresources =
     invokesObject (Fake c) KClusterSummary (NewRootPatchSubresourceAction clustersummariesResource name pt data subresources)"


section \<open>ClusterTargets (fake_clustertarget.go)\<close>

definition clustertargetsResource :: groupVersionResource where
  "clustertargetsResource = WithResource ''clustertargets''"

definition clustertargetsKind :: groupVersionKind where
  "clustertargetsKind = WithKind ''ClusterTarget''"

definition FakeClusterTargets_Get :: "('p, 'o, 'm, 'w, 'sel) fakeCluster \<Rightarrow> string \<Rightarrow> 'p \<Rightarrow> (('p, 'o) action, 'o option \<times> error option) io" where
  "FakeClusterTargets_Get c name options =
     invokesObject (Fake c) KClusterTarget (NewRootGetAction clustertargetsResource name)"

definition FakeClusterTargets_List :: "('p, 'o, 'm, 'w, 'sel) fakeCluster \<Rightarrow> 'p listOptions \<Rightarrow> (('p, 'o) action, ('m, 'o) apiList option \<times> error option) io" where
  "FakeClusterTargets_List c opts =
     invokesList (Fake c) KClusterTarget opts (NewRootListAction clustertargetsResource clustertargetsKind opts)"

definition FakeClusterTargets_Watch :: "('p, 'o, 'm, 'w, 'sel) fakeCluster \<Rightarrow> 'p listOptions \<Rightarrow> (('p, 'o) action, error + 'w) io" where
  "FakeClusterTargets_Watch c opts =
     invokesWatch (Fake c) (NewRootWatchAction clustertargetsResource opts)"

definition FakeClusterTargets_Create :: "('p, 'o, 'm, 'w, 'sel) fakeCluster \<Rightarrow> 'o option \<Rightarrow> 'p \<Rightarrow> (('p, 'o) action, 'o option \<times> error option) io" where
  "FakeClusterTargets_Create c clusterTarget opts =
     invokesObject (Fake c) KClusterTarget (NewRootCreateAction clustertargetsResource clusterTarget)"

definition FakeClusterTargets_Update :: "('p, 'o, 'm, 'w, 'sel) fakeCluster \<Rightarrow> 'o option \<Rightarrow> 'p \<Rightarrow> (('p, 'o) action, 'o option \<times> error option) io" where
  "FakeClusterTargets_Update c clusterTarget opts =
     invokesObject (Fake c) KClusterTarget (NewRootUpdateAction clustertargetsResource clusterTarget)"

definition FakeClusterTargets_UpdateStatus :: "('p, 'o, 'm, 'w, 'sel) fakeCluster \<Rightarrow> 'o option \<Rightarrow> 'p \<Rightarrow> (('p, 'o) action, 'o option \<times> error option) io" where
  "FakeClusterTargets_UpdateStatus c clusterTarget opts =
     invokesObject (Fake c) KClusterTarget (NewRootUpdateSubresourceAction clustertargetsResource ''status'' clusterTarget)"

definition FakeClusterTargets_Delete :: "('p, 'o, 'm, 'w, 'sel) fakeCluster \<Rightarrow> string \<Rightarrow> 'p \<Rightarrow> (('p, 'o) action, error option) io" where
  "FakeClusterTargets_Delete c name opts =
     invokesError (Fake c) (ObjectOf KClusterTarget (Some (fk_zeroObject (Fake c) KClusterTarget)))
       (NewRootDeleteActionWithOptions clustertargetsResource name opts)"

definition FakeClusterTargets_DeleteCollection :: "('p, 'o, 'm, 'w, 'sel) fakeCluster \<Rightarrow> 'p \<Rightarrow> 'p listOptions \<Rightarrow> (('p, 'o) action, error option) io" where
  "FakeClusterTargets_DeleteCollection c opts listOpts =
     (let action = NewRootDeleteCollectionAction clustertargetsResource listOpts
      in invokesError (Fake c) (ListOf KClusterTarget (Some (fk_zeroList (Fake c) KClusterTarget))) action)"

definition FakeClusterTargets_Patch :: "('p, 'o, 'm, 'w, 'sel) fakeCluster \<Rightarrow> string \<Rightarrow> string \<Rightarrow> string \<Rightarrow> 'p \<Rightarrow> string list \<Rightarrow> (('p, 'o) action, 'o option \<times> error option) io" where
  "FakeClusterTargets_Patch c name pt data opts subresources =
     invokesObject (Fake c) KClusterTarget (NewRootPatchSubresourceAction clustertargetsResource name pt data subresources)"


section \<open>PodChaperons (fake_podchaperon.go)\<close>

definition podchaperonsResource :: groupVersionResource where
  "podchaperonsResource = WithResource ''podchaperons''"

definition podchaperonsKind :: groupVersionKind where
  "podchaperonsKind = WithKind ''PodChaperon''"

definition FakePodChaperons_Get :: "('p, 'o, 'm, 'w, 'sel) fakeNamespaced \<Rightarrow> string \<Rightarrow> 'p \<Rightarrow> (('p, 'o) action, 'o option \<times> error option) io" where
  "FakePodChaperons_Get c name options =
     invokesObject (Fake c) KPodChaperon (NewGetAction podchaperonsResource (fake_ns c) name)"

definition FakePodChaperons_List :: "('p, 'o, 'm, 'w, 'sel) fakeNamespaced \<Rightarrow> 'p listOptions \<Rightarrow> (('p, 'o) action, ('m, 'o) apiList option \<times> error option) io" where
  "FakePodChaperons_List c opts =
     invokesList (Fake c) KPodChaperon opts (NewListAction podchaperonsResource podchaperonsKind (fake_ns c) opts)"

definition FakePodChaperons_Watch :: "('p, 'o, 'm, 'w, 'sel) fakeNamespaced \<Rightarrow> 'p listOptions \<Rightarrow> (('p, 'o) action, error + 'w) io" where
  "FakePodChaperons_Watch c opts =
     invokesWatch (Fake c) (NewWatchAction podchaperonsResource (fake_ns c) opts)"

definition FakePodChaperons_Create :: "('p, 'o, 'm, 'w, 'sel) fakeNamespaced \<Rightarrow> 'o option \<Rightarrow> 'p \<Rightarrow> (('p, 'o) action, 'o option \<times> error option) io" where
  "FakePodChaperons_Create c podChaperon opts =
     invokesObject (Fake c) KPodChaperon (NewCreateAction podchaperonsResource (fake_ns c) podChaperon)"

definition FakePodChaperons_Update :: "('p, 'o, 'm, 'w, 'sel) fakeNamespaced \<Rightarrow> 'o option \<Rightarrow> 'p \<Rightarrow> (('p, 'o) action, 'o option \<times> error option) io" where
  "FakePodChaperons_Update c podChaperon opts =
     invokesObject (Fake c) KPodChaperon (NewUpdateAction podchaperonsResource (fake_ns c) podChaperon)"

definition FakePodChaperons_UpdateStatus :: "('p, 'o, 'm, 'w, 'sel) fakeNamespaced \<Rightarrow> 'o option \<Rightarrow> 'p \<Rightarrow> (('p, 'o) action, 'o option \<times> error option) io" where
  "FakePodChaperons_UpdateStatus c podChaperon opts =
     invokesObject (Fake c) KPodChaperon (NewUpdateSubresourceAction podchaperonsResource ''status'' (fake_ns c) podChaperon)"

definition FakePodChaperons_Delete :: "('p, 'o, 'm, 'w, 'sel) fakeNamespaced \<Rightarrow> string \<Rightarrow> 'p \<Rightarrow> (('p, 'o) action, error option) io" where
  "FakePodChaperons_Delete c name opts =
     invokesError (Fake c) (ObjectOf KPodChaperon (Some (fk_zeroObject (Fake c) KPodChaperon)))
       (NewDeleteActionWithOptions podchaperonsResource (fake_ns c) name opts)"

definition FakePodChaperons_DeleteCollection :: "('p, 'o, 'm, 'w, 'sel) fakeNamespaced \<Rightarrow> 'p \<Rightarrow> 'p listOptions \<Rightarrow> (('p, 'o) action, error option) io" where
  "FakePodChaperons_DeleteCollection c opts listOpts =
     (let action = NewDeleteCollectionAction podchaperonsResource (fake_ns c) listOpts
      in invokesError (Fake c) (ListOf KPodChaperon (Some (fk_zeroList (Fake c) KPodChaperon))) action)"

definition FakePodChaperons_Patch :: "('p, 'o, 'm, 'w, 'sel) fakeNamespaced \<Rightarrow> string \<Rightarrow> string \<Rightarrow> string \<Rightarrow> 'p \<Rightarrow> string list \<Rightarrow> (('p, 'o) action, 'o option \<times> error option) io" where
  "FakePodChaperons_Patch c name pt data opts subresources =
     invokesObject (Fake c) KPodChaperon (NewPatchSubresourceAction podchaperonsResource (fake_ns c) name pt data subresources)"


section \<open>Sources (fake_source.go)\<close>

definition sourcesResource :: groupVersionResource where
  "sourcesResource = WithResource ''sources''"

definition sourcesKind :: groupVersionKind where
  "sourcesKind = WithKind ''Source''"

definition FakeSources_Get :: "('p, 'o, 'm, 'w, 'sel) fakeNamespaced \<Rightarrow> string \<Rightarrow> 'p \<Rightarrow> (('p, 'o) action, 'o option \<times> error option) io" where
  "FakeSources_Get c name options =
     invokesObject (Fake c) KSource (NewGetAction sourcesResource (fake_ns c) name)"

definition FakeSources_List :: "('p, 'o, 'm, 'w, 'sel) fakeNamespaced \<Rightarrow> 'p listOptions \<Rightarrow> (('p, 'o) action, ('m, 'o) apiList option \<times> error option) io" where
  "FakeSources_List c opts =
     invokesList (Fake c) KSource opts (NewListAction sourcesResource sourcesKind (fake_ns c) opts)"

definition FakeSources_Watch :: "('p, 'o, 'm, 'w, 'sel) fakeNamespaced \<Rightarrow> 'p listOptions \<Rightarrow> (('p, 'o) action, error + 'w) io" where
  "FakeSources_Watch c opts =
     invokesWatch (Fake c) (NewWatchAction sourcesResource (fake_ns c) opts)"

definition FakeSources_Create :: "('p, 'o, 'm, 'w, 'sel) fakeNamespaced \<Rightarrow> 'o option \<Rightarrow> 'p \<Rightarrow> (('p, 'o) action, 'o option \<times> error option) io" where
  "FakeSources_Create c source opts =
     invokesObject (Fake c) KSource (NewCreateAction sourcesResource (fake_ns c) source)"

definition FakeSources_Update :: "('p, 'o, 'm, 'w, 'sel) fakeNamespaced \<Rightarrow> 'o option \<Rightarrow> 'p \<Rightarrow> (('p, 'o) action, 'o option \<times> error option) io" where
  "FakeSources_Update c source opts =
     invokesObject (Fake c) KSource (NewUpdateAction sourcesResource (fake_ns c) source)"

definition FakeSources_UpdateStatus :: "('p, 'o, 'm, 'w, 'sel) fakeNamespaced \<Rightarrow> 'o option \<Rightarrow> 'p \<Rightarrow> (('p, 'o) action, 'o option \<times> error option) io" where
  "FakeSources_UpdateStatus c source opts =
     invokesObject (Fake c) KSource (NewUpdateSubresourceAction sourcesResource ''status'' (fake_ns c) source)"

definition FakeSources_Delete :: "('p, 'o, 'm, 'w, 'sel) fakeNamespaced \<Rightarrow> string \<Rightarrow> 'p \<Rightarrow> (('p, 'o) action, error option) io" where
  "FakeSources_Delete c name opts =
     invokesError (Fake c) (ObjectOf KSource (Some (fk_zeroObject (Fake c) KSource)))
       (NewDeleteActionWithOptions sourcesResource (fake_ns c) name opts)"

definition FakeSources_DeleteCollection :: "('p, 'o, 'm, 'w, 'sel) fakeNamespaced \<Rightarrow> 'p \<Rightarrow> 'p listOptions \<Rightarrow> (('p, 'o) action, error option) io" where
  "FakeSources_DeleteCollection c opts listOpts =
     (let action = NewDeleteCollectionAction sourcesResource (fake_ns c) listOpts
      in invokesError (Fake c) (ListOf KSource (Some (fk_zeroList (Fake c) KSource))) action)"

definition FakeSources_Patch :: "('p, 'o, 'm, 'w, 'sel) fakeNamespaced \<Rightarrow> string \<Rightarrow> string \<Rightarrow> string \<Rightarrow> 'p \<Rightarrow> string list \<Rightarrow> (('p, 'o) action, 'o option \<times> error option) io" where
  "FakeSources_Patch c name pt data opts subresources =
     invokesObject (Fake c) KSource (NewPatchSubresourceAction sourcesResource (fake_ns c) name pt data subresources)"


section \<open>Targets (fake_target.go)\<close>

definition targetsResource :: groupVersionResource where
  "targetsResource = WithResource ''targets''"

definition targetsKind :: groupVersionKind where
  "targetsKind = WithKind ''Target''"

definition FakeTargets_Get :: "('p, 'o, 'm, 'w, 'sel) fakeNamespaced \<Rightarrow> string \<Rightarrow> 'p \<Rightarrow> (('p, 'o) action, 'o option \<times> error option) io" where
  "FakeTargets_Get c name options =
     invokesObject (Fake c) KTarget (NewGetAction targetsResource (fake_ns c) name)"

definition FakeTargets_List :: "('p, 'o, 'm, 'w, 'sel) fakeNamespaced \<Rightarrow> 'p listOptions \<Rightarrow> (('p, 'o) action, ('m, 'o) apiList option \<times> error option) io" where
  "FakeTargets_List c opts =
     invokesList (Fake c) KTarget opts (NewListAction targetsResource targetsKind (fake_ns c) opts)"

definition FakeTargets_Watch :: "('p, 'o, 'm, 'w, 'sel) fakeNamespaced \<Rightarrow> 'p listOptions \<Rightarrow> (('p, 'o) action, error + 'w) io" where
  "FakeTargets_Watch c opts =
     invokesWatch (Fake c) (NewWatchAction targetsResource (fake_ns c) opts)"

definition FakeTargets_Create :: "('p, 'o, 'm, 'w, 'sel) fakeNamespaced \<Rightarrow> 'o option \<Rightarrow> 'p \<Rightarrow> (('p, 'o) action, 'o option \<times> error option) io" where
  "FakeTargets_Create c target opts =
     invokesObject (Fake c) KTarget (NewCreateAction targetsResource (fake_ns c) target)"

definition FakeTargets_Update :: "('p, 'o, 'm, 'w, 'sel) fakeNamespaced \<Rightarrow> 'o option \<Rightarrow> 'p \<Rightarrow> (('p, 'o) action, 'o option \<times> error option) io" where
  "FakeTargets_Update c target opts =
     invokesObject (Fake c) KTarget (NewUpdateAction targetsResource (fake_ns c) target)"

definition FakeTargets_UpdateStatus :: "('p, 'o, 'm, 'w, 'sel) fakeNamespaced \<Rightarrow> 'o option \<Rightarrow> 'p \<Rightarrow> (('p, 'o) action, 'o option \<times> error option) io" where
  "FakeTargets_UpdateStatus c target opts =
     invokesObject (Fake c) KTarget (NewUpdateSubresourceAction targetsResource ''status'' (fake_ns c) target)"

definition FakeTargets_Delete :: "('p, 'o, 'm, 'w, 'sel) fakeNamespaced \<Rightarrow> string \<Rightarrow> 'p \<Rightarrow> (('p, 'o) action, error option) io" where
  "FakeTargets_Delete c name opts =
     invokesError (Fake c) (ObjectOf KTarget (Some (fk_zeroObject (Fake c) KTarget)))
       (NewDeleteActionWithOptions targetsResource (fake_ns c) name opts)"

definition FakeTargets_DeleteCollection :: "('p, 'o, 'm, 'w, 'sel) fakeNamespaced \<Rightarrow> 'p \<Rightarrow> 'p listOptions \<Rightarrow> (('p, 'o) action, error option) io" where
  "FakeTargets_DeleteCollection c opts listOpts =
     (let action = NewDeleteCollectionAction targetsResource (fake_ns c) listOpts
      in invokesError (Fake c) (ListOf KTarget (Some (fk_zeroList (Fake c) KTarget))) action)"

definition FakeTargets_Patch :: "('p, 'o, 'm, 'w, 'sel) fakeNamespaced \<Rightarrow> string \<Rightarrow> string \<Rightarrow> string \<Rightarrow> 'p \<Rightarrow> string list \<Rightarrow> (('p, 'o) action, 'o option \<times> error option) io" where
  "FakeTargets_Patch c name pt data opts subresources =
     invokesObject (Fake c) KTarget (NewPatchSubresourceAction targetsResource (fake_ns c) name pt data subresources)"


section \<open>All kinds and methods\<close>

fun FakeClusterSources_call :: "('p, 'o, 'm, 'w, 'sel) fakeCluster \<Rightarrow> ('p, 'o) apiMethod \<Rightarrow> (('p, 'o) action, ('o, 'm, 'w) answer) io" where
  "FakeClusterSources_call c (MGet name options) = mapM AnObject (FakeClusterSources_Get c name options)"
| "FakeClusterSources_call c (MList opts) = mapM AListOf (FakeClusterSources_List c opts)"
| "FakeClusterSources_call c (MWatch opts) = mapM AWatch (FakeClusterSources_Watch c opts)"
| "FakeClusterSources_call c (MCreate x opts) = mapM AnObject (FakeClusterSources_Create c x opts)"
| "FakeClusterSources_call c (MUpdate x opts) = mapM AnObject (FakeClusterSources_Update c x opts)"
| "FakeClusterSources_call c (MUpdateStatus x opts) = mapM AnObject (FakeClusterSources_UpdateStatus c x opts)"
| "FakeClusterSources_call c (MDelete name opts) = mapM AnError (FakeClusterSources_Delete c name opts)"
| "FakeClusterSources_call c (MDeleteCollection opts lo) = mapM AnError (FakeClusterSources_DeleteCollection c opts lo)"
| "FakeClusterSources_call c (MPatch name pt data opts ss) = mapM AnObject (FakeClusterSources_Patch c name pt data opts ss)"

fun FakeClusterSummaries_call :: "('p, 'o, 'm, 'w, 'sel) fakeCluster \<Rightarrow> ('p, 'o) apiMethod \<Rightarrow> (('p, 'o) action, ('o, 'm, 'w) answer) io" where
  "FakeClusterSummaries_call c (MGet name options) = mapM AnObject (FakeClusterSummaries_Get c name options)"
| "FakeClusterSummaries_call c (MList opts) = mapM AListOf (FakeClusterSummaries_List c opts)"
| "FakeClusterSummaries_call c (MWatch opts) = mapM AWatch (FakeClusterSummaries_Watch c opts)"
| "FakeClusterSummaries_call c (MCreate x opts) = mapM AnObject (FakeClusterSummaries_Create c x opts)"
| "FakeClusterSummaries_call c (MUpdate x opts) = mapM AnObject (FakeClusterSummaries_Update c x opts)"
| "FakeClusterSummaries_call c (MUpdateStatus x opts) = ret NoSuchMethod"
| "FakeClusterSummaries_call c (MDelete name opts) = mapM AnError (FakeClusterSummaries_Delete c name opts)"
| "FakeClusterSummaries_call c (MDeleteCollection opts lo) = mapM AnError (FakeClusterSummaries_DeleteCollection c opts lo)"
| "FakeClusterSummaries_call c (MPatch name pt data opts ss) = mapM AnObject (FakeClusterSummaries_Patch c name pt data opts ss)"

fun FakeClusterTargets_call :: "('p, 'o, 'm, 'w, 'sel) fakeCluster \<Rightarrow> ('p, 'o) apiMethod \<Rightarrow> (('p, 'o) action, ('o, 'm, 'w) answer) io" where
  "FakeClusterTargets_call c (MGet name options) = mapM AnObject (FakeClusterTargets_Get c name options)"
| "FakeClusterTargets_call c (MList opts) = mapM AListOf (FakeClusterTargets_List c opts)"
| "FakeClusterTargets_call c (MWatch opts) = mapM AWatch (FakeClusterTargets_Watch c opts)"
| "FakeClusterTargets_call c (MCreate x opts) = mapM AnObject (FakeClusterTargets_Create c x opts)"
| "FakeClusterTargets_call c (MUpdate x opts) = mapM AnObject (FakeClusterTargets_Update c x opts)"
| "FakeClusterTargets_call c (MUpdateStatus x opts) = mapM AnObject (FakeClusterTargets_UpdateStatus c x opts)"
| "FakeClusterTargets_call c (MDelete name opts) = mapM AnError (FakeClusterTargets_Delete c name opts)"
| "FakeClusterTargets_call c (MDeleteCollection opts lo) = mapM AnError (FakeClusterTargets_DeleteCollection c opts lo)"
| "FakeClusterTargets_call c (MPatch name pt data opts ss) = mapM AnObject (FakeClusterTargets_Patch c name pt data opts ss)"

fun FakePodChaperons_call :: "('p, 'o, 'm, 'w, 'sel) fakeNamespaced \<Rightarrow> ('p, 'o) apiMethod \<Rightarrow> (('p, 'o) action, ('o, 'm, 'w) answer) io" where
  "FakePodChaperons_call c (MGet name options) = mapM AnObject (FakePodChaperons_Get c name options)"
| "FakePodChaperons_call c (MList opts) = mapM AListOf (FakePodChaperons_List c opts)"
| "FakePodChaperons_call c (MWatch opts) = mapM AWatch (FakePodChaperons_Watch c opts)"
| "FakePodChaperons_call c (MCreate x opts) = mapM AnObject (FakePodChaperons_Create c x opts)"
| "FakePodChaperons_call c (MUpdate x opts) = mapM AnObject (FakePodChaperons_Update c x opts)"
| "FakePodChaperons_call c (MUpdateStatus x opts) = mapM AnObject (FakePodChaperons_UpdateStatus c x opts)"
| "FakePodChaperons_call c (MDelete name opts) = mapM AnError (FakePodChaperons_Delete c name opts)"
| "FakePodChaperons_call c (MDeleteCollection opts lo) = mapM AnError (FakePodChaperons_DeleteCollection c opts lo)"
| "FakePodChaperons_call c (MPatch name pt data opts ss) = mapM AnObject (FakePodChaperons_Patch c name pt data opts ss)"

fun FakeSources_call :: "('p, 'o, 'm, 'w, 'sel) fakeNamespaced \<Rightarrow> ('p, 'o) apiMethod \<Rightarrow> (('p, 'o) action, ('o, 'm, 'w) answer) io" where
  "FakeSources_call c (MGet name options) = mapM AnObject (FakeSources_Get c name options)"
| "FakeSources_call c (MList opts) = mapM AListOf (FakeSources_List c opts)"
| "FakeSources_call c (MWatch opts) = mapM AWatch (FakeSources_Watch c opts)"
| "FakeSources_call c (MCreate x opts) = mapM AnObject (FakeSources_Create c x opts)"
| "FakeSources_call c (MUpdate x opts) = mapM AnObject (FakeSources_Update c x opts)"
| "FakeSources_call c (MUpdateStatus x opts) = mapM AnObject (FakeSources_UpdateStatus c x opts)"
| "FakeSources_call c (MDelete name opts) = mapM AnError (FakeSources_Delete c name opts)"
| "FakeSources_call c (MDeleteCollection opts lo) = mapM AnError (FakeSources_DeleteCollection c opts lo)"
| "FakeSources_call c (MPatch name pt data opts ss) = mapM AnObject (FakeSources_Patch c name pt data opts ss)"

fun FakeTargets_call :: "('p, 'o, 'm, 'w, 'sel) fakeNamespaced \<Rightarrow> ('p, 'o) apiMethod \<Rightarrow> (('p, 'o) action, ('o, 'm, 'w) answer) io" where
  "FakeTargets_call c (MGet name options) = mapM AnObject (FakeTargets_Get c name options)"
| "FakeTargets_call c (MList opts) = mapM AListOf (FakeTargets_List c opts)"
| "FakeTargets_call c (MWatch opts) = mapM AWatch (FakeTargets_Watch c opts)"
| "FakeTargets_call c (MCreate x opts) = mapM AnObject (FakeTargets_Create c x opts)"
| "FakeTargets_call c (MUpdate x opts) = mapM AnObject (FakeTargets_Update c x opts)"
| "FakeTargets_call c (MUpdateStatus x opts) = mapM AnObject (FakeTargets_UpdateStatus c x opts)"
| "FakeTargets_call c (MDelete name opts) = mapM AnError (FakeTargets_Delete c name opts)"
| "FakeTargets_call c (MDeleteCollection opts lo) = mapM AnError (FakeTargets_DeleteCollection c opts lo)"
| "FakeTargets_call c (MPatch name pt data opts ss) = mapM AnObject (FakeTargets_Patch c name pt data opts ss)"

fun fakeCall :: "('p, 'o, 'm, 'w, 'sel) fakeClient \<Rightarrow> kind \<Rightarrow> string \<Rightarrow> ('p, 'o) apiMethod \<Rightarrow> (('p, 'o) action, ('o, 'm, 'w) answer) io" where
  "fakeCall c KClusterSource namespace m = FakeClusterSources_call (Fake_ClusterSources c) m"
| "fakeCall c KClusterSummary namespace m = FakeClusterSummaries_call (Fake_ClusterSummaries c) m"
| "fakeCall c KClusterTarget namespace m = FakeClusterTargets_call (Fake_ClusterTargets c) m"
| "fakeCall c KPodChaperon namespace m = FakePodChaperons_call (Fake_PodChaperons c namespace) m"
| "fakeCall c KSource namespace m = FakeSources_call (Fake_Sources c namespace) m"
| "fakeCall c KTarget namespace m = FakeTargets_call (Fake_Targets c namespace) m"

lemmas FakeClusterSources_defs = Fake_ClusterSources_def clustersourcesResource_def FakeClusterSources_Get_def FakeClusterSources_List_def FakeClusterSources_Watch_def FakeClusterSources_Create_def FakeClusterSources_Update_def FakeClusterSources_UpdateStatus_def FakeClusterSources_Delete_def FakeClusterSources_DeleteCollection_def FakeClusterSources_Patch_def

lemmas FakeClusterSummaries_defs = Fake_ClusterSummaries_def clustersummariesResource_def FakeClusterSummaries_Get_def FakeClusterSummaries_List_def FakeClusterSummaries_Watch_def FakeClusterSummaries_Create_def FakeClusterSummaries_Update_def FakeClusterSummaries_Delete_def FakeClusterSummaries_DeleteCollection_def FakeClusterSummaries_Patch_def

lemmas FakeClusterTargets_defs = Fake_ClusterTargets_def clustertargetsResource_def FakeClusterTargets_Get_def FakeClusterTargets_List_def FakeClusterTargets_Watch_def FakeClusterTargets_Create_def FakeClusterTargets_Update_def FakeClusterTargets_UpdateStatus_def FakeClusterTargets_Delete_def FakeClusterTargets_DeleteCollection_def FakeClusterTargets_Patch_def

lemmas FakePodChaperons_defs = Fake_PodChaperons_def podchaperonsResource_def FakePodChaperons_Get_def FakePodChaperons_List_def FakePodChaperons_Watch_def FakePodChaperons_Create_def FakePodChaperons_Update_def FakePodChaperons_UpdateStatus_def FakePodChaperons_Delete_def FakePodChaperons_DeleteCollection_def FakePodChaperons_Patch_def

lemmas FakeSources_defs = Fake_Sources_def sourcesResource_def FakeSources_Get_def FakeSources_List_def FakeSources_Watch_def FakeSources_Create_def FakeSources_Update_def FakeSources_UpdateStatus_def FakeSources_Delete_def FakeSources_DeleteCollection_def FakeSources_Patch_def

lemmas FakeTargets_defs = Fake_Targets_def targetsResource_def FakeTargets_Get_def FakeTargets_List_def FakeTargets_Watch_def FakeTargets_Create_def FakeTargets_Update_def FakeTargets_UpdateStatus_def FakeTargets_Delete_def FakeTargets_DeleteCollection_def FakeTargets_Patch_def

lemma FakeClusterSources_action:
  "hasMethod KClusterSource m \<Longrightarrow>
     calls (readAction nm) (expectedCall nm ''clustersources'' (None) m) (fakeCall fk KClusterSource namespace m)"
  by (cases m) (auto simp: FakeClusterSources_defs Let_def)

lemma FakeClusterSummaries_action:
  "hasMethod KClusterSummary m \<Longrightarrow>
     calls (readAction nm) (expectedCall nm ''clustersummaries'' (None) m) (fakeCall fk KClusterSummary namespace m)"
  by (cases m) (auto simp: FakeClusterSummaries_defs Let_def)

lemma FakeClusterTargets_action:
  "hasMethod KClusterTarget m \<Longrightarrow>
     calls (readAction nm) (expectedCall nm ''clustertargets'' (None) m) (fakeCall fk KClusterTarget namespace m)"
  by (cases m) (auto simp: FakeClusterTargets_defs Let_def)

lemma FakePodChaperons_action:
  "hasMethod KPodChaperon m \<Longrightarrow>
     calls (readAction nm) (expectedCall nm ''podchaperons'' (Some namespace) m) (fakeCall fk KPodChaperon namespace m)"
  by (cases m) (auto simp: FakePodChaperons_defs Let_def)

lemma FakeSources_action:
  "hasMethod KSource m \<Longrightarrow>
     calls (readAction nm) (expectedCall nm ''sources'' (Some namespace) m) (fakeCall fk KSource namespace m)"
  by (cases m) (auto simp: FakeSources_defs Let_def)

lemma FakeTargets_action:
  "hasMethod KTarget m \<Longrightarrow>
     calls (readAction nm) (expectedCall nm ''targets'' (Some namespace) m) (fakeCall fk KTarget namespace m)"
  by (cases m) (auto simp: FakeTargets_defs Let_def)

lemma fake_action:
  "hasMethod k m \<Longrightarrow>
     calls (readAction nm) (expectedCall nm (resourceName k) (if namespaced k then Some namespace else None) m)
       (fakeCall fk k namespace m)"
  by (cases k) (simp_all only: resourceName.simps namespaced.simps kind.distinct kind.simps insert_iff empty_iff simp_thms if_True if_False
      FakeClusterSources_action FakeClusterSummaries_action FakeClusterTargets_action FakePodChaperons_action FakeSources_action FakeTargets_action)

text \<open>
  Property C35.  The generated clients and the fakes of the tests agree.  For each of the six kinds and each method
  of its client, with a client that is not nil, an object to update and no list that asks to watch, the client makes
  exactly one request and the fake records exactly one action, whatever the servers answer; both read as the call
  that the method stands for: the verb (a request is a watch only if its list options say \<open>watch\<close>, which the client
  has to set), the resource that \<open>ForResource\<close> knows the kind by, the namespace for the kinds that have one, the name,
  the subresource \<open>status\<close> of a status update, the object or patch, and the filter of a collection.  And the request
  carries the caller's options once each, where they belong, and for a collection the timeout in nanoseconds.
\<close>

theorem clients_agree:
  assumes "RESTClient c = Some rc" "hasMethod k m"
  shows "\<exists>e a. snd (typedCall c k namespace m h) = h @ [e] \<and> snd (fakeCall fk k namespace m h') = h' @ [a]
    \<and> readEvent e = readAction (objectName rc) a
    \<and> readEvent e = expectedCall (objectName rc) (resourceName k) (if namespaced k then Some namespace else None) m
    \<and> requestParams e = expectedParams m"
proof -
  obtain e where e: "snd (typedCall c k namespace m h) = h @ [e]"
    "readWhole e = (expectedCall (objectName rc) (resourceName k) (if namespaced k then Some namespace else None) m,
       expectedParams m)"
    using typed_request [OF assms] unfolding calls_def by blast
  obtain a where "snd (fakeCall fk k namespace m h') = h' @ [a]"
    "readAction (objectName rc) a = expectedCall (objectName rc) (resourceName k) (if namespaced k then Some namespace else None) m"
    using fake_action [OF assms(2), where nm = "objectName rc" and fk = fk and namespace = namespace] unfolding calls_def by blast
  with e show ?thesis by (auto simp: readWhole_def)
qed

text \<open>An instance: objects are known by their names; the pod chaperons of a namespace are watched for thirty seconds.\<close>

definition sampleRest :: "(unit, string, unit, string option, unit) restInterface" where
  "sampleRest = \<lparr>rest_Do = (\<lambda>_ _. None), rest_Watch = (\<lambda>_ _. Inr ()),
     Into = (\<lambda>r o'. case r of None \<Rightarrow> (o', None) | Some x \<Rightarrow> (x, None)), IntoList = (\<lambda>r l. (l, None)),
     result_Error = (\<lambda>_. None), zeroObject = (\<lambda>_. []), zeroList = (\<lambda>_. \<lparr>al_ListMeta = (), al_Items = []\<rparr>), objectName = (\<lambda>x. x)\<rparr>"

definition sampleFake :: "(unit, string, unit, unit, unit) fakeClient" where
  "sampleFake = \<lparr>Invokes = (\<lambda>_ _ def. (Some def, None)), InvokesWatch = (\<lambda>_ _. Inr ()), ExtractLabel = (\<lambda>_. None),
     Everything = (), Matches = (\<lambda>_ _. True), objectLabels = (\<lambda>_. None), fk_zeroObject = (\<lambda>_. []),
     fk_zeroList = (\<lambda>_. \<lparr>al_ListMeta = (), al_Items = []\<rparr>), fk_zeroMeta = ()\<rparr>"

definition sampleWatch :: "(unit, string) apiMethod" where
  "sampleWatch = MWatch \<lparr>TimeoutSeconds = Some 30, lo_Watch = False, lo_rest = ()\<rparr>"

theorem clients_agree_witness:
  "\<exists>e a. snd (typedCall (Some (New_multicluster (Some sampleRest))) KPodChaperon ''team'' sampleWatch []) = [e]
    \<and> snd (fakeCall sampleFake KPodChaperon ''team'' sampleWatch []) = [a]
    \<and> readEvent e = readAction id a \<and> ac_verb (readEvent e) = APIWatch \<and> ac_namespace (readEvent e) = Some ''team''
    \<and> ac_resource (readEvent e) = ''podchaperons''
    \<and> map lo_Watch (ap_lists (requestParams e)) = [True] \<and> ap_timeouts (requestParams e) = [30000000000]"
proof -
  have rc: "RESTClient (Some (New_multicluster (Some sampleRest))) = Some sampleRest"
    by (simp add: RESTClient_def New_multicluster_def)
  have nm: "objectName sampleRest = id" by (simp add: sampleRest_def fun_eq_iff)
  have "hasMethod KPodChaperon sampleWatch" by (simp add: sampleWatch_def)
  from clients_agree [OF rc this, where fk = sampleFake and namespace = "''team''" and h = "[]" and h' = "[]"]
  obtain e a where ea: "snd (typedCall (Some (New_multicluster (Some sampleRest))) KPodChaperon ''team'' sampleWatch []) = [e]"
    "snd (fakeCall sampleFake KPodChaperon ''team'' sampleWatch []) = [a]"
    "readEvent e = readAction id a"
    "readEvent e = expectedCall id ''podchaperons'' (Some ''team'') sampleWatch"
    "requestParams e = expectedParams sampleWatch"
    by (auto simp only: nm append_Nil resourceName.simps namespaced.simps insert_iff simp_thms if_True)
  show ?thesis
    by (rule exI [of _ e], rule exI [of _ a])
      (simp only: ea(1,2), simp only: ea(3) [symmetric] ea(4,5), simp add: apiCallOf_def sampleWatch_def listTimeout_def)
qed

end
