(* ===== verification/Clientset.thy ===== *)
theory Clientset
  imports Fake_Clients
begin

text \<open>
  How a clientset is made (\<open>clientset.go\<close>, \<open>multicluster_client.go\<close> and the fake of the tests): the defaults of a
  configuration, the rate limiter and the clients that share it.  A constructor of a library is an API call: what it
  returns may depend on the calls before it, so two rate limiters are never taken for one.
\<close>

section \<open>Configurations\<close>

text \<open>The fields of \<open>rest.Config\<close> the code touches; \<open>positive\<close> compares a float with zero.\<close>

record ('f, 'l, 'x) restConfig =
  GroupVersion :: "(string \<times> string) option"
  APIPath :: string
  NegotiatedSerializer :: "string option"
  UserAgent :: string
  RateLimiter :: "'l option"
  QPS :: 'f
  Burst :: int
  cfg_rest :: 'x

datatype ('f, 'l, 'x, 'h) setupEvent =
    HTTPClientFor "('f, 'l, 'x) restConfig"
  | NewTokenBucketRateLimiter 'f int
  | RESTClientForConfigAndClient "('f, 'l, 'x) restConfig" 'h
  | NewDiscoveryClientForConfigAndClient "('f, 'l, 'x) restConfig" 'h

record ('f, 'l, 'x, 'h, 'c, 'd) setupEnv =
  su_HTTPClientFor :: "('f, 'l, 'x, 'h) setupEvent list \<Rightarrow> error + 'h"
  su_NewLimiter :: "('f, 'l, 'x, 'h) setupEvent list \<Rightarrow> 'l"
  su_RESTClient :: "('f, 'l, 'x, 'h) setupEvent list \<Rightarrow> error + 'c"
  su_Discovery :: "('f, 'l, 'x, 'h) setupEvent list \<Rightarrow> error + 'd"
  positive :: "'f \<Rightarrow> bool"
  DefaultKubernetesUserAgent :: string


section \<open>The client of the group (multicluster_client.go)\<close>

definition setConfigDefaults ::
  "('f, 'l, 'x, 'h, 'c, 'd) setupEnv \<Rightarrow> ('f, 'l, 'x) restConfig \<Rightarrow> error option \<times> ('f, 'l, 'x) restConfig" where
  "setConfigDefaults e config =
     (let config = config\<lparr>GroupVersion := Some (''multicluster.admiralty.io'', ''v1alpha1''), APIPath := ''/apis'',
                          NegotiatedSerializer := Some ''scheme.Codecs.WithoutConversion''\<rparr>;
          config = (if UserAgent config = [] then config\<lparr>UserAgent := DefaultKubernetesUserAgent e\<rparr> else config)
      in (None, config))"

definition NewForConfigAndClient_group ::
  "('f, 'l, 'x, 'h, 'c, 'd) setupEnv \<Rightarrow> ('f, 'l, 'x) restConfig \<Rightarrow> 'h \<Rightarrow> (('f, 'l, 'x, 'h) setupEvent, 'c) io" where
  "NewForConfigAndClient_group e c h =
     (let config = c
      in case setConfigDefaults e config of
           (Some err, config) \<Rightarrow> fail err
         | (None, config) \<Rightarrow> bindM (call (su_RESTClient e) (RESTClientForConfigAndClient config h)) tryM)"

definition NewForConfig_group ::
  "('f, 'l, 'x, 'h, 'c, 'd) setupEnv \<Rightarrow> ('f, 'l, 'x) restConfig \<Rightarrow> (('f, 'l, 'x, 'h) setupEvent, 'c) io" where
  "NewForConfig_group e c =
     (let config = c
      in case setConfigDefaults e config of
           (Some err, config) \<Rightarrow> fail err
         | (None, config) \<Rightarrow>
             bindM (call (su_HTTPClientFor e) (HTTPClientFor config)) (\<lambda>r.
             bindM (tryM r) (\<lambda>httpClient. NewForConfigAndClient_group e config httpClient)))"

text \<open>\<open>NewForConfigOrDie\<close> panics with the error.\<close>

definition orDie :: "('e, 'a) io \<Rightarrow> ('e, 'a) io" where
  "orDie m = bindM (attempt m) (\<lambda>r. case r of Inl err \<Rightarrow> panic | Inr client \<Rightarrow> ret client)"

definition NewForConfigOrDie_group ::
  "('f, 'l, 'x, 'h, 'c, 'd) setupEnv \<Rightarrow> ('f, 'l, 'x) restConfig \<Rightarrow> (('f, 'l, 'x, 'h) setupEvent, 'c) io" where
  "NewForConfigOrDie_group e c = orDie (NewForConfig_group e c)"


section \<open>The clientset (clientset.go)\<close>

record ('c, 'd) clientset =
  DiscoveryClient :: 'd
  cs_multiclusterV1alpha1 :: 'c

definition MulticlusterV1alpha1 :: "('c, 'd) clientset \<Rightarrow> 'c" where
  "MulticlusterV1alpha1 c = cs_multiclusterV1alpha1 c"

definition Discovery :: "('c, 'd) clientset option \<Rightarrow> 'd option" where
  "Discovery c = (case c of None \<Rightarrow> None | Some c \<Rightarrow> Some (DiscoveryClient c))"

definition NewForConfigAndClient ::
  "('f, 'l, 'x, 'h, 'c, 'd) setupEnv \<Rightarrow> ('f, 'l, 'x) restConfig \<Rightarrow> 'h
     \<Rightarrow> (('f, 'l, 'x, 'h) setupEvent, ('c, 'd) clientset) io" where
  "NewForConfigAndClient e c httpClient =
     bindM (if RateLimiter c = None \<and> positive e (QPS c)
            then if Burst c \<le> 0
                 then fail (Errorf ''burst is required to be greater than 0 when RateLimiter is not set and QPS is set to greater than 0'')
                 else bindM (call (su_NewLimiter e) (NewTokenBucketRateLimiter (QPS c) (Burst c))) (\<lambda>l.
                      ret (c\<lparr>RateLimiter := Some l\<rparr>))
            else ret c) (\<lambda>configShallowCopy.
     bindM (NewForConfigAndClient_group e configShallowCopy httpClient) (\<lambda>mc.
     bindM (call (su_Discovery e) (NewDiscoveryClientForConfigAndClient configShallowCopy httpClient)) (\<lambda>r.
     bindM (tryM r) (\<lambda>d.
     ret \<lparr>DiscoveryClient = d, cs_multiclusterV1alpha1 = mc\<rparr>))))"

definition NewForConfig ::
  "('f, 'l, 'x, 'h, 'c, 'd) setupEnv \<Rightarrow> ('f, 'l, 'x) restConfig \<Rightarrow> (('f, 'l, 'x, 'h) setupEvent, ('c, 'd) clientset) io" where
  "NewForConfig e c =
     (let configShallowCopy = c;
          configShallowCopy = (if UserAgent configShallowCopy = []
            then configShallowCopy\<lparr>UserAgent := DefaultKubernetesUserAgent e\<rparr> else configShallowCopy)
      in bindM (call (su_HTTPClientFor e) (HTTPClientFor configShallowCopy)) (\<lambda>r.
         bindM (tryM r) (\<lambda>httpClient. NewForConfigAndClient e configShallowCopy httpClient)))"

definition NewForConfigOrDie ::
  "('f, 'l, 'x, 'h, 'c, 'd) setupEnv \<Rightarrow> ('f, 'l, 'x) restConfig \<Rightarrow> (('f, 'l, 'x, 'h) setupEvent, ('c, 'd) clientset) io" where
  "NewForConfigOrDie e c = orDie (NewForConfig e c)"

text \<open>\<open>New\<close> takes a REST client as it is.\<close>

definition New_clientset :: "('c \<Rightarrow> 'd) \<Rightarrow> ('c \<Rightarrow> 'g) \<Rightarrow> 'c \<Rightarrow> ('g, 'd) clientset" where
  "New_clientset NewDiscoveryClient New_group c =
     \<lparr>DiscoveryClient = NewDiscoveryClient c, cs_multiclusterV1alpha1 = New_group c\<rparr>"


section \<open>The clientset of the tests (fake/clientset_generated.go)\<close>

text \<open>
  The tracker is a parameter with its method \<open>Add\<close>; an error of it panics.  The reactors are those the clientset
  adds: the reaction of the tracker for every verb and resource, and the watch.
\<close>

datatype ('t, 'gvr, 'w) reactor =
    Reactor string string 't
  | WatchReactor string "'gvr \<Rightarrow> string \<Rightarrow> bool \<times> 'w option \<times> error option"

record ('t, 'gvr, 'w) fakeClientset =
  fcs_tracker :: 't
  fcs_reactors :: "('t, 'gvr, 'w) reactor list"

fun addObjects :: "('x \<Rightarrow> 't \<Rightarrow> error + 't) \<Rightarrow> 'x list \<Rightarrow> 't \<Rightarrow> ('e, 't) io" where
  "addObjects Add [] o' = ret o'"
| "addObjects Add (obj # objects) o' = (case Add obj o' of Inl err \<Rightarrow> panic | Inr o'' \<Rightarrow> addObjects Add objects o'')"

definition watchReaction :: "('t \<Rightarrow> 'gvr \<Rightarrow> string \<Rightarrow> error + 'w) \<Rightarrow> 't \<Rightarrow> 'gvr \<Rightarrow> string \<Rightarrow> bool \<times> 'w option \<times> error option" where
  "watchReaction Watch o' gvr ns =
     (case Watch o' gvr ns of Inl err \<Rightarrow> (False, None, Some err) | Inr watch \<Rightarrow> (True, Some watch, None))"

definition NewSimpleClientset ::
  "'t \<Rightarrow> ('x \<Rightarrow> 't \<Rightarrow> error + 't) \<Rightarrow> ('t \<Rightarrow> 'gvr \<Rightarrow> string \<Rightarrow> error + 'w) \<Rightarrow> 'x list
     \<Rightarrow> ('e, ('t, 'gvr, 'w) fakeClientset) io" where
  "NewSimpleClientset NewObjectTracker Add Watch objects =
     bindM (addObjects Add objects NewObjectTracker) (\<lambda>o'.
     let cs = \<lparr>fcs_tracker = o', fcs_reactors = []\<rparr>;
         cs = cs\<lparr>fcs_reactors := fcs_reactors cs @ [Reactor ''*'' ''*'' o']\<rparr>;
         cs = cs\<lparr>fcs_reactors := fcs_reactors cs @ [WatchReactor ''*'' (watchReaction Watch o')]\<rparr>
     in ret cs)"


section \<open>What a clientset is\<close>

lemma bindM_tryM: "bindM (tryM (Inr x)) f = f x" "bindM (tryM (Inl err)) f = fail err"
  by (simp_all add: tryM_def bindM_def fail_def ret_def fun_eq_iff)

lemma bindM_fail: "bindM (fail err) f = fail err"
  by (simp add: bindM_def fail_def fun_eq_iff)

lemma setConfigDefaults_keeps:
  "setConfigDefaults e c = (None, c') \<Longrightarrow> RateLimiter c' = RateLimiter c \<and> QPS c' = QPS c \<and> Burst c' = Burst c
     \<and> cfg_rest c' = cfg_rest c \<and> APIPath c' = ''/apis'' \<and> GroupVersion c' = Some (''multicluster.admiralty.io'', ''v1alpha1'')"
  by (auto simp: setConfigDefaults_def Let_def)

lemma setConfigDefaults_ok: "fst (setConfigDefaults e c) = None"
  by (simp add: setConfigDefaults_def Let_def)

text \<open>
  A configuration with a rate but no burst is refused before any client is made, unless it has a limiter of its own.
\<close>

lemma clientset_needs_burst:
  assumes "RateLimiter c = None" "positive e (QPS c)" "Burst c \<le> 0"
  shows "\<exists>err. NewForConfigAndClient e c httpClient h = (Fail err, h)"
  using assms by (simp add: NewForConfigAndClient_def bindM_fail) (simp add: fail_def)

text \<open>
  Otherwise the client of the group and the discovery client of a clientset share one rate limiter, that of the
  configuration or one new token bucket, and one transport; no limiter is made when no rate is asked for.
\<close>

theorem clientset_shares_limiter:
  fixes c :: "('f, 'l, 'x) restConfig" and h :: "('f, 'l, 'x, 'h) setupEvent list"
  assumes "NewForConfigAndClient e c httpClient h = (Ret cs, h')"
  obtains c1 c2 ls where "h' = h @ ls @ [RESTClientForConfigAndClient c1 httpClient, NewDiscoveryClientForConfigAndClient c2 httpClient]"
    "RateLimiter c1 = RateLimiter c2" "APIPath c1 = ''/apis''" "cfg_rest c1 = cfg_rest c" "cfg_rest c2 = cfg_rest c"
    "if RateLimiter c = None \<and> positive e (QPS c)
     then 0 < Burst c \<and> ls = [NewTokenBucketRateLimiter (QPS c) (Burst c)] \<and> RateLimiter c2 = Some (su_NewLimiter e h)
     else ls = [] \<and> c2 = c"
proof -
  let ?lim = "RateLimiter c = None \<and> positive e (QPS c)"
  define c2 where "c2 = (if ?lim then c\<lparr>RateLimiter := Some (su_NewLimiter e h)\<rparr> else c)"
  define ls :: "('f, 'l, 'x, 'h) setupEvent list" where "ls = (if ?lim then [NewTokenBucketRateLimiter (QPS c) (Burst c)] else [])"
  obtain c1 where c1: "setConfigDefaults e c2 = (None, c1)"
    using setConfigDefaults_ok [of e c2] by (cases "setConfigDefaults e c2") simp
  have burst: "0 < Burst c" if ?lim
    using clientset_needs_burst [of c e httpClient h] that assms by (cases "Burst c \<le> 0") auto
  let ?after = "\<lambda>configShallowCopy. bindM (NewForConfigAndClient_group e configShallowCopy httpClient) (\<lambda>mc.
     bindM (call (su_Discovery e) (NewDiscoveryClientForConfigAndClient configShallowCopy httpClient)) (\<lambda>r.
     bindM (tryM r) (\<lambda>d. ret \<lparr>DiscoveryClient = d, cs_multiclusterV1alpha1 = mc\<rparr>)))"
  have "NewForConfigAndClient e c httpClient h = ?after c2 (h @ ls)"
    using burst
    by (auto simp: NewForConfigAndClient_def c2_def ls_def bindM_def [of "bindM _ _"] bindM_call) (auto simp: ret_def)
  with assms have "?after c2 (h @ ls) = (Ret cs, h')" by simp
  then have "h' = h @ ls @ [RESTClientForConfigAndClient c1 httpClient, NewDiscoveryClientForConfigAndClient c2 httpClient]"
    by (auto simp: NewForConfigAndClient_group_def c1 bindM_def call_def tryM_def ret_def fail_def
        split: sum.splits)
  moreover note setConfigDefaults_keeps [OF c1]
  ultimately show ?thesis
    using burst by (intro that [of ls c1 c2]) (auto simp: c2_def ls_def)
qed

text \<open>Any object the tracker refuses makes the fake clientset panic; otherwise all are in it, in order.\<close>

lemma NewSimpleClientset_adds:
  fixes h :: "'e list" and o' :: 't
  shows "\<forall>obj \<in> set objects. \<forall>o'. \<exists>o''. Add obj o' = Inr o'' \<Longrightarrow>
   \<exists>cs. NewSimpleClientset o' Add Watch objects h = (Ret cs, h)
     \<and> fcs_tracker cs = fold (\<lambda>obj o'. case Add obj o' of Inl _ \<Rightarrow> o' | Inr o'' \<Rightarrow> o'') objects o'"
proof -
  assume ok: "\<forall>obj \<in> set objects. \<forall>o'. \<exists>o''. Add obj o' = Inr o''"
  have "addObjects Add objects o' = (ret (fold (\<lambda>obj o'. case Add obj o' of Inl _ \<Rightarrow> o' | Inr o'' \<Rightarrow> o'') objects o') :: ('e, 't) io)"
    using ok
  proof (induction objects arbitrary: o')
    case (Cons obj objects)
    from Cons.prems obtain o'' where "Add obj o' = Inr o''" by fastforce
    with Cons show ?case by simp
  qed simp
  then show ?thesis by (simp add: NewSimpleClientset_def Let_def) (simp add: ret_def)
qed

end
