(* ===== verification/Go_Memory.thy ===== *)
theory Go_Memory
  imports Go_Prelude
begin

text \<open>
  Memory with sharing, for the code whose point is that it does not share: the generated deep copies.  A memory
  is a list of cells, an address is a position, and allocation appends; a pointer, a slice or a map is an
  address or \<open>nil\<close>.
  \<^item> A \<^emph>\<open>view\<close> of a Go type says which of its values are well-formed in a memory, what they mean (the
    value with its pointers followed), and which cells that meaning rests on.
  \<^item> \<open>deepCopies V copy\<close> is the contract of a deep copy: the same meaning, in cells that were not there before,
    with no old cell changed.
  The lemmas build a view and the contract of its copy along the structure of the type.
\<close>

section \<open>Views\<close>

type_synonym addr = nat
type_synonym 'c memory = "'c list"

record ('c, 'a, 'v) view =
  okay :: "'c memory \<Rightarrow> 'a \<Rightarrow> bool"
  meaning :: "'c memory \<Rightarrow> 'a \<Rightarrow> 'v"
  locs :: "'c memory \<Rightarrow> 'a \<Rightarrow> addr set"

type_synonym ('c, 'a) copyFun = "'a \<Rightarrow> 'c memory \<Rightarrow> 'a \<times> 'c memory"

definition extends :: "'c memory \<Rightarrow> 'c memory \<Rightarrow> bool" where
  "extends h h' \<longleftrightarrow> length h \<le> length h' \<and> (\<forall>a < length h. h' ! a = h ! a)"

definition lawful :: "('c, 'a, 'v) view \<Rightarrow> bool" where
  "lawful V \<longleftrightarrow> (\<forall>h x. okay V h x \<longrightarrow> locs V h x \<subseteq> {..<length h} \<and>
     (\<forall>h'. (\<forall>a \<in> locs V h x. a < length h' \<and> h' ! a = h ! a) \<longrightarrow>
        okay V h' x \<and> meaning V h' x = meaning V h x \<and> locs V h' x = locs V h x))"

definition deepCopies :: "('c, 'a, 'v) view \<Rightarrow> ('c, 'a) copyFun \<Rightarrow> bool" where
  "deepCopies V copy \<longleftrightarrow> (\<forall>x h y h'. okay V h x \<longrightarrow> copy x h = (y, h') \<longrightarrow>
     okay V h' y \<and> meaning V h' y = meaning V h x \<and> extends h h' \<and> locs V h' y \<subseteq> {length h..<length h'})"

lemma extends_refl [simp]: "extends h h"
  by (simp add: extends_def)

lemma extends_trans: "extends h h' \<Longrightarrow> extends h' h'' \<Longrightarrow> extends h h''"
  by (auto simp: extends_def)

lemma extends_append [simp]: "extends h (h @ xs)"
  by (simp add: extends_def nth_append)

lemma extends_length: "extends h h' \<Longrightarrow> length h \<le> length h'"
  by (simp add: extends_def)

lemma extends_update: "extends h h' \<Longrightarrow> length h \<le> a \<Longrightarrow> extends h (h'[a := c])"
  by (simp add: extends_def)

lemma lawfulD:
  assumes "lawful V" "okay V h x"
  shows "locs V h x \<subseteq> {..<length h}"
    and "(\<And>a. a \<in> locs V h x \<Longrightarrow> a < length h' \<and> h' ! a = h ! a) \<Longrightarrow>
      okay V h' x \<and> meaning V h' x = meaning V h x \<and> locs V h' x = locs V h x"
  using assms unfolding lawful_def by blast+

lemma lawful_extends:
  assumes "lawful V" "okay V h x" "extends h h'"
  shows "okay V h' x \<and> meaning V h' x = meaning V h x \<and> locs V h' x = locs V h x"
  using assms(3) lawfulD(1) [OF assms(1,2)]
  by (intro lawfulD(2) [OF assms(1,2)]) (auto simp: extends_def)

lemma lawful_update:
  assumes "lawful V" "okay V h x" "a \<notin> locs V h x"
  shows "okay V (h[a := c]) x \<and> meaning V (h[a := c]) x = meaning V h x \<and> locs V (h[a := c]) x = locs V h x"
  using assms(3) lawfulD(1) [OF assms(1,2)]
  by (intro lawfulD(2) [OF assms(1,2)]) (auto intro!: nth_list_update_neq)

lemma deepCopiesD:
  assumes "deepCopies V copy" "okay V h x" "copy x h = (y, h')"
  shows "okay V h' y" "meaning V h' y = meaning V h x" "extends h h'" "locs V h' y \<subseteq> {length h..<length h'}"
  using assms unfolding deepCopies_def by blast+


section \<open>Values without pointers, and structs\<close>

definition plainV :: "('c, 'a, 'a) view" where
  "plainV = \<lparr>okay = \<lambda>_ _. True, meaning = \<lambda>_ x. x, locs = \<lambda>_ _. {}\<rparr>"

definition pairV :: "('c, 'a, 'v) view \<Rightarrow> ('c, 'b, 'w) view \<Rightarrow> ('c, 'a \<times> 'b, 'v \<times> 'w) view" where
  "pairV V W = \<lparr>okay = \<lambda>h p. okay V h (fst p) \<and> okay W h (snd p),
     meaning = \<lambda>h p. (meaning V h (fst p), meaning W h (snd p)),
     locs = \<lambda>h p. locs V h (fst p) \<union> locs W h (snd p)\<rparr>"

text \<open>A struct is viewed as the tuple of its fields.\<close>

definition viaV :: "('s \<Rightarrow> 'a) \<Rightarrow> ('c, 'a, 'v) view \<Rightarrow> ('c, 's, 'v) view" where
  "viaV f V = \<lparr>okay = \<lambda>h s. okay V h (f s), meaning = \<lambda>h s. meaning V h (f s), locs = \<lambda>h s. locs V h (f s)\<rparr>"

definition plainCopy :: "('c, 'a) copyFun" where
  "plainCopy x h = (x, h)"

definition pairCopy :: "('c, 'a) copyFun \<Rightarrow> ('c, 'b) copyFun \<Rightarrow> ('c, 'a \<times> 'b) copyFun" where
  "pairCopy c d p h =
     (case c (fst p) h of (x, h1) \<Rightarrow> case d (snd p) h1 of (y, h2) \<Rightarrow> ((x, y), h2))"

lemma view_simps [simp]:
  "okay plainV h x" "meaning plainV h x = x" "locs plainV h x = {}"
  "okay (pairV V W) h p \<longleftrightarrow> okay V h (fst p) \<and> okay W h (snd p)"
  "meaning (pairV V W) h p = (meaning V h (fst p), meaning W h (snd p))"
  "locs (pairV V W) h p = locs V h (fst p) \<union> locs W h (snd p)"
  "okay (viaV f V) h s = okay V h (f s)" "meaning (viaV f V) h s = meaning V h (f s)"
  "locs (viaV f V) h s = locs V h (f s)"
  by (simp_all add: plainV_def pairV_def viaV_def)

lemma lawful_plain [simp]: "lawful plainV"
  by (simp add: lawful_def)

lemma lawful_pair [intro]:
  fixes V :: "('c, 'a, 'v) view" and W :: "('c, 'b, 'w) view"
  shows "lawful V \<Longrightarrow> lawful W \<Longrightarrow> lawful (pairV V W)"
  unfolding lawful_def [of "pairV V W"]
proof (intro allI impI)
  fix h p
  assume V: "lawful V" and W: "lawful W" and "okay (pairV V W) h p"
  then have ok: "okay V h (fst p)" "okay W h (snd p)" by simp_all
  show "locs (pairV V W) h p \<subseteq> {..<length h} \<and>
      (\<forall>h'. (\<forall>a \<in> locs (pairV V W) h p. a < length h' \<and> h' ! a = h ! a) \<longrightarrow>
        okay (pairV V W) h' p \<and> meaning (pairV V W) h' p = meaning (pairV V W) h p
        \<and> locs (pairV V W) h' p = locs (pairV V W) h p)"
    using lawfulD(1) [OF V ok(1)] lawfulD(1) [OF W ok(2)] lawfulD(2) [OF V ok(1)] lawfulD(2) [OF W ok(2)]
    by simp
qed

lemma lawful_via [intro]: "lawful V \<Longrightarrow> lawful (viaV f V)"
  unfolding lawful_def view_simps by (intro allI) (drule spec, drule spec, assumption)

lemma deepCopies_plain [simp]: "deepCopies plainV plainCopy"
  by (simp add: deepCopies_def plainCopy_def)

lemma deepCopies_pair [intro]:
  assumes "lawful V" "lawful W" "deepCopies V c" "deepCopies W d"
  shows "deepCopies (pairV V W) (pairCopy c d)"
  unfolding deepCopies_def
proof (intro allI impI)
  fix p h q h2
  assume ok: "okay (pairV V W) h p" and cp: "pairCopy c d p h = (q, h2)"
  obtain x h1 where c: "c (fst p) h = (x, h1)" by (cases "c (fst p) h")
  obtain y where d: "d (snd p) h1 = (y, h2)" and q: "q = (x, y)"
    using cp c by (auto simp: pairCopy_def split: prod.splits)
  note C = deepCopiesD [OF assms(3) _ c]
  have okW: "okay W h (snd p)" using ok by simp
  note W = lawful_extends [OF assms(2) okW C(3)]
  note D = deepCopiesD [OF assms(4) _ d]
  have e: "extends h h1" "extends h1 h2" using C(3) D(3) W ok by simp_all
  have "okay V h2 x \<and> meaning V h2 x = meaning V h1 x \<and> locs V h2 x = locs V h1 x"
    using ok by (intro lawful_extends [OF assms(1) _ e(2)] C(1)) simp
  then show "okay (pairV V W) h2 q \<and> meaning (pairV V W) h2 q = meaning (pairV V W) h p
      \<and> extends h h2 \<and> locs (pairV V W) h2 q \<subseteq> {length h..<length h2}"
    using ok C(2,4) D(1,2,4) W e extends_length [OF e(1)] extends_length [OF e(2)] extends_trans [OF e]
    by (fastforce simp: q)
qed

lemma deepCopies_via:
  assumes "deepCopies V copy" and "\<And>s h. (case copyS s h of (t, h') \<Rightarrow> (f t, h')) = copy (f s) h"
  shows "deepCopies (viaV f V) copyS"
  unfolding deepCopies_def
proof (intro allI impI)
  fix s h t h'
  assume "okay (viaV f V) h s" "copyS s h = (t, h')"
  then show "okay (viaV f V) h' t \<and> meaning (viaV f V) h' t = meaning (viaV f V) h s \<and> extends h h'
      \<and> locs (viaV f V) h' t \<subseteq> {length h..<length h'}"
    using deepCopiesD [OF assms(1), of h "f s" "f t" h'] assms(2) [of s h, symmetric] by (simp only: view_simps prod.case)
qed


section \<open>Pointers\<close>

text \<open>
  A cell holds a value of one type; \<open>unwrap\<close> reads it and \<open>wrap\<close> writes it.  \<open>copyPtr\<close> is \<open>out := new(T)\<close>,
  \<open>*out = *in\<close> and the copy of the fields into the new cell.
\<close>

definition ptrV :: "('c \<Rightarrow> 'a option) \<Rightarrow> ('c, 'a, 'v) view \<Rightarrow> ('c, addr option, 'v option) view" where
  "ptrV unwrap V = \<lparr>
     okay = \<lambda>h p. (case p of None \<Rightarrow> True
       | Some a \<Rightarrow> a < length h \<and> (case unwrap (h ! a) of None \<Rightarrow> False | Some x \<Rightarrow> okay V h x)),
     meaning = \<lambda>h p. (case p of None \<Rightarrow> None | Some a \<Rightarrow> Some (meaning V h (the (unwrap (h ! a))))),
     locs = \<lambda>h p. (case p of None \<Rightarrow> {} | Some a \<Rightarrow> insert a (locs V h (the (unwrap (h ! a)))))\<rparr>"

definition copyPtr :: "('a \<Rightarrow> 'c) \<Rightarrow> ('c \<Rightarrow> 'a option) \<Rightarrow> ('c, 'a) copyFun \<Rightarrow> ('c, addr option) copyFun" where
  "copyPtr wrap unwrap into p h =
     (case p of
        None \<Rightarrow> (None, h)
      | Some a \<Rightarrow>
          (let x = the (unwrap (h ! a));
               out = length h;
               h = h @ [wrap x]
           in case into x h of (y, h) \<Rightarrow> (Some out, h[out := wrap y])))"

lemma ptrV_simps [simp]:
  "okay (ptrV unwrap V) h None" "meaning (ptrV unwrap V) h None = None" "locs (ptrV unwrap V) h None = {}"
  "okay (ptrV unwrap V) h (Some a) \<longleftrightarrow> a < length h \<and> (\<exists>x. unwrap (h ! a) = Some x \<and> okay V h x)"
  "meaning (ptrV unwrap V) h (Some a) = Some (meaning V h (the (unwrap (h ! a))))"
  "locs (ptrV unwrap V) h (Some a) = insert a (locs V h (the (unwrap (h ! a))))"
  by (auto simp: ptrV_def split: option.splits)

lemma lawful_ptr [intro]:
  assumes V: "lawful V"
  shows "lawful (ptrV unwrap V)"
  unfolding lawful_def
proof (intro allI impI)
  fix h p
  assume ok: "okay (ptrV unwrap V) h p"
  show "locs (ptrV unwrap V) h p \<subseteq> {..<length h} \<and>
      (\<forall>h'. (\<forall>a \<in> locs (ptrV unwrap V) h p. a < length h' \<and> h' ! a = h ! a) \<longrightarrow>
        okay (ptrV unwrap V) h' p \<and> meaning (ptrV unwrap V) h' p = meaning (ptrV unwrap V) h p
        \<and> locs (ptrV unwrap V) h' p = locs (ptrV unwrap V) h p)"
  proof (cases p)
    case (Some a)
    with ok obtain x where x: "a < length h" "unwrap (h ! a) = Some x" "okay V h x" by auto
    show ?thesis using x lawfulD(1) [OF V x(3)] lawfulD(2) [OF V x(3)] by (simp add: Some)
  qed simp
qed

text \<open>A cell that is written last, below which the fields were copied.\<close>

lemma fresh_update:
  assumes "lawful V" "okay V h' y" "locs V h' y \<subseteq> {Suc (length h)..<length h'}"
  shows "okay V (h'[length h := c]) y \<and> meaning V (h'[length h := c]) y = meaning V h' y
    \<and> locs V (h'[length h := c]) y = locs V h' y"
  using assms(3) by (intro lawful_update [OF assms(1,2)]) auto

lemma deepCopies_ptr [intro]:
  assumes V: "lawful V" and C: "deepCopies V into" and inv: "\<And>x. unwrap (wrap x) = Some x"
  shows "deepCopies (ptrV unwrap V) (copyPtr wrap unwrap into)"
  unfolding deepCopies_def
proof (intro allI impI)
  fix p h q h'
  assume ok: "okay (ptrV unwrap V) h p" and cp: "copyPtr wrap unwrap into p h = (q, h')"
  show "okay (ptrV unwrap V) h' q \<and> meaning (ptrV unwrap V) h' q = meaning (ptrV unwrap V) h p \<and> extends h h'
      \<and> locs (ptrV unwrap V) h' q \<subseteq> {length h..<length h'}"
  proof (cases p)
    case None
    then show ?thesis using cp by (auto simp: copyPtr_def)
  next
    case (Some a)
    with ok obtain x where x: "a < length h" "unwrap (h ! a) = Some x" "okay V h x" by auto
    let ?h1 = "h @ [wrap x]"
    obtain y h2 where y: "into x ?h1 = (y, h2)" by (cases "into x ?h1")
    have q: "q = Some (length h)" "h' = h2[length h := wrap y]"
      using cp y x by (auto simp: copyPtr_def Some Let_def)
    have ok1: "okay V ?h1 x" "meaning V ?h1 x = meaning V h x"
      using lawful_extends [OF V x(3), of ?h1] by simp_all
    note D = deepCopiesD [OF C ok1(1) y]
    have len: "length h < length h2" using extends_length [OF D(3)] by simp
    have f: "okay V h' y" "meaning V h' y = meaning V h2 y" "locs V h' y = locs V h2 y"
      using fresh_update [OF V D(1), of h "wrap y"] D(4) by (simp_all add: q)
    have "extends h h2" using extends_trans [OF _ D(3), of h] by simp
    then have "extends h h'" by (simp add: q extends_update)
    moreover have "h' ! length h = wrap y" using len by (simp add: q)
    moreover have "locs V h2 y \<subseteq> {length h..<length h2}" using D(4) by (rule subset_trans) auto
    ultimately show ?thesis
      using f D(2) ok1(2) len x inv by (simp add: Some q(1)) (simp add: q)
  qed
qed

text \<open>\<open>DeepCopy\<close> of a struct type is such a copy of a pointer, and \<open>DeepCopyObject\<close> wraps it in an interface.\<close>

definition asObject :: "string \<Rightarrow> addr option \<times> 'c memory \<Rightarrow> (string \<times> addr) option \<times> 'c memory" where
  "asObject typ r = (case r of (None, h) \<Rightarrow> (None, h) | (Some c, h) \<Rightarrow> (Some (typ, c), h))"


section \<open>Slices\<close>

text \<open>A slice points to its array; \<open>copySlice\<close> makes an array of zero values and copies into it one by one.\<close>

definition listV :: "('c, 'a, 'v) view \<Rightarrow> ('c, 'a list, 'v list) view" where
  "listV V = \<lparr>okay = \<lambda>h xs. \<forall>x \<in> set xs. okay V h x, meaning = \<lambda>h xs. map (meaning V h) xs,
     locs = \<lambda>h xs. \<Union> (locs V h ` set xs)\<rparr>"

definition sliceV :: "('c \<Rightarrow> 'a list option) \<Rightarrow> ('c, 'a, 'v) view \<Rightarrow> ('c, addr option, 'v list option) view" where
  "sliceV unwrap V = ptrV unwrap (listV V)"

fun copyItems ::
  "('a list \<Rightarrow> 'c) \<Rightarrow> ('c \<Rightarrow> 'a list option) \<Rightarrow> ('c, 'a) copyFun \<Rightarrow> addr \<Rightarrow> nat \<Rightarrow> 'a list \<Rightarrow> 'c memory \<Rightarrow> 'c memory" where
  "copyItems wrap unwrap into out i [] h = h"
| "copyItems wrap unwrap into out i (x # xs) h =
     (case into x h of (y, h) \<Rightarrow>
        copyItems wrap unwrap into out (Suc i) xs (h[out := wrap ((the (unwrap (h ! out)))[i := y])]))"

definition copySlice ::
  "('a list \<Rightarrow> 'c) \<Rightarrow> ('c \<Rightarrow> 'a list option) \<Rightarrow> 'a \<Rightarrow> ('c, 'a) copyFun \<Rightarrow> ('c, addr option) copyFun" where
  "copySlice wrap unwrap zero into p h =
     (case p of
        None \<Rightarrow> (None, h)
      | Some a \<Rightarrow>
          (let xs = the (unwrap (h ! a)); out = length h
           in (Some out, copyItems wrap unwrap into out 0 xs (h @ [wrap (replicate (length xs) zero)]))))"

lemma listV_simps [simp]:
  "okay (listV V) h xs \<longleftrightarrow> (\<forall>x \<in> set xs. okay V h x)" "meaning (listV V) h xs = map (meaning V h) xs"
  "locs (listV V) h xs = \<Union> (locs V h ` set xs)"
  by (simp_all add: listV_def)

lemma lawful_list [intro]:
  assumes V: "lawful V"
  shows "lawful (listV V)"
  unfolding lawful_def
proof (intro allI impI)
  fix h xs
  assume "okay (listV V) h xs"
  then have ok: "okay V h x" if "x \<in> set xs" for x using that by simp
  show "locs (listV V) h xs \<subseteq> {..<length h} \<and>
      (\<forall>h'. (\<forall>a \<in> locs (listV V) h xs. a < length h' \<and> h' ! a = h ! a) \<longrightarrow>
        okay (listV V) h' xs \<and> meaning (listV V) h' xs = meaning (listV V) h xs
        \<and> locs (listV V) h' xs = locs (listV V) h xs)"
  proof (intro conjI allI impI)
    show "locs (listV V) h xs \<subseteq> {..<length h}" using lawfulD(1) [OF V ok] by fastforce
    fix h'
    assume "\<forall>a \<in> locs (listV V) h xs. a < length h' \<and> h' ! a = h ! a"
    then have "okay V h' x \<and> meaning V h' x = meaning V h x \<and> locs V h' x = locs V h x" if "x \<in> set xs" for x
      using that by (intro lawfulD(2) [OF V ok]) auto
    then show "okay (listV V) h' xs" "meaning (listV V) h' xs = meaning (listV V) h xs"
      "locs (listV V) h' xs = locs (listV V) h xs"
      by simp_all
  qed
qed

lemma lawful_slice [intro]: "lawful V \<Longrightarrow> lawful (sliceV unwrap V)"
  unfolding sliceV_def by blast

text \<open>A copied element: it is well-formed, means what it should and lies above the cell \<open>out\<close>.\<close>

definition copied :: "('c, 'a, 'v) view \<Rightarrow> addr \<Rightarrow> 'c memory \<Rightarrow> 'a \<Rightarrow> 'v \<Rightarrow> bool" where
  "copied V out h y m \<longleftrightarrow> okay V h y \<and> meaning V h y = m \<and> locs V h y \<subseteq> {Suc out..<length h}"

lemma copied_extends: "lawful V \<Longrightarrow> extends h h' \<Longrightarrow> copied V out h y m \<Longrightarrow> copied V out h' y m"
  using lawful_extends [of V h y h'] extends_length [of h h'] unfolding copied_def by fastforce

lemma copied_update: "lawful V \<Longrightarrow> copied V out h y m \<Longrightarrow> copied V out (h[out := c]) y m"
  using lawful_update [of V h y out c] unfolding copied_def by fastforce

text \<open>One element: what was copied stays, and the new one is copied.\<close>

lemma copied_step:
  assumes V: "lawful V" and C: "deepCopies V into" and x: "okay V base x" and h: "extends base h" "length base < length h"
    and y: "into x h = (y, h1)"
  shows "copied V (length base) (h1[length base := c]) y (meaning V base x)"
    and "copied V (length base) h z m \<Longrightarrow> copied V (length base) (h1[length base := c]) z m"
    and "extends base (h1[length base := c])" "length base < length (h1[length base := c])"
    and "h1[length base := c] ! length base = c"
proof -
  have ok: "okay V h x" "meaning V h x = meaning V base x" using lawful_extends [OF V x h(1)] by simp_all
  note D = deepCopiesD [OF C ok(1) y]
  have len: "length base < length h1" using extends_length [OF D(3)] h(2) by simp
  have "copied V (length base) h1 y (meaning V base x)"
    using D(1,2,4) ok(2) h(2) unfolding copied_def by auto
  then show "copied V (length base) (h1[length base := c]) y (meaning V base x)" by (rule copied_update [OF V])
  show "copied V (length base) h z m \<Longrightarrow> copied V (length base) (h1[length base := c]) z m"
    by (intro copied_update [OF V] copied_extends [OF V D(3)])
  show "extends base (h1[length base := c])" using extends_trans [OF h(1) D(3)] by (rule extends_update) simp
  show "length base < length (h1[length base := c])" "h1[length base := c] ! length base = c" using len by simp_all
qed

lemma copied_step_read:
  assumes "lawful V" "deepCopies V into" "okay V base x" "extends base h" "length base < length h" "into x h = (y, h1)"
  shows "h1 ! length base = h ! length base"
proof -
  have "okay V h x" using lawful_extends [OF assms(1,3,4)] by simp
  from deepCopiesD(3) [OF assms(2) this assms(6)] assms(5) show ?thesis by (simp add: extends_def)
qed

lemma copyItems_run:
  assumes V: "lawful V" and C: "deepCopies V into" and inv: "\<And>x. unwrap (wrap x) = Some x"
  shows "extends base h \<Longrightarrow> length base < length h \<Longrightarrow> h ! length base = wrap (ds @ rest) \<Longrightarrow>
    length rest = length xs \<Longrightarrow> list_all2 (copied V (length base) h) ds ms \<Longrightarrow> \<forall>x \<in> set xs. okay V base x \<Longrightarrow>
    \<exists>ys h'. copyItems wrap unwrap into (length base) (length ds) xs h = h' \<and> extends base h' \<and> length base < length h' \<and>
      h' ! length base = wrap ys \<and> list_all2 (copied V (length base) h') ys (ms @ map (meaning V base) xs)"
proof (induction xs arbitrary: h ds rest ms)
  case Nil
  then show ?case by auto
next
  case (Cons x xs)
  obtain y h1 where y: "into x h = (y, h1)" by (cases "into x h")
  obtain r rest' where r: "rest = r # rest'" using Cons.prems(4) by (cases rest) auto
  have ok: "okay V base x" using Cons.prems(6) by simp
  let ?h2 = "h1[length base := wrap ((ds @ [y]) @ rest')]"
  note S = copied_step [where c = "wrap ((ds @ [y]) @ rest')", OF V C ok Cons.prems(1,2) y]
  have "list_all2 (copied V (length base) ?h2) ds ms"
    using Cons.prems(5) by (rule list_all2_mono) (rule S(2))
  then have "list_all2 (copied V (length base) ?h2) (ds @ [y]) (ms @ [meaning V base x])"
    using S(1) by (simp add: list_all2_appendI)
  moreover have "(the (unwrap (h1 ! length base)))[length ds := y] = (ds @ [y]) @ rest'"
    using copied_step_read [OF V C ok Cons.prems(1,2) y] Cons.prems(3) by (simp add: inv r list_update_append)
  then have "copyItems wrap unwrap into (length base) (length ds) (x # xs) h =
      copyItems wrap unwrap into (length base) (length (ds @ [y])) xs ?h2"
    using y by simp
  ultimately show ?case
    using Cons.IH [where ds = "ds @ [y]" and rest = rest' and ms = "ms @ [meaning V base x]", OF S(3,4,5)] Cons.prems(4,6)
    by (simp add: r)
qed

lemma copied_all:
  "list_all2 (copied V out h) ys ms \<Longrightarrow>
   okay (listV V) h ys \<and> meaning (listV V) h ys = ms \<and> locs (listV V) h ys \<subseteq> {Suc out..<length h}"
  by (induction rule: list_all2_induct) (auto simp: copied_def)

lemma deepCopies_slice [intro]:
  assumes V: "lawful V" and C: "deepCopies V into" and inv: "\<And>x. unwrap (wrap x) = Some x"
  shows "deepCopies (sliceV unwrap V) (copySlice wrap unwrap zero into)"
  unfolding deepCopies_def sliceV_def
proof (intro allI impI)
  fix p h q h'
  assume ok: "okay (ptrV unwrap (listV V)) h p" and cp: "copySlice wrap unwrap zero into p h = (q, h')"
  show "okay (ptrV unwrap (listV V)) h' q \<and> meaning (ptrV unwrap (listV V)) h' q = meaning (ptrV unwrap (listV V)) h p
      \<and> extends h h' \<and> locs (ptrV unwrap (listV V)) h' q \<subseteq> {length h..<length h'}"
  proof (cases p)
    case None
    then show ?thesis using cp by (auto simp: copySlice_def)
  next
    case (Some a)
    with ok obtain xs where xs: "a < length h" "unwrap (h ! a) = Some xs" "\<forall>x \<in> set xs. okay V h x" by auto
    let ?h1 = "h @ [wrap (replicate (length xs) zero)]"
    obtain ys where q: "q = Some (length h)" and e: "extends h h'" "length h < length h'" "h' ! length h = wrap ys"
      and ys: "list_all2 (copied V (length h) h') ys (map (meaning V h) xs)"
      using copyItems_run [OF V C inv, where base = h and h = ?h1 and ms = "[]" and ds = "[]"
          and rest = "replicate (length xs) zero" and xs = xs] xs cp
      by (auto simp: copySlice_def Some Let_def)
    show ?thesis
      using copied_all [OF ys] e xs(2) by (auto simp: q Some inv)
  qed
qed


section \<open>Maps\<close>

text \<open>
  A map is a pointer to its table.  \<open>copyMap\<close> makes an empty one and writes the copy of each entry, in the order
  \<open>rng\<close> of the range over the source.
\<close>

definition fmapV :: "('c, 'a, 'v) view \<Rightarrow> ('c, ('k, 'a) fmap, ('k, 'v) fmap) view" where
  "fmapV V = \<lparr>okay = \<lambda>h m. \<forall>x \<in> fmran' m. okay V h x, meaning = \<lambda>h m. fmmap (meaning V h) m,
     locs = \<lambda>h m. \<Union> (locs V h ` fmran' m)\<rparr>"

definition mapV :: "('c \<Rightarrow> ('k, 'a) fmap option) \<Rightarrow> ('c, 'a, 'v) view \<Rightarrow> ('c, addr option, ('k, 'v) fmap option) view" where
  "mapV unwrap V = ptrV unwrap (fmapV V)"

fun copyEntries ::
  "(('k, 'a) fmap \<Rightarrow> 'c) \<Rightarrow> ('c \<Rightarrow> ('k, 'a) fmap option) \<Rightarrow> ('c, 'a) copyFun \<Rightarrow> addr \<Rightarrow> ('k \<times> 'a) list
     \<Rightarrow> 'c memory \<Rightarrow> 'c memory" where
  "copyEntries wrap unwrap into out [] h = h"
| "copyEntries wrap unwrap into out ((key, val) # xs) h =
     (case into val h of (y, h) \<Rightarrow>
        copyEntries wrap unwrap into out xs (h[out := wrap (fmupd key y (the (unwrap (h ! out))))]))"

definition copyMap ::
  "(('k, 'a) fmap \<Rightarrow> 'c) \<Rightarrow> ('c \<Rightarrow> ('k, 'a) fmap option) \<Rightarrow> (('k, 'a) fmap \<Rightarrow> ('k \<times> 'a) list) \<Rightarrow> ('c, 'a) copyFun
     \<Rightarrow> ('c, addr option) copyFun" where
  "copyMap wrap unwrap rng into p h =
     (case p of
        None \<Rightarrow> (None, h)
      | Some a \<Rightarrow>
          (let out = length h
           in (Some out, copyEntries wrap unwrap into out (rng (the (unwrap (h ! a)))) (h @ [wrap fmempty]))))"

lemma fmapV_simps [simp]:
  "okay (fmapV V) h m \<longleftrightarrow> (\<forall>x \<in> fmran' m. okay V h x)" "meaning (fmapV V) h m = fmmap (meaning V h) m"
  "locs (fmapV V) h m = \<Union> (locs V h ` fmran' m)"
  by (simp_all add: fmapV_def)

lemma fmmap_cong_ran: "(\<And>x. x \<in> fmran' m \<Longrightarrow> f x = g x) \<Longrightarrow> fmmap f m = fmmap g m"
  by (rule fmap_ext) (auto simp: fmran'I intro: option.map_cong0 split: option.split)

lemma lawful_fmap [intro]:
  assumes V: "lawful V"
  shows "lawful (fmapV V)"
  unfolding lawful_def
proof (intro allI impI)
  fix h m
  assume "okay (fmapV V) h m"
  then have ok: "okay V h x" if "x \<in> fmran' m" for x using that by simp
  show "locs (fmapV V) h m \<subseteq> {..<length h} \<and>
      (\<forall>h'. (\<forall>a \<in> locs (fmapV V) h m. a < length h' \<and> h' ! a = h ! a) \<longrightarrow>
        okay (fmapV V) h' m \<and> meaning (fmapV V) h' m = meaning (fmapV V) h m
        \<and> locs (fmapV V) h' m = locs (fmapV V) h m)"
  proof (intro conjI allI impI)
    show "locs (fmapV V) h m \<subseteq> {..<length h}" using lawfulD(1) [OF V ok] by fastforce
    fix h'
    assume "\<forall>a \<in> locs (fmapV V) h m. a < length h' \<and> h' ! a = h ! a"
    then have *: "okay V h' x \<and> meaning V h' x = meaning V h x \<and> locs V h' x = locs V h x" if "x \<in> fmran' m" for x
      using that by (intro lawfulD(2) [OF V ok]) auto
    show "okay (fmapV V) h' m" unfolding fmapV_simps using * by blast
    show "locs (fmapV V) h' m = locs (fmapV V) h m" unfolding fmapV_simps using * by (metis (no_types, lifting) image_cong)
    show "meaning (fmapV V) h' m = meaning (fmapV V) h m" unfolding fmapV_simps by (rule fmmap_cong_ran) (use * in blast)
  qed
qed

lemma lawful_map [intro]: "lawful V \<Longrightarrow> lawful (mapV unwrap V)"
  unfolding mapV_def by blast

lemma copyEntries_run:
  assumes V: "lawful V" and C: "deepCopies V into" and inv: "\<And>x. unwrap (wrap x) = Some x"
  shows "extends base h \<Longrightarrow> length base < length h \<Longrightarrow> h ! length base = wrap m \<Longrightarrow>
    fmrel (copied V (length base) h) m ms \<Longrightarrow> \<forall>x \<in> set xs. okay V base (snd x) \<Longrightarrow>
    \<exists>m' h'. copyEntries wrap unwrap into (length base) xs h = h' \<and> extends base h' \<and> length base < length h' \<and>
      h' ! length base = wrap m' \<and>
      fmrel (copied V (length base) h') m' (foldl (\<lambda>d (k, v). fmupd k v d) ms (map (apsnd (meaning V base)) xs))"
proof (induction xs arbitrary: h m ms)
  case Nil
  then show ?case by auto
next
  case (Cons e xs)
  obtain key val where e: "e = (key, val)" by (cases e)
  obtain y h1 where y: "into val h = (y, h1)" by (cases "into val h")
  have ok: "okay V base val" using Cons.prems(5) e by simp
  let ?m = "fmupd key y m"
  let ?h2 = "h1[length base := wrap ?m]"
  note S = copied_step [where c = "wrap ?m", OF V C ok Cons.prems(1,2) y]
  have "fmrel (copied V (length base) ?h2) m ms"
    using Cons.prems(4) by (rule fmap.rel_mono_strong) (rule S(2))
  then have r: "fmrel (copied V (length base) ?h2) ?m (fmupd key (meaning V base val) ms)"
    using S(1) by (rule fmrel_upd)
  have "copyEntries wrap unwrap into (length base) (e # xs) h = copyEntries wrap unwrap into (length base) xs ?h2"
    using copied_step_read [OF V C ok Cons.prems(1,2) y] Cons.prems(3) by (simp add: e y inv)
  then show ?case
    using Cons.IH [OF S(3,4,5) r] Cons.prems(5) by (simp add: e)
qed

lemma copied_map:
  assumes "fmrel (copied V out h) m ms"
  shows "okay (fmapV V) h m \<and> meaning (fmapV V) h m = ms \<and> locs (fmapV V) h m \<subseteq> {Suc out..<length h}"
proof -
  have r: "rel_option (copied V out h) (fmlookup m k) (fmlookup ms k)" for k
    using assms by (simp add: fmrel_iff)
  have c: "\<exists>v. fmlookup ms k = Some v \<and> copied V out h x v" if "fmlookup m k = Some x" for k x
    using r [of k] that by (auto elim: option.rel_cases)
  have "fmlookup (fmmap (meaning V h) m) k = fmlookup ms k" for k
    using r [of k] by (cases "fmlookup m k"; cases "fmlookup ms k") (auto simp: copied_def)
  then have "fmmap (meaning V h) m = ms" by (rule fmap_ext)
  then show ?thesis using c by (fastforce simp: copied_def fmlookup_ran'_iff)
qed

lemma map_of_map_snd: "map_of (map (apsnd f) xs) k = map_option f (map_of xs k)"
  by (induction xs) auto

lemma is_range_fmmap: "is_range xs m \<Longrightarrow> is_range (map (apsnd f) xs) (fmmap f m)"
  using map_of_map_snd [of f xs] by (auto simp: is_range_def comp_def fmlookup_of_list intro!: fmap_ext)

lemma deepCopies_map [intro]:
  assumes V: "lawful V" and C: "deepCopies V into" and inv: "\<And>x. unwrap (wrap x) = Some x"
    and rng: "\<And>m. is_range (rng m) m"
  shows "deepCopies (mapV unwrap V) (copyMap wrap unwrap rng into)"
  unfolding deepCopies_def mapV_def
proof (intro allI impI)
  fix p h q h'
  assume ok: "okay (ptrV unwrap (fmapV V)) h p" and cp: "copyMap wrap unwrap rng into p h = (q, h')"
  show "okay (ptrV unwrap (fmapV V)) h' q \<and> meaning (ptrV unwrap (fmapV V)) h' q = meaning (ptrV unwrap (fmapV V)) h p
      \<and> extends h h' \<and> locs (ptrV unwrap (fmapV V)) h' q \<subseteq> {length h..<length h'}"
  proof (cases p)
    case None
    then show ?thesis using cp by (auto simp: copyMap_def)
  next
    case (Some a)
    with ok obtain m where m: "a < length h" "unwrap (h ! a) = Some m" "\<forall>x \<in> fmran' m. okay V h x" by auto
    have "fmlookup m (fst e) = Some (snd e)" if "e \<in> set (rng m)" for e
      using rng [of m] that unfolding is_range_def by (metis fmlookup_of_list map_of_is_SomeI prod.collapse)
    then have "\<forall>e \<in> set (rng m). okay V h (snd e)" using m(3) by (auto intro: fmran'I)
    then obtain m' where q: "q = Some (length h)" and e: "extends h h'" "length h < length h'" "h' ! length h = wrap m'"
      and r: "fmrel (copied V (length h) h') m' (foldl (\<lambda>d (k, v). fmupd k v d) fmempty (map (apsnd (meaning V h)) (rng m)))"
      using copyEntries_run [OF V C inv, where base = h and h = "h @ [wrap fmempty]" and m = fmempty and ms = fmempty
          and xs = "rng m"] m cp
      by (auto simp: copyMap_def Some Let_def)
    have "foldl (\<lambda>d (k, v). fmupd k v d) fmempty (map (apsnd (meaning V h)) (rng m)) = fmmap (meaning V h) m"
      using range_copy [OF is_range_fmmap [OF rng, of "meaning V h" m], of fmempty] by (simp add: copyInto_def nonnil_def)
    with copied_map [OF r] show ?thesis
      using e m(2) by (auto simp: q Some inv)
  qed
qed


section \<open>Isolation\<close>

text \<open>
  What a program does with a copy: it writes to cells that it reaches from the copy or made later, and makes new
  ones.
\<close>

datatype 'c memoryOp = Write addr 'c | Alloc 'c

fun runOps :: "'c memoryOp list \<Rightarrow> 'c memory \<Rightarrow> 'c memory" where
  "runOps [] h = h"
| "runOps (Write a c # ops) h = runOps ops (h[a := c])"
| "runOps (Alloc c # ops) h = runOps ops (h @ [c])"

text \<open>
  A copy is isolated: it means what the original means, and no such program changes a cell that was there before
  the copy, be it of the original or of anything else.
\<close>

definition isolates :: "('c, 'a, 'v) view \<Rightarrow> ('c, 'a) copyFun \<Rightarrow> bool" where
  "isolates V copy \<longleftrightarrow> (\<forall>h p h' p'. okay V h p \<longrightarrow> copy p h = (p', h') \<longrightarrow>
     okay V h' p' \<and> meaning V h' p' = meaning V h p \<and>
     (\<forall>ops. (\<forall>a c. Write a c \<in> set ops \<longrightarrow> a \<in> locs V h' p' \<or> length h' \<le> a) \<longrightarrow> extends h (runOps ops h')))"

lemma extends_runOps:
  "extends h h' \<Longrightarrow> \<forall>a c. Write a c \<in> set ops \<longrightarrow> length h \<le> a \<Longrightarrow> extends h (runOps ops h')"
proof (induction ops arbitrary: h')
  case (Cons op ops)
  have rest: "\<forall>a c. Write a c \<in> set ops \<longrightarrow> length h \<le> a" using Cons.prems(2) by simp
  show ?case
  proof (cases op)
    case (Write a c)
    then have "length h \<le> a" using Cons.prems(2) by simp
    then have "extends h (h'[a := c])" using Cons.prems(1) by (rule extends_update [rotated])
    then show ?thesis using Cons.IH [OF _ rest] by (simp add: Write)
  next
    case (Alloc c)
    have "extends h (h' @ [c])" using extends_trans [OF Cons.prems(1), of "h' @ [c]"] by simp
    then show ?thesis using Cons.IH [OF _ rest] by (simp add: Alloc)
  qed
qed simp

lemma deepCopies_isolates:
  assumes "deepCopies V copy"
  shows "isolates V copy"
  unfolding isolates_def
proof (intro allI impI conjI)
  fix h p h' p'
  assume ok: "okay V h p" and c: "copy p h = (p', h')"
  note D = deepCopiesD [OF assms ok c]
  show "okay V h' p'" "meaning V h' p' = meaning V h p" using D by simp_all
  fix ops :: "'a memoryOp list"
  assume w: "\<forall>a c. Write a c \<in> set ops \<longrightarrow> a \<in> locs V h' p' \<or> length h' \<le> a"
  have "length h \<le> length h'" by (rule extends_length [OF D(3)])
  then have "\<forall>a c. Write a c \<in> set ops \<longrightarrow> length h \<le> a" using w D(4) by fastforce
  then show "extends h (runOps ops h')" by (rule extends_runOps [OF D(3)])
qed

lemma isolates_keeps:
  assumes "isolates V copy" "okay V h p" "copy p h = (p', h')" "lawful W" "okay W h z"
    and "\<And>a c. Write a c \<in> set ops \<Longrightarrow> a \<in> locs V h' p' \<or> length h' \<le> a"
  shows "meaning W (runOps ops h') z = meaning W h z"
proof -
  have "extends h (runOps ops h')" using assms(1) [unfolded isolates_def, rule_format, OF assms(2,3)] assms(6) by blast
  then show ?thesis by (rule lawful_extends [OF assms(4,5), THEN conjunct2, THEN conjunct1])
qed

end
