(* ===== verification/Deep_Copy_Types.thy ===== *)
theory Deep_Copy_Types
  imports Go_Memory
begin

text \<open>
  The types of the program's API (\<open>pkg/apis/multicluster/v1alpha1\<close>) as they lie in memory: pointers, slices and
  maps are addresses.  The structs of Kubernetes that they hold (\<open>ObjectMeta\<close>, \<open>ListMeta\<close>, \<open>PodSpec\<close>, \<open>PodStatus\<close>
  and \<open>Quantity\<close>) are not in the repository: \<open>'x\<close> is the sum of these types.  A field has the name of its
  type before its own.
\<close>

section \<open>Structs\<close>

record typeMeta =
  tm_Kind :: string
  tm_APIVersion :: string

record ClusterKubeconfigSecret =
  ClusterKubeconfigSecret_Namespace :: string
  ClusterKubeconfigSecret_Name :: string
  ClusterKubeconfigSecret_Key :: string
  ClusterKubeconfigSecret_Context :: string

record KubeconfigSecret =
  KubeconfigSecret_Name :: string
  KubeconfigSecret_Key :: string
  KubeconfigSecret_Context :: string

record ServiceAccountReference =
  ServiceAccountReference_Name :: string
  ServiceAccountReference_Namespace :: string

record ClusterSourceSpec =
  ClusterSourceSpec_UserName :: string
  ClusterSourceSpec_ServiceAccount :: "addr option"

type_synonym ClusterSourceStatus = unit

record ClusterTargetSpec =
  ClusterTargetSpec_Self :: bool
  ClusterTargetSpec_KubeconfigSecret :: "addr option"
  ClusterTargetSpec_ExcludedLabelsRegexp :: "addr option"

type_synonym ClusterTargetStatus = unit

record SourceSpec =
  SourceSpec_UserName :: string
  SourceSpec_ServiceAccountName :: string

type_synonym SourceStatus = unit

record TargetSpec =
  TargetSpec_Self :: bool
  TargetSpec_KubeconfigSecret :: "addr option"
  TargetSpec_ExcludedLabelsRegexp :: "addr option"

type_synonym TargetStatus = unit

record 'x ClusterSource =
  ClusterSource_TypeMeta :: typeMeta
  ClusterSource_ObjectMeta :: "'x"
  ClusterSource_Spec :: ClusterSourceSpec
  ClusterSource_Status :: ClusterSourceStatus

record 'x ClusterSummary =
  ClusterSummary_TypeMeta :: typeMeta
  ClusterSummary_ObjectMeta :: "'x"
  ClusterSummary_Capacity :: "addr option"
  ClusterSummary_Allocatable :: "addr option"

record 'x ClusterTarget =
  ClusterTarget_TypeMeta :: typeMeta
  ClusterTarget_ObjectMeta :: "'x"
  ClusterTarget_Spec :: ClusterTargetSpec
  ClusterTarget_Status :: ClusterTargetStatus

record 'x PodChaperon =
  PodChaperon_TypeMeta :: typeMeta
  PodChaperon_ObjectMeta :: "'x"
  PodChaperon_Spec :: "'x"
  PodChaperon_Status :: "'x"

record 'x Source =
  Source_TypeMeta :: typeMeta
  Source_ObjectMeta :: "'x"
  Source_Spec :: SourceSpec
  Source_Status :: SourceStatus

record 'x Target =
  Target_TypeMeta :: typeMeta
  Target_ObjectMeta :: "'x"
  Target_Spec :: TargetSpec
  Target_Status :: TargetStatus

record 'x ClusterSourceList =
  ClusterSourceList_TypeMeta :: typeMeta
  ClusterSourceList_ListMeta :: "'x"
  ClusterSourceList_Items :: "addr option"

record 'x ClusterSummaryList =
  ClusterSummaryList_TypeMeta :: typeMeta
  ClusterSummaryList_ListMeta :: "'x"
  ClusterSummaryList_Items :: "addr option"

record 'x ClusterTargetList =
  ClusterTargetList_TypeMeta :: typeMeta
  ClusterTargetList_ListMeta :: "'x"
  ClusterTargetList_Items :: "addr option"

record 'x PodChaperonList =
  PodChaperonList_TypeMeta :: typeMeta
  PodChaperonList_ListMeta :: "'x"
  PodChaperonList_Items :: "addr option"

record 'x SourceList =
  SourceList_TypeMeta :: typeMeta
  SourceList_ListMeta :: "'x"
  SourceList_Items :: "addr option"

record 'x TargetList =
  TargetList_TypeMeta :: typeMeta
  TargetList_ListMeta :: "'x"
  TargetList_Items :: "addr option"


section \<open>Cells\<close>

text \<open>A cell holds a struct that was allocated, the target of a pointer, the array of a slice or the table of a map.\<close>

datatype 'x cell =
    StringCell string
  | ResourceListCell "(string, 'x) fmap"
  | ExternalCell 'x
  | ClusterKubeconfigSecretCell ClusterKubeconfigSecret
  | KubeconfigSecretCell KubeconfigSecret
  | ServiceAccountReferenceCell ServiceAccountReference
  | ClusterSourceSpecCell ClusterSourceSpec
  | ClusterSourceStatusCell ClusterSourceStatus
  | ClusterTargetSpecCell ClusterTargetSpec
  | ClusterTargetStatusCell ClusterTargetStatus
  | SourceSpecCell SourceSpec
  | SourceStatusCell SourceStatus
  | TargetSpecCell TargetSpec
  | TargetStatusCell TargetStatus
  | ClusterSourceCell "'x ClusterSource"
  | ClusterSummaryCell "'x ClusterSummary"
  | ClusterTargetCell "'x ClusterTarget"
  | PodChaperonCell "'x PodChaperon"
  | SourceCell "'x Source"
  | TargetCell "'x Target"
  | ClusterSourceListCell "'x ClusterSourceList"
  | ClusterSummaryListCell "'x ClusterSummaryList"
  | ClusterTargetListCell "'x ClusterTargetList"
  | PodChaperonListCell "'x PodChaperonList"
  | SourceListCell "'x SourceList"
  | TargetListCell "'x TargetList"
  | ClusterSourceArray "'x ClusterSource list"
  | ClusterSummaryArray "'x ClusterSummary list"
  | ClusterTargetArray "'x ClusterTarget list"
  | PodChaperonArray "'x PodChaperon list"
  | SourceArray "'x Source list"
  | TargetArray "'x Target list"

definition un_StringCell :: "'x cell \<Rightarrow> string option" where
  "un_StringCell c = (case c of StringCell v \<Rightarrow> Some v | _ \<Rightarrow> None)"

definition un_ExternalCell :: "'x cell \<Rightarrow> 'x option" where
  "un_ExternalCell c = (case c of ExternalCell v \<Rightarrow> Some v | _ \<Rightarrow> None)"

definition un_ResourceListCell :: "'x cell \<Rightarrow> (string, 'x) fmap option" where
  "un_ResourceListCell c = (case c of ResourceListCell v \<Rightarrow> Some v | _ \<Rightarrow> None)"

definition un_ClusterKubeconfigSecretCell :: "'x cell \<Rightarrow> ClusterKubeconfigSecret option" where
  "un_ClusterKubeconfigSecretCell c = (case c of ClusterKubeconfigSecretCell v \<Rightarrow> Some v | _ \<Rightarrow> None)"

definition un_KubeconfigSecretCell :: "'x cell \<Rightarrow> KubeconfigSecret option" where
  "un_KubeconfigSecretCell c = (case c of KubeconfigSecretCell v \<Rightarrow> Some v | _ \<Rightarrow> None)"

definition un_ServiceAccountReferenceCell :: "'x cell \<Rightarrow> ServiceAccountReference option" where
  "un_ServiceAccountReferenceCell c = (case c of ServiceAccountReferenceCell v \<Rightarrow> Some v | _ \<Rightarrow> None)"

definition un_ClusterSourceSpecCell :: "'x cell \<Rightarrow> ClusterSourceSpec option" where
  "un_ClusterSourceSpecCell c = (case c of ClusterSourceSpecCell v \<Rightarrow> Some v | _ \<Rightarrow> None)"

definition un_ClusterSourceStatusCell :: "'x cell \<Rightarrow> ClusterSourceStatus option" where
  "un_ClusterSourceStatusCell c = (case c of ClusterSourceStatusCell v \<Rightarrow> Some v | _ \<Rightarrow> None)"

definition un_ClusterTargetSpecCell :: "'x cell \<Rightarrow> ClusterTargetSpec option" where
  "un_ClusterTargetSpecCell c = (case c of ClusterTargetSpecCell v \<Rightarrow> Some v | _ \<Rightarrow> None)"

definition un_ClusterTargetStatusCell :: "'x cell \<Rightarrow> ClusterTargetStatus option" where
  "un_ClusterTargetStatusCell c = (case c of ClusterTargetStatusCell v \<Rightarrow> Some v | _ \<Rightarrow> None)"

definition un_SourceSpecCell :: "'x cell \<Rightarrow> SourceSpec option" where
  "un_SourceSpecCell c = (case c of SourceSpecCell v \<Rightarrow> Some v | _ \<Rightarrow> None)"

definition un_SourceStatusCell :: "'x cell \<Rightarrow> SourceStatus option" where
  "un_SourceStatusCell c = (case c of SourceStatusCell v \<Rightarrow> Some v | _ \<Rightarrow> None)"

definition un_TargetSpecCell :: "'x cell \<Rightarrow> TargetSpec option" where
  "un_TargetSpecCell c = (case c of TargetSpecCell v \<Rightarrow> Some v | _ \<Rightarrow> None)"

definition un_TargetStatusCell :: "'x cell \<Rightarrow> TargetStatus option" where
  "un_TargetStatusCell c = (case c of TargetStatusCell v \<Rightarrow> Some v | _ \<Rightarrow> None)"

definition un_ClusterSourceCell :: "'x cell \<Rightarrow> 'x ClusterSource option" where
  "un_ClusterSourceCell c = (case c of ClusterSourceCell v \<Rightarrow> Some v | _ \<Rightarrow> None)"

definition un_ClusterSummaryCell :: "'x cell \<Rightarrow> 'x ClusterSummary option" where
  "un_ClusterSummaryCell c = (case c of ClusterSummaryCell v \<Rightarrow> Some v | _ \<Rightarrow> None)"

definition un_ClusterTargetCell :: "'x cell \<Rightarrow> 'x ClusterTarget option" where
  "un_ClusterTargetCell c = (case c of ClusterTargetCell v \<Rightarrow> Some v | _ \<Rightarrow> None)"

definition un_PodChaperonCell :: "'x cell \<Rightarrow> 'x PodChaperon option" where
  "un_PodChaperonCell c = (case c of PodChaperonCell v \<Rightarrow> Some v | _ \<Rightarrow> None)"

definition un_SourceCell :: "'x cell \<Rightarrow> 'x Source option" where
  "un_SourceCell c = (case c of SourceCell v \<Rightarrow> Some v | _ \<Rightarrow> None)"

definition un_TargetCell :: "'x cell \<Rightarrow> 'x Target option" where
  "un_TargetCell c = (case c of TargetCell v \<Rightarrow> Some v | _ \<Rightarrow> None)"

definition un_ClusterSourceListCell :: "'x cell \<Rightarrow> 'x ClusterSourceList option" where
  "un_ClusterSourceListCell c = (case c of ClusterSourceListCell v \<Rightarrow> Some v | _ \<Rightarrow> None)"

definition un_ClusterSummaryListCell :: "'x cell \<Rightarrow> 'x ClusterSummaryList option" where
  "un_ClusterSummaryListCell c = (case c of ClusterSummaryListCell v \<Rightarrow> Some v | _ \<Rightarrow> None)"

definition un_ClusterTargetListCell :: "'x cell \<Rightarrow> 'x ClusterTargetList option" where
  "un_ClusterTargetListCell c = (case c of ClusterTargetListCell v \<Rightarrow> Some v | _ \<Rightarrow> None)"

definition un_PodChaperonListCell :: "'x cell \<Rightarrow> 'x PodChaperonList option" where
  "un_PodChaperonListCell c = (case c of PodChaperonListCell v \<Rightarrow> Some v | _ \<Rightarrow> None)"

definition un_SourceListCell :: "'x cell \<Rightarrow> 'x SourceList option" where
  "un_SourceListCell c = (case c of SourceListCell v \<Rightarrow> Some v | _ \<Rightarrow> None)"

definition un_TargetListCell :: "'x cell \<Rightarrow> 'x TargetList option" where
  "un_TargetListCell c = (case c of TargetListCell v \<Rightarrow> Some v | _ \<Rightarrow> None)"

definition un_ClusterSourceArray :: "'x cell \<Rightarrow> 'x ClusterSource list option" where
  "un_ClusterSourceArray c = (case c of ClusterSourceArray v \<Rightarrow> Some v | _ \<Rightarrow> None)"

definition un_ClusterSummaryArray :: "'x cell \<Rightarrow> 'x ClusterSummary list option" where
  "un_ClusterSummaryArray c = (case c of ClusterSummaryArray v \<Rightarrow> Some v | _ \<Rightarrow> None)"

definition un_ClusterTargetArray :: "'x cell \<Rightarrow> 'x ClusterTarget list option" where
  "un_ClusterTargetArray c = (case c of ClusterTargetArray v \<Rightarrow> Some v | _ \<Rightarrow> None)"

definition un_PodChaperonArray :: "'x cell \<Rightarrow> 'x PodChaperon list option" where
  "un_PodChaperonArray c = (case c of PodChaperonArray v \<Rightarrow> Some v | _ \<Rightarrow> None)"

definition un_SourceArray :: "'x cell \<Rightarrow> 'x Source list option" where
  "un_SourceArray c = (case c of SourceArray v \<Rightarrow> Some v | _ \<Rightarrow> None)"

definition un_TargetArray :: "'x cell \<Rightarrow> 'x Target list option" where
  "un_TargetArray c = (case c of TargetArray v \<Rightarrow> Some v | _ \<Rightarrow> None)"

lemma un_simps [simp]:
  "un_StringCell (StringCell v0) = Some v0"
  "un_ExternalCell (ExternalCell v1) = Some v1"
  "un_ResourceListCell (ResourceListCell v2) = Some v2"
  "un_ClusterKubeconfigSecretCell (ClusterKubeconfigSecretCell v3) = Some v3"
  "un_KubeconfigSecretCell (KubeconfigSecretCell v4) = Some v4"
  "un_ServiceAccountReferenceCell (ServiceAccountReferenceCell v5) = Some v5"
  "un_ClusterSourceSpecCell (ClusterSourceSpecCell v6) = Some v6"
  "un_ClusterSourceStatusCell (ClusterSourceStatusCell v7) = Some v7"
  "un_ClusterTargetSpecCell (ClusterTargetSpecCell v8) = Some v8"
  "un_ClusterTargetStatusCell (ClusterTargetStatusCell v9) = Some v9"
  "un_SourceSpecCell (SourceSpecCell v10) = Some v10"
  "un_SourceStatusCell (SourceStatusCell v11) = Some v11"
  "un_TargetSpecCell (TargetSpecCell v12) = Some v12"
  "un_TargetStatusCell (TargetStatusCell v13) = Some v13"
  "un_ClusterSourceCell (ClusterSourceCell v14) = Some v14"
  "un_ClusterSummaryCell (ClusterSummaryCell v15) = Some v15"
  "un_ClusterTargetCell (ClusterTargetCell v16) = Some v16"
  "un_PodChaperonCell (PodChaperonCell v17) = Some v17"
  "un_SourceCell (SourceCell v18) = Some v18"
  "un_TargetCell (TargetCell v19) = Some v19"
  "un_ClusterSourceListCell (ClusterSourceListCell v20) = Some v20"
  "un_ClusterSummaryListCell (ClusterSummaryListCell v21) = Some v21"
  "un_ClusterTargetListCell (ClusterTargetListCell v22) = Some v22"
  "un_PodChaperonListCell (PodChaperonListCell v23) = Some v23"
  "un_SourceListCell (SourceListCell v24) = Some v24"
  "un_TargetListCell (TargetListCell v25) = Some v25"
  "un_ClusterSourceArray (ClusterSourceArray v26) = Some v26"
  "un_ClusterSummaryArray (ClusterSummaryArray v27) = Some v27"
  "un_ClusterTargetArray (ClusterTargetArray v28) = Some v28"
  "un_PodChaperonArray (PodChaperonArray v29) = Some v29"
  "un_SourceArray (SourceArray v30) = Some v30"
  "un_TargetArray (TargetArray v31) = Some v31"
  by (simp_all add: un_StringCell_def un_ExternalCell_def un_ResourceListCell_def un_ClusterKubeconfigSecretCell_def un_KubeconfigSecretCell_def un_ServiceAccountReferenceCell_def un_ClusterSourceSpecCell_def un_ClusterSourceStatusCell_def un_ClusterTargetSpecCell_def un_ClusterTargetStatusCell_def un_SourceSpecCell_def un_SourceStatusCell_def un_TargetSpecCell_def un_TargetStatusCell_def un_ClusterSourceCell_def un_ClusterSummaryCell_def un_ClusterTargetCell_def un_PodChaperonCell_def un_SourceCell_def un_TargetCell_def un_ClusterSourceListCell_def un_ClusterSummaryListCell_def un_ClusterTargetListCell_def un_PodChaperonListCell_def un_SourceListCell_def un_TargetListCell_def un_ClusterSourceArray_def un_ClusterSummaryArray_def un_ClusterTargetArray_def un_PodChaperonArray_def un_SourceArray_def un_TargetArray_def)

end
