(* ===== verification/Deep_Copy.thy ===== *)
theory Deep_Copy
  imports Deep_Copy_Types "HOL-Library.List_Lexorder" "HOL-Library.Char_ord"
begin

text \<open>
  The generated deep copies (\<open>zz_generated.deepcopy.go\<close>) on the memory of \<open>Go_Memory\<close>.  The controllers mutate
  only copies of what their informers hold; here every copy is shown to be isolated from its original, so that
  no write through the copy reaches the cache.  \<open>DeepCopyInto\<close> of the structs of Kubernetes and the order of
  a range are parameters; \<open>deepCopies\<close> is what the former document.
\<close>

section \<open>DeepCopyInto\<close>

record 'x externals =
  ext_zero :: 'x
  ext_DeepCopyInto :: "('x cell, 'x) copyFun"
  ext_range :: "(string, 'x) fmap \<Rightarrow> (string \<times> 'x) list"

definition zeroTypeMeta :: typeMeta where
  "zeroTypeMeta = \<lparr>tm_Kind = [], tm_APIVersion = []\<rparr>"

definition zero_ClusterSourceSpec :: ClusterSourceSpec where
  "zero_ClusterSourceSpec = \<lparr>ClusterSourceSpec_UserName = [], ClusterSourceSpec_ServiceAccount = None\<rparr>"

definition zero_ClusterTargetSpec :: ClusterTargetSpec where
  "zero_ClusterTargetSpec = \<lparr>ClusterTargetSpec_Self = False, ClusterTargetSpec_KubeconfigSecret = None, ClusterTargetSpec_ExcludedLabelsRegexp = None\<rparr>"

definition zero_SourceSpec :: SourceSpec where
  "zero_SourceSpec = \<lparr>SourceSpec_UserName = [], SourceSpec_ServiceAccountName = []\<rparr>"

definition zero_TargetSpec :: TargetSpec where
  "zero_TargetSpec = \<lparr>TargetSpec_Self = False, TargetSpec_KubeconfigSecret = None, TargetSpec_ExcludedLabelsRegexp = None\<rparr>"

definition zero_ClusterSource :: "'x externals \<Rightarrow> 'x ClusterSource" where
  "zero_ClusterSource e =
     \<lparr>ClusterSource_TypeMeta = zeroTypeMeta, ClusterSource_ObjectMeta = ext_zero e, ClusterSource_Spec = zero_ClusterSourceSpec, ClusterSource_Status = ()\<rparr>"

definition zero_ClusterSummary :: "'x externals \<Rightarrow> 'x ClusterSummary" where
  "zero_ClusterSummary e =
     \<lparr>ClusterSummary_TypeMeta = zeroTypeMeta, ClusterSummary_ObjectMeta = ext_zero e, ClusterSummary_Capacity = None, ClusterSummary_Allocatable = None\<rparr>"

definition zero_ClusterTarget :: "'x externals \<Rightarrow> 'x ClusterTarget" where
  "zero_ClusterTarget e =
     \<lparr>ClusterTarget_TypeMeta = zeroTypeMeta, ClusterTarget_ObjectMeta = ext_zero e, ClusterTarget_Spec = zero_ClusterTargetSpec, ClusterTarget_Status = ()\<rparr>"

definition zero_PodChaperon :: "'x externals \<Rightarrow> 'x PodChaperon" where
  "zero_PodChaperon e =
     \<lparr>PodChaperon_TypeMeta = zeroTypeMeta, PodChaperon_ObjectMeta = ext_zero e, PodChaperon_Spec = ext_zero e, PodChaperon_Status = ext_zero e\<rparr>"

definition zero_Source :: "'x externals \<Rightarrow> 'x Source" where
  "zero_Source e =
     \<lparr>Source_TypeMeta = zeroTypeMeta, Source_ObjectMeta = ext_zero e, Source_Spec = zero_SourceSpec, Source_Status = ()\<rparr>"

definition zero_Target :: "'x externals \<Rightarrow> 'x Target" where
  "zero_Target e =
     \<lparr>Target_TypeMeta = zeroTypeMeta, Target_ObjectMeta = ext_zero e, Target_Spec = zero_TargetSpec, Target_Status = ()\<rparr>"

definition ClusterKubeconfigSecret_DeepCopyInto :: "('x cell, ClusterKubeconfigSecret) copyFun" where
  "ClusterKubeconfigSecret_DeepCopyInto src h = (src, h)"

definition KubeconfigSecret_DeepCopyInto :: "('x cell, KubeconfigSecret) copyFun" where
  "KubeconfigSecret_DeepCopyInto src h = (src, h)"

definition ServiceAccountReference_DeepCopyInto :: "('x cell, ServiceAccountReference) copyFun" where
  "ServiceAccountReference_DeepCopyInto src h = (src, h)"

definition ClusterSourceSpec_DeepCopyInto :: "('x cell, ClusterSourceSpec) copyFun" where
  "ClusterSourceSpec_DeepCopyInto src h =
     (let out = src
      in case copyPtr ServiceAccountReferenceCell un_ServiceAccountReferenceCell plainCopy (ClusterSourceSpec_ServiceAccount src) h of (v, h) \<Rightarrow>
      let out = out\<lparr>ClusterSourceSpec_ServiceAccount := v\<rparr>
      in (out, h))"

definition ClusterSourceStatus_DeepCopyInto :: "('x cell, ClusterSourceStatus) copyFun" where
  "ClusterSourceStatus_DeepCopyInto src h = (src, h)"

definition ClusterTargetSpec_DeepCopyInto :: "('x cell, ClusterTargetSpec) copyFun" where
  "ClusterTargetSpec_DeepCopyInto src h =
     (let out = src
      in case copyPtr ClusterKubeconfigSecretCell un_ClusterKubeconfigSecretCell plainCopy (ClusterTargetSpec_KubeconfigSecret src) h of (v, h) \<Rightarrow>
      let out = out\<lparr>ClusterTargetSpec_KubeconfigSecret := v\<rparr>
      in case copyPtr StringCell un_StringCell plainCopy (ClusterTargetSpec_ExcludedLabelsRegexp src) h of (v, h) \<Rightarrow>
      let out = out\<lparr>ClusterTargetSpec_ExcludedLabelsRegexp := v\<rparr>
      in (out, h))"

definition ClusterTargetStatus_DeepCopyInto :: "('x cell, ClusterTargetStatus) copyFun" where
  "ClusterTargetStatus_DeepCopyInto src h = (src, h)"

definition SourceSpec_DeepCopyInto :: "('x cell, SourceSpec) copyFun" where
  "SourceSpec_DeepCopyInto src h = (src, h)"

definition SourceStatus_DeepCopyInto :: "('x cell, SourceStatus) copyFun" where
  "SourceStatus_DeepCopyInto src h = (src, h)"

definition TargetSpec_DeepCopyInto :: "('x cell, TargetSpec) copyFun" where
  "TargetSpec_DeepCopyInto src h =
     (let out = src
      in case copyPtr KubeconfigSecretCell un_KubeconfigSecretCell plainCopy (TargetSpec_KubeconfigSecret src) h of (v, h) \<Rightarrow>
      let out = out\<lparr>TargetSpec_KubeconfigSecret := v\<rparr>
      in case copyPtr StringCell un_StringCell plainCopy (TargetSpec_ExcludedLabelsRegexp src) h of (v, h) \<Rightarrow>
      let out = out\<lparr>TargetSpec_ExcludedLabelsRegexp := v\<rparr>
      in (out, h))"

definition TargetStatus_DeepCopyInto :: "('x cell, TargetStatus) copyFun" where
  "TargetStatus_DeepCopyInto src h = (src, h)"

definition ClusterSource_DeepCopyInto :: "'x externals \<Rightarrow> ('x cell, 'x ClusterSource) copyFun" where
  "ClusterSource_DeepCopyInto e src h =
     (let out = src;
          out = out\<lparr>ClusterSource_TypeMeta := ClusterSource_TypeMeta src\<rparr>
      in case ext_DeepCopyInto e (ClusterSource_ObjectMeta src) h of (v, h) \<Rightarrow>
      let out = out\<lparr>ClusterSource_ObjectMeta := v\<rparr>
      in case ClusterSourceSpec_DeepCopyInto (ClusterSource_Spec src) h of (v, h) \<Rightarrow>
      let out = out\<lparr>ClusterSource_Spec := v\<rparr>;
          out = out\<lparr>ClusterSource_Status := ClusterSource_Status src\<rparr>
      in (out, h))"

definition ClusterSummary_DeepCopyInto :: "'x externals \<Rightarrow> ('x cell, 'x ClusterSummary) copyFun" where
  "ClusterSummary_DeepCopyInto e src h =
     (let out = src;
          out = out\<lparr>ClusterSummary_TypeMeta := ClusterSummary_TypeMeta src\<rparr>
      in case ext_DeepCopyInto e (ClusterSummary_ObjectMeta src) h of (v, h) \<Rightarrow>
      let out = out\<lparr>ClusterSummary_ObjectMeta := v\<rparr>
      in case copyMap ResourceListCell un_ResourceListCell (ext_range e) (ext_DeepCopyInto e) (ClusterSummary_Capacity src) h of (v, h) \<Rightarrow>
      let out = out\<lparr>ClusterSummary_Capacity := v\<rparr>
      in case copyMap ResourceListCell un_ResourceListCell (ext_range e) (ext_DeepCopyInto e) (ClusterSummary_Allocatable src) h of (v, h) \<Rightarrow>
      let out = out\<lparr>ClusterSummary_Allocatable := v\<rparr>
      in (out, h))"

definition ClusterTarget_DeepCopyInto :: "'x externals \<Rightarrow> ('x cell, 'x ClusterTarget) copyFun" where
  "ClusterTarget_DeepCopyInto e src h =
     (let out = src;
          out = out\<lparr>ClusterTarget_TypeMeta := ClusterTarget_TypeMeta src\<rparr>
      in case ext_DeepCopyInto e (ClusterTarget_ObjectMeta src) h of (v, h) \<Rightarrow>
      let out = out\<lparr>ClusterTarget_ObjectMeta := v\<rparr>
      in case ClusterTargetSpec_DeepCopyInto (ClusterTarget_Spec src) h of (v, h) \<Rightarrow>
      let out = out\<lparr>ClusterTarget_Spec := v\<rparr>;
          out = out\<lparr>ClusterTarget_Status := ClusterTarget_Status src\<rparr>
      in (out, h))"

definition PodChaperon_DeepCopyInto :: "'x externals \<Rightarrow> ('x cell, 'x PodChaperon) copyFun" where
  "PodChaperon_DeepCopyInto e src h =
     (let out = src;
          out = out\<lparr>PodChaperon_TypeMeta := PodChaperon_TypeMeta src\<rparr>
      in case ext_DeepCopyInto e (PodChaperon_ObjectMeta src) h of (v, h) \<Rightarrow>
      let out = out\<lparr>PodChaperon_ObjectMeta := v\<rparr>
      in case ext_DeepCopyInto e (PodChaperon_Spec src) h of (v, h) \<Rightarrow>
      let out = out\<lparr>PodChaperon_Spec := v\<rparr>
      in case ext_DeepCopyInto e (PodChaperon_Status src) h of (v, h) \<Rightarrow>
      let out = out\<lparr>PodChaperon_Status := v\<rparr>
      in (out, h))"

definition Source_DeepCopyInto :: "'x externals \<Rightarrow> ('x cell, 'x Source) copyFun" where
  "Source_DeepCopyInto e src h =
     (let out = src;
          out = out\<lparr>Source_TypeMeta := Source_TypeMeta src\<rparr>
      in case ext_DeepCopyInto e (Source_ObjectMeta src) h of (v, h) \<Rightarrow>
      let out = out\<lparr>Source_ObjectMeta := v\<rparr>;
          out = out\<lparr>Source_Spec := Source_Spec src\<rparr>;
          out = out\<lparr>Source_Status := Source_Status src\<rparr>
      in (out, h))"

definition Target_DeepCopyInto :: "'x externals \<Rightarrow> ('x cell, 'x Target) copyFun" where
  "Target_DeepCopyInto e src h =
     (let out = src;
          out = out\<lparr>Target_TypeMeta := Target_TypeMeta src\<rparr>
      in case ext_DeepCopyInto e (Target_ObjectMeta src) h of (v, h) \<Rightarrow>
      let out = out\<lparr>Target_ObjectMeta := v\<rparr>
      in case TargetSpec_DeepCopyInto (Target_Spec src) h of (v, h) \<Rightarrow>
      let out = out\<lparr>Target_Spec := v\<rparr>;
          out = out\<lparr>Target_Status := Target_Status src\<rparr>
      in (out, h))"

definition ClusterSourceList_DeepCopyInto :: "'x externals \<Rightarrow> ('x cell, 'x ClusterSourceList) copyFun" where
  "ClusterSourceList_DeepCopyInto e src h =
     (let out = src;
          out = out\<lparr>ClusterSourceList_TypeMeta := ClusterSourceList_TypeMeta src\<rparr>
      in case ext_DeepCopyInto e (ClusterSourceList_ListMeta src) h of (v, h) \<Rightarrow>
      let out = out\<lparr>ClusterSourceList_ListMeta := v\<rparr>
      in case copySlice ClusterSourceArray un_ClusterSourceArray (zero_ClusterSource e) (ClusterSource_DeepCopyInto e) (ClusterSourceList_Items src) h of (v, h) \<Rightarrow>
      let out = out\<lparr>ClusterSourceList_Items := v\<rparr>
      in (out, h))"

definition ClusterSummaryList_DeepCopyInto :: "'x externals \<Rightarrow> ('x cell, 'x ClusterSummaryList) copyFun" where
  "ClusterSummaryList_DeepCopyInto e src h =
     (let out = src;
          out = out\<lparr>ClusterSummaryList_TypeMeta := ClusterSummaryList_TypeMeta src\<rparr>
      in case ext_DeepCopyInto e (ClusterSummaryList_ListMeta src) h of (v, h) \<Rightarrow>
      let out = out\<lparr>ClusterSummaryList_ListMeta := v\<rparr>
      in case copySlice ClusterSummaryArray un_ClusterSummaryArray (zero_ClusterSummary e) (ClusterSummary_DeepCopyInto e) (ClusterSummaryList_Items src) h of (v, h) \<Rightarrow>
      let out = out\<lparr>ClusterSummaryList_Items := v\<rparr>
      in (out, h))"

definition ClusterTargetList_DeepCopyInto :: "'x externals \<Rightarrow> ('x cell, 'x ClusterTargetList) copyFun" where
  "ClusterTargetList_DeepCopyInto e src h =
     (let out = src;
          out = out\<lparr>ClusterTargetList_TypeMeta := ClusterTargetList_TypeMeta src\<rparr>
      in case ext_DeepCopyInto e (ClusterTargetList_ListMeta src) h of (v, h) \<Rightarrow>
      let out = out\<lparr>ClusterTargetList_ListMeta := v\<rparr>
      in case copySlice ClusterTargetArray un_ClusterTargetArray (zero_ClusterTarget e) (ClusterTarget_DeepCopyInto e) (ClusterTargetList_Items src) h of (v, h) \<Rightarrow>
      let out = out\<lparr>ClusterTargetList_Items := v\<rparr>
      in (out, h))"

definition PodChaperonList_DeepCopyInto :: "'x externals \<Rightarrow> ('x cell, 'x PodChaperonList) copyFun" where
  "PodChaperonList_DeepCopyInto e src h =
     (let out = src;
          out = out\<lparr>PodChaperonList_TypeMeta := PodChaperonList_TypeMeta src\<rparr>
      in case ext_DeepCopyInto e (PodChaperonList_ListMeta src) h of (v, h) \<Rightarrow>
      let out = out\<lparr>PodChaperonList_ListMeta := v\<rparr>
      in case copySlice PodChaperonArray un_PodChaperonArray (zero_PodChaperon e) (PodChaperon_DeepCopyInto e) (PodChaperonList_Items src) h of (v, h) \<Rightarrow>
      let out = out\<lparr>PodChaperonList_Items := v\<rparr>
      in (out, h))"

definition SourceList_DeepCopyInto :: "'x externals \<Rightarrow> ('x cell, 'x SourceList) copyFun" where
  "SourceList_DeepCopyInto e src h =
     (let out = src;
          out = out\<lparr>SourceList_TypeMeta := SourceList_TypeMeta src\<rparr>
      in case ext_DeepCopyInto e (SourceList_ListMeta src) h of (v, h) \<Rightarrow>
      let out = out\<lparr>SourceList_ListMeta := v\<rparr>
      in case copySlice SourceArray un_SourceArray (zero_Source e) (Source_DeepCopyInto e) (SourceList_Items src) h of (v, h) \<Rightarrow>
      let out = out\<lparr>SourceList_Items := v\<rparr>
      in (out, h))"

definition TargetList_DeepCopyInto :: "'x externals \<Rightarrow> ('x cell, 'x TargetList) copyFun" where
  "TargetList_DeepCopyInto e src h =
     (let out = src;
          out = out\<lparr>TargetList_TypeMeta := TargetList_TypeMeta src\<rparr>
      in case ext_DeepCopyInto e (TargetList_ListMeta src) h of (v, h) \<Rightarrow>
      let out = out\<lparr>TargetList_ListMeta := v\<rparr>
      in case copySlice TargetArray un_TargetArray (zero_Target e) (Target_DeepCopyInto e) (TargetList_Items src) h of (v, h) \<Rightarrow>
      let out = out\<lparr>TargetList_Items := v\<rparr>
      in (out, h))"


section \<open>DeepCopy and DeepCopyObject\<close>

definition ClusterKubeconfigSecret_DeepCopy :: "('x cell, addr option) copyFun" where
  "ClusterKubeconfigSecret_DeepCopy = copyPtr ClusterKubeconfigSecretCell un_ClusterKubeconfigSecretCell ClusterKubeconfigSecret_DeepCopyInto"

definition KubeconfigSecret_DeepCopy :: "('x cell, addr option) copyFun" where
  "KubeconfigSecret_DeepCopy = copyPtr KubeconfigSecretCell un_KubeconfigSecretCell KubeconfigSecret_DeepCopyInto"

definition ServiceAccountReference_DeepCopy :: "('x cell, addr option) copyFun" where
  "ServiceAccountReference_DeepCopy = copyPtr ServiceAccountReferenceCell un_ServiceAccountReferenceCell ServiceAccountReference_DeepCopyInto"

definition ClusterSourceSpec_DeepCopy :: "('x cell, addr option) copyFun" where
  "ClusterSourceSpec_DeepCopy = copyPtr ClusterSourceSpecCell un_ClusterSourceSpecCell ClusterSourceSpec_DeepCopyInto"

definition ClusterSourceStatus_DeepCopy :: "('x cell, addr option) copyFun" where
  "ClusterSourceStatus_DeepCopy = copyPtr ClusterSourceStatusCell un_ClusterSourceStatusCell ClusterSourceStatus_DeepCopyInto"

definition ClusterTargetSpec_DeepCopy :: "('x cell, addr option) copyFun" where
  "ClusterTargetSpec_DeepCopy = copyPtr ClusterTargetSpecCell un_ClusterTargetSpecCell ClusterTargetSpec_DeepCopyInto"

definition ClusterTargetStatus_DeepCopy :: "('x cell, addr option) copyFun" where
  "ClusterTargetStatus_DeepCopy = copyPtr ClusterTargetStatusCell un_ClusterTargetStatusCell ClusterTargetStatus_DeepCopyInto"

definition SourceSpec_DeepCopy :: "('x cell, addr option) copyFun" where
  "SourceSpec_DeepCopy = copyPtr SourceSpecCell un_SourceSpecCell SourceSpec_DeepCopyInto"

definition SourceStatus_DeepCopy :: "('x cell, addr option) copyFun" where
  "SourceStatus_DeepCopy = copyPtr SourceStatusCell un_SourceStatusCell SourceStatus_DeepCopyInto"

definition TargetSpec_DeepCopy :: "('x cell, addr option) copyFun" where
  "TargetSpec_DeepCopy = copyPtr TargetSpecCell un_TargetSpecCell TargetSpec_DeepCopyInto"

definition TargetStatus_DeepCopy :: "('x cell, addr option) copyFun" where
  "TargetStatus_DeepCopy = copyPtr TargetStatusCell un_TargetStatusCell TargetStatus_DeepCopyInto"

definition ClusterSource_DeepCopy :: "'x externals \<Rightarrow> ('x cell, addr option) copyFun" where
  "ClusterSource_DeepCopy e = copyPtr ClusterSourceCell un_ClusterSourceCell (ClusterSource_DeepCopyInto e)"

definition ClusterSummary_DeepCopy :: "'x externals \<Rightarrow> ('x cell, addr option) copyFun" where
  "ClusterSummary_DeepCopy e = copyPtr ClusterSummaryCell un_ClusterSummaryCell (ClusterSummary_DeepCopyInto e)"

definition ClusterTarget_DeepCopy :: "'x externals \<Rightarrow> ('x cell, addr option) copyFun" where
  "ClusterTarget_DeepCopy e = copyPtr ClusterTargetCell un_ClusterTargetCell (ClusterTarget_DeepCopyInto e)"

definition PodChaperon_DeepCopy :: "'x externals \<Rightarrow> ('x cell, addr option) copyFun" where
  "PodChaperon_DeepCopy e = copyPtr PodChaperonCell un_PodChaperonCell (PodChaperon_DeepCopyInto e)"

definition Source_DeepCopy :: "'x externals \<Rightarrow> ('x cell, addr option) copyFun" where
  "Source_DeepCopy e = copyPtr SourceCell un_SourceCell (Source_DeepCopyInto e)"

definition Target_DeepCopy :: "'x externals \<Rightarrow> ('x cell, addr option) copyFun" where
  "Target_DeepCopy e = copyPtr TargetCell un_TargetCell (Target_DeepCopyInto e)"

definition ClusterSourceList_DeepCopy :: "'x externals \<Rightarrow> ('x cell, addr option) copyFun" where
  "ClusterSourceList_DeepCopy e = copyPtr ClusterSourceListCell un_ClusterSourceListCell (ClusterSourceList_DeepCopyInto e)"

definition ClusterSummaryList_DeepCopy :: "'x externals \<Rightarrow> ('x cell, addr option) copyFun" where
  "ClusterSummaryList_DeepCopy e = copyPtr ClusterSummaryListCell un_ClusterSummaryListCell (ClusterSummaryList_DeepCopyInto e)"

definition ClusterTargetList_DeepCopy :: "'x externals \<Rightarrow> ('x cell, addr option) copyFun" where
  "ClusterTargetList_DeepCopy e = copyPtr ClusterTargetListCell un_ClusterTargetListCell (ClusterTargetList_DeepCopyInto e)"

definition PodChaperonList_DeepCopy :: "'x externals \<Rightarrow> ('x cell, addr option) copyFun" where
  "PodChaperonList_DeepCopy e = copyPtr PodChaperonListCell un_PodChaperonListCell (PodChaperonList_DeepCopyInto e)"

definition SourceList_DeepCopy :: "'x externals \<Rightarrow> ('x cell, addr option) copyFun" where
  "SourceList_DeepCopy e = copyPtr SourceListCell un_SourceListCell (SourceList_DeepCopyInto e)"

definition TargetList_DeepCopy :: "'x externals \<Rightarrow> ('x cell, addr option) copyFun" where
  "TargetList_DeepCopy e = copyPtr TargetListCell un_TargetListCell (TargetList_DeepCopyInto e)"

definition ClusterSource_DeepCopyObject ::
  "'x externals \<Rightarrow> addr option \<Rightarrow> 'x cell memory \<Rightarrow> (string \<times> addr) option \<times> 'x cell memory" where
  "ClusterSource_DeepCopyObject e p h = asObject ''*v1alpha1.ClusterSource'' (ClusterSource_DeepCopy e p h)"

definition ClusterSourceList_DeepCopyObject ::
  "'x externals \<Rightarrow> addr option \<Rightarrow> 'x cell memory \<Rightarrow> (string \<times> addr) option \<times> 'x cell memory" where
  "ClusterSourceList_DeepCopyObject e p h = asObject ''*v1alpha1.ClusterSourceList'' (ClusterSourceList_DeepCopy e p h)"

definition ClusterSummary_DeepCopyObject ::
  "'x externals \<Rightarrow> addr option \<Rightarrow> 'x cell memory \<Rightarrow> (string \<times> addr) option \<times> 'x cell memory" where
  "ClusterSummary_DeepCopyObject e p h = asObject ''*v1alpha1.ClusterSummary'' (ClusterSummary_DeepCopy e p h)"

definition ClusterSummaryList_DeepCopyObject ::
  "'x externals \<Rightarrow> addr option \<Rightarrow> 'x cell memory \<Rightarrow> (string \<times> addr) option \<times> 'x cell memory" where
  "ClusterSummaryList_DeepCopyObject e p h = asObject ''*v1alpha1.ClusterSummaryList'' (ClusterSummaryList_DeepCopy e p h)"

definition ClusterTarget_DeepCopyObject ::
  "'x externals \<Rightarrow> addr option \<Rightarrow> 'x cell memory \<Rightarrow> (string \<times> addr) option \<times> 'x cell memory" where
  "ClusterTarget_DeepCopyObject e p h = asObject ''*v1alpha1.ClusterTarget'' (ClusterTarget_DeepCopy e p h)"

definition ClusterTargetList_DeepCopyObject ::
  "'x externals \<Rightarrow> addr option \<Rightarrow> 'x cell memory \<Rightarrow> (string \<times> addr) option \<times> 'x cell memory" where
  "ClusterTargetList_DeepCopyObject e p h = asObject ''*v1alpha1.ClusterTargetList'' (ClusterTargetList_DeepCopy e p h)"

definition PodChaperon_DeepCopyObject ::
  "'x externals \<Rightarrow> addr option \<Rightarrow> 'x cell memory \<Rightarrow> (string \<times> addr) option \<times> 'x cell memory" where
  "PodChaperon_DeepCopyObject e p h = asObject ''*v1alpha1.PodChaperon'' (PodChaperon_DeepCopy e p h)"

definition PodChaperonList_DeepCopyObject ::
  "'x externals \<Rightarrow> addr option \<Rightarrow> 'x cell memory \<Rightarrow> (string \<times> addr) option \<times> 'x cell memory" where
  "PodChaperonList_DeepCopyObject e p h = asObject ''*v1alpha1.PodChaperonList'' (PodChaperonList_DeepCopy e p h)"

definition Source_DeepCopyObject ::
  "'x externals \<Rightarrow> addr option \<Rightarrow> 'x cell memory \<Rightarrow> (string \<times> addr) option \<times> 'x cell memory" where
  "Source_DeepCopyObject e p h = asObject ''*v1alpha1.Source'' (Source_DeepCopy e p h)"

definition SourceList_DeepCopyObject ::
  "'x externals \<Rightarrow> addr option \<Rightarrow> 'x cell memory \<Rightarrow> (string \<times> addr) option \<times> 'x cell memory" where
  "SourceList_DeepCopyObject e p h = asObject ''*v1alpha1.SourceList'' (SourceList_DeepCopy e p h)"

definition Target_DeepCopyObject ::
  "'x externals \<Rightarrow> addr option \<Rightarrow> 'x cell memory \<Rightarrow> (string \<times> addr) option \<times> 'x cell memory" where
  "Target_DeepCopyObject e p h = asObject ''*v1alpha1.Target'' (Target_DeepCopy e p h)"

definition TargetList_DeepCopyObject ::
  "'x externals \<Rightarrow> addr option \<Rightarrow> 'x cell memory \<Rightarrow> (string \<times> addr) option \<times> 'x cell memory" where
  "TargetList_DeepCopyObject e p h = asObject ''*v1alpha1.TargetList'' (TargetList_DeepCopy e p h)"


section \<open>What the structs mean\<close>

text \<open>Each view is the tuple of all fields of its struct, in their order.\<close>

type_synonym ClusterSourceSpecM = "string \<times> ServiceAccountReference option"

definition ClusterSourceSpecV :: "('x cell, ClusterSourceSpec, ClusterSourceSpecM) view" where
  "ClusterSourceSpecV = viaV (\<lambda>s. (ClusterSourceSpec_UserName s, ClusterSourceSpec_ServiceAccount s))
     (pairV plainV (ptrV un_ServiceAccountReferenceCell plainV))"

type_synonym ClusterTargetSpecM = "bool \<times> ClusterKubeconfigSecret option \<times> string option"

definition ClusterTargetSpecV :: "('x cell, ClusterTargetSpec, ClusterTargetSpecM) view" where
  "ClusterTargetSpecV = viaV (\<lambda>s. (ClusterTargetSpec_Self s, ClusterTargetSpec_KubeconfigSecret s, ClusterTargetSpec_ExcludedLabelsRegexp s))
     (pairV plainV (pairV (ptrV un_ClusterKubeconfigSecretCell plainV) (ptrV un_StringCell plainV)))"

type_synonym TargetSpecM = "bool \<times> KubeconfigSecret option \<times> string option"

definition TargetSpecV :: "('x cell, TargetSpec, TargetSpecM) view" where
  "TargetSpecV = viaV (\<lambda>s. (TargetSpec_Self s, TargetSpec_KubeconfigSecret s, TargetSpec_ExcludedLabelsRegexp s))
     (pairV plainV (pairV (ptrV un_KubeconfigSecretCell plainV) (ptrV un_StringCell plainV)))"

type_synonym 'v ClusterSourceM = "typeMeta \<times> 'v \<times> ClusterSourceSpecM \<times> ClusterSourceStatus"

definition ClusterSourceV :: "('x cell, 'x, 'v) view \<Rightarrow> ('x cell, 'x ClusterSource, 'v ClusterSourceM) view" where
  "ClusterSourceV E = viaV (\<lambda>s. (ClusterSource_TypeMeta s, ClusterSource_ObjectMeta s, ClusterSource_Spec s, ClusterSource_Status s))
     (pairV plainV (pairV E (pairV ClusterSourceSpecV plainV)))"

type_synonym 'v ClusterSummaryM = "typeMeta \<times> 'v \<times> (string, 'v) fmap option \<times> (string, 'v) fmap option"

definition ClusterSummaryV :: "('x cell, 'x, 'v) view \<Rightarrow> ('x cell, 'x ClusterSummary, 'v ClusterSummaryM) view" where
  "ClusterSummaryV E = viaV (\<lambda>s. (ClusterSummary_TypeMeta s, ClusterSummary_ObjectMeta s, ClusterSummary_Capacity s, ClusterSummary_Allocatable s))
     (pairV plainV (pairV E (pairV (mapV un_ResourceListCell E) (mapV un_ResourceListCell E))))"

type_synonym 'v ClusterTargetM = "typeMeta \<times> 'v \<times> ClusterTargetSpecM \<times> ClusterTargetStatus"

definition ClusterTargetV :: "('x cell, 'x, 'v) view \<Rightarrow> ('x cell, 'x ClusterTarget, 'v ClusterTargetM) view" where
  "ClusterTargetV E = viaV (\<lambda>s. (ClusterTarget_TypeMeta s, ClusterTarget_ObjectMeta s, ClusterTarget_Spec s, ClusterTarget_Status s))
     (pairV plainV (pairV E (pairV ClusterTargetSpecV plainV)))"

type_synonym 'v PodChaperonM = "typeMeta \<times> 'v \<times> 'v \<times> 'v"

definition PodChaperonV :: "('x cell, 'x, 'v) view \<Rightarrow> ('x cell, 'x PodChaperon, 'v PodChaperonM) view" where
  "PodChaperonV E = viaV (\<lambda>s. (PodChaperon_TypeMeta s, PodChaperon_ObjectMeta s, PodChaperon_Spec s, PodChaperon_Status s))
     (pairV plainV (pairV E (pairV E E)))"

type_synonym 'v SourceM = "typeMeta \<times> 'v \<times> SourceSpec \<times> SourceStatus"

definition SourceV :: "('x cell, 'x, 'v) view \<Rightarrow> ('x cell, 'x Source, 'v SourceM) view" where
  "SourceV E = viaV (\<lambda>s. (Source_TypeMeta s, Source_ObjectMeta s, Source_Spec s, Source_Status s))
     (pairV plainV (pairV E (pairV plainV plainV)))"

type_synonym 'v TargetM = "typeMeta \<times> 'v \<times> TargetSpecM \<times> TargetStatus"

definition TargetV :: "('x cell, 'x, 'v) view \<Rightarrow> ('x cell, 'x Target, 'v TargetM) view" where
  "TargetV E = viaV (\<lambda>s. (Target_TypeMeta s, Target_ObjectMeta s, Target_Spec s, Target_Status s))
     (pairV plainV (pairV E (pairV TargetSpecV plainV)))"

type_synonym 'v ClusterSourceListM = "typeMeta \<times> 'v \<times> 'v ClusterSourceM list option"

definition ClusterSourceListV :: "('x cell, 'x, 'v) view \<Rightarrow> ('x cell, 'x ClusterSourceList, 'v ClusterSourceListM) view" where
  "ClusterSourceListV E = viaV (\<lambda>s. (ClusterSourceList_TypeMeta s, ClusterSourceList_ListMeta s, ClusterSourceList_Items s))
     (pairV plainV (pairV E (sliceV un_ClusterSourceArray (ClusterSourceV E))))"

type_synonym 'v ClusterSummaryListM = "typeMeta \<times> 'v \<times> 'v ClusterSummaryM list option"

definition ClusterSummaryListV :: "('x cell, 'x, 'v) view \<Rightarrow> ('x cell, 'x ClusterSummaryList, 'v ClusterSummaryListM) view" where
  "ClusterSummaryListV E = viaV (\<lambda>s. (ClusterSummaryList_TypeMeta s, ClusterSummaryList_ListMeta s, ClusterSummaryList_Items s))
     (pairV plainV (pairV E (sliceV un_ClusterSummaryArray (ClusterSummaryV E))))"

type_synonym 'v ClusterTargetListM = "typeMeta \<times> 'v \<times> 'v ClusterTargetM list option"

definition ClusterTargetListV :: "('x cell, 'x, 'v) view \<Rightarrow> ('x cell, 'x ClusterTargetList, 'v ClusterTargetListM) view" where
  "ClusterTargetListV E = viaV (\<lambda>s. (ClusterTargetList_TypeMeta s, ClusterTargetList_ListMeta s, ClusterTargetList_Items s))
     (pairV plainV (pairV E (sliceV un_ClusterTargetArray (ClusterTargetV E))))"

type_synonym 'v PodChaperonListM = "typeMeta \<times> 'v \<times> 'v PodChaperonM list option"

definition PodChaperonListV :: "('x cell, 'x, 'v) view \<Rightarrow> ('x cell, 'x PodChaperonList, 'v PodChaperonListM) view" where
  "PodChaperonListV E = viaV (\<lambda>s. (PodChaperonList_TypeMeta s, PodChaperonList_ListMeta s, PodChaperonList_Items s))
     (pairV plainV (pairV E (sliceV un_PodChaperonArray (PodChaperonV E))))"

type_synonym 'v SourceListM = "typeMeta \<times> 'v \<times> 'v SourceM list option"

definition SourceListV :: "('x cell, 'x, 'v) view \<Rightarrow> ('x cell, 'x SourceList, 'v SourceListM) view" where
  "SourceListV E = viaV (\<lambda>s. (SourceList_TypeMeta s, SourceList_ListMeta s, SourceList_Items s))
     (pairV plainV (pairV E (sliceV un_SourceArray (SourceV E))))"

type_synonym 'v TargetListM = "typeMeta \<times> 'v \<times> 'v TargetM list option"

definition TargetListV :: "('x cell, 'x, 'v) view \<Rightarrow> ('x cell, 'x TargetList, 'v TargetListM) view" where
  "TargetListV E = viaV (\<lambda>s. (TargetList_TypeMeta s, TargetList_ListMeta s, TargetList_Items s))
     (pairV plainV (pairV E (sliceV un_TargetArray (TargetV E))))"


section \<open>Every copy is a deep copy\<close>

lemma plain_copies: "deepCopies plainV copy" if "\<And>x h. copy x h = (x, h)"
  using that by (simp add: deepCopies_def)

lemma deepCopies_ClusterKubeconfigSecret: "deepCopies plainV ClusterKubeconfigSecret_DeepCopyInto"
  by (rule plain_copies) (simp add: ClusterKubeconfigSecret_DeepCopyInto_def)

lemma deepCopies_KubeconfigSecret: "deepCopies plainV KubeconfigSecret_DeepCopyInto"
  by (rule plain_copies) (simp add: KubeconfigSecret_DeepCopyInto_def)

lemma deepCopies_ServiceAccountReference: "deepCopies plainV ServiceAccountReference_DeepCopyInto"
  by (rule plain_copies) (simp add: ServiceAccountReference_DeepCopyInto_def)

lemma deepCopies_ClusterSourceStatus: "deepCopies plainV ClusterSourceStatus_DeepCopyInto"
  by (rule plain_copies) (simp add: ClusterSourceStatus_DeepCopyInto_def)

lemma deepCopies_ClusterTargetStatus: "deepCopies plainV ClusterTargetStatus_DeepCopyInto"
  by (rule plain_copies) (simp add: ClusterTargetStatus_DeepCopyInto_def)

lemma deepCopies_SourceSpec: "deepCopies plainV SourceSpec_DeepCopyInto"
  by (rule plain_copies) (simp add: SourceSpec_DeepCopyInto_def)

lemma deepCopies_SourceStatus: "deepCopies plainV SourceStatus_DeepCopyInto"
  by (rule plain_copies) (simp add: SourceStatus_DeepCopyInto_def)

lemma deepCopies_TargetStatus: "deepCopies plainV TargetStatus_DeepCopyInto"
  by (rule plain_copies) (simp add: TargetStatus_DeepCopyInto_def)

text \<open>What is required of the structs of Kubernetes and of a range.\<close>

definition copiesExternals :: "('x cell, 'x, 'v) view \<Rightarrow> 'x externals \<Rightarrow> bool" where
  "copiesExternals E e \<longleftrightarrow>
     lawful E \<and> deepCopies E (ext_DeepCopyInto e) \<and> (\<forall>m. is_range (ext_range e m) m)"

lemma lawful_ClusterSourceSpec: "lawful (ClusterSourceSpecV)"
  unfolding ClusterSourceSpecV_def by (intro lawful_via lawful_pair lawful_plain lawful_ptr lawful_slice lawful_map)

lemma deepCopies_ClusterSourceSpec: "deepCopies (ClusterSourceSpecV) ClusterSourceSpec_DeepCopyInto"
  unfolding ClusterSourceSpecV_def
  by (rule deepCopies_via [where copy = "(pairCopy plainCopy (copyPtr ServiceAccountReferenceCell un_ServiceAccountReferenceCell plainCopy))"])
    ((intro deepCopies_pair deepCopies_plain deepCopies_ptr deepCopies_slice deepCopies_map lawful_pair lawful_plain
        lawful_ptr lawful_slice lawful_map; simp add: copiesExternals_def),
     simp add: ClusterSourceSpec_DeepCopyInto_def pairCopy_def plainCopy_def split: prod.splits)

lemma lawful_ClusterTargetSpec: "lawful (ClusterTargetSpecV)"
  unfolding ClusterTargetSpecV_def by (intro lawful_via lawful_pair lawful_plain lawful_ptr lawful_slice lawful_map)

lemma deepCopies_ClusterTargetSpec: "deepCopies (ClusterTargetSpecV) ClusterTargetSpec_DeepCopyInto"
  unfolding ClusterTargetSpecV_def
  by (rule deepCopies_via [where copy = "(pairCopy plainCopy (pairCopy (copyPtr ClusterKubeconfigSecretCell un_ClusterKubeconfigSecretCell plainCopy) (copyPtr StringCell un_StringCell plainCopy)))"])
    ((intro deepCopies_pair deepCopies_plain deepCopies_ptr deepCopies_slice deepCopies_map lawful_pair lawful_plain
        lawful_ptr lawful_slice lawful_map; simp add: copiesExternals_def),
     simp add: ClusterTargetSpec_DeepCopyInto_def pairCopy_def plainCopy_def split: prod.splits)

lemma lawful_TargetSpec: "lawful (TargetSpecV)"
  unfolding TargetSpecV_def by (intro lawful_via lawful_pair lawful_plain lawful_ptr lawful_slice lawful_map)

lemma deepCopies_TargetSpec: "deepCopies (TargetSpecV) TargetSpec_DeepCopyInto"
  unfolding TargetSpecV_def
  by (rule deepCopies_via [where copy = "(pairCopy plainCopy (pairCopy (copyPtr KubeconfigSecretCell un_KubeconfigSecretCell plainCopy) (copyPtr StringCell un_StringCell plainCopy)))"])
    ((intro deepCopies_pair deepCopies_plain deepCopies_ptr deepCopies_slice deepCopies_map lawful_pair lawful_plain
        lawful_ptr lawful_slice lawful_map; simp add: copiesExternals_def),
     simp add: TargetSpec_DeepCopyInto_def pairCopy_def plainCopy_def split: prod.splits)

lemma lawful_ClusterSource: "lawful E \<Longrightarrow> lawful (ClusterSourceV E)"
  unfolding ClusterSourceV_def by (intro lawful_via lawful_pair lawful_plain lawful_ptr lawful_slice lawful_map lawful_ClusterSourceSpec)

lemma deepCopies_ClusterSource: "copiesExternals E e \<Longrightarrow> deepCopies (ClusterSourceV E) (ClusterSource_DeepCopyInto e)"
  unfolding ClusterSourceV_def copiesExternals_def
  by (rule deepCopies_via [where copy = "(pairCopy plainCopy (pairCopy (ext_DeepCopyInto e) (pairCopy ClusterSourceSpec_DeepCopyInto plainCopy)))"])
    ((intro deepCopies_pair deepCopies_plain deepCopies_ptr deepCopies_slice deepCopies_map lawful_pair lawful_plain
        lawful_ptr lawful_slice lawful_map deepCopies_ClusterSourceSpec lawful_ClusterSourceSpec; simp add: copiesExternals_def),
     simp add: ClusterSource_DeepCopyInto_def pairCopy_def plainCopy_def split: prod.splits)

lemma lawful_ClusterSummary: "lawful E \<Longrightarrow> lawful (ClusterSummaryV E)"
  unfolding ClusterSummaryV_def by (intro lawful_via lawful_pair lawful_plain lawful_ptr lawful_slice lawful_map)

lemma deepCopies_ClusterSummary: "copiesExternals E e \<Longrightarrow> deepCopies (ClusterSummaryV E) (ClusterSummary_DeepCopyInto e)"
  unfolding ClusterSummaryV_def copiesExternals_def
  by (rule deepCopies_via [where copy = "(pairCopy plainCopy (pairCopy (ext_DeepCopyInto e) (pairCopy (copyMap ResourceListCell un_ResourceListCell (ext_range e) (ext_DeepCopyInto e)) (copyMap ResourceListCell un_ResourceListCell (ext_range e) (ext_DeepCopyInto e)))))"])
    ((intro deepCopies_pair deepCopies_plain deepCopies_ptr deepCopies_slice deepCopies_map lawful_pair lawful_plain
        lawful_ptr lawful_slice lawful_map; simp add: copiesExternals_def),
     simp add: ClusterSummary_DeepCopyInto_def pairCopy_def plainCopy_def split: prod.splits)

lemma lawful_ClusterTarget: "lawful E \<Longrightarrow> lawful (ClusterTargetV E)"
  unfolding ClusterTargetV_def by (intro lawful_via lawful_pair lawful_plain lawful_ptr lawful_slice lawful_map lawful_ClusterTargetSpec)

lemma deepCopies_ClusterTarget: "copiesExternals E e \<Longrightarrow> deepCopies (ClusterTargetV E) (ClusterTarget_DeepCopyInto e)"
  unfolding ClusterTargetV_def copiesExternals_def
  by (rule deepCopies_via [where copy = "(pairCopy plainCopy (pairCopy (ext_DeepCopyInto e) (pairCopy ClusterTargetSpec_DeepCopyInto plainCopy)))"])
    ((intro deepCopies_pair deepCopies_plain deepCopies_ptr deepCopies_slice deepCopies_map lawful_pair lawful_plain
        lawful_ptr lawful_slice lawful_map deepCopies_ClusterTargetSpec lawful_ClusterTargetSpec; simp add: copiesExternals_def),
     simp add: ClusterTarget_DeepCopyInto_def pairCopy_def plainCopy_def split: prod.splits)

lemma lawful_PodChaperon: "lawful E \<Longrightarrow> lawful (PodChaperonV E)"
  unfolding PodChaperonV_def by (intro lawful_via lawful_pair lawful_plain lawful_ptr lawful_slice lawful_map)

lemma deepCopies_PodChaperon: "copiesExternals E e \<Longrightarrow> deepCopies (PodChaperonV E) (PodChaperon_DeepCopyInto e)"
  unfolding PodChaperonV_def copiesExternals_def
  by (rule deepCopies_via [where copy = "(pairCopy plainCopy (pairCopy (ext_DeepCopyInto e) (pairCopy (ext_DeepCopyInto e) (ext_DeepCopyInto e))))"])
    ((intro deepCopies_pair deepCopies_plain deepCopies_ptr deepCopies_slice deepCopies_map lawful_pair lawful_plain
        lawful_ptr lawful_slice lawful_map; simp add: copiesExternals_def),
     simp add: PodChaperon_DeepCopyInto_def pairCopy_def plainCopy_def split: prod.splits)

lemma lawful_Source: "lawful E \<Longrightarrow> lawful (SourceV E)"
  unfolding SourceV_def by (intro lawful_via lawful_pair lawful_plain lawful_ptr lawful_slice lawful_map)

lemma deepCopies_Source: "copiesExternals E e \<Longrightarrow> deepCopies (SourceV E) (Source_DeepCopyInto e)"
  unfolding SourceV_def copiesExternals_def
  by (rule deepCopies_via [where copy = "(pairCopy plainCopy (pairCopy (ext_DeepCopyInto e) (pairCopy plainCopy plainCopy)))"])
    ((intro deepCopies_pair deepCopies_plain deepCopies_ptr deepCopies_slice deepCopies_map lawful_pair lawful_plain
        lawful_ptr lawful_slice lawful_map; simp add: copiesExternals_def),
     simp add: Source_DeepCopyInto_def pairCopy_def plainCopy_def split: prod.splits)

lemma lawful_Target: "lawful E \<Longrightarrow> lawful (TargetV E)"
  unfolding TargetV_def by (intro lawful_via lawful_pair lawful_plain lawful_ptr lawful_slice lawful_map lawful_TargetSpec)

lemma deepCopies_Target: "copiesExternals E e \<Longrightarrow> deepCopies (TargetV E) (Target_DeepCopyInto e)"
  unfolding TargetV_def copiesExternals_def
  by (rule deepCopies_via [where copy = "(pairCopy plainCopy (pairCopy (ext_DeepCopyInto e) (pairCopy TargetSpec_DeepCopyInto plainCopy)))"])
    ((intro deepCopies_pair deepCopies_plain deepCopies_ptr deepCopies_slice deepCopies_map lawful_pair lawful_plain
        lawful_ptr lawful_slice lawful_map deepCopies_TargetSpec lawful_TargetSpec; simp add: copiesExternals_def),
     simp add: Target_DeepCopyInto_def pairCopy_def plainCopy_def split: prod.splits)

lemma lawful_ClusterSourceList: "lawful E \<Longrightarrow> lawful (ClusterSourceListV E)"
  unfolding ClusterSourceListV_def by (intro lawful_via lawful_pair lawful_plain lawful_ptr lawful_slice lawful_map lawful_ClusterSource)

lemma deepCopies_ClusterSourceList: "copiesExternals E e \<Longrightarrow> deepCopies (ClusterSourceListV E) (ClusterSourceList_DeepCopyInto e)"
  unfolding ClusterSourceListV_def copiesExternals_def
  by (rule deepCopies_via [where copy = "(pairCopy plainCopy (pairCopy (ext_DeepCopyInto e) (copySlice ClusterSourceArray un_ClusterSourceArray (zero_ClusterSource e) (ClusterSource_DeepCopyInto e))))"])
    ((intro deepCopies_pair deepCopies_plain deepCopies_ptr deepCopies_slice deepCopies_map lawful_pair lawful_plain
        lawful_ptr lawful_slice lawful_map deepCopies_ClusterSource lawful_ClusterSource; simp add: copiesExternals_def),
     simp add: ClusterSourceList_DeepCopyInto_def pairCopy_def plainCopy_def split: prod.splits)

lemma lawful_ClusterSummaryList: "lawful E \<Longrightarrow> lawful (ClusterSummaryListV E)"
  unfolding ClusterSummaryListV_def by (intro lawful_via lawful_pair lawful_plain lawful_ptr lawful_slice lawful_map lawful_ClusterSummary)

lemma deepCopies_ClusterSummaryList: "copiesExternals E e \<Longrightarrow> deepCopies (ClusterSummaryListV E) (ClusterSummaryList_DeepCopyInto e)"
  unfolding ClusterSummaryListV_def copiesExternals_def
  by (rule deepCopies_via [where copy = "(pairCopy plainCopy (pairCopy (ext_DeepCopyInto e) (copySlice ClusterSummaryArray un_ClusterSummaryArray (zero_ClusterSummary e) (ClusterSummary_DeepCopyInto e))))"])
    ((intro deepCopies_pair deepCopies_plain deepCopies_ptr deepCopies_slice deepCopies_map lawful_pair lawful_plain
        lawful_ptr lawful_slice lawful_map deepCopies_ClusterSummary lawful_ClusterSummary; simp add: copiesExternals_def),
     simp add: ClusterSummaryList_DeepCopyInto_def pairCopy_def plainCopy_def split: prod.splits)

lemma lawful_ClusterTargetList: "lawful E \<Longrightarrow> lawful (ClusterTargetListV E)"
  unfolding ClusterTargetListV_def by (intro lawful_via lawful_pair lawful_plain lawful_ptr lawful_slice lawful_map lawful_ClusterTarget)

lemma deepCopies_ClusterTargetList: "copiesExternals E e \<Longrightarrow> deepCopies (ClusterTargetListV E) (ClusterTargetList_DeepCopyInto e)"
  unfolding ClusterTargetListV_def copiesExternals_def
  by (rule deepCopies_via [where copy = "(pairCopy plainCopy (pairCopy (ext_DeepCopyInto e) (copySlice ClusterTargetArray un_ClusterTargetArray (zero_ClusterTarget e) (ClusterTarget_DeepCopyInto e))))"])
    ((intro deepCopies_pair deepCopies_plain deepCopies_ptr deepCopies_slice deepCopies_map lawful_pair lawful_plain
        lawful_ptr lawful_slice lawful_map deepCopies_ClusterTarget lawful_ClusterTarget; simp add: copiesExternals_def),
     simp add: ClusterTargetList_DeepCopyInto_def pairCopy_def plainCopy_def split: prod.splits)

lemma lawful_PodChaperonList: "lawful E \<Longrightarrow> lawful (PodChaperonListV E)"
  unfolding PodChaperonListV_def by (intro lawful_via lawful_pair lawful_plain lawful_ptr lawful_slice lawful_map lawful_PodChaperon)

lemma deepCopies_PodChaperonList: "copiesExternals E e \<Longrightarrow> deepCopies (PodChaperonListV E) (PodChaperonList_DeepCopyInto e)"
  unfolding PodChaperonListV_def copiesExternals_def
  by (rule deepCopies_via [where copy = "(pairCopy plainCopy (pairCopy (ext_DeepCopyInto e) (copySlice PodChaperonArray un_PodChaperonArray (zero_PodChaperon e) (PodChaperon_DeepCopyInto e))))"])
    ((intro deepCopies_pair deepCopies_plain deepCopies_ptr deepCopies_slice deepCopies_map lawful_pair lawful_plain
        lawful_ptr lawful_slice lawful_map deepCopies_PodChaperon lawful_PodChaperon; simp add: copiesExternals_def),
     simp add: PodChaperonList_DeepCopyInto_def pairCopy_def plainCopy_def split: prod.splits)

lemma lawful_SourceList: "lawful E \<Longrightarrow> lawful (SourceListV E)"
  unfolding SourceListV_def by (intro lawful_via lawful_pair lawful_plain lawful_ptr lawful_slice lawful_map lawful_Source)

lemma deepCopies_SourceList: "copiesExternals E e \<Longrightarrow> deepCopies (SourceListV E) (SourceList_DeepCopyInto e)"
  unfolding SourceListV_def copiesExternals_def
  by (rule deepCopies_via [where copy = "(pairCopy plainCopy (pairCopy (ext_DeepCopyInto e) (copySlice SourceArray un_SourceArray (zero_Source e) (Source_DeepCopyInto e))))"])
    ((intro deepCopies_pair deepCopies_plain deepCopies_ptr deepCopies_slice deepCopies_map lawful_pair lawful_plain
        lawful_ptr lawful_slice lawful_map deepCopies_Source lawful_Source; simp add: copiesExternals_def),
     simp add: SourceList_DeepCopyInto_def pairCopy_def plainCopy_def split: prod.splits)

lemma lawful_TargetList: "lawful E \<Longrightarrow> lawful (TargetListV E)"
  unfolding TargetListV_def by (intro lawful_via lawful_pair lawful_plain lawful_ptr lawful_slice lawful_map lawful_Target)

lemma deepCopies_TargetList: "copiesExternals E e \<Longrightarrow> deepCopies (TargetListV E) (TargetList_DeepCopyInto e)"
  unfolding TargetListV_def copiesExternals_def
  by (rule deepCopies_via [where copy = "(pairCopy plainCopy (pairCopy (ext_DeepCopyInto e) (copySlice TargetArray un_TargetArray (zero_Target e) (Target_DeepCopyInto e))))"])
    ((intro deepCopies_pair deepCopies_plain deepCopies_ptr deepCopies_slice deepCopies_map lawful_pair lawful_plain
        lawful_ptr lawful_slice lawful_map deepCopies_Target lawful_Target; simp add: copiesExternals_def),
     simp add: TargetList_DeepCopyInto_def pairCopy_def plainCopy_def split: prod.splits)


section \<open>Isolation\<close>

text \<open>
  Property C38.  \<open>DeepCopy\<close> of every object and every list of the API isolates: the copy means what the original
  means, \<open>nil\<close> for \<open>nil\<close>, and no write through the copy, nor to anything made later, changes a cell that was
  there before, so that an object of an informer's cache stays as it is however its copy is changed.
\<close>

theorem deep_copies_isolate:
  assumes "copiesExternals E e"
  shows "isolates (ptrV un_ClusterSourceCell (ClusterSourceV E)) (ClusterSource_DeepCopy e)
    \<and> isolates (ptrV un_ClusterSourceListCell (ClusterSourceListV E)) (ClusterSourceList_DeepCopy e)
    \<and> isolates (ptrV un_ClusterSummaryCell (ClusterSummaryV E)) (ClusterSummary_DeepCopy e)
    \<and> isolates (ptrV un_ClusterSummaryListCell (ClusterSummaryListV E)) (ClusterSummaryList_DeepCopy e)
    \<and> isolates (ptrV un_ClusterTargetCell (ClusterTargetV E)) (ClusterTarget_DeepCopy e)
    \<and> isolates (ptrV un_ClusterTargetListCell (ClusterTargetListV E)) (ClusterTargetList_DeepCopy e)
    \<and> isolates (ptrV un_PodChaperonCell (PodChaperonV E)) (PodChaperon_DeepCopy e)
    \<and> isolates (ptrV un_PodChaperonListCell (PodChaperonListV E)) (PodChaperonList_DeepCopy e)
    \<and> isolates (ptrV un_SourceCell (SourceV E)) (Source_DeepCopy e)
    \<and> isolates (ptrV un_SourceListCell (SourceListV E)) (SourceList_DeepCopy e)
    \<and> isolates (ptrV un_TargetCell (TargetV E)) (Target_DeepCopy e)
    \<and> isolates (ptrV un_TargetListCell (TargetListV E)) (TargetList_DeepCopy e)"
proof -
  have E: "lawful E" using assms by (simp add: copiesExternals_def)
  show ?thesis
    unfolding ClusterSource_DeepCopy_def
      ClusterSourceList_DeepCopy_def
      ClusterSummary_DeepCopy_def
      ClusterSummaryList_DeepCopy_def
      ClusterTarget_DeepCopy_def
      ClusterTargetList_DeepCopy_def
      PodChaperon_DeepCopy_def
      PodChaperonList_DeepCopy_def
      Source_DeepCopy_def
      SourceList_DeepCopy_def
      Target_DeepCopy_def
      TargetList_DeepCopy_def
    by (intro conjI deepCopies_isolates deepCopies_ptr; (rule un_simps)?;
        (rule lawful_ClusterSource lawful_ClusterSourceList lawful_ClusterSummary lawful_ClusterSummaryList lawful_ClusterTarget lawful_ClusterTargetList lawful_PodChaperon lawful_PodChaperonList lawful_Source lawful_SourceList lawful_Target lawful_TargetList)?;
        (rule deepCopies_ClusterSource deepCopies_ClusterSourceList deepCopies_ClusterSummary deepCopies_ClusterSummaryList deepCopies_ClusterTarget deepCopies_ClusterTargetList deepCopies_PodChaperon deepCopies_PodChaperonList deepCopies_Source deepCopies_SourceList deepCopies_Target deepCopies_TargetList)?; (rule E assms)?)
qed


text \<open>
  An instance: structs of Kubernetes with one pointer.  A pod chaperon is copied and the metadata of the copy
  are changed through that pointer.
\<close>

type_synonym sampleStruct = "string \<times> addr option"

definition sampleView :: "(sampleStruct cell, sampleStruct, string \<times> sampleStruct option) view" where
  "sampleView = pairV plainV (ptrV un_ExternalCell plainV)"

definition sampleExternals :: "sampleStruct externals" where
  "sampleExternals = \<lparr>ext_zero = ([], None),
     ext_DeepCopyInto = pairCopy plainCopy (copyPtr ExternalCell un_ExternalCell plainCopy),
     ext_range = sorted_list_of_fmap\<rparr>"

lemma sample_copiesExternals: "copiesExternals sampleView sampleExternals"
proof -
  have keys: "map fst (sorted_list_of_fmap m) = sorted_list_of_fset (fmdom m)" for m :: "(string, sampleStruct) fmap"
    by (simp add: sorted_list_of_fmap_def comp_def)
  have "is_range (sorted_list_of_fmap m) m" for m :: "(string, sampleStruct) fmap"
    unfolding is_range_def keys by (auto simp: fmlookup_of_list sorted_list_of_fset.rep_eq intro: fmap_ext)
  moreover have "lawful sampleView" unfolding sampleView_def by (intro lawful_pair lawful_ptr lawful_plain)
  moreover have "deepCopies sampleView (ext_DeepCopyInto sampleExternals)"
    unfolding sampleView_def sampleExternals_def externals.simps
    by (intro deepCopies_pair deepCopies_ptr deepCopies_plain lawful_ptr lawful_plain) simp
  ultimately show ?thesis by (simp add: copiesExternals_def sampleExternals_def)
qed

definition samplePodChaperon :: "sampleStruct PodChaperon" where
  "samplePodChaperon = \<lparr>PodChaperon_TypeMeta = zeroTypeMeta, PodChaperon_ObjectMeta = (''meta'', Some 0),
     PodChaperon_Spec = (''spec'', None), PodChaperon_Status = (''status'', None)\<rparr>"

definition sampleMemory :: "sampleStruct cell memory" where
  "sampleMemory = [ExternalCell (''labels'', None), PodChaperonCell samplePodChaperon]"

theorem deep_copies_isolate_witness:
  "\<exists>p h. PodChaperon_DeepCopy sampleExternals (Some 1) sampleMemory = (Some p, h)
     \<and> meaning (ptrV un_PodChaperonCell (PodChaperonV sampleView)) h (Some p) =
         meaning (ptrV un_PodChaperonCell (PodChaperonV sampleView)) sampleMemory (Some 1)
     \<and> extends sampleMemory (runOps [Alloc (StringCell ''x''), Write 3 (ExternalCell (''changed'', None))] h)"
proof -
  let ?V = "ptrV un_PodChaperonCell (PodChaperonV sampleView)"
  have run: "PodChaperon_DeepCopy sampleExternals (Some 1) sampleMemory =
      (Some 2, sampleMemory @
        [PodChaperonCell (samplePodChaperon\<lparr>PodChaperon_ObjectMeta := (''meta'', Some 3)\<rparr>),
         ExternalCell (''labels'', None)])"
    by (simp add: PodChaperon_DeepCopy_def copyPtr_def PodChaperon_DeepCopyInto_def sampleExternals_def
        sampleMemory_def samplePodChaperon_def pairCopy_def plainCopy_def Let_def)
  have ok: "okay ?V sampleMemory (Some 1)"
    by (simp add: sampleMemory_def PodChaperonV_def sampleView_def samplePodChaperon_def)
  have "isolates ?V (PodChaperon_DeepCopy sampleExternals)"
    using deep_copies_isolate [OF sample_copiesExternals] by blast
  note I = this [unfolded isolates_def, rule_format, OF ok run]
  have "extends sampleMemory (runOps [Alloc (StringCell ''x''), Write 3 (ExternalCell (''changed'', None))]
      (sampleMemory @ [PodChaperonCell (samplePodChaperon\<lparr>PodChaperon_ObjectMeta := (''meta'', Some 3)\<rparr>),
         ExternalCell (''labels'', None)]))"
    by (rule I [THEN conjunct2, THEN conjunct2, rule_format])
      (auto simp: sampleMemory_def PodChaperonV_def sampleView_def samplePodChaperon_def)
  then show ?thesis using run I [THEN conjunct2, THEN conjunct1] by blast
qed

end
