(* ===== verification/Set_Defaults.thy ===== *)
theory Set_Defaults
  imports Go_Prelude
begin

text \<open>
  The generated defaults of pod chaperons (\<open>zz_generated.defaults.go\<close>): the protocol of a port and the service of a
  GRPC probe, in init, ordinary and ephemeral containers.  The other fields of these structs of Kubernetes are
  opaque, one value of type \<open>'x\<close> for each struct.  What is shown: all defaults are set, nothing else changes, and
  a second run changes nothing.
\<close>

section \<open>The fields\<close>

record 'x containerPort =
  Protocol :: string
  cp_rest :: 'x

record 'x grpcAction =
  grpc_Service :: "string option"
  grpc_rest :: 'x

record 'x probe =
  GRPC :: "'x grpcAction option"
  probe_rest :: 'x

record 'x containerCommon =
  Ports :: "'x containerPort list"
  LivenessProbe :: "'x probe option"
  ReadinessProbe :: "'x probe option"
  StartupProbe :: "'x probe option"
  container_rest :: 'x

record 'x ephemeralContainer =
  EphemeralContainerCommon :: "'x containerCommon"
  ec_rest :: 'x

record 'x defaultedSpec =
  ds_InitContainers :: "'x containerCommon list"
  ds_Containers :: "'x containerCommon list"
  ds_EphemeralContainers :: "'x ephemeralContainer list"
  ds_rest :: 'x

record 'x defaultedChaperon =
  dc_Spec :: "'x defaultedSpec"
  dc_rest :: 'x

record 'x defaultedChaperonList =
  dcl_Items :: "'x defaultedChaperon list"
  dcl_rest :: 'x


section \<open>The functions\<close>

text \<open>A loop \<open>for j := range xs\<close> that changes \<open>xs[j]\<close> in place, from index \<open>j\<close> on.\<close>

fun inPlace :: "('a \<Rightarrow> 'a) \<Rightarrow> nat \<Rightarrow> 'a list \<Rightarrow> nat \<Rightarrow> 'a list" where
  "inPlace f j xs 0 = xs"
| "inPlace f j xs (Suc n) = inPlace f (Suc j) (xs[j := f (xs ! j)]) n"

definition forRange :: "('a \<Rightarrow> 'a) \<Rightarrow> 'a list \<Rightarrow> 'a list" where
  "forRange f xs = inPlace f 0 xs (length xs)"

definition defaultPort :: "'x containerPort \<Rightarrow> 'x containerPort" where
  "defaultPort b = (if Protocol b = [] then b\<lparr>Protocol := ''TCP''\<rparr> else b)"

definition defaultProbe :: "'x probe option \<Rightarrow> 'x probe option" where
  "defaultProbe p =
     (case p of
        None \<Rightarrow> None
      | Some probe \<Rightarrow>
          (case GRPC probe of
             None \<Rightarrow> Some probe
           | Some grpc \<Rightarrow>
               (if grpc_Service grpc = None
                then let ptrVar1 = [] in Some (probe\<lparr>GRPC := Some (grpc\<lparr>grpc_Service := Some ptrVar1\<rparr>)\<rparr>)
                else Some probe)))"

definition defaultContainer :: "'x containerCommon \<Rightarrow> 'x containerCommon" where
  "defaultContainer a =
     (let a = a\<lparr>Ports := forRange defaultPort (Ports a)\<rparr>;
          a = a\<lparr>LivenessProbe := defaultProbe (LivenessProbe a)\<rparr>;
          a = a\<lparr>ReadinessProbe := defaultProbe (ReadinessProbe a)\<rparr>
      in a\<lparr>StartupProbe := defaultProbe (StartupProbe a)\<rparr>)"

definition defaultEphemeral :: "'x ephemeralContainer \<Rightarrow> 'x ephemeralContainer" where
  "defaultEphemeral a = a\<lparr>EphemeralContainerCommon := defaultContainer (EphemeralContainerCommon a)\<rparr>"

definition SetObjectDefaults_PodChaperon :: "'x defaultedChaperon \<Rightarrow> 'x defaultedChaperon" where
  "SetObjectDefaults_PodChaperon obj =
     (let spec = dc_Spec obj;
          spec = spec\<lparr>ds_InitContainers := forRange defaultContainer (ds_InitContainers spec)\<rparr>;
          spec = spec\<lparr>ds_Containers := forRange defaultContainer (ds_Containers spec)\<rparr>;
          spec = spec\<lparr>ds_EphemeralContainers := forRange defaultEphemeral (ds_EphemeralContainers spec)\<rparr>
      in obj\<lparr>dc_Spec := spec\<rparr>)"

definition SetObjectDefaults_PodChaperonList :: "'x defaultedChaperonList \<Rightarrow> 'x defaultedChaperonList" where
  "SetObjectDefaults_PodChaperonList obj = obj\<lparr>dcl_Items := forRange SetObjectDefaults_PodChaperon (dcl_Items obj)\<rparr>"

text \<open>The defaulters that are registered in a scheme, by type, with their assertions; another type panics.\<close>

datatype 'x defaultable = AChaperon "'x defaultedChaperon" | AChaperonList "'x defaultedChaperonList"

type_synonym ('e, 'x) scheme = "string \<Rightarrow> ('x defaultable \<Rightarrow> ('e, 'x defaultable) io) option"

definition RegisterDefaults :: "('e, 'x) scheme \<Rightarrow> ('e, 'x) scheme" where
  "RegisterDefaults scheme =
     (let scheme = scheme(''*v1alpha1.PodChaperon'' \<mapsto> (\<lambda>obj. case obj of
            AChaperon p \<Rightarrow> ret (AChaperon (SetObjectDefaults_PodChaperon p)) | _ \<Rightarrow> panic))
      in scheme(''*v1alpha1.PodChaperonList'' \<mapsto> (\<lambda>obj. case obj of
            AChaperonList l \<Rightarrow> ret (AChaperonList (SetObjectDefaults_PodChaperonList l)) | _ \<Rightarrow> panic)))"


section \<open>What they do\<close>

lemma inPlace_map:
  "j + n \<le> length xs \<Longrightarrow> inPlace f j xs n = take j xs @ map f (take n (drop j xs)) @ drop (j + n) xs"
proof (induction n arbitrary: j xs)
  case (Suc n)
  then have j: "j < length xs" by simp
  let ?xs = "xs[j := f (xs ! j)]"
  have "inPlace f j xs (Suc n) = take (Suc j) ?xs @ map f (take n (drop (Suc j) ?xs)) @ drop (Suc j + n) ?xs"
    using Suc by simp
  moreover have "take (Suc j) ?xs = take j xs @ [f (xs ! j)]"
    using j by (simp add: take_Suc_conv_app_nth)
  moreover have "take (Suc n) (drop j xs) = xs ! j # take n (drop (Suc j) xs)"
    using j by (simp add: Cons_nth_drop_Suc [symmetric])
  ultimately show ?case by simp
qed simp

lemma forRange_map [simp]: "forRange f xs = map f xs"
  by (simp add: forRange_def inPlace_map)

text \<open>The structs with their defaults set, and a struct with the fields that have defaults left out.\<close>

definition probeSet :: "'x probe option \<Rightarrow> bool" where
  "probeSet p \<longleftrightarrow> (\<forall>probe grpc. p = Some probe \<longrightarrow> GRPC probe = Some grpc \<longrightarrow> grpc_Service grpc \<noteq> None)"

definition containerSet :: "'x containerCommon \<Rightarrow> bool" where
  "containerSet a \<longleftrightarrow> (\<forall>b \<in> set (Ports a). Protocol b \<noteq> []) \<and> probeSet (LivenessProbe a)
     \<and> probeSet (ReadinessProbe a) \<and> probeSet (StartupProbe a)"

definition chaperonSet :: "'x defaultedChaperon \<Rightarrow> bool" where
  "chaperonSet obj \<longleftrightarrow> list_all containerSet (ds_InitContainers (dc_Spec obj)) \<and> list_all containerSet (ds_Containers (dc_Spec obj))
     \<and> list_all (\<lambda>e. containerSet (EphemeralContainerCommon e)) (ds_EphemeralContainers (dc_Spec obj))"

definition erasePort :: "'x containerPort \<Rightarrow> 'x containerPort" where
  "erasePort b = (if Protocol b = [] \<or> Protocol b = ''TCP'' then b\<lparr>Protocol := []\<rparr> else b)"

definition eraseProbe :: "'x probe \<Rightarrow> 'x probe" where
  "eraseProbe p = p\<lparr>GRPC := map_option (\<lambda>g. if grpc_Service g = Some [] then g\<lparr>grpc_Service := None\<rparr> else g) (GRPC p)\<rparr>"

definition eraseContainer :: "'x containerCommon \<Rightarrow> 'x containerCommon" where
  "eraseContainer a = a\<lparr>Ports := map erasePort (Ports a), LivenessProbe := map_option eraseProbe (LivenessProbe a),
     ReadinessProbe := map_option eraseProbe (ReadinessProbe a), StartupProbe := map_option eraseProbe (StartupProbe a)\<rparr>"

definition eraseDefaults :: "'x defaultedChaperon \<Rightarrow> 'x defaultedChaperon" where
  "eraseDefaults obj = obj\<lparr>dc_Spec := (dc_Spec obj)\<lparr>
     ds_InitContainers := map eraseContainer (ds_InitContainers (dc_Spec obj)),
     ds_Containers := map eraseContainer (ds_Containers (dc_Spec obj)),
     ds_EphemeralContainers := map (\<lambda>e. e\<lparr>EphemeralContainerCommon := eraseContainer (EphemeralContainerCommon e)\<rparr>)
       (ds_EphemeralContainers (dc_Spec obj))\<rparr>\<rparr>"

lemma defaultPort_simps [simp]:
  "Protocol (defaultPort b) \<noteq> []"
  "Protocol b \<noteq> [] \<Longrightarrow> defaultPort b = b"
  "erasePort (defaultPort b) = erasePort b"
  by (simp_all add: defaultPort_def erasePort_def)

lemma defaultProbe_simps [simp]:
  "probeSet (defaultProbe p)"
  "probeSet p \<Longrightarrow> defaultProbe p = p"
  "map_option eraseProbe (defaultProbe p) = map_option eraseProbe p"
  by (auto simp: defaultProbe_def probeSet_def eraseProbe_def Let_def split: option.splits)

lemma defaultContainer_simps [simp]:
  "containerSet (defaultContainer a)"
  "containerSet a \<Longrightarrow> defaultContainer a = a"
  "eraseContainer (defaultContainer a) = eraseContainer a"
  by (simp_all add: defaultContainer_def containerSet_def eraseContainer_def Let_def map_idI comp_def)

text \<open>
  After the defaults are set every port has a protocol and every GRPC probe a service; an object in which that
  is so is left as it is, so a second run changes nothing; and with the defaults left out an object
  is the same before and after, so a protocol or a service that was given stays.
\<close>

theorem defaults_set:
  "chaperonSet (SetObjectDefaults_PodChaperon obj)
   \<and> (chaperonSet obj \<longrightarrow> SetObjectDefaults_PodChaperon obj = obj)
   \<and> SetObjectDefaults_PodChaperon (SetObjectDefaults_PodChaperon obj) = SetObjectDefaults_PodChaperon obj
   \<and> eraseDefaults (SetObjectDefaults_PodChaperon obj) = eraseDefaults obj"
proof -
  have 1: "chaperonSet (SetObjectDefaults_PodChaperon p)" for p :: "'a defaultedChaperon"
    by (simp add: chaperonSet_def SetObjectDefaults_PodChaperon_def Let_def defaultEphemeral_def list_all_iff)
  have 2: "SetObjectDefaults_PodChaperon p = p" if "chaperonSet p" for p :: "'a defaultedChaperon"
    using that
    by (simp add: chaperonSet_def SetObjectDefaults_PodChaperon_def Let_def defaultEphemeral_def list_all_iff map_idI)
  have 3: "eraseDefaults (SetObjectDefaults_PodChaperon obj) = eraseDefaults obj"
    by (simp add: eraseDefaults_def SetObjectDefaults_PodChaperon_def Let_def defaultEphemeral_def comp_def)
  show ?thesis using 1 2 3 by simp
qed

lemma defaults_of_list:
  "dcl_Items (SetObjectDefaults_PodChaperonList l) = map SetObjectDefaults_PodChaperon (dcl_Items l)
   \<and> dcl_rest (SetObjectDefaults_PodChaperonList l) = dcl_rest l"
  by (simp add: SetObjectDefaults_PodChaperonList_def)

end
