(* ===== verification/Registration.thy ===== *)
theory Registration
  imports Set_Defaults
begin

text \<open>
  How the types of the API get into a scheme (\<open>register.go\<close>, the \<open>init\<close> functions of \<open>pkg/apis\<close> and of the clientset).
  A \<open>runtime.Scheme\<close> is a parameter; a builder is the list of functions that were registered with it, and its
  \<open>AddToScheme\<close> runs them in order until one fails, as both are documented.
  \<^item> \<open>types_registered\<close>: a clientset knows every type of the API.
  \<^item> \<open>defaults_not_registered\<close>: the generated defaults of pod chaperons are in no builder, so no scheme runs them.
\<close>

section \<open>Builders\<close>

type_synonym groupVersion = "string \<times> string"

definition SchemeGroupVersion :: groupVersion where
  "SchemeGroupVersion = (''multicluster.admiralty.io'', ''v1alpha1'')"

record 's schemeOps =
  AddKnownTypes :: "groupVersion \<Rightarrow> string list \<Rightarrow> 's \<Rightarrow> 's"
  AddToGroupVersion :: "groupVersion \<Rightarrow> 's \<Rightarrow> 's"

text \<open>What a builder holds: the types given to \<open>Register\<close>, or a function of the package.\<close>

datatype 's registered = RegisteredTypes "string list" | RegisteredFunction "'s \<Rightarrow> error + 's"

type_synonym 's builder = "'s registered list"

definition apply_registered :: "'s schemeOps \<Rightarrow> 's registered \<Rightarrow> 's \<Rightarrow> error + 's" where
  "apply_registered ops r s =
     (case r of
        RegisteredTypes ts \<Rightarrow> Inr (AddToGroupVersion ops SchemeGroupVersion (AddKnownTypes ops SchemeGroupVersion ts s))
      | RegisteredFunction f \<Rightarrow> f s)"

fun AddToScheme :: "'s schemeOps \<Rightarrow> 's builder \<Rightarrow> 's \<Rightarrow> error + 's" where
  "AddToScheme ops [] s = Inr s"
| "AddToScheme ops (r # rs) s =
     (case apply_registered ops r s of Inl err \<Rightarrow> Inl err | Inr s' \<Rightarrow> AddToScheme ops rs s')"


section \<open>The init functions\<close>

definition init_clustersource :: "'s builder \<Rightarrow> 's builder" where
  "init_clustersource b = b @ [RegisteredTypes [''ClusterSource'', ''ClusterSourceList'']]"

definition init_clustersummary :: "'s builder \<Rightarrow> 's builder" where
  "init_clustersummary b = b @ [RegisteredTypes [''ClusterSummary'', ''ClusterSummaryList'']]"

definition init_clustertarget :: "'s builder \<Rightarrow> 's builder" where
  "init_clustertarget b = b @ [RegisteredTypes [''ClusterTarget'', ''ClusterTargetList'']]"

definition init_podchaperon :: "'s builder \<Rightarrow> 's builder" where
  "init_podchaperon b = b @ [RegisteredTypes [''PodChaperon'', ''PodChaperonList'']]"

definition init_source :: "'s builder \<Rightarrow> 's builder" where
  "init_source b = b @ [RegisteredTypes [''Source'', ''SourceList'']]"

definition init_target :: "'s builder \<Rightarrow> 's builder" where
  "init_target b = b @ [RegisteredTypes [''Target'', ''TargetList'']]"

definition RegisterConversions :: "'s \<Rightarrow> error + 's" where
  "RegisterConversions s = Inr s"

definition init_conversion :: "'s builder \<Rightarrow> 's builder" where
  "init_conversion b = b @ [RegisteredFunction RegisterConversions]"

text \<open>The files of the package are initialised in the order of their names.\<close>

definition SchemeBuilder :: "'s builder" where
  "SchemeBuilder = init_conversion (init_target (init_source (init_podchaperon (init_clustertarget
     (init_clustersummary (init_clustersource []))))))"

text \<open>\<open>pkg/apis\<close>: a builder of its own, which holds the \<open>AddToScheme\<close> of the package.\<close>

definition AddToSchemes :: "'s schemeOps \<Rightarrow> 's builder" where
  "AddToSchemes ops = [] @ [RegisteredFunction (AddToScheme ops SchemeBuilder)]"

definition AddToScheme_apis :: "'s schemeOps \<Rightarrow> 's \<Rightarrow> error + 's" where
  "AddToScheme_apis ops s = AddToScheme ops (AddToSchemes ops) s"

text \<open>The scheme of a clientset, and that of the fake one: an error panics.\<close>

definition localSchemeBuilder :: "'s schemeOps \<Rightarrow> 's builder" where
  "localSchemeBuilder ops = [RegisteredFunction (AddToScheme ops SchemeBuilder)]"

definition init_clientset :: "'s schemeOps \<Rightarrow> 's \<Rightarrow> ('e, 's) io" where
  "init_clientset ops NewScheme =
     (let s = AddToGroupVersion ops ([], ''v1'') NewScheme
      in case AddToScheme ops (localSchemeBuilder ops) s of Inl err \<Rightarrow> panic | Inr s' \<Rightarrow> ret s')"

definition init_fakeClientset :: "'s schemeOps \<Rightarrow> 's \<Rightarrow> ('e, 's) io" where
  "init_fakeClientset ops NewScheme =
     (let s = AddToGroupVersion ops ([], ''v1'') NewScheme
      in case AddToScheme ops (localSchemeBuilder ops) s of Inl err \<Rightarrow> panic | Inr s' \<Rightarrow> ret s')"


section \<open>What a scheme knows\<close>

text \<open>A scheme that knows what was added to it, and goes on knowing it.\<close>

definition registry :: "'s schemeOps \<Rightarrow> ('s \<Rightarrow> groupVersion \<Rightarrow> string \<Rightarrow> bool) \<Rightarrow> bool" where
  "registry ops knows \<longleftrightarrow>
     (\<forall>gv ts s t. t \<in> set ts \<longrightarrow> knows (AddKnownTypes ops gv ts s) gv t)
     \<and> (\<forall>gv gv' ts s t. knows s gv t \<longrightarrow> knows (AddKnownTypes ops gv' ts s) gv t)
     \<and> (\<forall>gv gv' s t. knows s gv t \<longrightarrow> knows (AddToGroupVersion ops gv' s) gv t)"

definition apiLists :: "string list list" where
  "apiLists = [[''ClusterSource'', ''ClusterSourceList''], [''ClusterSummary'', ''ClusterSummaryList''],
     [''ClusterTarget'', ''ClusterTargetList''], [''PodChaperon'', ''PodChaperonList''],
     [''Source'', ''SourceList''], [''Target'', ''TargetList'']]"

definition apiTypes :: "string list" where
  "apiTypes = concat apiLists"

lemmas builder_defs = SchemeBuilder_def init_conversion_def init_target_def init_source_def init_podchaperon_def
  init_clustertarget_def init_clustersummary_def init_clustersource_def apply_registered_def RegisterConversions_def

text \<open>The functions of the builder do nothing but add the types and their group and version.\<close>

fun addsOnly :: "'s schemeOps \<Rightarrow> string list list \<Rightarrow> 's \<Rightarrow> 's" where
  "addsOnly ops [] s = s"
| "addsOnly ops (ts # tss) s =
     addsOnly ops tss (AddToGroupVersion ops SchemeGroupVersion (AddKnownTypes ops SchemeGroupVersion ts s))"

lemma SchemeBuilder_adds: "AddToScheme ops SchemeBuilder s = Inr (addsOnly ops apiLists s)"
  by (simp add: builder_defs apiLists_def)

lemma addsOnly_keeps:
  assumes "registry ops knows" "knows s gv t"
  shows "knows (addsOnly ops tss s) gv t"
  using assms(2)
proof (induction tss arbitrary: s)
  case (Cons ts tss)
  have "knows (AddToGroupVersion ops SchemeGroupVersion (AddKnownTypes ops SchemeGroupVersion ts s)) gv t"
    using assms(1) Cons.prems unfolding registry_def by blast
  then show ?case using Cons.IH by simp
qed simp

lemma addsOnly_knows:
  assumes "registry ops knows" "ts \<in> set tss" "t \<in> set ts"
  shows "knows (addsOnly ops tss s) SchemeGroupVersion t"
  using assms(2)
proof (induction tss arbitrary: s)
  case (Cons ts' tss)
  show ?case
  proof (cases "ts' = ts")
    case True
    have "knows (AddToGroupVersion ops SchemeGroupVersion (AddKnownTypes ops SchemeGroupVersion ts s)) SchemeGroupVersion t"
      using assms(1,3) unfolding registry_def by blast
    then show ?thesis using True addsOnly_keeps [OF assms(1)] by simp
  qed (use Cons in simp)
qed simp

text \<open>
  Whatever scheme it starts from, the \<open>init\<close> of a clientset ends, and the scheme it leaves knows all twelve types of
  the API in their group and version; the fake clientset gets the same scheme, and so does \<open>pkg/apis\<close> with
  the scheme it is given.
\<close>

theorem types_registered:
  assumes "registry ops knows" "t \<in> set apiTypes"
  shows "\<exists>s'. init_clientset ops s h = (Ret s', h) \<and> knows s' SchemeGroupVersion t
    \<and> init_fakeClientset ops s h = (Ret s', h)"
    and "\<exists>s'. AddToScheme_apis ops s = Inr s' \<and> knows s' SchemeGroupVersion t"
proof -
  obtain ts where ts: "ts \<in> set apiLists" "t \<in> set ts" using assms(2) by (auto simp: apiTypes_def)
  have k: "knows (addsOnly ops apiLists s') SchemeGroupVersion t" for s' by (rule addsOnly_knows [OF assms(1) ts])
  show "\<exists>s'. init_clientset ops s h = (Ret s', h) \<and> knows s' SchemeGroupVersion t
    \<and> init_fakeClientset ops s h = (Ret s', h)"
    by (simp add: init_clientset_def init_fakeClientset_def localSchemeBuilder_def apply_registered_def SchemeBuilder_adds Let_def ret_def k)
  show "\<exists>s'. AddToScheme_apis ops s = Inr s' \<and> knows s' SchemeGroupVersion t"
    by (simp add: AddToScheme_apis_def AddToSchemes_def apply_registered_def SchemeBuilder_adds k)
qed

text \<open>
  The generated \<open>RegisterDefaults\<close> is in no builder.  A scheme whose defaulters only \<open>AddTypeDefaultingFunc\<close> changes, here
  the second part of a pair, has after the \<open>init\<close> of a clientset the defaulters it had before, whereas
  \<open>RegisterDefaults\<close> would have given it one for pod chaperons: no pod chaperon that is read gets its defaults.
\<close>

theorem defaults_not_registered:
  fixes s :: "'s \<times> ('e, 'x) scheme" and known :: "groupVersion \<Rightarrow> string list \<Rightarrow> 's \<Rightarrow> 's"
    and added :: "groupVersion \<Rightarrow> 's \<Rightarrow> 's"
  defines "ops \<equiv> \<lparr>AddKnownTypes = (\<lambda>gv ts (k, d). (known gv ts k, d)), AddToGroupVersion = (\<lambda>gv (k, d). (added gv k, d))\<rparr>"
  shows "\<exists>s'. init_clientset ops s h = (Ret s', h) \<and> snd s' = snd s"
    and "RegisterDefaults (snd s) ''*v1alpha1.PodChaperon'' \<noteq> None"
proof -
  have "snd (addsOnly ops tss x) = snd x" for tss x
    by (induction tss arbitrary: x) (simp_all add: ops_def case_prod_unfold)
  moreover have "snd (AddToGroupVersion ops gv x) = snd x" for gv x
    by (simp add: ops_def case_prod_unfold)
  ultimately show "\<exists>s'. init_clientset ops s h = (Ret s', h) \<and> snd s' = snd s"
    by (simp add: init_clientset_def localSchemeBuilder_def apply_registered_def SchemeBuilder_adds Let_def ret_def
        del: addsOnly.simps)
  show "RegisterDefaults (snd s) ''*v1alpha1.PodChaperon'' \<noteq> None" by (simp add: RegisterDefaults_def Let_def)
qed

end
