(* ===== verification/Target_Controller.thy ===== *)
theory Target_Controller
  imports Agent_Config Controller_Lib
begin

text \<open>
  The target controller (\<open>pkg/controllers/target/controller.go\<close>), which the restarter runs: it
  restarts the controller manager and the proxy scheduler when a target or the kubeconfig secret of
  a target changes, since both read their targets at startup only.  The listers, the indexes, the
  clock, the client and the error that a \<open>multierror.Group\<close> makes of the errors of its functions are
  parameters.  The two patches of one restart run concurrently; they touch
  different deployments and both are always sent, so they are written in the order of the slice.
\<close>

section \<open>The reconciler\<close>

datatype anySpec = AnyClusterTargetSpec clusterTargetSpec | AnyTargetSpec targetSpec

datatype restartCall = RS_PatchDeployment string string string

record targetReconciler =
  tr_clusterTargets :: "error + clusterTarget list"
  tr_targets :: "error + targetObject list"
  tr_secretLister :: "string \<Rightarrow> string \<Rightarrow> error + secret"
  installNamespace :: string
  controllerManagerDeploymentName :: string
  proxySchedulerDeploymentName :: string
  tr_Now :: "restartCall list \<Rightarrow> string"
  tr_Patch :: "restartCall list \<Rightarrow> string \<Rightarrow> string \<Rightarrow> string \<Rightarrow> error + unit"
  tr_multierror :: "error list \<Rightarrow> error"

text \<open>What the reconciler remembers; both maps are nil at first.\<close>

record targetState =
  targetSpecs :: "(string, anySpec) gomap"
  kubeconfigSecretData :: "(string, (string, string) gomap) gomap"

definition initialTargetState :: targetState where
  "initialTargetState = \<lparr>targetSpecs = None, kubeconfigSecretData = None\<rparr>"

definition indexClusterTarget :: "clusterTarget \<Rightarrow> string list" where
  "indexClusterTarget ct =
     (case ct_KubeconfigSecret (ct_Spec ct) of Some s \<Rightarrow> [cks_Namespace s @ ''/'' @ cks_Name s] | None \<Rightarrow> [])"

definition indexTarget :: "targetObject \<Rightarrow> string list" where
  "indexTarget t =
     (case tg_KubeconfigSecret (tg_Spec t) of Some s \<Rightarrow> [Namespace t @ ''/'' @ ks_Name s] | None \<Rightarrow> [])"

fun enqueueAll :: "('o \<Rightarrow> error + string) \<Rightarrow> 'o list \<Rightarrow> (string wq_call, unit) io" where
  "enqueueAll keyFunc [] = ret ()"
| "enqueueAll keyFunc (obj # objs) = bindM (EnqueueObject keyFunc obj) (\<lambda>_. enqueueAll keyFunc objs)"

datatype targetEvent =
    ClusterTargetEvent "clusterTarget notification"
  | TargetEvent "targetObject notification"
  | TargetSecretEvent "secret notification"

fun NewTargetController ::
  "(clusterTarget \<Rightarrow> error + string) \<Rightarrow> (targetObject \<Rightarrow> error + string)
     \<Rightarrow> (string \<Rightarrow> clusterTarget list option) \<Rightarrow> (string \<Rightarrow> targetObject list option)
     \<Rightarrow> targetEvent \<Rightarrow> (string wq_call, unit) io" where
  "NewTargetController ctKey tgKey ctByIndex tgByIndex (ClusterTargetEvent n) = HandleAddUpdateWith (EnqueueObject ctKey) n"
| "NewTargetController ctKey tgKey ctByIndex tgByIndex (TargetEvent n) = HandleAddUpdateWith (EnqueueObject tgKey) n"
| "NewTargetController ctKey tgKey ctByIndex tgByIndex (TargetSecretEvent n) =
     HandleAllWith (\<lambda>s. let k = Namespace s @ ''/'' @ Name s in
       bindM (must (ctByIndex k)) (\<lambda>cts.
       bindM (enqueueAll ctKey cts) (\<lambda>_.
       bindM (must (tgByIndex k)) (\<lambda>tgs. enqueueAll tgKey tgs)))) n"

text \<open>The two loops, which record the specs and the data of the secrets that exist.\<close>

type_synonym targetMaps = "(string, anySpec) fmap \<times> (string, (string, string) gomap) fmap"

definition targetKey :: "'a objmeta_scheme \<Rightarrow> string" where
  "targetKey t = Namespace t @ ''/'' @ Name t"

definition recordTarget ::
  "targetReconciler \<Rightarrow> string \<Rightarrow> anySpec \<Rightarrow> (string \<times> string) option \<Rightarrow> targetMaps \<Rightarrow> error + targetMaps" where
  "recordTarget c key spec secretRef ms =
     (case ms of (specs, datas) \<Rightarrow>
      let specs = fmupd key spec specs in
      case secretRef of
        None \<Rightarrow> Inr (specs, datas)
      | Some (ns, name) \<Rightarrow>
          (case tr_secretLister c ns name of
             Inl err \<Rightarrow> if \<not> IsNotFound err then Inl err else Inr (specs, datas)
           | Inr s \<Rightarrow> Inr (specs, fmupd key (secret_Data s) datas)))"

fun recordClusterTargets :: "targetReconciler \<Rightarrow> clusterTarget list \<Rightarrow> targetMaps \<Rightarrow> error + targetMaps" where
  "recordClusterTargets c [] ms = Inr ms"
| "recordClusterTargets c (t # ts) ms =
     (case recordTarget c (targetKey t) (AnyClusterTargetSpec (ct_Spec t))
         (map_option (\<lambda>s. (cks_Namespace s, cks_Name s)) (ct_KubeconfigSecret (ct_Spec t))) ms of
        Inl err \<Rightarrow> Inl err
      | Inr ms \<Rightarrow> recordClusterTargets c ts ms)"

fun recordTargets :: "targetReconciler \<Rightarrow> targetObject list \<Rightarrow> targetMaps \<Rightarrow> error + targetMaps" where
  "recordTargets c [] ms = Inr ms"
| "recordTargets c (t # ts) ms =
     (case recordTarget c (targetKey t) (AnyTargetSpec (tg_Spec t))
         (map_option (\<lambda>s. (Namespace t, ks_Name s)) (tg_KubeconfigSecret (tg_Spec t))) ms of
        Inl err \<Rightarrow> Inl err
      | Inr ms \<Rightarrow> recordTargets c ts ms)"

definition snapshot :: "targetReconciler \<Rightarrow> error + targetMaps" where
  "snapshot c =
     (case tr_clusterTargets c of
        Inl err \<Rightarrow> Inl err
      | Inr clusterTargets \<Rightarrow>
          (case tr_targets c of
             Inl err \<Rightarrow> Inl err
           | Inr targets \<Rightarrow>
               (case recordClusterTargets c clusterTargets (fmempty, fmempty) of
                  Inl err \<Rightarrow> Inl err
                | Inr ms \<Rightarrow> recordTargets c targets ms)))"

definition restartPatch :: "string \<Rightarrow> string" where
  "restartPatch now = ''{\"spec\":{\"template\":{\"metadata\":{\"annotations\":{\"'' @ AnnotationKeyRestartedAt @ ''\":\"''
     @ now @ ''\"}}}}}''"

definition patchDeployment :: "targetReconciler \<Rightarrow> string \<Rightarrow> (restartCall, error + unit) io" where
  "patchDeployment c deployName = (\<lambda>h.
     let p = restartPatch (tr_Now c h)
     in call (\<lambda>h. tr_Patch c h (installNamespace c) deployName p) (RS_PatchDeployment (installNamespace c) deployName p) h)"

text \<open>What \<open>g.Wait()\<close> collects: the errors of the functions of the group, nil when there is none.\<close>

fun errorsOf :: "(error + unit) list \<Rightarrow> error list" where
  "errorsOf [] = []"
| "errorsOf (Inl err # rs) = err # errorsOf rs"
| "errorsOf (Inr _ # rs) = errorsOf rs"

definition Handle_target :: "targetReconciler \<Rightarrow> targetState \<Rightarrow> (restartCall, targetState) io" where
  "Handle_target c st =
     (case snapshot c of
        Inl err \<Rightarrow> fail err
      | Inr (specs, datas) \<Rightarrow>
          if targetSpecs st \<noteq> Some specs \<or> kubeconfigSecretData st \<noteq> Some datas
          then bindM (patchDeployment c (controllerManagerDeploymentName c)) (\<lambda>r1.
               bindM (patchDeployment c (proxySchedulerDeploymentName c)) (\<lambda>r2.
               case errorsOf [r1, r2] of
                 err # errs \<Rightarrow> fail (tr_multierror c (err # errs))
               | [] \<Rightarrow> ret (st\<lparr>targetSpecs := Some specs, kubeconfigSecretData := Some datas\<rparr>)))
          else ret st)"

text \<open>The controller is not told of a deleted target.\<close>

lemma target_deletion_ignored:
  "NewTargetController ctKey tgKey ctByIndex tgByIndex (TargetEvent (Deleted t)) = ret ()"
  by simp


section \<open>Snapshots\<close>

text \<open>
  What the reconciler watches, read off the listers: every target under its key, with its spec and, if its
  kubeconfig secret exists, the data of that secret.
\<close>

type_synonym watchedTarget = "string \<times> anySpec \<times> (string \<times> string) option"

definition listedTargets :: "targetReconciler \<Rightarrow> watchedTarget list" where
  "listedTargets c =
     (case (tr_clusterTargets c, tr_targets c) of
        (Inr cts, Inr ts) \<Rightarrow>
          map (\<lambda>t. (targetKey t, AnyClusterTargetSpec (ct_Spec t),
            map_option (\<lambda>s. (cks_Namespace s, cks_Name s)) (ct_KubeconfigSecret (ct_Spec t)))) cts
          @ map (\<lambda>t. (targetKey t, AnyTargetSpec (tg_Spec t),
            map_option (\<lambda>s. (Namespace t, ks_Name s)) (tg_KubeconfigSecret (tg_Spec t)))) ts
      | _ \<Rightarrow> [])"

definition secretOf :: "targetReconciler \<Rightarrow> (string \<times> string) option \<Rightarrow> (string, string) gomap option" where
  "secretOf c ref =
     (case ref of
        None \<Rightarrow> None
      | Some (ns, name) \<Rightarrow> (case tr_secretLister c ns name of Inl _ \<Rightarrow> None | Inr s \<Rightarrow> Some (secret_Data s)))"

definition watched :: "targetReconciler \<Rightarrow> (string \<times> anySpec \<times> (string, string) gomap option) set" where
  "watched c = (\<lambda>(key, spec, ref). (key, spec, secretOf c ref)) ` set (listedTargets c)"

text \<open>Cluster targets and targets are recorded the same way, one after the other.\<close>

fun recordAll :: "targetReconciler \<Rightarrow> watchedTarget list \<Rightarrow> targetMaps \<Rightarrow> error + targetMaps" where
  "recordAll c [] ms = Inr ms"
| "recordAll c ((key, spec, ref) # ts) ms =
     (case recordTarget c key spec ref ms of Inl err \<Rightarrow> Inl err | Inr ms \<Rightarrow> recordAll c ts ms)"

lemma recordAll_append:
  "recordAll c (xs @ ys) ms = (case recordAll c xs ms of Inl err \<Rightarrow> Inl err | Inr ms \<Rightarrow> recordAll c ys ms)"
  by (induction c xs ms rule: recordAll.induct) (auto split: sum.split)

lemma recordClusterTargets_all:
  "recordClusterTargets c ts ms = recordAll c (map (\<lambda>t. (targetKey t, AnyClusterTargetSpec (ct_Spec t),
     map_option (\<lambda>s. (cks_Namespace s, cks_Name s)) (ct_KubeconfigSecret (ct_Spec t)))) ts) ms"
  by (induction ts arbitrary: ms) (auto split: sum.split)

lemma recordTargets_all:
  "recordTargets c ts ms = recordAll c (map (\<lambda>t. (targetKey t, AnyTargetSpec (tg_Spec t),
     map_option (\<lambda>s. (Namespace t, ks_Name s)) (tg_KubeconfigSecret (tg_Spec t)))) ts) ms"
  by (induction ts arbitrary: ms) (auto split: sum.split)

lemma snapshot_all: "snapshot c = Inr ms \<Longrightarrow> recordAll c (listedTargets c) (fmempty, fmempty) = Inr ms"
  by (auto simp: snapshot_def listedTargets_def recordAll_append recordClusterTargets_all recordTargets_all split: sum.splits)

text \<open>Recording targets with keys of their own, each of them is found under its key, and nothing else.\<close>

lemma recordTarget_maps:
  "recordTarget c key spec ref ms = Inr ms' \<Longrightarrow> fst ms' = fmupd key spec (fst ms)
     \<and> fmlookup (snd ms') k = (if k = key \<and> secretOf c ref \<noteq> None then secretOf c ref else fmlookup (snd ms) k)"
  by (auto simp: recordTarget_def Let_def secretOf_def split: prod.splits option.splits sum.splits if_splits)

lemma recordAll_lookup:
  assumes "recordAll c xs ms = Inr ms'" "distinct (map fst xs)"
  shows "fmlookup (fst ms') k = (case map_of xs k of Some (spec, ref) \<Rightarrow> Some spec | None \<Rightarrow> fmlookup (fst ms) k)
    \<and> fmlookup (snd ms') k = (case map_of xs k of
        Some (spec, ref) \<Rightarrow> (if secretOf c ref = None then fmlookup (snd ms) k else secretOf c ref)
      | None \<Rightarrow> fmlookup (snd ms) k)"
  using assms
proof (induction c xs ms rule: recordAll.induct)
  case (2 c key spec ref ts ms)
  then obtain ms1 where r: "recordTarget c key spec ref ms = Inr ms1" "recordAll c ts ms1 = Inr ms'"
    by (auto split: sum.splits)
  have "map_of ts key = None" using 2(3) by (simp add: map_of_eq_None_iff)
  with 2(1) [OF r] 2(3) recordTarget_maps [OF r(1), of k] show ?case
    by (cases "k = key"; cases "map_of ts k") auto
qed simp

definition uniqueKeys :: "targetReconciler \<Rightarrow> bool" where
  "uniqueKeys c \<longleftrightarrow> distinct (map fst (listedTargets c))"

lemma snapshot_lookup:
  assumes "snapshot c = Inr ms" "uniqueKeys c"
  shows "(k, spec, d) \<in> watched c \<longleftrightarrow> fmlookup (fst ms) k = Some spec \<and> fmlookup (snd ms) k = d"
    and "fmlookup (fst ms) k = None \<Longrightarrow> fmlookup (snd ms) k = None"
proof -
  note l = recordAll_lookup [OF snapshot_all [OF assms(1)] assms(2) [unfolded uniqueKeys_def], of k]
  have "(k, spec, d) \<in> watched c \<longleftrightarrow> (\<exists>ref. map_of (listedTargets c) k = Some (spec, ref) \<and> d = secretOf c ref)"
    using assms(2) by (force simp: watched_def uniqueKeys_def)
  with l show "(k, spec, d) \<in> watched c \<longleftrightarrow> fmlookup (fst ms) k = Some spec \<and> fmlookup (snd ms) k = d"
    by (cases "map_of (listedTargets c) k") (auto split: if_splits)
  show "fmlookup (fst ms) k = None \<Longrightarrow> fmlookup (snd ms) k = None"
    using l by (auto split: option.splits prod.splits)
qed

text \<open>So the snapshot changes just when what is watched changes.\<close>

lemma snapshot_eq_iff:
  assumes "snapshot c = Inr ms" "uniqueKeys c" "snapshot c' = Inr ms'" "uniqueKeys c'"
  shows "ms = ms' \<longleftrightarrow> watched c = watched c'"
proof
  assume "ms = ms'"
  then show "watched c = watched c'"
    using snapshot_lookup(1) [OF assms(1,2)] snapshot_lookup(1) [OF assms(3,4)] by auto
next
  assume w: "watched c = watched c'"
  have same: "fmlookup (fst ms) k = fmlookup (fst ms') k \<and> fmlookup (snd ms) k = fmlookup (snd ms') k" for k
    using snapshot_lookup [OF assms(1,2), of k] snapshot_lookup [OF assms(3,4), of k] unfolding w
    by (cases "fmlookup (fst ms) k"; cases "fmlookup (fst ms') k") auto
  show "ms = ms'" by (rule prod_eqI) (rule fmap_ext, simp add: same)+
qed


section \<open>Properties\<close>

definition restarted :: "targetReconciler \<Rightarrow> restartCall list \<Rightarrow> bool" where
  "restarted c es \<longleftrightarrow> (\<exists>b1 b2. es =
     [RS_PatchDeployment (installNamespace c) (controllerManagerDeploymentName c) b1,
      RS_PatchDeployment (installNamespace c) (proxySchedulerDeploymentName c) b2])"

definition remembers :: "targetState \<Rightarrow> targetMaps \<Rightarrow> bool" where
  "remembers st ms \<longleftrightarrow> targetSpecs st = Some (fst ms) \<and> kubeconfigSecretData st = Some (snd ms)"

lemma Handle_target_idle: "snapshot c = Inr ms \<Longrightarrow> remembers st ms \<Longrightarrow> Handle_target c st h = (Ret st, h)"
  by (cases ms) (simp add: Handle_target_def remembers_def io_apply)

lemma Handle_target_restarts:
  "snapshot c = Inr ms \<Longrightarrow> \<not> remembers st ms \<Longrightarrow> restarted c (snd (Handle_target c st []))"
  by (cases ms) (simp add: Handle_target_def remembers_def patchDeployment_def restarted_def Let_def io_simps split: sum.split list.split)

lemma Handle_target_remembers:
  "snapshot c = Inr ms \<Longrightarrow> Handle_target c st h = (Ret st', h') \<Longrightarrow> remembers st' ms"
  by (cases ms)
    (auto simp: Handle_target_def remembers_def patchDeployment_def Let_def io_simps split: if_splits sum.splits list.splits)

text \<open>
  Property C16.  The deployments are restarted exactly when what they read at startup has changed.  After
  a run that returned, a second run restarts both deployments if the set of targets, the spec of one of
  them or the data of one of their kubeconfig secrets is no longer the same, a secret that came or went
  included, and otherwise makes no call; it makes none either when a lister fails.  The first run after a
  start of the restarter always restarts both, even when there is no target.  The targets that are listed
  have different names in their namespace, as in every API server.
\<close>

theorem target_restarts_on_change:
  assumes "Handle_target c st [] = (Ret st', es)" "uniqueKeys c" "uniqueKeys c'"
  shows "(case snapshot c' of
       Inl err \<Rightarrow> Handle_target c' st' [] = (Fail err, [])
     | Inr _ \<Rightarrow> if watched c' = watched c then Handle_target c' st' [] = (Ret st', [])
         else restarted c' (snd (Handle_target c' st' [])))
    \<and> restarted c (snd (Handle_target c initialTargetState []))"
proof -
  obtain ms where ms: "snapshot c = Inr ms"
    using assms(1) by (cases "snapshot c") (simp_all add: Handle_target_def io_simps)
  then have r: "remembers st' ms" using assms(1) by (rule Handle_target_remembers)
  have "case snapshot c' of
       Inl err \<Rightarrow> Handle_target c' st' [] = (Fail err, [])
     | Inr _ \<Rightarrow> if watched c' = watched c then Handle_target c' st' [] = (Ret st', [])
         else restarted c' (snd (Handle_target c' st' []))"
  proof (cases "snapshot c'")
    case (Inr ms')
    then have "remembers st' ms' \<longleftrightarrow> watched c' = watched c"
      using r snapshot_eq_iff [OF ms assms(2) Inr assms(3)] by (auto simp: remembers_def prod_eq_iff)
    then show ?thesis
      using Inr Handle_target_idle [OF Inr] Handle_target_restarts [OF Inr] by simp
  qed (simp add: Handle_target_def io_simps)
  moreover have "restarted c (snd (Handle_target c initialTargetState []))"
    using ms by (rule Handle_target_restarts) (simp add: remembers_def initialTargetState_def)
  ultimately show ?thesis ..
qed

text \<open>A target with a kubeconfig secret, and a lister that knows the secret.\<close>

definition sampleTarget :: targetObject where
  "sampleTarget = objmeta.extend (zero_meta\<lparr>Name := ''prod'', Namespace := ''team''\<rparr>)
     \<lparr>tg_Spec = \<lparr>tg_Self = False, tg_KubeconfigSecret = Some \<lparr>ks_Name = ''kube'', ks_Key = [], ks_Context = []\<rparr>,
        tg_ExcludedLabelsRegexp = None\<rparr>\<rparr>"

definition sampleTargets :: "error + secret \<Rightarrow> targetReconciler" where
  "sampleTargets s = \<lparr>tr_clusterTargets = Inr [], tr_targets = Inr [sampleTarget], tr_secretLister = (\<lambda>_ _. s),
     installNamespace = ''admiralty'', controllerManagerDeploymentName = ''manager'', proxySchedulerDeploymentName = ''scheduler'',
     tr_Now = (\<lambda>_. ''noon''), tr_Patch = (\<lambda>_ _ _ _. Inr ()), tr_multierror = hd\<rparr>"

theorem target_restarts_on_change_witness:
  "\<exists>st s s'. Handle_target (sampleTargets s) st [] = (Ret st, [])
     \<and> restarted (sampleTargets s') (snd (Handle_target (sampleTargets s') st []))"
proof -
  define s s' where "s = zero_secret\<lparr>secret_Data := Some (fmupd ''config'' ''old'' fmempty)\<rparr>"
    and "s' = zero_secret\<lparr>secret_Data := Some (fmupd ''config'' ''new'' fmempty)\<rparr>"
  let ?c = "sampleTargets (Inr s)" and ?c' = "sampleTargets (Inr s')"
  have unique: "uniqueKeys ?c" "uniqueKeys ?c'"
    by (simp_all add: uniqueKeys_def listedTargets_def sampleTargets_def)
  have snap: "\<exists>ms. snapshot ?c = Inr ms" "\<exists>ms. snapshot ?c' = Inr ms"
    by (simp_all add: snapshot_def sampleTargets_def recordTarget_def sampleTarget_def objmeta.defs)
  have "\<exists>st es. Handle_target ?c initialTargetState [] = (Ret st, es)"
    using snap(1) by (auto simp: Handle_target_def initialTargetState_def patchDeployment_def io_simps)
      (simp add: sampleTargets_def io_simps)
  then obtain st es where run: "Handle_target ?c initialTargetState [] = (Ret st, es)" by blast
  have "fmupd ''config'' ''old'' fmempty \<noteq> fmupd ''config'' ''new'' (fmempty :: (string, string) fmap)"
    by (rule notI, drule arg_cong [where f = "\<lambda>m. fmlookup m ''config''"]) simp
  then have "watched ?c' \<noteq> watched ?c"
    by (simp add: watched_def listedTargets_def sampleTargets_def secretOf_def s_def s'_def sampleTarget_def objmeta.defs)
  moreover obtain ms ms' where "snapshot ?c = Inr ms" "snapshot ?c' = Inr ms'" using snap by blast
  ultimately show ?thesis
    using target_restarts_on_change [OF run unique(1) unique(1)] target_restarts_on_change [OF run unique]
    by (intro exI [of _ st] exI [of _ "Inr s"] exI [of _ "Inr s'"]) simp
qed

end
