(* ===== verification/Commands.thy ===== *)
theory Commands
  imports Target_Controller
begin

text \<open>
  Leader election (\<open>pkg/leaderelection\<close>) and the command of the restarter (\<open>cmd/restarter\<close>); the other commands are
  in \<open>Agent_Command\<close> and \<open>Finalizer_Remover\<close>.  Configuration loading, constructors of clients and the election
  library are parameters; a client is known by its configuration.
\<close>

section \<open>Leader election\<close>

record leaderElectionConfig =
  lec_LeaseNamespace :: string
  lec_LeaseName :: string
  Identity :: string
  LeaseDuration :: nat
  RenewDeadline :: nat
  RetryPeriod :: nat
  ReleaseOnCancel :: bool
  lec_Name :: string

definition second :: nat where "second = 10 ^ 9"

text \<open>\<open>strconv.Itoa\<close> is a parameter; \<open>runOrDie\<close> gets the configuration and what to do when leading.\<close>

definition Run_leaderElection ::
  "(leaderElectionConfig \<Rightarrow> 'm \<Rightarrow> 'm) \<Rightarrow> (int \<Rightarrow> string) \<Rightarrow> string \<Rightarrow> int \<Rightarrow> string \<Rightarrow> string \<Rightarrow> 'm \<Rightarrow> 'm" where
  "Run_leaderElection runOrDie strconv_Itoa podName pid ns name onStartedLeading =
     (let i = podName;
          i = (if i = [] then strconv_Itoa pid else i)
      in runOrDie
           \<lparr>lec_LeaseNamespace = ns, lec_LeaseName = name, Identity = i, LeaseDuration = 15 * second,
            RenewDeadline = 10 * second, RetryPeriod = 2 * second, ReleaseOnCancel = True, lec_Name = name\<rparr>
           onStartedLeading)"


section \<open>The restarter\<close>

datatype commandEvent =
    CE_NewTargetController string string string string
  | CE_StartKubeFactory
  | CE_StartCustomFactory
  | CE_LeaseHeld leaderElectionConfig
  | CE_RunTargetController nat

record restarterEnv =
  re_ConfigAndNamespace :: "error + (string \<times> string)"
  re_kube :: "string \<Rightarrow> error + string"
  re_custom :: "string \<Rightarrow> error + string"
  ADMIRALTY_CONTROLLER_MANAGER_DEPLOYMENT_NAME :: string
  ADMIRALTY_PROXY_SCHEDULER_DEPLOYMENT_NAME :: string
  re_Run :: "commandEvent list \<Rightarrow> error + unit"
  re_RunOrDie :: "leaderElectionConfig \<Rightarrow> (commandEvent, unit) io \<Rightarrow> (commandEvent, unit) io"
  re_Itoa :: "int \<Rightarrow> string"
  POD_NAME :: string
  re_pid :: int

definition orPanic :: "error + 'a \<Rightarrow> ('e, 'a) io" where
  "orPanic r = (case r of Inl err \<Rightarrow> panic | Inr x \<Rightarrow> ret x)"

definition main_restarter :: "restarterEnv \<Rightarrow> bool \<Rightarrow> (commandEvent, unit) io" where
  "main_restarter e leaderElect =
     bindM (orPanic (re_ConfigAndNamespace e)) (\<lambda>(cfg, ns).
     bindM (orPanic (re_kube e cfg)) (\<lambda>k.
     bindM (orPanic (re_custom e cfg)) (\<lambda>customClient.
     bindM (emit (CE_NewTargetController k ns (ADMIRALTY_CONTROLLER_MANAGER_DEPLOYMENT_NAME e)
              (ADMIRALTY_PROXY_SCHEDULER_DEPLOYMENT_NAME e))) (\<lambda>_.
     bindM (emit CE_StartKubeFactory) (\<lambda>_.
     bindM (emit CE_StartCustomFactory) (\<lambda>_.
     let run = bindM (call (re_Run e) (CE_RunTargetController 1)) orPanic in
     if leaderElect
     then Run_leaderElection (re_RunOrDie e) (re_Itoa e) (POD_NAME e) (re_pid e) ns ''admiralty-restarter'' run
     else run))))))"


section \<open>Lemmas\<close>

text \<open>
  What the election library documents: the callback runs only while the lease of the configuration is
  held, and otherwise the library does nothing of its own that the program sees.
\<close>

definition electsLeader :: "(leaderElectionConfig \<Rightarrow> (commandEvent, unit) io \<Rightarrow> (commandEvent, unit) io) \<Rightarrow> bool" where
  "electsLeader runOrDie \<longleftrightarrow> (\<forall>c m h.
     runOrDie c m h = (Ret (), h) \<or> runOrDie c m h = m (h @ [CE_LeaseHeld c]))"

lemma orPanic_simps [io_simps]: "orPanic (Inl err) = panic" "orPanic (Inr x) = ret x"
  by (simp_all add: orPanic_def)

text \<open>
  With leader election on, the target controller runs only after the lease of the restarter, in the
  namespace of the installation, was obtained under the name of the pod; its informers were started
  before, and no error of the controller is passed over.
\<close>

theorem restarter_leads:
  assumes "electsLeader (re_RunOrDie e)" "main_restarter e True [] = (r, es)" "CE_RunTargetController n \<in> set es"
  shows "\<exists>cfg ns k c. re_ConfigAndNamespace e = Inr (cfg, ns) \<and> re_kube e cfg = Inr k
    \<and> es = [CE_NewTargetController k ns (ADMIRALTY_CONTROLLER_MANAGER_DEPLOYMENT_NAME e)
              (ADMIRALTY_PROXY_SCHEDULER_DEPLOYMENT_NAME e), CE_StartKubeFactory, CE_StartCustomFactory,
            CE_LeaseHeld c, CE_RunTargetController 1]
    \<and> lec_LeaseNamespace c = ns \<and> lec_LeaseName c = ''admiralty-restarter'' \<and> (POD_NAME e \<noteq> [] \<longrightarrow> Identity c = POD_NAME e)
    \<and> RetryPeriod c < RenewDeadline c \<and> RenewDeadline c < LeaseDuration c
    \<and> (r = Ret () \<or> r = Panic)"
proof -
  obtain cfg ns where c: "re_ConfigAndNamespace e = Inr (cfg, ns)"
    using assms(2,3) by (cases "re_ConfigAndNamespace e") (auto simp: main_restarter_def io_simps)
  obtain k where k: "re_kube e cfg = Inr k"
    using assms(2,3) c by (cases "re_kube e cfg") (auto simp: main_restarter_def io_simps)
  obtain cc where cc: "re_custom e cfg = Inr cc"
    using assms(2,3) c k by (cases "re_custom e cfg") (auto simp: main_restarter_def io_simps)
  let ?h = "[CE_NewTargetController k ns (ADMIRALTY_CONTROLLER_MANAGER_DEPLOYMENT_NAME e)
      (ADMIRALTY_PROXY_SCHEDULER_DEPLOYMENT_NAME e), CE_StartKubeFactory, CE_StartCustomFactory]"
  let ?c = "\<lparr>lec_LeaseNamespace = ns, lec_LeaseName = ''admiralty-restarter'',
      Identity = (if POD_NAME e = [] then re_Itoa e (re_pid e) else POD_NAME e), LeaseDuration = 15 * second,
      RenewDeadline = 10 * second, RetryPeriod = 2 * second, ReleaseOnCancel = True, lec_Name = ''admiralty-restarter''\<rparr>"
  let ?run = "bindM (call (re_Run e) (CE_RunTargetController 1)) orPanic"
  have m: "main_restarter e True [] = re_RunOrDie e ?c ?run ?h"
    using c k cc by (simp add: main_restarter_def Run_leaderElection_def Let_def io_simps emit_def)
  have "re_RunOrDie e ?c ?run ?h \<noteq> (Ret (), ?h)" using assms(2,3) m by auto
  then have "re_RunOrDie e ?c ?run ?h = ?run (?h @ [CE_LeaseHeld ?c])"
    using assms(1) unfolding electsLeader_def by blast
  then have es: "es = ?h @ [CE_LeaseHeld ?c, CE_RunTargetController 1]" "r = Ret () \<or> r = Panic"
    using assms(2) m by (auto simp: io_simps orPanic_def split: sum.splits)
  show ?thesis using c k es by (intro exI [of _ cfg] exI [of _ ns] exI [of _ k] exI [of _ ?c]) (simp add: second_def)
qed

end
