(* ===== verification/Agent_Command.thy ===== *)
theory Agent_Command
  imports Agent_Wiring Commands
begin

text \<open>
  The commands of the agent and of the scheduler as they are run (\<open>cmd/agent/main.go\<close>, \<open>cmd/scheduler/main.go\<close>): flags,
  logging, the configuration, the manager of the webhook and leader election around what \<open>Agent_Wiring\<close>
  starts.  What the packages outside the repository return is a parameter; an exit of the process is \<open>Fail\<close>.
\<close>

section \<open>Flags and logging\<close>

record agentOptions =
  logLevel :: string
  leaderElect :: bool

definition ParseBool :: "string \<Rightarrow> bool option" where
  "ParseBool s =
     (if s \<in> {''1'', ''t'', ''T'', ''true'', ''TRUE'', ''True''} then Some True
      else if s \<in> {''0'', ''f'', ''F'', ''false'', ''FALSE'', ''False''} then Some False
      else None)"

text \<open>
  \<open>flag.Parse\<close> hands the flags of the command line over one by one, a boolean flag without a value as \<open>true\<close>; a bad
  value or a flag that neither the program nor \<open>klog\<close> defines ends the process.
\<close>

fun parseSettings :: "(string \<Rightarrow> bool) \<Rightarrow> (string \<times> string) list \<Rightarrow> agentOptions \<Rightarrow> agentOptions option" where
  "parseSettings klogFlag [] o' = Some o'"
| "parseSettings klogFlag ((name, val) # settings) o' =
     (if name = ''log-level'' then parseSettings klogFlag settings (o'\<lparr>logLevel := val\<rparr>)
      else if name = ''leader-elect''
      then (case ParseBool val of None \<Rightarrow> None | Some b \<Rightarrow> parseSettings klogFlag settings (o'\<lparr>leaderElect := b\<rparr>))
      else if klogFlag name then parseSettings klogFlag settings o'
      else None)"

definition parseFlags :: "(string \<Rightarrow> bool) \<Rightarrow> (string \<times> string) list \<Rightarrow> agentOptions option" where
  "parseFlags klogFlag settings = parseSettings klogFlag settings \<lparr>logLevel = ''info'', leaderElect = False\<rparr>"

datatype 'lvl agentCommandEvent =
    SetLevel 'lvl
  | NewManager
  | AddReadyzCheck string
  | AgentEvent agentEvent
  | AgentLease leaderElectionConfig

record 'lvl agentCommandEnv =
  klogFlag :: "string \<Rightarrow> bool"
  ParseLevel :: "string \<Rightarrow> error + 'lvl"
  ac_configEnv :: configEnv
  ac_clusterTargets :: "clusterTarget list"
  ac_targets :: "targetObject list"
  ac_ConfigAndNamespace :: "error + (string \<times> string)"
  ac_kube :: "string \<Rightarrow> error + string"
  manager_New :: "error + unit"
  webhook_Complete :: "error + unit"
  mgr_AddReadyzCheck :: "error + unit"
  ac_agent :: agentEnv
  ac_RunOrDie :: "leaderElectionConfig \<Rightarrow> ('lvl agentCommandEvent, unit) io \<Rightarrow> ('lvl agentCommandEvent, unit) io"
  ac_Itoa :: "int \<Rightarrow> string"
  ac_podName :: string
  ac_pid :: int

definition setupLogging :: "'lvl agentCommandEnv \<Rightarrow> agentOptions \<Rightarrow> ('lvl agentCommandEvent, unit) io" where
  "setupLogging e o' =
     (if logLevel o' \<noteq> []
      then (case ParseLevel e (logLevel o') of
              Inl err \<Rightarrow> fail (Errorf (''could not parse log level: '' @ Error err))
            | Inr lvl \<Rightarrow> emit (SetLevel lvl))
      else ret ())"


section \<open>The webhook and the command\<close>

text \<open>The manager of the webhook: every error panics, and it is started in the background.\<close>

definition startWebhook_manager :: "'lvl agentCommandEnv \<Rightarrow> agentConfig \<Rightarrow> ('lvl agentCommandEvent, unit) io" where
  "startWebhook_manager e agentCfg =
     bindM (call (\<lambda>_. manager_New e) NewManager) (\<lambda>mgr.
     bindM (orPanic mgr) (\<lambda>_.
     bindM (orPanic (webhook_Complete e)) (\<lambda>_.
     bindM (call (\<lambda>_. mgr_AddReadyzCheck e) (AddReadyzCheck ''webhook-ready'')) (\<lambda>r.
     bindM (orPanic r) (\<lambda>_.
     emit (AgentEvent (StartWebhook (startWebhook agentCfg))))))))"

definition emitAll :: "'e list \<Rightarrow> ('e, unit) io" where
  "emitAll es = (\<lambda>h. (Ret (), h @ es))"

definition runControllers_command :: "'lvl agentCommandEnv \<Rightarrow> agentConfig \<Rightarrow> ('lvl agentCommandEvent, unit) io" where
  "runControllers_command e agentCfg =
     bindM (must (runControllers (ac_agent e) agentCfg)) (\<lambda>events. emitAll (map AgentEvent events))"

definition main_agentCommand :: "'lvl agentCommandEnv \<Rightarrow> (string \<times> string) list \<Rightarrow> ('lvl agentCommandEvent, unit) io" where
  "main_agentCommand e settings =
     bindM (case parseFlags (klogFlag e) settings of None \<Rightarrow> fail (Errorf ''exit status 2'') | Some o' \<Rightarrow> ret o') (\<lambda>o'.
     bindM (setupLogging e o') (\<lambda>_.
     bindM (must (NewFromCRD (ac_configEnv e) (ac_clusterTargets e) (ac_targets e))) (\<lambda>agentCfg.
     bindM (orPanic (ac_ConfigAndNamespace e)) (\<lambda>(cfg, ns).
     bindM (orPanic (ac_kube e cfg)) (\<lambda>k.
     bindM (startWebhook_manager e agentCfg) (\<lambda>_.
     bindM (emit (AgentEvent StartVirtualKubeletServers)) (\<lambda>_.
     if leaderElect o'
     then Run_leaderElection (ac_RunOrDie e) (ac_Itoa e) (ac_podName e) (ac_pid e) ns ''admiralty-controller-manager''
            (runControllers_command e agentCfg)
     else runControllers_command e agentCfg)))))))"

text \<open>The scheduler of Kubernetes with the two plugins, under their names; the result is the exit code.\<close>

definition main_scheduler :: "((string \<times> 'new) list \<Rightarrow> 'command) \<Rightarrow> 'new \<Rightarrow> 'new \<Rightarrow> ('command \<Rightarrow> int) \<Rightarrow> int" where
  "main_scheduler NewSchedulerCommand candidate_New proxy_New cli_Run =
     (let command = NewSchedulerCommand [(''candidate'', candidate_New), (''proxy'', proxy_New)];
          code = cli_Run command
      in code)"


section \<open>The command starts what the agent starts\<close>

fun agentEvents :: "'lvl agentCommandEvent list \<Rightarrow> agentEvent list" where
  "agentEvents [] = []"
| "agentEvents (AgentEvent ev # es) = ev # agentEvents es"
| "agentEvents (AgentLease c # es) = ElectLeader # agentEvents es"
| "agentEvents (SetLevel l # es) = agentEvents es"
| "agentEvents (NewManager # es) = agentEvents es"
| "agentEvents (AddReadyzCheck n # es) = agentEvents es"

text \<open>The election library runs its callback once, after it got the lease, or not at all.\<close>

definition agentElects ::
  "(leaderElectionConfig \<Rightarrow> ('lvl agentCommandEvent, unit) io \<Rightarrow> ('lvl agentCommandEvent, unit) io) \<Rightarrow> bool" where
  "agentElects runOrDie \<longleftrightarrow> (\<forall>c m h. runOrDie c m h = (Ret (), h) \<or> runOrDie c m h = m (h @ [AgentLease c]))"

lemma agentEvents_map [simp]: "agentEvents (map AgentEvent es) = es"
  by (induction es) simp_all

lemma agentEvents_append [simp]: "agentEvents (es @ es') = agentEvents es @ agentEvents es'"
  by (induction es rule: agentEvents.induct) simp_all

lemma bindM_RetE:
  assumes "bindM m f h = (Ret y, h')"
  obtains x h1 where "m h = (Ret x, h1)" "f x h1 = (Ret y, h')"
  using assms by (auto simp: bindM_def split: prod.splits outcome.splits)

lemma orPanic_Ret: "orPanic r h = (Ret x, h') \<longleftrightarrow> r = Inr x \<and> h' = h"
  by (auto simp: orPanic_def panic_def ret_def split: sum.splits)

lemma must_Ret: "must r h = (Ret x, h') \<longleftrightarrow> r = Some x \<and> h' = h"
  by (auto simp: must_def panic_def ret_def split: option.splits)

lemma setupLogging_events: "setupLogging e o' h = (Ret u, h') \<Longrightarrow> \<exists>es. h' = h @ es \<and> agentEvents es = []"
  by (auto simp: setupLogging_def emit_def call_def fail_def ret_def split: sum.splits if_splits)

lemma startWebhook_manager_events:
  "startWebhook_manager e cfg h = (Ret u, h') \<Longrightarrow>
     h' = h @ [NewManager, AddReadyzCheck ''webhook-ready'', AgentEvent (StartWebhook (startWebhook cfg))]"
  unfolding startWebhook_manager_def
  by (elim bindM_RetE) (simp add: orPanic_Ret call_def emit_def)

lemma runControllers_command_events:
  "runControllers_command e cfg h = (Ret u, h') \<Longrightarrow>
     \<exists>evs. runControllers (ac_agent e) cfg = Some evs \<and> h' = h @ map AgentEvent evs"
  unfolding runControllers_command_def by (elim bindM_RetE) (auto simp: must_Ret emitAll_def)

text \<open>
  A command that returns has started just what the agent starts for the configuration it read and the flag it
  was given, in that order, the election where the lease is obtained; with leader election on, an agent that
  never leads has started its webhook and the servers of its virtual nodes and no controller.  So
  what is shown of \<open>main_agent\<close> holds of the command, whatever its flags.
\<close>

theorem agent_command_refines:
  fixes e :: "'lvl agentCommandEnv"
  assumes "agentElects (ac_RunOrDie e)" "main_agentCommand e settings [] = (Ret u, es)"
  shows "\<exists>o' cfg. parseFlags (klogFlag e) settings = Some o'
    \<and> NewFromCRD (ac_configEnv e) (ac_clusterTargets e) (ac_targets e) = Some cfg
    \<and> (main_agent (ac_agent e) (leaderElect o') cfg = Some (agentEvents es)
       \<or> leaderElect o' \<and> agentEvents es = [StartWebhook (startWebhook cfg), StartVirtualKubeletServers])"
proof -
  from assms(2) obtain o' cfg c ns k h where o': "parseFlags (klogFlag e) settings = Some o'"
    and cfg: "NewFromCRD (ac_configEnv e) (ac_clusterTargets e) (ac_targets e) = Some cfg"
    and h: "agentEvents h = [StartWebhook (startWebhook cfg), StartVirtualKubeletServers]"
    and run: "(if leaderElect o'
       then Run_leaderElection (ac_RunOrDie e) (ac_Itoa e) (ac_podName e) (ac_pid e) ns ''admiralty-controller-manager''
            (runControllers_command e cfg)
       else runControllers_command e cfg) h = (Ret u, es)"
    unfolding main_agentCommand_def
    apply (elim bindM_RetE)
    apply (clarsimp simp: must_Ret orPanic_Ret fail_def ret_def split: option.splits prod.splits)
    apply (elim bindM_RetE)
    apply (auto simp: must_Ret orPanic_Ret emit_def call_def simp del: if_split
        dest!: setupLogging_events startWebhook_manager_events)
    subgoal premises prems by (rule prems(1) [OF refl refl _ prems(6)]) (simp add: prems(7))
    done
  have led: "main_agent (ac_agent e) (leaderElect o') cfg = Some (agentEvents es)"
    if "runControllers_command e cfg (h @ (if leaderElect o' then [AgentLease l] else [])) = (Ret u, es)" for l
    using runControllers_command_events [OF that] h by (auto simp: main_agent_def)
  show ?thesis
  proof (cases "leaderElect o'")
    case True
    then obtain l where "ac_RunOrDie e l (runControllers_command e cfg) h = (Ret u, es)"
      using run by (auto simp: Run_leaderElection_def Let_def)
    then have "es = h \<or> runControllers_command e cfg (h @ [AgentLease l]) = (Ret u, es)"
      using assms(1) unfolding agentElects_def by (metis prod.inject)
    then show ?thesis using o' cfg h led [of l] True by auto
  next
    case False
    then show ?thesis using o' cfg led run by auto
  qed
qed

end
