(* ===== verification/Spec2Isabelle.thy ===== *)
theory Spec2Isabelle
  imports Proxypod_Webhook Failure_Memory Follow_Stabilisation Feedback_Mirror Chaperon_Controller Cleanup_Controller
    Scheduling_Protocol Resources_Upstream Source_Grants Serving_Certificate
    Finalizer_Remover Cached_Reads Clientset Deep_Copy Registration Agent_Command
begin

text \<open>
  Verification of the Admiralty multicluster scheduler.

  \<^bold>\<open>The program.\<close>  A user marks a pod of a source cluster for multicluster scheduling.  The pod
  webhook turns it into a proxy pod, which keeps the submitted pod in an annotation and is scheduled to a
  virtual node, one of which stands for each target cluster.  The proxy scheduler asks every target, by
  a candidate pod chaperon in the target, whether it would take the pod; there the chaperon controller
  makes the candidate pod and the candidate scheduler reserves a node for it, but binds it only when the
  proxy scheduler allows it.  The candidate of the chosen target becomes the delegate; the feedback
  controller mirrors its status to the proxy pod and removes the other candidates.  Follow controllers
  copy config maps, secrets, services and ingresses to the targets where the pods that use them run,
  the resources controllers show the size and the labels of a target on its virtual node, the source
  controller grants the rights of a source in a target, and the cleanup and target controllers react to
  changes of the configuration.

  \<^bold>\<open>Theories and sources\<close> (Go packages under \<open>src/\<close>):

  \<^item> \<open>Go_Prelude\<close>, \<open>K8s_Objects\<close>: what the components share.  Strings are byte lists, a Go map is an
    \<open>fmap option\<close> whose \<open>None\<close> is the nil map, a range over a map is any list \<open>is_range\<close> accepts, an
    error is a record of what the program asks of it.  A handler is a computation \<open>('e, 'a) io\<close>: it runs
    against the history of its API calls and returns, fails or panics.  The API server is a function of
    the history, so a theorem for all such functions is a theorem for all answers, conflicts and
    concurrent changes included.  \<open>emits P m\<close> says that every call of \<open>m\<close> satisfies \<open>P\<close>.
  \<^item> \<open>Common_Keys\<close> (\<open>pkg/common\<close>), \<open>Name_Parts\<close> with \<open>Sha256\<close> (\<open>pkg/name\<close>), \<open>Agent_Config\<close>
    (\<open>pkg/config/agent\<close> and the target types), \<open>Controller_Lib\<close> (\<open>pkg/controller\<close>), \<open>Pod_Models\<close>
    (\<open>pkg/model\<close>), \<open>Proxypod_Webhook\<close> (\<open>pkg/webhooks/proxypod\<close>).
  \<^item> \<open>Follow_Common\<close>, \<open>Follow_ConfigMap\<close>, \<open>Follow_Secret\<close>, \<open>Follow_Service\<close>, \<open>Follow_Ingress\<close>,
    \<open>Follow_Properties\<close>, \<open>Follow_Stabilisation\<close> (\<open>pkg/controllers/follow\<close>): the four handlers share the
    locale \<open>follower\<close>; config maps, secrets and ingresses share its extensions \<open>syncing\<close> and \<open>closed_loop\<close>,
    in which the handler runs against two API servers.  Each locale is interpreted on the handlers.
  \<^item> \<open>Feedback_Controller\<close> with \<open>Feedback_Mirror\<close>, \<open>Chaperon_Controller\<close>, \<open>Cleanup_Controller\<close>,
    \<open>Source_Controller\<close> with \<open>Source_Grants\<close>, \<open>Target_Controller\<close>, \<open>Resources_Downstream\<close>, \<open>Resources_Upstream\<close>: the packages of the same names
    under \<open>pkg/controllers\<close>.
  \<^item> \<open>Scheduler_Framework\<close>, \<open>Proxy_Plugin\<close>, \<open>Candidate_Plugin\<close> (\<open>pkg/scheduler_plugins\<close>) and
    \<open>Scheduling_Protocol\<close>, the two schedulers together; \<open>Failure_Memory\<close>, the memory of the proxy scheduler and
    its lock, shared by goroutines.
  \<^item> \<open>Virtual_Kubelet\<close> (\<open>pkg/vk\<close>), \<open>Serving_Certificate\<close> (\<open>pkg/vk/csr\<close>) with \<open>Key_Usage\<close> (the copy of a
    file of cert-manager under \<open>third_party\<close>), \<open>Agent_Wiring\<close> (what \<open>cmd/agent\<close> starts), \<open>Finalizer_Remover\<close>
    (\<open>cmd/remove-finalizers\<close>), \<open>Commands\<close> (\<open>pkg/leaderelection\<close> and \<open>cmd/restarter\<close>), \<open>Agent_Command\<close>
    (flags, logging and election around \<open>Agent_Wiring\<close>, and \<open>cmd/scheduler\<close>).
  \<^item> \<open>Informer_Factory\<close> (\<open>pkg/generated/informers\<close>): the shared informers of the program's own API, their
    goroutines and their shutdown as a step relation; \<open>Listers\<close> (\<open>pkg/generated/listers\<close>); \<open>Cached_Reads\<close>, from
    a lister through the informer and the client to the API server.
  \<^item> \<open>Rest_Requests\<close>, \<open>Typed_Clients\<close>, \<open>Fake_Clients\<close>, \<open>Clientset\<close> (\<open>pkg/generated/clientset\<close>): the clients of the API
    as chains of builder calls, the fakes of the tests as actions, and how a clientset is made.
  \<^item> \<open>Go_Memory\<close>, \<open>Deep_Copy_Types\<close>, \<open>Deep_Copy\<close>, \<open>Set_Defaults\<close> and \<open>Registration\<close> (the API types of \<open>pkg/apis\<close>,
    their generated copies, their defaults and their registration in a scheme): the copies run on a memory with
    pointers, slices and maps; everywhere else values are immutable.
  \<^item> this theory: the webhook, the schedulers, the controllers and the agent composed.

  A definition has the name of the function, method or type it models, with a suffix where several
  packages use the name (\<open>Handle_feedback\<close>, \<open>Reserve_proxy\<close>); a \<open>New...\<close> function gives the reaction
  of a controller to the events of its informers.  Parts of a long handler that have names of their own
  are the blocks of the code.

  \<^bold>\<open>What is shown.\<close>
  \<^item> Safety of handlers: which calls each handler can make, whatever the servers answer
    (\<open>..._allowed_only\<close>, \<open>follow_owned_only\<close>, \<open>proxy_calls_only\<close>, \<open>source_least_privilege\<close>).
  \<^item> Progress: what a run does when the servers cooperate, and that a second run makes no call
    (\<open>..._converges\<close>, \<open>feedback_releases\<close>, \<open>chaperon_missing_protocol\<close>, \<open>target_restarts_on_change\<close>,
    \<open>upstream_reports_summary\<close>).
  \<^item> Closed loops: from any state of the two clusters a follow controller reaches agreement in two runs and
    rests (\<open>..._stabilises\<close>).  In one run the feedback controller mirrors a delegate (\<open>feedback_mirrors\<close>)
    and the source controller grants what a source asks for (\<open>source_granted\<close>).
    There the caches have caught up and the servers apply every call, as the theories write out.
  \<^item> Functional behaviour, equivalence and refinement: names and their bounds, labels and selectors, status
    filters, sums of resources, the set of failed nodes (locale \<open>failure_memory\<close>).
  \<^item> The scheduling protocol: a filter that passes a pod with reservation has seen the reservation (one that passes a
    pod without made no call), a binding of the proxy pod has seen the candidate scheduled, and a candidate is bound only after a reservation of its node.  A
    session is an inductive relation over all sequences of extension points.
  \<^item> Wiring: the agent runs the right controllers on the right caches, after these are filled, and objects
    with a finalizer keep the label by which they are found (\<open>agent_wiring\<close>, \<open>agent_start_order\<close>,
    \<open>finalizers_findable\<close>).
  \<^item> Concurrency: in any interleaving of calls, an informer is shared and runs once, and a shutdown ends with
    no goroutine left (\<open>informer_lifecycle\<close>, \<open>Shutdown_returns\<close>); the memory of failed nodes has no race but that of
    \<open>PostFilter\<close> (\<open>failure_memory_concurrent\<close>, \<open>PostFilter_races\<close>).
  \<^item> Isolation: no write through a deep copy reaches what an informer holds (\<open>deep_copies_isolate\<close>).
  \<^item> The API: the clients and the fakes of the tests make the same calls, and the clients send the options of the caller and
    ask to watch when they should (\<open>clients_agree\<close>), a lister reads what
    the cache and the server hold (\<open>lister_reads_cache\<close>, \<open>cached_reads\<close>), every type is in the scheme of a clientset
    (\<open>types_registered\<close>); the agent's command, with its flags and its election, starts what \<open>Agent_Wiring\<close> says
    (\<open>agent_command_refines\<close>).
  \<^item> Composition: the pod that runs is the pod submitted, and its logs are those of the proxy pod; webhook
    and cleanup controller agree; labels of a target can hide its virtual node.
  \<^item> Errors: panics, lost data and stuck objects that follow from the code, each with a witness.

  \<^bold>\<open>Parameters, bounds and fuel.\<close>  Code outside the repository is a parameter of the definitions:
  listers, indexers and clients, YAML and JSON codecs, regular expressions, label selectors, quantities,
  \<open>deep.Equal\<close>, clocks, \<open>wait.PollImmediateUntil\<close>.  What the code relies on is a named hypothesis
  (\<open>yaml_roundtrip\<close>, \<open>polls\<close>, \<open>is_range\<close>), and each property with a hypothesis has a witness.  The loop of
  a worker runs with fuel, one unit per item; its theorems hold for every fuel, and
  \<open>runWorker_shutdown\<close> shows that enough of it ends the loop.  The number of ticks of a poll is unknown
  and finite.  Lengths of names are the constants of \<open>pkg/name\<close>, words of SHA-256 have 32 bits,
  key usages 64 and their bytes 8.

  \<^bold>\<open>Not modelled.\<close>  Log messages and signals only call libraries; cryptography and encodings of the certificate
  request are parameters.  The lookup of proxy pods in an index that the constructor has registered is a function of
  the key, without the error for an index that is not there.  A method of the informer factory that holds its lock is one step, and a goroutine of a
  command is an event at the point where it starts.
\<close>

section \<open>From the submitted pod to the pod in the target cluster\<close>

lemma Default_not_elected:
  "mlookup (Annotations p) AnnotationKeyElect = None \<Longrightarrow> Default yaml m (PodObject p) = Inr (PodObject p)"
  by (simp add: Default_def)

lemma newPod_annotation: "mlookup (Annotations (newPod c pc)) k = mlookup (Annotations pc) k"
  by (simp add: newPod_def zero_pod_def objmeta.defs)

text \<open>
  Property C1.  The pod that runs in a target cluster is the pod the user submitted.  A pod that asks
  for multicluster scheduling goes through the webhook of the source cluster, the proxy scheduler
  makes its delegate, and the chaperon controller of the target cluster makes the pod: that pod has
  the containers, init containers, volumes and restart policy of the submitted pod, less the mounts of
  the service account of the source cluster, lives in the same namespace, keeps the user's
  annotations, and is not taken for a submitted pod again by the webhook of the target cluster.
\<close>

theorem submitted_pod_runs:
  assumes "yaml_roundtrip yaml" "mlookup (Annotations p) AnnotationKeyElect = Some e"
    and "mlookup (Annotations p) AnnotationKeySourcePodManifest = None"
    and "Default yaml m (PodObject p) = Inr (PodObject q)"
    and "MakeDelegatePod yaml compile rng q cluster = Inr d"
  shows "workload (pod_Spec (newPod c d)) = workload (removeServiceAccount (pod_Spec p))
    \<and> Namespace (newPod c d) = Namespace p
    \<and> (\<forall>k. \<not> HasPrefix k KeyPrefix \<longrightarrow> mlookup (Annotations (newPod c d)) k = mlookup (Annotations p) k)
    \<and> Default yaml' m' (PodObject (newPod c d)) = Inr (PodObject (newPod c d))"
proof -
  have src: "GetSourcePod yaml q = Inr p" using Default_recovers [OF assms(1-4)] by simp
  have ns: "Namespace q = Namespace p"
  proof -
    from Default_elected [OF assms(4,2)] obtain src r where
      r: "sourceManifest yaml p = Inr (src, r)" and "Namespace q = Namespace r" by fastforce
    moreover have "Namespace r = Namespace p"
      using arg_cong [where f = Namespace, OF sourceManifest_keeps(1) [OF r]] by simp
    ultimately show ?thesis by simp
  qed
  obtain src labels spec where "GetSourcePod yaml q = Inr src"
    and d: "d = (delegateMeta q cluster src labels)\<lparr>pc_Spec := spec\<rparr>"
    and "Priority spec = None"
      "mlookup (Annotations src) AnnotationKeyNoReservation = None \<longrightarrow> SchedulerName spec = CandidateSchedulerName"
    and work: "workload spec = workload (removeServiceAccount (pod_Spec src))"
    using assms(5) by (rule MakeDelegatePod_cases)
  then have "src = p" using src by simp
  have keys: "HasPrefix AnnotationKeyParentName KeyPrefix" "HasPrefix AnnotationKeyParentNamespace KeyPrefix"
    "HasPrefix AnnotationKeyElect KeyPrefix" "AnnotationKeyElect \<noteq> AnnotationKeyParentName"
    "AnnotationKeyElect \<noteq> AnnotationKeyParentNamespace"
    by (simp_all add: key_simps)
  have ann: "mlookup (Annotations (newPod c d)) k = mlookup (Annotations (delegateMeta q cluster p labels)) k" for k
    by (simp add: newPod_annotation d \<open>src = p\<close>)
  have "mlookup (Annotations (newPod c d)) AnnotationKeyElect = None"
    using keys by (simp add: ann delegateMeta_annotation)
  then have "Default yaml' m' (PodObject (newPod c d)) = Inr (PodObject (newPod c d))" by (rule Default_not_elected)
  moreover have "mlookup (Annotations (newPod c d)) k = mlookup (Annotations p) k" if "\<not> HasPrefix k KeyPrefix" for k
    using that keys by (auto simp: ann delegateMeta_annotation)
  moreover have "Namespace (newPod c d) = Namespace p"
    by (simp add: newPod_def d delegateMeta_def ns objmeta.defs)
  moreover have "workload (pod_Spec (newPod c d)) = workload (removeServiceAccount (pod_Spec p))"
    using work by (simp add: newPod_def d \<open>src = p\<close>)
  ultimately show ?thesis by blast
qed

theorem submitted_pod_runs_witness:
  "\<exists>q d c. Default sampleYaml (agentMutator sampleConfig) (PodObject samplePod) = Inr (PodObject q)
    \<and> MakeDelegatePod sampleYaml (\<lambda>_. Inr (\<lambda>_. False)) (\<lambda>_. []) q ''c1'' = Inr d
    \<and> Namespace (newPod c d) = ''team'' \<and> workload (pod_Spec (newPod c d)) = workload (removeServiceAccount (pod_Spec samplePod))"
proof -
  obtain q where q: "Default sampleYaml (agentMutator sampleConfig) (PodObject samplePod) = Inr (PodObject q)"
    using sample_default by blast
  have src: "GetSourcePod sampleYaml q = Inr samplePod"
    using Default_recovers [OF sample_yaml sample_pod(1,2) q] by simp
  have "Labels samplePod = None" "mget (Annotations samplePod) AnnotationNoPrefixLabelRegexp = []"
    by (simp_all add: samplePod_def zero_pod_def objmeta.defs zero_meta_def mget_def key_simps)
  then obtain d where d: "MakeDelegatePod sampleYaml (\<lambda>_. Inr (\<lambda>_. False)) (\<lambda>_. []) q ''c1'' = Inr d"
    by (auto simp: MakeDelegatePod_def src ChangeLabels_def Let_def)
  define c :: chaperonReconciler where "c = \<lparr>ch_SplitKey = (\<lambda>_. None), ch_chaperons_Get = (\<lambda>_ _. Inr d),
     ch_pods_Get = (\<lambda>_ _. Inr samplePod), time_Parse = (\<lambda>_. Inr 0), time_Since = id, time_NowRFC3339 = [], ch_deep_Equal = (=),
     IsControlledBy = (\<lambda>_ _. True), NewControllerRef = (\<lambda>_. \<lparr>or_Kind = [], or_Name = [], or_UID = [], or_Controller = None\<rparr>),
     ch_pods_Create = (\<lambda>_ _ p. Inr p), ch_Patch = (\<lambda>_ _ _ _. Inr ()), ch_UpdateStatus = (\<lambda>_ _ d. Inr d), ch_Update = (\<lambda>_ _ d. Inr d)\<rparr>"
  from submitted_pod_runs [OF sample_yaml sample_pod(1,2) q d, of c] q d show ?thesis
    by (intro exI [of _ q] exI [of _ d] exI [of _ c]) (simp add: sample_pod)
qed


section \<open>From the agent's configuration to the logs of the delegate\<close>

lemma filter_unique:
  "distinct xs \<Longrightarrow> x \<in> set xs \<Longrightarrow> P x \<Longrightarrow> \<forall>y\<in>set xs. P y \<longrightarrow> y = x \<Longrightarrow> filter P xs = [x]"
proof (induction xs)
  case (Cons y ys)
  show ?case
  proof (cases "y = x")
    case True
    with Cons.prems have "filter P ys = []"
      unfolding filter_empty_conv by (metis distinct.simps(2) list.set_intros(2))
    with True Cons.prems(3) show ?thesis by simp
  next
    case False
    with Cons.prems(4) have "\<not> P y" by (meson list.set_intros(1))
    moreover have "filter P ys = [x]"
    proof (rule Cons.IH)
      show "x \<in> set ys" using Cons.prems(2) False by simp
    qed (use Cons.prems in simp_all)
    ultimately show ?thesis by simp
  qed
qed simp

text \<open>The pod of a delegate has its proxy pod for parent.\<close>

lemma delegate_parent:
  assumes "MakeDelegatePod yaml compile rng q cluster = Inr d"
  shows "mlookup (Labels (newPod c (d\<lparr>Name := n\<rparr>))) LabelKeyParentUID = Some (UID q)"
    and "Name (newPod c (d\<lparr>Name := n\<rparr>)) = n" and "Namespace (newPod c (d\<lparr>Name := n\<rparr>)) = Namespace q"
proof -
  obtain src labels spec where d: "d = (delegateMeta q cluster src labels)\<lparr>pc_Spec := spec\<rparr>"
    using assms by (rule MakeDelegatePod_cases)
  have "LabelKeyParentUID \<noteq> LabelKeyParentClusterName" by (simp add: key_simps)
  then show "mlookup (Labels (newPod c (d\<lparr>Name := n\<rparr>))) LabelKeyParentUID = Some (UID q)"
    and "Name (newPod c (d\<lparr>Name := n\<rparr>)) = n" and "Namespace (newPod c (d\<lparr>Name := n\<rparr>)) = Namespace q"
    by (simp_all add: newPod_def d delegateMeta_def objmeta.defs)
qed

text \<open>
  Property C3.  The logs of a proxy pod are those of its delegate.  An agent that serves logs for its
  configuration is asked for those of a proxy pod bound to the virtual node of a target; in that
  target runs the pod that the chaperon controller made of the delegate of the proxy pod, under the
  name its chaperon got, and no other pod of the namespace has that parent.  Then the agent reads the
  proxy pod, finds that pod with the client of that target, and streams its logs.
\<close>

theorem logs_reach_delegate:
  assumes "startVirtualKubeletServers newForConfig cert intr setup src cfg = Some (Some p)"
    and "distinct (map VirtualNodeName cfg)" "t \<in> set cfg" "newForConfig (ClientConfig t) = Inr client"
    and "le_GetPod p h (Namespace q) (Name q) = Inr q" "NodeName (pod_Spec q) = VirtualNodeName t" "VirtualNodeName t \<noteq> []"
    and "MakeDelegatePod yaml compile rng q cluster = Inr d"
    and "distinct pods" "newPod c (d\<lparr>Name := n\<rparr>) \<in> set pods"
    and "\<And>x. x \<in> set pods \<Longrightarrow> Namespace x = Namespace q \<Longrightarrow> mlookup (Labels x) LabelKeyParentUID = Some (UID q)
        \<Longrightarrow> x = newPod c (d\<lparr>Name := n\<rparr>)"
    and "\<And>h. le_List p h client (Namespace q) (LabelKeyParentUID @ ''='' @ UID q) =
        Inr (filter (\<lambda>x. Namespace x = Namespace q \<and> mlookup (Labels x) LabelKeyParentUID = Some (UID q)) pods)"
  shows "snd (GetContainerLogs p (Namespace q) (Name q) containerName opts h) =
    h @ [LE_GetPod (Namespace q) (Name q), LE_List client (Namespace q) (LabelKeyParentUID @ ''='' @ UID q),
         LE_Logs client (Namespace q) n (logOptions containerName opts)]"
proof -
  have client: "fmlookup (TargetClients p) (VirtualNodeName t) = Some client"
    using startVirtualKubeletServers_client [OF assms(1-3)] assms(4) by auto
  have "filter (\<lambda>x. Namespace x = Namespace q \<and> mlookup (Labels x) LabelKeyParentUID = Some (UID q)) pods
      = [newPod c (d\<lparr>Name := n\<rparr>)]"
  proof (rule filter_unique [OF assms(9,10)])
    show "\<forall>x\<in>set pods. Namespace x = Namespace q \<and> mlookup (Labels x) LabelKeyParentUID = Some (UID q)
        \<longrightarrow> x = newPod c (d\<lparr>Name := n\<rparr>)"
      using assms(11) by blast
  qed (simp add: delegate_parent [OF assms(8)])
  then have "le_List p h' client (Namespace q) (LabelKeyParentUID @ ''='' @ UID q) = Inr [newPod c (d\<lparr>Name := n\<rparr>)]" for h'
    by (simp only: assms(12))
  from getTargetAndDelegatePodNames_found [OF assms(5-7) client this]
  have run: "getTargetAndDelegatePodNames p (Namespace q) (Name q) h = (Ret (VirtualNodeName t, n),
      h @ [LE_GetPod (Namespace q) (Name q), LE_List client (Namespace q) (LabelKeyParentUID @ ''='' @ UID q)])"
    unfolding delegate_parent(2) [OF assms(8)] .
  show ?thesis
    unfolding GetContainerLogs_def
      bindM_attempt_Ret [where m = "getTargetAndDelegatePodNames p (Namespace q) (Name q)", OF run]
    by (simp add: client io_simps Let_def split: sum.split)
qed

theorem logs_reach_delegate_witness:
  "\<exists>p (q :: pod) opts. UID q = ''u1'' \<and> snd (GetContainerLogs p (Namespace q) (Name q) ''main'' opts []) =
     [LE_GetPod ''team'' ''web'', LE_List ''client'' ''team'' (LabelKeyParentUID @ ''=u1''),
      LE_Logs ''client'' ''team'' ''web-x1'' (logOptions ''main'' opts)]"
proof -
  obtain q0 where q0: "Default sampleYaml (agentMutator sampleConfig) (PodObject samplePod) = Inr (PodObject q0)"
    using sample_default by blast
  define q where "q = samplePod\<lparr>Annotations := Annotations q0, pod_Spec := zero_podSpec\<lparr>NodeName := ''admiralty-team-prod''\<rparr>\<rparr>"
  have "GetSourcePod sampleYaml q0 = Inr samplePod" using Default_recovers [OF sample_yaml sample_pod(1,2) q0] by simp
  then have src: "GetSourcePod sampleYaml q = Inr samplePod" by (simp add: GetSourcePod_def q_def)
  have "Labels samplePod = None" "mget (Annotations samplePod) AnnotationNoPrefixLabelRegexp = []"
    by (simp_all add: samplePod_def zero_pod_def objmeta.defs zero_meta_def mget_def key_simps)
  then obtain d where d: "MakeDelegatePod sampleYaml (\<lambda>_. Inr (\<lambda>_. False)) (\<lambda>_. []) q ''c1'' = Inr d"
    by (auto simp: MakeDelegatePod_def src ChangeLabels_def Let_def)
  define c :: chaperonReconciler where "c = \<lparr>ch_SplitKey = (\<lambda>_. None), ch_chaperons_Get = (\<lambda>_ _. Inr d),
     ch_pods_Get = (\<lambda>_ _. Inr samplePod), time_Parse = (\<lambda>_. Inr 0), time_Since = id, time_NowRFC3339 = [], ch_deep_Equal = (=),
     IsControlledBy = (\<lambda>_ _. True), NewControllerRef = (\<lambda>_. \<lparr>or_Kind = [], or_Name = [], or_UID = [], or_Controller = None\<rparr>),
     ch_pods_Create = (\<lambda>_ _ p. Inr p), ch_Patch = (\<lambda>_ _ _ _. Inr ()), ch_UpdateStatus = (\<lambda>_ _ d. Inr d), ch_Update = (\<lambda>_ _ d. Inr d)\<rparr>"
  let ?pod = "newPod c (d\<lparr>Name := ''web-x1''\<rparr>)"
  let ?pods = "filter (\<lambda>x. Namespace x = Namespace q \<and> mlookup (Labels x) LabelKeyParentUID = Some (UID q)) [?pod]"
  define src where "src = \<lparr>TargetConfigs = fmempty, TargetClients = fmempty, le_GetPod = (\<lambda>_ _ _. Inr q),
     le_List = (\<lambda>_ _ _ _. Inr ?pods), le_Stream = (\<lambda>_ _ _ _ _. Inr ''stream''), NewSPDYExecutor = (\<lambda>_. Inr ''exec''),
     le_Exec = (\<lambda>_ _ _ _ _. Inr ())\<rparr>"
  obtain p where p: "startVirtualKubeletServers (\<lambda>_. Inr ''client'') (Inr (''cert'', ''key'')) (\<lambda>_. False) (\<lambda>_ _. Inr ()) src
      sampleConfig = Some (Some p)" and same: "le_GetPod p = le_GetPod src" "le_List p = le_List src"
    by (simp add: startVirtualKubeletServers_def sampleConfig_def Let_def)
  define t where "t = sampleConfig ! 1"
  have t: "t \<in> set sampleConfig" "VirtualNodeName t = ''admiralty-team-prod''" "distinct (map VirtualNodeName sampleConfig)"
    by (simp_all add: t_def sampleConfig_def)
  define opts where "opts = \<lparr>opt_Timestamps = False, opt_Follow = True, opt_Previous = False, opt_Tail = 0,
     opt_LimitBytes = 0, opt_SinceSeconds = 0, opt_SinceTime = 0\<rparr>"
  have q: "Namespace q = ''team''" "Name q = ''web''" "UID q = ''u1''" "NodeName (pod_Spec q) = VirtualNodeName t"
    by (simp_all add: q_def samplePod_def t(2))
  have "snd (GetContainerLogs p (Namespace q) (Name q) ''main'' opts []) =
    [] @ [LE_GetPod (Namespace q) (Name q), LE_List ''client'' (Namespace q) (LabelKeyParentUID @ ''='' @ UID q),
         LE_Logs ''client'' (Namespace q) ''web-x1'' (logOptions ''main'' opts)]"
    by (rule logs_reach_delegate [OF p t(3,1) _ _ q(4) _ d, where pods = "[?pod]" and c = c])
      (simp_all add: same src_def t(2))
  then show ?thesis by (intro exI [of _ p] exI [of _ q] exI [of _ opts]) (simp add: q)
qed


section \<open>The finalizers of the webhook and the cleanup controller\<close>

text \<open>
  Property C6.  The webhook and the cleanup controller of an agent agree: the cleanup controller finds
  nothing to remove from a pod as the webhook left it, whichever finalizers the pod had before.
\<close>

theorem webhook_agrees_with_cleanup:
  assumes "mlookup (Annotations p) AnnotationKeyElect = Some e"
    and "Default yaml (agentMutator cfg) (PodObject p) = Inr (PodObject q)"
    and "podLister r ns name = Inr q" "knownFinalizers r = knownFinalizersSet (GetKnownFinalizers cfg)"
  shows "Handle_cleanup r \<lparr>k_kind = ''Pod'', k_namespace = ns, k_name = name\<rparr> h = (Ret None, h)"
proof (rule Handle_cleanup_idle)
  show "getFinalizers r \<lparr>k_kind = ''Pod'', k_namespace = ns, k_name = name\<rparr> = Inr (Finalizers q)"
    using assms(3) by (simp add: getFinalizers_def)
  show "orphaned cfg (Finalizers q) = []"
    unfolding Default_finalizers_eq [OF assms(1,2)] by (auto simp: orphaned_def filter_empty_conv)
qed (rule assms(4))

theorem webhook_agrees_with_cleanup_witness:
  "\<exists>q r. Default sampleYaml (agentMutator sampleConfig) (PodObject samplePod) = Inr (PodObject q)
    \<and> podLister r ''team'' ''web'' = Inr q
    \<and> Handle_cleanup r \<lparr>k_kind = ''Pod'', k_namespace = ''team'', k_name = ''web''\<rparr> [] = (Ret None, [])"
proof -
  obtain q where q: "Default sampleYaml (agentMutator sampleConfig) (PodObject samplePod) = Inr (PodObject q)"
    using sample_default by blast
  define r where "r = \<lparr>podLister = (\<lambda>_ _. Inr q), serviceLister = (\<lambda>_ _. Inr zero_service),
     ingressLister = (\<lambda>_ _. Inr zero_ingress), configMapLister = (\<lambda>_ _. Inr zero_configMap),
     secretLister = (\<lambda>_ _. Inr zero_secret), cl_answer = (\<lambda>_ _. Inr ()),
     knownFinalizers = knownFinalizersSet (GetKnownFinalizers sampleConfig)\<rparr>"
  have r: "podLister r ''team'' ''web'' = Inr q" "knownFinalizers r = knownFinalizersSet (GetKnownFinalizers sampleConfig)"
    by (simp_all add: r_def)
  from webhook_agrees_with_cleanup [OF sample_pod(1) q r] q r(1) show ?thesis by blast
qed


section \<open>Labels of a target and the proxy scheduler\<close>

text \<open>
  Property C7.  One node of another virtual kubelet provider is enough to cut a target off.  When some
  node of the target cluster has a provider label other than the program's and no node has a different
  one, the summary carries that label, the upstream controller gives it to the virtual node in place of
  the program's own, and the proxy scheduler then rejects the virtual node for every pod.
\<close>

theorem foreign_provider_cuts_target_off:
  assumes "\<And>m. is_range (ds_rangeLabels ds m) m" "ds_Parse ds nonVirtual = Some sel" "ds_List ds sel = Inr nodes"
    and "n0 \<in> set nodes" "mlookup (Labels n0) LabelAndTaintKeyVirtualKubeletProvider = Some x" "x \<noteq> VirtualKubeletProviderName"
    and "\<forall>n\<in>set nodes. \<forall>w. mlookup (Labels n) LabelAndTaintKeyVirtualKubeletProvider = Some w \<longrightarrow> w = x"
    and "CS_Create s \<in> set (snd (Handle_downstream ds [])) \<or> CS_Update s \<in> set (snd (Handle_downstream ds []))"
    and "\<not> excluded up LabelAndTaintKeyVirtualKubeletProvider x" "Labels n = Some (reconcileLabels up (Labels s))"
  shows "Filter_proxy pl p n h = (Ret (Some (UnschedulableAndUnresolvable, [])), h)"
proof -
  have "upToDate ds nodes s"
    using emits_calls [OF emits_downstream [OF assms(2,3)], of "[]"] assms(8) by (auto simp: list_all_iff)
  moreover have "fmlookup (aggregateLabels ds nodes) LabelAndTaintKeyVirtualKubeletProvider = Some x"
    unfolding aggregateLabels_lookup [OF assms(1)] using assms(4,5,7) by (intro conjI bexI [of _ n0])
  ultimately have "mlookup (Labels s) LabelAndTaintKeyVirtualKubeletProvider = Some x"
    by (simp add: upToDate_def)
  then have "mget (Labels n) LabelAndTaintKeyVirtualKubeletProvider = x"
    using assms(9,10) by (simp add: mget_def reconcileLabels_lookup)
  with assms(6) show ?thesis by (simp add: Filter_proxy_def io_apply)
qed


theorem foreign_provider_cuts_target_off_witness:
  "\<exists>n. Filter_proxy (samplePlugin zero_podChaperon) zero_pod n [] = (Ret (Some (UnschedulableAndUnresolvable, [])), [])
     \<and> mlookup (Labels n) LabelAndTaintKeyVirtualKubeletProvider = Some ''azure''"
proof -
  define n0 where "n0 = sampleNode [(LabelAndTaintKeyVirtualKubeletProvider, ''azure'')] ''1''"
  define ds where "ds = sampleDownstream\<lparr>ds_List := (\<lambda>_. Inr [n0])\<rparr>"
  obtain s where run: "snd (Handle_downstream ds []) = [CS_Get singletonName, CS_Create s]"
    by (simp add: Handle_downstream_def ds_def sampleDownstream_def Let_def io_simps)
  define n where "n = zero_node\<lparr>Labels := Some (reconcileLabels (sampleUpstream zero_node) (Labels s))\<rparr>"
  have rng: "is_range (ds_rangeLabels ds m) m" for m by (simp add: ds_def sampleDownstream_def sorted_range)
  have l: "mlookup (Labels n0) LabelAndTaintKeyVirtualKubeletProvider = Some ''azure''" by (simp add: n0_def sampleNode_def)
  have parse: "ds_Parse ds nonVirtual = Some nonVirtual" "ds_List ds nonVirtual = Inr [n0]"
    by (simp_all add: ds_def sampleDownstream_def)
  have ex: "\<not> excluded (sampleUpstream zero_node) LabelAndTaintKeyVirtualKubeletProvider ''azure''"
    by (simp add: excluded_def sampleUpstream_def)
  have "Filter_proxy (samplePlugin zero_podChaperon) zero_pod n [] = (Ret (Some (UnschedulableAndUnresolvable, [])), [])"
    by (rule foreign_provider_cuts_target_off [OF rng parse _ l _ _ _ ex])
      (simp_all add: l run n_def VirtualKubeletProviderName_def)
  moreover have "mlookup (Labels n) LabelAndTaintKeyVirtualKubeletProvider = Some ''azure''"
  proof -
    have "upToDate ds [n0] s" using emits_calls [OF emits_downstream [OF parse], of "[]"] by (auto simp: run)
    moreover have "fmlookup (aggregateLabels ds [n0]) LabelAndTaintKeyVirtualKubeletProvider = Some ''azure''"
      unfolding aggregateLabels_lookup [OF rng] by (simp add: l)
    ultimately show ?thesis using ex by (simp add: n_def reconcileLabels_lookup upToDate_def)
  qed
  ultimately show ?thesis by blast
qed

end
